(* ===== verification/T7xx_Prelude.thy ===== *)
theory T7xx_Prelude
  imports Main "HOL-Library.Word" "HOL-Library.State_Monad"
begin

text \<open>
  What every theory of the development shares: the integer types of the driver, the
  kernel's bit-field macros, error numbers, the state monad the driver's functions are
  written in, and the collections of rewrite rules that execute them.

  A driver function is a value of type \<open>('s, 'a) state\<close> of HOL-Library.State_Monad: it
  takes the state of the driver and of the outside world and gives its C return value and
  the state it leaves. The body of a function is a \<open>do\<close> block with one line per C
  statement. A function that returns 0 or a negative error number returns
  \<open>errno + unit\<close>: \<open>Inl EINVAL\<close> for \<open>return -EINVAL\<close>, \<open>Inr ()\<close> for \<open>return 0\<close>, and the C
  idiom \<open>if (ret) return ret;\<close> is \<open>if isl ret then return ret else \<dots>\<close>.
\<close>

unbundle bit_operations_syntax

type_synonym u8 = "8 word"
type_synonym u16 = "16 word"
type_synonym u32 = "32 word"
type_synonym u64 = "64 word"

text \<open>A device register address (\<open>void __iomem *\<close>) and a bus address (\<open>dma_addr_t\<close>).\<close>

type_synonym iomem = u64
type_synonym dma_addr = u64

named_theorems run_simps \<open>rewrite rules that execute a function of the driver\<close>
named_theorems bits_simps \<open>bit-level characterisations of the bit-field macros\<close>
named_theorems frame_simps \<open>what a function of the driver leaves unchanged\<close>

section \<open>Error numbers\<close>

datatype errno =
    EIO | ENXIO | EAGAIN | ENOMEM | EACCES | EFAULT | EBUSY | EEXIST | ENODEV | EINVAL
  | ENODATA | ENOBUFS | ETIMEDOUT | EALREADY
  | ERRNO u64 \<comment> \<open>any other error number a kernel function may return\<close>

definition errno_of :: "u64 \<Rightarrow> errno" where
  "errno_of n =
     (if n = 5 then EIO else if n = 6 then ENXIO else if n = 11 then EAGAIN
      else if n = 12 then ENOMEM else if n = 13 then EACCES else if n = 14 then EFAULT
      else if n = 16 then EBUSY else if n = 17 then EEXIST else if n = 19 then ENODEV
      else if n = 22 then EINVAL else if n = 61 then ENODATA else if n = 105 then ENOBUFS
      else if n = 110 then ETIMEDOUT else if n = 114 then EALREADY else ERRNO n)"

text \<open>The result of a kernel function that returns 0 or a negative error number.\<close>

definition kret :: "u64 \<Rightarrow> errno + unit" where
  "kret n = (if n = 0 then Inr () else Inl (errno_of n))"

lemma isl_kret [simp]: "isl (kret n) \<longleftrightarrow> n \<noteq> 0"
  by (simp add: kret_def)

section \<open>Bit fields\<close>

text \<open>
  \<open>BIT(n)\<close>, \<open>GENMASK(h, l)\<close>, \<open>FIELD_GET\<close> and \<open>FIELD_PREP\<close> of \<open>linux/bits.h\<close> and
  \<open>linux/bitfield.h\<close>. The kernel macros take the mask and find its lowest set bit; every
  mask of the driver is a \<open>GENMASK(h, l)\<close> or a \<open>BIT(n)\<close>, so a field here is the pair of
  its highest and lowest bit.
\<close>

type_synonym field = "nat \<times> nat"

definition BIT :: "nat \<Rightarrow> 'a::len word" where
  "BIT n = push_bit n 1"

definition GENMASK :: "nat \<Rightarrow> nat \<Rightarrow> 'a::len word" where
  "GENMASK h l = push_bit l (mask (Suc h - l))"

definition FMASK :: "field \<Rightarrow> 'a::len word" where
  "FMASK f = GENMASK (fst f) (snd f)"

definition FIELD_GET :: "field \<Rightarrow> 'a::len word \<Rightarrow> 'a word" where
  "FIELD_GET f x = drop_bit (snd f) (x AND FMASK f)"

definition FIELD_PREP :: "field \<Rightarrow> 'a::len word \<Rightarrow> 'a word" where
  "FIELD_PREP f v = push_bit (snd f) v AND FMASK f"

text \<open>\<open>lower_32_bits\<close> and \<open>upper_32_bits\<close> of a 64-bit bus address.\<close>

definition lower_32_bits :: "u64 \<Rightarrow> u32" where
  "lower_32_bits a = ucast a"

definition upper_32_bits :: "u64 \<Rightarrow> u32" where
  "upper_32_bits a = ucast (drop_bit 32 a)"

lemma bit_BIT [bits_simps]: "bit (BIT n :: 'a::len word) i \<longleftrightarrow> i = n \<and> n < LENGTH('a)"
  by (auto simp: BIT_def bit_simps)

lemma bit_GENMASK [bits_simps]:
  "bit (GENMASK h l :: 'a::len word) i \<longleftrightarrow> l \<le> i \<and> i \<le> h \<and> i < LENGTH('a)"
  by (auto simp: GENMASK_def bit_simps)

lemma bit_FMASK [bits_simps]:
  "bit (FMASK f :: 'a::len word) i \<longleftrightarrow> snd f \<le> i \<and> i \<le> fst f \<and> i < LENGTH('a)"
  by (simp add: FMASK_def bits_simps)

lemma bit_FIELD_GET [bits_simps]:
  "bit (FIELD_GET f x :: 'a::len word) i \<longleftrightarrow> i + snd f \<le> fst f \<and> bit x (i + snd f)"
  by (auto simp: FIELD_GET_def bit_simps bits_simps ac_simps dest: bit_imp_le_length)

lemma bit_FIELD_PREP [bits_simps]:
  "bit (FIELD_PREP f v :: 'a::len word) i \<longleftrightarrow>
     snd f \<le> i \<and> i \<le> fst f \<and> i < LENGTH('a) \<and> bit v (i - snd f)"
  by (auto simp: FIELD_PREP_def bit_simps bits_simps)

lemma FIELD_GET_OR: "FIELD_GET f (x OR y) = FIELD_GET f x OR FIELD_GET f (y :: 'a::len word)"
  by (rule bit_word_eqI) (auto simp: bits_simps bit_simps)

text \<open>A field holds what was prepared for it, cut to the field's width.\<close>

lemma FIELD_GET_PREP:
  assumes "fst f < LENGTH('a)"
  shows "FIELD_GET f (FIELD_PREP f (v :: 'a::len word)) = take_bit (Suc (fst f) - snd f) v"
  by (rule bit_word_eqI) (use assms in \<open>auto simp: bits_simps bit_simps\<close>)

lemma FIELD_GET_PREP_other:
  assumes "fst f < snd g \<or> fst g < snd f"
  shows "FIELD_GET f (FIELD_PREP g (v :: 'a::len word)) = 0"
  by (rule bit_word_eqI) (use assms in \<open>auto simp: bits_simps bit_simps\<close>)

lemma take_bit_small:
  "unat v < 2 ^ n \<Longrightarrow> take_bit n v = (v :: 'a::len word)"
  by (simp add: word_unat_eq_iff unsigned_take_bit_eq take_bit_nat_eq_self)

lemma ucast_u64_u32 [simp]: "(ucast (ucast (v :: u32) :: u64) :: u32) = v"
  by (rule bit_word_eqI) (simp add: bit_simps)

lemma split_32_bits:
  "(ucast (upper_32_bits a) :: u64) * 2 ^ 32 + ucast (lower_32_bits a) = a"
proof -
  have "push_bit 32 (ucast (upper_32_bits a)) OR ucast (lower_32_bits a) = (a :: u64)"
    by (rule bit_word_eqI)
       (auto simp: bit_simps upper_32_bits_def lower_32_bits_def)
  moreover have "push_bit 32 (ucast (upper_32_bits a)) AND ucast (lower_32_bits a) = (0 :: u64)"
    by (rule bit_word_eqI)
       (auto simp: bit_simps upper_32_bits_def lower_32_bits_def)
  ultimately show ?thesis
    by (simp only: push_bit_eq_mult [symmetric] disjunctive_add_eq_or)
qed

section \<open>Executing functions of the driver\<close>

abbreviation return :: "'a \<Rightarrow> ('s, 'a) state" where
  "return \<equiv> State_Monad.return"

abbreviation run :: "('s, 'a) state \<Rightarrow> 's \<Rightarrow> 'a \<times> 's" where
  "run \<equiv> run_state"

text \<open>The result of a call and the state after it.\<close>

abbreviation result :: "('s, 'a) state \<Rightarrow> 's \<Rightarrow> 'a" where
  "result m s \<equiv> fst (run_state m s)"

abbreviation after :: "('s, 'a) state \<Rightarrow> 's \<Rightarrow> 's" where
  "after m s \<equiv> snd (run_state m s)"

definition gets :: "('s \<Rightarrow> 'a) \<Rightarrow> ('s, 'a) state" where
  "gets f = State (\<lambda>s. (f s, s))"

definition modify :: "('s \<Rightarrow> 's) \<Rightarrow> ('s, unit) state" where
  "modify f = State (\<lambda>s. ((), f s))"

text \<open>A C statement under an \<open>if\<close> without \<open>else\<close>.\<close>

definition c_when :: "bool \<Rightarrow> ('s, unit) state \<Rightarrow> ('s, unit) state" where
  "c_when b m = (if b then m else return ())"

text \<open>A \<open>for\<close> loop over a fixed range, without early exit.\<close>

primrec for_each :: "'b list \<Rightarrow> ('b \<Rightarrow> ('s, unit) state) \<Rightarrow> ('s, unit) state" where
  "for_each [] f = return ()"
| "for_each (x # xs) f = do { f x; for_each xs f }"

lemma run_return [run_simps]: "run (return a) s = (a, s)"
  by simp

lemma run_bind [run_simps]:
  "run (State_Monad.bind m f) s = (case run m s of (a, t) \<Rightarrow> run (f a) t)"
  by (simp add: State_Monad.bind_def)

lemma run_gets [run_simps]: "run (gets f) s = (f s, s)"
  by (simp add: gets_def)

lemma run_modify [run_simps]: "run (modify f) s = ((), f s)"
  by (simp add: modify_def)

lemma run_c_when [run_simps]: "run (c_when b m) s = (if b then run m s else ((), s))"
  by (simp add: c_when_def)

lemma run_if [run_simps]: "run (if b then m else n) s = (if b then run m s else run n s)"
  by simp

text \<open>
  A relation between states that is reflexive and transitive and holds across each round
  holds across a whole loop.
\<close>

lemma for_each_rel:
  assumes "\<And>s. R s s" and "\<And>s t u. R s t \<Longrightarrow> R t u \<Longrightarrow> R s u"
    and "\<And>x s. x \<in> set xs \<Longrightarrow> R s (after (f x) s)"
  shows "R s (after (for_each xs f) s)"
  using assms(3)
proof (induction xs arbitrary: s)
  case Nil
  then show ?case by (simp add: assms(1))
next
  case (Cons x xs)
  have "R s (after (f x) s)" by (rule Cons.prems) simp
  moreover have "R (after (f x) s) (after (for_each xs f) (after (f x) s))"
    by (rule Cons.IH) (rule Cons.prems, simp)
  ultimately show ?case
    by (simp add: run_bind split_beta) (rule assms(2))
qed

lemma for_each_inv:
  assumes "\<And>x s. x \<in> set xs \<Longrightarrow> P s \<Longrightarrow> P (after (f x) s)" and "P s"
  shows "P (after (for_each xs f) s)"
  using assms
proof (induction xs arbitrary: s)
  case Nil
  then show ?case by simp
next
  case (Cons x xs)
  have "P (after (f x) s)" by (rule Cons.prems(1)) (auto simp: Cons.prems(2))
  then have "P (after (for_each xs f) (after (f x) s))"
    by (rule Cons.IH [rotated]) (rule Cons.prems(1), simp_all)
  then show ?case by (simp add: run_bind split_beta)
qed

end
