(* ===== verification/T7xx_Io.thy ===== *)
theory T7xx_Io
  imports T7xx_Prelude
begin

text \<open>
  The outside world of the driver: the device behind its registers, and the kernel whose
  functions the driver calls.

  Both are a parameter of the model, the field \<open>env\<close>: an arbitrary function that answers
  each question of the driver (what does this register read, what does this kernel call
  return) from everything that has happened so far. What has happened is the field
  \<open>trace\<close>, every register access and kernel call in order, oldest first. A theorem for all
  \<open>env\<close> holds for every device and every behaviour of the kernel; a witness picks one, for
  instance \<open>reg_file\<close>, whose registers read back what was last written.
\<close>

section \<open>Questions, events and the trace\<close>

datatype query =
    ReadReg iomem \<comment> \<open>\<open>ioread32\<close>\<close>
  | Kernel string "u64 list" \<comment> \<open>a kernel function with a result, and its arguments\<close>

datatype ev =
    Rd iomem u32 \<comment> \<open>a register was read, with this value\<close>
  | Wr iomem u32 \<comment> \<open>a register was written\<close>
  | Ret string "u64 list" u64 \<comment> \<open>a kernel function returned this\<close>
  | Call string "u64 list" \<comment> \<open>a kernel function without a result was called\<close>

type_synonym environment = "ev list \<Rightarrow> query \<Rightarrow> u64"

record io =
  env :: environment
  trace :: "ev list"

definition emit :: "ev \<Rightarrow> 'z io_scheme \<Rightarrow> 'z io_scheme" where
  "emit e s = s\<lparr>trace := trace s @ [e]\<rparr>"

section \<open>Register access\<close>

definition ioread32 :: "iomem \<Rightarrow> ('z io_scheme, u32) state" where
  "ioread32 a = State (\<lambda>s.
     let v = ucast (env s (trace s) (ReadReg a)) in (v, emit (Rd a v) s))"

definition iowrite32 :: "u32 \<Rightarrow> iomem \<Rightarrow> ('z io_scheme, unit) state" where
  "iowrite32 v a = State (\<lambda>s. ((), emit (Wr a v) s))"

text \<open>The low half first, then the high half, as the names say.\<close>

definition iowrite64_lo_hi :: "u64 \<Rightarrow> iomem \<Rightarrow> ('z io_scheme, unit) state" where
  "iowrite64_lo_hi v a = do {
     iowrite32 (lower_32_bits v) a;
     iowrite32 (upper_32_bits v) (a + 4)
   }"

definition ioread64_lo_hi :: "iomem \<Rightarrow> ('z io_scheme, u64) state" where
  "ioread64_lo_hi a = do {
     low \<leftarrow> ioread32 a;
     high \<leftarrow> ioread32 (a + 4);
     return ((ucast high :: u64) * 2 ^ 32 + ucast low)
   }"

section \<open>Kernel calls\<close>

definition kquery :: "string \<Rightarrow> u64 list \<Rightarrow> ('z io_scheme, u64) state" where
  "kquery f args = State (\<lambda>s.
     let v = env s (trace s) (Kernel f args) in (v, emit (Ret f args v) s))"

definition kcall :: "string \<Rightarrow> u64 list \<Rightarrow> ('z io_scheme, unit) state" where
  "kcall f args = State (\<lambda>s. ((), emit (Call f args) s))"

text \<open>A kernel function that returns 0 or a negative error number.\<close>

definition kerr :: "string \<Rightarrow> u64 list \<Rightarrow> ('z io_scheme, errno + unit) state" where
  "kerr f args = do { v \<leftarrow> kquery f args; return (kret v) }"

text \<open>\<open>dma_mapping_error(a)\<close>: the one bus address that means failure.\<close>

definition dma_mapping_error :: "dma_addr \<Rightarrow> bool" where
  "dma_mapping_error a \<longleftrightarrow> a = - 1"

abbreviation dma_map_single :: "u64 \<Rightarrow> u64 \<Rightarrow> ('z io_scheme, dma_addr) state" where
  "dma_map_single p len \<equiv> kquery ''dma_map_single'' [p, len]"

abbreviation dma_unmap_single :: "dma_addr \<Rightarrow> u64 \<Rightarrow> ('z io_scheme, unit) state" where
  "dma_unmap_single a len \<equiv> kcall ''dma_unmap_single'' [a, len]"

abbreviation dev_kfree_skb :: "u64 \<Rightarrow> ('z io_scheme, unit) state" where
  "dev_kfree_skb p \<equiv> kcall ''dev_kfree_skb'' [p]"

section \<open>Polling\<close>

text \<open>
  \<open>read_poll_timeout(op, val, cond, delay, timeout)\<close> of \<open>linux/iopoll.h\<close>: it reads until
  the condition holds or the time is up, and then reads once more. How many reads fit in
  the time is the kernel's answer; the loop runs on it, so it always ends.
\<close>

primrec poll_loop ::
  "nat \<Rightarrow> ('z io_scheme, 'a) state \<Rightarrow> ('a \<Rightarrow> bool) \<Rightarrow> ('z io_scheme, errno + unit) state" where
  "poll_loop 0 op ok = do {
     v \<leftarrow> op;
     if ok v then return (Inr ()) else do {
       w \<leftarrow> op;
       return (if ok w then Inr () else Inl ETIMEDOUT)
     }
   }"
| "poll_loop (Suc n) op ok = do {
     v \<leftarrow> op;
     if ok v then return (Inr ()) else poll_loop n op ok
   }"

definition read_poll_timeout ::
  "('z io_scheme, 'a) state \<Rightarrow> ('a \<Rightarrow> bool) \<Rightarrow> u64 \<Rightarrow> u64 \<Rightarrow> ('z io_scheme, errno + unit) state"
where
  "read_poll_timeout op ok delay timeout = do {
     n \<leftarrow> kquery ''poll_rounds'' [delay, timeout];
     poll_loop (unat n) op ok
   }"

definition ioread32_poll_timeout ::
  "iomem \<Rightarrow> (u32 \<Rightarrow> bool) \<Rightarrow> u64 \<Rightarrow> u64 \<Rightarrow> ('z io_scheme, errno + unit) state" where
  "ioread32_poll_timeout a ok delay timeout = read_poll_timeout (ioread32 a) ok delay timeout"

section \<open>Executing accesses\<close>

lemma run_ioread32 [run_simps]:
  "run (ioread32 a) s =
     (let v = ucast (env s (trace s) (ReadReg a)) in (v, emit (Rd a v) s))"
  by (simp add: ioread32_def)

lemma run_iowrite32 [run_simps]: "run (iowrite32 v a) s = ((), emit (Wr a v) s)"
  by (simp add: iowrite32_def)

lemma run_kquery [run_simps]:
  "run (kquery f args) s =
     (let v = env s (trace s) (Kernel f args) in (v, emit (Ret f args v) s))"
  by (simp add: kquery_def)

lemma run_kcall [run_simps]: "run (kcall f args) s = ((), emit (Call f args) s)"
  by (simp add: kcall_def)

lemma run_kerr [run_simps]:
  "run (kerr f args) s = (kret (result (kquery f args) s), after (kquery f args) s)"
  by (simp add: kerr_def run_simps Let_def)

lemma run_iowrite64_lo_hi [run_simps]:
  "run (iowrite64_lo_hi v a) s =
     ((), emit (Wr (a + 4) (upper_32_bits v)) (emit (Wr a (lower_32_bits v)) s))"
  by (simp add: iowrite64_lo_hi_def run_simps)

lemma trace_emit [simp]: "trace (emit e s) = trace s @ [e]"
  by (simp add: emit_def)

lemma env_emit [simp]: "env (emit e s) = env s"
  by (simp add: emit_def)

lemma more_emit [simp]: "io.more (emit e s) = io.more s"
  by (simp add: emit_def)

section \<open>The history is never rewritten\<close>

text \<open>
  An operation is \<open>recorded\<close> when it leaves the environment alone and only adds to the
  trace. The rules of the collection \<open>recorded_intros\<close> take a function apart along its
  \<open>do\<close> block.
\<close>

named_theorems recorded_intros \<open>operations that only add to the trace\<close>

definition recorded :: "('z io_scheme, 'a) state \<Rightarrow> bool" where
  "recorded m \<longleftrightarrow>
     (\<forall>s. env (after m s) = env s \<and> (\<exists>es. trace (after m s) = trace s @ es))"

lemma recorded_env: "recorded m \<Longrightarrow> env (after m s) = env s"
  by (simp add: recorded_def)

lemma recorded_trace: "recorded m \<Longrightarrow> \<exists>es. trace (after m s) = trace s @ es"
  by (simp add: recorded_def)

lemma recorded_return [recorded_intros]: "recorded (return a)"
  by (simp add: recorded_def)

lemma recorded_gets [recorded_intros]: "recorded (gets f)"
  by (simp add: recorded_def run_simps)

lemma recorded_bind [recorded_intros]:
  assumes "recorded m" and "\<And>a. recorded (f a)"
  shows "recorded (State_Monad.bind m f)"
  unfolding recorded_def
proof (intro allI conjI)
  fix s
  let ?t = "after m s"
  let ?u = "after (f (result m s)) ?t"
  have u: "after (State_Monad.bind m f) s = ?u"
    by (simp add: run_bind split_beta)
  show "env (after (State_Monad.bind m f) s) = env s"
    unfolding u using assms by (simp add: recorded_env)
  obtain es where "trace ?t = trace s @ es"
    using recorded_trace [OF assms(1)] by blast
  moreover obtain fs where "trace ?u = trace ?t @ fs"
    using recorded_trace [OF assms(2)] by blast
  ultimately show "\<exists>es. trace (after (State_Monad.bind m f) s) = trace s @ es"
    unfolding u by simp
qed

lemma recorded_if [recorded_intros]:
  "(b \<Longrightarrow> recorded m) \<Longrightarrow> (\<not> b \<Longrightarrow> recorded n) \<Longrightarrow> recorded (if b then m else n)"
  by simp

lemma recorded_c_when [recorded_intros]: "recorded m \<Longrightarrow> recorded (c_when b m)"
  by (simp add: recorded_def run_simps)

lemma recorded_ioread32 [recorded_intros]: "recorded (ioread32 a)"
  by (simp add: recorded_def run_simps Let_def)

lemma recorded_iowrite32 [recorded_intros]: "recorded (iowrite32 v a)"
  by (simp add: recorded_def run_simps)

lemma recorded_kquery [recorded_intros]: "recorded (kquery f args)"
  by (simp add: recorded_def run_simps Let_def)

lemma recorded_kcall [recorded_intros]: "recorded (kcall f args)"
  by (simp add: recorded_def run_simps)

lemma recorded_kerr [recorded_intros]: "recorded (kerr f args)"
  by (simp add: recorded_def run_simps Let_def)

lemma recorded_iowrite64_lo_hi [recorded_intros]: "recorded (iowrite64_lo_hi v a)"
  by (simp add: recorded_def run_simps)

lemma recorded_ioread64_lo_hi [recorded_intros]: "recorded (ioread64_lo_hi a)"
  unfolding ioread64_lo_hi_def by (intro recorded_intros)

lemma recorded_for_each [recorded_intros]:
  "(\<And>x. recorded (f x)) \<Longrightarrow> recorded (for_each xs f)"
proof (induction xs)
  case Nil
  then show ?case by (simp add: recorded_return)
next
  case (Cons x xs)
  then show ?case by (auto intro!: recorded_bind)
qed

lemma recorded_poll_loop [recorded_intros]: "recorded op \<Longrightarrow> recorded (poll_loop n op ok)"
  by (induction n) (auto intro!: recorded_intros)

lemma recorded_read_poll [recorded_intros]:
  "recorded op \<Longrightarrow> recorded (read_poll_timeout op ok d t)"
  unfolding read_poll_timeout_def by (intro recorded_intros)

lemma recorded_ioread32_poll [recorded_intros]: "recorded (ioread32_poll_timeout a ok d t)"
  unfolding ioread32_poll_timeout_def by (intro recorded_intros)

section \<open>Operations that only talk to the outside\<close>

text \<open>
  \<open>only_asks P m\<close>: \<open>m\<close> changes nothing of the driver's state, and every event it adds to the
  trace satisfies \<open>P\<close>.
\<close>

named_theorems only_asks_intros \<open>operations that leave the state of the driver alone\<close>

definition only_asks :: "(ev \<Rightarrow> bool) \<Rightarrow> ('z io_scheme, 'a) state \<Rightarrow> bool" where
  "only_asks P m \<longleftrightarrow> (\<forall>s. \<exists>es. after m s = s\<lparr>trace := trace s @ es\<rparr> \<and> list_all P es)"

lemma only_asksE:
  assumes "only_asks P m"
  obtains es where "after m s = s\<lparr>trace := trace s @ es\<rparr>" "list_all P es"
  using assms unfolding only_asks_def by blast

lemma only_asks_return [only_asks_intros]: "only_asks P (return a)"
  by (auto simp: only_asks_def intro!: exI [of _ "[]"])

lemma only_asks_gets [only_asks_intros]: "only_asks P (gets f)"
  by (auto simp: only_asks_def run_simps intro!: exI [of _ "[]"])

lemma only_asks_bind [only_asks_intros]:
  assumes "only_asks P m" and "\<And>a. only_asks P (f a)"
  shows "only_asks P (State_Monad.bind m f)"
  unfolding only_asks_def
proof
  fix s
  obtain es where es: "after m s = s\<lparr>trace := trace s @ es\<rparr>" "list_all P es"
    using assms(1) by (rule only_asksE)
  obtain fs where "after (f (result m s)) (after m s) = (after m s)\<lparr>trace := trace (after m s) @ fs\<rparr>"
      "list_all P fs"
    using assms(2) by (rule only_asksE)
  then show "\<exists>es. after (State_Monad.bind m f) s = s\<lparr>trace := trace s @ es\<rparr> \<and> list_all P es"
    using es by (intro exI [of _ "es @ fs"]) (simp add: run_bind split_beta)
qed

lemma only_asks_if [only_asks_intros]:
  "(b \<Longrightarrow> only_asks P m) \<Longrightarrow> (\<not> b \<Longrightarrow> only_asks P n) \<Longrightarrow> only_asks P (if b then m else n)"
  by simp

lemma only_asks_c_when [only_asks_intros]: "(b \<Longrightarrow> only_asks P m) \<Longrightarrow> only_asks P (c_when b m)"
  by (simp add: c_when_def only_asks_return)

lemma only_asks_kquery [only_asks_intros]: "(\<And>v. P (Ret f args v)) \<Longrightarrow> only_asks P (kquery f args)"
  by (auto simp: only_asks_def run_simps Let_def emit_def intro!: exI [of _ "[Ret f args _]"])

lemma only_asks_kcall [only_asks_intros]: "P (Call f args) \<Longrightarrow> only_asks P (kcall f args)"
  by (auto simp: only_asks_def run_simps emit_def intro!: exI [of _ "[Call f args]"])

lemma only_asks_recorded: "only_asks P m \<Longrightarrow> recorded m"
  unfolding recorded_def by (metis (no_types) io.ext_inject io.surjective io.update_convs(2) only_asksE)

section \<open>Polling ends with the condition or with a time-out\<close>

text \<open>The last value the register gave, when a poll of it succeeds, satisfies the condition.\<close>

lemma poll_loop_ok:
  assumes "result (poll_loop n (ioread32 a) ok) s = Inr ()"
  shows "\<exists>v. ok v \<and> last (trace (after (poll_loop n (ioread32 a) ok) s)) = Rd a v"
  using assms by (induction n arbitrary: s) (auto simp: run_simps Let_def split: if_splits)

lemma ioread32_poll_ok:
  assumes "result (ioread32_poll_timeout a ok d t) s = Inr ()"
  shows "\<exists>v. ok v \<and> last (trace (after (ioread32_poll_timeout a ok d t) s)) = Rd a v"
  using assms unfolding ioread32_poll_timeout_def read_poll_timeout_def
  by (auto simp: run_simps Let_def dest: poll_loop_ok)

lemma poll_loop_result: "result (poll_loop n op ok) s \<in> {Inr (), Inl ETIMEDOUT}"
  by (induction n arbitrary: s) (auto simp: run_bind split_beta)

lemma read_poll_result: "result (read_poll_timeout op ok d t) s \<in> {Inr (), Inl ETIMEDOUT}"
  unfolding read_poll_timeout_def using poll_loop_result by (simp add: run_simps Let_def)

section \<open>What a trace shows\<close>

primrec writes :: "ev list \<Rightarrow> (iomem \<times> u32) list" where
  "writes [] = []"
| "writes (e # es) = (case e of Wr a v \<Rightarrow> [(a, v)] | _ \<Rightarrow> []) @ writes es"

lemma writes_append [simp]: "writes (xs @ ys) = writes xs @ writes ys"
  by (induction xs) simp_all

primrec calls :: "string \<Rightarrow> ev list \<Rightarrow> u64 list list" where
  "calls f [] = []"
| "calls f (e # es) =
     (case e of Call g args \<Rightarrow> if g = f then [args] else [] | _ \<Rightarrow> []) @ calls f es"

lemma calls_append [simp]: "calls f (xs @ ys) = calls f xs @ calls f ys"
  by (induction xs) simp_all

text \<open>What the kernel has returned from one of its functions, with the arguments.\<close>

primrec rets :: "string \<Rightarrow> ev list \<Rightarrow> (u64 list \<times> u64) list" where
  "rets f [] = []"
| "rets f (e # es) =
     (case e of Ret g args v \<Rightarrow> if g = f then [(args, v)] else [] | _ \<Rightarrow> []) @ rets f es"

lemma rets_append [simp]: "rets f (xs @ ys) = rets f xs @ rets f ys"
  by (induction xs) simp_all

text \<open>The events after a given point.\<close>

definition since :: "'z io_scheme \<Rightarrow> 'y io_scheme \<Rightarrow> ev list" where
  "since s t = drop (length (trace s)) (trace t)"

lemma since_append: "trace t = trace s @ es \<Longrightarrow> since s t = es"
  by (simp add: since_def)

section \<open>A device whose registers keep what is written\<close>

text \<open>For the witnesses: a register reads the value last written to it, or the initial one.\<close>

primrec last_write :: "iomem \<Rightarrow> u32 \<Rightarrow> ev list \<Rightarrow> u32" where
  "last_write a v [] = v"
| "last_write a v (e # es) =
     last_write a (case e of Wr b w \<Rightarrow> if a = b then w else v | _ \<Rightarrow> v) es"

lemma last_write_append [simp]:
  "last_write a v (xs @ ys) = last_write a (last_write a v xs) ys"
  by (induction xs arbitrary: v) simp_all

definition reg_file :: "(iomem \<Rightarrow> u32) \<Rightarrow> (string \<Rightarrow> u64 list \<Rightarrow> u64) \<Rightarrow> environment" where
  "reg_file init kern h q =
     (case q of ReadReg a \<Rightarrow> ucast (last_write a (init a) h) | Kernel f args \<Rightarrow> kern f args)"

text \<open>\<open>reg s a\<close>: the value of register \<open>a\<close> of such a device.\<close>

definition keeps_writes :: "'z io_scheme \<Rightarrow> iomem \<Rightarrow> bool" where
  "keeps_writes s a \<longleftrightarrow>
     (\<exists>v. \<forall>h. env s h (ReadReg a) = ucast (last_write a v h))"

definition reg :: "'z io_scheme \<Rightarrow> iomem \<Rightarrow> u32" where
  "reg s a = ucast (env s (trace s) (ReadReg a))"

lemma keeps_writes_reg_file: "env s = reg_file init kern \<Longrightarrow> keeps_writes s a"
  by (auto simp: keeps_writes_def reg_file_def)

lemma keeps_writes_emit [simp]: "keeps_writes (emit e s) a = keeps_writes s a"
  by (simp add: keeps_writes_def)

lemma reg_write_same:
  "keeps_writes s a \<Longrightarrow> reg (emit (Wr a v) s) a = v"
  by (auto simp: keeps_writes_def reg_def)

lemma reg_write_other:
  "keeps_writes s b \<Longrightarrow> a \<noteq> b \<Longrightarrow> reg (emit (Wr a v) s) b = reg s b"
  by (auto simp: keeps_writes_def reg_def)

lemma reg_read:
  "keeps_writes s b \<Longrightarrow> reg (emit (Rd a v) s) b = reg s b"
  by (auto simp: keeps_writes_def reg_def)

lemma reg_ret:
  "keeps_writes s b \<Longrightarrow> reg (emit (Ret f args v) s) b = reg s b"
  by (auto simp: keeps_writes_def reg_def)

lemma reg_call:
  "keeps_writes s b \<Longrightarrow> reg (emit (Call f args) s) b = reg s b"
  by (auto simp: keeps_writes_def reg_def)

lemmas reg_simps = reg_write_same reg_write_other reg_read reg_ret reg_call

end
