(* ===== verification/T7xx_Reg.thy ===== *)
theory T7xx_Reg
  imports T7xx_Io
begin

text \<open>
  The registers of the device, \<open>src/t7xx_reg.h\<close>: one name per \<open>#define\<close>, in the file's
  order. A register is its address or its offset, a mask that the driver only applies as a
  whole is a 32-bit word, and a mask it gives to \<open>FIELD_GET\<close> or \<open>FIELD_PREP\<close> is the pair
  of its highest and lowest bit. An enumeration whose numbers go to the device has a
  function \<open>_val\<close> that gives them.
\<close>

section \<open>Doorbells between host and endpoint (MHCCIF)\<close>

abbreviation (input) MHCCIF_RC_DEV_BASE :: iomem where "MHCCIF_RC_DEV_BASE \<equiv> 0x10024000"
abbreviation (input) REG_RC2EP_SW_BSY :: iomem where "REG_RC2EP_SW_BSY \<equiv> 0x04"
abbreviation (input) REG_RC2EP_SW_INT_START :: iomem where "REG_RC2EP_SW_INT_START \<equiv> 0x08"
abbreviation (input) REG_RC2EP_SW_TCHNUM :: iomem where "REG_RC2EP_SW_TCHNUM \<equiv> 0x0c"
abbreviation (input) H2D_CH_EXCEPTION_ACK :: nat where "H2D_CH_EXCEPTION_ACK \<equiv> 1"
abbreviation (input) H2D_CH_EXCEPTION_CLEARQ_ACK :: nat where "H2D_CH_EXCEPTION_CLEARQ_ACK \<equiv> 2"
abbreviation (input) H2D_CH_DS_LOCK :: nat where "H2D_CH_DS_LOCK \<equiv> 3"
abbreviation (input) H2D_CH_SUSPEND_REQ :: nat where "H2D_CH_SUSPEND_REQ \<equiv> 9"
abbreviation (input) H2D_CH_RESUME_REQ :: nat where "H2D_CH_RESUME_REQ \<equiv> 10"
abbreviation (input) H2D_CH_SUSPEND_REQ_AP :: nat where "H2D_CH_SUSPEND_REQ_AP \<equiv> 11"
abbreviation (input) H2D_CH_RESUME_REQ_AP :: nat where "H2D_CH_RESUME_REQ_AP \<equiv> 12"
abbreviation (input) H2D_CH_DEVICE_RESET :: nat where "H2D_CH_DEVICE_RESET \<equiv> 13"
abbreviation (input) H2D_CH_DRM_DISABLE_AP :: nat where "H2D_CH_DRM_DISABLE_AP \<equiv> 14"
abbreviation (input) REG_EP2RC_SW_INT_STS :: iomem where "REG_EP2RC_SW_INT_STS \<equiv> 0x10"
abbreviation (input) REG_EP2RC_SW_INT_ACK :: iomem where "REG_EP2RC_SW_INT_ACK \<equiv> 0x14"
abbreviation (input) REG_EP2RC_SW_INT_EAP_MASK :: iomem where "REG_EP2RC_SW_INT_EAP_MASK \<equiv> 0x20"
abbreviation (input) REG_EP2RC_SW_INT_EAP_MASK_SET :: iomem where "REG_EP2RC_SW_INT_EAP_MASK_SET \<equiv> 0x30"
abbreviation (input) REG_EP2RC_SW_INT_EAP_MASK_CLR :: iomem where "REG_EP2RC_SW_INT_EAP_MASK_CLR \<equiv> 0x40"
abbreviation (input) D2H_INT_DS_LOCK_ACK :: u32 where "D2H_INT_DS_LOCK_ACK \<equiv> BIT 0"
abbreviation (input) D2H_INT_EXCEPTION_INIT :: u32 where "D2H_INT_EXCEPTION_INIT \<equiv> BIT 1"
abbreviation (input) D2H_INT_EXCEPTION_INIT_DONE :: u32 where "D2H_INT_EXCEPTION_INIT_DONE \<equiv> BIT 2"
abbreviation (input) D2H_INT_EXCEPTION_CLEARQ_DONE :: u32 where "D2H_INT_EXCEPTION_CLEARQ_DONE \<equiv> BIT 3"
abbreviation (input) D2H_INT_EXCEPTION_ALLQ_RESET :: u32 where "D2H_INT_EXCEPTION_ALLQ_RESET \<equiv> BIT 4"
abbreviation (input) D2H_INT_PORT_ENUM :: u32 where "D2H_INT_PORT_ENUM \<equiv> BIT 5"
abbreviation (input) D2H_INT_SUSPEND_ACK :: u32 where "D2H_INT_SUSPEND_ACK \<equiv> BIT 11"
abbreviation (input) D2H_INT_RESUME_ACK :: u32 where "D2H_INT_RESUME_ACK \<equiv> BIT 12"
abbreviation (input) D2H_INT_SUSPEND_ACK_AP :: u32 where "D2H_INT_SUSPEND_ACK_AP \<equiv> BIT 13"
abbreviation (input) D2H_INT_RESUME_ACK_AP :: u32 where "D2H_INT_RESUME_ACK_AP \<equiv> BIT 14"
abbreviation (input) D2H_INT_ASYNC_AP_HK :: u32 where "D2H_INT_ASYNC_AP_HK \<equiv> BIT 15"
abbreviation (input) D2H_INT_ASYNC_MD_HK :: u32 where "D2H_INT_ASYNC_MD_HK \<equiv> BIT 16"
section \<open>Address translation, reset unit and the PCIe MAC\<close>

abbreviation (input) INFRACFG_AO_DEV_CHIP :: iomem where "INFRACFG_AO_DEV_CHIP \<equiv> 0x10001000"
abbreviation (input) T7XX_PCIE_REG_TRSL_ADDR_CHIP :: iomem where "T7XX_PCIE_REG_TRSL_ADDR_CHIP \<equiv> 0x10000000"
abbreviation (input) T7XX_PCIE_REG_SIZE_CHIP :: iomem where "T7XX_PCIE_REG_SIZE_CHIP \<equiv> 0x00400000"
abbreviation (input) TOPRGU_CH_PCIE_IRQ_STA :: iomem where "TOPRGU_CH_PCIE_IRQ_STA \<equiv> 0x1000790c"
abbreviation (input) ATR_PORT_OFFSET :: iomem where "ATR_PORT_OFFSET \<equiv> 0x100"
abbreviation (input) ATR_TABLE_OFFSET :: iomem where "ATR_TABLE_OFFSET \<equiv> 0x20"
abbreviation (input) ATR_TABLE_NUM_PER_ATR :: nat where "ATR_TABLE_NUM_PER_ATR \<equiv> 8"
abbreviation (input) ATR_TRANSPARENT_SIZE :: u32 where "ATR_TRANSPARENT_SIZE \<equiv> 0x3f"
abbreviation (input) ISTAT_HST_CTRL :: iomem where "ISTAT_HST_CTRL \<equiv> 0x01ac"
abbreviation (input) ISTAT_HST_CTRL_DIS :: u32 where "ISTAT_HST_CTRL_DIS \<equiv> BIT 0"
abbreviation (input) T7XX_PCIE_MISC_CTRL :: iomem where "T7XX_PCIE_MISC_CTRL \<equiv> 0x0348"
abbreviation (input) T7XX_PCIE_MISC_MAC_SLEEP_DIS :: u32 where "T7XX_PCIE_MISC_MAC_SLEEP_DIS \<equiv> BIT 7"
abbreviation (input) T7XX_PCIE_CFG_MSIX :: iomem where "T7XX_PCIE_CFG_MSIX \<equiv> 0x03ec"
abbreviation (input) ATR_PCIE_WIN0_T0_ATR_PARAM_SRC_ADDR :: iomem where "ATR_PCIE_WIN0_T0_ATR_PARAM_SRC_ADDR \<equiv> 0x0600"
abbreviation (input) ATR_PCIE_WIN0_T0_TRSL_ADDR :: iomem where "ATR_PCIE_WIN0_T0_TRSL_ADDR \<equiv> 0x0608"
abbreviation (input) ATR_PCIE_WIN0_T0_TRSL_PARAM :: iomem where "ATR_PCIE_WIN0_T0_TRSL_PARAM \<equiv> 0x0610"
abbreviation (input) ATR_PCIE_WIN0_ADDR_ALGMT :: u64 where "ATR_PCIE_WIN0_ADDR_ALGMT \<equiv> GENMASK 63 12"
abbreviation (input) ATR_SRC_ADDR_INVALID :: u32 where "ATR_SRC_ADDR_INVALID \<equiv> 0x007f"
abbreviation (input) T7XX_PCIE_PM_RESUME_STATE :: iomem where "T7XX_PCIE_PM_RESUME_STATE \<equiv> 0x0d0c"

datatype t7xx_pm_resume_state =
    PM_RESUME_REG_STATE_L3
  | PM_RESUME_REG_STATE_L1
  | PM_RESUME_REG_STATE_INIT
  | PM_RESUME_REG_STATE_EXP
  | PM_RESUME_REG_STATE_L2
  | PM_RESUME_REG_STATE_L2_EXP

primrec t7xx_pm_resume_state_val :: "t7xx_pm_resume_state \<Rightarrow> u32" where
  "t7xx_pm_resume_state_val PM_RESUME_REG_STATE_L3 = 0"
| "t7xx_pm_resume_state_val PM_RESUME_REG_STATE_L1 = 1"
| "t7xx_pm_resume_state_val PM_RESUME_REG_STATE_INIT = 2"
| "t7xx_pm_resume_state_val PM_RESUME_REG_STATE_EXP = 3"
| "t7xx_pm_resume_state_val PM_RESUME_REG_STATE_L2 = 4"
| "t7xx_pm_resume_state_val PM_RESUME_REG_STATE_L2_EXP = 5"


datatype host_event_e =
    HOST_EVENT_INIT
  | FASTBOOT_DL_NOTIFY

primrec host_event_e_val :: "host_event_e \<Rightarrow> u32" where
  "host_event_e_val HOST_EVENT_INIT = 0"
| "host_event_e_val FASTBOOT_DL_NOTIFY = 3"

abbreviation (input) T7XX_PCIE_MISC_DEV_STATUS :: iomem where "T7XX_PCIE_MISC_DEV_STATUS \<equiv> 0x0d1c"
abbreviation (input) MISC_STAGE_MASK :: field where "MISC_STAGE_MASK \<equiv> (2, 0)"
abbreviation (input) MISC_RESET_TYPE_PLDR :: u32 where "MISC_RESET_TYPE_PLDR \<equiv> BIT 26"
abbreviation (input) MISC_RESET_TYPE_FLDR :: u32 where "MISC_RESET_TYPE_FLDR \<equiv> BIT 27"
abbreviation (input) MISC_LK_EVENT_MASK :: field where "MISC_LK_EVENT_MASK \<equiv> (11, 8)"
abbreviation (input) HOST_EVENT_MASK :: field where "HOST_EVENT_MASK \<equiv> (31, 28)"

datatype lk_event_id =
    LK_EVENT_NORMAL
  | LK_EVENT_CREATE_PD_PORT
  | LK_EVENT_CREATE_POST_DL_PORT
  | LK_EVENT_RESET

primrec lk_event_id_val :: "lk_event_id \<Rightarrow> u32" where
  "lk_event_id_val LK_EVENT_NORMAL = 0"
| "lk_event_id_val LK_EVENT_CREATE_PD_PORT = 1"
| "lk_event_id_val LK_EVENT_CREATE_POST_DL_PORT = 2"
| "lk_event_id_val LK_EVENT_RESET = 7"


datatype t7xx_device_stage =
    T7XX_DEV_STAGE_INIT
  | T7XX_DEV_STAGE_BROM_PRE
  | T7XX_DEV_STAGE_BROM_POST
  | T7XX_DEV_STAGE_LK
  | T7XX_DEV_STAGE_LINUX

primrec t7xx_device_stage_val :: "t7xx_device_stage \<Rightarrow> u32" where
  "t7xx_device_stage_val T7XX_DEV_STAGE_INIT = 0"
| "t7xx_device_stage_val T7XX_DEV_STAGE_BROM_PRE = 1"
| "t7xx_device_stage_val T7XX_DEV_STAGE_BROM_POST = 2"
| "t7xx_device_stage_val T7XX_DEV_STAGE_LK = 3"
| "t7xx_device_stage_val T7XX_DEV_STAGE_LINUX = 4"

abbreviation (input) T7XX_PCIE_RESOURCE_STATUS :: iomem where "T7XX_PCIE_RESOURCE_STATUS \<equiv> 0x0d28"
abbreviation (input) T7XX_PCIE_RESOURCE_STS_MSK :: u32 where "T7XX_PCIE_RESOURCE_STS_MSK \<equiv> GENMASK 4 0"
abbreviation (input) DISABLE_ASPM_LOWPWR :: iomem where "DISABLE_ASPM_LOWPWR \<equiv> 0x0e50"
abbreviation (input) ENABLE_ASPM_LOWPWR :: iomem where "ENABLE_ASPM_LOWPWR \<equiv> 0x0e54"
abbreviation (input) T7XX_L1_BIT :: "nat \<Rightarrow> u32" where "T7XX_L1_BIT i \<equiv> BIT (i * 4 + 1)"
abbreviation (input) T7XX_L1_1_BIT :: "nat \<Rightarrow> u32" where "T7XX_L1_1_BIT i \<equiv> BIT (i * 4 + 2)"
abbreviation (input) T7XX_L1_2_BIT :: "nat \<Rightarrow> u32" where "T7XX_L1_2_BIT i \<equiv> BIT (i * 4 + 3)"
abbreviation (input) MSIX_ISTAT_HST_GRP0_0 :: iomem where "MSIX_ISTAT_HST_GRP0_0 \<equiv> 0x0f00"
abbreviation (input) IMASK_HOST_MSIX_SET_GRP0_0 :: iomem where "IMASK_HOST_MSIX_SET_GRP0_0 \<equiv> 0x3000"
abbreviation (input) IMASK_HOST_MSIX_CLR_GRP0_0 :: iomem where "IMASK_HOST_MSIX_CLR_GRP0_0 \<equiv> 0x3080"
abbreviation (input) EXT_INT_START :: nat where "EXT_INT_START \<equiv> 24"
abbreviation (input) EXT_INT_NUM :: nat where "EXT_INT_NUM \<equiv> 8"
abbreviation (input) MSIX_MSK_SET_ALL :: u32 where "MSIX_MSK_SET_ALL \<equiv> GENMASK 31 24"

datatype t7xx_int =
    DPMAIF_INT
  | CLDMA0_INT
  | CLDMA1_INT
  | CLDMA2_INT
  | MHCCIF_INT
  | DPMAIF2_INT
  | SAP_RGU_INT
  | CLDMA3_INT

primrec t7xx_int_val :: "t7xx_int \<Rightarrow> nat" where
  "t7xx_int_val DPMAIF_INT = 0"
| "t7xx_int_val CLDMA0_INT = 1"
| "t7xx_int_val CLDMA1_INT = 2"
| "t7xx_int_val CLDMA2_INT = 3"
| "t7xx_int_val MHCCIF_INT = 4"
| "t7xx_int_val DPMAIF2_INT = 5"
| "t7xx_int_val SAP_RGU_INT = 6"
| "t7xx_int_val CLDMA3_INT = 7"

section \<open>Data path (DPMAIF)\<close>

abbreviation (input) DPMAIF_PD_BASE :: iomem where "DPMAIF_PD_BASE \<equiv> 0x1022d000"
abbreviation (input) BASE_DPMAIF_UL :: iomem where "BASE_DPMAIF_UL \<equiv> DPMAIF_PD_BASE"
abbreviation (input) BASE_DPMAIF_DL :: iomem where "BASE_DPMAIF_DL \<equiv> DPMAIF_PD_BASE + 0x100"
abbreviation (input) BASE_DPMAIF_AP_MISC :: iomem where "BASE_DPMAIF_AP_MISC \<equiv> DPMAIF_PD_BASE + 0x400"
abbreviation (input) BASE_DPMAIF_MMW_HPC :: iomem where "BASE_DPMAIF_MMW_HPC \<equiv> DPMAIF_PD_BASE + 0x600"
abbreviation (input) BASE_DPMAIF_DL_DLQ_REMOVEAO_IDX :: iomem where "BASE_DPMAIF_DL_DLQ_REMOVEAO_IDX \<equiv> DPMAIF_PD_BASE + 0x900"
abbreviation (input) BASE_DPMAIF_PD_SRAM_DL :: iomem where "BASE_DPMAIF_PD_SRAM_DL \<equiv> DPMAIF_PD_BASE + 0xc00"
abbreviation (input) BASE_DPMAIF_PD_SRAM_UL :: iomem where "BASE_DPMAIF_PD_SRAM_UL \<equiv> DPMAIF_PD_BASE + 0xd00"
abbreviation (input) DPMAIF_AO_BASE :: iomem where "DPMAIF_AO_BASE \<equiv> 0x10014000"
abbreviation (input) BASE_DPMAIF_AO_UL :: iomem where "BASE_DPMAIF_AO_UL \<equiv> DPMAIF_AO_BASE"
abbreviation (input) BASE_DPMAIF_AO_DL :: iomem where "BASE_DPMAIF_AO_DL \<equiv> DPMAIF_AO_BASE + 0x400"
abbreviation (input) DPMAIF_UL_ADD_DESC :: iomem where "DPMAIF_UL_ADD_DESC \<equiv> BASE_DPMAIF_UL + 0x00"
abbreviation (input) DPMAIF_UL_CHK_BUSY :: iomem where "DPMAIF_UL_CHK_BUSY \<equiv> BASE_DPMAIF_UL + 0x88"
abbreviation (input) DPMAIF_UL_RESERVE_AO_RW :: iomem where "DPMAIF_UL_RESERVE_AO_RW \<equiv> BASE_DPMAIF_UL + 0xac"
abbreviation (input) DPMAIF_UL_ADD_DESC_CH0 :: iomem where "DPMAIF_UL_ADD_DESC_CH0 \<equiv> BASE_DPMAIF_UL + 0xb0"
abbreviation (input) DPMAIF_DL_BAT_INIT :: iomem where "DPMAIF_DL_BAT_INIT \<equiv> BASE_DPMAIF_DL + 0x00"
abbreviation (input) DPMAIF_DL_BAT_ADD :: iomem where "DPMAIF_DL_BAT_ADD \<equiv> BASE_DPMAIF_DL + 0x04"
abbreviation (input) DPMAIF_DL_BAT_INIT_CON0 :: iomem where "DPMAIF_DL_BAT_INIT_CON0 \<equiv> BASE_DPMAIF_DL + 0x08"
abbreviation (input) DPMAIF_DL_BAT_INIT_CON1 :: iomem where "DPMAIF_DL_BAT_INIT_CON1 \<equiv> BASE_DPMAIF_DL + 0x0c"
abbreviation (input) DPMAIF_DL_BAT_INIT_CON2 :: iomem where "DPMAIF_DL_BAT_INIT_CON2 \<equiv> BASE_DPMAIF_DL + 0x10"
abbreviation (input) DPMAIF_DL_BAT_INIT_CON3 :: iomem where "DPMAIF_DL_BAT_INIT_CON3 \<equiv> BASE_DPMAIF_DL + 0x50"
abbreviation (input) DPMAIF_DL_CHK_BUSY :: iomem where "DPMAIF_DL_CHK_BUSY \<equiv> BASE_DPMAIF_DL + 0xb4"
abbreviation (input) DPMAIF_AP_L2TISAR0 :: iomem where "DPMAIF_AP_L2TISAR0 \<equiv> BASE_DPMAIF_AP_MISC + 0x00"
abbreviation (input) DPMAIF_AP_APDL_L2TISAR0 :: iomem where "DPMAIF_AP_APDL_L2TISAR0 \<equiv> BASE_DPMAIF_AP_MISC + 0x50"
abbreviation (input) DPMAIF_AP_IP_BUSY :: iomem where "DPMAIF_AP_IP_BUSY \<equiv> BASE_DPMAIF_AP_MISC + 0x60"
abbreviation (input) DPMAIF_AP_CG_EN :: iomem where "DPMAIF_AP_CG_EN \<equiv> BASE_DPMAIF_AP_MISC + 0x68"
abbreviation (input) DPMAIF_AP_OVERWRITE_CFG :: iomem where "DPMAIF_AP_OVERWRITE_CFG \<equiv> BASE_DPMAIF_AP_MISC + 0x90"
abbreviation (input) DPMAIF_AP_MEM_CLR :: iomem where "DPMAIF_AP_MEM_CLR \<equiv> BASE_DPMAIF_AP_MISC + 0x94"
abbreviation (input) DPMAIF_AP_ALL_L2TISAR0_MASK :: u32 where "DPMAIF_AP_ALL_L2TISAR0_MASK \<equiv> GENMASK 31 0"
abbreviation (input) DPMAIF_AP_APDL_ALL_L2TISAR0_MASK :: u32 where "DPMAIF_AP_APDL_ALL_L2TISAR0_MASK \<equiv> GENMASK 31 0"
abbreviation (input) DPMAIF_AP_IP_BUSY_MASK :: u32 where "DPMAIF_AP_IP_BUSY_MASK \<equiv> GENMASK 31 0"
abbreviation (input) DPMAIF_AO_UL_INIT_SET :: iomem where "DPMAIF_AO_UL_INIT_SET \<equiv> BASE_DPMAIF_AO_UL + 0x0"
abbreviation (input) DPMAIF_AO_UL_CHNL_ARB0 :: iomem where "DPMAIF_AO_UL_CHNL_ARB0 \<equiv> BASE_DPMAIF_AO_UL + 0x1c"
abbreviation (input) DPMAIF_AO_UL_AP_L2TIMR0 :: iomem where "DPMAIF_AO_UL_AP_L2TIMR0 \<equiv> BASE_DPMAIF_AO_UL + 0x80"
abbreviation (input) DPMAIF_AO_UL_AP_L2TIMCR0 :: iomem where "DPMAIF_AO_UL_AP_L2TIMCR0 \<equiv> BASE_DPMAIF_AO_UL + 0x84"
abbreviation (input) DPMAIF_AO_UL_AP_L2TIMSR0 :: iomem where "DPMAIF_AO_UL_AP_L2TIMSR0 \<equiv> BASE_DPMAIF_AO_UL + 0x88"
abbreviation (input) DPMAIF_AO_UL_AP_L1TIMR0 :: iomem where "DPMAIF_AO_UL_AP_L1TIMR0 \<equiv> BASE_DPMAIF_AO_UL + 0x8c"
abbreviation (input) DPMAIF_AO_UL_APDL_L2TIMR0 :: iomem where "DPMAIF_AO_UL_APDL_L2TIMR0 \<equiv> BASE_DPMAIF_AO_UL + 0x90"
abbreviation (input) DPMAIF_AO_UL_APDL_L2TIMCR0 :: iomem where "DPMAIF_AO_UL_APDL_L2TIMCR0 \<equiv> BASE_DPMAIF_AO_UL + 0x94"
abbreviation (input) DPMAIF_AO_UL_APDL_L2TIMSR0 :: iomem where "DPMAIF_AO_UL_APDL_L2TIMSR0 \<equiv> BASE_DPMAIF_AO_UL + 0x98"
abbreviation (input) DPMAIF_AO_AP_DLUL_IP_BUSY_MASK :: iomem where "DPMAIF_AO_AP_DLUL_IP_BUSY_MASK \<equiv> BASE_DPMAIF_AO_UL + 0x9c"
abbreviation (input) DPMAIF_AO_UL_CHNL0_CON0 :: iomem where "DPMAIF_AO_UL_CHNL0_CON0 \<equiv> BASE_DPMAIF_PD_SRAM_UL + 0x10"
abbreviation (input) DPMAIF_AO_UL_CHNL0_CON1 :: iomem where "DPMAIF_AO_UL_CHNL0_CON1 \<equiv> BASE_DPMAIF_PD_SRAM_UL + 0x14"
abbreviation (input) DPMAIF_AO_UL_CHNL0_CON2 :: iomem where "DPMAIF_AO_UL_CHNL0_CON2 \<equiv> BASE_DPMAIF_PD_SRAM_UL + 0x18"
abbreviation (input) DPMAIF_AO_UL_CH0_STA :: iomem where "DPMAIF_AO_UL_CH0_STA \<equiv> BASE_DPMAIF_PD_SRAM_UL + 0x70"
abbreviation (input) DPMAIF_AO_DL_INIT_SET :: iomem where "DPMAIF_AO_DL_INIT_SET \<equiv> BASE_DPMAIF_AO_DL + 0x00"
abbreviation (input) DPMAIF_AO_DL_IRQ_MASK :: iomem where "DPMAIF_AO_DL_IRQ_MASK \<equiv> BASE_DPMAIF_AO_DL + 0x0c"
abbreviation (input) DPMAIF_AO_DL_DLQPIT_INIT_CON5 :: iomem where "DPMAIF_AO_DL_DLQPIT_INIT_CON5 \<equiv> BASE_DPMAIF_AO_DL + 0x28"
abbreviation (input) DPMAIF_AO_DL_DLQPIT_TRIG_THRES :: iomem where "DPMAIF_AO_DL_DLQPIT_TRIG_THRES \<equiv> BASE_DPMAIF_AO_DL + 0x34"
abbreviation (input) DPMAIF_AO_DL_PKTINFO_CON0 :: iomem where "DPMAIF_AO_DL_PKTINFO_CON0 \<equiv> BASE_DPMAIF_PD_SRAM_DL + 0x00"
abbreviation (input) DPMAIF_AO_DL_PKTINFO_CON1 :: iomem where "DPMAIF_AO_DL_PKTINFO_CON1 \<equiv> BASE_DPMAIF_PD_SRAM_DL + 0x04"
abbreviation (input) DPMAIF_AO_DL_PKTINFO_CON2 :: iomem where "DPMAIF_AO_DL_PKTINFO_CON2 \<equiv> BASE_DPMAIF_PD_SRAM_DL + 0x08"
abbreviation (input) DPMAIF_AO_DL_RDY_CHK_THRES :: iomem where "DPMAIF_AO_DL_RDY_CHK_THRES \<equiv> BASE_DPMAIF_PD_SRAM_DL + 0x0c"
abbreviation (input) DPMAIF_AO_DL_RDY_CHK_FRG_THRES :: iomem where "DPMAIF_AO_DL_RDY_CHK_FRG_THRES \<equiv> BASE_DPMAIF_PD_SRAM_DL + 0x10"
abbreviation (input) DPMAIF_AO_DL_DLQ_AGG_CFG :: iomem where "DPMAIF_AO_DL_DLQ_AGG_CFG \<equiv> BASE_DPMAIF_PD_SRAM_DL + 0x20"
abbreviation (input) DPMAIF_AO_DL_DLQPIT_TIMEOUT0 :: iomem where "DPMAIF_AO_DL_DLQPIT_TIMEOUT0 \<equiv> BASE_DPMAIF_PD_SRAM_DL + 0x24"
abbreviation (input) DPMAIF_AO_DL_DLQPIT_TIMEOUT1 :: iomem where "DPMAIF_AO_DL_DLQPIT_TIMEOUT1 \<equiv> BASE_DPMAIF_PD_SRAM_DL + 0x28"
abbreviation (input) DPMAIF_AO_DL_HPC_CNTL :: iomem where "DPMAIF_AO_DL_HPC_CNTL \<equiv> BASE_DPMAIF_PD_SRAM_DL + 0x38"
abbreviation (input) DPMAIF_AO_DL_PIT_SEQ_END :: iomem where "DPMAIF_AO_DL_PIT_SEQ_END \<equiv> BASE_DPMAIF_PD_SRAM_DL + 0x40"
abbreviation (input) DPMAIF_AO_DL_BAT_RD_IDX :: iomem where "DPMAIF_AO_DL_BAT_RD_IDX \<equiv> BASE_DPMAIF_PD_SRAM_DL + 0xd8"
abbreviation (input) DPMAIF_AO_DL_BAT_WR_IDX :: iomem where "DPMAIF_AO_DL_BAT_WR_IDX \<equiv> BASE_DPMAIF_PD_SRAM_DL + 0xdc"
abbreviation (input) DPMAIF_AO_DL_PIT_RD_IDX :: iomem where "DPMAIF_AO_DL_PIT_RD_IDX \<equiv> BASE_DPMAIF_PD_SRAM_DL + 0xec"
abbreviation (input) DPMAIF_AO_DL_PIT_WR_IDX :: iomem where "DPMAIF_AO_DL_PIT_WR_IDX \<equiv> BASE_DPMAIF_PD_SRAM_DL + 0x60"
abbreviation (input) DPMAIF_AO_DL_FRGBAT_RD_IDX :: iomem where "DPMAIF_AO_DL_FRGBAT_RD_IDX \<equiv> BASE_DPMAIF_PD_SRAM_DL + 0x78"
abbreviation (input) DPMAIF_AO_DL_DLQ_WR_IDX :: iomem where "DPMAIF_AO_DL_DLQ_WR_IDX \<equiv> BASE_DPMAIF_PD_SRAM_DL + 0xa4"
abbreviation (input) DPMAIF_HPC_INTR_MASK :: iomem where "DPMAIF_HPC_INTR_MASK \<equiv> BASE_DPMAIF_MMW_HPC + 0x0f4"
abbreviation (input) DPMA_HPC_ALL_INT_MASK :: u32 where "DPMA_HPC_ALL_INT_MASK \<equiv> GENMASK 15 0"
abbreviation (input) DPMAIF_HPC_DLQ_PATH_MODE :: u32 where "DPMAIF_HPC_DLQ_PATH_MODE \<equiv> 3"
abbreviation (input) DPMAIF_HPC_ADD_MODE_DF :: u32 where "DPMAIF_HPC_ADD_MODE_DF \<equiv> 0"
abbreviation (input) DPMAIF_HPC_TOTAL_NUM :: u32 where "DPMAIF_HPC_TOTAL_NUM \<equiv> 8"
abbreviation (input) DPMAIF_HPC_MAX_TOTAL_NUM :: nat where "DPMAIF_HPC_MAX_TOTAL_NUM \<equiv> 8"
abbreviation (input) DPMAIF_DL_DLQPIT_INIT :: iomem where "DPMAIF_DL_DLQPIT_INIT \<equiv> BASE_DPMAIF_DL_DLQ_REMOVEAO_IDX + 0x00"
abbreviation (input) DPMAIF_DL_DLQPIT_ADD :: iomem where "DPMAIF_DL_DLQPIT_ADD \<equiv> BASE_DPMAIF_DL_DLQ_REMOVEAO_IDX + 0x10"
abbreviation (input) DPMAIF_DL_DLQPIT_INIT_CON0 :: iomem where "DPMAIF_DL_DLQPIT_INIT_CON0 \<equiv> BASE_DPMAIF_DL_DLQ_REMOVEAO_IDX + 0x14"
abbreviation (input) DPMAIF_DL_DLQPIT_INIT_CON1 :: iomem where "DPMAIF_DL_DLQPIT_INIT_CON1 \<equiv> BASE_DPMAIF_DL_DLQ_REMOVEAO_IDX + 0x18"
abbreviation (input) DPMAIF_DL_DLQPIT_INIT_CON2 :: iomem where "DPMAIF_DL_DLQPIT_INIT_CON2 \<equiv> BASE_DPMAIF_DL_DLQ_REMOVEAO_IDX + 0x1c"
abbreviation (input) DPMAIF_DL_DLQPIT_INIT_CON3 :: iomem where "DPMAIF_DL_DLQPIT_INIT_CON3 \<equiv> BASE_DPMAIF_DL_DLQ_REMOVEAO_IDX + 0x20"
abbreviation (input) DPMAIF_DL_DLQPIT_INIT_CON4 :: iomem where "DPMAIF_DL_DLQPIT_INIT_CON4 \<equiv> BASE_DPMAIF_DL_DLQ_REMOVEAO_IDX + 0x24"
abbreviation (input) DPMAIF_DL_DLQPIT_INIT_CON5 :: iomem where "DPMAIF_DL_DLQPIT_INIT_CON5 \<equiv> BASE_DPMAIF_DL_DLQ_REMOVEAO_IDX + 0x28"
abbreviation (input) DPMAIF_DL_DLQPIT_INIT_CON6 :: iomem where "DPMAIF_DL_DLQPIT_INIT_CON6 \<equiv> BASE_DPMAIF_DL_DLQ_REMOVEAO_IDX + 0x2c"
abbreviation (input) DPMAIF_ULQSAR_n :: "iomem \<Rightarrow> iomem" where "DPMAIF_ULQSAR_n q \<equiv> DPMAIF_AO_UL_CHNL0_CON0 + 0x10 * q"
abbreviation (input) DPMAIF_UL_DRBSIZE_ADDRH_n :: "iomem \<Rightarrow> iomem" where "DPMAIF_UL_DRBSIZE_ADDRH_n q \<equiv> DPMAIF_AO_UL_CHNL0_CON1 + 0x10 * q"
abbreviation (input) DPMAIF_UL_DRB_ADDRH_n :: "iomem \<Rightarrow> iomem" where "DPMAIF_UL_DRB_ADDRH_n q \<equiv> DPMAIF_AO_UL_CHNL0_CON2 + 0x10 * q"
abbreviation (input) DPMAIF_ULQ_STA0_n :: "iomem \<Rightarrow> iomem" where "DPMAIF_ULQ_STA0_n q \<equiv> DPMAIF_AO_UL_CH0_STA + 0x04 * q"
abbreviation (input) DPMAIF_ULQ_ADD_DESC_CH_n :: "iomem \<Rightarrow> iomem" where "DPMAIF_ULQ_ADD_DESC_CH_n q \<equiv> DPMAIF_UL_ADD_DESC_CH0 + 0x04 * q"
abbreviation (input) DPMAIF_UL_DRB_RIDX_MSK :: field where "DPMAIF_UL_DRB_RIDX_MSK \<equiv> (31, 16)"
abbreviation (input) DPMAIF_AP_RGU_ASSERT :: iomem where "DPMAIF_AP_RGU_ASSERT \<equiv> 0x10001150"
abbreviation (input) DPMAIF_AP_RGU_DEASSERT :: iomem where "DPMAIF_AP_RGU_DEASSERT \<equiv> 0x10001154"
abbreviation (input) DPMAIF_AP_RST_BIT :: u32 where "DPMAIF_AP_RST_BIT \<equiv> BIT 2"
abbreviation (input) DPMAIF_AP_AO_RGU_ASSERT :: iomem where "DPMAIF_AP_AO_RGU_ASSERT \<equiv> 0x10001140"
abbreviation (input) DPMAIF_AP_AO_RGU_DEASSERT :: iomem where "DPMAIF_AP_AO_RGU_DEASSERT \<equiv> 0x10001144"
abbreviation (input) DPMAIF_AP_AO_RST_BIT :: u32 where "DPMAIF_AP_AO_RST_BIT \<equiv> BIT 6"
abbreviation (input) DPMAIF_UL_ADD_NOT_READY :: u32 where "DPMAIF_UL_ADD_NOT_READY \<equiv> BIT 31"
abbreviation (input) DPMAIF_UL_ADD_UPDATE :: u32 where "DPMAIF_UL_ADD_UPDATE \<equiv> BIT 31"
abbreviation (input) DPMAIF_UL_ADD_COUNT_MASK :: u32 where "DPMAIF_UL_ADD_COUNT_MASK \<equiv> GENMASK 15 0"
abbreviation (input) DPMAIF_UL_ALL_QUE_ARB_EN :: u32 where "DPMAIF_UL_ALL_QUE_ARB_EN \<equiv> GENMASK 11 8"
abbreviation (input) DPMAIF_DL_ADD_UPDATE :: u32 where "DPMAIF_DL_ADD_UPDATE \<equiv> BIT 31"
abbreviation (input) DPMAIF_DL_ADD_NOT_READY :: u32 where "DPMAIF_DL_ADD_NOT_READY \<equiv> BIT 31"
abbreviation (input) DPMAIF_DL_FRG_ADD_UPDATE :: u32 where "DPMAIF_DL_FRG_ADD_UPDATE \<equiv> BIT 16"
abbreviation (input) DPMAIF_DL_ADD_COUNT_MASK :: u32 where "DPMAIF_DL_ADD_COUNT_MASK \<equiv> GENMASK 15 0"
abbreviation (input) DPMAIF_DL_BAT_INIT_ALLSET :: u32 where "DPMAIF_DL_BAT_INIT_ALLSET \<equiv> BIT 0"
abbreviation (input) DPMAIF_DL_BAT_FRG_INIT :: u32 where "DPMAIF_DL_BAT_FRG_INIT \<equiv> BIT 16"
abbreviation (input) DPMAIF_DL_BAT_INIT_EN :: u32 where "DPMAIF_DL_BAT_INIT_EN \<equiv> BIT 31"
abbreviation (input) DPMAIF_DL_BAT_INIT_NOT_READY :: u32 where "DPMAIF_DL_BAT_INIT_NOT_READY \<equiv> BIT 31"
abbreviation (input) DPMAIF_DL_BAT_INIT_ONLY_ENABLE_BIT :: u32 where "DPMAIF_DL_BAT_INIT_ONLY_ENABLE_BIT \<equiv> 0"
abbreviation (input) DPMAIF_DL_PIT_INIT_ALLSET :: u32 where "DPMAIF_DL_PIT_INIT_ALLSET \<equiv> BIT 0"
abbreviation (input) DPMAIF_DL_PIT_INIT_EN :: u32 where "DPMAIF_DL_PIT_INIT_EN \<equiv> BIT 31"
abbreviation (input) DPMAIF_DL_PIT_INIT_NOT_READY :: u32 where "DPMAIF_DL_PIT_INIT_NOT_READY \<equiv> BIT 31"
abbreviation (input) DPMAIF_BAT_REMAIN_SZ_BASE :: u32 where "DPMAIF_BAT_REMAIN_SZ_BASE \<equiv> 16"
abbreviation (input) DPMAIF_BAT_BUFFER_SZ_BASE :: u32 where "DPMAIF_BAT_BUFFER_SZ_BASE \<equiv> 128"
abbreviation (input) DPMAIF_FRG_BUFFER_SZ_BASE :: u32 where "DPMAIF_FRG_BUFFER_SZ_BASE \<equiv> 128"
abbreviation (input) DLQ_PIT_IDX_SIZE :: iomem where "DLQ_PIT_IDX_SIZE \<equiv> 0x20"
abbreviation (input) DPMAIF_PIT_SIZE_MSK :: u32 where "DPMAIF_PIT_SIZE_MSK \<equiv> GENMASK 17 0"
abbreviation (input) DPMAIF_PIT_REM_CNT_MSK :: u32 where "DPMAIF_PIT_REM_CNT_MSK \<equiv> GENMASK 17 0"
abbreviation (input) DPMAIF_BAT_EN_MSK :: u32 where "DPMAIF_BAT_EN_MSK \<equiv> BIT 16"
abbreviation (input) DPMAIF_FRG_EN_MSK :: u32 where "DPMAIF_FRG_EN_MSK \<equiv> BIT 28"
abbreviation (input) DPMAIF_BAT_SIZE_MSK :: u32 where "DPMAIF_BAT_SIZE_MSK \<equiv> GENMASK 15 0"
abbreviation (input) DPMAIF_BAT_BID_MAXCNT_MSK :: field where "DPMAIF_BAT_BID_MAXCNT_MSK \<equiv> (31, 16)"
abbreviation (input) DPMAIF_BAT_REMAIN_MINSZ_MSK :: field where "DPMAIF_BAT_REMAIN_MINSZ_MSK \<equiv> (15, 8)"
abbreviation (input) DPMAIF_PIT_CHK_NUM_MSK :: field where "DPMAIF_PIT_CHK_NUM_MSK \<equiv> (31, 24)"
abbreviation (input) DPMAIF_BAT_BUF_SZ_MSK :: field where "DPMAIF_BAT_BUF_SZ_MSK \<equiv> (16, 8)"
abbreviation (input) DPMAIF_FRG_BUF_SZ_MSK :: field where "DPMAIF_FRG_BUF_SZ_MSK \<equiv> (16, 8)"
abbreviation (input) DPMAIF_BAT_RSV_LEN_MSK :: u32 where "DPMAIF_BAT_RSV_LEN_MSK \<equiv> GENMASK 7 0"
abbreviation (input) DPMAIF_PKT_ALIGN_MSK :: u32 where "DPMAIF_PKT_ALIGN_MSK \<equiv> GENMASK 23 22"
abbreviation (input) DPMAIF_BAT_CHECK_THRES_MSK :: field where "DPMAIF_BAT_CHECK_THRES_MSK \<equiv> (21, 16)"
abbreviation (input) DPMAIF_FRG_CHECK_THRES_MSK :: u32 where "DPMAIF_FRG_CHECK_THRES_MSK \<equiv> GENMASK 7 0"
abbreviation (input) DPMAIF_PKT_ALIGN_EN :: u32 where "DPMAIF_PKT_ALIGN_EN \<equiv> BIT 23"
abbreviation (input) DPMAIF_DRB_SIZE_MSK :: u32 where "DPMAIF_DRB_SIZE_MSK \<equiv> GENMASK 15 0"
abbreviation (input) DPMAIF_DL_RD_WR_IDX_MSK :: u32 where "DPMAIF_DL_RD_WR_IDX_MSK \<equiv> GENMASK 17 0"
abbreviation (input) DPMAIF_UL_IDLE_STS :: u32 where "DPMAIF_UL_IDLE_STS \<equiv> BIT 11"
abbreviation (input) DPMAIF_DL_IDLE_STS :: u32 where "DPMAIF_DL_IDLE_STS \<equiv> BIT 23"
abbreviation (input) DPMAIF_DL_PKT_CHECKSUM_EN :: u32 where "DPMAIF_DL_PKT_CHECKSUM_EN \<equiv> BIT 31"
abbreviation (input) DPMAIF_PORT_MODE_PCIE :: u32 where "DPMAIF_PORT_MODE_PCIE \<equiv> BIT 30"
abbreviation (input) DPMAIF_DL_BURST_PIT_EN :: u32 where "DPMAIF_DL_BURST_PIT_EN \<equiv> BIT 13"
abbreviation (input) DPMAIF_DL_BAT_CACHE_PRI :: u32 where "DPMAIF_DL_BAT_CACHE_PRI \<equiv> BIT 22"
abbreviation (input) DPMAIF_MEM_CLR :: u32 where "DPMAIF_MEM_CLR \<equiv> BIT 0"
abbreviation (input) DPMAIF_SRAM_SYNC :: u32 where "DPMAIF_SRAM_SYNC \<equiv> BIT 0"
abbreviation (input) DPMAIF_UL_INIT_DONE :: u32 where "DPMAIF_UL_INIT_DONE \<equiv> BIT 0"
abbreviation (input) DPMAIF_DL_INIT_DONE :: u32 where "DPMAIF_DL_INIT_DONE \<equiv> BIT 0"
abbreviation (input) DPMAIF_DL_PIT_SEQ_MSK :: u32 where "DPMAIF_DL_PIT_SEQ_MSK \<equiv> GENMASK 7 0"
abbreviation (input) DPMAIF_PCIE_MODE_SET_VALUE :: u32 where "DPMAIF_PCIE_MODE_SET_VALUE \<equiv> 0x55"
abbreviation (input) DPMAIF_CG_EN :: u32 where "DPMAIF_CG_EN \<equiv> 0x7f"
abbreviation (input) DPMAIF_UDL_IP_BUSY :: u32 where "DPMAIF_UDL_IP_BUSY \<equiv> BIT 0"
abbreviation (input) DPMAIF_DL_INT_DLQ0_QDONE :: u32 where "DPMAIF_DL_INT_DLQ0_QDONE \<equiv> BIT 8"
abbreviation (input) DPMAIF_DL_INT_DLQ1_QDONE :: u32 where "DPMAIF_DL_INT_DLQ1_QDONE \<equiv> BIT 9"
abbreviation (input) DPMAIF_DL_INT_DLQ0_PITCNT_LEN :: u32 where "DPMAIF_DL_INT_DLQ0_PITCNT_LEN \<equiv> BIT 10"
abbreviation (input) DPMAIF_DL_INT_DLQ1_PITCNT_LEN :: u32 where "DPMAIF_DL_INT_DLQ1_PITCNT_LEN \<equiv> BIT 11"
abbreviation (input) DPMAIF_DL_INT_Q2TOQ1 :: u32 where "DPMAIF_DL_INT_Q2TOQ1 \<equiv> BIT 24"
abbreviation (input) DPMAIF_DL_INT_Q2APTOP :: u32 where "DPMAIF_DL_INT_Q2APTOP \<equiv> BIT 25"
abbreviation (input) DPMAIF_DLQ_LOW_TIMEOUT_THRES_MKS :: field where "DPMAIF_DLQ_LOW_TIMEOUT_THRES_MKS \<equiv> (15, 0)"
abbreviation (input) DPMAIF_DLQ_HIGH_TIMEOUT_THRES_MSK :: field where "DPMAIF_DLQ_HIGH_TIMEOUT_THRES_MSK \<equiv> (31, 16)"
abbreviation (input) DPMAIF_AGG_MAX_LEN_DF :: u32 where "DPMAIF_AGG_MAX_LEN_DF \<equiv> 65535"
abbreviation (input) DPMAIF_AGG_TBL_ENT_NUM_DF :: u32 where "DPMAIF_AGG_TBL_ENT_NUM_DF \<equiv> 50"
abbreviation (input) DPMAIF_HASH_PRIME_DF :: u32 where "DPMAIF_HASH_PRIME_DF \<equiv> 13"
abbreviation (input) DPMAIF_MID_TIMEOUT_THRES_DF :: u32 where "DPMAIF_MID_TIMEOUT_THRES_DF \<equiv> 100"
abbreviation (input) DPMAIF_DLQ_TIMEOUT_THRES_DF :: u32 where "DPMAIF_DLQ_TIMEOUT_THRES_DF \<equiv> 100"
abbreviation (input) DPMAIF_DLQ_PRS_THRES_DF :: u32 where "DPMAIF_DLQ_PRS_THRES_DF \<equiv> 10"
abbreviation (input) DPMAIF_DLQ_HASH_BIT_CHOOSE_DF :: u32 where "DPMAIF_DLQ_HASH_BIT_CHOOSE_DF \<equiv> 0"
abbreviation (input) DPMAIF_DLQPIT_EN_MSK :: u32 where "DPMAIF_DLQPIT_EN_MSK \<equiv> BIT 20"
abbreviation (input) DPMAIF_DLQPIT_CHAN_OFS :: nat where "DPMAIF_DLQPIT_CHAN_OFS \<equiv> 16"
abbreviation (input) DPMAIF_ADD_DLQ_PIT_CHAN_OFS :: nat where "DPMAIF_ADD_DLQ_PIT_CHAN_OFS \<equiv> 20"

end
