(* ===== verification/Pcie_Mac.thy ===== *)
theory Pcie_Mac
  imports T7xx_Reg
begin

text \<open>
  The context of the device (\<open>t7xx_pci.h\<close>) and the lowest layer that works on it: the PCIe
  MAC (\<open>t7xx_pcie_mac.c\<close>, address translation and interrupt masks) and the doorbells between
  host and modem (\<open>t7xx_mhccif.c\<close>).

  \<open>t7xx\<close> is the state of the driver as these functions see it: the outside world and the
  structure \<open>t7xx_pci_dev\<close>. Later theories extend the record by the state of their own
  component, so every function here is typed for any extension.
\<close>

section \<open>The context of the device\<close>

record t7xx_addr_base =
  pcie_mac_ireg_base :: iomem
  pcie_ext_reg_base :: iomem
  pcie_dev_reg_trsl_addr :: u32
  infracfg_ao_base :: iomem
  mhccif_rc_base :: iomem

datatype t7xx_mode =
    T7XX_UNKNOWN | T7XX_READY | T7XX_RESET | T7XX_FASTBOOT_SWITCHING
  | T7XX_FASTBOOT_DOWNLOAD | T7XX_FASTBOOT_DUMP

datatype t7xx_pm_id =
    PM_ENTITY_ID_CTRL1 | PM_ENTITY_ID_CTRL2 | PM_ENTITY_ID_DATA | PM_ENTITY_ID_INVALID

datatype t7xx_pm_state = MTK_PM_EXCEPTION | MTK_PM_INIT | MTK_PM_SUSPENDED | MTK_PM_RESUMED

text \<open>
  The handlers an interrupt of the device can have. \<open>intr_handler\<close> holds the function, the
  threaded part and the argument are registered together with it.
\<close>

datatype intr_owner = OWN_MHCCIF | OWN_CLDMA nat | OWN_DPMAIF nat | OWN_RGU

record t7xx_pci_dev =
  intr_handler :: "t7xx_int \<Rightarrow> intr_owner option"
  base_addr :: t7xx_addr_base
  rgu_pci_irq_en :: bool
  md_pm_entities :: "t7xx_pm_id list"
  md_pm_state :: t7xx_pm_state
  sleep_disable_count :: u32
  resume_reprobe_count :: u32
  mode :: t7xx_mode
  debug_ports_show :: bool

record t7xx = io +
  pci :: t7xx_pci_dev

definition get_pci :: "(t7xx_pci_dev \<Rightarrow> 'a) \<Rightarrow> ('z t7xx_scheme, 'a) state" where
  "get_pci f = gets (\<lambda>s. f (pci s))"

definition upd_pci :: "(t7xx_pci_dev \<Rightarrow> t7xx_pci_dev) \<Rightarrow> ('z t7xx_scheme, unit) state" where
  "upd_pci f = modify (\<lambda>s. s\<lparr>pci := f (pci s)\<rparr>)"

lemma run_get_pci [run_simps]: "run (get_pci f) s = (f (pci s), s)"
  by (simp add: get_pci_def run_simps)

lemma run_upd_pci [run_simps]: "run (upd_pci f) s = ((), s\<lparr>pci := f (pci s)\<rparr>)"
  by (simp add: upd_pci_def run_simps)

lemma pci_emit [simp]: "pci (emit e s) = pci s"
  by (simp add: emit_def)

lemma emit_pci [simp]: "emit e (s\<lparr>pci := p\<rparr>) = (emit e s)\<lparr>pci := p\<rparr>"
  by (simp add: emit_def)

lemma recorded_get_pci [recorded_intros]: "recorded (get_pci f)"
  by (simp add: recorded_def run_simps)

lemma recorded_upd_pci [recorded_intros]: "recorded (upd_pci f)"
  by (simp add: recorded_def run_simps)

text \<open>\<open>IREG_BASE(t7xx_dev)\<close>\<close>

definition IREG_BASE :: "'z t7xx_scheme \<Rightarrow> iomem" where
  "IREG_BASE s = pcie_mac_ireg_base (base_addr (pci s))"

lemma IREG_BASE_emit [simp]: "IREG_BASE (emit e s) = IREG_BASE s"
  by (simp add: IREG_BASE_def)

section \<open>Address translation\<close>

datatype t7xx_atr_src_port =
    ATR_SRC_PCI_WIN0 | ATR_SRC_PCI_WIN1 | ATR_SRC_AXIS_0 | ATR_SRC_AXIS_1
  | ATR_SRC_AXIS_2 | ATR_SRC_AXIS_3

primrec t7xx_atr_src_port_val :: "t7xx_atr_src_port \<Rightarrow> u64" where
  "t7xx_atr_src_port_val ATR_SRC_PCI_WIN0 = 0"
| "t7xx_atr_src_port_val ATR_SRC_PCI_WIN1 = 1"
| "t7xx_atr_src_port_val ATR_SRC_AXIS_0 = 2"
| "t7xx_atr_src_port_val ATR_SRC_AXIS_1 = 3"
| "t7xx_atr_src_port_val ATR_SRC_AXIS_2 = 4"
| "t7xx_atr_src_port_val ATR_SRC_AXIS_3 = 5"

datatype t7xx_atr_dst_port =
    ATR_DST_PCI_TRX | ATR_DST_PCI_CONFIG | ATR_DST_AXIM_0 | ATR_DST_AXIM_1
  | ATR_DST_AXIM_2 | ATR_DST_AXIM_3

primrec t7xx_atr_dst_port_val :: "t7xx_atr_dst_port \<Rightarrow> u32" where
  "t7xx_atr_dst_port_val ATR_DST_PCI_TRX = 0"
| "t7xx_atr_dst_port_val ATR_DST_PCI_CONFIG = 1"
| "t7xx_atr_dst_port_val ATR_DST_AXIM_0 = 4"
| "t7xx_atr_dst_port_val ATR_DST_AXIM_1 = 5"
| "t7xx_atr_dst_port_val ATR_DST_AXIM_2 = 6"
| "t7xx_atr_dst_port_val ATR_DST_AXIM_3 = 7"

record t7xx_atr_config =
  src_addr :: u64
  trsl_addr :: u64
  atr_win_size :: u64
  port :: t7xx_atr_src_port
  table :: u64
  trsl_id :: t7xx_atr_dst_port
  transparent :: bool

text \<open>\<open>__ffs64\<close>: the index of the lowest bit that is set; not defined for 0.\<close>

definition ffs64 :: "u64 \<Rightarrow> nat" where
  "ffs64 x = hd (filter (bit x) [0..<64])"

text \<open>The register of a port's translation table that holds its source address.\<close>

definition atr_reg :: "iomem \<Rightarrow> iomem \<Rightarrow> t7xx_atr_src_port \<Rightarrow> u64 \<Rightarrow> iomem" where
  "atr_reg pbase r p tab =
     pbase + r + (ATR_PORT_OFFSET * t7xx_atr_src_port_val p + ATR_TABLE_OFFSET * tab)"

definition t7xx_pcie_mac_atr_tables_dis ::
  "iomem \<Rightarrow> t7xx_atr_src_port \<Rightarrow> ('z t7xx_scheme, unit) state" where
  "t7xx_pcie_mac_atr_tables_dis pbase p =
     for_each [0..<ATR_TABLE_NUM_PER_ATR] (\<lambda>i.
       iowrite64_lo_hi 0 (atr_reg pbase ATR_PCIE_WIN0_T0_ATR_PARAM_SRC_ADDR p (of_nat i)))"

text \<open>The size field of a table entry: \<open>ATR_TRANSPARENT_SIZE\<close>, or from the window size.\<close>

definition atr_size_of :: "t7xx_atr_config \<Rightarrow> errno + int" where
  "atr_size_of cfg =
     (if transparent cfg then Inr 0x3f
      else if src_addr cfg AND (atr_win_size cfg - 1) \<noteq> 0 then Inl EINVAL
      else if trsl_addr cfg AND (atr_win_size cfg - 1) \<noteq> 0 then Inl EINVAL
      else Inr (int (ffs64 (atr_win_size cfg)) - 1))"

definition atr_src_value :: "t7xx_atr_config \<Rightarrow> int \<Rightarrow> u64" where
  "atr_src_value cfg atr_size =
     (src_addr cfg AND ATR_PCIE_WIN0_ADDR_ALGMT)
       OR scast (push_bit 1 (of_int atr_size :: 32 word)) OR BIT 0"

definition t7xx_pcie_mac_atr_cfg ::
  "t7xx_atr_config \<Rightarrow> ('z t7xx_scheme, errno + unit) state" where
  "t7xx_pcie_mac_atr_cfg cfg = do {
     pbase \<leftarrow> gets IREG_BASE;
     case atr_size_of cfg of
       Inl e \<Rightarrow> return (Inl e)
     | Inr atr_size \<Rightarrow> do {
         iowrite64_lo_hi (trsl_addr cfg AND ATR_PCIE_WIN0_ADDR_ALGMT)
           (atr_reg pbase ATR_PCIE_WIN0_T0_TRSL_ADDR (port cfg) (table cfg));
         iowrite32 (t7xx_atr_dst_port_val (trsl_id cfg))
           (atr_reg pbase ATR_PCIE_WIN0_T0_TRSL_PARAM (port cfg) (table cfg));
         let r = atr_reg pbase ATR_PCIE_WIN0_T0_ATR_PARAM_SRC_ADDR (port cfg) (table cfg);
         iowrite64_lo_hi (atr_src_value cfg atr_size) r;
         ioread64_lo_hi r;
         return (Inr ())
       }
   }"

definition atr_ports :: "t7xx_atr_src_port list" where
  "atr_ports = [ATR_SRC_PCI_WIN0, ATR_SRC_PCI_WIN1, ATR_SRC_AXIS_0, ATR_SRC_AXIS_1,
                ATR_SRC_AXIS_2, ATR_SRC_AXIS_3]"

text \<open>The window through which the host reaches the device's registers.\<close>

definition atr_reg_window :: "u64 \<Rightarrow> t7xx_atr_config" where
  "atr_reg_window bar =
     \<lparr>src_addr = bar, trsl_addr = T7XX_PCIE_REG_TRSL_ADDR_CHIP,
      atr_win_size = T7XX_PCIE_REG_SIZE_CHIP, port = ATR_SRC_PCI_WIN0, table = 0,
      trsl_id = ATR_DST_AXIM_0, transparent = False\<rparr>"

text \<open>The untranslated window through which the device reaches the host's memory.\<close>

definition atr_dma_window :: "t7xx_atr_src_port \<Rightarrow> t7xx_atr_config" where
  "atr_dma_window p =
     \<lparr>src_addr = 0, trsl_addr = 0, atr_win_size = 0, port = p, table = 0,
      trsl_id = ATR_DST_PCI_TRX, transparent = True\<rparr>"

definition t7xx_pcie_mac_atr_init :: "('z t7xx_scheme, unit) state" where
  "t7xx_pcie_mac_atr_init = do {
     pbase \<leftarrow> gets IREG_BASE;
     for_each atr_ports (t7xx_pcie_mac_atr_tables_dis pbase);
     bar \<leftarrow> kquery ''pci_resource_start'' [2];
     t7xx_pcie_mac_atr_tables_dis pbase ATR_SRC_PCI_WIN0;
     t7xx_pcie_mac_atr_cfg (atr_reg_window bar);
     upd_pci (\<lambda>p. p\<lparr>base_addr :=
       (base_addr p)\<lparr>pcie_dev_reg_trsl_addr := ucast T7XX_PCIE_REG_TRSL_ADDR_CHIP\<rparr>\<rparr>);
     for_each [ATR_SRC_AXIS_0, ATR_SRC_AXIS_1, ATR_SRC_AXIS_2] (\<lambda>p. do {
       t7xx_pcie_mac_atr_tables_dis pbase p;
       t7xx_pcie_mac_atr_cfg (atr_dma_window p);
       return ()
     })
   }"

section \<open>Interrupt masks\<close>

definition t7xx_pcie_mac_enable_disable_int :: "bool \<Rightarrow> ('z t7xx_scheme, unit) state" where
  "t7xx_pcie_mac_enable_disable_int enable = do {
     b \<leftarrow> gets IREG_BASE;
     v \<leftarrow> ioread32 (b + ISTAT_HST_CTRL);
     iowrite32 (if enable then v AND NOT ISTAT_HST_CTRL_DIS else v OR ISTAT_HST_CTRL_DIS)
       (b + ISTAT_HST_CTRL)
   }"

definition t7xx_pcie_mac_interrupts_en :: "('z t7xx_scheme, unit) state" where
  "t7xx_pcie_mac_interrupts_en = t7xx_pcie_mac_enable_disable_int True"

definition t7xx_pcie_mac_interrupts_dis :: "('z t7xx_scheme, unit) state" where
  "t7xx_pcie_mac_interrupts_dis = t7xx_pcie_mac_enable_disable_int False"

definition int_bit :: "t7xx_int \<Rightarrow> u32" where
  "int_bit i = BIT (EXT_INT_START + t7xx_int_val i)"

definition t7xx_pcie_mac_clear_set_int ::
  "t7xx_int \<Rightarrow> bool \<Rightarrow> ('z t7xx_scheme, unit) state" where
  "t7xx_pcie_mac_clear_set_int i clear = do {
     b \<leftarrow> gets IREG_BASE;
     iowrite32 (int_bit i)
       (b + (if clear then IMASK_HOST_MSIX_CLR_GRP0_0 else IMASK_HOST_MSIX_SET_GRP0_0))
   }"

definition t7xx_pcie_mac_clear_int :: "t7xx_int \<Rightarrow> ('z t7xx_scheme, unit) state" where
  "t7xx_pcie_mac_clear_int i = t7xx_pcie_mac_clear_set_int i True"

definition t7xx_pcie_mac_set_int :: "t7xx_int \<Rightarrow> ('z t7xx_scheme, unit) state" where
  "t7xx_pcie_mac_set_int i = t7xx_pcie_mac_clear_set_int i False"

definition t7xx_pcie_mac_clear_int_status :: "t7xx_int \<Rightarrow> ('z t7xx_scheme, unit) state" where
  "t7xx_pcie_mac_clear_int_status i = do {
     b \<leftarrow> gets IREG_BASE;
     iowrite32 (int_bit i) (b + MSIX_ISTAT_HST_GRP0_0)
   }"

text \<open>\<open>ffs\<close>: one more than the index of the lowest bit that is set, 0 for 0.\<close>

definition ffs32 :: "u32 \<Rightarrow> nat" where
  "ffs32 x = (if x = 0 then 0 else Suc (hd (filter (bit x) [0..<32])))"

definition t7xx_pcie_set_mac_msix_cfg :: "u32 \<Rightarrow> ('z t7xx_scheme, unit) state" where
  "t7xx_pcie_set_mac_msix_cfg irq_count = do {
     b \<leftarrow> gets IREG_BASE;
     iowrite32 (of_nat (ffs32 irq_count) * 2 - 1) (b + T7XX_PCIE_CFG_MSIX)
   }"

section \<open>Doorbells\<close>

abbreviation (input) D2H_INT_SR_ACK :: u32 where
  "D2H_INT_SR_ACK \<equiv>
     D2H_INT_SUSPEND_ACK OR D2H_INT_RESUME_ACK OR D2H_INT_SUSPEND_ACK_AP OR D2H_INT_RESUME_ACK_AP"

abbreviation (input) D2H_SW_INT_MASK :: u32 where
  "D2H_SW_INT_MASK \<equiv>
     D2H_INT_EXCEPTION_INIT OR D2H_INT_EXCEPTION_INIT_DONE OR D2H_INT_EXCEPTION_CLEARQ_DONE
       OR D2H_INT_EXCEPTION_ALLQ_RESET OR D2H_INT_PORT_ENUM OR D2H_INT_ASYNC_AP_HK
       OR D2H_INT_ASYNC_MD_HK"

definition mhccif_base :: "'z t7xx_scheme \<Rightarrow> iomem" where
  "mhccif_base s = mhccif_rc_base (base_addr (pci s))"

lemma mhccif_base_emit [simp]: "mhccif_base (emit e s) = mhccif_base s"
  by (simp add: mhccif_base_def)

definition t7xx_mhccif_read_sw_int_sts :: "('z t7xx_scheme, u32) state" where
  "t7xx_mhccif_read_sw_int_sts = do {
     b \<leftarrow> gets mhccif_base;
     ioread32 (b + REG_EP2RC_SW_INT_STS)
   }"

definition t7xx_mhccif_mask_set :: "u32 \<Rightarrow> ('z t7xx_scheme, unit) state" where
  "t7xx_mhccif_mask_set v = do {
     b \<leftarrow> gets mhccif_base;
     iowrite32 v (b + REG_EP2RC_SW_INT_EAP_MASK_SET)
   }"

definition t7xx_mhccif_mask_clr :: "u32 \<Rightarrow> ('z t7xx_scheme, unit) state" where
  "t7xx_mhccif_mask_clr v = do {
     b \<leftarrow> gets mhccif_base;
     iowrite32 v (b + REG_EP2RC_SW_INT_EAP_MASK_CLR)
   }"

definition t7xx_mhccif_mask_get :: "('z t7xx_scheme, u32) state" where
  "t7xx_mhccif_mask_get = do {
     b \<leftarrow> gets mhccif_base;
     ioread32 (b + REG_EP2RC_SW_INT_EAP_MASK)
   }"

definition t7xx_mhccif_clear_interrupts :: "u32 \<Rightarrow> ('z t7xx_scheme, unit) state" where
  "t7xx_mhccif_clear_interrupts m = do {
     b \<leftarrow> gets mhccif_base;
     iowrite32 m (b + REG_EP2RC_SW_INT_ACK);
     t7xx_mhccif_read_sw_int_sts;
     t7xx_pcie_mac_clear_int_status MHCCIF_INT
   }"

definition t7xx_mhccif_init :: "('z t7xx_scheme, unit) state" where
  "t7xx_mhccif_init = upd_pci (\<lambda>p.
     p\<lparr>base_addr := (base_addr p)\<lparr>mhccif_rc_base :=
         pcie_ext_reg_base (base_addr p) + MHCCIF_RC_DEV_BASE
           - ucast (pcie_dev_reg_trsl_addr (base_addr p))\<rparr>,
       intr_handler := (intr_handler p)(MHCCIF_INT \<mapsto> OWN_MHCCIF)\<rparr>)"

definition t7xx_mhccif_h2d_swint_trigger :: "nat \<Rightarrow> ('z t7xx_scheme, unit) state" where
  "t7xx_mhccif_h2d_swint_trigger channel = do {
     b \<leftarrow> gets mhccif_base;
     iowrite32 (BIT channel) (b + REG_RC2EP_SW_BSY);
     iowrite32 (of_nat channel) (b + REG_RC2EP_SW_TCHNUM)
   }"

text \<open>
  The threaded handler of the doorbell interrupt. The modem's part of it,
  \<open>t7xx_pci_mhccif_isr\<close> of \<open>t7xx_modem_ops.c\<close>, is an argument.
\<close>

definition t7xx_mhccif_isr_thread ::
  "('z t7xx_scheme, errno + unit) state \<Rightarrow> ('z t7xx_scheme, unit) state" where
  "t7xx_mhccif_isr_thread mhccif_isr = do {
     b \<leftarrow> gets IREG_BASE;
     iowrite32 (T7XX_L1_1_BIT 1 OR T7XX_L1_2_BIT 1) (b + DISABLE_ASPM_LOWPWR);
     int_status \<leftarrow> t7xx_mhccif_read_sw_int_sts;
     c_when (int_status AND D2H_SW_INT_MASK \<noteq> 0) (do { mhccif_isr; return () });
     t7xx_mhccif_clear_interrupts int_status;
     c_when (int_status AND D2H_INT_DS_LOCK_ACK \<noteq> 0)
       (kcall ''complete_all sleep_lock_acquire'' []);
     c_when (int_status AND D2H_INT_SR_ACK \<noteq> 0) (kcall ''complete pm_sr_ack'' []);
     iowrite32 (T7XX_L1_BIT 1) (b + ENABLE_ASPM_LOWPWR);
     again \<leftarrow> t7xx_mhccif_read_sw_int_sts;
     c_when (again = 0)
       (iowrite32 (T7XX_L1_1_BIT 1 OR T7XX_L1_2_BIT 1) (b + ENABLE_ASPM_LOWPWR));
     t7xx_pcie_mac_set_int MHCCIF_INT
   }"

section \<open>Every function here only adds to the trace\<close>

lemmas mac_defs =
  t7xx_pcie_mac_interrupts_en_def t7xx_pcie_mac_interrupts_dis_def
  t7xx_pcie_mac_enable_disable_int_def t7xx_pcie_mac_clear_int_def t7xx_pcie_mac_set_int_def
  t7xx_pcie_mac_clear_set_int_def t7xx_pcie_mac_clear_int_status_def
  t7xx_pcie_set_mac_msix_cfg_def t7xx_mhccif_read_sw_int_sts_def t7xx_mhccif_mask_set_def
  t7xx_mhccif_mask_clr_def t7xx_mhccif_mask_get_def t7xx_mhccif_clear_interrupts_def
  t7xx_mhccif_init_def t7xx_mhccif_h2d_swint_trigger_def

lemma recorded_mac [recorded_intros]:
  "recorded t7xx_pcie_mac_interrupts_en" "recorded t7xx_pcie_mac_interrupts_dis"
  "recorded (t7xx_pcie_mac_clear_int i)" "recorded (t7xx_pcie_mac_set_int i)"
  "recorded (t7xx_pcie_mac_clear_int_status i)" "recorded (t7xx_pcie_set_mac_msix_cfg n)"
  "recorded t7xx_mhccif_read_sw_int_sts" "recorded (t7xx_mhccif_mask_set v)"
  "recorded (t7xx_mhccif_mask_clr v)" "recorded t7xx_mhccif_mask_get"
  "recorded (t7xx_mhccif_clear_interrupts v)" "recorded t7xx_mhccif_init"
  "recorded (t7xx_mhccif_h2d_swint_trigger c)"
  unfolding mac_defs by (intro recorded_intros)+

text \<open>The context of the device is untouched, except where a function sets a field of it.\<close>

lemma pci_mac [simp]:
  "pci (after t7xx_pcie_mac_interrupts_en s) = pci s"
  "pci (after t7xx_pcie_mac_interrupts_dis s) = pci s"
  "pci (after (t7xx_pcie_mac_clear_int i) s) = pci s"
  "pci (after (t7xx_pcie_mac_set_int i) s) = pci s"
  "pci (after (t7xx_pcie_mac_clear_int_status i) s) = pci s"
  "pci (after (t7xx_pcie_set_mac_msix_cfg n) s) = pci s"
  "pci (after (t7xx_mhccif_h2d_swint_trigger c) s) = pci s"
  "pci (after (t7xx_mhccif_mask_clr v) s) = pci s"
  "pci (after (t7xx_mhccif_mask_set v) s) = pci s"
  by (simp_all add: mac_defs run_simps Let_def)

end
