(* ===== verification/Dpmaif_Hw.thy ===== *)
theory Dpmaif_Hw
  imports Pcie_Mac
begin

text \<open>
  The registers of the data path, \<open>t7xx_dpmaif.c\<close>: interrupt masks and status, the
  configuration of the downlink and uplink queues, the doorbells that hand descriptors to the
  device, and the stop sequences that poll for an idle device.
\<close>

section \<open>The hardware context\<close>

abbreviation (input) DPMAIF_DL_PIT_SEQ_VALUE :: u32 where "DPMAIF_DL_PIT_SEQ_VALUE \<equiv> 251"
abbreviation (input) DPMAIF_UL_DRB_SIZE_WORD :: u32 where "DPMAIF_UL_DRB_SIZE_WORD \<equiv> 4"
abbreviation (input) DPMAIF_MAX_CHECK_COUNT :: nat where "DPMAIF_MAX_CHECK_COUNT \<equiv> 1000000"
abbreviation (input) DPMAIF_CHECK_TIMEOUT_US :: u64 where "DPMAIF_CHECK_TIMEOUT_US \<equiv> 10000"
abbreviation (input) DPMAIF_CHECK_INIT_TIMEOUT_US :: u64 where "DPMAIF_CHECK_INIT_TIMEOUT_US \<equiv> 100000"
abbreviation (input) DPMAIF_CHECK_DELAY_US :: u64 where "DPMAIF_CHECK_DELAY_US \<equiv> 10"
abbreviation (input) DPMAIF_RXQ_NUM :: nat where "DPMAIF_RXQ_NUM \<equiv> 2"
abbreviation (input) DPMAIF_TXQ_NUM :: nat where "DPMAIF_TXQ_NUM \<equiv> 5"

record dpmaif_isr_en_mask =
  ap_ul_l2intr_en_msk :: u32
  ap_dl_l2intr_en_msk :: u32
  ap_udl_ip_busy_en_msk :: u32
  ap_dl_l2intr_err_en_msk :: u32

record dpmaif_ul =
  ul_started :: bool
  ul_drb_base :: dma_addr
  ul_drb_size_cnt :: u32

record dpmaif_dl =
  dl_started :: bool
  dl_pit_base :: dma_addr
  dl_pit_size_cnt :: u32
  dl_bat_base :: dma_addr
  dl_bat_size_cnt :: u32
  dl_frg_base :: dma_addr
  dl_frg_size_cnt :: u32

record dpmaif_hw_info =
  pcie_base :: iomem
  dl_que :: "nat \<Rightarrow> dpmaif_dl"
  ul_que :: "nat \<Rightarrow> dpmaif_ul"
  isr_en_mask :: dpmaif_isr_en_mask

record dpmaif_hw_params =
  par_drb_base_addr :: "nat \<Rightarrow> dma_addr"
  par_drb_size_cnt :: "nat \<Rightarrow> u32"
  par_pkt_bat_base_addr :: "nat \<Rightarrow> dma_addr"
  par_pkt_bat_size_cnt :: "nat \<Rightarrow> u32"
  par_frg_bat_base_addr :: "nat \<Rightarrow> dma_addr"
  par_frg_bat_size_cnt :: "nat \<Rightarrow> u32"
  par_pit_base_addr :: "nat \<Rightarrow> dma_addr"
  par_pit_size_cnt :: "nat \<Rightarrow> u32"

record dpmaif_hw = t7xx +
  hw_info :: dpmaif_hw_info

abbreviation (input) DPMAIF_HW_BAT_REMAIN :: u32 where "DPMAIF_HW_BAT_REMAIN \<equiv> 64"
abbreviation (input) DPMAIF_HW_BAT_PKTBUF :: u32 where "DPMAIF_HW_BAT_PKTBUF \<equiv> 128 * 28"
abbreviation (input) DPMAIF_HW_FRG_PKTBUF :: u32 where "DPMAIF_HW_FRG_PKTBUF \<equiv> 128"
abbreviation (input) DPMAIF_HW_BAT_RSVLEN :: u32 where "DPMAIF_HW_BAT_RSVLEN \<equiv> 64"
abbreviation (input) DPMAIF_HW_PKT_BIDCNT :: u32 where "DPMAIF_HW_PKT_BIDCNT \<equiv> 1"
abbreviation (input) DPMAIF_HW_MTU_SIZE :: u32 where "DPMAIF_HW_MTU_SIZE \<equiv> 3 * 1024 + 8"
abbreviation (input) DPMAIF_HW_CHK_BAT_NUM :: u32 where "DPMAIF_HW_CHK_BAT_NUM \<equiv> 62"
abbreviation (input) DPMAIF_HW_CHK_FRG_NUM :: u32 where "DPMAIF_HW_CHK_FRG_NUM \<equiv> 3"
abbreviation (input) DPMAIF_HW_CHK_PIT_NUM :: u32 where "DPMAIF_HW_CHK_PIT_NUM \<equiv> 2 * DPMAIF_HW_CHK_BAT_NUM"

section \<open>Interrupt types\<close>

abbreviation (input) DP_UL_INT_DONE_OFFSET :: nat where "DP_UL_INT_DONE_OFFSET \<equiv> 0"
abbreviation (input) DP_UL_INT_QDONE_MSK :: field where "DP_UL_INT_QDONE_MSK \<equiv> (4, 0)"
abbreviation (input) DP_UL_INT_EMPTY_MSK :: field where "DP_UL_INT_EMPTY_MSK \<equiv> (9, 5)"
abbreviation (input) DP_UL_INT_MD_NOTREADY_MSK :: field where "DP_UL_INT_MD_NOTREADY_MSK \<equiv> (14, 10)"
abbreviation (input) DP_UL_INT_MD_PWR_NOTREADY_MSK :: field where
  "DP_UL_INT_MD_PWR_NOTREADY_MSK \<equiv> (19, 15)"
abbreviation (input) DP_UL_INT_ERR_MSK :: field where "DP_UL_INT_ERR_MSK \<equiv> (24, 20)"
abbreviation (input) DP_DL_INT_QDONE_MSK :: u32 where "DP_DL_INT_QDONE_MSK \<equiv> BIT 0"
abbreviation (input) DP_DL_INT_SKB_LEN_ERR :: u32 where "DP_DL_INT_SKB_LEN_ERR \<equiv> BIT 1"
abbreviation (input) DP_DL_INT_BATCNT_LEN_ERR :: u32 where "DP_DL_INT_BATCNT_LEN_ERR \<equiv> BIT 2"
abbreviation (input) DP_DL_INT_PITCNT_LEN_ERR :: u32 where "DP_DL_INT_PITCNT_LEN_ERR \<equiv> BIT 3"
abbreviation (input) DP_DL_INT_PKT_EMPTY_MSK :: u32 where "DP_DL_INT_PKT_EMPTY_MSK \<equiv> BIT 4"
abbreviation (input) DP_DL_INT_FRG_EMPTY_MSK :: u32 where "DP_DL_INT_FRG_EMPTY_MSK \<equiv> BIT 5"
abbreviation (input) DP_DL_INT_MTU_ERR_MSK :: u32 where "DP_DL_INT_MTU_ERR_MSK \<equiv> BIT 6"
abbreviation (input) DP_DL_INT_FRG_LEN_ERR_MSK :: u32 where "DP_DL_INT_FRG_LEN_ERR_MSK \<equiv> BIT 7"
abbreviation (input) DP_DL_INT_Q0_PITCNT_LEN_ERR :: u32 where "DP_DL_INT_Q0_PITCNT_LEN_ERR \<equiv> BIT 8"
abbreviation (input) DP_DL_INT_Q1_PITCNT_LEN_ERR :: u32 where "DP_DL_INT_Q1_PITCNT_LEN_ERR \<equiv> BIT 9"
abbreviation (input) DP_DL_INT_HPC_ENT_TYPE_ERR :: u32 where "DP_DL_INT_HPC_ENT_TYPE_ERR \<equiv> BIT 10"
abbreviation (input) DP_DL_INT_Q0_DONE :: u32 where "DP_DL_INT_Q0_DONE \<equiv> BIT 13"
abbreviation (input) DP_DL_INT_Q1_DONE :: u32 where "DP_DL_INT_Q1_DONE \<equiv> BIT 14"
abbreviation (input) DP_DL_Q0_STATUS_MASK :: u32 where
  "DP_DL_Q0_STATUS_MASK \<equiv> DP_DL_INT_Q0_PITCNT_LEN_ERR OR DP_DL_INT_Q0_DONE"
abbreviation (input) DP_DL_Q1_STATUS_MASK :: u32 where
  "DP_DL_Q1_STATUS_MASK \<equiv> DP_DL_INT_Q1_PITCNT_LEN_ERR OR DP_DL_INT_Q1_DONE"

datatype dpmaif_hw_intr_type =
    DPF_INTR_INVALID_MIN | DPF_INTR_UL_DONE | DPF_INTR_UL_DRB_EMPTY | DPF_INTR_UL_MD_NOTREADY
  | DPF_INTR_UL_MD_PWR_NOTREADY | DPF_INTR_UL_LEN_ERR | DPF_INTR_DL_DONE
  | DPF_INTR_DL_SKB_LEN_ERR | DPF_INTR_DL_BATCNT_LEN_ERR | DPF_INTR_DL_PITCNT_LEN_ERR
  | DPF_INTR_DL_PKT_EMPTY_SET | DPF_INTR_DL_FRG_EMPTY_SET | DPF_INTR_DL_MTU_ERR
  | DPF_INTR_DL_FRGCNT_LEN_ERR | DPF_INTR_DL_Q0_PITCNT_LEN_ERR | DPF_INTR_DL_Q1_PITCNT_LEN_ERR
  | DPF_INTR_DL_HPC_ENT_TYPE_ERR | DPF_INTR_DL_Q0_DONE | DPF_INTR_DL_Q1_DONE

text \<open>The number of \<open>DPF_INTR_INVALID_MAX\<close>, one more than the last type's.\<close>

abbreviation (input) DPF_INTR_INVALID_MAX :: nat where "DPF_INTR_INVALID_MAX \<equiv> 19"

abbreviation (input) DPF_RX_QNO0 :: nat where "DPF_RX_QNO0 \<equiv> 0"
abbreviation (input) DPF_RX_QNO1 :: nat where "DPF_RX_QNO1 \<equiv> 1"
abbreviation (input) DPF_RX_QNO_DFT :: nat where "DPF_RX_QNO_DFT \<equiv> DPF_RX_QNO0"

text \<open>
  The interrupts found by one reading of the status. The two arrays have
  \<open>DPF_INTR_INVALID_MAX - 1\<close> elements; \<open>intr_oob\<close> is set by a write past their end, which in
  C destroys what lies behind them.
\<close>

record dpmaif_hw_intr_st_para =
  intr_cnt :: nat
  intr_types :: "dpmaif_hw_intr_type list"
  intr_queues :: "u32 list"
  intr_oob :: bool

definition intr_para_zero :: dpmaif_hw_intr_st_para where
  "intr_para_zero =
     \<lparr>intr_cnt = 0, intr_types = replicate (DPF_INTR_INVALID_MAX - 1) DPF_INTR_INVALID_MIN,
      intr_queues = replicate (DPF_INTR_INVALID_MAX - 1) 0, intr_oob = False\<rparr>"

section \<open>Register access at the base of the data path\<close>

definition get_hw :: "(dpmaif_hw_info \<Rightarrow> 'a) \<Rightarrow> ('z dpmaif_hw_scheme, 'a) state" where
  "get_hw f = gets (\<lambda>s. f (hw_info s))"

definition upd_hw ::
  "(dpmaif_hw_info \<Rightarrow> dpmaif_hw_info) \<Rightarrow> ('z dpmaif_hw_scheme, unit) state" where
  "upd_hw f = modify (\<lambda>s. s\<lparr>hw_info := f (hw_info s)\<rparr>)"

definition hw_read :: "iomem \<Rightarrow> ('z dpmaif_hw_scheme, u32) state" where
  "hw_read r = do { b \<leftarrow> get_hw pcie_base; ioread32 (b + r) }"

definition hw_write :: "u32 \<Rightarrow> iomem \<Rightarrow> ('z dpmaif_hw_scheme, unit) state" where
  "hw_write v r = do { b \<leftarrow> get_hw pcie_base; iowrite32 v (b + r) }"

text \<open>Read a register, change the value, write it back.\<close>

definition hw_change :: "iomem \<Rightarrow> (u32 \<Rightarrow> u32) \<Rightarrow> ('z dpmaif_hw_scheme, unit) state" where
  "hw_change r f = do { v \<leftarrow> hw_read r; hw_write (f v) r }"

definition hw_poll ::
  "iomem \<Rightarrow> (u32 \<Rightarrow> bool) \<Rightarrow> u64 \<Rightarrow> u64 \<Rightarrow> ('z dpmaif_hw_scheme, errno + unit) state" where
  "hw_poll r ok delay timeout = do {
     b \<leftarrow> get_hw pcie_base;
     ioread32_poll_timeout (b + r) ok delay timeout
   }"

definition upd_isr_mask ::
  "(dpmaif_isr_en_mask \<Rightarrow> dpmaif_isr_en_mask) \<Rightarrow> ('z dpmaif_hw_scheme, unit) state" where
  "upd_isr_mask f = upd_hw (\<lambda>h. h\<lparr>isr_en_mask := f (isr_en_mask h)\<rparr>)"

section \<open>Interrupt masks\<close>

definition t7xx_dpmaif_init_intr :: "('z dpmaif_hw_scheme, errno + unit) state" where
  "t7xx_dpmaif_init_intr = do {
     let ul_intr_enable = FMASK DP_UL_INT_ERR_MSK OR FMASK DP_UL_INT_QDONE_MSK;
     upd_isr_mask (\<lambda>m. m\<lparr>ap_ul_l2intr_en_msk := ul_intr_enable\<rparr>);
     hw_write DPMAIF_AP_ALL_L2TISAR0_MASK DPMAIF_AP_L2TISAR0;
     hw_write ul_intr_enable DPMAIF_AO_UL_AP_L2TIMCR0;
     hw_write (NOT ul_intr_enable) DPMAIF_AO_UL_AP_L2TIMSR0;
     ret \<leftarrow> hw_poll DPMAIF_AO_UL_AP_L2TIMR0 (\<lambda>v. v AND ul_intr_enable \<noteq> ul_intr_enable)
              0 DPMAIF_CHECK_INIT_TIMEOUT_US;
     if isl ret then return ret else do {
       upd_isr_mask (\<lambda>m. m\<lparr>ap_dl_l2intr_err_en_msk :=
         DP_DL_INT_PITCNT_LEN_ERR OR DP_DL_INT_BATCNT_LEN_ERR\<rparr>);
       let dl_intr_enable = DPMAIF_DL_INT_DLQ0_QDONE OR DPMAIF_DL_INT_DLQ0_PITCNT_LEN
                              OR DPMAIF_DL_INT_DLQ1_QDONE OR DPMAIF_DL_INT_DLQ1_PITCNT_LEN;
       upd_isr_mask (\<lambda>m. m\<lparr>ap_ul_l2intr_en_msk := dl_intr_enable\<rparr>);
       hw_write DPMAIF_AP_APDL_ALL_L2TISAR0_MASK DPMAIF_AP_APDL_L2TISAR0;
       hw_write (NOT dl_intr_enable) DPMAIF_AO_UL_APDL_L2TIMSR0;
       ret \<leftarrow> hw_poll DPMAIF_AO_UL_APDL_L2TIMR0 (\<lambda>v. v AND dl_intr_enable \<noteq> dl_intr_enable)
                0 DPMAIF_CHECK_INIT_TIMEOUT_US;
       if isl ret then return ret else do {
         upd_isr_mask (\<lambda>m. m\<lparr>ap_udl_ip_busy_en_msk := DPMAIF_UDL_IP_BUSY\<rparr>);
         hw_write DPMAIF_AP_IP_BUSY_MASK DPMAIF_AP_IP_BUSY;
         hw_write DPMAIF_UDL_IP_BUSY DPMAIF_AO_AP_DLUL_IP_BUSY_MASK;
         hw_change DPMAIF_AO_UL_AP_L1TIMR0
           (\<lambda>v. v OR (DPMAIF_DL_INT_Q2APTOP OR DPMAIF_DL_INT_Q2TOQ1));
         hw_write DPMA_HPC_ALL_INT_MASK DPMAIF_HPC_INTR_MASK;
         return (Inr ())
       }
     }
   }"

definition ul_int_que_done :: "nat \<Rightarrow> u32" where
  "ul_int_que_done q = BIT (q + DP_UL_INT_DONE_OFFSET) AND FMASK DP_UL_INT_QDONE_MSK"

definition t7xx_dpmaif_mask_ulq_intr :: "nat \<Rightarrow> ('z dpmaif_hw_scheme, unit) state" where
  "t7xx_dpmaif_mask_ulq_intr q_num = do {
     let qdone = ul_int_que_done q_num;
     upd_isr_mask (\<lambda>m. m\<lparr>ap_ul_l2intr_en_msk := ap_ul_l2intr_en_msk m AND NOT qdone\<rparr>);
     hw_write qdone DPMAIF_AO_UL_AP_L2TIMSR0;
     hw_poll DPMAIF_AO_UL_AP_L2TIMR0 (\<lambda>v. v AND qdone = qdone) 0 DPMAIF_CHECK_TIMEOUT_US;
     return ()
   }"

definition t7xx_dpmaif_unmask_ulq_intr :: "nat \<Rightarrow> ('z dpmaif_hw_scheme, unit) state" where
  "t7xx_dpmaif_unmask_ulq_intr q_num = do {
     let qdone = ul_int_que_done q_num;
     upd_isr_mask (\<lambda>m. m\<lparr>ap_ul_l2intr_en_msk := ap_ul_l2intr_en_msk m OR qdone\<rparr>);
     hw_write qdone DPMAIF_AO_UL_AP_L2TIMCR0;
     hw_poll DPMAIF_AO_UL_AP_L2TIMR0 (\<lambda>v. v AND qdone \<noteq> qdone) 0 DPMAIF_CHECK_TIMEOUT_US;
     return ()
   }"

definition t7xx_dpmaif_dl_unmask_batcnt_len_err_intr :: "('z dpmaif_hw_scheme, unit) state" where
  "t7xx_dpmaif_dl_unmask_batcnt_len_err_intr = do {
     upd_isr_mask (\<lambda>m. m\<lparr>ap_dl_l2intr_en_msk :=
       ap_dl_l2intr_en_msk m OR DP_DL_INT_BATCNT_LEN_ERR\<rparr>);
     hw_write DP_DL_INT_BATCNT_LEN_ERR DPMAIF_AO_UL_APDL_L2TIMCR0
   }"

definition t7xx_dpmaif_dl_unmask_pitcnt_len_err_intr :: "('z dpmaif_hw_scheme, unit) state" where
  "t7xx_dpmaif_dl_unmask_pitcnt_len_err_intr = do {
     upd_isr_mask (\<lambda>m. m\<lparr>ap_dl_l2intr_en_msk :=
       ap_dl_l2intr_en_msk m OR DP_DL_INT_PITCNT_LEN_ERR\<rparr>);
     hw_write DP_DL_INT_PITCNT_LEN_ERR DPMAIF_AO_UL_APDL_L2TIMCR0
   }"

definition t7xx_update_dlq_intr :: "u32 \<Rightarrow> ('z dpmaif_hw_scheme, u32) state" where
  "t7xx_update_dlq_intr q_done = do {
     v \<leftarrow> hw_read DPMAIF_AO_UL_AP_L2TIMR0;
     hw_write q_done DPMAIF_AO_UL_APDL_L2TIMSR0;
     return v
   }"

definition dlq_qdone :: "nat \<Rightarrow> u32" where
  "dlq_qdone qno = (if qno = DPF_RX_QNO0 then DPMAIF_DL_INT_DLQ0_QDONE else DPMAIF_DL_INT_DLQ1_QDONE)"

definition t7xx_mask_dlq_intr :: "nat \<Rightarrow> ('z dpmaif_hw_scheme, errno + unit) state" where
  "t7xx_mask_dlq_intr qno = do {
     let q_done = dlq_qdone qno;
     hw_write q_done DPMAIF_AO_UL_APDL_L2TIMSR0;
     ret \<leftarrow> read_poll_timeout (t7xx_update_dlq_intr q_done) (\<lambda>v. v AND q_done \<noteq> 0)
              0 DPMAIF_CHECK_TIMEOUT_US;
     if isl ret then return (Inl ETIMEDOUT) else do {
       upd_isr_mask (\<lambda>m. m\<lparr>ap_dl_l2intr_en_msk := ap_dl_l2intr_en_msk m AND NOT q_done\<rparr>);
       return (Inr ())
     }
   }"

definition t7xx_dpmaif_dlq_unmask_rx_done :: "nat \<Rightarrow> ('z dpmaif_hw_scheme, unit) state" where
  "t7xx_dpmaif_dlq_unmask_rx_done qno = do {
     hw_write (dlq_qdone qno) DPMAIF_AO_UL_APDL_L2TIMCR0;
     upd_isr_mask (\<lambda>m. m\<lparr>ap_dl_l2intr_en_msk := ap_dl_l2intr_en_msk m OR dlq_qdone qno\<rparr>)
   }"

definition t7xx_dpmaif_clr_ip_busy_sts :: "('z dpmaif_hw_scheme, unit) state" where
  "t7xx_dpmaif_clr_ip_busy_sts = hw_change DPMAIF_AP_IP_BUSY (\<lambda>v. v)"

definition dlq_pitcnt_len :: "nat \<Rightarrow> u32" where
  "dlq_pitcnt_len qno =
     (if qno = DPF_RX_QNO0 then DPMAIF_DL_INT_DLQ0_PITCNT_LEN else DPMAIF_DL_INT_DLQ1_PITCNT_LEN)"

definition t7xx_dpmaif_dlq_mask_rx_pitcnt_len_err_intr ::
  "nat \<Rightarrow> ('z dpmaif_hw_scheme, unit) state" where
  "t7xx_dpmaif_dlq_mask_rx_pitcnt_len_err_intr qno =
     hw_write (dlq_pitcnt_len qno) DPMAIF_AO_UL_APDL_L2TIMSR0"

definition t7xx_dpmaif_dlq_unmask_pitcnt_len_err_intr ::
  "nat \<Rightarrow> ('z dpmaif_hw_scheme, unit) state" where
  "t7xx_dpmaif_dlq_unmask_pitcnt_len_err_intr qno =
     hw_write (dlq_pitcnt_len qno) DPMAIF_AO_UL_APDL_L2TIMCR0"

definition t7xx_dpmaif_ul_clr_all_intr :: "('z dpmaif_hw_scheme, unit) state" where
  "t7xx_dpmaif_ul_clr_all_intr = hw_write DPMAIF_AP_ALL_L2TISAR0_MASK DPMAIF_AP_L2TISAR0"

definition t7xx_dpmaif_dl_clr_all_intr :: "('z dpmaif_hw_scheme, unit) state" where
  "t7xx_dpmaif_dl_clr_all_intr =
     hw_write DPMAIF_AP_APDL_ALL_L2TISAR0_MASK DPMAIF_AP_APDL_L2TISAR0"

section \<open>Interrupt status\<close>

definition t7xx_dpmaif_set_intr_para ::
  "dpmaif_hw_intr_type \<Rightarrow> u32 \<Rightarrow> dpmaif_hw_intr_st_para \<Rightarrow> dpmaif_hw_intr_st_para" where
  "t7xx_dpmaif_set_intr_para ty q p =
     p\<lparr>intr_types := (intr_types p)[intr_cnt p := ty],
       intr_queues := (intr_queues p)[intr_cnt p := q],
       intr_oob := intr_oob p \<or> intr_cnt p \<ge> length (intr_types p),
       intr_cnt := Suc (intr_cnt p)\<rparr>"

text \<open>Record an interrupt when its status is set.\<close>

definition note_intr ::
  "bool \<Rightarrow> dpmaif_hw_intr_type \<Rightarrow> u32 \<Rightarrow> dpmaif_hw_intr_st_para \<Rightarrow> dpmaif_hw_intr_st_para" where
  "note_intr b ty q p = (if b then t7xx_dpmaif_set_intr_para ty q p else p)"

definition t7xx_dpmaif_hw_check_tx_intr ::
  "u32 \<Rightarrow> dpmaif_hw_intr_st_para \<Rightarrow> ('z dpmaif_hw_scheme, dpmaif_hw_intr_st_para) state" where
  "t7xx_dpmaif_hw_check_tx_intr intr_status para = do {
     let qdone = FIELD_GET DP_UL_INT_QDONE_MSK intr_status;
     let para = note_intr (qdone \<noteq> 0) DPF_INTR_UL_DONE qdone para;
     for_each (filter (bit qdone) [0..<DPMAIF_TXQ_NUM]) t7xx_dpmaif_mask_ulq_intr;
     let v = FIELD_GET DP_UL_INT_EMPTY_MSK intr_status;
     let para = note_intr (v \<noteq> 0) DPF_INTR_UL_DRB_EMPTY v para;
     let v = FIELD_GET DP_UL_INT_MD_NOTREADY_MSK intr_status;
     let para = note_intr (v \<noteq> 0) DPF_INTR_UL_MD_NOTREADY v para;
     let v = FIELD_GET DP_UL_INT_MD_PWR_NOTREADY_MSK intr_status;
     let para = note_intr (v \<noteq> 0) DPF_INTR_UL_MD_PWR_NOTREADY v para;
     let v = FIELD_GET DP_UL_INT_ERR_MSK intr_status;
     let para = note_intr (v \<noteq> 0) DPF_INTR_UL_LEN_ERR v para;
     hw_write intr_status DPMAIF_AP_L2TISAR0;
     return para
   }"

text \<open>The end of a queue's packet: mask the interrupt, and keep its status when that fails.\<close>

definition check_rx_done ::
  "dpmaif_hw_intr_type \<Rightarrow> u32 \<Rightarrow> nat \<Rightarrow> u32 \<Rightarrow> dpmaif_hw_intr_st_para \<Rightarrow>
     ('z dpmaif_hw_scheme, u32 \<times> dpmaif_hw_intr_st_para) state" where
  "check_rx_done ty msk qno intr_status para =
     (if intr_status AND msk = 0 then return (intr_status, para) else do {
        ret \<leftarrow> t7xx_mask_dlq_intr qno;
        if isl ret then return (intr_status AND NOT msk, para)
        else return (intr_status, t7xx_dpmaif_set_intr_para ty (BIT qno) para)
      })"

definition t7xx_dpmaif_hw_check_rx_intr ::
  "u32 \<Rightarrow> dpmaif_hw_intr_st_para \<Rightarrow> nat \<Rightarrow> ('z dpmaif_hw_scheme, dpmaif_hw_intr_st_para) state"
where
  "t7xx_dpmaif_hw_check_rx_intr intr_status para qno = do {
     let on = (\<lambda>m. intr_status AND m \<noteq> 0);
     let dft = of_nat DPF_RX_QNO_DFT;
     (intr_status, para) \<leftarrow>
       (if qno = DPF_RX_QNO_DFT then do {
          let para = note_intr (on DP_DL_INT_SKB_LEN_ERR) DPF_INTR_DL_SKB_LEN_ERR dft para;
          let para = note_intr (on DP_DL_INT_BATCNT_LEN_ERR) DPF_INTR_DL_BATCNT_LEN_ERR dft para;
          c_when (on DP_DL_INT_BATCNT_LEN_ERR) (do {
            upd_isr_mask (\<lambda>m. m\<lparr>ap_dl_l2intr_en_msk :=
              ap_dl_l2intr_en_msk m AND NOT DP_DL_INT_BATCNT_LEN_ERR\<rparr>);
            hw_write DP_DL_INT_BATCNT_LEN_ERR DPMAIF_AO_UL_APDL_L2TIMSR0
          });
          let para = note_intr (on DP_DL_INT_PITCNT_LEN_ERR) DPF_INTR_DL_PITCNT_LEN_ERR dft para;
          c_when (on DP_DL_INT_PITCNT_LEN_ERR) (do {
            upd_isr_mask (\<lambda>m. m\<lparr>ap_dl_l2intr_en_msk :=
              ap_dl_l2intr_en_msk m AND NOT DP_DL_INT_PITCNT_LEN_ERR\<rparr>);
            hw_write DP_DL_INT_PITCNT_LEN_ERR DPMAIF_AO_UL_APDL_L2TIMSR0
          });
          let para = note_intr (on DP_DL_INT_PKT_EMPTY_MSK) DPF_INTR_DL_PKT_EMPTY_SET dft para;
          let para = note_intr (on DP_DL_INT_FRG_EMPTY_MSK) DPF_INTR_DL_FRG_EMPTY_SET dft para;
          let para = note_intr (on DP_DL_INT_MTU_ERR_MSK) DPF_INTR_DL_MTU_ERR dft para;
          let para = note_intr (on DP_DL_INT_FRG_LEN_ERR_MSK) DPF_INTR_DL_FRGCNT_LEN_ERR dft para;
          let para = note_intr (on DP_DL_INT_Q0_PITCNT_LEN_ERR) DPF_INTR_DL_Q0_PITCNT_LEN_ERR
                       (BIT qno) para;
          c_when (on DP_DL_INT_Q0_PITCNT_LEN_ERR) (t7xx_dpmaif_dlq_mask_rx_pitcnt_len_err_intr qno);
          let para = note_intr (on DP_DL_INT_HPC_ENT_TYPE_ERR) DPF_INTR_DL_HPC_ENT_TYPE_ERR dft para;
          check_rx_done DPF_INTR_DL_Q0_DONE DP_DL_INT_Q0_DONE qno intr_status para
        } else do {
          let para = note_intr (on DP_DL_INT_Q1_PITCNT_LEN_ERR) DPF_INTR_DL_Q1_PITCNT_LEN_ERR
                       (BIT qno) para;
          c_when (on DP_DL_INT_Q1_PITCNT_LEN_ERR) (t7xx_dpmaif_dlq_mask_rx_pitcnt_len_err_intr qno);
          check_rx_done DPF_INTR_DL_Q1_DONE DP_DL_INT_Q1_DONE qno intr_status para
        });
     hw_write (intr_status OR DP_DL_INT_BATCNT_LEN_ERR) DPMAIF_AP_APDL_L2TISAR0;
     return para
   }"

text \<open>The receive status a queue looks at: its own two bits, without an end that is masked.\<close>

definition rx_status_of :: "nat \<Rightarrow> u32 \<Rightarrow> u32 \<Rightarrow> u32" where
  "rx_status_of qno rx_intr_status rx_intr_qdone =
     (if qno = DPF_RX_QNO0 then
        (let v = rx_intr_status AND DP_DL_Q0_STATUS_MASK in
         if rx_intr_qdone AND DPMAIF_DL_INT_DLQ0_QDONE \<noteq> 0 then v AND NOT DP_DL_INT_Q0_DONE else v)
      else
        (let v = rx_intr_status AND DP_DL_Q1_STATUS_MASK in
         if rx_intr_qdone AND DPMAIF_DL_INT_DLQ1_QDONE \<noteq> 0 then v AND NOT DP_DL_INT_Q1_DONE else v))"

definition t7xx_dpmaif_hw_get_intr_cnt ::
  "dpmaif_hw_intr_st_para \<Rightarrow> nat \<Rightarrow> ('z dpmaif_hw_scheme, dpmaif_hw_intr_st_para) state" where
  "t7xx_dpmaif_hw_get_intr_cnt para qno = do {
     rx_intr_status \<leftarrow> hw_read DPMAIF_AP_APDL_L2TISAR0;
     rx_intr_qdone \<leftarrow> hw_read DPMAIF_AO_UL_APDL_L2TIMR0;
     (tx_intr_status, tx_intr_qdone) \<leftarrow>
       (if qno = DPF_RX_QNO_DFT then do {
          a \<leftarrow> hw_read DPMAIF_AP_L2TISAR0;
          b \<leftarrow> hw_read DPMAIF_AO_UL_AP_L2TIMR0;
          return (a, b)
        } else return (0, 0));
     t7xx_dpmaif_clr_ip_busy_sts;
     para \<leftarrow>
       (let tx = tx_intr_status AND NOT tx_intr_qdone in
        if qno = DPF_RX_QNO_DFT \<and> tx \<noteq> 0 then t7xx_dpmaif_hw_check_tx_intr tx para
        else return para);
     let rx = rx_status_of qno rx_intr_status rx_intr_qdone;
     if rx_intr_status \<noteq> 0 \<and> rx \<noteq> 0 then t7xx_dpmaif_hw_check_rx_intr rx para qno
     else return para
   }"

end
