(* ===== verification/Dpmaif_Config.thy ===== *)
theory Dpmaif_Config
  imports Dpmaif_Hw
begin

text \<open>
  Configuration of the data path's hardware, the rest of \<open>t7xx_dpmaif.c\<close>: reset and memory
  initialisation, the settings of the downlink (BAT, fragment BAT and PIT tables) and of the
  uplink queues (DRB tables), the registers that pass counts of descriptors to the device and
  read its indices, and starting and stopping all queues.
\<close>

section \<open>Reset and port mode\<close>

definition t7xx_dpmaif_sram_init :: "('z dpmaif_hw_scheme, errno + unit) state" where
  "t7xx_dpmaif_sram_init = do {
     hw_change DPMAIF_AP_MEM_CLR (\<lambda>v. v OR DPMAIF_MEM_CLR);
     hw_poll DPMAIF_AP_MEM_CLR (\<lambda>v. v AND DPMAIF_MEM_CLR = 0) 0 DPMAIF_CHECK_INIT_TIMEOUT_US
   }"

definition t7xx_dpmaif_hw_reset :: "('z dpmaif_hw_scheme, unit) state" where
  "t7xx_dpmaif_hw_reset = do {
     hw_write DPMAIF_AP_AO_RST_BIT DPMAIF_AP_AO_RGU_ASSERT;
     kcall ''udelay'' [2];
     hw_write DPMAIF_AP_RST_BIT DPMAIF_AP_RGU_ASSERT;
     kcall ''udelay'' [2];
     hw_write DPMAIF_AP_AO_RST_BIT DPMAIF_AP_AO_RGU_DEASSERT;
     kcall ''udelay'' [2];
     hw_write DPMAIF_AP_RST_BIT DPMAIF_AP_RGU_DEASSERT;
     kcall ''udelay'' [2]
   }"

definition t7xx_dpmaif_hw_config :: "('z dpmaif_hw_scheme, errno + unit) state" where
  "t7xx_dpmaif_hw_config = do {
     t7xx_dpmaif_hw_reset;
     ret \<leftarrow> t7xx_dpmaif_sram_init;
     if isl ret then return ret else do {
       hw_change DPMAIF_AO_DL_RDY_CHK_THRES (\<lambda>v. v OR DPMAIF_PORT_MODE_PCIE);
       hw_write DPMAIF_CG_EN DPMAIF_AP_CG_EN;
       return (Inr ())
     }
   }"

definition t7xx_dpmaif_pcie_dpmaif_sign :: "('z dpmaif_hw_scheme, unit) state" where
  "t7xx_dpmaif_pcie_dpmaif_sign = hw_write DPMAIF_PCIE_MODE_SET_VALUE DPMAIF_UL_RESERVE_AO_RW"

definition t7xx_dpmaif_dl_performance :: "('z dpmaif_hw_scheme, unit) state" where
  "t7xx_dpmaif_dl_performance = do {
     hw_change DPMAIF_DL_BAT_INIT_CON1 (\<lambda>v. v OR DPMAIF_DL_BAT_CACHE_PRI);
     hw_change DPMAIF_AO_DL_RDY_CHK_THRES (\<lambda>v. v OR DPMAIF_DL_BURST_PIT_EN)
   }"

section \<open>Downlink queues\<close>

definition t7xx_dpmaif_hw_hpc_cntl_set :: "('z dpmaif_hw_scheme, unit) state" where
  "t7xx_dpmaif_hw_hpc_cntl_set =
     hw_write (DPMAIF_HPC_DLQ_PATH_MODE OR push_bit 2 DPMAIF_HPC_ADD_MODE_DF
                 OR push_bit 4 DPMAIF_HASH_PRIME_DF OR push_bit 8 DPMAIF_HPC_TOTAL_NUM)
       DPMAIF_AO_DL_HPC_CNTL"

definition t7xx_dpmaif_hw_agg_cfg_set :: "('z dpmaif_hw_scheme, unit) state" where
  "t7xx_dpmaif_hw_agg_cfg_set =
     hw_write (DPMAIF_AGG_MAX_LEN_DF OR push_bit 16 DPMAIF_AGG_TBL_ENT_NUM_DF)
       DPMAIF_AO_DL_DLQ_AGG_CFG"

definition t7xx_dpmaif_hw_hash_bit_choose_set :: "('z dpmaif_hw_scheme, unit) state" where
  "t7xx_dpmaif_hw_hash_bit_choose_set =
     hw_write DPMAIF_DLQ_HASH_BIT_CHOOSE_DF DPMAIF_AO_DL_DLQPIT_INIT_CON5"

definition t7xx_dpmaif_hw_mid_pit_timeout_thres_set :: "('z dpmaif_hw_scheme, unit) state" where
  "t7xx_dpmaif_hw_mid_pit_timeout_thres_set =
     hw_write DPMAIF_MID_TIMEOUT_THRES_DF DPMAIF_AO_DL_DLQPIT_TIMEOUT0"

definition t7xx_dpmaif_hw_dlq_timeout_thres_set :: "('z dpmaif_hw_scheme, unit) state" where
  "t7xx_dpmaif_hw_dlq_timeout_thres_set =
     for_each [0..<DPMAIF_HPC_MAX_TOTAL_NUM div 2] (\<lambda>i.
       hw_write (FIELD_PREP DPMAIF_DLQ_LOW_TIMEOUT_THRES_MKS DPMAIF_DLQ_TIMEOUT_THRES_DF
                   OR FIELD_PREP DPMAIF_DLQ_HIGH_TIMEOUT_THRES_MSK DPMAIF_DLQ_TIMEOUT_THRES_DF)
         (DPMAIF_AO_DL_DLQPIT_TIMEOUT1 + 4 * of_nat i))"

definition t7xx_dpmaif_hw_dlq_start_prs_thres_set :: "('z dpmaif_hw_scheme, unit) state" where
  "t7xx_dpmaif_hw_dlq_start_prs_thres_set =
     hw_write DPMAIF_DLQ_PRS_THRES_DF DPMAIF_AO_DL_DLQPIT_TRIG_THRES"

definition t7xx_dpmaif_dl_dlq_hpc_hw_init :: "('z dpmaif_hw_scheme, unit) state" where
  "t7xx_dpmaif_dl_dlq_hpc_hw_init = do {
     t7xx_dpmaif_hw_hpc_cntl_set;
     t7xx_dpmaif_hw_agg_cfg_set;
     t7xx_dpmaif_hw_hash_bit_choose_set;
     t7xx_dpmaif_hw_mid_pit_timeout_thres_set;
     t7xx_dpmaif_hw_dlq_timeout_thres_set;
     t7xx_dpmaif_hw_dlq_start_prs_thres_set
   }"

definition t7xx_dpmaif_dl_bat_init_done :: "bool \<Rightarrow> ('z dpmaif_hw_scheme, errno + unit) state" where
  "t7xx_dpmaif_dl_bat_init_done frg_en = do {
     let dl_bat_init = (if frg_en then DPMAIF_DL_BAT_FRG_INIT else 0)
                         OR DPMAIF_DL_BAT_INIT_ALLSET OR DPMAIF_DL_BAT_INIT_EN;
     ret \<leftarrow> hw_poll DPMAIF_DL_BAT_INIT (\<lambda>v. v AND DPMAIF_DL_BAT_INIT_NOT_READY = 0)
              0 DPMAIF_CHECK_INIT_TIMEOUT_US;
     if isl ret then return ret else do {
       hw_write dl_bat_init DPMAIF_DL_BAT_INIT;
       hw_poll DPMAIF_DL_BAT_INIT (\<lambda>v. v AND DPMAIF_DL_BAT_INIT_NOT_READY = 0)
         0 DPMAIF_CHECK_INIT_TIMEOUT_US
     }
   }"

definition t7xx_dpmaif_dl_set_bat_base_addr :: "dma_addr \<Rightarrow> ('z dpmaif_hw_scheme, unit) state" where
  "t7xx_dpmaif_dl_set_bat_base_addr addr = do {
     hw_write (lower_32_bits addr) DPMAIF_DL_BAT_INIT_CON0;
     hw_write (upper_32_bits addr) DPMAIF_DL_BAT_INIT_CON3
   }"

definition t7xx_dpmaif_dl_set_bat_size :: "u32 \<Rightarrow> ('z dpmaif_hw_scheme, unit) state" where
  "t7xx_dpmaif_dl_set_bat_size sz = hw_change DPMAIF_DL_BAT_INIT_CON1
     (\<lambda>v. v AND NOT DPMAIF_BAT_SIZE_MSK OR (sz AND DPMAIF_BAT_SIZE_MSK))"

definition t7xx_dpmaif_dl_bat_en :: "bool \<Rightarrow> ('z dpmaif_hw_scheme, unit) state" where
  "t7xx_dpmaif_dl_bat_en enable = hw_change DPMAIF_DL_BAT_INIT_CON1
     (\<lambda>v. if enable then v OR DPMAIF_BAT_EN_MSK else v AND NOT DPMAIF_BAT_EN_MSK)"

definition t7xx_dpmaif_dl_set_ao_bid_maxcnt :: "('z dpmaif_hw_scheme, unit) state" where
  "t7xx_dpmaif_dl_set_ao_bid_maxcnt = hw_change DPMAIF_AO_DL_PKTINFO_CON0
     (\<lambda>v. v AND NOT (FMASK DPMAIF_BAT_BID_MAXCNT_MSK)
            OR FIELD_PREP DPMAIF_BAT_BID_MAXCNT_MSK DPMAIF_HW_PKT_BIDCNT)"

definition t7xx_dpmaif_dl_set_ao_mtu :: "('z dpmaif_hw_scheme, unit) state" where
  "t7xx_dpmaif_dl_set_ao_mtu = hw_write DPMAIF_HW_MTU_SIZE DPMAIF_AO_DL_PKTINFO_CON1"

definition t7xx_dpmaif_dl_set_ao_pit_chknum :: "('z dpmaif_hw_scheme, unit) state" where
  "t7xx_dpmaif_dl_set_ao_pit_chknum = hw_change DPMAIF_AO_DL_PKTINFO_CON2
     (\<lambda>v. v AND NOT (FMASK DPMAIF_PIT_CHK_NUM_MSK)
            OR FIELD_PREP DPMAIF_PIT_CHK_NUM_MSK DPMAIF_HW_CHK_PIT_NUM)"

definition t7xx_dpmaif_dl_set_ao_remain_minsz :: "('z dpmaif_hw_scheme, unit) state" where
  "t7xx_dpmaif_dl_set_ao_remain_minsz = hw_change DPMAIF_AO_DL_PKTINFO_CON0
     (\<lambda>v. v AND NOT (FMASK DPMAIF_BAT_REMAIN_MINSZ_MSK)
            OR FIELD_PREP DPMAIF_BAT_REMAIN_MINSZ_MSK
                 (DPMAIF_HW_BAT_REMAIN div DPMAIF_BAT_REMAIN_SZ_BASE))"

definition t7xx_dpmaif_dl_set_ao_bat_bufsz :: "('z dpmaif_hw_scheme, unit) state" where
  "t7xx_dpmaif_dl_set_ao_bat_bufsz = hw_change DPMAIF_AO_DL_PKTINFO_CON2
     (\<lambda>v. v AND NOT (FMASK DPMAIF_BAT_BUF_SZ_MSK)
            OR FIELD_PREP DPMAIF_BAT_BUF_SZ_MSK
                 (DPMAIF_HW_BAT_PKTBUF div DPMAIF_BAT_BUFFER_SZ_BASE))"

definition t7xx_dpmaif_dl_set_ao_bat_rsv_length :: "('z dpmaif_hw_scheme, unit) state" where
  "t7xx_dpmaif_dl_set_ao_bat_rsv_length = hw_change DPMAIF_AO_DL_PKTINFO_CON2
     (\<lambda>v. v AND NOT DPMAIF_BAT_RSV_LEN_MSK OR DPMAIF_HW_BAT_RSVLEN)"

definition t7xx_dpmaif_dl_set_pkt_alignment :: "('z dpmaif_hw_scheme, unit) state" where
  "t7xx_dpmaif_dl_set_pkt_alignment = hw_change DPMAIF_AO_DL_RDY_CHK_THRES
     (\<lambda>v. v AND NOT DPMAIF_PKT_ALIGN_MSK OR DPMAIF_PKT_ALIGN_EN)"

definition t7xx_dpmaif_dl_set_pkt_checksum :: "('z dpmaif_hw_scheme, unit) state" where
  "t7xx_dpmaif_dl_set_pkt_checksum =
     hw_change DPMAIF_AO_DL_RDY_CHK_THRES (\<lambda>v. v OR DPMAIF_DL_PKT_CHECKSUM_EN)"

definition t7xx_dpmaif_dl_set_ao_frg_check_thres :: "('z dpmaif_hw_scheme, unit) state" where
  "t7xx_dpmaif_dl_set_ao_frg_check_thres = hw_change DPMAIF_AO_DL_RDY_CHK_FRG_THRES
     (\<lambda>v. v AND NOT DPMAIF_FRG_CHECK_THRES_MSK OR DPMAIF_HW_CHK_FRG_NUM)"

definition t7xx_dpmaif_dl_set_ao_frg_bufsz :: "('z dpmaif_hw_scheme, unit) state" where
  "t7xx_dpmaif_dl_set_ao_frg_bufsz = hw_change DPMAIF_AO_DL_RDY_CHK_FRG_THRES
     (\<lambda>v. v AND NOT (FMASK DPMAIF_FRG_BUF_SZ_MSK)
            OR FIELD_PREP DPMAIF_FRG_BUF_SZ_MSK
                 (DPMAIF_HW_FRG_PKTBUF div DPMAIF_FRG_BUFFER_SZ_BASE))"

definition t7xx_dpmaif_dl_frg_ao_en :: "bool \<Rightarrow> ('z dpmaif_hw_scheme, unit) state" where
  "t7xx_dpmaif_dl_frg_ao_en enable = hw_change DPMAIF_AO_DL_RDY_CHK_FRG_THRES
     (\<lambda>v. if enable then v OR DPMAIF_FRG_EN_MSK else v AND NOT DPMAIF_FRG_EN_MSK)"

definition t7xx_dpmaif_dl_set_ao_bat_check_thres :: "('z dpmaif_hw_scheme, unit) state" where
  "t7xx_dpmaif_dl_set_ao_bat_check_thres = hw_change DPMAIF_AO_DL_RDY_CHK_THRES
     (\<lambda>v. v AND NOT (FMASK DPMAIF_BAT_CHECK_THRES_MSK)
            OR FIELD_PREP DPMAIF_BAT_CHECK_THRES_MSK DPMAIF_HW_CHK_BAT_NUM)"

definition t7xx_dpmaif_dl_set_pit_seqnum :: "('z dpmaif_hw_scheme, unit) state" where
  "t7xx_dpmaif_dl_set_pit_seqnum = hw_change DPMAIF_AO_DL_PIT_SEQ_END
     (\<lambda>v. v AND NOT DPMAIF_DL_PIT_SEQ_MSK OR DPMAIF_DL_PIT_SEQ_VALUE)"

definition t7xx_dpmaif_dl_set_dlq_pit_base_addr ::
  "dma_addr \<Rightarrow> ('z dpmaif_hw_scheme, unit) state" where
  "t7xx_dpmaif_dl_set_dlq_pit_base_addr addr = do {
     hw_write (lower_32_bits addr) DPMAIF_DL_DLQPIT_INIT_CON0;
     hw_write (upper_32_bits addr) DPMAIF_DL_DLQPIT_INIT_CON4
   }"

definition t7xx_dpmaif_dl_set_dlq_pit_size :: "u32 \<Rightarrow> ('z dpmaif_hw_scheme, unit) state" where
  "t7xx_dpmaif_dl_set_dlq_pit_size sz = do {
     hw_change DPMAIF_DL_DLQPIT_INIT_CON1
       (\<lambda>v. v AND NOT DPMAIF_PIT_SIZE_MSK OR (sz AND DPMAIF_PIT_SIZE_MSK));
     hw_write 0 DPMAIF_DL_DLQPIT_INIT_CON2;
     hw_write 0 DPMAIF_DL_DLQPIT_INIT_CON3;
     hw_write 0 DPMAIF_DL_DLQPIT_INIT_CON5;
     hw_write 0 DPMAIF_DL_DLQPIT_INIT_CON6
   }"

definition t7xx_dpmaif_dl_dlq_pit_en :: "('z dpmaif_hw_scheme, unit) state" where
  "t7xx_dpmaif_dl_dlq_pit_en =
     hw_change DPMAIF_DL_DLQPIT_INIT_CON3 (\<lambda>v. v OR DPMAIF_DLQPIT_EN_MSK)"

definition t7xx_dpmaif_dl_dlq_pit_init_done :: "nat \<Rightarrow> ('z dpmaif_hw_scheme, unit) state" where
  "t7xx_dpmaif_dl_dlq_pit_init_done pit_idx = do {
     let dl_pit_init = DPMAIF_DL_PIT_INIT_ALLSET
                         OR push_bit DPMAIF_DLQPIT_CHAN_OFS (of_nat pit_idx)
                         OR DPMAIF_DL_PIT_INIT_EN;
     timeout \<leftarrow> hw_poll DPMAIF_DL_DLQPIT_INIT (\<lambda>v. v AND DPMAIF_DL_PIT_INIT_NOT_READY = 0)
                  DPMAIF_CHECK_DELAY_US DPMAIF_CHECK_INIT_TIMEOUT_US;
     if isl timeout then return () else do {
       hw_write dl_pit_init DPMAIF_DL_DLQPIT_INIT;
       hw_poll DPMAIF_DL_DLQPIT_INIT (\<lambda>v. v AND DPMAIF_DL_PIT_INIT_NOT_READY = 0)
         DPMAIF_CHECK_DELAY_US DPMAIF_CHECK_INIT_TIMEOUT_US;
       return ()
     }
   }"

definition t7xx_dpmaif_config_dlq_pit_hw ::
  "nat \<Rightarrow> dpmaif_dl \<Rightarrow> ('z dpmaif_hw_scheme, unit) state" where
  "t7xx_dpmaif_config_dlq_pit_hw q_num q = do {
     t7xx_dpmaif_dl_set_dlq_pit_base_addr (dl_pit_base q);
     t7xx_dpmaif_dl_set_dlq_pit_size (dl_pit_size_cnt q);
     t7xx_dpmaif_dl_dlq_pit_en;
     t7xx_dpmaif_dl_dlq_pit_init_done q_num
   }"

definition t7xx_dpmaif_config_all_dlq_hw :: "('z dpmaif_hw_scheme, unit) state" where
  "t7xx_dpmaif_config_all_dlq_hw =
     for_each [0..<DPMAIF_RXQ_NUM] (\<lambda>i. do {
       q \<leftarrow> get_hw (\<lambda>h. dl_que h i);
       t7xx_dpmaif_config_dlq_pit_hw i q
     })"

definition t7xx_dpmaif_dl_all_q_en :: "bool \<Rightarrow> ('z dpmaif_hw_scheme, unit) state" where
  "t7xx_dpmaif_dl_all_q_en enable = do {
     hw_change DPMAIF_DL_BAT_INIT_CON1
       (\<lambda>v. if enable then v OR DPMAIF_BAT_EN_MSK else v AND NOT DPMAIF_BAT_EN_MSK);
     let dl_bat_init = DPMAIF_DL_BAT_INIT_ONLY_ENABLE_BIT OR DPMAIF_DL_BAT_INIT_EN;
     hw_poll DPMAIF_DL_BAT_INIT (\<lambda>v. v AND DPMAIF_DL_BAT_INIT_NOT_READY = 0)
       0 DPMAIF_CHECK_TIMEOUT_US;
     hw_write dl_bat_init DPMAIF_DL_BAT_INIT;
     hw_poll DPMAIF_DL_BAT_INIT (\<lambda>v. v AND DPMAIF_DL_BAT_INIT_NOT_READY = 0)
       0 DPMAIF_CHECK_TIMEOUT_US;
     return ()
   }"

text \<open>All queues share the BAT and the fragment BAT of queue 0.\<close>

definition t7xx_dpmaif_config_dlq_hw :: "('z dpmaif_hw_scheme, errno + unit) state" where
  "t7xx_dpmaif_config_dlq_hw = do {
     t7xx_dpmaif_dl_dlq_hpc_hw_init;
     q \<leftarrow> get_hw (\<lambda>h. dl_que h 0);
     if \<not> dl_started q then return (Inl EBUSY) else do {
       t7xx_dpmaif_dl_set_ao_remain_minsz;
       t7xx_dpmaif_dl_set_ao_bat_bufsz;
       t7xx_dpmaif_dl_set_ao_frg_bufsz;
       t7xx_dpmaif_dl_set_ao_bat_rsv_length;
       t7xx_dpmaif_dl_set_ao_bid_maxcnt;
       t7xx_dpmaif_dl_set_pkt_alignment;
       t7xx_dpmaif_dl_set_pit_seqnum;
       t7xx_dpmaif_dl_set_ao_mtu;
       t7xx_dpmaif_dl_set_ao_pit_chknum;
       t7xx_dpmaif_dl_set_ao_bat_check_thres;
       t7xx_dpmaif_dl_set_ao_frg_check_thres;
       t7xx_dpmaif_dl_frg_ao_en True;
       t7xx_dpmaif_dl_set_bat_base_addr (dl_frg_base q);
       t7xx_dpmaif_dl_set_bat_size (dl_frg_size_cnt q);
       t7xx_dpmaif_dl_bat_en True;
       ret \<leftarrow> t7xx_dpmaif_dl_bat_init_done True;
       if isl ret then return ret else do {
         t7xx_dpmaif_dl_set_bat_base_addr (dl_bat_base q);
         t7xx_dpmaif_dl_set_bat_size (dl_bat_size_cnt q);
         t7xx_dpmaif_dl_bat_en False;
         ret \<leftarrow> t7xx_dpmaif_dl_bat_init_done False;
         if isl ret then return ret else do {
           t7xx_dpmaif_config_all_dlq_hw;
           t7xx_dpmaif_dl_all_q_en True;
           t7xx_dpmaif_dl_set_pkt_checksum;
           return (Inr ())
         }
       }
     }
   }"

section \<open>Uplink queues\<close>

definition t7xx_dpmaif_ul_update_drb_size ::
  "nat \<Rightarrow> u32 \<Rightarrow> ('z dpmaif_hw_scheme, unit) state" where
  "t7xx_dpmaif_ul_update_drb_size q_num sz =
     hw_change (DPMAIF_UL_DRBSIZE_ADDRH_n (of_nat q_num))
       (\<lambda>v. v AND NOT DPMAIF_DRB_SIZE_MSK OR (sz AND DPMAIF_DRB_SIZE_MSK))"

definition t7xx_dpmaif_ul_update_drb_base_addr ::
  "nat \<Rightarrow> dma_addr \<Rightarrow> ('z dpmaif_hw_scheme, unit) state" where
  "t7xx_dpmaif_ul_update_drb_base_addr q_num addr = do {
     hw_write (lower_32_bits addr) (DPMAIF_ULQSAR_n (of_nat q_num));
     hw_write (upper_32_bits addr) (DPMAIF_UL_DRB_ADDRH_n (of_nat q_num))
   }"

definition t7xx_dpmaif_ul_rdy_en :: "nat \<Rightarrow> bool \<Rightarrow> ('z dpmaif_hw_scheme, unit) state" where
  "t7xx_dpmaif_ul_rdy_en q_num ready = hw_change DPMAIF_AO_UL_CHNL_ARB0
     (\<lambda>v. if ready then v OR BIT q_num else v AND NOT (BIT q_num))"

definition t7xx_dpmaif_ul_arb_en :: "nat \<Rightarrow> bool \<Rightarrow> ('z dpmaif_hw_scheme, unit) state" where
  "t7xx_dpmaif_ul_arb_en q_num enable = hw_change DPMAIF_AO_UL_CHNL_ARB0
     (\<lambda>v. if enable then v OR BIT (q_num + 8) else v AND NOT (BIT (q_num + 8)))"

definition t7xx_dpmaif_config_ulq_hw :: "('z dpmaif_hw_scheme, unit) state" where
  "t7xx_dpmaif_config_ulq_hw =
     for_each [0..<DPMAIF_TXQ_NUM] (\<lambda>i. do {
       q \<leftarrow> get_hw (\<lambda>h. ul_que h i);
       if ul_started q then do {
         t7xx_dpmaif_ul_update_drb_size i (ul_drb_size_cnt q * DPMAIF_UL_DRB_SIZE_WORD);
         t7xx_dpmaif_ul_update_drb_base_addr i (ul_drb_base q);
         t7xx_dpmaif_ul_rdy_en i True;
         t7xx_dpmaif_ul_arb_en i True
       } else t7xx_dpmaif_ul_arb_en i False
     })"

definition t7xx_dpmaif_hw_init_done :: "('z dpmaif_hw_scheme, errno + unit) state" where
  "t7xx_dpmaif_hw_init_done = do {
     hw_change DPMAIF_AP_OVERWRITE_CFG (\<lambda>v. v OR DPMAIF_SRAM_SYNC);
     ret \<leftarrow> hw_poll DPMAIF_AP_OVERWRITE_CFG (\<lambda>v. v AND DPMAIF_SRAM_SYNC = 0)
              0 DPMAIF_CHECK_TIMEOUT_US;
     if isl ret then return ret else do {
       hw_write DPMAIF_UL_INIT_DONE DPMAIF_AO_UL_INIT_SET;
       hw_write DPMAIF_DL_INIT_DONE DPMAIF_AO_DL_INIT_SET;
       return (Inr ())
     }
   }"

definition t7xx_dpmaif_dl_idle_check :: "('z dpmaif_hw_scheme, bool) state" where
  "t7xx_dpmaif_dl_idle_check = do {
     v \<leftarrow> hw_read DPMAIF_DL_CHK_BUSY;
     return (v AND DPMAIF_DL_IDLE_STS = 0)
   }"

definition t7xx_dpmaif_ul_all_q_en :: "bool \<Rightarrow> ('z dpmaif_hw_scheme, unit) state" where
  "t7xx_dpmaif_ul_all_q_en enable = hw_change DPMAIF_AO_UL_CHNL_ARB0
     (\<lambda>v. if enable then v OR DPMAIF_UL_ALL_QUE_ARB_EN else v AND NOT DPMAIF_UL_ALL_QUE_ARB_EN)"

definition t7xx_dpmaif_ul_idle_check :: "('z dpmaif_hw_scheme, bool) state" where
  "t7xx_dpmaif_ul_idle_check = do {
     v \<leftarrow> hw_read DPMAIF_UL_CHK_BUSY;
     return (v AND DPMAIF_UL_IDLE_STS = 0)
   }"

section \<open>Counts and indices\<close>

definition t7xx_dpmaif_ul_update_hw_drb_cnt ::
  "nat \<Rightarrow> u32 \<Rightarrow> ('z dpmaif_hw_scheme, unit) state" where
  "t7xx_dpmaif_ul_update_hw_drb_cnt q_num drb_entry_cnt = do {
     let ul_update = (drb_entry_cnt AND DPMAIF_UL_ADD_COUNT_MASK) OR DPMAIF_UL_ADD_UPDATE;
     let r = DPMAIF_ULQ_ADD_DESC_CH_n (of_nat q_num);
     err \<leftarrow> hw_poll r (\<lambda>v. v AND DPMAIF_UL_ADD_NOT_READY = 0) 0 DPMAIF_CHECK_TIMEOUT_US;
     if isl err then return () else do {
       hw_write ul_update r;
       hw_poll r (\<lambda>v. v AND DPMAIF_UL_ADD_NOT_READY = 0) 0 DPMAIF_CHECK_TIMEOUT_US;
       return ()
     }
   }"

definition t7xx_dpmaif_ul_get_rd_idx :: "nat \<Rightarrow> ('z dpmaif_hw_scheme, u32) state" where
  "t7xx_dpmaif_ul_get_rd_idx q_num = do {
     v \<leftarrow> hw_read (DPMAIF_ULQ_STA0_n (of_nat q_num));
     return (FIELD_GET DPMAIF_UL_DRB_RIDX_MSK v div DPMAIF_UL_DRB_SIZE_WORD)
   }"

definition t7xx_dpmaif_dlq_add_pit_remain_cnt ::
  "nat \<Rightarrow> u32 \<Rightarrow> ('z dpmaif_hw_scheme, errno + unit) state" where
  "t7xx_dpmaif_dlq_add_pit_remain_cnt dlq_pit_idx pit_remain_cnt = do {
     let dl_update = (pit_remain_cnt AND DPMAIF_PIT_REM_CNT_MSK)
           OR (DPMAIF_DL_ADD_UPDATE OR push_bit DPMAIF_ADD_DLQ_PIT_CHAN_OFS (of_nat dlq_pit_idx));
     ret \<leftarrow> hw_poll DPMAIF_DL_DLQPIT_ADD (\<lambda>v. v AND DPMAIF_DL_ADD_NOT_READY = 0)
              0 DPMAIF_CHECK_TIMEOUT_US;
     if isl ret then return ret else do {
       hw_write dl_update DPMAIF_DL_DLQPIT_ADD;
       hw_poll DPMAIF_DL_DLQPIT_ADD (\<lambda>v. v AND DPMAIF_DL_ADD_NOT_READY = 0)
         0 DPMAIF_CHECK_TIMEOUT_US
     }
   }"

definition t7xx_dpmaif_dl_dlq_pit_get_wr_idx :: "nat \<Rightarrow> ('z dpmaif_hw_scheme, u32) state" where
  "t7xx_dpmaif_dl_dlq_pit_get_wr_idx dlq_pit_idx = do {
     v \<leftarrow> hw_read (DPMAIF_AO_DL_DLQ_WR_IDX + of_nat dlq_pit_idx * DLQ_PIT_IDX_SIZE);
     return (v AND DPMAIF_DL_RD_WR_IDX_MSK)
   }"

definition t7xx_dl_add_timedout :: "('z dpmaif_hw_scheme, errno + unit) state" where
  "t7xx_dl_add_timedout = hw_poll DPMAIF_DL_BAT_ADD (\<lambda>v. v AND DPMAIF_DL_ADD_NOT_READY = 0)
     0 DPMAIF_CHECK_TIMEOUT_US"

definition t7xx_dpmaif_dl_snd_hw_bat_cnt :: "u32 \<Rightarrow> ('z dpmaif_hw_scheme, errno + unit) state" where
  "t7xx_dpmaif_dl_snd_hw_bat_cnt bat_entry_cnt = do {
     ret \<leftarrow> t7xx_dl_add_timedout;
     if isl ret then return (Inl EBUSY) else do {
       hw_write ((bat_entry_cnt AND DPMAIF_DL_ADD_COUNT_MASK) OR DPMAIF_DL_ADD_UPDATE)
         DPMAIF_DL_BAT_ADD;
       ret \<leftarrow> t7xx_dl_add_timedout;
       return (if isl ret then Inl EBUSY else Inr ())
     }
   }"

definition t7xx_dpmaif_dl_get_bat_rd_idx :: "('z dpmaif_hw_scheme, u32) state" where
  "t7xx_dpmaif_dl_get_bat_rd_idx = do {
     v \<leftarrow> hw_read DPMAIF_AO_DL_BAT_RD_IDX;
     return (v AND DPMAIF_DL_RD_WR_IDX_MSK)
   }"

definition t7xx_dpmaif_dl_get_bat_wr_idx :: "('z dpmaif_hw_scheme, u32) state" where
  "t7xx_dpmaif_dl_get_bat_wr_idx = do {
     v \<leftarrow> hw_read DPMAIF_AO_DL_BAT_WR_IDX;
     return (v AND DPMAIF_DL_RD_WR_IDX_MSK)
   }"

definition t7xx_dpmaif_dl_snd_hw_frg_cnt :: "u32 \<Rightarrow> ('z dpmaif_hw_scheme, errno + unit) state" where
  "t7xx_dpmaif_dl_snd_hw_frg_cnt frg_entry_cnt = do {
     ret \<leftarrow> t7xx_dl_add_timedout;
     if isl ret then return (Inl EBUSY) else do {
       hw_write ((frg_entry_cnt AND DPMAIF_DL_ADD_COUNT_MASK)
                   OR (DPMAIF_DL_FRG_ADD_UPDATE OR DPMAIF_DL_ADD_UPDATE))
         DPMAIF_DL_BAT_ADD;
       ret \<leftarrow> t7xx_dl_add_timedout;
       return (if isl ret then Inl EBUSY else Inr ())
     }
   }"

definition t7xx_dpmaif_dl_get_frg_rd_idx :: "('z dpmaif_hw_scheme, u32) state" where
  "t7xx_dpmaif_dl_get_frg_rd_idx = do {
     v \<leftarrow> hw_read DPMAIF_AO_DL_FRGBAT_RD_IDX;
     return (v AND DPMAIF_DL_RD_WR_IDX_MSK)
   }"

section \<open>Starting and stopping\<close>

definition set_dl_que :: "dpmaif_hw_params \<Rightarrow> nat \<Rightarrow> dpmaif_dl" where
  "set_dl_que p i =
     \<lparr>dl_started = True, dl_pit_base = par_pit_base_addr p i,
      dl_pit_size_cnt = par_pit_size_cnt p i, dl_bat_base = par_pkt_bat_base_addr p i,
      dl_bat_size_cnt = par_pkt_bat_size_cnt p i, dl_frg_base = par_frg_bat_base_addr p i,
      dl_frg_size_cnt = par_frg_bat_size_cnt p i\<rparr>"

definition set_ul_que :: "dpmaif_hw_params \<Rightarrow> nat \<Rightarrow> dpmaif_ul" where
  "set_ul_que p i =
     \<lparr>ul_started = True, ul_drb_base = par_drb_base_addr p i,
      ul_drb_size_cnt = par_drb_size_cnt p i\<rparr>"

definition t7xx_dpmaif_set_queue_property ::
  "dpmaif_hw_params \<Rightarrow> ('z dpmaif_hw_scheme, unit) state" where
  "t7xx_dpmaif_set_queue_property p = upd_hw (\<lambda>h.
     h\<lparr>dl_que := (\<lambda>i. if i < DPMAIF_RXQ_NUM then set_dl_que p i else dl_que h i),
       ul_que := (\<lambda>i. if i < DPMAIF_TXQ_NUM then set_ul_que p i else ul_que h i)\<rparr>)"

text \<open>
  \<open>while (busy) if (++count >= DPMAIF_MAX_CHECK_COUNT) return -ETIMEDOUT\<close>: the argument is
  the number of checks left. The status is read once more for the log before giving up.
\<close>

primrec ul_idle_loop :: "nat \<Rightarrow> ('z dpmaif_hw_scheme, errno + unit) state" where
  "ul_idle_loop 0 = do { hw_read DPMAIF_UL_CHK_BUSY; return (Inl ETIMEDOUT) }"
| "ul_idle_loop (Suc n) = do {
     busy \<leftarrow> t7xx_dpmaif_ul_idle_check;
     if busy then ul_idle_loop n else return (Inr ())
   }"

definition t7xx_dpmaif_hw_stop_all_txq :: "('z dpmaif_hw_scheme, errno + unit) state" where
  "t7xx_dpmaif_hw_stop_all_txq = do {
     t7xx_dpmaif_ul_all_q_en False;
     ul_idle_loop DPMAIF_MAX_CHECK_COUNT
   }"

primrec dl_idle_loop :: "nat \<Rightarrow> ('z dpmaif_hw_scheme, errno + unit) state" where
  "dl_idle_loop 0 = do { hw_read DPMAIF_DL_CHK_BUSY; return (Inl ETIMEDOUT) }"
| "dl_idle_loop (Suc n) = do {
     busy \<leftarrow> t7xx_dpmaif_dl_idle_check;
     if busy then dl_idle_loop n else return (Inr ())
   }"

primrec pit_sync_loop :: "nat \<Rightarrow> ('z dpmaif_hw_scheme, errno + unit) state" where
  "pit_sync_loop 0 = return (Inl ETIMEDOUT)"
| "pit_sync_loop (Suc n) = do {
     wr_idx \<leftarrow> hw_read DPMAIF_AO_DL_PIT_WR_IDX;
     rd_idx \<leftarrow> hw_read DPMAIF_AO_DL_PIT_RD_IDX;
     if wr_idx AND DPMAIF_DL_RD_WR_IDX_MSK = rd_idx AND DPMAIF_DL_RD_WR_IDX_MSK
     then return (Inr ()) else pit_sync_loop n
   }"

definition t7xx_dpmaif_hw_stop_all_rxq :: "('z dpmaif_hw_scheme, errno + unit) state" where
  "t7xx_dpmaif_hw_stop_all_rxq = do {
     t7xx_dpmaif_dl_all_q_en False;
     ret \<leftarrow> dl_idle_loop DPMAIF_MAX_CHECK_COUNT;
     if isl ret then return ret else pit_sync_loop DPMAIF_MAX_CHECK_COUNT
   }"

definition t7xx_dpmaif_start_hw :: "('z dpmaif_hw_scheme, unit) state" where
  "t7xx_dpmaif_start_hw = do {
     t7xx_dpmaif_ul_all_q_en True;
     t7xx_dpmaif_dl_all_q_en True
   }"

definition t7xx_dpmaif_hw_init ::
  "dpmaif_hw_params \<Rightarrow> ('z dpmaif_hw_scheme, errno + unit) state" where
  "t7xx_dpmaif_hw_init init_param = do {
     ret \<leftarrow> t7xx_dpmaif_hw_config;
     if isl ret then return ret else do {
       ret \<leftarrow> t7xx_dpmaif_init_intr;
       if isl ret then return ret else do {
         t7xx_dpmaif_set_queue_property init_param;
         t7xx_dpmaif_pcie_dpmaif_sign;
         t7xx_dpmaif_dl_performance;
         ret \<leftarrow> t7xx_dpmaif_config_dlq_hw;
         if isl ret then return ret else do {
           t7xx_dpmaif_config_ulq_hw;
           t7xx_dpmaif_hw_init_done
         }
       }
     }
   }"

definition t7xx_dpmaif_ul_clr_done :: "nat \<Rightarrow> ('z dpmaif_hw_scheme, bool) state" where
  "t7xx_dpmaif_ul_clr_done qno = do {
     v \<leftarrow> hw_read DPMAIF_AP_L2TISAR0;
     let intr_status = v AND BIT (DP_UL_INT_DONE_OFFSET + qno);
     if intr_status \<noteq> 0 then do {
       hw_write intr_status DPMAIF_AP_L2TISAR0;
       return True
     } else return False
   }"

end
