(* ===== verification/Dpmaif_Hw_Props.thy ===== *)
theory Dpmaif_Hw_Props
  imports Dpmaif_Config
begin

text \<open>
  What the register layer of the data path guarantees: its functions only add to the trace
  and keep the base address, the report of one interrupt never overruns its arrays, the stop
  sequences end, and the device is told that initialisation is done only when it is.
\<close>

section \<open>Executing the register functions\<close>

lemma run_get_hw [run_simps]: "run (get_hw f) s = (f (hw_info s), s)"
  by (simp add: get_hw_def run_simps)

lemma run_upd_hw [run_simps]: "run (upd_hw f) s = ((), s\<lparr>hw_info := f (hw_info s)\<rparr>)"
  by (simp add: upd_hw_def run_simps)

lemma run_hw_read [run_simps]: "run (hw_read r) s = run (ioread32 (pcie_base (hw_info s) + r)) s"
  by (simp add: hw_read_def run_simps)

lemma run_hw_write [run_simps]:
  "run (hw_write v r) s = ((), emit (Wr (pcie_base (hw_info s) + r) v) s)"
  by (simp add: hw_write_def run_simps)

lemma run_hw_poll [run_simps]:
  "run (hw_poll r ok d t) s = run (ioread32_poll_timeout (pcie_base (hw_info s) + r) ok d t) s"
  by (simp add: hw_poll_def run_simps)

lemma hw_info_emit [simp]: "hw_info (emit e s) = hw_info s"
  by (simp add: emit_def)

lemma run_hw_change:
  "run (hw_change r f) s = (let a = pcie_base (hw_info s) + r in
     ((), emit (Wr a (f (reg s a))) (emit (Rd a (reg s a)) s)))"
  by (simp add: hw_change_def run_bind run_hw_read run_hw_write run_ioread32 reg_def Let_def)

section \<open>Which registers a function writes\<close>

text \<open>
  \<open>touches R m\<close>: \<open>m\<close> adds to the trace, keeps the base address, and writes only registers of
  \<open>R\<close> of the data path.
\<close>

named_theorems touches_intros \<open>which registers of the data path a function writes\<close>

definition touches :: "iomem set \<Rightarrow> ('z dpmaif_hw_scheme, 'a) state \<Rightarrow> bool" where
  "touches R m \<longleftrightarrow> (\<forall>s. env (after m s) = env s \<and>
     pcie_base (hw_info (after m s)) = pcie_base (hw_info s) \<and>
     (\<exists>es. trace (after m s) = trace s @ es \<and>
        fst ` set (writes es) \<subseteq> (+) (pcie_base (hw_info s)) ` R))"

lemma touchesD:
  assumes "touches R m"
  shows "env (after m s) = env s"
    and "pcie_base (hw_info (after m s)) = pcie_base (hw_info s)"
    and "\<exists>es. trace (after m s) = trace s @ es \<and>
           fst ` set (writes es) \<subseteq> (+) (pcie_base (hw_info s)) ` R"
  using assms by (auto simp: touches_def)

lemma touches_recorded: "touches R m \<Longrightarrow> recorded m"
  by (fastforce simp: touches_def recorded_def)

lemma touches_return [touches_intros]: "touches R (return a)"
  by (simp add: touches_def)

lemma touches_get_hw [touches_intros]: "touches R (get_hw f)"
  by (simp add: touches_def run_simps)

lemma touches_bind [touches_intros]:
  assumes "touches R m" and "\<And>a. touches R (f a)"
  shows "touches R (State_Monad.bind m f)"
  unfolding touches_def
proof (intro allI)
  fix s
  let ?t = "after m s"
  let ?u = "after (f (result m s)) ?t"
  have u: "after (State_Monad.bind m f) s = ?u"
    by (simp add: run_bind split_beta)
  obtain es where es: "trace ?t = trace s @ es"
      "fst ` set (writes es) \<subseteq> (+) (pcie_base (hw_info s)) ` R"
    using touchesD(3) [OF assms(1)] by blast
  obtain fs where fs: "trace ?u = trace ?t @ fs"
      "fst ` set (writes fs) \<subseteq> (+) (pcie_base (hw_info s)) ` R"
    using touchesD(3) [OF assms(2), of "result m s" ?t] touchesD(2) [OF assms(1), of s] by auto
  have "trace ?u = trace s @ (es @ fs) \<and>
      fst ` set (writes (es @ fs)) \<subseteq> (+) (pcie_base (hw_info s)) ` R"
    using es fs by (simp add: image_Un)
  then show "env (after (State_Monad.bind m f) s) = env s \<and>
      pcie_base (hw_info (after (State_Monad.bind m f) s)) = pcie_base (hw_info s) \<and>
      (\<exists>es. trace (after (State_Monad.bind m f) s) = trace s @ es \<and>
        fst ` set (writes es) \<subseteq> (+) (pcie_base (hw_info s)) ` R)"
    unfolding u using touchesD(1,2) [OF assms(1), of s] touchesD(1,2) [OF assms(2), of "result m s" ?t]
    by auto
qed

lemma touches_if [touches_intros]:
  "(b \<Longrightarrow> touches R m) \<Longrightarrow> (\<not> b \<Longrightarrow> touches R n) \<Longrightarrow> touches R (if b then m else n)"
  by simp

lemma touches_c_when [touches_intros]: "touches R m \<Longrightarrow> touches R (c_when b m)"
  by (simp add: c_when_def touches_return)

lemma touches_case_prod [touches_intros]:
  "(\<And>a b. touches R (f a b)) \<Longrightarrow> touches R (case p of (a, b) \<Rightarrow> f a b)"
  by (cases p) simp

lemma touches_for_each [touches_intros]:
  "(\<And>x. touches R (f x)) \<Longrightarrow> touches R (for_each xs f)"
  by (induction xs) (auto intro!: touches_return touches_bind)

lemma touches_upd_isr_mask [touches_intros]: "touches R (upd_isr_mask f)"
  by (simp add: touches_def upd_isr_mask_def run_simps)

lemma touches_hw_read [touches_intros]: "touches R (hw_read r)"
  by (simp add: touches_def run_simps Let_def)

lemma touches_hw_write [touches_intros]: "r \<in> R \<Longrightarrow> touches R (hw_write v r)"
  by (simp add: touches_def run_simps)

lemma touches_hw_change [touches_intros]: "r \<in> R \<Longrightarrow> touches R (hw_change r f)"
  unfolding hw_change_def by (intro touches_intros)

lemma touches_kcall [touches_intros]: "touches R (kcall f args)"
  by (simp add: touches_def run_simps)

lemma touches_kquery: "touches R (kquery f args)"
  by (simp add: touches_def run_simps Let_def)

lemma touches_poll_loop: "touches R op \<Longrightarrow> touches R (poll_loop n op ok)"
  by (induction n) (auto intro!: touches_intros)

lemma touches_read_poll [touches_intros]:
  "touches R op \<Longrightarrow> touches R (read_poll_timeout op ok d t)"
  unfolding read_poll_timeout_def by (intro touches_intros touches_kquery touches_poll_loop)

lemma touches_ioread32: "touches R (ioread32 a)"
  by (simp add: touches_def run_simps Let_def)

lemma touches_hw_poll [touches_intros]: "touches R (hw_poll r ok d t)"
  unfolding hw_poll_def ioread32_poll_timeout_def
  by (intro touches_intros touches_ioread32)


section \<open>The report of an interrupt\<close>

text \<open>The entries recorded so far, in order, and a record that has stayed inside its arrays.\<close>

definition reported :: "dpmaif_hw_intr_st_para \<Rightarrow> (dpmaif_hw_intr_type \<times> u32) list" where
  "reported p = zip (take (intr_cnt p) (intr_types p)) (take (intr_cnt p) (intr_queues p))"

definition para_ok :: "nat \<Rightarrow> dpmaif_hw_intr_st_para \<Rightarrow> bool" where
  "para_ok n p \<longleftrightarrow> intr_cnt p \<le> n \<and> \<not> intr_oob p \<and>
     length (intr_types p) = DPF_INTR_INVALID_MAX - 1 \<and>
     length (intr_queues p) = DPF_INTR_INVALID_MAX - 1"

lemma para_ok_zero: "para_ok 0 intr_para_zero"
  by (simp add: para_ok_def intr_para_zero_def)

lemma para_ok_mono: "para_ok m p \<Longrightarrow> m \<le> n \<Longrightarrow> para_ok n p"
  by (auto simp: para_ok_def)

lemma para_ok_set:
  "para_ok n p \<Longrightarrow> n < 18 \<Longrightarrow> para_ok (Suc n) (t7xx_dpmaif_set_intr_para ty q p)"
  by (auto simp: para_ok_def t7xx_dpmaif_set_intr_para_def)

lemma para_ok_note:
  "para_ok n p \<Longrightarrow> n < 18 \<Longrightarrow> para_ok (Suc n) (note_intr b ty q p)"
  by (auto simp: note_intr_def para_ok_set intro: para_ok_mono)

lemma note_intr_False [simp]: "note_intr False ty q p = p"
  by (simp add: note_intr_def)

lemma reported_zero [simp]: "reported intr_para_zero = []"
  by (simp add: reported_def intr_para_zero_def)

lemma reported_set:
  "para_ok n p \<Longrightarrow> n < 18 \<Longrightarrow>
     reported (t7xx_dpmaif_set_intr_para ty q p) = reported p @ [(ty, q)]"
  by (auto simp: para_ok_def reported_def t7xx_dpmaif_set_intr_para_def take_Suc_conv_app_nth)

lemma reported_note:
  "para_ok n p \<Longrightarrow> n < 18 \<Longrightarrow>
     reported (note_intr b ty q p) = reported p @ (if b then [(ty, q)] else [])"
  by (simp add: note_intr_def reported_set)

text \<open>What the transmit status says: one entry for each kind with a queue that has it.\<close>

definition tx_report :: "u32 \<Rightarrow> (dpmaif_hw_intr_type \<times> u32) list" where
  "tx_report st = filter (\<lambda>(ty, q). q \<noteq> 0)
     [(DPF_INTR_UL_DONE, FIELD_GET DP_UL_INT_QDONE_MSK st),
      (DPF_INTR_UL_DRB_EMPTY, FIELD_GET DP_UL_INT_EMPTY_MSK st),
      (DPF_INTR_UL_MD_NOTREADY, FIELD_GET DP_UL_INT_MD_NOTREADY_MSK st),
      (DPF_INTR_UL_MD_PWR_NOTREADY, FIELD_GET DP_UL_INT_MD_PWR_NOTREADY_MSK st),
      (DPF_INTR_UL_LEN_ERR, FIELD_GET DP_UL_INT_ERR_MSK st)]"

lemma check_tx_result:
  "result (t7xx_dpmaif_hw_check_tx_intr st p) s =
     note_intr (FIELD_GET DP_UL_INT_ERR_MSK st \<noteq> 0) DPF_INTR_UL_LEN_ERR
       (FIELD_GET DP_UL_INT_ERR_MSK st)
       (note_intr (FIELD_GET DP_UL_INT_MD_PWR_NOTREADY_MSK st \<noteq> 0) DPF_INTR_UL_MD_PWR_NOTREADY
         (FIELD_GET DP_UL_INT_MD_PWR_NOTREADY_MSK st)
         (note_intr (FIELD_GET DP_UL_INT_MD_NOTREADY_MSK st \<noteq> 0) DPF_INTR_UL_MD_NOTREADY
           (FIELD_GET DP_UL_INT_MD_NOTREADY_MSK st)
           (note_intr (FIELD_GET DP_UL_INT_EMPTY_MSK st \<noteq> 0) DPF_INTR_UL_DRB_EMPTY
             (FIELD_GET DP_UL_INT_EMPTY_MSK st)
             (note_intr (FIELD_GET DP_UL_INT_QDONE_MSK st \<noteq> 0) DPF_INTR_UL_DONE
               (FIELD_GET DP_UL_INT_QDONE_MSK st) p))))"
  by (simp add: t7xx_dpmaif_hw_check_tx_intr_def Let_def run_bind split_beta)

lemma check_tx_ok:
  assumes "para_ok n p" and "n + 5 \<le> 18"
  shows "para_ok (n + 5) (result (t7xx_dpmaif_hw_check_tx_intr st p) s)"
proof -
  have "para_ok (Suc (Suc (Suc (Suc (Suc n))))) (result (t7xx_dpmaif_hw_check_tx_intr st p) s)"
    unfolding check_tx_result using assms by (intro para_ok_note) auto
  then show ?thesis by (simp add: eval_nat_numeral)
qed

lemma check_tx_reported:
  assumes "para_ok n p" and "n + 5 \<le> 18"
  shows "reported (result (t7xx_dpmaif_hw_check_tx_intr st p) s) = reported p @ tx_report st"
proof -
  note ok = assms(1)
    para_ok_note [OF assms(1)]
    para_ok_note [OF para_ok_note [OF assms(1)]]
    para_ok_note [OF para_ok_note [OF para_ok_note [OF assms(1)]]]
    para_ok_note [OF para_ok_note [OF para_ok_note [OF para_ok_note [OF assms(1)]]]]
  show ?thesis
    unfolding check_tx_result using assms(2)
    by (simp add: reported_note [OF ok(1)] reported_note [OF ok(2)] reported_note [OF ok(3)]
        reported_note [OF ok(4)] reported_note [OF ok(5)] tx_report_def)
qed

text \<open>The receive status of a queue has only the bits of its own two interrupts.\<close>

lemma BIT_AND_iff: "(v AND BIT n = (0 :: u32)) \<longleftrightarrow> \<not> bit v n \<or> 32 \<le> n"
proof
  assume "v AND BIT n = 0"
  then have "\<not> bit (v AND BIT n) n" by simp
  then show "\<not> bit v n \<or> 32 \<le> n" by (auto simp: bit_and_iff bits_simps)
next
  assume "\<not> bit v n \<or> 32 \<le> n"
  then show "v AND BIT n = 0"
    by (intro bit_word_eqI) (auto simp: bit_and_iff bits_simps)
qed

lemma bit_rx_status_of:
  "bit (rx_status_of 0 v m) i \<longleftrightarrow>
     bit v i \<and> (i = 8 \<or> i = 13 \<and> \<not> bit m 8)"
  "qno \<noteq> 0 \<Longrightarrow> bit (rx_status_of qno v m) i \<longleftrightarrow>
     bit v i \<and> (i = 9 \<or> i = 14 \<and> \<not> bit m 9)"
  by (auto simp: rx_status_of_def Let_def BIT_AND_iff bit_simps bits_simps dest: bit_imp_le_length)

lemma run_prod_case: "run (case p of (a, b) \<Rightarrow> f a b) s = (case p of (a, b) \<Rightarrow> run (f a b) s)"
  by (cases p) simp

text \<open>A queue's receive interrupts: an error of its PIT count, and the end of a packet.\<close>

definition rx_report :: "nat \<Rightarrow> u32 \<Rightarrow> bool \<Rightarrow> (dpmaif_hw_intr_type \<times> u32) list" where
  "rx_report qno st masked =
     (if qno = 0
      then (if bit st 8 then [(DPF_INTR_DL_Q0_PITCNT_LEN_ERR, BIT qno)] else [])
             @ (if bit st 13 \<and> masked then [(DPF_INTR_DL_Q0_DONE, BIT qno)] else [])
      else (if bit st 9 then [(DPF_INTR_DL_Q1_PITCNT_LEN_ERR, BIT qno)] else [])
             @ (if bit st 14 \<and> masked then [(DPF_INTR_DL_Q1_DONE, BIT qno)] else []))"

text \<open>The values of a register that a trace shows.\<close>

primrec reads_of :: "iomem \<Rightarrow> ev list \<Rightarrow> u32 list" where
  "reads_of a [] = []"
| "reads_of a (e # es) =
     (case e of Rd b v \<Rightarrow> if b = a then [v] else [] | _ \<Rightarrow> []) @ reads_of a es"

lemma reads_of_append [simp]: "reads_of a (xs @ ys) = reads_of a xs @ reads_of a ys"
  by (induction xs) simp_all

text \<open>
  The end of a packet is reported only when its interrupt could be masked.
  \<open>t7xx_update_dlq_intr\<close> reads \<open>DPMAIF_AO_UL_AP_L2TIMR0\<close> until the queue's bit is set or the time
  is up, so the last value of that register in the trace says which it was.
\<close>

definition done_masked :: "nat \<Rightarrow> 'z dpmaif_hw_scheme \<Rightarrow> bool" where
  "done_masked qno t \<longleftrightarrow>
     last (reads_of (pcie_base (hw_info t) + DPMAIF_AO_UL_AP_L2TIMR0) (trace t)) AND dlq_qdone qno \<noteq> 0"

lemma done_masked_emit_Wr [simp]: "done_masked qno (emit (Wr a v) t) = done_masked qno t"
  by (simp add: done_masked_def)

lemma poll_dlq_last:
  fixes s :: "'z dpmaif_hw_scheme"
  shows
  "pcie_base (hw_info (after (poll_loop n (t7xx_update_dlq_intr q) ok) s)) = pcie_base (hw_info s) \<and>
   result (poll_loop n (t7xx_update_dlq_intr q) ok) s =
     (if ok (last (reads_of (pcie_base (hw_info s) + DPMAIF_AO_UL_AP_L2TIMR0)
        (trace (after (poll_loop n (t7xx_update_dlq_intr q) ok) s)))) then Inr () else Inl ETIMEDOUT)"
proof (induction n arbitrary: s)
  case 0
  show ?case
    by (simp add: t7xx_update_dlq_intr_def run_simps Let_def)
next
  case (Suc n)
  define v where "v = result (hw_read DPMAIF_AO_UL_AP_L2TIMR0) s"
  define t where "t = after (t7xx_update_dlq_intr q) s"
  have run: "run (t7xx_update_dlq_intr q) s = (v, t)"
    by (simp add: t_def v_def t7xx_update_dlq_intr_def run_simps Let_def)
  have t: "pcie_base (hw_info t) = pcie_base (hw_info s)"
    "last (reads_of (pcie_base (hw_info s) + DPMAIF_AO_UL_AP_L2TIMR0) (trace t)) = v"
    by (simp_all add: t_def v_def t7xx_update_dlq_intr_def run_simps Let_def)
  have step: "run (poll_loop (Suc n) (t7xx_update_dlq_intr q) ok) s =
      (if ok v then (Inr (), t) else run (poll_loop n (t7xx_update_dlq_intr q) ok) t)"
    by (simp add: run_bind run)
  show ?case
    using Suc.IH [of t] unfolding step t(1) by (cases "ok v") (simp_all only: t if_True if_False fst_conv snd_conv)
qed

lemma mask_dlq_result:
  fixes s :: "'z dpmaif_hw_scheme"
  shows
  "isl (result (t7xx_mask_dlq_intr qno) s) \<longleftrightarrow> \<not> done_masked qno (after (t7xx_mask_dlq_intr qno) s)"
proof -
  define u where "u = emit (Wr (pcie_base (hw_info s) + DPMAIF_AO_UL_APDL_L2TIMSR0) (dlq_qdone qno)) s"
  define n where "n = result (kquery ''poll_rounds'' [0, DPMAIF_CHECK_TIMEOUT_US]) u"
  define w where "w = after (kquery ''poll_rounds'' [0, DPMAIF_CHECK_TIMEOUT_US]) u"
  define m :: "('z dpmaif_hw_scheme, errno + unit) state"
    where "m = poll_loop (unat n) (t7xx_update_dlq_intr (dlq_qdone qno)) (\<lambda>v. v AND dlq_qdone qno \<noteq> 0)"
  note last = poll_dlq_last [of "unat n" "dlq_qdone qno" "\<lambda>v. v AND dlq_qdone qno \<noteq> 0" w, folded m_def]
  have run: "run (t7xx_mask_dlq_intr qno) s =
      (if isl (result m w) then (Inl ETIMEDOUT, after m w)
       else (Inr (), (after m w)\<lparr>hw_info := (hw_info (after m w))\<lparr>isr_en_mask :=
         (isr_en_mask (hw_info (after m w)))\<lparr>ap_dl_l2intr_en_msk :=
            ap_dl_l2intr_en_msk (isr_en_mask (hw_info (after m w))) AND NOT (dlq_qdone qno)\<rparr>\<rparr>\<rparr>))"
    by (simp add: t7xx_mask_dlq_intr_def Let_def run_bind split_beta read_poll_timeout_def
        upd_isr_mask_def run_upd_hw run_hw_write u_def n_def w_def m_def)
  show ?thesis
    unfolding run using last by (auto simp: done_masked_def isl_def)
qed

lemma check_rx_done_ok:
  fixes s :: "'z dpmaif_hw_scheme"
  assumes "para_ok n p" and "n < 18"
  shows "para_ok (Suc n) (snd (result (check_rx_done ty msk qno st p) s)) \<and>
    reported (snd (result (check_rx_done ty msk qno st p) s)) = reported p
      @ (if st AND msk \<noteq> 0 \<and> done_masked qno (after (check_rx_done ty msk qno st p) s)
         then [(ty, BIT qno)] else [])"
  using assms mask_dlq_result [of qno s]
  by (auto simp: check_rx_done_def run_bind split_beta para_ok_set reported_set
      intro: para_ok_mono)

lemma check_rx_reported:
  fixes s :: "'z dpmaif_hw_scheme"
  assumes "para_ok n p" and "n + 2 \<le> 18"
    and st: "st = rx_status_of qno v m"
  shows "para_ok (n + 2) (result (t7xx_dpmaif_hw_check_rx_intr st p qno) s) \<and>
    reported (result (t7xx_dpmaif_hw_check_rx_intr st p qno) s) = reported p
      @ rx_report qno st (done_masked qno (after (t7xx_dpmaif_hw_check_rx_intr st p qno) s))"
proof (cases "qno = 0")
  case True
  define p1 where "p1 = note_intr (bit st 8) DPF_INTR_DL_Q0_PITCNT_LEN_ERR (BIT qno) p"
  have p1: "para_ok (Suc n) p1"
      "reported p1 = reported p @ (if bit st 8 then [(DPF_INTR_DL_Q0_PITCNT_LEN_ERR, BIT qno)] else [])"
    unfolding p1_def using assms by (simp_all add: para_ok_note reported_note)
  have off: "\<not> bit st (Suc 0)" "\<not> bit st 2" "\<not> bit st 3" "\<not> bit st 4" "\<not> bit st 5" "\<not> bit st 6"
      "\<not> bit st 7" "\<not> bit st 10"
    using True by (simp_all add: st bit_rx_status_of)
  define u where "u = (if bit st 8 then after (t7xx_dpmaif_dlq_mask_rx_pitcnt_len_err_intr qno) s else s)"
  define d :: "('z dpmaif_hw_scheme, u32 \<times> dpmaif_hw_intr_st_para) state"
    where "d = check_rx_done DPF_INTR_DL_Q0_DONE (BIT 13) qno st p1"
  have "\<exists>a w. run (t7xx_dpmaif_hw_check_rx_intr st p qno) s =
      (snd (result d u), emit (Wr a w) (after d u))"
    by (simp add: t7xx_dpmaif_hw_check_rx_intr_def Let_def run_bind split_beta True BIT_AND_iff off
        p1_def d_def u_def run_hw_write run_c_when, blast)
  then obtain a w where run: "run (t7xx_dpmaif_hw_check_rx_intr st p qno) s =
      (snd (result d u), emit (Wr a w) (after d u))" by blast
  show ?thesis
    using check_rx_done_ok [OF p1(1), of DPF_INTR_DL_Q0_DONE "BIT 13" qno st u, folded d_def] assms(2) True
    unfolding run by (auto simp: rx_report_def p1(2) BIT_AND_iff)
next
  case False
  define p1 where "p1 = note_intr (bit st 9) DPF_INTR_DL_Q1_PITCNT_LEN_ERR (BIT qno) p"
  have p1: "para_ok (Suc n) p1"
      "reported p1 = reported p @ (if bit st 9 then [(DPF_INTR_DL_Q1_PITCNT_LEN_ERR, BIT qno)] else [])"
    unfolding p1_def using assms by (simp_all add: para_ok_note reported_note)
  define u where "u = (if bit st 9 then after (t7xx_dpmaif_dlq_mask_rx_pitcnt_len_err_intr qno) s else s)"
  define d :: "('z dpmaif_hw_scheme, u32 \<times> dpmaif_hw_intr_st_para) state"
    where "d = check_rx_done DPF_INTR_DL_Q1_DONE (BIT 14) qno st p1"
  have "\<exists>a w. run (t7xx_dpmaif_hw_check_rx_intr st p qno) s =
      (snd (result d u), emit (Wr a w) (after d u))"
    using False
    by (simp add: t7xx_dpmaif_hw_check_rx_intr_def Let_def run_bind split_beta BIT_AND_iff
        p1_def d_def u_def run_hw_write run_c_when, blast)
  then obtain a w where run: "run (t7xx_dpmaif_hw_check_rx_intr st p qno) s =
      (snd (result d u), emit (Wr a w) (after d u))" by blast
  show ?thesis
    using check_rx_done_ok [OF p1(1), of DPF_INTR_DL_Q1_DONE "BIT 14" qno st u, folded d_def] assms(2) False
    unfolding run by (auto simp: rx_report_def p1(2) BIT_AND_iff)
qed

lemma rx_report_zero [simp]: "rx_report qno 0 masked = []"
  by (simp add: rx_report_def)

lemma tx_report_zero [simp]: "tx_report 0 = []"
  by (simp add: tx_report_def FIELD_GET_def)

lemma rx_status_of_zero [simp]: "rx_status_of qno 0 m = 0"
  by (simp add: rx_status_of_def Let_def)

text \<open>The transmit part of the report, and the receive part that follows it.\<close>

definition after_tx :: "nat \<Rightarrow> u32 \<Rightarrow> 'z dpmaif_hw_scheme \<Rightarrow> dpmaif_hw_intr_st_para" where
  "after_tx qno tx s =
     (if qno = 0 \<and> tx \<noteq> 0 then result (t7xx_dpmaif_hw_check_tx_intr tx intr_para_zero) s
      else intr_para_zero)"

lemma after_tx_ok:
  "para_ok 5 (after_tx qno tx s)"
  "reported (after_tx qno tx s) = (if qno = 0 then tx_report tx else [])"
  using check_tx_ok [OF para_ok_zero, of tx s] check_tx_reported [OF para_ok_zero, of tx s]
    para_ok_mono [OF para_ok_zero, of 5]
  by (auto simp: after_tx_def)

lemma after_rx_ok:
  fixes s t :: "'z dpmaif_hw_scheme"
  assumes "para_ok 5 p" and "st = rx_status_of qno v m"
    and "q = p \<and> st = 0 \<or> q = result (t7xx_dpmaif_hw_check_rx_intr st p qno) s \<and>
      t = after (t7xx_dpmaif_hw_check_rx_intr st p qno) s"
  shows "para_ok 7 q \<and> reported q = reported p @ rx_report qno st (done_masked qno t)"
  using assms(3) check_rx_reported [OF assms(1) _ assms(2), of s] para_ok_mono [OF assms(1), of 7]
  by auto


section \<open>Stopping the uplink\<close>

lemma run_ul_idle_check [run_simps]:
  "run t7xx_dpmaif_ul_idle_check s =
     (case run (hw_read DPMAIF_UL_CHK_BUSY) s of (v, t) \<Rightarrow> (v AND DPMAIF_UL_IDLE_STS = 0, t))"
  by (simp add: t7xx_dpmaif_ul_idle_check_def run_bind split_beta)

text \<open>
  The loop that waits for an idle uplink: at most \<open>n\<close> checks, success at the first idle one, a time-out when all were busy.
\<close>

definition ul_busy :: "u32 \<Rightarrow> bool" where
  "ul_busy v \<longleftrightarrow> v AND DPMAIF_UL_IDLE_STS = 0"

lemma ul_idle_loop_trace:
  "\<exists>vs. trace (after (ul_idle_loop n) s) =
          trace s @ map (Rd (pcie_base (hw_info s) + DPMAIF_UL_CHK_BUSY)) vs \<and>
      (case result (ul_idle_loop n) s of
         Inr _ \<Rightarrow> \<exists>us v. vs = us @ [v] \<and> length us < n \<and> (\<forall>u \<in> set us. ul_busy u) \<and> \<not> ul_busy v
       | Inl e \<Rightarrow> e = ETIMEDOUT \<and> (\<exists>us v. vs = us @ [v] \<and> length us = n \<and> (\<forall>u \<in> set us. ul_busy u)))"
proof (induction n arbitrary: s)
  case 0
  show ?case
    by (auto simp: run_simps Let_def intro!: exI [of _ "[_]"])
next
  case (Suc n)
  define v where "v = result (hw_read DPMAIF_UL_CHK_BUSY) s"
  define t where "t = after (hw_read DPMAIF_UL_CHK_BUSY) s"
  have t: "trace t = trace s @ [Rd (pcie_base (hw_info s) + DPMAIF_UL_CHK_BUSY) v]"
      "pcie_base (hw_info t) = pcie_base (hw_info s)"
    by (simp_all add: t_def v_def run_simps Let_def)
  have r: "run (ul_idle_loop (Suc n)) s = (if ul_busy v then run (ul_idle_loop n) t else (Inr (), t))"
    by (simp add: run_bind run_ul_idle_check split_beta v_def t_def ul_busy_def)
  show ?case
  proof (cases "ul_busy v")
    case True
    obtain vs where vs: "trace (after (ul_idle_loop n) t) =
          trace t @ map (Rd (pcie_base (hw_info s) + DPMAIF_UL_CHK_BUSY)) vs"
        "case result (ul_idle_loop n) t of
           Inr _ \<Rightarrow> \<exists>us v. vs = us @ [v] \<and> length us < n \<and> (\<forall>u \<in> set us. ul_busy u) \<and> \<not> ul_busy v
         | Inl e \<Rightarrow> e = ETIMEDOUT \<and> (\<exists>us v. vs = us @ [v] \<and> length us = n \<and> (\<forall>u \<in> set us. ul_busy u))"
      using Suc.IH [of t] unfolding t(2) by blast
    show ?thesis
      using vs True unfolding r
      by (intro exI [of _ "v # vs"])
         (auto simp: t split: sum.splits intro: exI [of _ "v # _"])
  next
    case False
    then show ?thesis
      unfolding r by (intro exI [of _ "[v]"]) (simp add: t)
  qed
qed

text \<open>Stopping the transmit queues reads, clears and writes back the arbitration bits and
  then checks the busy status at most a million times: it reports success at the first check that
  shows an idle uplink, and a time-out when a million checks were all busy, after one more read
  for the log whose value decides nothing.\<close>

theorem stop_all_txq_bounded:
  "\<exists>v vs. trace (after t7xx_dpmaif_hw_stop_all_txq s) = trace s
       @ [Rd (pcie_base (hw_info s) + DPMAIF_AO_UL_CHNL_ARB0) v,
          Wr (pcie_base (hw_info s) + DPMAIF_AO_UL_CHNL_ARB0) (v AND NOT DPMAIF_UL_ALL_QUE_ARB_EN)]
       @ map (Rd (pcie_base (hw_info s) + DPMAIF_UL_CHK_BUSY)) vs \<and>
     (case result t7xx_dpmaif_hw_stop_all_txq s of
        Inr _ \<Rightarrow> \<exists>us w. vs = us @ [w] \<and> length us < DPMAIF_MAX_CHECK_COUNT \<and>
          list_all ul_busy us \<and> \<not> ul_busy w
      | Inl e \<Rightarrow> e = ETIMEDOUT \<and> (\<exists>us w. vs = us @ [w] \<and>
          length us = DPMAIF_MAX_CHECK_COUNT \<and> list_all ul_busy us))"
proof -
  define t where "t = after (t7xx_dpmaif_ul_all_q_en False) s"
  have run: "run t7xx_dpmaif_hw_stop_all_txq s = run (ul_idle_loop DPMAIF_MAX_CHECK_COUNT) t"
    by (simp add: t7xx_dpmaif_hw_stop_all_txq_def run_bind split_beta t_def)
  have "\<exists>v. trace t = trace s
       @ [Rd (pcie_base (hw_info s) + DPMAIF_AO_UL_CHNL_ARB0) v,
          Wr (pcie_base (hw_info s) + DPMAIF_AO_UL_CHNL_ARB0) (v AND NOT DPMAIF_UL_ALL_QUE_ARB_EN)]"
    and "pcie_base (hw_info t) = pcie_base (hw_info s)"
    by (simp_all add: t_def t7xx_dpmaif_ul_all_q_en_def hw_change_def run_simps Let_def)
  then show ?thesis
    using ul_idle_loop_trace [of DPMAIF_MAX_CHECK_COUNT t] unfolding run list_all_iff
    by (force split: sum.splits)
qed

text \<open>C12: on a device whose registers keep what is written, stopping the transmit queues takes
  arbitration away from queues 0 to 3 but not from queue 4: \<open>DPMAIF_UL_ALL_QUE_ARB_EN\<close> has four
  bits where \<open>DPMAIF_TXQ_NUM\<close> is five and \<open>t7xx_dpmaif_ul_arb_en\<close> uses bit \<open>q + 8\<close> for each.\<close>

theorem ul_all_q_en_misses_queue4:
  assumes "keeps_writes s (pcie_base (hw_info s) + DPMAIF_AO_UL_CHNL_ARB0)" and "q < DPMAIF_TXQ_NUM"
  shows "bit (reg (after (do { t7xx_dpmaif_ul_arb_en q True; t7xx_dpmaif_ul_all_q_en False }) s)
                (pcie_base (hw_info s) + DPMAIF_AO_UL_CHNL_ARB0)) (q + 8) \<longleftrightarrow> q = 4"
  using assms
  by (auto simp: t7xx_dpmaif_ul_all_q_en_def t7xx_dpmaif_ul_arb_en_def run_bind run_hw_change
      Let_def reg_simps bit_simps bits_simps)

theorem ul_all_q_en_misses_queue4_witness:
  "let s = \<lparr>env = reg_file (\<lambda>_. 0) (\<lambda>_ _. 0), trace = [],
             pci = undefined, hw_info = undefined\<rparr>
   in bit (reg (after (do { t7xx_dpmaif_ul_arb_en 4 True; t7xx_dpmaif_ul_all_q_en False }) s)
                (pcie_base (hw_info s) + DPMAIF_AO_UL_CHNL_ARB0)) 12"
  using ul_all_q_en_misses_queue4 [of "\<lparr>env = reg_file (\<lambda>_. 0) (\<lambda>_ _. 0), trace = [],
             pci = undefined, hw_info = undefined\<rparr>" 4]
  by (simp add: keeps_writes_reg_file [where init = "\<lambda>_. 0" and kern = "\<lambda>_ _. 0"])

section \<open>Initialisation is signalled last\<close>

abbreviation (input) init_set_regs :: "iomem set" where
  "init_set_regs \<equiv> {DPMAIF_AO_UL_INIT_SET, DPMAIF_AO_DL_INIT_SET}"

lemmas dl_config_defs =
  t7xx_dpmaif_sram_init_def t7xx_dpmaif_hw_reset_def t7xx_dpmaif_hw_config_def
  t7xx_dpmaif_pcie_dpmaif_sign_def t7xx_dpmaif_dl_performance_def t7xx_dpmaif_hw_hpc_cntl_set_def
  t7xx_dpmaif_hw_agg_cfg_set_def t7xx_dpmaif_hw_hash_bit_choose_set_def
  t7xx_dpmaif_hw_mid_pit_timeout_thres_set_def
  t7xx_dpmaif_hw_dlq_start_prs_thres_set_def t7xx_dpmaif_dl_dlq_hpc_hw_init_def
  t7xx_dpmaif_dl_bat_init_done_def t7xx_dpmaif_dl_set_bat_base_addr_def
  t7xx_dpmaif_dl_set_bat_size_def t7xx_dpmaif_dl_bat_en_def t7xx_dpmaif_dl_set_ao_bid_maxcnt_def
  t7xx_dpmaif_dl_set_ao_mtu_def t7xx_dpmaif_dl_set_ao_pit_chknum_def
  t7xx_dpmaif_dl_set_ao_remain_minsz_def t7xx_dpmaif_dl_set_ao_bat_bufsz_def
  t7xx_dpmaif_dl_set_ao_bat_rsv_length_def t7xx_dpmaif_dl_set_pkt_alignment_def
  t7xx_dpmaif_dl_set_pkt_checksum_def t7xx_dpmaif_dl_set_ao_frg_check_thres_def
  t7xx_dpmaif_dl_set_ao_frg_bufsz_def t7xx_dpmaif_dl_frg_ao_en_def
  t7xx_dpmaif_dl_set_ao_bat_check_thres_def t7xx_dpmaif_dl_set_pit_seqnum_def
  t7xx_dpmaif_dl_set_dlq_pit_base_addr_def t7xx_dpmaif_dl_set_dlq_pit_size_def
  t7xx_dpmaif_dl_dlq_pit_en_def t7xx_dpmaif_dl_dlq_pit_init_done_def
  t7xx_dpmaif_config_dlq_pit_hw_def t7xx_dpmaif_config_all_dlq_hw_def t7xx_dpmaif_dl_all_q_en_def
  t7xx_dpmaif_config_dlq_hw_def

lemmas ul_config_defs =
  t7xx_dpmaif_ul_update_drb_size_def t7xx_dpmaif_ul_update_drb_base_addr_def
  t7xx_dpmaif_ul_rdy_en_def t7xx_dpmaif_ul_arb_en_def

lemma touches_hw_config: "touches (- init_set_regs) t7xx_dpmaif_hw_config"
  unfolding dl_config_defs Let_def by (intro touches_intros) simp_all

lemma touches_init_intr: "touches (- init_set_regs) t7xx_dpmaif_init_intr"
  unfolding t7xx_dpmaif_init_intr_def Let_def by (intro touches_intros) simp_all

lemma touches_set_queue_property: "touches R (t7xx_dpmaif_set_queue_property p)"
  by (simp add: touches_def t7xx_dpmaif_set_queue_property_def run_simps)

lemma touches_dl_performance: "touches (- init_set_regs) t7xx_dpmaif_dl_performance"
  unfolding dl_config_defs by (intro touches_intros) simp_all

lemma touches_for_each_set:
  "(\<And>x. x \<in> set xs \<Longrightarrow> touches R (f x)) \<Longrightarrow> touches R (for_each xs f)"
  by (induction xs) (auto intro!: touches_return touches_bind)

lemma touches_dlq_timeout: "touches (- init_set_regs) t7xx_dpmaif_hw_dlq_timeout_thres_set"
proof -
  have "DPMAIF_AO_DL_DLQPIT_TIMEOUT1 + 4 * of_nat i \<in> - init_set_regs" if "i < 4" for i
  proof -
    have "i \<in> {0, 1, 2, 3}" using that by auto
    then show ?thesis by auto
  qed
  then show ?thesis
    unfolding t7xx_dpmaif_hw_dlq_timeout_thres_set_def
    by (intro touches_for_each_set touches_hw_write) simp
qed

lemma touches_dlq_hw: "touches (- init_set_regs) t7xx_dpmaif_config_dlq_hw"
  unfolding dl_config_defs Let_def by (intro touches_dlq_timeout touches_intros) simp_all

lemma ulq_reg_ne:
  assumes "i < DPMAIF_TXQ_NUM"
  shows "DPMAIF_ULQSAR_n (of_nat i) \<notin> init_set_regs"
    and "DPMAIF_UL_DRBSIZE_ADDRH_n (of_nat i) \<notin> init_set_regs"
    and "DPMAIF_UL_DRB_ADDRH_n (of_nat i) \<notin> init_set_regs"
proof -
  have "i \<in> {0, 1, 2, 3, 4}" using assms by auto
  then show "DPMAIF_ULQSAR_n (of_nat i) \<notin> init_set_regs"
    and "DPMAIF_UL_DRBSIZE_ADDRH_n (of_nat i) \<notin> init_set_regs"
    and "DPMAIF_UL_DRB_ADDRH_n (of_nat i) \<notin> init_set_regs"
    by auto
qed

lemma touches_ulq_hw: "touches (- init_set_regs) t7xx_dpmaif_config_ulq_hw"
  unfolding t7xx_dpmaif_config_ulq_hw_def ul_config_defs
  by (intro touches_for_each_set touches_intros) (use ulq_reg_ne in \<open>auto simp del: One_nat_def\<close>)

definition hw_init_config :: "dpmaif_hw_params \<Rightarrow> ('z dpmaif_hw_scheme, errno + unit) state" where
  "hw_init_config p = do {
     ret \<leftarrow> t7xx_dpmaif_hw_config;
     if isl ret then return ret else do {
       ret \<leftarrow> t7xx_dpmaif_init_intr;
       if isl ret then return ret else do {
         t7xx_dpmaif_set_queue_property p;
         t7xx_dpmaif_pcie_dpmaif_sign;
         t7xx_dpmaif_dl_performance;
         ret \<leftarrow> t7xx_dpmaif_config_dlq_hw;
         if isl ret then return ret else do {
           t7xx_dpmaif_config_ulq_hw;
           hw_change DPMAIF_AP_OVERWRITE_CFG (\<lambda>v. v OR DPMAIF_SRAM_SYNC);
           hw_poll DPMAIF_AP_OVERWRITE_CFG (\<lambda>v. v AND DPMAIF_SRAM_SYNC = 0)
             0 DPMAIF_CHECK_TIMEOUT_US
         }
       }
     }
   }"

lemma touches_hw_init_config: "touches (- init_set_regs) (hw_init_config p)"
  unfolding hw_init_config_def t7xx_dpmaif_pcie_dpmaif_sign_def
  by (intro touches_hw_config touches_init_intr touches_set_queue_property touches_dl_performance
      touches_dlq_hw touches_ulq_hw touches_intros) simp_all

lemma hw_init_split:
  "t7xx_dpmaif_hw_init p = do {
     ret \<leftarrow> hw_init_config p;
     if isl ret then return ret else do {
       hw_write DPMAIF_UL_INIT_DONE DPMAIF_AO_UL_INIT_SET;
       hw_write DPMAIF_DL_INIT_DONE DPMAIF_AO_DL_INIT_SET;
       return (Inr ())
     }
   }"
proof (rule state.expand, rule ext)
  fix s
  show "run (t7xx_dpmaif_hw_init p) s = run (do {
     ret \<leftarrow> hw_init_config p;
     if isl ret then return ret else do {
       hw_write DPMAIF_UL_INIT_DONE DPMAIF_AO_UL_INIT_SET;
       hw_write DPMAIF_DL_INIT_DONE DPMAIF_AO_DL_INIT_SET;
       return (Inr ())
     }
   }) s"
    unfolding t7xx_dpmaif_hw_init_def hw_init_config_def t7xx_dpmaif_hw_init_done_def
    by (simp add: run_bind split_beta)
qed

text \<open>
  The handshakes of the initialisation: the driver reads a register until it gives a value that
  means the device is ready or the time is up. What these registers gave, in order, is read off
  the trace.
\<close>

record handshake =
  hs_reg :: iomem
  hs_changed :: bool \<comment> \<open>the register is read, changed and written back first\<close>
  hs_ready :: "u32 \<Rightarrow> bool"
  hs_needed :: bool \<comment> \<open>a time-out ends the initialisation\<close>

abbreviation (input) handshake_regs :: "iomem set" where
  "handshake_regs \<equiv> {DPMAIF_AP_MEM_CLR, DPMAIF_AO_UL_AP_L2TIMR0, DPMAIF_AO_UL_APDL_L2TIMR0,
     DPMAIF_DL_BAT_INIT, DPMAIF_AP_OVERWRITE_CFG}"

primrec handshake_reads :: "iomem \<Rightarrow> ev list \<Rightarrow> (iomem \<times> u32) list" where
  "handshake_reads b [] = []"
| "handshake_reads b (e # es) =
     (case e of Rd a v \<Rightarrow> if a - b \<in> handshake_regs then [(a - b, v)] else [] | _ \<Rightarrow> [])
       @ handshake_reads b es"

lemma handshake_reads_append [simp]:
  "handshake_reads b (xs @ ys) = handshake_reads b xs @ handshake_reads b ys"
  by (induction xs) simp_all

text \<open>
  \<open>shakes hs os res\<close>: the values \<open>os\<close> are those of the handshakes \<open>hs\<close>, one after the other,
  and \<open>res\<close> is what comes of them. Each is a number of values that are not ready and then the
  value that decides; after one that is needed and was not ready nothing more is read.
\<close>

primrec shakes :: "handshake list \<Rightarrow> (iomem \<times> u32) list \<Rightarrow> errno + unit \<Rightarrow> bool" where
  "shakes [] os res \<longleftrightarrow> os = [] \<and> res = Inr ()"
| "shakes (h # hs) os res \<longleftrightarrow> (\<exists>us vs v rest.
     os = map (Pair (hs_reg h)) (us @ vs @ [v]) @ rest \<and>
     length us = (if hs_changed h then 1 else 0) \<and> list_all (\<lambda>u. \<not> hs_ready h u) vs \<and>
     (if hs_ready h v \<or> \<not> hs_needed h then shakes hs rest res
      else rest = [] \<and> res = Inl ETIMEDOUT))"

lemma shakes_append:
  "shakes hs os (Inr ()) \<Longrightarrow> shakes ks os' res \<Longrightarrow> shakes (hs @ ks) (os @ os') res"
proof (induction hs arbitrary: os)
  case Nil
  then show ?case by simp
next
  case (Cons h hs)
  then obtain us vs v rest where os: "os = map (Pair (hs_reg h)) (us @ vs @ [v]) @ rest"
      "length us = (if hs_changed h then 1 else 0)" "list_all (\<lambda>u. \<not> hs_ready h u) vs"
      "hs_ready h v \<or> \<not> hs_needed h" "shakes hs rest (Inr ())"
    by (auto split: if_splits)
  with Cons have "shakes (hs @ ks) (rest @ os') res" by blast
  then show ?case
    using os unfolding append_Cons shakes.simps
    by (intro exI [of _ us] exI [of _ vs] exI [of _ v] exI [of _ "rest @ os'"]) simp
qed

lemma shakes_stop: "shakes hs os (Inl e) \<Longrightarrow> shakes (hs @ ks) os (Inl e)"
proof (induction hs arbitrary: os)
  case Nil
  then show ?case by simp
next
  case (Cons h hs)
  then obtain us vs v rest where os: "os = map (Pair (hs_reg h)) (us @ vs @ [v]) @ rest"
      "length us = (if hs_changed h then 1 else 0)" "list_all (\<lambda>u. \<not> hs_ready h u) vs"
      "if hs_ready h v \<or> \<not> hs_needed h then shakes hs rest (Inl e) else rest = [] \<and> e = ETIMEDOUT"
    by (auto split: if_splits)
  then have "if hs_ready h v \<or> \<not> hs_needed h then shakes (hs @ ks) rest (Inl e)
      else rest = [] \<and> e = ETIMEDOUT"
    using Cons.IH by (auto split: if_splits)
  then show ?case
    using os unfolding append_Cons shakes.simps
    by (intro exI [of _ us] exI [of _ vs] exI [of _ v] exI [of _ rest]) auto
qed

text \<open>
  \<open>quiet m\<close>: \<open>m\<close> reads no register of a handshake. \<open>performs b hs m\<close>: of these registers \<open>m\<close>
  reads what \<open>hs\<close> says and returns what comes of them; \<open>b\<close> says that the first downlink queue is
  to be started before.
\<close>

named_theorems quiet_intros \<open>operations that read no register of a handshake\<close>

definition first_started :: "'z dpmaif_hw_scheme \<Rightarrow> bool" where
  "first_started s \<longleftrightarrow> dl_started (dl_que (hw_info s) 0)"

definition quiet :: "('z dpmaif_hw_scheme, 'a) state \<Rightarrow> bool" where
  "quiet m \<longleftrightarrow> (\<forall>s. pcie_base (hw_info (after m s)) = pcie_base (hw_info s) \<and>
     first_started (after m s) = first_started s \<and>
     (\<exists>es. trace (after m s) = trace s @ es \<and> handshake_reads (pcie_base (hw_info s)) es = []))"

definition performs ::
  "bool \<Rightarrow> handshake list \<Rightarrow> ('z dpmaif_hw_scheme, errno + unit) state \<Rightarrow> bool" where
  "performs b hs m \<longleftrightarrow> (\<forall>s. (b \<longrightarrow> first_started s) \<longrightarrow>
     pcie_base (hw_info (after m s)) = pcie_base (hw_info s) \<and>
     (b \<longrightarrow> first_started (after m s)) \<and>
     (\<exists>es. trace (after m s) = trace s @ es \<and>
       shakes hs (handshake_reads (pcie_base (hw_info s)) es) (result m s)))"

lemma quietE:
  fixes m :: "('z dpmaif_hw_scheme, 'a) state" and s :: "'z dpmaif_hw_scheme"
  assumes "quiet m"
  obtains es where "pcie_base (hw_info (after m s)) = pcie_base (hw_info s)"
    "first_started (after m s) = first_started s" "trace (after m s) = trace s @ es"
    "handshake_reads (pcie_base (hw_info s)) es = []"
  using assms unfolding quiet_def by metis

lemma performsE:
  fixes m :: "('z dpmaif_hw_scheme, errno + unit) state" and s :: "'z dpmaif_hw_scheme"
  assumes "performs b hs m" "b \<longrightarrow> first_started s"
  obtains es where "pcie_base (hw_info (after m s)) = pcie_base (hw_info s)"
    "b \<longrightarrow> first_started (after m s)" "trace (after m s) = trace s @ es"
    "shakes hs (handshake_reads (pcie_base (hw_info s)) es) (result m s)"
  using assms unfolding performs_def by metis

lemma quiet_bind [quiet_intros]:
  assumes "quiet m" and "\<And>a. quiet (f a)"
  shows "quiet (State_Monad.bind m f)"
  unfolding quiet_def
proof
  fix s :: "'a dpmaif_hw_scheme"
  obtain es where es: "pcie_base (hw_info (after m s)) = pcie_base (hw_info s)"
      "first_started (after m s) = first_started s" "trace (after m s) = trace s @ es"
      "handshake_reads (pcie_base (hw_info s)) es = []"
    by (rule quietE [OF assms(1)])
  define u where "u = after (f (result m s)) (after m s)"
  obtain fs where fs: "pcie_base (hw_info u) = pcie_base (hw_info s)"
      "first_started u = first_started s" "trace u = trace (after m s) @ fs"
      "handshake_reads (pcie_base (hw_info s)) fs = []"
    using quietE [OF assms(2) [of "result m s"], of "after m s"] es(1,2) unfolding u_def by metis
  have "after (State_Monad.bind m f) s = u"
    by (simp add: run_bind split_beta u_def)
  then show "pcie_base (hw_info (after (State_Monad.bind m f) s)) = pcie_base (hw_info s) \<and>
      first_started (after (State_Monad.bind m f) s) = first_started s \<and>
      (\<exists>es. trace (after (State_Monad.bind m f) s) = trace s @ es \<and>
        handshake_reads (pcie_base (hw_info s)) es = [])"
    using es fs by (intro conjI exI [of _ "es @ fs"]) simp_all
qed

lemma performs_after_quiet:
  assumes "quiet m" and "\<And>a. performs b hs (f a)"
  shows "performs b hs (State_Monad.bind m f)"
  unfolding performs_def
proof (intro allI impI)
  fix s :: "'a dpmaif_hw_scheme"
  assume b: "b \<longrightarrow> first_started s"
  obtain es where es: "pcie_base (hw_info (after m s)) = pcie_base (hw_info s)"
      "first_started (after m s) = first_started s" "trace (after m s) = trace s @ es"
      "handshake_reads (pcie_base (hw_info s)) es = []"
    by (rule quietE [OF assms(1)])
  define u where "u = after (f (result m s)) (after m s)"
  define r where "r = result (f (result m s)) (after m s)"
  obtain fs where fs: "pcie_base (hw_info u) = pcie_base (hw_info s)"
      "b \<longrightarrow> first_started u" "trace u = trace (after m s) @ fs"
      "shakes hs (handshake_reads (pcie_base (hw_info s)) fs) r"
    using performsE [OF assms(2) [of "result m s"], of "after m s"] es(1,2) b unfolding u_def r_def by metis
  have "run (State_Monad.bind m f) s = (r, u)"
    by (simp add: run_bind split_beta u_def r_def)
  then show "pcie_base (hw_info (after (State_Monad.bind m f) s)) = pcie_base (hw_info s) \<and>
      (b \<longrightarrow> first_started (after (State_Monad.bind m f) s)) \<and>
      (\<exists>es. trace (after (State_Monad.bind m f) s) = trace s @ es \<and>
        shakes hs (handshake_reads (pcie_base (hw_info s)) es) (result (State_Monad.bind m f) s))"
    using es fs by (intro conjI exI [of _ "es @ fs"]) simp_all
qed

text \<open>Two parts in sequence, the second only when the first succeeds: \<open>if (ret) return ret\<close>.\<close>

lemma performs_then:
  assumes "performs b hs m" and "performs b ks n"
  shows "performs b (hs @ ks) (do { ret \<leftarrow> m; if isl ret then return ret else n })"
  unfolding performs_def
proof (intro allI impI)
  fix s :: "'a dpmaif_hw_scheme"
  assume b: "b \<longrightarrow> first_started s"
  let ?m = "do { ret \<leftarrow> m; if isl ret then return ret else n }"
  define t where "t = after m s"
  obtain es where es: "pcie_base (hw_info t) = pcie_base (hw_info s)" "b \<longrightarrow> first_started t"
      "trace t = trace s @ es" "shakes hs (handshake_reads (pcie_base (hw_info s)) es) (result m s)"
    using performsE [OF assms(1) b] unfolding t_def by metis
  obtain fs where fs: "pcie_base (hw_info (after n t)) = pcie_base (hw_info s)"
      "b \<longrightarrow> first_started (after n t)" "trace (after n t) = trace t @ fs"
      "shakes ks (handshake_reads (pcie_base (hw_info s)) fs) (result n t)"
    using performsE [OF assms(2) es(2)] es(1) by metis
  have run: "run ?m s = (case result m s of Inl e \<Rightarrow> (Inl e, t) | Inr _ \<Rightarrow> (result n t, after n t))"
    by (cases "run m s") (simp add: run_bind t_def split: sum.split)
  show "pcie_base (hw_info (after ?m s)) = pcie_base (hw_info s) \<and>
      (b \<longrightarrow> first_started (after ?m s)) \<and>
      (\<exists>es. trace (after ?m s) = trace s @ es \<and>
        shakes (hs @ ks) (handshake_reads (pcie_base (hw_info s)) es) (result ?m s))"
  proof (cases "result m s")
    case (Inl e)
    then show ?thesis
      using es shakes_stop [of hs _ e ks] unfolding run by auto
  next
    case (Inr x)
    then show ?thesis
      using es fs shakes_append [of hs _ ks] unfolding run
      by (intro conjI exI [of _ "es @ fs"]) simp_all
  qed
qed

lemma performs_done: "performs b [] (return (Inr ()))"
  by (simp add: performs_def)

lemma quiet_return [quiet_intros]: "quiet (return a)"
  by (simp add: quiet_def)

lemma quiet_get_hw [quiet_intros]: "quiet (get_hw f)"
  by (simp add: quiet_def first_started_def run_simps)

lemma quiet_if [quiet_intros]: "quiet m \<Longrightarrow> quiet n \<Longrightarrow> quiet (if b then m else n)"
  by simp

lemma quiet_for_each:
  "(\<And>x. x \<in> set xs \<Longrightarrow> quiet (f x)) \<Longrightarrow> quiet (for_each xs f)"
  by (induction xs) (auto intro!: quiet_return quiet_bind)

lemma quiet_upd_isr_mask [quiet_intros]: "quiet (upd_isr_mask f)"
  by (simp add: quiet_def first_started_def upd_isr_mask_def run_simps)

lemma quiet_kcall [quiet_intros]: "quiet (kcall f args)"
  by (simp add: quiet_def first_started_def run_simps)

lemma quiet_hw_write [quiet_intros]: "quiet (hw_write v r)"
  by (simp add: quiet_def first_started_def run_simps)

lemma quiet_hw_read: "r \<notin> handshake_regs \<Longrightarrow> quiet (hw_read r)"
  by (simp add: quiet_def first_started_def run_simps Let_def)

lemma quiet_hw_change [quiet_intros]: "r \<notin> handshake_regs \<Longrightarrow> quiet (hw_change r f)"
  unfolding hw_change_def by (intro quiet_bind quiet_hw_read quiet_hw_write)

text \<open>A poll, of another register or of one of a handshake.\<close>

lemma poll_loop_reads:
  fixes s :: "'z dpmaif_hw_scheme" and ok :: "u32 \<Rightarrow> bool"
  shows "\<exists>vs v. run (poll_loop n (ioread32 a) ok) s =
      ((if ok v then Inr () else Inl ETIMEDOUT), s\<lparr>trace := trace s @ map (Rd a) (vs @ [v])\<rparr>) \<and>
    list_all (\<lambda>u. \<not> ok u) vs"
proof (induction n arbitrary: s)
  case 0
  define v where "v = result (ioread32 a) s"
  define w where "w = result (ioread32 a) (emit (Rd a v) s)"
  have "run (ioread32 a) s = (v, emit (Rd a v) s)" "run (ioread32 a) (emit (Rd a v) s) = (w, emit (Rd a w) (emit (Rd a v) s))"
    by (simp_all add: v_def w_def run_ioread32 Let_def)
  note reads = this
  show ?case
  proof (cases "ok v")
    case True
    then show ?thesis
      using reads by (intro exI [of _ "[]"] exI [of _ v]) (simp add: run_bind emit_def)
  next
    case False
    then show ?thesis
      using reads by (intro exI [of _ "[v]"] exI [of _ w]) (simp add: run_bind emit_def)
  qed
next
  case (Suc n)
  define v where "v = result (ioread32 a) s"
  have v: "run (ioread32 a) s = (v, emit (Rd a v) s)"
    by (simp add: v_def run_ioread32 Let_def)
  obtain vs w where w: "run (poll_loop n (ioread32 a) ok) (emit (Rd a v) s) =
      ((if ok w then Inr () else Inl ETIMEDOUT),
       (emit (Rd a v) s)\<lparr>trace := trace (emit (Rd a v) s) @ map (Rd a) (vs @ [w])\<rparr>)"
      "list_all (\<lambda>u. \<not> ok u) vs"
    using Suc.IH [of "emit (Rd a v) s"] by blast
  show ?case
  proof (cases "ok v")
    case True
    then show ?thesis
      using v by (intro exI [of _ "[]"] exI [of _ v]) (simp add: run_bind emit_def)
  next
    case False
    then show ?thesis
      using v w by (intro exI [of _ "v # vs"] exI [of _ w]) (simp add: run_bind emit_def)
  qed
qed

lemma hw_poll_reads:
  fixes s :: "'z dpmaif_hw_scheme"
  shows "\<exists>x vs v. run (hw_poll r ok d t) s = ((if ok v then Inr () else Inl ETIMEDOUT),
      s\<lparr>trace := trace s @ [Ret ''poll_rounds'' [d, t] x]
        @ map (Rd (pcie_base (hw_info s) + r)) (vs @ [v])\<rparr>) \<and>
    list_all (\<lambda>u. \<not> ok u) vs"
proof -
  define a where "a = pcie_base (hw_info s) + r"
  define x where "x = result (kquery ''poll_rounds'' [d, t]) s"
  define u where "u = emit (Ret ''poll_rounds'' [d, t] x) s"
  have "run (hw_poll r ok d t) s = run (poll_loop (unat x) (ioread32 a) ok) u"
    by (simp add: hw_poll_def ioread32_poll_timeout_def read_poll_timeout_def run_bind run_get_hw
        run_kquery Let_def a_def x_def u_def)
  moreover obtain vs v where "run (poll_loop (unat x) (ioread32 a) ok) u =
      ((if ok v then Inr () else Inl ETIMEDOUT), u\<lparr>trace := trace u @ map (Rd a) (vs @ [v])\<rparr>)"
      "list_all (\<lambda>u. \<not> ok u) vs"
    using poll_loop_reads [of "unat x" a ok u] by blast
  ultimately show ?thesis
    by (intro exI [of _ x] exI [of _ vs] exI [of _ v]) (simp add: u_def emit_def a_def)
qed

lemma handshake_reads_regs:
  "r \<in> handshake_regs \<Longrightarrow> handshake_reads b (map (Rd (b + r)) vs) = map (Pair r) vs"
  "r \<notin> handshake_regs \<Longrightarrow> handshake_reads b (map (Rd (b + r)) vs) = []"
  by (induction vs) auto

lemma quiet_hw_poll [quiet_intros]:
  assumes "r \<notin> handshake_regs"
  shows "quiet (hw_poll r ok d t)"
  unfolding quiet_def
proof
  fix s :: "'a dpmaif_hw_scheme"
  obtain x vs v where "run (hw_poll r ok d t) s = ((if ok v then Inr () else Inl ETIMEDOUT),
      s\<lparr>trace := trace s @ [Ret ''poll_rounds'' [d, t] x]
        @ map (Rd (pcie_base (hw_info s) + r)) (vs @ [v])\<rparr>)"
    using hw_poll_reads [of r ok d t s] by blast
  then show "pcie_base (hw_info (after (hw_poll r ok d t) s)) = pcie_base (hw_info s) \<and>
      first_started (after (hw_poll r ok d t) s) = first_started s \<and>
      (\<exists>es. trace (after (hw_poll r ok d t) s) = trace s @ es \<and>
        handshake_reads (pcie_base (hw_info s)) es = [])"
    using handshake_reads_regs(2) [OF assms, of "pcie_base (hw_info s)" "vs @ [v]"]
    by (simp add: first_started_def del: map_append)
qed

text \<open>The poll of a handshake, alone, after a change of its register, or with its result ignored.\<close>

abbreviation (input) wait_for :: "iomem \<Rightarrow> (u32 \<Rightarrow> bool) \<Rightarrow> handshake" where
  "wait_for r ok \<equiv> \<lparr>hs_reg = r, hs_changed = False, hs_ready = ok, hs_needed = True\<rparr>"

abbreviation (input) set_and_wait_for :: "iomem \<Rightarrow> (u32 \<Rightarrow> bool) \<Rightarrow> handshake" where
  "set_and_wait_for r ok \<equiv> \<lparr>hs_reg = r, hs_changed = True, hs_ready = ok, hs_needed = True\<rparr>"

abbreviation (input) try_for :: "iomem \<Rightarrow> (u32 \<Rightarrow> bool) \<Rightarrow> handshake" where
  "try_for r ok \<equiv> \<lparr>hs_reg = r, hs_changed = False, hs_ready = ok, hs_needed = False\<rparr>"

lemma performs_poll:
  assumes "r \<in> handshake_regs"
  shows "performs b [wait_for r ok] (hw_poll r ok d t)"
  unfolding performs_def
proof (intro allI impI)
  fix s :: "'a dpmaif_hw_scheme"
  assume "b \<longrightarrow> first_started s"
  moreover obtain x vs v where "run (hw_poll r ok d t) s = ((if ok v then Inr () else Inl ETIMEDOUT),
      s\<lparr>trace := trace s @ [Ret ''poll_rounds'' [d, t] x]
        @ map (Rd (pcie_base (hw_info s) + r)) (vs @ [v])\<rparr>)" "list_all (\<lambda>u. \<not> ok u) vs"
    using hw_poll_reads [of r ok d t s] by blast
  ultimately show "pcie_base (hw_info (after (hw_poll r ok d t) s)) = pcie_base (hw_info s) \<and>
      (b \<longrightarrow> first_started (after (hw_poll r ok d t) s)) \<and>
      (\<exists>es. trace (after (hw_poll r ok d t) s) = trace s @ es \<and>
        shakes [wait_for r ok] (handshake_reads (pcie_base (hw_info s)) es) (result (hw_poll r ok d t) s))"
    using handshake_reads_regs(1) [OF assms, of "pcie_base (hw_info s)" "vs @ [v]"]
    by (auto simp: first_started_def simp del: map_append intro!: exI [of _ "[]"] exI [of _ vs] exI [of _ v])
qed

lemma performs_try:
  assumes "r \<in> handshake_regs" and "performs b hs m"
  shows "performs b (try_for r ok # hs) (do { hw_poll r ok d t; m })"
  unfolding performs_def
proof (intro allI impI)
  fix s :: "'a dpmaif_hw_scheme"
  assume b: "b \<longrightarrow> first_started s"
  obtain x vs v where poll: "run (hw_poll r ok d t) s = ((if ok v then Inr () else Inl ETIMEDOUT),
      s\<lparr>trace := trace s @ [Ret ''poll_rounds'' [d, t] x]
        @ map (Rd (pcie_base (hw_info s) + r)) (vs @ [v])\<rparr>)" "list_all (\<lambda>u. \<not> ok u) vs"
    using hw_poll_reads [of r ok d t s] by blast
  define u where "u = after (hw_poll r ok d t) s"
  have u: "pcie_base (hw_info u) = pcie_base (hw_info s)" "b \<longrightarrow> first_started u"
    using b by (simp_all add: u_def poll(1) first_started_def)
  obtain fs where fs: "pcie_base (hw_info (after m u)) = pcie_base (hw_info s)"
      "b \<longrightarrow> first_started (after m u)" "trace (after m u) = trace u @ fs"
      "shakes hs (handshake_reads (pcie_base (hw_info s)) fs) (result m u)"
    using performsE [OF assms(2) u(2)] u(1) by metis
  have run: "run (do { hw_poll r ok d t; m }) s = (result m u, after m u)"
    by (simp add: run_bind split_beta u_def)
  define es where "es = [Ret ''poll_rounds'' [d, t] x] @ map (Rd (pcie_base (hw_info s) + r)) (vs @ [v]) @ fs"
  have "trace (after m u) = trace s @ es"
    unfolding fs(3) by (simp add: es_def u_def poll(1))
  moreover have "handshake_reads (pcie_base (hw_info s)) es =
      map (Pair r) (vs @ [v]) @ handshake_reads (pcie_base (hw_info s)) fs"
    using handshake_reads_regs(1) [OF assms(1), of "pcie_base (hw_info s)" "vs @ [v]"]
    by (simp add: es_def del: map_append)
  then have "shakes (try_for r ok # hs) (handshake_reads (pcie_base (hw_info s)) es) (result m u)"
    using fs(4) poll(2) unfolding shakes.simps
    by (intro exI [of _ "[]"] exI [of _ vs] exI [of _ v]
        exI [of _ "handshake_reads (pcie_base (hw_info s)) fs"]) simp
  ultimately show "pcie_base (hw_info (after (do { hw_poll r ok d t; m }) s)) = pcie_base (hw_info s) \<and>
      (b \<longrightarrow> first_started (after (do { hw_poll r ok d t; m }) s)) \<and>
      (\<exists>es. trace (after (do { hw_poll r ok d t; m }) s) = trace s @ es \<and>
        shakes (try_for r ok # hs) (handshake_reads (pcie_base (hw_info s)) es)
          (result (do { hw_poll r ok d t; m }) s))"
    unfolding run using fs(1,2) by auto
qed

lemma performs_change_poll:
  assumes "r \<in> handshake_regs"
  shows "performs b [set_and_wait_for r ok] (do { hw_change r f; hw_poll r ok d t })"
  unfolding performs_def
proof (intro allI impI)
  fix s :: "'a dpmaif_hw_scheme"
  assume b: "b \<longrightarrow> first_started s"
  define a where "a = pcie_base (hw_info s) + r"
  define w where "w = reg s a"
  define u where "u = emit (Wr a (f w)) (emit (Rd a w) s)"
  have change: "after (hw_change r f) s = u"
    by (simp add: run_hw_change Let_def u_def w_def a_def)
  obtain x vs v where poll: "run (hw_poll r ok d t) u = ((if ok v then Inr () else Inl ETIMEDOUT),
      u\<lparr>trace := trace u @ [Ret ''poll_rounds'' [d, t] x] @ map (Rd a) (vs @ [v])\<rparr>)"
      "list_all (\<lambda>u. \<not> ok u) vs"
    using hw_poll_reads [of r ok d t u] by (auto simp: u_def a_def)
  define es where "es = [Rd a w, Wr a (f w), Ret ''poll_rounds'' [d, t] x] @ map (Rd a) (vs @ [v])"
  have run: "run (do { hw_change r f; hw_poll r ok d t }) s =
      ((if ok v then Inr () else Inl ETIMEDOUT), u\<lparr>trace := trace s @ es\<rparr>)"
    by (simp add: run_bind split_beta change poll(1)) (simp add: es_def u_def)
  have "handshake_reads (pcie_base (hw_info s)) es = map (Pair r) ([w] @ vs @ [v])"
    using assms handshake_reads_regs(1) [OF assms, of "pcie_base (hw_info s)" "vs @ [v]"]
    by (simp add: es_def a_def del: map_append)
  then have "shakes [set_and_wait_for r ok] (handshake_reads (pcie_base (hw_info s)) es)
      (if ok v then Inr () else Inl ETIMEDOUT)"
    using poll(2) unfolding shakes.simps
    by (intro exI [of _ "[w]"] exI [of _ vs] exI [of _ v]) simp
  then show "pcie_base (hw_info (after (do { hw_change r f; hw_poll r ok d t }) s)) = pcie_base (hw_info s) \<and>
      (b \<longrightarrow> first_started (after (do { hw_change r f; hw_poll r ok d t }) s)) \<and>
      (\<exists>es. trace (after (do { hw_change r f; hw_poll r ok d t }) s) = trace s @ es \<and>
        shakes [set_and_wait_for r ok] (handshake_reads (pcie_base (hw_info s)) es)
          (result (do { hw_change r f; hw_poll r ok d t }) s))"
    unfolding run using b by (simp add: u_def first_started_def)
qed

lemma performs_first:
  "performs b [h] m \<Longrightarrow> performs b ks n \<Longrightarrow>
   performs b (h # ks) (do { ret \<leftarrow> m; if isl ret then return ret else n })"
  using performs_then [of b "[h]" m ks n] by simp

lemma performs_last:
  "performs b hs m \<Longrightarrow> performs b [] n \<Longrightarrow>
   performs b hs (do { ret \<leftarrow> m; if isl ret then return ret else n })"
  using performs_then [of b hs m "[]" n] by simp

lemma performs_change_then:
  assumes "r \<in> handshake_regs" and "performs b ks n"
  shows "performs b (set_and_wait_for r ok # ks)
    (do { hw_change r f; ret \<leftarrow> hw_poll r ok d t; if isl ret then return ret else n })"
  using performs_first [OF performs_change_poll [OF assms(1), of b ok f d t] assms(2)] by simp

text \<open>The check that the first downlink queue is started, which \<open>set_queue_property\<close> sees to.\<close>

lemma performs_started:
  assumes "\<And>q. performs True hs (n q)"
  shows "performs True hs (do {
      q \<leftarrow> get_hw (\<lambda>h. dl_que h 0);
      if \<not> dl_started q then return (Inl EBUSY) else n q
    })"
  using assms unfolding performs_def
  by (simp add: run_bind run_get_hw first_started_def split del: if_split)

lemma performs_set_queue_property:
  assumes "performs True hs m"
  shows "performs b hs (do { t7xx_dpmaif_set_queue_property p; m })"
  unfolding performs_def
proof (intro allI impI)
  fix s :: "'a dpmaif_hw_scheme"
  define u where "u = after (t7xx_dpmaif_set_queue_property p) s"
  have u: "pcie_base (hw_info u) = pcie_base (hw_info s)" "trace u = trace s" "first_started u"
    by (simp_all add: u_def t7xx_dpmaif_set_queue_property_def run_upd_hw first_started_def set_dl_que_def)
  have run: "run (do { t7xx_dpmaif_set_queue_property p; m }) s = (result m u, after m u)"
    by (simp add: run_bind split_beta u_def)
  show "pcie_base (hw_info (after (do { t7xx_dpmaif_set_queue_property p; m }) s)) = pcie_base (hw_info s) \<and>
      (b \<longrightarrow> first_started (after (do { t7xx_dpmaif_set_queue_property p; m }) s)) \<and>
      (\<exists>es. trace (after (do { t7xx_dpmaif_set_queue_property p; m }) s) = trace s @ es \<and>
        shakes hs (handshake_reads (pcie_base (hw_info s)) es)
          (result (do { t7xx_dpmaif_set_queue_property p; m }) s))"
    using performsE [OF assms, of u] u unfolding run by auto
qed

text \<open>The handshakes of the initialisation, in the order of the code.\<close>

abbreviation (input) bat_ready :: "u32 \<Rightarrow> bool" where
  "bat_ready v \<equiv> v AND DPMAIF_DL_BAT_INIT_NOT_READY = 0"

definition init_handshakes :: "handshake list" where
  "init_handshakes =
    [set_and_wait_for DPMAIF_AP_MEM_CLR (\<lambda>v. v AND DPMAIF_MEM_CLR = 0),
     wait_for DPMAIF_AO_UL_AP_L2TIMR0
       (\<lambda>v. v AND (FMASK DP_UL_INT_ERR_MSK OR FMASK DP_UL_INT_QDONE_MSK)
          \<noteq> FMASK DP_UL_INT_ERR_MSK OR FMASK DP_UL_INT_QDONE_MSK),
     wait_for DPMAIF_AO_UL_APDL_L2TIMR0
       (\<lambda>v. v AND (DPMAIF_DL_INT_DLQ0_QDONE OR DPMAIF_DL_INT_DLQ0_PITCNT_LEN
                     OR DPMAIF_DL_INT_DLQ1_QDONE OR DPMAIF_DL_INT_DLQ1_PITCNT_LEN)
          \<noteq> DPMAIF_DL_INT_DLQ0_QDONE OR DPMAIF_DL_INT_DLQ0_PITCNT_LEN
            OR DPMAIF_DL_INT_DLQ1_QDONE OR DPMAIF_DL_INT_DLQ1_PITCNT_LEN),
     wait_for DPMAIF_DL_BAT_INIT bat_ready, wait_for DPMAIF_DL_BAT_INIT bat_ready,
     wait_for DPMAIF_DL_BAT_INIT bat_ready, wait_for DPMAIF_DL_BAT_INIT bat_ready,
     try_for DPMAIF_DL_BAT_INIT bat_ready, try_for DPMAIF_DL_BAT_INIT bat_ready,
     set_and_wait_for DPMAIF_AP_OVERWRITE_CFG (\<lambda>v. v AND DPMAIF_SRAM_SYNC = 0)]"

lemma performs_hw_config:
  "performs b [init_handshakes ! 0] t7xx_dpmaif_hw_config"
  unfolding init_handshakes_def t7xx_dpmaif_hw_config_def t7xx_dpmaif_sram_init_def
    t7xx_dpmaif_hw_reset_def nth_Cons_0
  by (intro performs_after_quiet performs_last performs_change_poll performs_done quiet_intros) simp_all

lemma performs_init_intr:
  "performs b [init_handshakes ! 1, init_handshakes ! 2] t7xx_dpmaif_init_intr"
  unfolding init_handshakes_def t7xx_dpmaif_init_intr_def Let_def One_nat_def numeral_2_eq_2
    nth_Cons_Suc nth_Cons_0
  by (intro performs_after_quiet performs_first performs_last performs_poll performs_done quiet_intros) simp_all

lemma performs_bat_init_done:
  "performs b [wait_for DPMAIF_DL_BAT_INIT bat_ready, wait_for DPMAIF_DL_BAT_INIT bat_ready]
     (t7xx_dpmaif_dl_bat_init_done frg)"
  unfolding t7xx_dpmaif_dl_bat_init_done_def Let_def
  by (intro performs_first performs_after_quiet performs_poll quiet_intros) simp_all

lemma quiet_dlq_timeout: "quiet t7xx_dpmaif_hw_dlq_timeout_thres_set"
  unfolding t7xx_dpmaif_hw_dlq_timeout_thres_set_def by (intro quiet_for_each quiet_intros)

lemma quiet_config_all_dlq: "quiet t7xx_dpmaif_config_all_dlq_hw"
  unfolding dl_config_defs Let_def by (intro quiet_for_each quiet_intros) simp_all

lemma performs_dl_all_q_en:
  assumes "performs b hs m"
  shows "performs b (try_for DPMAIF_DL_BAT_INIT bat_ready # try_for DPMAIF_DL_BAT_INIT bat_ready # hs)
    (do { t7xx_dpmaif_dl_all_q_en e; m })"
  unfolding t7xx_dpmaif_dl_all_q_en_def Let_def State_Monad.bind_assoc
  by (intro performs_after_quiet performs_try quiet_intros assms) simp_all

lemma performs_dlq_hw:
  "performs True (take 6 (drop 3 init_handshakes)) t7xx_dpmaif_config_dlq_hw"
proof -
  let ?w = "wait_for DPMAIF_DL_BAT_INIT bat_ready" and ?t = "try_for DPMAIF_DL_BAT_INIT bat_ready"
  have "take 6 (drop 3 init_handshakes) = [?w, ?w] @ [?w, ?w] @ [?t, ?t]"
    by (simp add: init_handshakes_def)
  moreover have hpc: "quiet t7xx_dpmaif_dl_dlq_hpc_hw_init"
    unfolding t7xx_dpmaif_dl_dlq_hpc_hw_init_def t7xx_dpmaif_hw_hpc_cntl_set_def
      t7xx_dpmaif_hw_agg_cfg_set_def t7xx_dpmaif_hw_hash_bit_choose_set_def
      t7xx_dpmaif_hw_mid_pit_timeout_thres_set_def t7xx_dpmaif_hw_dlq_start_prs_thres_set_def Let_def
    by (intro quiet_dlq_timeout quiet_intros; simp)
  note sets = t7xx_dpmaif_dl_set_bat_base_addr_def t7xx_dpmaif_dl_set_bat_size_def
    t7xx_dpmaif_dl_bat_en_def t7xx_dpmaif_dl_set_ao_bid_maxcnt_def t7xx_dpmaif_dl_set_ao_mtu_def
    t7xx_dpmaif_dl_set_ao_pit_chknum_def t7xx_dpmaif_dl_set_ao_remain_minsz_def
    t7xx_dpmaif_dl_set_ao_bat_bufsz_def t7xx_dpmaif_dl_set_ao_bat_rsv_length_def
    t7xx_dpmaif_dl_set_pkt_alignment_def t7xx_dpmaif_dl_set_pkt_checksum_def
    t7xx_dpmaif_dl_set_ao_frg_check_thres_def t7xx_dpmaif_dl_set_ao_frg_bufsz_def
    t7xx_dpmaif_dl_frg_ao_en_def t7xx_dpmaif_dl_set_ao_bat_check_thres_def
    t7xx_dpmaif_dl_set_pit_seqnum_def
  moreover have "performs True ([?w, ?w] @ [?w, ?w] @ [?t, ?t]) t7xx_dpmaif_config_dlq_hw"
    unfolding t7xx_dpmaif_config_dlq_hw_def sets Let_def
    by (intro performs_after_quiet [OF hpc] performs_started
        performs_after_quiet [OF quiet_config_all_dlq] performs_dl_all_q_en
        performs_then performs_bat_init_done performs_after_quiet [OF quiet_bind]
        performs_after_quiet performs_done quiet_intros) simp_all
  ultimately show ?thesis by simp
qed

lemma quiet_ulq_hw: "quiet t7xx_dpmaif_config_ulq_hw"
proof -
  have "DPMAIF_UL_DRBSIZE_ADDRH_n (of_nat i) \<notin> handshake_regs" if "i < DPMAIF_TXQ_NUM" for i
  proof -
    have "i \<in> {0, 1, 2, 3, 4}" using that by auto
    then show ?thesis by auto
  qed
  then show ?thesis
    unfolding t7xx_dpmaif_config_ulq_hw_def ul_config_defs
    by (intro quiet_for_each quiet_intros) (auto simp del: One_nat_def)
qed

lemma performs_hw_init: "performs b init_handshakes (t7xx_dpmaif_hw_init p)"
proof -
  have "init_handshakes = [init_handshakes ! 0] @ [init_handshakes ! 1, init_handshakes ! 2]
      @ take 6 (drop 3 init_handshakes) @ [init_handshakes ! 9]"
    by (simp add: init_handshakes_def)
  moreover have sync: "performs True [init_handshakes ! 9] t7xx_dpmaif_hw_init_done"
  proof -
    have "init_handshakes ! 9 =
        set_and_wait_for DPMAIF_AP_OVERWRITE_CFG (\<lambda>v. v AND DPMAIF_SRAM_SYNC = 0)"
      by (simp add: init_handshakes_def)
    then show ?thesis
      unfolding t7xx_dpmaif_hw_init_done_def
      by (simp only:) (intro performs_change_then performs_after_quiet performs_done quiet_intros, simp)
  qed
  moreover have sign: "quiet t7xx_dpmaif_pcie_dpmaif_sign"
    unfolding t7xx_dpmaif_pcie_dpmaif_sign_def by (intro quiet_intros)
  moreover have perf: "quiet t7xx_dpmaif_dl_performance"
    unfolding t7xx_dpmaif_dl_performance_def by (intro quiet_intros) simp_all
  moreover have "performs b ([init_handshakes ! 0] @ [init_handshakes ! 1, init_handshakes ! 2]
      @ take 6 (drop 3 init_handshakes) @ [init_handshakes ! 9]) (t7xx_dpmaif_hw_init p)"
    unfolding t7xx_dpmaif_hw_init_def
    by (rule performs_then [OF performs_hw_config], rule performs_then [OF performs_init_intr],
        rule performs_set_queue_property, rule performs_after_quiet [OF sign],
        rule performs_after_quiet [OF perf], rule performs_then [OF performs_dlq_hw],
        rule performs_after_quiet [OF quiet_ulq_hw], rule sync)
  ultimately show ?thesis by simp
qed


end
