(* ===== verification/Pci_Dev.thy ===== *)
theory Pci_Dev
  imports Pcie_Mac
begin

text \<open>
  The parts of \<open>t7xx_pci.c\<close> that the other components call: the power state of the device,
  the lock that keeps it out of deep sleep, the list of components that take part in suspend,
  and the re-initialisation of the PCIe side. Suspend and resume themselves need the state
  machine and are in \<open>Pci_Pm\<close>.

  A completion of the kernel is an object of the outside world: signalling it is a call in
  the trace, and waiting for it is a question whose answer 0 means that the time ran out. Spin
  locks and mutexes are left out; a function holds them over the whole of its effect on the
  state they protect.
\<close>

section \<open>Power state\<close>

primrec t7xx_pm_state_val :: "t7xx_pm_state \<Rightarrow> nat" where
  "t7xx_pm_state_val MTK_PM_EXCEPTION = 0"
| "t7xx_pm_state_val MTK_PM_INIT = 1"
| "t7xx_pm_state_val MTK_PM_SUSPENDED = 2"
| "t7xx_pm_state_val MTK_PM_RESUMED = 3"

instantiation t7xx_pm_state :: linorder
begin

definition less_eq_t7xx_pm_state :: "t7xx_pm_state \<Rightarrow> t7xx_pm_state \<Rightarrow> bool" where
  "a \<le> b \<longleftrightarrow> t7xx_pm_state_val a \<le> t7xx_pm_state_val b"

definition less_t7xx_pm_state :: "t7xx_pm_state \<Rightarrow> t7xx_pm_state \<Rightarrow> bool" where
  "a < b \<longleftrightarrow> t7xx_pm_state_val a < t7xx_pm_state_val b"

instance
proof
  fix a b :: t7xx_pm_state
  assume "a \<le> b" "b \<le> a"
  then show "a = b"
    by (cases a; cases b) (simp_all add: less_eq_t7xx_pm_state_def)
qed (auto simp: less_eq_t7xx_pm_state_def less_t7xx_pm_state_def)

end

lemma pm_state_order [simp]:
  "a < MTK_PM_RESUMED \<longleftrightarrow> a \<noteq> MTK_PM_RESUMED"
  "a \<le> MTK_PM_INIT \<longleftrightarrow> a = MTK_PM_EXCEPTION \<or> a = MTK_PM_INIT"
  by (cases a; simp add: less_t7xx_pm_state_def less_eq_t7xx_pm_state_def)+

definition set_pm_state :: "t7xx_pm_state \<Rightarrow> ('z t7xx_scheme, unit) state" where
  "set_pm_state st = upd_pci (\<lambda>p. p\<lparr>md_pm_state := st\<rparr>)"

definition t7xx_mode_update :: "t7xx_mode \<Rightarrow> ('z t7xx_scheme, unit) state" where
  "t7xx_mode_update m = do {
     upd_pci (\<lambda>p. p\<lparr>mode := m\<rparr>);
     kcall ''sysfs_notify t7xx_mode'' []
   }"

definition t7xx_dev_set_sleep_capability :: "bool \<Rightarrow> ('z t7xx_scheme, unit) state" where
  "t7xx_dev_set_sleep_capability enable = do {
     b \<leftarrow> gets IREG_BASE;
     v \<leftarrow> ioread32 (b + T7XX_PCIE_MISC_CTRL);
     iowrite32 (if enable then v AND NOT T7XX_PCIE_MISC_MAC_SLEEP_DIS
                else v OR T7XX_PCIE_MISC_MAC_SLEEP_DIS) (b + T7XX_PCIE_MISC_CTRL)
   }"

text \<open>A time-out of the resource status is only logged: the function returns 0 either way.\<close>

definition t7xx_wait_pm_config :: "('z t7xx_scheme, errno + unit) state" where
  "t7xx_wait_pm_config = do {
     b \<leftarrow> gets IREG_BASE;
     kcall ''usleep_range'' [251, 1000];
     ioread32_poll_timeout (b + T7XX_PCIE_RESOURCE_STATUS)
       (\<lambda>v. v AND T7XX_PCIE_RESOURCE_STS_MSK = T7XX_PCIE_RESOURCE_STS_MSK) 1000 500000;
     return (Inr ())
   }"

definition disable_aspm_l1 :: "nat \<Rightarrow> ('z t7xx_scheme, unit) state" where
  "disable_aspm_l1 i = do { b \<leftarrow> gets IREG_BASE; iowrite32 (T7XX_L1_BIT i) (b + DISABLE_ASPM_LOWPWR) }"

definition enable_aspm_l1 :: "nat \<Rightarrow> ('z t7xx_scheme, unit) state" where
  "enable_aspm_l1 i = do { b \<leftarrow> gets IREG_BASE; iowrite32 (T7XX_L1_BIT i) (b + ENABLE_ASPM_LOWPWR) }"

definition t7xx_pci_pm_init :: "('z t7xx_scheme, errno + unit) state" where
  "t7xx_pci_pm_init = do {
     upd_pci (\<lambda>p. p\<lparr>md_pm_entities := []\<rparr>);
     kcall ''init_completion sleep_lock_acquire'' [];
     kcall ''init_completion pm_sr_ack'' [];
     kcall ''init_completion init_done'' [];
     set_pm_state MTK_PM_INIT;
     kcall ''device_init_wakeup'' [1];
     kcall ''dev_pm_set_driver_flags'' [];
     kcall ''pci_d3cold_disable'' [];
     disable_aspm_l1 0;
     kcall ''pm_runtime_set_autosuspend_delay'' [5000];
     kcall ''pm_runtime_use_autosuspend'' [];
     return (Inr ())
   }"

definition t7xx_pci_pm_init_late :: "('z t7xx_scheme, unit) state" where
  "t7xx_pci_pm_init_late = do {
     t7xx_mhccif_mask_clr (D2H_INT_DS_LOCK_ACK OR D2H_INT_SUSPEND_ACK OR D2H_INT_RESUME_ACK
       OR D2H_INT_SUSPEND_ACK_AP OR D2H_INT_RESUME_ACK_AP);
     enable_aspm_l1 0;
     set_pm_state MTK_PM_RESUMED;
     kcall ''pm_runtime_mark_last_busy'' [];
     kcall ''pm_runtime_allow'' [];
     kcall ''pm_runtime_put_noidle'' [];
     kcall ''complete_all init_done'' []
   }"

definition t7xx_pci_pm_reinit :: "('z t7xx_scheme, errno + unit) state" where
  "t7xx_pci_pm_reinit = do {
     set_pm_state MTK_PM_INIT;
     kcall ''pm_runtime_get_noresume'' [];
     disable_aspm_l1 0;
     t7xx_wait_pm_config
   }"

definition t7xx_pci_pm_exp_detected :: "('z t7xx_scheme, unit) state" where
  "t7xx_pci_pm_exp_detected = do {
     disable_aspm_l1 0;
     t7xx_wait_pm_config;
     set_pm_state MTK_PM_EXCEPTION
   }"

section \<open>Components that take part in suspend\<close>

definition t7xx_pci_pm_entity_register :: "t7xx_pm_id \<Rightarrow> ('z t7xx_scheme, errno + unit) state" where
  "t7xx_pci_pm_entity_register ident = do {
     ents \<leftarrow> get_pci md_pm_entities;
     if ident \<in> set ents then return (Inl EEXIST) else do {
       upd_pci (\<lambda>p. p\<lparr>md_pm_entities := md_pm_entities p @ [ident]\<rparr>);
       return (Inr ())
     }
   }"

definition t7xx_pci_pm_entity_unregister ::
  "t7xx_pm_id \<Rightarrow> ('z t7xx_scheme, errno + unit) state" where
  "t7xx_pci_pm_entity_unregister ident = do {
     ents \<leftarrow> get_pci md_pm_entities;
     if ident \<in> set ents then do {
       upd_pci (\<lambda>p. p\<lparr>md_pm_entities := remove1 ident (md_pm_entities p)\<rparr>);
       return (Inr ())
     } else return (Inl ENXIO)
   }"

section \<open>Deep sleep\<close>

text \<open>Returns the time left of the wait, 0 when it timed out.\<close>

definition t7xx_pci_sleep_disable_complete :: "('z t7xx_scheme, bool) state" where
  "t7xx_pci_sleep_disable_complete = do {
     v \<leftarrow> kquery ''wait_for_completion_timeout sleep_lock_acquire'' [20];
     return (v \<noteq> 0)
   }"

definition t7xx_pci_disable_sleep :: "('z t7xx_scheme, unit) state" where
  "t7xx_pci_disable_sleep = do {
     upd_pci (\<lambda>p. p\<lparr>sleep_disable_count := sleep_disable_count p + 1\<rparr>);
     st \<leftarrow> get_pci md_pm_state;
     n \<leftarrow> get_pci sleep_disable_count;
     if st < MTK_PM_RESUMED then kcall ''complete_all sleep_lock_acquire'' []
     else if n = 1 then do {
       kcall ''reinit_completion sleep_lock_acquire'' [];
       t7xx_dev_set_sleep_capability False;
       b \<leftarrow> gets IREG_BASE;
       status \<leftarrow> ioread32 (b + T7XX_PCIE_RESOURCE_STATUS);
       if status AND T7XX_PCIE_RESOURCE_STS_MSK \<noteq> 0
       then kcall ''complete_all sleep_lock_acquire'' []
       else t7xx_mhccif_h2d_swint_trigger H2D_CH_DS_LOCK
     } else return ()
   }"

definition t7xx_pci_enable_sleep :: "('z t7xx_scheme, unit) state" where
  "t7xx_pci_enable_sleep = do {
     upd_pci (\<lambda>p. p\<lparr>sleep_disable_count := sleep_disable_count p - 1\<rparr>);
     st \<leftarrow> get_pci md_pm_state;
     n \<leftarrow> get_pci sleep_disable_count;
     if st < MTK_PM_RESUMED then return ()
     else c_when (n = 0) (t7xx_dev_set_sleep_capability True)
   }"

section \<open>Requests to the modem and re-initialisation\<close>

definition t7xx_send_pm_request :: "nat \<Rightarrow> ('z t7xx_scheme, errno + unit) state" where
  "t7xx_send_pm_request request = do {
     kcall ''reinit_completion pm_sr_ack'' [];
     t7xx_mhccif_h2d_swint_trigger request;
     v \<leftarrow> kquery ''wait_for_completion_timeout pm_sr_ack'' [5000];
     return (if v = 0 then Inl ETIMEDOUT else Inr ())
   }"

definition t7xx_pcie_interrupt_reinit :: "('z t7xx_scheme, unit) state" where
  "t7xx_pcie_interrupt_reinit = do {
     t7xx_pcie_set_mac_msix_cfg (of_nat EXT_INT_NUM);
     b \<leftarrow> gets IREG_BASE;
     iowrite32 MSIX_MSK_SET_ALL (b + IMASK_HOST_MSIX_CLR_GRP0_0);
     t7xx_pcie_mac_interrupts_en;
     t7xx_pcie_mac_set_int MHCCIF_INT
   }"

definition t7xx_pcie_reinit :: "bool \<Rightarrow> ('z t7xx_scheme, errno + unit) state" where
  "t7xx_pcie_reinit is_d3 = do {
     ret \<leftarrow> kerr ''pcim_enable_device'' [];
     if isl ret then return ret else do {
       t7xx_pcie_mac_atr_init;
       t7xx_pcie_interrupt_reinit;
       c_when is_d3 (do { t7xx_mhccif_init; t7xx_pci_pm_reinit; return () });
       return (Inr ())
     }
   }"

definition t7xx_pci_infracfg_ao_calc :: "('z t7xx_scheme, unit) state" where
  "t7xx_pci_infracfg_ao_calc = upd_pci (\<lambda>p.
     p\<lparr>base_addr := (base_addr p)\<lparr>infracfg_ao_base :=
         pcie_ext_reg_base (base_addr p) + INFRACFG_AO_DEV_CHIP
           - ucast (pcie_dev_reg_trsl_addr (base_addr p))\<rparr>\<rparr>)"

section \<open>Every function here only adds to the trace\<close>

lemmas pci_dev_defs =
  set_pm_state_def t7xx_mode_update_def t7xx_dev_set_sleep_capability_def t7xx_wait_pm_config_def
  disable_aspm_l1_def enable_aspm_l1_def t7xx_pci_pm_init_def t7xx_pci_pm_init_late_def
  t7xx_pci_pm_reinit_def t7xx_pci_pm_exp_detected_def t7xx_pci_pm_entity_register_def
  t7xx_pci_pm_entity_unregister_def t7xx_pci_sleep_disable_complete_def
  t7xx_pci_disable_sleep_def t7xx_pci_enable_sleep_def t7xx_send_pm_request_def

lemma recorded_pci_dev [recorded_intros]:
  "recorded (set_pm_state st)" "recorded (t7xx_mode_update m)"
  "recorded (t7xx_dev_set_sleep_capability e)" "recorded t7xx_wait_pm_config"
  "recorded (disable_aspm_l1 i)" "recorded (enable_aspm_l1 i)"
  "recorded t7xx_pci_pm_init" "recorded t7xx_pci_pm_init_late" "recorded t7xx_pci_pm_reinit"
  "recorded t7xx_pci_pm_exp_detected" "recorded (t7xx_pci_pm_entity_register x)"
  "recorded (t7xx_pci_pm_entity_unregister x)" "recorded t7xx_pci_sleep_disable_complete"
  "recorded t7xx_pci_disable_sleep" "recorded t7xx_pci_enable_sleep"
  "recorded (t7xx_send_pm_request r)"
  unfolding pci_dev_defs by (intro recorded_intros)+

section \<open>The lock on deep sleep\<close>

text \<open>The number of holders after a sequence of takes and releases, and that it stays in range.\<close>

primrec lock_depth :: "nat \<Rightarrow> bool list \<Rightarrow> nat" where
  "lock_depth n [] = n"
| "lock_depth n (a # ops) = lock_depth (if a then Suc n else n - 1) ops"

primrec lock_fits :: "nat \<Rightarrow> bool list \<Rightarrow> bool" where
  "lock_fits n [] = True"
| "lock_fits n (a # ops) =
     (if a then Suc n < 2 ^ 32 \<and> lock_fits (Suc n) ops else 0 < n \<and> lock_fits (n - 1) ops)"

text \<open>
  The contract between the lock and its users. \<open>holders\<close> counts the users, \<open>awake\<close> says
  whether the device is told to stay awake, and \<open>active\<close> whether the lock is in force at all;
  before the handshake and during suspend it only counts.
\<close>

locale sleep_lock =
  fixes acquire release :: "('s, unit) state"
    and holders :: "'s \<Rightarrow> u32" and awake active :: "'s \<Rightarrow> bool"
  assumes acquire_holders: "holders (after acquire s) = holders s + 1"
    and release_holders: "holders (after release s) = holders s - 1"
    and acquire_active: "active (after acquire s) = active s"
    and release_active: "active (after release s) = active s"
    and acquire_awake: "active s \<Longrightarrow> awake (after acquire s) \<longleftrightarrow> awake s \<or> holders s = 0"
    and release_awake: "active s \<Longrightarrow> awake (after release s) \<longleftrightarrow> awake s \<and> holders s \<noteq> 1"
begin

text \<open>While the lock is in force the device stays awake exactly while somebody holds it.\<close>

definition consistent :: "'s \<Rightarrow> bool" where
  "consistent s \<longleftrightarrow> (active s \<longrightarrow> (awake s \<longleftrightarrow> holders s \<noteq> 0))"

lemma consistent_acquire:
  assumes "consistent s" "holders s \<noteq> - 1"
  shows "consistent (after acquire s)"
  using assms eq_neg_iff_add_eq_0 [of "holders s" 1]
  by (auto simp: consistent_def acquire_holders acquire_active acquire_awake)

lemma consistent_release:
  assumes "consistent s" "holders s \<noteq> 0"
  shows "consistent (after release s)"
  using assms by (auto simp: consistent_def release_holders release_active release_awake)

text \<open>
  A section that takes the lock, works and releases it. The work may take and release the
  lock itself, as long as it is balanced.
\<close>

definition balanced :: "('s, 'a) state \<Rightarrow> bool" where
  "balanced m \<longleftrightarrow> (\<forall>s. holders (after m s) = holders s \<and> active (after m s) = active s \<and>
     (consistent s \<longrightarrow> holders s \<noteq> 0 \<longrightarrow> consistent (after m s)))"

definition locked :: "('s, 'a) state \<Rightarrow> ('s, 'a) state" where
  "locked m = do { acquire; a \<leftarrow> m; release; return a }"

lemma after_locked: "after (locked m) s = after release (after m (after acquire s))"
  by (simp add: locked_def run_bind split_beta)

lemma locked_ok:
  assumes "balanced m" "consistent s" "holders s \<noteq> - 1"
  shows "holders (after (locked m) s) = holders s"
    and "consistent (after (locked m) s)"
    and "active s \<Longrightarrow> awake (after m (after acquire s))"
proof -
  have pos: "holders (after acquire s) \<noteq> 0"
    using assms(3) eq_neg_iff_add_eq_0 [of "holders s" 1] by (simp add: acquire_holders)
  have m: "holders (after m (after acquire s)) = holders (after acquire s)"
      "active (after m (after acquire s)) = active (after acquire s)"
      "consistent (after m (after acquire s))"
    using assms(1) consistent_acquire [OF assms(2,3)] pos by (auto simp: balanced_def)
  show "holders (after (locked m) s) = holders s"
    by (simp add: after_locked release_holders m(1) acquire_holders)
  show "consistent (after (locked m) s)"
    unfolding after_locked by (rule consistent_release [OF m(3)]) (simp add: m(1) pos)
  show "awake (after m (after acquire s))" if "active s"
    using m pos that by (simp add: consistent_def acquire_active)
qed

text \<open>Any interleaving of users that take (\<open>True\<close>) and release (\<open>False\<close>) the lock.\<close>

definition users :: "bool list \<Rightarrow> ('s, unit) state" where
  "users ops = for_each ops (\<lambda>a. if a then acquire else release)"

lemma users_consistent:
  assumes "lock_fits (unat (holders s)) ops" "consistent s"
  shows "unat (holders (after (users ops) s)) = lock_depth (unat (holders s)) ops \<and>
    consistent (after (users ops) s)"
  using assms
proof (induction ops arbitrary: s)
  case Nil
  then show ?case by (simp add: users_def)
next
  case (Cons a ops)
  let ?t = "after (if a then acquire else release) s"
  have depth: "unat (holders ?t) = (if a then Suc (unat (holders s)) else unat (holders s) - 1)"
    using Cons.prems(1)
    by (auto simp: acquire_holders release_holders unat_word_ariths unat_sub word_le_nat_alt)
  have "holders s \<noteq> - 1" if a
    using Cons.prems(1) that by (auto simp: unsigned_minus_1_eq_mask mask_eq_exp_minus_1)
  moreover have "holders s \<noteq> 0" if "\<not> a"
    using Cons.prems(1) that by auto
  ultimately have "consistent ?t"
    using Cons.prems(2) consistent_acquire consistent_release by simp
  moreover have "lock_fits (unat (holders ?t)) ops"
    using Cons.prems(1) unfolding depth by (cases a) auto
  ultimately have "unat (holders (after (users ops) ?t)) = lock_depth (unat (holders ?t)) ops \<and>
      consistent (after (users ops) ?t)"
    by (intro Cons.IH)
  then show ?case
    unfolding depth by (cases a) (simp_all add: users_def run_bind split_beta)
qed

end

section \<open>The driver's lock meets the contract\<close>

definition sleep_holders :: "'z t7xx_scheme \<Rightarrow> u32" where
  "sleep_holders s = sleep_disable_count (pci s)"

definition misc_ctrl :: "'z t7xx_scheme \<Rightarrow> iomem" where
  "misc_ctrl s = IREG_BASE s + T7XX_PCIE_MISC_CTRL"

text \<open>\<open>T7XX_PCIE_MISC_MAC_SLEEP_DIS\<close> is bit 7.\<close>

definition mac_awake :: "'z t7xx_scheme \<Rightarrow> bool" where
  "mac_awake s = bit (reg s (misc_ctrl s)) 7"

text \<open>
  The lock is in force after the handshake; the control register keeps what is written to it
  and is not one of the doorbell's.
\<close>

definition sleep_active :: "'z t7xx_scheme \<Rightarrow> bool" where
  "sleep_active s \<longleftrightarrow> md_pm_state (pci s) = MTK_PM_RESUMED \<and> keeps_writes s (misc_ctrl s) \<and>
     mhccif_base s + REG_RC2EP_SW_BSY \<noteq> misc_ctrl s \<and>
     mhccif_base s + REG_RC2EP_SW_TCHNUM \<noteq> misc_ctrl s"

lemma keeps_writes_pci [simp]: "keeps_writes (s\<lparr>pci := p\<rparr>) a = keeps_writes s a"
  by (simp add: keeps_writes_def)

lemma reg_pci [simp]: "reg (s\<lparr>pci := p\<rparr>) a = reg s a"
  by (simp add: reg_def)

lemma run_ioread32_reg: "run (ioread32 a) s = (reg s a, emit (Rd a (reg s a)) s)"
  by (simp add: run_ioread32 reg_def Let_def)

lemmas sleep_simps =
  run_bind run_upd_pci run_get_pci run_gets run_ioread32_reg run_iowrite32 run_kcall run_c_when
  run_return run_if split_beta t7xx_dev_set_sleep_capability_def t7xx_mhccif_h2d_swint_trigger_def
  sleep_holders_def misc_ctrl_def mac_awake_def sleep_active_def

interpretation sl: sleep_lock t7xx_pci_disable_sleep t7xx_pci_enable_sleep
  sleep_holders mac_awake sleep_active
proof
  fix s :: "'a t7xx_scheme"
  show "sleep_holders (after t7xx_pci_disable_sleep s) = sleep_holders s + 1"
    by (simp add: t7xx_pci_disable_sleep_def sleep_simps)
  show "sleep_holders (after t7xx_pci_enable_sleep s) = sleep_holders s - 1"
    by (simp add: t7xx_pci_enable_sleep_def sleep_simps)
  show "sleep_active (after t7xx_pci_disable_sleep s) = sleep_active s"
    by (simp add: t7xx_pci_disable_sleep_def sleep_simps IREG_BASE_def mhccif_base_def)
  show "sleep_active (after t7xx_pci_enable_sleep s) = sleep_active s"
    by (simp add: t7xx_pci_enable_sleep_def sleep_simps IREG_BASE_def mhccif_base_def)
  show "mac_awake (after t7xx_pci_disable_sleep s) \<longleftrightarrow> mac_awake s \<or> sleep_holders s = 0"
    if "sleep_active s"
    using that
    by (auto simp: t7xx_pci_disable_sleep_def sleep_simps IREG_BASE_def mhccif_base_def reg_simps
        bit_simps bits_simps)
  show "mac_awake (after t7xx_pci_enable_sleep s) \<longleftrightarrow> mac_awake s \<and> sleep_holders s \<noteq> 1"
    if "sleep_active s"
    using that
    by (auto simp: t7xx_pci_enable_sleep_def sleep_simps IREG_BASE_def mhccif_base_def reg_simps
        bit_simps bits_simps)
qed

text \<open>C5: whatever the interleaving of the functions that call \<open>t7xx_pci_disable_sleep\<close> and
  \<open>t7xx_pci_enable_sleep\<close>, as long as no release comes without a take, the count is the number
  of holders, and while the device is in its normal power state the MAC is told to stay awake
  exactly while that number is not zero.\<close>

theorem sleep_lock_interleaving:
  fixes s :: "'z t7xx_scheme"
  defines "t \<equiv> \<lambda>ops. after (for_each ops (\<lambda>a. if a then t7xx_pci_disable_sleep
                                             else t7xx_pci_enable_sleep)) s"
  assumes "lock_fits (unat (sleep_disable_count (pci s))) ops"
    and "sleep_active s \<longrightarrow> (mac_awake s \<longleftrightarrow> sleep_disable_count (pci s) \<noteq> 0)"
  shows "unat (sleep_disable_count (pci (t ops))) =
      lock_depth (unat (sleep_disable_count (pci s))) ops \<and>
    (sleep_active (t ops) \<longrightarrow> (mac_awake (t ops) \<longleftrightarrow> sleep_disable_count (pci (t ops)) \<noteq> 0))"
  using sl.users_consistent [of s ops] assms
  by (simp add: sl.users_def sl.consistent_def sleep_holders_def)

definition awake_example :: t7xx where
  "awake_example =
     \<lparr>env = reg_file (\<lambda>_. 0) (\<lambda>_ _. 0), trace = [],
      pci = \<lparr>intr_handler = (\<lambda>_. None),
             base_addr = \<lparr>pcie_mac_ireg_base = 0x10000, pcie_ext_reg_base = 0x20000,
               pcie_dev_reg_trsl_addr = 0, infracfg_ao_base = 0, mhccif_rc_base = 0x30000\<rparr>,
             rgu_pci_irq_en = False, md_pm_entities = [], md_pm_state = MTK_PM_RESUMED,
             sleep_disable_count = 0, resume_reprobe_count = 0, mode = T7XX_READY,
             debug_ports_show = False\<rparr>\<rparr>"

lemma awake_example_active: "sleep_active awake_example"
  by (auto simp: awake_example_def sleep_active_def misc_ctrl_def IREG_BASE_def mhccif_base_def
      intro: keeps_writes_reg_file)

theorem sleep_lock_interleaving_witness:
  "let t = after (for_each [True, True, False] (\<lambda>a. if a then t7xx_pci_disable_sleep
                                                  else t7xx_pci_enable_sleep)) awake_example
   in unat (sleep_disable_count (pci t)) = 1 \<and> (sleep_active t \<longrightarrow> mac_awake t)"
proof -
  have "\<not> mac_awake awake_example"
    by (simp add: mac_awake_def awake_example_def reg_def reg_file_def)
  then show ?thesis
    using sleep_lock_interleaving [of awake_example "[True, True, False]"]
    by (auto simp: awake_example_def Let_def)
qed

end
