(* ===== verification/Ring_Buf.thy ===== *)
theory Ring_Buf
  imports T7xx_Prelude
begin

text \<open>
  The index arithmetic of the data path's rings, \<open>t7xx_ring_buf_get_next_wr_idx\<close> and
  \<open>t7xx_ring_buf_rd_wr_count\<close> of \<open>t7xx_hif_dpmaif.c\<close>. The locale \<open>ring_index\<close> says what a ring
  needs of its indices; inside it a ring with a read and a write index is shown to be a
  queue, and the interpretation at the end gives this for the code's functions. The transmit
  ring (DRB), the receive rings (PIT) and the buffer rings (BAT) are its clients.
\<close>

section \<open>The code\<close>

datatype dpmaif_rdwr = DPMAIF_READ | DPMAIF_WRITE

definition t7xx_ring_buf_get_next_wr_idx :: "u32 \<Rightarrow> u32 \<Rightarrow> u32" where
  "t7xx_ring_buf_get_next_wr_idx buf_len buf_idx =
     (let i = buf_idx + 1 in if i < buf_len then i else 0)"

text \<open>\<open>pkt_cnt\<close> is a signed int: the difference wraps, and is negative below zero.\<close>

definition t7xx_ring_buf_rd_wr_count :: "u32 \<Rightarrow> u32 \<Rightarrow> u32 \<Rightarrow> dpmaif_rdwr \<Rightarrow> u32" where
  "t7xx_ring_buf_rd_wr_count total_cnt rd_idx wr_idx rd_wr =
     (let pkt_cnt = (case rd_wr of DPMAIF_READ \<Rightarrow> wr_idx - rd_idx
                                 | DPMAIF_WRITE \<Rightarrow> rd_idx - wr_idx - 1)
      in if sint pkt_cnt < 0 then pkt_cnt + total_cnt else pkt_cnt)"

section \<open>Rings as queues\<close>

locale ring_index =
  fixes valid :: "u32 \<Rightarrow> bool"
    and nxt :: "u32 \<Rightarrow> u32 \<Rightarrow> u32"
    and readable :: "u32 \<Rightarrow> u32 \<Rightarrow> u32 \<Rightarrow> u32"
    and writable :: "u32 \<Rightarrow> u32 \<Rightarrow> u32 \<Rightarrow> u32"
  assumes nxt_step: "valid n \<Longrightarrow> i < n \<Longrightarrow>
      unat (nxt n i) = (if Suc (unat i) = unat n then 0 else Suc (unat i))"
    and readable_dist: "valid n \<Longrightarrow> r < n \<Longrightarrow> w < n \<Longrightarrow> unat (readable n r w) =
      (if unat r \<le> unat w then unat w - unat r else unat n - unat r + unat w)"
    and writable_dist: "valid n \<Longrightarrow> r < n \<Longrightarrow> w < n \<Longrightarrow> unat (writable n r w) =
      (if unat w < unat r then unat r - Suc (unat w) else unat n - Suc (unat w) + unat r)"
begin

lemma nxt_lt: "valid n \<Longrightarrow> i < n \<Longrightarrow> nxt n i < n"
  by (auto simp: word_less_nat_alt nxt_step)

text \<open>Either side of the write index, and the slot that always stays free.\<close>

lemma readable_writable:
  "valid n \<Longrightarrow> r < n \<Longrightarrow> w < n \<Longrightarrow>
     Suc (unat (readable n r w) + unat (writable n r w)) = unat n"
  by (auto simp: readable_dist writable_dist word_less_nat_alt)

lemma readable_same: "valid n \<Longrightarrow> r < n \<Longrightarrow> readable n r r = 0"
  using readable_dist [of n r r] by (simp add: unat_eq_zero)

lemma readable_nxt_write:
  "valid n \<Longrightarrow> r < n \<Longrightarrow> w < n \<Longrightarrow> 0 < writable n r w \<Longrightarrow>
     unat (readable n r (nxt n w)) = Suc (unat (readable n r w))"
  using nxt_lt [of n w] writable_dist [of n r w]
  by (auto simp: readable_dist nxt_step word_less_nat_alt split: if_splits)

lemma readable_nxt_read:
  "valid n \<Longrightarrow> r < n \<Longrightarrow> w < n \<Longrightarrow> 0 < readable n r w \<Longrightarrow>
     Suc (unat (readable n (nxt n r) w)) = unat (readable n r w)"
  using nxt_lt [of n r] readable_dist [of n r w]
  by (auto simp: readable_dist nxt_step word_less_nat_alt split: if_splits)

lemma writable_nxt_write:
  assumes "valid n" "r < n" "w < n" "0 < writable n r w"
  shows "Suc (unat (writable n r (nxt n w))) = unat (writable n r w)"
  using readable_nxt_write [OF assms] readable_writable [OF assms(1-3)]
    readable_writable [OF assms(1,2), of "nxt n w"] nxt_lt [OF assms(1,3)]
  by simp

lemma readable_advance:
  assumes "valid n" "r < n"
  shows "w < n \<Longrightarrow> k \<le> unat (writable n r w) \<Longrightarrow>
    (nxt n ^^ k) w < n \<and> unat (readable n r ((nxt n ^^ k) w)) = unat (readable n r w) + k"
proof (induction k arbitrary: w)
  case 0
  then show ?case by simp
next
  case (Suc k)
  then have pos: "0 < writable n r w"
    by (metis Suc_le_D nat.simps(3) unat_0 word_gt_0)
  have "k \<le> unat (writable n r (nxt n w))"
    using writable_nxt_write [OF assms Suc.prems(1) pos] Suc.prems(2) by simp
  then show ?case
    using Suc.IH [of "nxt n w"] Suc.prems(1) pos
      readable_nxt_write [OF assms Suc.prems(1) pos] nxt_lt [OF assms(1) Suc.prems(1)]
    by (simp add: funpow_swap1)
qed

lemma readable_consume_many:
  assumes "valid n" "w < n"
  shows "r < n \<Longrightarrow> k \<le> unat (readable n r w) \<Longrightarrow>
    (nxt n ^^ k) r < n \<and> unat (readable n ((nxt n ^^ k) r) w) + k = unat (readable n r w)"
proof (induction k arbitrary: r)
  case 0
  then show ?case by simp
next
  case (Suc k)
  then have pos: "0 < readable n r w"
    by (metis Suc_le_D nat.simps(3) unat_0 word_gt_0)
  have "k \<le> unat (readable n (nxt n r) w)"
    using readable_nxt_read [OF assms(1) Suc.prems(1) assms(2) pos] Suc.prems(2) by simp
  then show ?case
    using Suc.IH [of "nxt n r"] Suc.prems(1)
      readable_nxt_read [OF assms(1) Suc.prems(1) assms(2) pos] nxt_lt [OF assms(1) Suc.prems(1)]
    by (simp add: funpow_swap1)
qed

text \<open>The slots from the read index up to the write index, oldest first.\<close>

definition window :: "u32 \<Rightarrow> u32 \<Rightarrow> u32 \<Rightarrow> u32 list" where
  "window n r w = map (\<lambda>k. (nxt n ^^ k) r) [0..<unat (readable n r w)]"

lemma funpow_nxt: "valid n \<Longrightarrow> i < n \<Longrightarrow>
    (nxt n ^^ k) i < n \<and> unat ((nxt n ^^ k) i) = (unat i + k) mod unat n"
proof (induction k)
  case 0
  then show ?case by (simp add: word_less_nat_alt)
next
  case (Suc k)
  then have "unat ((nxt n ^^ Suc k) i) = Suc (unat i + k) mod unat n"
    by (simp add: nxt_step mod_Suc)
  then show ?case
    using Suc by (simp add: nxt_lt)
qed

lemma funpow_readable:
  assumes "valid n" "r < n" "w < n"
  shows "(nxt n ^^ unat (readable n r w)) r = w"
proof -
  have lt: "unat r < unat n" "unat w < unat n"
    using assms by (simp_all add: word_less_nat_alt)
  have "unat ((nxt n ^^ unat (readable n r w)) r) = (unat r + unat (readable n r w)) mod unat n"
    using assms by (simp add: funpow_nxt)
  also have "\<dots> = unat w"
  proof (cases "unat r \<le> unat w")
    case True
    then show ?thesis using assms lt by (simp add: readable_dist)
  next
    case False
    then have "unat r + unat (readable n r w) = unat n + unat w"
      using assms lt by (simp add: readable_dist)
    then show ?thesis using lt by simp
  qed
  finally show ?thesis by (simp add: word_unat_eq_iff)
qed

lemma window_empty: "valid n \<Longrightarrow> r < n \<Longrightarrow> window n r r = []"
  by (simp add: window_def readable_same)

lemma window_produce:
  assumes "valid n" "r < n" "w < n" "0 < writable n r w"
  shows "window n r (nxt n w) = window n r w @ [w]"
  unfolding window_def by (simp add: readable_nxt_write [OF assms] funpow_readable [OF assms(1-3)])

lemma window_consume:
  assumes "valid n" "r < n" "w < n" "0 < readable n r w"
  shows "window n r w = r # window n (nxt n r) w"
proof -
  have "[0..<unat (readable n r w)] = 0 # map Suc [0..<unat (readable n (nxt n r) w)]"
    unfolding readable_nxt_read [OF assms, symmetric]
    by (simp add: map_Suc_upt upt_conv_Cons del: upt_Suc)
  then show ?thesis
    by (simp add: window_def comp_def funpow_Suc_right del: funpow.simps)
qed

lemma window_lt: "valid n \<Longrightarrow> r < n \<Longrightarrow> i \<in> set (window n r w) \<Longrightarrow> i < n"
  by (auto simp: window_def funpow_nxt)

lemma length_window: "length (window n r w) = unat (readable n r w)"
  by (simp add: window_def)

lemma inj_funpow:
  assumes "valid n" "r < n" "k < unat n" "j < unat n" "(nxt n ^^ k) r = (nxt n ^^ j) r"
  shows "k = j"
proof -
  have r: "unat r < unat n" using assms(2) by (simp add: word_less_nat_alt)
  have m: "(unat r + i) mod unat n = (if unat r + i < unat n then unat r + i else unat r + i - unat n)"
    if "i < unat n" for i
  proof (cases "unat r + i < unat n")
    case False
    have "(unat r + i) mod unat n = unat r + i - unat n"
      by (rule mod_nat_eqI) (use False that r in auto)
    then show ?thesis using False by simp
  qed simp
  have "(unat r + k) mod unat n = (unat r + j) mod unat n"
    using funpow_nxt [OF assms(1,2), of k] funpow_nxt [OF assms(1,2), of j] assms(5) by simp
  then show ?thesis
    unfolding m [OF assms(3)] m [OF assms(4)] using assms(3,4) r by (auto split: if_splits)
qed

lemma write_not_in_window:
  assumes "valid n" "r < n" "w < n"
  shows "w \<notin> set (window n r w)"
proof
  assume "w \<in> set (window n r w)"
  then obtain k where k: "k < unat (readable n r w)" "w = (nxt n ^^ k) r"
    by (auto simp: window_def)
  have lt: "unat (readable n r w) < unat n"
    using readable_writable [OF assms] by simp
  have "(nxt n ^^ k) r = (nxt n ^^ unat (readable n r w)) r"
    by (rule trans [OF k(2) [symmetric] funpow_readable [OF assms, symmetric]])
  then have "k = unat (readable n r w)"
    using k(1) lt by (intro inj_funpow [OF assms(1,2)]) simp_all
  then show False using k(1) by simp
qed

lemma distinct_window:
  assumes "valid n" "r < n" "w < n"
  shows "distinct (window n r w)"
  unfolding window_def distinct_map
proof (intro conjI inj_onI)
  fix j k
  assume "j \<in> set [0..<unat (readable n r w)]" "k \<in> set [0..<unat (readable n r w)]"
    and "(nxt n ^^ j) r = (nxt n ^^ k) r"
  then show "j = k"
    using readable_writable [OF assms] by (intro inj_funpow [OF assms(1,2)]) auto
qed simp

text \<open>The contents of a ring, and the two operations of a queue on it.\<close>

definition contents :: "(u32 \<Rightarrow> 'a) \<Rightarrow> u32 \<Rightarrow> u32 \<Rightarrow> u32 \<Rightarrow> 'a list" where
  "contents base n r w = map base (window n r w)"

lemma contents_empty: "valid n \<Longrightarrow> r < n \<Longrightarrow> contents base n r r = []"
  by (simp add: contents_def window_empty)

lemma contents_produce:
  assumes "valid n" "r < n" "w < n" "0 < writable n r w"
  shows "contents (base(w := x)) n r (nxt n w) = contents base n r w @ [x]"
  using write_not_in_window [OF assms(1-3)]
  by (simp add: contents_def window_produce [OF assms])

lemma contents_consume:
  assumes "valid n" "r < n" "w < n" "0 < readable n r w"
  shows "contents base n r w = base r # contents base n (nxt n r) w"
  by (simp add: contents_def window_consume [OF assms])

lemma contents_take:
  assumes "readable n r w \<le> readable n r v"
  shows "take (unat (readable n r w)) (contents base n r v) = contents base n r w"
  using assms by (simp add: contents_def window_def take_map word_le_nat_alt min_def)

lemma contents_nth:
  "k < unat (readable n r w) \<Longrightarrow> contents base n r w ! k = base ((nxt n ^^ k) r)"
  by (simp add: contents_def window_def)

lemma contents_outside:
  assumes "i \<notin> set (window n r w)"
  shows "contents (base(i := x)) n r w = contents base n r w"
  using assms by (simp add: contents_def)

end

section \<open>The code's indices are a ring's\<close>

lemma sint_u32_neg: "sint (x :: u32) < 0 \<longleftrightarrow> 2 ^ 31 \<le> unat x"
proof -
  have lt: "unat x < 2 ^ 32" using unsigned_less [of x] by simp
  have "sint x < 0 \<longleftrightarrow> bit (unat x) 31"
    using bit_last_iff [of x] by (simp add: bit_unsigned_iff)
  also have "\<dots> \<longleftrightarrow> odd (unat x div 2 ^ 31)"
    by (simp add: bit_iff_odd)
  also have "\<dots> \<longleftrightarrow> 2 ^ 31 \<le> unat x"
  proof (cases "2 ^ 31 \<le> unat x")
    case True
    then have "unat x div 2 ^ 31 = 1" using lt by (intro div_nat_eqI) simp_all
    then show ?thesis using True by simp
  next
    case False
    then have "unat x div 2 ^ 31 = 0" by simp
    then show ?thesis using False by (simp only: ) simp
  qed
  finally show ?thesis .
qed

lemma unat_u32_lt: "unat (a :: u32) < 2 ^ 32"
  by (rule order_less_le_trans [OF unsigned_less]) simp

lemma unat_sub_u32:
  "unat (a - b :: u32) = (if unat b \<le> unat a then unat a - unat b else 2 ^ 32 + unat a - unat b)"
proof (cases "unat b \<le> unat a")
  case True
  then show ?thesis by (simp add: unat_sub word_le_nat_alt)
next
  case False
  then show ?thesis
    by (simp add: unat_sub_if' word_le_nat_alt) 
qed

definition ring_size :: "u32 \<Rightarrow> bool" where
  "ring_size n \<longleftrightarrow> 0 < n \<and> unat n < 2 ^ 31"

lemma next_wr_idx_step:
  assumes "ring_size n" "i < n"
  shows "unat (t7xx_ring_buf_get_next_wr_idx n i) = (if Suc (unat i) = unat n then 0 else Suc (unat i))"
proof -
  have "unat (i + 1) = Suc (unat i)"
    using assms by (simp add: ring_size_def word_less_nat_alt unat_word_ariths)
  then show ?thesis
    using assms by (auto simp: t7xx_ring_buf_get_next_wr_idx_def Let_def word_less_nat_alt)
qed

lemma unat_add_wrap:
  "2 ^ 32 \<le> unat a + unat b \<Longrightarrow> unat (a + b :: u32) = unat a + unat b - 2 ^ 32"
  using unat_u32_lt [of a] unat_u32_lt [of b]
  by (simp add: unat_word_ariths) (rule mod_nat_eqI, simp_all)

lemma rd_count_dist:
  assumes "ring_size n" "r < n" "w < n"
  shows "unat (t7xx_ring_buf_rd_wr_count n r w DPMAIF_READ) =
    (if unat r \<le> unat w then unat w - unat r else unat n - unat r + unat w)"
  using assms
  by (auto simp: t7xx_ring_buf_rd_wr_count_def Let_def sint_u32_neg unat_sub_u32 unat_add_wrap
      ring_size_def word_less_nat_alt)

lemma wr_count_dist:
  assumes "ring_size n" "r < n" "w < n"
  shows "unat (t7xx_ring_buf_rd_wr_count n r w DPMAIF_WRITE) =
    (if unat w < unat r then unat r - Suc (unat w) else unat n - Suc (unat w) + unat r)"
proof -
  have "unat (r - w - 1) =
      (if unat w < unat r then unat r - Suc (unat w) else 2 ^ 32 + unat r - Suc (unat w))"
    using unat_u32_lt [of r] unat_u32_lt [of w]
    by (auto simp: unat_sub_u32 [of "r - w"] unat_sub_u32 [of r])
  then show ?thesis
    using assms
    by (auto simp: t7xx_ring_buf_rd_wr_count_def Let_def sint_u32_neg unat_add_wrap
        ring_size_def word_less_nat_alt)
qed

interpretation rb: ring_index ring_size t7xx_ring_buf_get_next_wr_idx
  "\<lambda>n r w. t7xx_ring_buf_rd_wr_count n r w DPMAIF_READ"
  "\<lambda>n r w. t7xx_ring_buf_rd_wr_count n r w DPMAIF_WRITE"
  by unfold_locales (simp_all add: next_wr_idx_step rd_count_dist wr_count_dist)

section \<open>Going several slots forward, and one back\<close>

lemma add_wrap_advance:
  assumes "ring_size n" "i < n" "k \<le> unat n"
  shows "(let w = i + of_nat k in if w \<ge> n then w - n else w)
    = (t7xx_ring_buf_get_next_wr_idx n ^^ k) i"
proof -
  have n: "unat n < 2 ^ 31" "unat i < unat n"
    using assms by (simp_all add: ring_size_def word_less_nat_alt)
  have k: "unat (of_nat k :: u32) = k"
    using n assms(3) by (simp add: unsigned_of_nat take_bit_nat_eq_self)
  have w: "unat (i + of_nat k) = unat i + k"
    using n assms(3) by (simp add: unat_word_ariths k)
  have "unat (let w = i + of_nat k in if w \<ge> n then w - n else w) = (unat i + k) mod unat n"
  proof (cases "unat n \<le> unat i + k")
    case True
    have "(unat i + k) mod unat n = unat i + k - unat n \<or> unat i + k = unat n + unat n"
      using True n assms(3) by (intro disjI1 mod_nat_eqI) auto
    then show ?thesis
      using True n assms(3) by (auto simp: Let_def word_le_nat_alt w unat_sub)
  next
    case False
    then show ?thesis by (simp add: Let_def word_le_nat_alt w)
  qed
  then show ?thesis
    using rb.funpow_nxt [OF assms(1,2), of k] by (simp add: word_unat_eq_iff)
qed

lemma step_back_next:
  assumes "ring_size n" "i < n"
  shows "(let c = t7xx_ring_buf_get_next_wr_idx n i in if c \<noteq> 0 then c - 1 else n - 1) = i"
  using assms next_wr_idx_step [OF assms]
  by (auto simp: Let_def t7xx_ring_buf_get_next_wr_idx_def word_unat_eq_iff ring_size_def
      unat_sub word_le_nat_alt word_less_nat_alt split: if_splits)

text \<open>C4: a ring with a read and a write index is a queue. Between them the two counts of
  \<open>t7xx_ring_buf_rd_wr_count\<close> cover every slot but one; writing a slot and stepping with
  \<open>t7xx_ring_buf_get_next_wr_idx\<close> appends to the readable slots, and stepping the read index
  takes the oldest one away.\<close>

theorem ring_buf_is_queue:
  fixes base :: "u32 \<Rightarrow> 'a"
  defines "readable \<equiv> \<lambda>n r w. unat (t7xx_ring_buf_rd_wr_count n r w DPMAIF_READ)"
    and "writable \<equiv> \<lambda>n r w. unat (t7xx_ring_buf_rd_wr_count n r w DPMAIF_WRITE)"
    and "nxt \<equiv> t7xx_ring_buf_get_next_wr_idx"
  defines "queue \<equiv> \<lambda>base n r w. map (\<lambda>k. base ((nxt n ^^ k) r)) [0..<readable n r w] :: 'a list"
  assumes "ring_size n" "r < n" "w < n"
  shows "readable n r w + writable n r w + 1 = unat n \<and>
    queue base n r r = [] \<and>
    (0 < writable n r w \<longrightarrow> queue (base(w := x)) n r (nxt n w) = queue base n r w @ [x]) \<and>
    (0 < readable n r w \<longrightarrow> queue base n r w = base r # queue base n (nxt n r) w)"
proof -
  have q: "queue b n' r' w' = rb.contents b n' r' w'" for b n' r' w'
    by (simp add: assms(1-4) rb.contents_def rb.window_def comp_def)
  show ?thesis
    unfolding q using assms(5-7)
    by (auto simp: assms(1-3) rb.contents_empty rb.contents_produce rb.contents_consume
        rb.readable_writable word_gt_0 unat_gt_0)
qed

theorem ring_buf_is_queue_witness:
  "unat (t7xx_ring_buf_rd_wr_count 6144 6000 100 DPMAIF_READ)
     + unat (t7xx_ring_buf_rd_wr_count 6144 6000 100 DPMAIF_WRITE) + 1 = 6144"
  using ring_buf_is_queue [of 6144 6000 100 "\<lambda>_. ()"] by (simp add: ring_size_def)

end
