(* ===== verification/Dpmaif_Tx.thy ===== *)
theory Dpmaif_Tx
  imports Dpmaif_Config Pci_Dev Ring_Buf
begin

text \<open>
  The transmit path, \<open>t7xx_hif_dpmaif_tx.c\<close>: packets wait in the list of a queue, a kernel
  thread writes them to the ring of descriptors (DRB) that it shares with the device, and the
  interrupt work gives finished descriptors back.

  The two arrays of a ring are functions from an index to an entry; \<open>drb_size_cnt\<close> is their
  size. An \<open>sk_buff\<close> is its address and what the driver reads of it. \<open>atomic_t\<close> counters are
  unbounded integers, compared as the code compares them. The network layer's
  \<open>state_notify\<close> callback is the argument \<open>cb\<close>.
\<close>

section \<open>Packets and queues\<close>

record sk_buff =
  skb_ptr :: u64
  skb_len :: u32
  skb_headlen :: u32
  skb_data :: u64
  skb_frags :: "(u64 \<times> u32) list"
  skb_has_frag_list :: bool
  cb_netif_idx :: u8
  cb_txq_number :: nat

record dpmaif_drb =
  drb_header :: u32
  drb_dw1 :: u32 \<comment> \<open>\<open>pd.data_addr_l\<close> or \<open>msg.msg_hdr\<close>\<close>
  drb_dw2 :: u32 \<comment> \<open>\<open>pd.data_addr_h\<close> or \<open>msg.reserved1\<close>\<close>

abbreviation (input) DRB_HDR_DATA_LEN :: field where "DRB_HDR_DATA_LEN \<equiv> (31, 16)"
abbreviation (input) DRB_HDR_CONT :: field where "DRB_HDR_CONT \<equiv> (2, 2)"
abbreviation (input) DRB_HDR_DTYP :: field where "DRB_HDR_DTYP \<equiv> (1, 0)"
abbreviation (input) DRB_MSG_L4_CHK :: field where "DRB_MSG_L4_CHK \<equiv> (29, 29)"
abbreviation (input) DRB_MSG_CHANNEL_ID :: field where "DRB_MSG_CHANNEL_ID \<equiv> (23, 16)"
abbreviation (input) DRB_MSG_COUNT_L :: field where "DRB_MSG_COUNT_L \<equiv> (15, 0)"
abbreviation (input) DES_DTYP_PD :: u32 where "DES_DTYP_PD \<equiv> 0"
abbreviation (input) DES_DTYP_MSG :: u32 where "DES_DTYP_MSG \<equiv> 1"
abbreviation (input) DPMAIF_SKB_TX_BURST_CNT :: nat where "DPMAIF_SKB_TX_BURST_CNT \<equiv> 5"
abbreviation (input) DPMAIF_DRB_LIST_LEN :: u32 where "DPMAIF_DRB_LIST_LEN \<equiv> 6144"
abbreviation (input) DPMAIF_TX_DEFAULT_QUEUE :: nat where "DPMAIF_TX_DEFAULT_QUEUE \<equiv> 0"

text \<open>\<open>MAX_SKB_FRAGS\<close> of the kernel's default configuration.\<close>

abbreviation (input) MAX_SKB_FRAGS :: int where "MAX_SKB_FRAGS \<equiv> 17"

record dpmaif_drb_skb =
  ds_skb :: u64 \<comment> \<open>0 is the null pointer\<close>
  ds_bus_addr :: dma_addr
  ds_data_len :: u32
  ds_index :: u32
  ds_is_msg :: bool
  ds_is_frag :: bool
  ds_is_last :: bool

record dpmaif_tx_queue =
  txq_started :: bool
  tx_budget :: int
  drb_base_ptr :: u64
  drb_base :: "u32 \<Rightarrow> dpmaif_drb"
  drb_bus_addr :: dma_addr
  drb_size_cnt :: u32
  drb_wr_idx :: u32
  drb_rd_idx :: u32
  drb_release_rd_idx :: u32
  drb_skb_ptr :: u64
  drb_skb_base :: "u32 \<Rightarrow> dpmaif_drb_skb"
  txq_worker :: u64
  tx_processing :: int
  tx_skb_head :: "sk_buff list"

datatype dpmaif_state =
    DPMAIF_STATE_MIN | DPMAIF_STATE_PWROFF | DPMAIF_STATE_PWRON | DPMAIF_STATE_EXCEPTION

datatype dpmaif_txq_state = DMPAIF_TXQ_STATE_IRQ | DMPAIF_TXQ_STATE_FULL

record dpmaif_tx = dpmaif_hw +
  dpmaif_st :: dpmaif_state
  txq :: "nat \<Rightarrow> dpmaif_tx_queue"
  tx_thread :: u64

type_synonym 'z state_notify = "dpmaif_txq_state \<Rightarrow> nat \<Rightarrow> ('z dpmaif_tx_scheme, unit) state"

definition get_txq :: "nat \<Rightarrow> (dpmaif_tx_queue \<Rightarrow> 'a) \<Rightarrow> ('z dpmaif_tx_scheme, 'a) state" where
  "get_txq q f = gets (\<lambda>s. f (txq s q))"

definition upd_txq ::
  "nat \<Rightarrow> (dpmaif_tx_queue \<Rightarrow> dpmaif_tx_queue) \<Rightarrow> ('z dpmaif_tx_scheme, unit) state" where
  "upd_txq q f = modify (\<lambda>s. s\<lparr>txq := (txq s)(q := f (txq s q))\<rparr>)"

section \<open>Giving descriptors back\<close>

definition t7xx_dpmaif_update_drb_rd_idx :: "nat \<Rightarrow> ('z dpmaif_tx_scheme, u32) state" where
  "t7xx_dpmaif_update_drb_rd_idx q_num = do {
     started \<leftarrow> get_txq q_num txq_started;
     if \<not> started then return 0 else do {
       old_sw_rd_idx \<leftarrow> get_txq q_num drb_rd_idx;
       new_hw_rd_idx \<leftarrow> t7xx_dpmaif_ul_get_rd_idx q_num;
       if new_hw_rd_idx \<ge> DPMAIF_DRB_LIST_LEN then return 0 else do {
         sz \<leftarrow> get_txq q_num drb_size_cnt;
         upd_txq q_num (\<lambda>q. q\<lparr>drb_rd_idx := new_hw_rd_idx\<rparr>);
         return (if old_sw_rd_idx \<le> new_hw_rd_idx then new_hw_rd_idx - old_sw_rd_idx
                 else sz - old_sw_rd_idx + new_hw_rd_idx)
       }
     }
   }"

text \<open>
  One round of the loop that releases descriptors. The result says whether the round went on
  to the next descriptor: a last payload descriptor without its packet leaves by \<open>continue\<close>,
  before the index moves.
\<close>

definition drb_is_pd :: "dpmaif_drb \<Rightarrow> bool" where
  "drb_is_pd d \<longleftrightarrow> FIELD_GET DRB_HDR_DTYP (drb_header d) = DES_DTYP_PD"

definition drb_has_more :: "dpmaif_drb \<Rightarrow> bool" where
  "drb_has_more d \<longleftrightarrow> FIELD_GET DRB_HDR_CONT (drb_header d) \<noteq> 0"

definition release_one ::
  "'z state_notify \<Rightarrow> nat \<Rightarrow> u32 \<Rightarrow> u32 \<Rightarrow> ('z dpmaif_tx_scheme, u32) state" where
  "release_one cb q_num drb_cnt cur_idx = do {
     cur_drb \<leftarrow> get_txq q_num (\<lambda>q. drb_base q cur_idx);
     cur_drb_skb \<leftarrow> get_txq q_num (\<lambda>q. drb_skb_base q cur_idx);
     c_when (drb_is_pd cur_drb \<and> \<not> ds_is_msg cur_drb_skb)
       (dma_unmap_single (ds_bus_addr cur_drb_skb) (ucast (ds_data_len cur_drb_skb)));
     if drb_is_pd cur_drb \<and> \<not> drb_has_more cur_drb \<and> ds_skb cur_drb_skb = 0
     then return cur_idx
     else do {
       c_when (drb_is_pd cur_drb \<and> \<not> drb_has_more cur_drb)
         (dev_kfree_skb (ds_skb cur_drb_skb));
       c_when (drb_is_pd cur_drb) (upd_txq q_num (\<lambda>q.
         q\<lparr>drb_skb_base := (drb_skb_base q)(cur_idx := (drb_skb_base q cur_idx)\<lparr>ds_skb := 0\<rparr>)\<rparr>));
       let nxt = t7xx_ring_buf_get_next_wr_idx drb_cnt cur_idx;
       upd_txq q_num (\<lambda>q. q\<lparr>drb_release_rd_idx := nxt, tx_budget := tx_budget q + 1\<rparr>);
       budget \<leftarrow> get_txq q_num tx_budget;
       sz \<leftarrow> get_txq q_num drb_size_cnt;
       c_when (of_int budget > sz div 8) (cb DMPAIF_TXQ_STATE_IRQ q_num);
       return nxt
     }
   }"

primrec release_loop ::
  "'z state_notify \<Rightarrow> nat \<Rightarrow> u32 \<Rightarrow> nat \<Rightarrow> u32 \<Rightarrow> ('z dpmaif_tx_scheme, u32) state" where
  "release_loop cb q_num drb_cnt 0 cur_idx = return cur_idx"
| "release_loop cb q_num drb_cnt (Suc n) cur_idx = do {
     nxt \<leftarrow> release_one cb q_num drb_cnt cur_idx;
     release_loop cb q_num drb_cnt n nxt
   }"

definition t7xx_dpmaif_release_tx_buffer ::
  "'z state_notify \<Rightarrow> nat \<Rightarrow> u32 \<Rightarrow> ('z dpmaif_tx_scheme, u32) state" where
  "t7xx_dpmaif_release_tx_buffer cb q_num release_cnt = do {
     drb_cnt \<leftarrow> get_txq q_num drb_size_cnt;
     cur_idx \<leftarrow> get_txq q_num drb_release_rd_idx;
     release_loop cb q_num drb_cnt (unat release_cnt) cur_idx;
     return release_cnt
   }"

definition min_not_zero :: "u32 \<Rightarrow> u32 \<Rightarrow> u32" where
  "min_not_zero a b = (if a = 0 then b else if b = 0 then a else min a b)"

definition t7xx_dpmaif_tx_release ::
  "'z state_notify \<Rightarrow> nat \<Rightarrow> u32 \<Rightarrow> ('z dpmaif_tx_scheme, errno + unit) state" where
  "t7xx_dpmaif_tx_release cb q_num budget = do {
     t7xx_dpmaif_update_drb_rd_idx q_num;
     rel_cnt \<leftarrow> get_txq q_num (\<lambda>q. t7xx_ring_buf_rd_wr_count (drb_size_cnt q)
                  (drb_release_rd_idx q) (drb_rd_idx q) DPMAIF_READ);
     real_rel_cnt \<leftarrow>
       (let n = min_not_zero budget rel_cnt in
        if n \<noteq> 0 then t7xx_dpmaif_release_tx_buffer cb q_num n else return n);
     return (if real_rel_cnt < rel_cnt then Inl EAGAIN else Inr ())
   }"

definition t7xx_dpmaif_drb_ring_not_empty :: "nat \<Rightarrow> ('z dpmaif_tx_scheme, bool) state" where
  "t7xx_dpmaif_drb_ring_not_empty q = do {
     n \<leftarrow> t7xx_dpmaif_update_drb_rd_idx q;
     return (n \<noteq> 0)
   }"

text \<open>\<open>ret < 0 && ret != -EACCES\<close> after \<open>pm_runtime_resume_and_get\<close>.\<close>

definition pm_get_failed :: "errno + unit \<Rightarrow> bool" where
  "pm_get_failed r \<longleftrightarrow> (case r of Inl e \<Rightarrow> e \<noteq> EACCES | Inr _ \<Rightarrow> False)"

definition tx_done_awake :: "'z state_notify \<Rightarrow> nat \<Rightarrow> ('z dpmaif_tx_scheme, unit) state" where
  "tx_done_awake cb q = do {
     sz \<leftarrow> get_txq q drb_size_cnt;
     ret \<leftarrow> t7xx_dpmaif_tx_release cb q sz;
     again \<leftarrow> (if ret = Inl EAGAIN then return True else do {
       cleared \<leftarrow> t7xx_dpmaif_ul_clr_done q;
       if cleared then t7xx_dpmaif_drb_ring_not_empty q else return False
     });
     if again then do {
       kcall ''queue_work dpmaif_tx_work'' [of_nat q];
       t7xx_dpmaif_clr_ip_busy_sts
     } else do {
       t7xx_dpmaif_clr_ip_busy_sts;
       t7xx_dpmaif_unmask_ulq_intr q
     }
   }"

definition t7xx_dpmaif_tx_done :: "'z state_notify \<Rightarrow> nat \<Rightarrow> ('z dpmaif_tx_scheme, unit) state" where
  "t7xx_dpmaif_tx_done cb q = do {
     ret \<leftarrow> kerr ''pm_runtime_resume_and_get'' [];
     if pm_get_failed ret then return () else do {
       t7xx_pci_disable_sleep;
       complete \<leftarrow> t7xx_pci_sleep_disable_complete;
       c_when complete (tx_done_awake cb q);
       t7xx_pci_enable_sleep;
       kcall ''pm_runtime_mark_last_busy'' [];
       kcall ''pm_runtime_put_autosuspend'' []
     }
   }"

section \<open>Writing packets to the ring\<close>

definition msg_drb :: "u32 \<Rightarrow> u32 \<Rightarrow> u32 \<Rightarrow> dpmaif_drb \<Rightarrow> dpmaif_drb" where
  "msg_drb pkt_len count_l channel_id d =
     d\<lparr>drb_header := FIELD_PREP DRB_HDR_DTYP DES_DTYP_MSG OR FIELD_PREP DRB_HDR_CONT 1
                       OR FIELD_PREP DRB_HDR_DATA_LEN pkt_len,
       drb_dw1 := FIELD_PREP DRB_MSG_COUNT_L count_l OR FIELD_PREP DRB_MSG_CHANNEL_ID channel_id
                       OR FIELD_PREP DRB_MSG_L4_CHK 1\<rparr>"

definition t7xx_setup_msg_drb ::
  "nat \<Rightarrow> u32 \<Rightarrow> u32 \<Rightarrow> u32 \<Rightarrow> u32 \<Rightarrow> ('z dpmaif_tx_scheme, unit) state" where
  "t7xx_setup_msg_drb q_num cur_idx pkt_len count_l channel_id = upd_txq q_num (\<lambda>q.
     q\<lparr>drb_base := (drb_base q)(cur_idx :=
         msg_drb pkt_len count_l channel_id (drb_base q cur_idx))\<rparr>)"

definition payload_drb :: "dma_addr \<Rightarrow> u32 \<Rightarrow> bool \<Rightarrow> dpmaif_drb \<Rightarrow> dpmaif_drb" where
  "payload_drb data_addr pkt_size last_one d =
     d\<lparr>drb_header := FIELD_PREP DRB_HDR_DTYP DES_DTYP_PD OR FIELD_PREP DRB_HDR_DATA_LEN pkt_size
                       OR (if \<not> last_one then FIELD_PREP DRB_HDR_CONT 1 else 0),
       drb_dw1 := lower_32_bits data_addr, drb_dw2 := upper_32_bits data_addr\<rparr>"

definition t7xx_setup_payload_drb ::
  "nat \<Rightarrow> u32 \<Rightarrow> dma_addr \<Rightarrow> u32 \<Rightarrow> bool \<Rightarrow> ('z dpmaif_tx_scheme, unit) state" where
  "t7xx_setup_payload_drb q_num cur_idx data_addr pkt_size last_one = upd_txq q_num (\<lambda>q.
     q\<lparr>drb_base := (drb_base q)(cur_idx :=
         payload_drb data_addr pkt_size last_one (drb_base q cur_idx))\<rparr>)"

text \<open>\<open>index\<close> is a bit field of 13 bits.\<close>

definition t7xx_record_drb_skb ::
  "nat \<Rightarrow> u32 \<Rightarrow> u64 \<Rightarrow> bool \<Rightarrow> bool \<Rightarrow> bool \<Rightarrow> dma_addr \<Rightarrow> u32 \<Rightarrow> ('z dpmaif_tx_scheme, unit) state"
where
  "t7xx_record_drb_skb q_num cur_idx skb is_msg is_frag is_last_one bus_addr data_len =
     upd_txq q_num (\<lambda>q. q\<lparr>drb_skb_base := (drb_skb_base q)(cur_idx :=
       \<lparr>ds_skb = skb, ds_bus_addr = bus_addr, ds_data_len = data_len,
        ds_index = take_bit 13 cur_idx, ds_is_msg = is_msg, ds_is_frag = is_frag,
        ds_is_last = is_last_one\<rparr>)\<rparr>)"

text \<open>The buffers of a packet: its linear part, then its fragments; (address, length, is a fragment).\<close>

definition skb_payload :: "sk_buff \<Rightarrow> (u64 \<times> u32 \<times> bool) list" where
  "skb_payload skb =
     (skb_data skb, skb_headlen skb, False) # map (\<lambda>(a, l). (a, l, True)) (skb_frags skb)"

text \<open>
  The loop over the buffers. \<open>Inr\<close>: all are in the ring. \<open>Inl (wr_cnt, cur_idx)\<close>: mapping the
  buffer number \<open>wr_cnt\<close> failed with the ring at \<open>cur_idx\<close>.
\<close>

primrec add_payload ::
  "nat \<Rightarrow> u64 \<Rightarrow> nat \<Rightarrow> u32 \<Rightarrow> (u64 \<times> u32 \<times> bool) list \<Rightarrow>
     ('z dpmaif_tx_scheme, (nat \<times> u32) + unit) state" where
  "add_payload q skb wr_cnt cur_idx [] = return (Inr ())"
| "add_payload q skb wr_cnt cur_idx (b # bs) = (case b of (data_addr, data_len, is_frag) \<Rightarrow> do {
     bus_addr \<leftarrow> dma_map_single data_addr (ucast data_len);
     if dma_mapping_error bus_addr then return (Inl (wr_cnt, cur_idx)) else do {
       sz \<leftarrow> get_txq q drb_size_cnt;
       let cur_idx = t7xx_ring_buf_get_next_wr_idx sz cur_idx;
       t7xx_setup_payload_drb q cur_idx bus_addr data_len (bs = []);
       t7xx_record_drb_skb q cur_idx skb False is_frag (bs = []) bus_addr data_len;
       add_payload q skb (Suc wr_cnt) cur_idx bs
     }
   })"

text \<open>\<open>while (wr_cnt--)\<close>: step back and unmap what is found there.\<close>

primrec unmap_payload :: "nat \<Rightarrow> nat \<Rightarrow> u32 \<Rightarrow> ('z dpmaif_tx_scheme, unit) state" where
  "unmap_payload q 0 cur_idx = return ()"
| "unmap_payload q (Suc wr_cnt) cur_idx = do {
     sz \<leftarrow> get_txq q drb_size_cnt;
     let cur_idx = (if cur_idx \<noteq> 0 then cur_idx - 1 else sz - 1);
     d \<leftarrow> get_txq q (\<lambda>t. drb_skb_base t cur_idx);
     dma_unmap_single (ds_bus_addr d) (ucast (ds_data_len d));
     unmap_payload q wr_cnt cur_idx
   }"

definition t7xx_dpmaif_add_skb_to_ring ::
  "'z state_notify \<Rightarrow> sk_buff \<Rightarrow> ('z dpmaif_tx_scheme, errno + unit) state" where
  "t7xx_dpmaif_add_skb_to_ring cb skb = do {
     let q = cb_txq_number skb;
     started \<leftarrow> get_txq q txq_started;
     st \<leftarrow> gets dpmaif_st;
     if \<not> started \<or> st \<noteq> DPMAIF_STATE_PWRON then return (Inl ENODEV) else do {
       upd_txq q (\<lambda>t. t\<lparr>tx_processing := 1\<rparr>);
       let payload_cnt = length (skb_payload skb);
       let send_cnt = of_nat (payload_cnt + 1);
       cur_idx \<leftarrow> get_txq q drb_wr_idx;
       let drb_wr_idx_backup = cur_idx;
       upd_txq q (\<lambda>t. t\<lparr>drb_wr_idx :=
         (let w = drb_wr_idx t + send_cnt in if w \<ge> drb_size_cnt t then w - drb_size_cnt t else w)\<rparr>);
       t7xx_setup_msg_drb q cur_idx (skb_len skb) 0 (ucast (cb_netif_idx skb));
       t7xx_record_drb_skb q cur_idx (skb_ptr skb) True False False 0 0;
       ret \<leftarrow> add_payload q (skb_ptr skb) 0 cur_idx (skb_payload skb);
       case ret of
         Inr _ \<Rightarrow> do {
           upd_txq q (\<lambda>t. t\<lparr>tx_budget := tx_budget t - uint send_cnt\<rparr>);
           budget \<leftarrow> get_txq q tx_budget;
           c_when (budget \<le> MAX_SKB_FRAGS + 2) (cb DMPAIF_TXQ_STATE_FULL q);
           upd_txq q (\<lambda>t. t\<lparr>tx_processing := 0\<rparr>);
           return (Inr ())
         }
       | Inl (wr_cnt, cur_idx) \<Rightarrow> do {
           unmap_payload q wr_cnt cur_idx;
           upd_txq q (\<lambda>t. t\<lparr>drb_wr_idx := drb_wr_idx_backup, tx_processing := 0\<rparr>);
           return (Inl ENOMEM)
         }
     }
   }"

definition t7xx_tx_lists_are_all_empty :: "('z dpmaif_tx_scheme, bool) state" where
  "t7xx_tx_lists_are_all_empty =
     gets (\<lambda>s. list_all (\<lambda>i. tx_skb_head (txq s i) = []) [0..<DPMAIF_TXQ_NUM])"

definition t7xx_select_tx_queue :: "('z dpmaif_tx_scheme, nat option) state" where
  "t7xx_select_tx_queue = do {
     started \<leftarrow> get_txq DPMAIF_TX_DEFAULT_QUEUE txq_started;
     return (if started then Some DPMAIF_TX_DEFAULT_QUEUE else None)
   }"

definition t7xx_txq_drb_wr_available :: "nat \<Rightarrow> ('z dpmaif_tx_scheme, u32) state" where
  "t7xx_txq_drb_wr_available q = get_txq q (\<lambda>t. t7xx_ring_buf_rd_wr_count (drb_size_cnt t)
     (drb_release_rd_idx t) (drb_wr_idx t) DPMAIF_WRITE)"

definition t7xx_skb_drb_cnt :: "sk_buff \<Rightarrow> u32" where
  "t7xx_skb_drb_cnt skb = of_nat (length (skb_frags skb) + 2)"

text \<open>\<open>burst_loop n remain drb_cnt ret\<close>: \<open>n\<close> rounds are left.\<close>

primrec burst_loop ::
  "'z state_notify \<Rightarrow> nat \<Rightarrow> nat \<Rightarrow> u32 \<Rightarrow> int \<Rightarrow> errno + unit \<Rightarrow>
     ('z dpmaif_tx_scheme, int \<times> (errno + unit)) state" where
  "burst_loop cb q 0 drb_remain_cnt drb_cnt ret = return (drb_cnt, ret)"
| "burst_loop cb q (Suc n) drb_remain_cnt drb_cnt ret = do {
     skbs \<leftarrow> get_txq q tx_skb_head;
     case skbs of
       [] \<Rightarrow> return (drb_cnt, ret)
     | skb # rest \<Rightarrow> do {
         let send_drb_cnt = t7xx_skb_drb_cnt skb;
         if drb_remain_cnt < send_drb_cnt then do {
           drb_remain_cnt \<leftarrow> t7xx_txq_drb_wr_available q;
           burst_loop cb q n drb_remain_cnt drb_cnt ret
         } else do {
           ret \<leftarrow> t7xx_dpmaif_add_skb_to_ring cb skb;
           if isl ret then return (drb_cnt, ret) else do {
             upd_txq q (\<lambda>t. t\<lparr>tx_skb_head := rest\<rparr>);
             burst_loop cb q n (drb_remain_cnt - send_drb_cnt) (drb_cnt + uint send_drb_cnt) ret
           }
         }
       }
   }"

text \<open>The number of descriptors written, or an error when there are none.\<close>

definition t7xx_txq_burst_send_skb ::
  "'z state_notify \<Rightarrow> nat \<Rightarrow> ('z dpmaif_tx_scheme, errno + int) state" where
  "t7xx_txq_burst_send_skb cb q = do {
     drb_remain_cnt \<leftarrow> t7xx_txq_drb_wr_available q;
     (drb_cnt, ret) \<leftarrow> burst_loop cb q DPMAIF_SKB_TX_BURST_CNT drb_remain_cnt 0 (Inr ());
     return (if drb_cnt > 0 then Inr drb_cnt else case ret of Inl e \<Rightarrow> Inl e | Inr _ \<Rightarrow> Inr 0)
   }"

text \<open>
  The loop of the push thread runs as long as packets are there and the thread is not stopped,
  so it needs fuel: \<open>None\<close> when it runs out.
\<close>

definition hw_push_go_on :: "('z dpmaif_tx_scheme, bool) state" where
  "hw_push_go_on = do {
     empty \<leftarrow> t7xx_tx_lists_are_all_empty;
     if empty then return False else do {
       stop \<leftarrow> kquery ''kthread_should_stop'' [];
       st \<leftarrow> gets dpmaif_st;
       return (stop = 0 \<and> st = DPMAIF_STATE_PWRON)
     }
   }"

primrec hw_push_loop ::
  "'z state_notify \<Rightarrow> nat \<Rightarrow> bool \<Rightarrow> ('z dpmaif_tx_scheme, unit option) state" where
  "hw_push_loop cb 0 wait_disable_sleep = return None"
| "hw_push_loop cb (Suc fuel) wait_disable_sleep = do {
     q \<leftarrow> t7xx_select_tx_queue;
     case q of
       None \<Rightarrow> return (Some ())
     | Some q \<Rightarrow> do {
         sent \<leftarrow> t7xx_txq_burst_send_skb cb q;
         case sent of
           Inr n \<Rightarrow>
             if n \<le> 0 then do {
               kcall ''usleep_range'' [10, 20];
               kcall ''cond_resched'' [];
               go \<leftarrow> hw_push_go_on;
               if go then hw_push_loop cb fuel wait_disable_sleep else return (Some ())
             } else do {
               awake \<leftarrow> (if wait_disable_sleep then t7xx_pci_sleep_disable_complete else return True);
               if \<not> awake then return (Some ()) else do {
                 t7xx_dpmaif_ul_update_hw_drb_cnt q (of_int n * DPMAIF_UL_DRB_SIZE_WORD);
                 kcall ''cond_resched'' [];
                 go \<leftarrow> hw_push_go_on;
                 if go then hw_push_loop cb fuel False else return (Some ())
               }
             }
         | Inl _ \<Rightarrow> do {
             kcall ''usleep_range'' [10, 20];
             kcall ''cond_resched'' [];
             go \<leftarrow> hw_push_go_on;
             if go then hw_push_loop cb fuel wait_disable_sleep else return (Some ())
           }
       }
   }"

definition t7xx_do_tx_hw_push ::
  "'z state_notify \<Rightarrow> nat \<Rightarrow> ('z dpmaif_tx_scheme, unit option) state" where
  "t7xx_do_tx_hw_push cb fuel = hw_push_loop cb fuel True"

text \<open>One round of the thread: \<open>Inl e\<close> ends it with an error, \<open>Inr False\<close> without. A round
  whose inner loop is cut off has no result either.\<close>

definition tx_hw_push_round ::
  "'z state_notify \<Rightarrow> nat \<Rightarrow> ('z dpmaif_tx_scheme, (errno + bool) option) state" where
  "tx_hw_push_round cb fuel = do {
     stop \<leftarrow> kquery ''kthread_should_stop'' [];
     if stop \<noteq> 0 then return (Some (Inr False)) else do {
       empty \<leftarrow> t7xx_tx_lists_are_all_empty;
       st \<leftarrow> gets dpmaif_st;
       next_step \<leftarrow> (if empty \<or> st \<noteq> DPMAIF_STATE_PWRON then do {
           intr \<leftarrow> kquery ''wait_event_interruptible tx_wq'' [];
           if intr \<noteq> 0 then return (Some True) else do {
             stop \<leftarrow> kquery ''kthread_should_stop'' [];
             return (if stop \<noteq> 0 then Some False else None)
           }
         } else return None);
       case next_step of
         Some again \<Rightarrow> return (Some (Inr again))
       | None \<Rightarrow> do {
           ret \<leftarrow> kerr ''pm_runtime_resume_and_get'' [];
           if pm_get_failed ret
           then return (Some (case ret of Inl e \<Rightarrow> Inl e | Inr _ \<Rightarrow> Inr False))
           else do {
             t7xx_pci_disable_sleep;
             pushed \<leftarrow> t7xx_do_tx_hw_push cb fuel;
             case pushed of
               None \<Rightarrow> return None
             | Some _ \<Rightarrow> do {
                 t7xx_pci_enable_sleep;
                 kcall ''pm_runtime_mark_last_busy'' [];
                 kcall ''pm_runtime_put_autosuspend'' [];
                 return (Some (Inr True))
               }
           }
         }
     }
   }"

primrec t7xx_dpmaif_tx_hw_push_thread ::
  "'z state_notify \<Rightarrow> nat \<Rightarrow> ('z dpmaif_tx_scheme, (errno + unit) option) state" where
  "t7xx_dpmaif_tx_hw_push_thread cb 0 = return None"
| "t7xx_dpmaif_tx_hw_push_thread cb (Suc fuel) = do {
     r \<leftarrow> tx_hw_push_round cb fuel;
     case r of
       None \<Rightarrow> return None
     | Some (Inl e) \<Rightarrow> return (Some (Inl e))
     | Some (Inr again) \<Rightarrow> if again then t7xx_dpmaif_tx_hw_push_thread cb fuel else return (Some (Inr ()))
   }"

section \<open>Entry points\<close>

definition t7xx_dpmaif_tx_thread_init :: "('z dpmaif_tx_scheme, errno + unit) state" where
  "t7xx_dpmaif_tx_thread_init = do {
     kcall ''init_waitqueue_head tx_wq'' [];
     ret \<leftarrow> kerr ''kthread_run dpmaif_tx_hw_push'' [];
     modify (\<lambda>s. s\<lparr>tx_thread := (if isl ret then - 1 else 1)\<rparr>);
     return ret
   }"

definition t7xx_dpmaif_tx_thread_rel :: "('z dpmaif_tx_scheme, unit) state" where
  "t7xx_dpmaif_tx_thread_rel = do {
     t \<leftarrow> gets tx_thread;
     c_when (t \<noteq> 0) (kcall ''kthread_stop dpmaif_tx_hw_push'' [])
   }"

definition t7xx_dpmaif_tx_send_skb ::
  "'z state_notify \<Rightarrow> nat \<Rightarrow> sk_buff \<Rightarrow> ('z dpmaif_tx_scheme, errno + unit) state" where
  "t7xx_dpmaif_tx_send_skb cb txq_number skb = do {
     budget \<leftarrow> get_txq txq_number tx_budget;
     if of_int budget \<le> t7xx_skb_drb_cnt skb then do {
       cb DMPAIF_TXQ_STATE_FULL txq_number;
       return (Inl EBUSY)
     } else do {
       upd_txq txq_number (\<lambda>t.
         t\<lparr>tx_skb_head := tx_skb_head t @ [skb\<lparr>cb_txq_number := txq_number\<rparr>]\<rparr>);
       kcall ''wake_up tx_wq'' [];
       return (Inr ())
     }
   }"

definition t7xx_dpmaif_irq_tx_done :: "u32 \<Rightarrow> ('z dpmaif_tx_scheme, unit) state" where
  "t7xx_dpmaif_irq_tx_done que_mask =
     for_each [0..<DPMAIF_TXQ_NUM] (\<lambda>i.
       c_when (que_mask AND BIT i \<noteq> 0) (kcall ''queue_work dpmaif_tx_work'' [of_nat i]))"

text \<open>\<open>sizeof(struct dpmaif_drb)\<close> is 16, \<open>sizeof(struct dpmaif_drb_skb)\<close> is 24.\<close>

definition t7xx_dpmaif_tx_drb_buf_init :: "nat \<Rightarrow> ('z dpmaif_tx_scheme, errno + unit) state" where
  "t7xx_dpmaif_tx_drb_buf_init q = do {
     upd_txq q (\<lambda>t. t\<lparr>drb_size_cnt := DPMAIF_DRB_LIST_LEN\<rparr>);
     p \<leftarrow> kquery ''dma_alloc_coherent'' [6144 * 16];
     bus \<leftarrow> kquery ''dma_alloc_coherent_handle'' [p];
     upd_txq q (\<lambda>t. t\<lparr>drb_base_ptr := p, drb_bus_addr := bus,
       drb_base := (\<lambda>_. \<lparr>drb_header = 0, drb_dw1 = 0, drb_dw2 = 0\<rparr>)\<rparr>);
     if p = 0 then return (Inl ENOMEM) else do {
       d \<leftarrow> kquery ''devm_kzalloc'' [6144 * 24];
       upd_txq q (\<lambda>t. t\<lparr>drb_skb_ptr := d, drb_skb_base := (\<lambda>_.
         \<lparr>ds_skb = 0, ds_bus_addr = 0, ds_data_len = 0, ds_index = 0, ds_is_msg = False,
          ds_is_frag = False, ds_is_last = False\<rparr>)\<rparr>);
       if d = 0 then do {
         kcall ''dma_free_coherent'' [6144 * 16, p, bus];
         return (Inl ENOMEM)
       } else return (Inr ())
     }
   }"

definition free_drb_skb_one :: "nat \<Rightarrow> u32 \<Rightarrow> ('z dpmaif_tx_scheme, unit) state" where
  "free_drb_skb_one q i = do {
     d \<leftarrow> get_txq q (\<lambda>t. drb_skb_base t i);
     c_when (ds_skb d \<noteq> 0) (do {
       c_when (\<not> ds_is_msg d) (dma_unmap_single (ds_bus_addr d) (ucast (ds_data_len d)));
       c_when (ds_is_last d) (do {
         dev_kfree_skb (ds_skb d);
         upd_txq q (\<lambda>t. t\<lparr>drb_skb_base := (drb_skb_base t)(i := d\<lparr>ds_skb := 0\<rparr>)\<rparr>)
       })
     })
   }"

definition t7xx_dpmaif_tx_free_drb_skb :: "nat \<Rightarrow> ('z dpmaif_tx_scheme, unit) state" where
  "t7xx_dpmaif_tx_free_drb_skb q = do {
     p \<leftarrow> get_txq q drb_skb_ptr;
     sz \<leftarrow> get_txq q drb_size_cnt;
     c_when (p \<noteq> 0) (for_each (map of_nat [0..<unat sz]) (free_drb_skb_one q))
   }"

definition t7xx_dpmaif_tx_drb_buf_rel :: "nat \<Rightarrow> ('z dpmaif_tx_scheme, unit) state" where
  "t7xx_dpmaif_tx_drb_buf_rel q = do {
     p \<leftarrow> get_txq q drb_base_ptr;
     bus \<leftarrow> get_txq q drb_bus_addr;
     sz \<leftarrow> get_txq q drb_size_cnt;
     c_when (p \<noteq> 0) (kcall ''dma_free_coherent'' [ucast sz * 16, p, bus]);
     t7xx_dpmaif_tx_free_drb_skb q
   }"

definition t7xx_dpmaif_txq_init :: "nat \<Rightarrow> ('z dpmaif_tx_scheme, errno + unit) state" where
  "t7xx_dpmaif_txq_init q = do {
     upd_txq q (\<lambda>t. t\<lparr>tx_skb_head := [], tx_budget := uint DPMAIF_DRB_LIST_LEN\<rparr>);
     ret \<leftarrow> t7xx_dpmaif_tx_drb_buf_init q;
     if isl ret then return ret else do {
       w \<leftarrow> kquery ''alloc_ordered_workqueue md_dpmaif_tx_worker'' [of_nat q];
       upd_txq q (\<lambda>t. t\<lparr>txq_worker := w\<rparr>);
       if w = 0 then return (Inl ENOMEM) else do {
         kcall ''INIT_WORK dpmaif_tx_work'' [of_nat q];
         return (Inr ())
       }
     }
   }"

definition t7xx_dpmaif_txq_free :: "nat \<Rightarrow> ('z dpmaif_tx_scheme, unit) state" where
  "t7xx_dpmaif_txq_free q = do {
     w \<leftarrow> get_txq q txq_worker;
     c_when (w \<noteq> 0) (kcall ''destroy_workqueue'' [w]);
     skbs \<leftarrow> get_txq q tx_skb_head;
     for_each skbs (\<lambda>skb. dev_kfree_skb (skb_ptr skb));
     upd_txq q (\<lambda>t. t\<lparr>tx_skb_head := []\<rparr>);
     t7xx_dpmaif_tx_drb_buf_rel q
   }"

text \<open>
  The wait for a transmission that is under way spins on \<open>tx_processing\<close>, which another
  thread clears: each look at it is a question.
\<close>

primrec tx_stop_wait :: "nat \<Rightarrow> nat \<Rightarrow> ('z dpmaif_tx_scheme, unit) state" where
  "tx_stop_wait q 0 = return ()"
| "tx_stop_wait q (Suc n) = do {
     busy \<leftarrow> kquery ''atomic_read tx_processing'' [of_nat q];
     if busy = 0 then return () else tx_stop_wait q n
   }"

definition t7xx_dpmaif_tx_stop :: "('z dpmaif_tx_scheme, unit) state" where
  "t7xx_dpmaif_tx_stop = for_each [0..<DPMAIF_TXQ_NUM] (\<lambda>i. do {
     upd_txq i (\<lambda>t. t\<lparr>txq_started := False\<rparr>);
     tx_stop_wait i DPMAIF_MAX_CHECK_COUNT
   })"

definition t7xx_dpmaif_txq_flush_rel :: "nat \<Rightarrow> ('z dpmaif_tx_scheme, unit) state" where
  "t7xx_dpmaif_txq_flush_rel q = do {
     upd_txq q (\<lambda>t. t\<lparr>txq_started := False\<rparr>);
     kcall ''cancel_work_sync dpmaif_tx_work'' [of_nat q];
     kcall ''flush_work dpmaif_tx_work'' [of_nat q];
     t7xx_dpmaif_tx_free_drb_skb q;
     upd_txq q (\<lambda>t. t\<lparr>drb_rd_idx := 0, drb_wr_idx := 0, drb_release_rd_idx := 0\<rparr>)
   }"

definition t7xx_dpmaif_tx_clear :: "('z dpmaif_tx_scheme, unit) state" where
  "t7xx_dpmaif_tx_clear = for_each [0..<DPMAIF_TXQ_NUM] t7xx_dpmaif_txq_flush_rel"

end
