(* ===== verification/Dpmaif_Tx_Ring.thy ===== *)
theory Dpmaif_Tx_Ring
  imports Dpmaif_Tx
begin

text \<open>
  The transmit ring as a queue of descriptors: what writing a packet to it and releasing
  descriptors from it do, and the invariant that ties the budget of a queue to its ring. The
  network layer's callback is the locale \<open>tx_callbacks\<close>.
\<close>

section \<open>Executing functions on a queue\<close>

lemma run_get_txq [run_simps]: "run (get_txq q f) s = (f (txq s q), s)"
  by (simp add: get_txq_def run_simps)

lemma run_upd_txq [run_simps]:
  "run (upd_txq q f) s = ((), s\<lparr>txq := (txq s)(q := f (txq s q))\<rparr>)"
  by (simp add: upd_txq_def run_simps)

lemma txq_emit [simp]: "txq (emit e s) = txq s" "dpmaif_st (emit e s) = dpmaif_st s"
  by (simp_all add: emit_def)

lemma emit_txq [simp]: "emit e (s\<lparr>txq := t\<rparr>) = (emit e s)\<lparr>txq := t\<rparr>"
  by (simp add: emit_def)

section \<open>The fields of a descriptor\<close>

lemma payload_drb_zero:
  "payload_drb a l lst d = payload_drb a l lst \<lparr>drb_header = 0, drb_dw1 = 0, drb_dw2 = 0\<rparr>"
  by (cases d) (simp add: payload_drb_def)

lemma take_bit_bool: "take_bit (Suc 0) (1 :: u32) = 1"
  by simp

lemma payload_drb_fields:
  "drb_is_pd (payload_drb a l lst d)"
  "drb_has_more (payload_drb a l lst d) \<longleftrightarrow> \<not> lst"
  "FIELD_GET DRB_HDR_DATA_LEN (drb_header (payload_drb a l lst d)) = take_bit 16 l"
  "(ucast (drb_dw2 (payload_drb a l lst d)) :: u64) * 2 ^ 32
     + ucast (drb_dw1 (payload_drb a l lst d)) = a"
  by (simp_all add: payload_drb_def drb_is_pd_def drb_has_more_def FIELD_GET_OR FIELD_GET_PREP
      FIELD_GET_PREP_other)
     (simp_all add: FIELD_GET_def split_32_bits [simplified])

lemma msg_drb_fields:
  "\<not> drb_is_pd (msg_drb len cnt chan d)"
  "drb_has_more (msg_drb len cnt chan d)"
  "FIELD_GET DRB_HDR_DATA_LEN (drb_header (msg_drb len cnt chan d)) = take_bit 16 len"
  "FIELD_GET DRB_MSG_CHANNEL_ID (drb_dw1 (msg_drb len cnt chan d)) = take_bit 8 chan"
  "FIELD_GET DRB_MSG_COUNT_L (drb_dw1 (msg_drb len cnt chan d)) = take_bit 16 cnt"
  by (simp_all add: msg_drb_def drb_is_pd_def drb_has_more_def FIELD_GET_OR FIELD_GET_PREP
      FIELD_GET_PREP_other)

text \<open>C8: what the device reads from the descriptors of a packet is what the driver put there:
  the kind of the descriptor, whether more follow, the length and the channel cut to the width
  of their fields, and the whole bus address from its two halves.\<close>

theorem drb_roundtrip:
  "FIELD_GET DRB_HDR_DTYP (drb_header (payload_drb a l lst d)) = DES_DTYP_PD \<and>
   (FIELD_GET DRB_HDR_CONT (drb_header (payload_drb a l lst d)) = 0 \<longleftrightarrow> lst) \<and>
   FIELD_GET DRB_HDR_DATA_LEN (drb_header (payload_drb a l lst d)) = take_bit 16 l \<and>
   (ucast (drb_dw2 (payload_drb a l lst d)) :: u64) * 2 ^ 32
     + ucast (drb_dw1 (payload_drb a l lst d)) = a \<and>
   FIELD_GET DRB_HDR_DTYP (drb_header (msg_drb len cnt chan d)) = DES_DTYP_MSG \<and>
   FIELD_GET DRB_HDR_CONT (drb_header (msg_drb len cnt chan d)) \<noteq> 0 \<and>
   FIELD_GET DRB_HDR_DATA_LEN (drb_header (msg_drb len cnt chan d)) = take_bit 16 len \<and>
   FIELD_GET DRB_MSG_CHANNEL_ID (drb_dw1 (msg_drb len cnt chan d)) = take_bit 8 chan"
  using payload_drb_fields [of a l lst d] msg_drb_fields [of len cnt chan d]
  by (simp add: drb_is_pd_def drb_has_more_def)
     (simp add: msg_drb_def FIELD_GET_OR FIELD_GET_PREP FIELD_GET_PREP_other)

section \<open>Writing the buffers of a packet\<close>

abbreviation nxt_idx :: "u32 \<Rightarrow> u32 \<Rightarrow> u32" where
  "nxt_idx \<equiv> t7xx_ring_buf_get_next_wr_idx"

abbreviation room :: "u32 \<Rightarrow> u32 \<Rightarrow> u32 \<Rightarrow> nat" where
  "room n r w \<equiv> unat (t7xx_ring_buf_rd_wr_count n r w DPMAIF_WRITE)"

abbreviation used :: "u32 \<Rightarrow> u32 \<Rightarrow> u32 \<Rightarrow> nat" where
  "used n r w \<equiv> unat (t7xx_ring_buf_rd_wr_count n r w DPMAIF_READ)"

text \<open>What a slot says: its descriptor, and what the driver keeps to give it back.\<close>

record tx_slot =
  sl_drb :: dpmaif_drb
  sl_skb :: u64
  sl_addr :: dma_addr
  sl_len :: u32
  sl_msg :: bool
  sl_last :: bool

definition slot :: "dpmaif_tx_queue \<Rightarrow> u32 \<Rightarrow> tx_slot" where
  "slot t i = \<lparr>sl_drb = drb_base t i, sl_skb = ds_skb (drb_skb_base t i),
     sl_addr = ds_bus_addr (drb_skb_base t i), sl_len = ds_data_len (drb_skb_base t i),
     sl_msg = ds_is_msg (drb_skb_base t i), sl_last = ds_is_last (drb_skb_base t i)\<rparr>"

text \<open>The slots in flight, oldest first: the ring from the release index to the write index.\<close>

definition in_flight :: "dpmaif_tx_queue \<Rightarrow> u32 \<Rightarrow> tx_slot list" where
  "in_flight t w = rb.contents (slot t) (drb_size_cnt t) (drb_release_rd_idx t) w"

definition payload_slot :: "u64 \<Rightarrow> dma_addr \<Rightarrow> u32 \<Rightarrow> bool \<Rightarrow> tx_slot" where
  "payload_slot skb a l lst =
     \<lparr>sl_drb = payload_drb a l lst \<lparr>drb_header = 0, drb_dw1 = 0, drb_dw2 = 0\<rparr>,
      sl_skb = skb, sl_addr = a, sl_len = l, sl_msg = False, sl_last = lst\<rparr>"

fun payload_slots :: "u64 \<Rightarrow> dma_addr list \<Rightarrow> (u64 \<times> u32 \<times> bool) list \<Rightarrow> tx_slot list" where
  "payload_slots skb (a # as) ((p, l, f) # bs) = payload_slot skb a l (bs = []) # payload_slots skb as bs"
| "payload_slots skb _ _ = []"

definition put_slot :: "u32 \<Rightarrow> dpmaif_drb \<Rightarrow> dpmaif_drb_skb \<Rightarrow> dpmaif_tx_queue \<Rightarrow> dpmaif_tx_queue" where
  "put_slot i d k t = t\<lparr>drb_base := (drb_base t)(i := d), drb_skb_base := (drb_skb_base t)(i := k)\<rparr>"

lemma put_slot_fields [simp]:
  "drb_size_cnt (put_slot i d k t) = drb_size_cnt t"
  "drb_release_rd_idx (put_slot i d k t) = drb_release_rd_idx t"
  "drb_wr_idx (put_slot i d k t) = drb_wr_idx t"
  "drb_rd_idx (put_slot i d k t) = drb_rd_idx t"
  "tx_budget (put_slot i d k t) = tx_budget t"
  "txq_started (put_slot i d k t) = txq_started t"
  "tx_skb_head (put_slot i d k t) = tx_skb_head t"
  by (simp_all add: put_slot_def)

lemma slot_put_slot:
  "slot (put_slot i d k t) = (slot t)(i := \<lparr>sl_drb = d, sl_skb = ds_skb k, sl_addr = ds_bus_addr k,
     sl_len = ds_data_len k, sl_msg = ds_is_msg k, sl_last = ds_is_last k\<rparr>)"
  by (auto simp: slot_def put_slot_def)

lemma in_flight_put:
  assumes "ring_size (drb_size_cnt t)" "drb_release_rd_idx t < drb_size_cnt t" "w < drb_size_cnt t"
    and "0 < room (drb_size_cnt t) (drb_release_rd_idx t) w"
  shows "in_flight (put_slot w d k t) (nxt_idx (drb_size_cnt t) w) = in_flight t w
    @ [\<lparr>sl_drb = d, sl_skb = ds_skb k, sl_addr = ds_bus_addr k, sl_len = ds_data_len k,
        sl_msg = ds_is_msg k, sl_last = ds_is_last k\<rparr>]"
  using assms rb.contents_produce [OF assms(1-3)]
  by (simp add: in_flight_def slot_put_slot word_gt_0 unat_gt_0)

text \<open>
  \<open>same_queue t u\<close>: \<open>u\<close> is \<open>t\<close> with other descriptors; \<open>others\<close>: the rest of the state of the
  data path is as it was.
\<close>

definition same_queue :: "dpmaif_tx_queue \<Rightarrow> dpmaif_tx_queue \<Rightarrow> bool" where
  "same_queue t u \<longleftrightarrow> u = t\<lparr>drb_base := drb_base u, drb_skb_base := drb_skb_base u\<rparr>"

lemma same_queue_refl [simp]: "same_queue t t"
  by (simp add: same_queue_def)

lemma same_queue_put [simp]: "same_queue (put_slot i d k t) u = same_queue t u"
  by (cases t; cases u) (auto simp: same_queue_def put_slot_def)

lemma same_queue_fields:
  assumes "same_queue t u"
  shows "drb_size_cnt u = drb_size_cnt t" "drb_release_rd_idx u = drb_release_rd_idx t"
    "drb_wr_idx u = drb_wr_idx t" "drb_rd_idx u = drb_rd_idx t" "tx_budget u = tx_budget t"
    "txq_started u = txq_started t" "tx_skb_head u = tx_skb_head t"
  using assms by (cases t; cases u; simp add: same_queue_def)+

text \<open>The state after a buffer went to slot \<open>w\<close>.\<close>

definition put_payload ::
  "nat \<Rightarrow> u64 \<Rightarrow> u32 \<Rightarrow> dma_addr \<Rightarrow> u32 \<Rightarrow> bool \<Rightarrow> bool \<Rightarrow> 'z dpmaif_tx_scheme \<Rightarrow> 'z dpmaif_tx_scheme"
where
  "put_payload q skb w a l f lst t =
     t\<lparr>txq := (txq t)(q := put_slot w (payload_drb a l lst (drb_base (txq t q) w))
        \<lparr>ds_skb = skb, ds_bus_addr = a, ds_data_len = l, ds_index = take_bit 13 w,
         ds_is_msg = False, ds_is_frag = f, ds_is_last = lst\<rparr> (txq t q))\<rparr>"

lemma put_payload_simps [simp]:
  "p \<noteq> q \<Longrightarrow> txq (put_payload q skb w a l f lst t) p = txq t p"
  "dpmaif_st (put_payload q skb w a l f lst t) = dpmaif_st t"
  "same_queue (txq (put_payload q skb w a l f lst t) q) u = same_queue (txq t q) u"
  "trace (put_payload q skb w a l f lst t) = trace t"
  "env (put_payload q skb w a l f lst t) = env t"
  by (simp_all add: put_payload_def)

lemma add_payload_Cons:
  "run (add_payload q skb k c ((p, l, f) # bs)) s =
     (let (a, t) = run (dma_map_single p (ucast l)) s;
          w = nxt_idx (drb_size_cnt (txq s q)) c
      in if dma_mapping_error a then (Inl (k, c), t)
         else run (add_payload q skb (Suc k) w bs) (put_payload q skb w a l f (bs = []) t))"
  by (simp add: run_simps Let_def t7xx_setup_payload_drb_def t7xx_record_drb_skb_def put_slot_def
      put_payload_def)

declare add_payload.simps(2) [simp del]

lemma dma_map_queues [simp]:
  "txq (after (dma_map_single p l) s) = txq s"
  "dpmaif_st (after (dma_map_single p l) s) = dpmaif_st s"
  "env (after (dma_map_single p l) s) = env s"
  by (simp_all add: run_kquery Let_def)

lemma add_payload_frame:
  "(\<forall>p. p \<noteq> q \<longrightarrow> txq (after (add_payload q skb k c bs) s) p = txq s p) \<and>
   dpmaif_st (after (add_payload q skb k c bs) s) = dpmaif_st s \<and>
   same_queue (txq s q) (txq (after (add_payload q skb k c bs) s) q)"
proof (induction bs arbitrary: k c s)
  case Nil
  then show ?case by simp
next
  case (Cons b bs)
  obtain p l f where b: "b = (p, l, f)" by (cases b)
  show ?case
    unfolding b add_payload_Cons Let_def split_beta
    using Cons.IH [of "Suc k" "nxt_idx (drb_size_cnt (txq s q)) c"
        "put_payload q skb (nxt_idx (drb_size_cnt (txq s q)) c) (result (dma_map_single p (ucast l)) s)
           l f (bs = []) (after (dma_map_single p (ucast l)) s)"]
    by simp
qed

lemma in_flight_put_payload:
  assumes "ring_size (drb_size_cnt (txq s q))"
    and "drb_release_rd_idx (txq s q) < drb_size_cnt (txq s q)" "w < drb_size_cnt (txq s q)"
    and "0 < room (drb_size_cnt (txq s q)) (drb_release_rd_idx (txq s q)) w"
  shows "in_flight (txq (put_payload q skb w a l f lst s) q) (nxt_idx (drb_size_cnt (txq s q)) w)
    = in_flight (txq s q) w @ [payload_slot skb a l lst]"
  using in_flight_put [OF assms]
  by (simp add: put_payload_def payload_slot_def payload_drb_zero [of a l lst "drb_base _ _"])

text \<open>The event of a mapped buffer.\<close>

definition mapped :: "(u64 \<times> u32 \<times> bool) \<times> dma_addr \<Rightarrow> ev" where
  "mapped = (\<lambda>((p, l, f), a). Ret ''dma_map_single'' [p, ucast l] a)"

text \<open>
  What became of the buffers: the addresses \<open>as\<close> of those that were mapped, none of them the
  error value, which now lie in the ring behind what was there, and where the loop stopped: at
  the first buffer whose address is the error value, if there is one.
\<close>

definition payload_done ::
  "nat \<Rightarrow> u64 \<Rightarrow> nat \<Rightarrow> u32 \<Rightarrow> (u64 \<times> u32 \<times> bool) list \<Rightarrow> 'z dpmaif_tx_scheme \<Rightarrow> dma_addr list \<Rightarrow>
     (nat \<times> u32) + unit \<Rightarrow> 'z dpmaif_tx_scheme \<Rightarrow> bool" where
  "payload_done q skb k c bs s as res s' \<longleftrightarrow>
     (let n = drb_size_cnt (txq s q) in
      in_flight (txq s' q) ((nxt_idx n ^^ length as) (nxt_idx n c)) =
        in_flight (txq s q) (nxt_idx n c) @ payload_slots skb as bs \<and>
      - 1 \<notin> set as \<and>
      (\<exists>x. trace s' = trace s @ map mapped (zip bs as) @ x \<and>
        (case res of
           Inr _ \<Rightarrow> length as = length bs \<and> x = []
         | Inl (k', c') \<Rightarrow> length as < length bs \<and> k' = k + length as \<and>
             c' = (nxt_idx n ^^ length as) c \<and> x = [mapped (bs ! length as, - 1)])))"

lemma add_payload_done:
  assumes "ring_size (drb_size_cnt (txq s q))"
    and "drb_release_rd_idx (txq s q) < drb_size_cnt (txq s q)" "c < drb_size_cnt (txq s q)"
    and "length bs \<le> room (drb_size_cnt (txq s q)) (drb_release_rd_idx (txq s q))
           (nxt_idx (drb_size_cnt (txq s q)) c)"
  shows "\<exists>as. payload_done q skb k c bs s as (result (add_payload q skb k c bs) s)
    (after (add_payload q skb k c bs) s)"
  using assms
proof (induction bs arbitrary: k c s)
  case Nil
  then show ?case
    by (intro exI [of _ "[]"]) (simp add: payload_done_def)
next
  case (Cons b bs)
  obtain p l f where b: "b = (p, l, f)" by (cases b)
  define n r w where "n = drb_size_cnt (txq s q)" and "r = drb_release_rd_idx (txq s q)"
    and "w = nxt_idx n c"
  obtain a t where at: "run (dma_map_single p (ucast l)) s = (a, t)" by fastforce
  have t: "txq t = txq s" "trace t = trace s @ [mapped (b, a)]"
    using at by (auto simp: run_kquery Let_def b mapped_def)
  note prems = Cons.prems [folded n_def r_def, folded w_def]
  show ?case
  proof (cases "dma_mapping_error a")
    case True
    then have "run (add_payload q skb k c (b # bs)) s = (Inl (k, c), t)"
      by (simp add: b add_payload_Cons at)
    moreover have "a = - 1"
      using True by (simp add: dma_mapping_error_def)
    ultimately show ?thesis
      using t by (intro exI [of _ "[]"]) (auto simp: payload_done_def Let_def b)
  next
    case False
    define u where "u = put_payload q skb w a l f (bs = []) t"
    have run: "run (add_payload q skb k c (b # bs)) s = run (add_payload q skb (Suc k) w bs) u"
      using False by (simp add: b add_payload_Cons at u_def w_def n_def Let_def)
    have "same_queue (txq s q) (txq u q)"
      using same_queue_put by (simp add: u_def put_payload_def t(1) same_queue_def put_slot_def)
    note u_fields = same_queue_fields [OF this]
    have w: "w < n"
      using rb.nxt_lt prems by (simp add: w_def)
    have pos: "0 < t7xx_ring_buf_rd_wr_count n r w DPMAIF_WRITE"
      using prems(4) by (auto simp: word_gt_0)
    have room: "Suc (room n r (nxt_idx n w)) = room n r w"
      by (rule rb.writable_nxt_write [OF prems(1,2) w pos])
    have put: "in_flight (txq u q) (nxt_idx n w) = in_flight (txq s q) w @ [payload_slot skb a l (bs = [])]"
      using in_flight_put_payload [of t q w skb a l f "bs = []"] prems w pos
      by (simp add: u_def t(1) n_def r_def word_gt_0 unat_gt_0)
    obtain as where as: "payload_done q skb (Suc k) w bs u as (result (add_payload q skb (Suc k) w bs) u)
        (after (add_payload q skb (Suc k) w bs) u)"
      using Cons.IH [of u w "Suc k"] prems w room u_fields by (auto simp: n_def r_def)
    have "trace u = trace s @ [mapped (b, a)]"
      by (simp add: u_def t(2))
    then have "payload_done q skb k c (b # bs) s (a # as)
        (result (add_payload q skb k c (b # bs)) s) (after (add_payload q skb k c (b # bs)) s)"
      using as False unfolding payload_done_def run Let_def u_fields
      by (auto simp: b put [unfolded w_def n_def] funpow_swap1 n_def w_def dma_mapping_error_def
          split: sum.splits)
    then show ?thesis by blast
  qed
qed

section \<open>The invariant of a queue\<close>

text \<open>
  The indices are in the ring, and the budget counts the free descriptors: with the slot that
  always stays free it is one more than what \<open>t7xx_txq_drb_wr_available\<close> says.
\<close>

definition tx_inv :: "dpmaif_tx_queue \<Rightarrow> bool" where
  "tx_inv t \<longleftrightarrow> ring_size (drb_size_cnt t) \<and> drb_release_rd_idx t < drb_size_cnt t \<and>
     drb_wr_idx t < drb_size_cnt t \<and>
     tx_budget t = int (Suc (room (drb_size_cnt t) (drb_release_rd_idx t) (drb_wr_idx t)))"

lemma tx_invD:
  assumes "tx_inv t"
  shows "ring_size (drb_size_cnt t)" "drb_release_rd_idx t < drb_size_cnt t"
    "drb_wr_idx t < drb_size_cnt t"
    "tx_budget t = int (Suc (room (drb_size_cnt t) (drb_release_rd_idx t) (drb_wr_idx t)))"
  using assms by (simp_all add: tx_inv_def)

lemma room_budget:
  "tx_inv t \<Longrightarrow> room (drb_size_cnt t) (drb_release_rd_idx t) (drb_wr_idx t) = nat (tx_budget t - 1)"
  using tx_invD(4) [of t] by simp

lemma tx_inv_advance:
  assumes "tx_inv t" "k \<le> room (drb_size_cnt t) (drb_release_rd_idx t) (drb_wr_idx t)"
    and "drb_size_cnt u = drb_size_cnt t" "drb_release_rd_idx u = drb_release_rd_idx t"
    and "drb_wr_idx u = (nxt_idx (drb_size_cnt t) ^^ k) (drb_wr_idx t)"
    and "tx_budget u = tx_budget t - int k"
  shows "tx_inv u"
proof -
  note i = tx_invD [OF assms(1)]
  have adv: "(nxt_idx (drb_size_cnt t) ^^ k) (drb_wr_idx t) < drb_size_cnt t"
      "used (drb_size_cnt t) (drb_release_rd_idx t) ((nxt_idx (drb_size_cnt t) ^^ k) (drb_wr_idx t)) =
        used (drb_size_cnt t) (drb_release_rd_idx t) (drb_wr_idx t) + k"
    using rb.readable_advance [OF i(1-3) assms(2)] by auto
  then have "room (drb_size_cnt t) (drb_release_rd_idx t) (drb_wr_idx t) =
      room (drb_size_cnt t) (drb_release_rd_idx t) (drb_wr_idx u) + k"
    using rb.readable_writable [OF i(1-3)] rb.readable_writable [OF i(1,2) adv(1)] assms(5) by simp
  then show ?thesis
    using assms(3-6) i adv(1) by (simp add: tx_inv_def)
qed

lemma tx_inv_release:
  assumes "tx_inv t" "0 < used (drb_size_cnt t) (drb_release_rd_idx t) (drb_wr_idx t)"
    and "drb_size_cnt u = drb_size_cnt t" "drb_wr_idx u = drb_wr_idx t"
    and "drb_release_rd_idx u = nxt_idx (drb_size_cnt t) (drb_release_rd_idx t)"
    and "tx_budget u = tx_budget t + 1"
  shows "tx_inv u"
proof -
  note i = tx_invD [OF assms(1)]
  have pos: "0 < t7xx_ring_buf_rd_wr_count (drb_size_cnt t) (drb_release_rd_idx t) (drb_wr_idx t) DPMAIF_READ"
    using assms(2) by (simp add: word_gt_0 unat_gt_0)
  note adv = rb.nxt_lt [OF i(1,2)] rb.readable_nxt_read [OF i(1-3) pos]
  then have "room (drb_size_cnt t) (drb_release_rd_idx u) (drb_wr_idx t) =
      Suc (room (drb_size_cnt t) (drb_release_rd_idx t) (drb_wr_idx t))"
    using rb.readable_writable [OF i(1-3)] rb.readable_writable [OF i(1) adv(1) i(3)] assms(5) by simp
  then show ?thesis
    using assms(3-6) i adv(1) by (simp add: tx_inv_def)
qed

section \<open>Undoing the mappings of a packet\<close>

text \<open>The message slot of a packet; its reserved word keeps what was there.\<close>

definition msg_slot :: "sk_buff \<Rightarrow> dpmaif_drb \<Rightarrow> tx_slot" where
  "msg_slot skb d = \<lparr>sl_drb = msg_drb (skb_len skb) 0 (ucast (cb_netif_idx skb)) d,
     sl_skb = skb_ptr skb, sl_addr = 0, sl_len = 0, sl_msg = True, sl_last = False\<rparr>"

definition unmapped :: "tx_slot \<Rightarrow> ev" where
  "unmapped sl = Call ''dma_unmap_single'' [sl_addr sl, ucast (sl_len sl)]"

lemma unmap_payload_frame:
  "txq (after (unmap_payload q k c) s) = txq s \<and>
   dpmaif_st (after (unmap_payload q k c) s) = dpmaif_st s"
  by (induction k arbitrary: c s) (simp_all add: run_simps Let_def split_beta)

lemma unmap_payload_trace:
  assumes "n = drb_size_cnt (txq s q)" "ring_size n" "c < n"
  shows "trace (after (unmap_payload q j ((nxt_idx n ^^ j) c)) s) = trace s
    @ map (\<lambda>i. unmapped (slot (txq s q) ((nxt_idx n ^^ i) c))) (rev [0..<j])"
  using assms(1)
proof (induction j arbitrary: s)
  case 0
  then show ?case by simp
next
  case (Suc j)
  define i where "i = (nxt_idx n ^^ j) c"
  have i: "i < n"
    using rb.funpow_nxt [OF assms(2,3)] by (simp add: i_def)
  define d where "d = drb_skb_base (txq s q) i"
  define t where "t = emit (Call ''dma_unmap_single'' [ds_bus_addr d, ucast (ds_data_len d)]) s"
  have step: "(if nxt_idx n i \<noteq> 0 then nxt_idx n i - 1 else n - 1) = i"
    using step_back_next [OF assms(2) i] by (simp add: Let_def)
  have "run (unmap_payload q (Suc j) (nxt_idx n i)) s = run (unmap_payload q j i) t"
    using step by (simp only: Suc.prems) (auto simp: run_simps Let_def t_def d_def split: if_splits)
  moreover have "trace (after (unmap_payload q j i) t) = trace t
      @ map (\<lambda>i. unmapped (slot (txq s q) ((nxt_idx n ^^ i) c))) (rev [0..<j])"
    using Suc.IH [of t] Suc.prems by (simp add: i_def t_def)
  ultimately show ?case
    by (simp add: i_def [symmetric] t_def d_def unmapped_def slot_def)
qed

text \<open>The slots that are stepped back over, seen in the ring.\<close>

lemma in_flight_nth:
  assumes "ring_size (drb_size_cnt t)" "drb_release_rd_idx t < drb_size_cnt t" "c < drb_size_cnt t"
    and "i < used (drb_size_cnt t) (drb_release_rd_idx t) w - used (drb_size_cnt t) (drb_release_rd_idx t) c"
  shows "slot t ((nxt_idx (drb_size_cnt t) ^^ i) c) =
    in_flight t w ! (used (drb_size_cnt t) (drb_release_rd_idx t) c + i)"
proof -
  let ?n = "drb_size_cnt t" and ?r = "drb_release_rd_idx t"
  have "(nxt_idx ?n ^^ i) c = (nxt_idx ?n ^^ i) ((nxt_idx ?n ^^ used ?n ?r c) ?r)"
    using rb.funpow_readable [OF assms(1-3)] by simp
  also have "\<dots> = (nxt_idx ?n ^^ (used ?n ?r c + i)) ?r"
    by (simp add: funpow_add add.commute)
  finally show ?thesis
    using assms(4) by (simp add: in_flight_def rb.contents_nth)
qed

lemma slot_update [simp]:
  "slot (tx_budget_update f t) = slot t" "slot (tx_processing_update g t) = slot t"
  "slot (drb_wr_idx_update h t) = slot t" "slot (drb_rd_idx_update h t) = slot t"
  "slot (drb_release_rd_idx_update h t) = slot t" "slot (tx_skb_head_update k t) = slot t"
  by (simp_all add: slot_def fun_eq_iff)

lemma in_flight_update [simp]:
  "in_flight (tx_budget_update f t) w = in_flight t w"
  "in_flight (tx_processing_update g t) w = in_flight t w"
  "in_flight (drb_wr_idx_update h t) w = in_flight t w"
  "in_flight (drb_rd_idx_update h t) w = in_flight t w"
  "in_flight (tx_skb_head_update k t) w = in_flight t w"
  by (simp_all add: in_flight_def)

section \<open>A packet goes to the ring\<close>

text \<open>The queue when the message descriptor of a packet is written and its slots are claimed.\<close>

definition start_skb :: "sk_buff \<Rightarrow> dpmaif_tx_queue \<Rightarrow> dpmaif_tx_queue" where
  "start_skb skb t = put_slot (drb_wr_idx t)
     (msg_drb (skb_len skb) 0 (ucast (cb_netif_idx skb)) (drb_base t (drb_wr_idx t)))
     \<lparr>ds_skb = skb_ptr skb, ds_bus_addr = 0, ds_data_len = 0, ds_index = take_bit 13 (drb_wr_idx t),
      ds_is_msg = True, ds_is_frag = False, ds_is_last = False\<rparr>
     (t\<lparr>tx_processing := 1, drb_wr_idx :=
        (let w = drb_wr_idx t + of_nat (length (skb_payload skb) + 1)
         in if w \<ge> drb_size_cnt t then w - drb_size_cnt t else w)\<rparr>)"

text \<open>How many slots a packet takes, and that the ring has them.\<close>

abbreviation slots_of :: "sk_buff \<Rightarrow> nat" where
  "slots_of skb \<equiv> length (skb_payload skb) + 1"

definition ready_for :: "sk_buff \<Rightarrow> 'z dpmaif_tx_scheme \<Rightarrow> bool" where
  "ready_for skb s \<longleftrightarrow> (let t = txq s (cb_txq_number skb) in
     tx_inv t \<and> txq_started t \<and> dpmaif_st s = DPMAIF_STATE_PWRON \<and>
     slots_of skb \<le> room (drb_size_cnt t) (drb_release_rd_idx t) (drb_wr_idx t))"

lemma room_lt: "ring_size n \<Longrightarrow> r < n \<Longrightarrow> w < n \<Longrightarrow> room n r w < unat n"
  using rb.readable_writable [of n r w] by simp

lemma start_skb_fields:
  assumes "tx_inv t" "slots_of skb \<le> room (drb_size_cnt t) (drb_release_rd_idx t) (drb_wr_idx t)"
  shows "drb_size_cnt (start_skb skb t) = drb_size_cnt t"
    "drb_release_rd_idx (start_skb skb t) = drb_release_rd_idx t"
    "tx_budget (start_skb skb t) = tx_budget t"
    "drb_wr_idx (start_skb skb t) = (nxt_idx (drb_size_cnt t) ^^ slots_of skb) (drb_wr_idx t)"
proof -
  note i = tx_invD [OF assms(1)]
  have "slots_of skb \<le> unat (drb_size_cnt t)"
    using room_lt [OF i(1-3)] assms(2) by simp
  then show "drb_wr_idx (start_skb skb t) = (nxt_idx (drb_size_cnt t) ^^ slots_of skb) (drb_wr_idx t)"
    using add_wrap_advance [OF i(1,3)] by (simp only: start_skb_def put_slot_fields) simp
qed (simp_all add: start_skb_def)

lemma in_flight_started:
  assumes "tx_inv t" "0 < room (drb_size_cnt t) (drb_release_rd_idx t) (drb_wr_idx t)"
  shows "in_flight (start_skb skb t) (nxt_idx (drb_size_cnt t) (drb_wr_idx t)) =
    in_flight t (drb_wr_idx t) @ [msg_slot skb (drb_base t (drb_wr_idx t))]"
proof -
  note i = tx_invD [OF assms(1)]
  show ?thesis
    using in_flight_put [of "t\<lparr>tx_processing := 1, drb_wr_idx := _\<rparr>" "drb_wr_idx t"] i(1-3) assms(2)
    by (simp add: start_skb_def msg_slot_def)
qed

text \<open>The slots of a packet whose buffers went to these addresses.\<close>

definition skb_slots :: "sk_buff \<Rightarrow> dpmaif_drb \<Rightarrow> dma_addr list \<Rightarrow> tx_slot list" where
  "skb_slots skb d as = msg_slot skb d # payload_slots (skb_ptr skb) as (skb_payload skb)"

lemma length_in_flight [simp]:
  "length (in_flight t w) = used (drb_size_cnt t) (drb_release_rd_idx t) w"
  by (simp add: in_flight_def rb.contents_def rb.length_window)

lemma uint_of_nat_u32: "k < 2 ^ 31 \<Longrightarrow> uint (of_nat k :: u32) = int k"
  by (simp add: unsigned_of_nat take_bit_nat_eq_self)

lemma unat_of_nat_u32: "k < 2 ^ 31 \<Longrightarrow> unat (of_nat k :: u32) = k"
  by (simp add: unsigned_of_nat take_bit_nat_eq_self)

lemma funpow_comm: "(f ^^ a) ((f ^^ b) x) = (f ^^ b) ((f ^^ a) x)"
proof -
  have "(f ^^ a) ((f ^^ b) x) = (f ^^ (a + b)) x"
    by (simp add: funpow_add)
  also have "\<dots> = (f ^^ b) ((f ^^ a) x)"
    by (simp add: funpow_add add.commute [of a])
  finally show ?thesis .
qed

lemma take_map_nth: "k \<le> length xs \<Longrightarrow> take k xs = map ((!) xs) [0..<k]"
  by (rule nth_equalityI) simp_all

lemma length_payload_slots: "length (payload_slots p as bs) = min (length as) (length bs)"
  by (induction p as bs rule: payload_slots.induct) auto

lemma length_skb_slots: "length as \<le> length (skb_payload skb) \<Longrightarrow> length (skb_slots skb d as) = Suc (length as)"
  by (simp add: skb_slots_def length_payload_slots)

text \<open>
  The ring after the loop over the buffers, with the slots up to where it stopped, for a queue
  that was ready for the packet.
\<close>

lemma add_payload_of_skb:
  fixes s :: "'z dpmaif_tx_scheme" and skb :: sk_buff
  defines "q \<equiv> cb_txq_number skb" and "t \<equiv> txq s (cb_txq_number skb)"
  defines "v \<equiv> s\<lparr>txq := (txq s)(cb_txq_number skb := start_skb skb (txq s (cb_txq_number skb)))\<rparr>"
  defines "m \<equiv> add_payload (cb_txq_number skb) (skb_ptr skb) 0 (drb_wr_idx (txq s (cb_txq_number skb)))
     (skb_payload skb)"
  assumes "ready_for skb s"
  shows "\<exists>as x. same_queue (start_skb skb t) (txq (after m v) q) \<and>
    in_flight (txq (after m v) q) ((nxt_idx (drb_size_cnt t) ^^ Suc (length as)) (drb_wr_idx t)) =
      in_flight t (drb_wr_idx t) @ skb_slots skb (drb_base t (drb_wr_idx t)) as \<and>
    - 1 \<notin> set as \<and>
    trace (after m v) = trace s @ map mapped (zip (skb_payload skb) as) @ x \<and>
    (case result m v of
       Inr _ \<Rightarrow> length as = length (skb_payload skb) \<and> x = []
     | Inl (k, c) \<Rightarrow> k = length as \<and> length as < length (skb_payload skb) \<and>
         c = (nxt_idx (drb_size_cnt t) ^^ length as) (drb_wr_idx t) \<and>
         x = [mapped (skb_payload skb ! length as, - 1)])"
proof -
  have inv: "tx_inv t" and len: "slots_of skb \<le> room (drb_size_cnt t) (drb_release_rd_idx t) (drb_wr_idx t)"
    using assms(5) by (auto simp: ready_for_def Let_def t_def)
  note i = tx_invD [OF inv] and f = start_skb_fields [OF inv len]
  have pos: "0 < t7xx_ring_buf_rd_wr_count (drb_size_cnt t) (drb_release_rd_idx t) (drb_wr_idx t) DPMAIF_WRITE"
    using len by (auto simp: word_gt_0)
  have v: "txq v q = start_skb skb t" "trace v = trace s"
    by (simp_all add: v_def q_def t_def)
  have m: "m = add_payload q (skb_ptr skb) 0 (drb_wr_idx t) (skb_payload skb)"
    by (simp add: m_def q_def t_def)
  have "\<exists>as. payload_done q (skb_ptr skb) 0 (drb_wr_idx t) (skb_payload skb) v as (result m v) (after m v)"
    unfolding m
    using rb.writable_nxt_write [OF i(1-3) pos] len i by (intro add_payload_done) (simp_all add: v f)
  then obtain as where as: "payload_done q (skb_ptr skb) 0 (drb_wr_idx t) (skb_payload skb) v as
      (result m v) (after m v)" by blast
  have "same_queue (start_skb skb t) (txq (after m v) q)"
    using add_payload_frame [of q "skb_ptr skb" 0 "drb_wr_idx t" "skb_payload skb" v]
    unfolding m_def q_def t_def v_def by simp
  moreover have "0 < room (drb_size_cnt t) (drb_release_rd_idx t) (drb_wr_idx t)"
    using len by simp
  note in_flight_started [OF inv this, of skb]
  ultimately show ?thesis
    using as unfolding payload_done_def Let_def v f skb_slots_def
    by (intro exI [of _ as], cases "result m v") (auto simp: funpow_swap1)
qed

section \<open>Descriptors come back\<close>

text \<open>
  What giving back a slot does: the buffer of a payload descriptor is unmapped, and the last
  one of a packet frees it. A last payload descriptor that has no packet is not given back.
\<close>

definition unmaps_of :: "tx_slot \<Rightarrow> u64 list list" where
  "unmaps_of sl = (if drb_is_pd (sl_drb sl) \<and> \<not> sl_msg sl then [[sl_addr sl, ucast (sl_len sl)]] else [])"

definition frees_of :: "tx_slot \<Rightarrow> u64 list list" where
  "frees_of sl = (if drb_is_pd (sl_drb sl) \<and> \<not> drb_has_more (sl_drb sl) then [[sl_skb sl]] else [])"

definition releasable :: "tx_slot \<Rightarrow> bool" where
  "releasable sl \<longleftrightarrow> \<not> (drb_is_pd (sl_drb sl) \<and> \<not> drb_has_more (sl_drb sl) \<and> sl_skb sl = 0)"

definition release_slot :: "dpmaif_tx_queue \<Rightarrow> dpmaif_tx_queue" where
  "release_slot t = (let r = drb_release_rd_idx t in
     (if drb_is_pd (drb_base t r)
      then t\<lparr>drb_skb_base := (drb_skb_base t)(r := (drb_skb_base t r)\<lparr>ds_skb := 0\<rparr>)\<rparr> else t)
     \<lparr>drb_release_rd_idx := nxt_idx (drb_size_cnt t) r, tx_budget := tx_budget t + 1\<rparr>)"

lemma release_slot_fields [simp]:
  "drb_size_cnt (release_slot t) = drb_size_cnt t" "drb_wr_idx (release_slot t) = drb_wr_idx t"
  "drb_release_rd_idx (release_slot t) = nxt_idx (drb_size_cnt t) (drb_release_rd_idx t)"
  "tx_budget (release_slot t) = tx_budget t + 1" "txq_started (release_slot t) = txq_started t"
  "tx_skb_head (release_slot t) = tx_skb_head t" "drb_rd_idx (release_slot t) = drb_rd_idx t"
  by (simp_all add: release_slot_def Let_def)

lemma in_flight_release:
  assumes "tx_inv t" "0 < used (drb_size_cnt t) (drb_release_rd_idx t) (drb_wr_idx t)"
  shows "in_flight t (drb_wr_idx t) =
    slot t (drb_release_rd_idx t) # in_flight (release_slot t) (drb_wr_idx t)"
proof -
  let ?n = "drb_size_cnt t" and ?r = "drb_release_rd_idx t" and ?w = "drb_wr_idx t"
  note i = tx_invD [OF assms(1)]
  have pos: "0 < t7xx_ring_buf_rd_wr_count ?n ?r ?w DPMAIF_READ"
    using assms(2) by (auto simp: word_gt_0)
  have "?r \<notin> set (rb.window ?n (nxt_idx ?n ?r) ?w)"
    using rb.distinct_window [OF i(1-3)] rb.window_consume [OF i(1-3) pos] by simp
  moreover have "slot (release_slot t) = slot t \<or>
      (\<exists>x. slot (release_slot t) = (slot t)(?r := x))"
    by (cases "drb_is_pd (drb_base t ?r)") (auto simp: release_slot_def slot_def Let_def fun_eq_iff)
  ultimately have "rb.contents (slot (release_slot t)) ?n (nxt_idx ?n ?r) ?w
      = rb.contents (slot t) ?n (nxt_idx ?n ?r) ?w"
    using rb.contents_outside [where base = "slot t"] by auto
  then show ?thesis
    using rb.contents_consume [OF i(1-3) pos] by (simp add: in_flight_def)
qed

lemma tx_inv_release_slot:
  assumes "tx_inv t" "0 < used (drb_size_cnt t) (drb_release_rd_idx t) (drb_wr_idx t)"
  shows "tx_inv (release_slot t)"
  using tx_inv_release [OF assms] by simp

lemma used_release_slot:
  assumes "tx_inv t" "0 < used (drb_size_cnt t) (drb_release_rd_idx t) (drb_wr_idx t)"
  shows "Suc (used (drb_size_cnt t) (nxt_idx (drb_size_cnt t) (drb_release_rd_idx t)) (drb_wr_idx t)) =
    used (drb_size_cnt t) (drb_release_rd_idx t) (drb_wr_idx t)"
  using rb.readable_nxt_read [OF tx_invD(1-3) [OF assms(1)]] assms(2) by (simp add: word_gt_0 unat_gt_0)

lemma funpow_release:
  assumes "tx_inv t" "k \<le> used (drb_size_cnt t) (drb_release_rd_idx t) (drb_wr_idx t)"
  shows "tx_inv ((release_slot ^^ k) t) \<and>
    in_flight ((release_slot ^^ k) t) (drb_wr_idx t) = drop k (in_flight t (drb_wr_idx t)) \<and>
    drb_wr_idx ((release_slot ^^ k) t) = drb_wr_idx t \<and>
    tx_budget ((release_slot ^^ k) t) = tx_budget t + int k"
  using assms
proof (induction k arbitrary: t)
  case 0
  then show ?case by simp
next
  case (Suc k)
  then have pos: "0 < used (drb_size_cnt t) (drb_release_rd_idx t) (drb_wr_idx t)" by simp
  then show ?case
    using Suc.IH [of "release_slot t"] Suc.prems used_release_slot [OF Suc.prems(1) pos]
      tx_inv_release_slot [OF Suc.prems(1) pos] in_flight_release [OF Suc.prems(1) pos]
    by (simp add: funpow_Suc_right del: funpow.simps)
qed

lemma releases_of_skb:
  assumes "length as = length (skb_payload skb)"
  shows "concat (map unmaps_of (skb_slots skb d as)) =
      map (\<lambda>((p, l, f), a). [a, ucast l]) (zip (skb_payload skb) as)"
    and "concat (map frees_of (skb_slots skb d as)) = [[skb_ptr skb]]"
    and "skb_ptr skb \<noteq> 0 \<Longrightarrow> list_all releasable (skb_slots skb d as)"
proof -
  have m: "unmaps_of (msg_slot skb d) = []" "frees_of (msg_slot skb d) = []"
    "releasable (msg_slot skb d)"
    by (simp_all add: unmaps_of_def frees_of_def releasable_def msg_slot_def msg_drb_fields)
  have p: "unmaps_of (payload_slot s a l x) = [[a, ucast l]]"
    "frees_of (payload_slot s a l x) = (if x then [[s]] else [])"
    "s \<noteq> 0 \<Longrightarrow> releasable (payload_slot s a l x)" for s a l x
    by (simp_all add: unmaps_of_def frees_of_def releasable_def payload_slot_def payload_drb_fields)
  have "length as = length bs \<Longrightarrow> bs \<noteq> [] \<Longrightarrow>
      concat (map unmaps_of (payload_slots s as bs)) = map (\<lambda>((p, l, f), a). [a, ucast l]) (zip bs as) \<and>
      concat (map frees_of (payload_slots s as bs)) = [[s]] \<and>
      (s \<noteq> 0 \<longrightarrow> list_all releasable (payload_slots s as bs))" for s bs
  proof (induction s as bs rule: payload_slots.induct)
    case (1 s a as q l f bs)
    then show ?case by (cases "bs = []") (auto simp: p)
  qed auto
  from this [of "skb_payload skb" "skb_ptr skb"] show
    "concat (map unmaps_of (skb_slots skb d as)) =
      map (\<lambda>((p, l, f), a). [a, ucast l]) (zip (skb_payload skb) as)"
    "concat (map frees_of (skb_slots skb d as)) = [[skb_ptr skb]]"
    "skb_ptr skb \<noteq> 0 \<Longrightarrow> list_all releasable (skb_slots skb d as)"
    using assms by (auto simp: skb_slots_def m) (simp_all add: skb_payload_def)
qed

text \<open>What undoing the mappings of a packet unmaps: not its last mapped buffer, but its message slot.\<close>

lemma unmapped_of_skb:
  assumes "length as \<le> length (skb_payload skb)"
  shows "map unmapped (rev (take (length as) (skb_slots skb d as))) =
    (if as = [] then []
     else rev (map (\<lambda>((p, l, f), a). Call ''dma_unmap_single'' [a, ucast l]) (butlast (zip (skb_payload skb) as)))
       @ [Call ''dma_unmap_single'' [0, 0]])"
proof -
  have p: "length as \<le> length bs \<Longrightarrow> map unmapped (payload_slots s as bs) =
      map (\<lambda>((p, l, f), a). Call ''dma_unmap_single'' [a, ucast l]) (zip bs as)" for s bs
    by (induction s as bs rule: payload_slots.induct) (auto simp: unmapped_def payload_slot_def)
  have m: "unmapped (msg_slot skb d) = Call ''dma_unmap_single'' [0, 0]"
    by (simp add: unmapped_def msg_slot_def)
  show ?thesis
    using assms
    by (cases "as = []")
       (auto simp: skb_slots_def take_Cons' m
          rev_map [symmetric] take_map [symmetric] p butlast_conv_take min_def)
qed

text \<open>
  Packets of one queue with no more fragments than the kernel allows, and what sending the first
  \<open>j\<close> packets of its list does to a queue.
\<close>

definition small_skbs :: "nat \<Rightarrow> sk_buff list \<Rightarrow> bool" where
  "small_skbs q = list_all (\<lambda>skb. cb_txq_number skb = q \<and> length (skb_frags skb) \<le> 17)"

definition burst_sent :: "dpmaif_tx_queue \<Rightarrow> dpmaif_tx_queue \<Rightarrow> nat \<Rightarrow> bool" where
  "burst_sent t u j \<longleftrightarrow> j \<le> length (tx_skb_head t) \<and> tx_skb_head u = drop j (tx_skb_head t) \<and>
     (let k = sum_list (map slots_of (take j (tx_skb_head t))) in
       drb_wr_idx u = (nxt_idx (drb_size_cnt t) ^^ k) (drb_wr_idx t) \<and>
       tx_budget u = tx_budget t - int k) \<and>
     drb_size_cnt u = drb_size_cnt t \<and> drb_release_rd_idx u = drb_release_rd_idx t \<and>
     (\<exists>new. in_flight u (drb_wr_idx u) = in_flight t (drb_wr_idx t) @ new)"

text \<open>
  What the transmit path relies on of the network layer's callback: it leaves the queues and
  the state of the data path alone.
\<close>

locale tx_callbacks =
  fixes notify :: "'z state_notify"
  assumes notify_txq: "txq (after (notify e q) s) = txq s"
    and notify_st: "dpmaif_st (after (notify e q) s) = dpmaif_st s"
    and notify_recorded: "recorded (notify e q)"
    and notify_quiet: "f = ''dma_unmap_single'' \<or> f = ''dev_kfree_skb'' \<Longrightarrow>
      calls f (trace (after (notify e q) s)) = calls f (trace s)"
begin

lemma notify_trace: "\<exists>es. trace (after (notify e q) s) = trace s @ es"
  using notify_recorded by (rule recorded_trace)

lemma add_skb_run:
  fixes s :: "'z dpmaif_tx_scheme"
  assumes "ready_for skb s"
  shows "run (t7xx_dpmaif_add_skb_to_ring notify skb) s = (let
      q = cb_txq_number skb;
      c = drb_wr_idx (txq s q);
      (ret, u) = run (add_payload q (skb_ptr skb) 0 c (skb_payload skb))
                   (s\<lparr>txq := (txq s)(q := start_skb skb (txq s q))\<rparr>)
    in case ret of
         Inr _ \<Rightarrow> (let
             b = tx_budget (txq u q) - uint (of_nat (slots_of skb) :: u32);
             u1 = u\<lparr>txq := (txq u)(q := (txq u q)\<lparr>tx_budget := b\<rparr>)\<rparr>;
             u2 = (if b \<le> MAX_SKB_FRAGS + 2 then after (notify DMPAIF_TXQ_STATE_FULL q) u1 else u1)
           in (Inr (), u2\<lparr>txq := (txq u2)(q := (txq u2 q)\<lparr>tx_processing := 0\<rparr>)\<rparr>))
       | Inl (k, c') \<Rightarrow> (let u1 = after (unmap_payload q k c') u
           in (Inl ENOMEM, u1\<lparr>txq := (txq u1)(q := (txq u1 q)\<lparr>drb_wr_idx := c, tx_processing := 0\<rparr>)\<rparr>)))"
  using assms
  by (simp add: t7xx_dpmaif_add_skb_to_ring_def run_simps Let_def ready_for_def start_skb_def
      t7xx_setup_msg_drb_def t7xx_record_drb_skb_def put_slot_def split_beta split: sum.split prod.split)

text \<open>What the packet does to its queue, either way; the rest of the data path is not touched.\<close>

lemma add_skb_done:
  fixes s :: "'z dpmaif_tx_scheme" and skb :: sk_buff
  defines "q \<equiv> cb_txq_number skb" and "t \<equiv> txq s (cb_txq_number skb)"
  defines "m \<equiv> t7xx_dpmaif_add_skb_to_ring notify skb"
  assumes "ready_for skb s"
  shows "\<exists>as. - 1 \<notin> set as \<and> (case result m s of
       Inr _ \<Rightarrow> length as = length (skb_payload skb) \<and>
         in_flight (txq (after m s) q) (drb_wr_idx (txq (after m s) q)) =
           in_flight t (drb_wr_idx t) @ skb_slots skb (drb_base t (drb_wr_idx t)) as \<and>
         drb_wr_idx (txq (after m s) q) = (nxt_idx (drb_size_cnt t) ^^ slots_of skb) (drb_wr_idx t) \<and>
         tx_budget (txq (after m s) q) = tx_budget t - int (slots_of skb) \<and>
         (\<exists>x. trace (after m s) = trace s @ map mapped (zip (skb_payload skb) as) @ x)
     | Inl e \<Rightarrow> e = ENOMEM \<and> length as < length (skb_payload skb) \<and>
         in_flight (txq (after m s) q) (drb_wr_idx (txq (after m s) q)) = in_flight t (drb_wr_idx t) \<and>
         drb_wr_idx (txq (after m s) q) = drb_wr_idx t \<and>
         tx_budget (txq (after m s) q) = tx_budget t \<and>
         trace (after m s) = trace s @ map mapped (zip (skb_payload skb) as)
           @ [mapped (skb_payload skb ! length as, - 1)]
           @ map unmapped (rev (take (length as) (skb_slots skb (drb_base t (drb_wr_idx t)) as))))"
proof -
  let ?n = "drb_size_cnt t" and ?c = "drb_wr_idx t" and ?r = "drb_release_rd_idx t"
  define v where "v = s\<lparr>txq := (txq s)(q := start_skb skb t)\<rparr>"
  define a :: "('z dpmaif_tx_scheme, (nat \<times> u32) + unit) state"
    where "a = add_payload q (skb_ptr skb) 0 ?c (skb_payload skb)"
  define u where "u = after a v"
  have inv: "tx_inv t" and len: "slots_of skb \<le> room ?n ?r ?c"
    using assms(4) by (auto simp: ready_for_def Let_def t_def)
  note i = tx_invD [OF inv] and f = start_skb_fields [OF inv len]
  have tq: "txq s q = t"
    by (simp add: q_def t_def)
  note run = add_skb_run [OF assms(4), folded m_def q_def, unfolded Let_def split_beta, unfolded tq,
      folded a_def v_def, folded u_def]
  obtain as x where same: "same_queue (start_skb skb t) (txq u q)"
    and fl: "in_flight (txq u q) ((nxt_idx ?n ^^ Suc (length as)) ?c) =
        in_flight t ?c @ skb_slots skb (drb_base t ?c) as"
    and tr: "trace u = trace s @ map mapped (zip (skb_payload skb) as) @ x"
    and res: "case result a v of
       Inr _ \<Rightarrow> length as = length (skb_payload skb) \<and> x = []
     | Inl (k, c) \<Rightarrow> k = length as \<and> length as < length (skb_payload skb) \<and>
         c = (nxt_idx ?n ^^ length as) ?c \<and> x = [mapped (skb_payload skb ! length as, - 1)]"
    and ok: "- 1 \<notin> set as"
    using add_payload_of_skb [OF assms(4), folded q_def, unfolded tq, folded a_def v_def]
    unfolding u_def by blast
  note uf = same_queue_fields [OF same, unfolded f]
  have small: "uint (of_nat (slots_of skb) :: u32) = int (slots_of skb)"
    using room_lt [OF i(1-3)] len i(1) by (intro uint_of_nat_u32) (simp add: ring_size_def)
  show ?thesis
  proof (cases "result a v")
    case (Inr y)
    define b where "b = tx_budget (txq u q) - int (slots_of skb)"
    define u1 where "u1 = u\<lparr>txq := (txq u)(q := (txq u q)\<lparr>tx_budget := b\<rparr>)\<rparr>"
    define u2 where "u2 = (if b \<le> MAX_SKB_FRAGS + 2 then after (notify DMPAIF_TXQ_STATE_FULL q) u1 else u1)"
    have "run m s = (Inr (), u2\<lparr>txq := (txq u2)(q := (txq u2 q)\<lparr>tx_processing := 0\<rparr>)\<rparr>)"
      unfolding run Inr small by (simp add: b_def u1_def u2_def)
    moreover have "txq u2 = txq u1" "\<exists>y. trace u2 = trace u @ y"
      using notify_txq notify_trace [of DMPAIF_TXQ_STATE_FULL q u1] by (auto simp: u2_def u1_def)
    ultimately show ?thesis
      using res fl tr uf ok
      by (intro exI [of _ as]) (auto simp: Inr u1_def b_def)
  next
    case (Inl kc)
    then have kc: "kc = (length as, (nxt_idx ?n ^^ length as) ?c)"
      using res by auto
    have used_end: "used ?n ?r ((nxt_idx ?n ^^ Suc (length as)) ?c) = used ?n ?r ?c + Suc (length as)"
      using rb.readable_advance [OF i(1-3), of "Suc (length as)"] len res by (simp add: Inl kc)
    define u1 where "u1 = after (unmap_payload q (length as) ((nxt_idx ?n ^^ length as) ?c)) u"
    have "run m s = (Inl ENOMEM, u1\<lparr>txq := (txq u1)(q := (txq u1 q)\<lparr>drb_wr_idx := ?c, tx_processing := 0\<rparr>)\<rparr>)"
      unfolding run Inl kc by (simp add: u1_def)
    moreover have "txq u1 = txq u"
      using unmap_payload_frame [of q "length as" "(nxt_idx ?n ^^ length as) ?c" u] by (simp add: u1_def)
    moreover have "in_flight (txq u q) ?c = in_flight t ?c"
      using rb.contents_take [of ?n ?r ?c "(nxt_idx ?n ^^ Suc (length as)) ?c" "slot (txq u q)"]
        used_end fl uf by (simp add: in_flight_def rb.contents_def rb.length_window word_le_nat_alt)
    moreover have "trace u1 = trace u
           @ map unmapped (rev (take (length as) (skb_slots skb (drb_base t ?c) as)))"
    proof -
      have "slot (txq u q) ((nxt_idx ?n ^^ i) ?c) = skb_slots skb (drb_base t ?c) as ! i"
        if "i < length as" for i
        using in_flight_nth [of "txq u q" ?c i "(nxt_idx ?n ^^ Suc (length as)) ?c"] that i uf fl used_end
        by (simp add: nth_append length_in_flight)
      then show ?thesis
        using unmap_payload_trace [of ?n u q ?c "length as"] i uf res
        by (simp add: u1_def Inl kc take_map_nth length_skb_slots rev_map [symmetric])
    qed
    ultimately show ?thesis
      using res tr uf ok
      by (intro exI [of _ as]) (auto simp: Inl kc)
  qed
qed

lemma add_skb_frame:
  fixes s :: "'z dpmaif_tx_scheme" and skb :: sk_buff
  defines "s' \<equiv> after (t7xx_dpmaif_add_skb_to_ring notify skb) s"
    and "q \<equiv> cb_txq_number skb"
  assumes "ready_for skb s"
  shows "p \<noteq> q \<Longrightarrow> txq s' p = txq s p" "dpmaif_st s' = dpmaif_st s"
    "drb_size_cnt (txq s' q) = drb_size_cnt (txq s q)"
    "drb_release_rd_idx (txq s' q) = drb_release_rd_idx (txq s q)"
    "tx_skb_head (txq s' q) = tx_skb_head (txq s q)"
    "txq_started (txq s' q) = txq_started (txq s q)"
proof -
  let ?m = "add_payload q (skb_ptr skb) 0 (drb_wr_idx (txq s q)) (skb_payload skb)"
  let ?v = "s\<lparr>txq := (txq s)(q := start_skb skb (txq s q))\<rparr>"
  have f: "(\<forall>p. p \<noteq> q \<longrightarrow> txq (after ?m ?v) p = txq s p) \<and> dpmaif_st (after ?m ?v) = dpmaif_st s \<and>
      same_queue (start_skb skb (txq s q)) (txq (after ?m ?v) q)"
    using add_payload_frame [of q "skb_ptr skb" 0 "drb_wr_idx (txq s q)" "skb_payload skb" ?v] by simp
  have start: "drb_size_cnt (start_skb skb t) = drb_size_cnt t" "txq_started (start_skb skb t) = txq_started t"
    "drb_release_rd_idx (start_skb skb t) = drb_release_rd_idx t" "tx_skb_head (start_skb skb t) = tx_skb_head t" for t
    by (simp_all add: start_skb_def)
  note same = same_queue_fields [OF conjunct2 [OF conjunct2 [OF f]], unfolded start]
  note run = add_skb_run [OF assms(3), folded q_def]
  show "p \<noteq> q \<Longrightarrow> txq s' p = txq s p" "dpmaif_st s' = dpmaif_st s"
    "drb_size_cnt (txq s' q) = drb_size_cnt (txq s q)"
    "drb_release_rd_idx (txq s' q) = drb_release_rd_idx (txq s q)"
    "tx_skb_head (txq s' q) = tx_skb_head (txq s q)"
    "txq_started (txq s' q) = txq_started (txq s q)"
    using f same
    by (auto simp: s'_def run Let_def split_beta unmap_payload_frame notify_txq notify_st
        split: sum.split)
qed

lemma add_skb_not_ready:
  assumes "\<not> txq_started (txq s (cb_txq_number skb)) \<or> dpmaif_st s \<noteq> DPMAIF_STATE_PWRON"
  shows "run (t7xx_dpmaif_add_skb_to_ring notify skb) s = (Inl ENODEV, s)"
  using assms by (simp add: t7xx_dpmaif_add_skb_to_ring_def run_simps Let_def)

lemma add_skb_keeps:
  fixes s :: "'z dpmaif_tx_scheme" and skb :: sk_buff
  defines "s' \<equiv> after (t7xx_dpmaif_add_skb_to_ring notify skb) s"
    and "t \<equiv> txq s (cb_txq_number skb)"
  assumes "tx_inv t" "slots_of skb \<le> room (drb_size_cnt t) (drb_release_rd_idx t) (drb_wr_idx t)"
  shows "tx_skb_head (txq s' (cb_txq_number skb)) = tx_skb_head t \<and>
    drb_size_cnt (txq s' (cb_txq_number skb)) = drb_size_cnt t \<and>
    drb_release_rd_idx (txq s' (cb_txq_number skb)) = drb_release_rd_idx t"
  using add_skb_frame(3-5) [of skb s] add_skb_not_ready [of s skb] assms(3,4)
  by (cases "ready_for skb s") (auto simp: s'_def t_def ready_for_def Let_def)

text \<open>The invariant survives a packet that finds room, whether its buffers can be mapped or not.\<close>

lemma add_skb_inv:
  fixes s :: "'z dpmaif_tx_scheme" and skb :: sk_buff
  defines "q \<equiv> cb_txq_number skb"
  defines "t \<equiv> txq s q" and "m \<equiv> t7xx_dpmaif_add_skb_to_ring notify skb"
  assumes "tx_inv t" "slots_of skb \<le> room (drb_size_cnt t) (drb_release_rd_idx t) (drb_wr_idx t)"
  shows "tx_inv (txq (after m s) q)"
    and "isl (result m s) \<Longrightarrow> drb_wr_idx (txq (after m s) q) = drb_wr_idx t \<and>
      tx_budget (txq (after m s) q) = tx_budget t \<and>
      in_flight (txq (after m s) q) (drb_wr_idx t) = in_flight t (drb_wr_idx t)"
    and "\<not> isl (result m s) \<Longrightarrow>
      drb_wr_idx (txq (after m s) q) = (nxt_idx (drb_size_cnt t) ^^ slots_of skb) (drb_wr_idx t) \<and>
      tx_budget (txq (after m s) q) = tx_budget t - int (slots_of skb) \<and>
      (\<exists>new. in_flight (txq (after m s) q) (drb_wr_idx (txq (after m s) q)) =
        in_flight t (drb_wr_idx t) @ new)"
proof -
  let ?r = "result m s" and ?t = "txq (after m s) q"
  have "tx_inv ?t \<and>
    (if isl ?r then drb_wr_idx ?t = drb_wr_idx t \<and> tx_budget ?t = tx_budget t \<and>
       in_flight ?t (drb_wr_idx t) = in_flight t (drb_wr_idx t)
     else drb_wr_idx ?t = (nxt_idx (drb_size_cnt t) ^^ slots_of skb) (drb_wr_idx t) \<and>
       tx_budget ?t = tx_budget t - int (slots_of skb) \<and>
       (\<exists>new. in_flight ?t (drb_wr_idx ?t) = in_flight t (drb_wr_idx t) @ new))"
  proof (cases "ready_for skb s")
    case True
    note fr = add_skb_frame(3,4) [OF True, folded q_def m_def, folded t_def]
    note eff = add_skb_done [OF True, folded q_def m_def, folded t_def]
    show ?thesis
    proof (cases ?r)
      case (Inl e)
      then show ?thesis
        using eff fr tx_inv_advance [OF assms(4), of 0 ?t] by auto
    next
      case (Inr u)
      then show ?thesis
        using eff fr tx_inv_advance [OF assms(4,5), of ?t] by auto
    qed
  next
    case False
    then have "run m s = (Inl ENODEV, s)"
      using assms(4,5) unfolding m_def t_def q_def
      by (intro add_skb_not_ready) (auto simp: ready_for_def Let_def)
    then show ?thesis
      using assms(4) by (simp add: t_def)
  qed
  then show "tx_inv ?t"
    and "isl ?r \<Longrightarrow> drb_wr_idx ?t = drb_wr_idx t \<and> tx_budget ?t = tx_budget t \<and>
      in_flight ?t (drb_wr_idx t) = in_flight t (drb_wr_idx t)"
    and "\<not> isl ?r \<Longrightarrow> drb_wr_idx ?t = (nxt_idx (drb_size_cnt t) ^^ slots_of skb) (drb_wr_idx t) \<and>
      tx_budget ?t = tx_budget t - int (slots_of skb) \<and>
      (\<exists>new. in_flight ?t (drb_wr_idx ?t) = in_flight t (drb_wr_idx t) @ new)"
    by (auto split: if_splits)
qed

text \<open>Giving back one descriptor, and as many as there are.\<close>

lemma release_one_done:
  fixes s :: "'z dpmaif_tx_scheme" and q :: nat
  defines "n \<equiv> drb_size_cnt (txq s q)" and "r \<equiv> drb_release_rd_idx (txq s q)"
  assumes "releasable (slot (txq s q) r)"
  shows "result (release_one notify q n r) s = nxt_idx n r"
    and "txq (after (release_one notify q n r) s) = (txq s)(q := release_slot (txq s q))"
    and "calls ''dma_unmap_single'' (trace (after (release_one notify q n r) s)) =
      calls ''dma_unmap_single'' (trace s) @ unmaps_of (slot (txq s q) r)"
    and "calls ''dev_kfree_skb'' (trace (after (release_one notify q n r) s)) =
      calls ''dev_kfree_skb'' (trace s) @ frees_of (slot (txq s q) r)"
  using assms(3)
  by (simp_all add: release_one_def run_simps Let_def split_beta n_def r_def slot_def releasable_def unmaps_of_def
      frees_of_def release_slot_def notify_txq notify_quiet) auto

lemma release_loop_done:
  fixes s :: "'z dpmaif_tx_scheme"
  assumes "tx_inv (txq s q)" "n = drb_size_cnt (txq s q)" "r = drb_release_rd_idx (txq s q)"
    and "k \<le> used n r (drb_wr_idx (txq s q))"
    and "list_all releasable (take k (in_flight (txq s q) (drb_wr_idx (txq s q))))"
  shows "txq (after (release_loop notify q n k r) s) = (txq s)(q := (release_slot ^^ k) (txq s q)) \<and>
    calls ''dma_unmap_single'' (trace (after (release_loop notify q n k r) s)) =
      calls ''dma_unmap_single'' (trace s)
        @ concat (map unmaps_of (take k (in_flight (txq s q) (drb_wr_idx (txq s q))))) \<and>
    calls ''dev_kfree_skb'' (trace (after (release_loop notify q n k r) s)) =
      calls ''dev_kfree_skb'' (trace s)
        @ concat (map frees_of (take k (in_flight (txq s q) (drb_wr_idx (txq s q)))))"
  using assms
proof (induction k arbitrary: s r)
  case 0
  then show ?case by simp
next
  case (Suc k)
  let ?t = "txq s q"
  define u where "u = after (release_one notify q n r) s"
  have pos: "0 < used (drb_size_cnt ?t) (drb_release_rd_idx ?t) (drb_wr_idx ?t)"
    using Suc.prems by simp
  note fl = in_flight_release [OF Suc.prems(1) pos]
  have ok: "releasable (slot ?t (drb_release_rd_idx ?t))"
    using Suc.prems(5) by (simp add: fl)
  note one = release_one_done [OF ok, folded Suc.prems(2,3), folded u_def]
  have uq: "txq u q = release_slot ?t" by (simp add: one)
  have "txq (after (release_loop notify q n k (nxt_idx n r)) u) = (txq u)(q := (release_slot ^^ k) (txq u q)) \<and>
    calls ''dma_unmap_single'' (trace (after (release_loop notify q n k (nxt_idx n r)) u)) =
      calls ''dma_unmap_single'' (trace u)
        @ concat (map unmaps_of (take k (in_flight (txq u q) (drb_wr_idx (txq u q))))) \<and>
    calls ''dev_kfree_skb'' (trace (after (release_loop notify q n k (nxt_idx n r)) u)) =
      calls ''dev_kfree_skb'' (trace u)
        @ concat (map frees_of (take k (in_flight (txq u q) (drb_wr_idx (txq u q)))))"
    using Suc.prems used_release_slot [OF Suc.prems(1) pos] tx_inv_release_slot [OF Suc.prems(1) pos]
    by (intro Suc.IH) (simp_all add: uq fl)
  then show ?case
    using one by (simp add: run_bind split_beta uq fl [folded Suc.prems(3)] funpow_swap1 u_def [symmetric])
qed

lemma release_tx_buffer_done:
  fixes s :: "'z dpmaif_tx_scheme" and q :: nat and k :: u32
  defines "t \<equiv> txq s q" and "s' \<equiv> after (t7xx_dpmaif_release_tx_buffer notify q k) s"
  defines "rel \<equiv> take (unat k) (in_flight t (drb_wr_idx t))"
  assumes "tx_inv t" "unat k \<le> used (drb_size_cnt t) (drb_release_rd_idx t) (drb_wr_idx t)"
    and "list_all releasable rel"
  shows "tx_inv (txq s' q)" "drb_wr_idx (txq s' q) = drb_wr_idx t"
    "in_flight (txq s' q) (drb_wr_idx t) = drop (unat k) (in_flight t (drb_wr_idx t))"
    "tx_budget (txq s' q) = tx_budget t + int (unat k)"
    "calls ''dma_unmap_single'' (trace s') =
       calls ''dma_unmap_single'' (trace s) @ concat (map unmaps_of rel)"
    "calls ''dev_kfree_skb'' (trace s') = calls ''dev_kfree_skb'' (trace s) @ concat (map frees_of rel)"
proof -
  have s': "s' = after (release_loop notify q (drb_size_cnt t) (unat k) (drb_release_rd_idx t)) s"
    by (simp add: s'_def t_def t7xx_dpmaif_release_tx_buffer_def run_simps split_beta)
  note loop = release_loop_done [OF assms(4) [unfolded t_def] refl refl assms(5) [unfolded t_def]
      assms(6) [unfolded rel_def t_def], folded t_def, folded s' rel_def]
  note fp = funpow_release [OF assms(4,5)]
  show "tx_inv (txq s' q)" "drb_wr_idx (txq s' q) = drb_wr_idx t"
    "in_flight (txq s' q) (drb_wr_idx t) = drop (unat k) (in_flight t (drb_wr_idx t))"
    "tx_budget (txq s' q) = tx_budget t + int (unat k)"
    "calls ''dma_unmap_single'' (trace s') =
       calls ''dma_unmap_single'' (trace s) @ concat (map unmaps_of rel)"
    "calls ''dev_kfree_skb'' (trace s') = calls ''dev_kfree_skb'' (trace s) @ concat (map frees_of rel)"
    using loop fp by simp_all
qed

text \<open>A burst sends the packets at the head of the list, in order, as long as there is room.\<close>

lemma burst_loop_done:
  assumes "tx_inv (txq s q)" "small_skbs q (tx_skb_head (txq s q))"
    and "unat remain \<le> room (drb_size_cnt (txq s q)) (drb_release_rd_idx (txq s q)) (drb_wr_idx (txq s q))"
  shows "tx_inv (txq (after (burst_loop notify q n remain cnt ret) s) q) \<and>
    (\<exists>j \<le> n. burst_sent (txq s q) (txq (after (burst_loop notify q n remain cnt ret) s) q) j \<and>
      fst (result (burst_loop notify q n remain cnt ret) s) =
        cnt + int (sum_list (map slots_of (take j (tx_skb_head (txq s q))))))"
  using assms
proof (induction n arbitrary: remain cnt ret s)
  case 0
  then show ?case by (simp add: burst_sent_def)
next
  case (Suc n)
  let ?t = "txq s q"
  show ?case
  proof (cases "tx_skb_head ?t")
    case Nil
    then show ?thesis
      using Suc.prems by (auto simp: run_simps burst_sent_def intro!: exI [of _ 0])
  next
    case (Cons skb rest)
    have skb: "cb_txq_number skb = q" "length (skb_frags skb) \<le> 17"
      using Suc.prems(2) by (auto simp: Cons small_skbs_def)
    have cnt: "unat (t7xx_skb_drb_cnt skb) = slots_of skb"
    proof -
      have "t7xx_skb_drb_cnt skb = of_nat (slots_of skb)"
        by (simp add: t7xx_skb_drb_cnt_def skb_payload_def)
      then show ?thesis
        using skb(2) unat_of_nat_u32 [of "slots_of skb"] by (simp only:) (simp add: skb_payload_def)
    qed
    show ?thesis
    proof (cases "remain < t7xx_skb_drb_cnt skb")
      case True
      then show ?thesis
        using Suc.IH [OF Suc.prems(1,2), of _ cnt ret] 
        by (simp add: run_simps Cons t7xx_txq_drb_wr_available_def) (meson le_SucI order_refl)
    next
      case False
      let ?u = "after (t7xx_dpmaif_add_skb_to_ring notify skb) s"
        and ?r = "result (t7xx_dpmaif_add_skb_to_ring notify skb) s"
      have le: "slots_of skb \<le> unat remain"
        using False cnt by (simp add: word_less_nat_alt)
      then have fits: "slots_of skb \<le> room (drb_size_cnt ?t) (drb_release_rd_idx ?t) (drb_wr_idx ?t)"
        using Suc.prems(3) by simp
      note inv = add_skb_inv [where skb = skb and s = s, unfolded skb, OF Suc.prems(1) fits]
      have fr: "tx_skb_head (txq ?u q) = skb # rest" "drb_size_cnt (txq ?u q) = drb_size_cnt ?t"
        "drb_release_rd_idx (txq ?u q) = drb_release_rd_idx ?t"
        using add_skb_keeps [where skb = skb and s = s] Suc.prems(1) fits skb by (auto simp: Cons)
      show ?thesis
      proof (cases "isl ?r")
        case True
        then show ?thesis
          using False inv fr
          by (auto simp: run_simps Cons split_beta Let_def burst_sent_def intro!: exI [of _ 0])
      next
        case sent: False
        let ?u1 = "?u\<lparr>txq := (txq ?u)(q := (txq ?u q)\<lparr>tx_skb_head := rest\<rparr>)\<rparr>"
        have u1: "tx_inv (txq ?u1 q)" "small_skbs q (tx_skb_head (txq ?u1 q))"
          using inv(1) Suc.prems(2) by (simp_all add: tx_inv_def Cons small_skbs_def)
        have "unat (remain - t7xx_skb_drb_cnt skb) = unat remain - slots_of skb"
          using le cnt by (simp add: unat_sub word_le_nat_alt)
        then have "unat (remain - t7xx_skb_drb_cnt skb) \<le>
            room (drb_size_cnt (txq ?u1 q)) (drb_release_rd_idx (txq ?u1 q)) (drb_wr_idx (txq ?u1 q))"
          using room_budget [OF inv(1)] room_budget [OF Suc.prems(1)] inv(3) [OF sent] Suc.prems(3)
          by (simp add: nat_diff_distrib')
        note ih = Suc.IH [OF u1 this, of "cnt + uint (t7xx_skb_drb_cnt skb)" ?r]
        have "burst_sent ?t v (Suc j)" if "burst_sent (txq ?u1 q) v j" for v j
          using that inv(3) [OF sent] fr
          by (auto simp: burst_sent_def Cons Let_def funpow_add funpow_swap1 intro: funpow_comm)
        moreover have "run (burst_loop notify q (Suc n) remain cnt ret) s =
            run (burst_loop notify q n (remain - t7xx_skb_drb_cnt skb) (cnt + uint (t7xx_skb_drb_cnt skb)) ?r) ?u1"
          using False sent by (simp add: run_simps Cons split_beta Let_def)
        moreover have "uint (t7xx_skb_drb_cnt skb) = int (slots_of skb)"
          by (simp only: cnt [symmetric] int_nat_eq uint_nat [symmetric])
        ultimately show ?thesis
          using ih by (force simp: Cons)
      qed
    qed
  qed
qed

end

section \<open>Two ways the ring and its accounting come apart\<close>

text \<open>C11: a last payload descriptor without a packet stops the release for good. Each round of
  \<open>t7xx_dpmaif_release_tx_buffer\<close> meets the same descriptor, unmaps its buffer once more, and
  leaves by \<open>continue\<close> before the index moves; the function reports that it released everything it
  was asked to release.\<close>

theorem release_stuck:
  assumes "\<not> releasable (slot (txq s q) (drb_release_rd_idx (txq s q)))"
  shows "result (t7xx_dpmaif_release_tx_buffer cb q k) s = k \<and>
    (let s' = after (t7xx_dpmaif_release_tx_buffer cb q k) s in
      txq s' = txq s \<and>
      calls ''dma_unmap_single'' (trace s') = calls ''dma_unmap_single'' (trace s)
        @ concat (replicate (unat k) (unmaps_of (slot (txq s q) (drb_release_rd_idx (txq s q))))))"
proof -
  have loop: "txq (after (release_loop cb q n m r) u) = txq u \<and>
      calls ''dma_unmap_single'' (trace (after (release_loop cb q n m r) u)) =
        calls ''dma_unmap_single'' (trace u) @ concat (replicate m (unmaps_of (slot (txq u q) r)))"
    if "\<not> releasable (slot (txq u q) r)" for n m r u
    using that
  proof (induction m arbitrary: u)
    case 0
    then show ?case by simp
  next
    case (Suc m)
    define v where "v = after (release_one cb q n r) u"
    have "result (release_one cb q n r) u = r \<and> txq v = txq u \<and>
        calls ''dma_unmap_single'' (trace v) =
          calls ''dma_unmap_single'' (trace u) @ unmaps_of (slot (txq u q) r)"
      using Suc.prems
      by (auto simp: v_def release_one_def run_simps releasable_def slot_def unmaps_of_def)
    then show ?case
      using Suc.IH [of v] Suc.prems by (simp add: run_bind split_beta v_def [symmetric])
  qed
  show ?thesis
    using loop [OF assms] assms
    by (simp add: t7xx_dpmaif_release_tx_buffer_def run_simps split_beta)
qed

definition stuck_example :: dpmaif_tx where
  "stuck_example = \<lparr>env = reg_file (\<lambda>_. 0) (\<lambda>_ _. 0), trace = [], pci = undefined,
     hw_info = undefined, dpmaif_st = DPMAIF_STATE_PWRON,
     txq = (\<lambda>_. \<lparr>txq_started = True, tx_budget = 6, drb_base_ptr = 1,
       drb_base = (\<lambda>_. \<lparr>drb_header = 0, drb_dw1 = 0, drb_dw2 = 0\<rparr>), drb_bus_addr = 0,
       drb_size_cnt = 8, drb_wr_idx = 2, drb_rd_idx = 2, drb_release_rd_idx = 0, drb_skb_ptr = 1,
       drb_skb_base = (\<lambda>_. \<lparr>ds_skb = 0, ds_bus_addr = 0x1000, ds_data_len = 64, ds_index = 0,
         ds_is_msg = False, ds_is_frag = False, ds_is_last = True\<rparr>),
       txq_worker = 1, tx_processing = 0, tx_skb_head = []\<rparr>),
     tx_thread = 1\<rparr>"

theorem release_stuck_witness:
  "let s' = after (t7xx_dpmaif_release_tx_buffer (\<lambda>_ _. return ()) 0 3) stuck_example
   in drb_release_rd_idx (txq s' 0) = 0 \<and>
      calls ''dma_unmap_single'' (trace s') = [[0x1000, 64], [0x1000, 64], [0x1000, 64]]"
  using release_stuck [of stuck_example 0 "\<lambda>_ _. return ()" 3]
  by (simp add: stuck_example_def releasable_def slot_def drb_is_pd_def drb_has_more_def FIELD_GET_def
      unmaps_of_def Let_def) (simp add: numeral_3_eq_3)

text \<open>C10: \<open>t7xx_dpmaif_txq_flush_rel\<close> empties the ring and leaves the budget alone, so that the
  descriptors that were in flight are lost to the budget: it is the free room of the emptied
  ring, less what was used before.\<close>

theorem flush_loses_budget:
  assumes "tx_inv (txq s q)"
  shows "let s' = after (t7xx_dpmaif_txq_flush_rel q) s in
    in_flight (txq s' q) (drb_wr_idx (txq s' q)) = [] \<and>
    tx_budget (txq s' q) = int (Suc (room (drb_size_cnt (txq s' q)) 0 0))
      - int (used (drb_size_cnt (txq s q)) (drb_release_rd_idx (txq s q)) (drb_wr_idx (txq s q)))"
proof -
  let ?n = "drb_size_cnt (txq s q)"
  note i = tx_invD [OF assms]
  have z: "0 < ?n" using i(1) by (simp add: ring_size_def)
  have keep: "drb_size_cnt (txq (after (free_drb_skb_one q j) u) q) = drb_size_cnt (txq u q) \<and>
      tx_budget (txq (after (free_drb_skb_one q j) u) q) = tx_budget (txq u q)"
    for j and u :: "'a dpmaif_tx_scheme"
    by (simp add: free_drb_skb_one_def run_simps)
  have "drb_size_cnt (txq (after (t7xx_dpmaif_tx_free_drb_skb q) u) q) = drb_size_cnt (txq u q) \<and>
      tx_budget (txq (after (t7xx_dpmaif_tx_free_drb_skb q) u) q) = tx_budget (txq u q)"
    for u :: "'a dpmaif_tx_scheme"
  proof -
    have "drb_size_cnt (txq (after (for_each xs (free_drb_skb_one q)) u) q) = drb_size_cnt (txq u q) \<and>
        tx_budget (txq (after (for_each xs (free_drb_skb_one q)) u) q) = tx_budget (txq u q)" for xs
      by (rule for_each_rel [where R = "\<lambda>s t. drb_size_cnt (txq t q) = drb_size_cnt (txq s q) \<and>
            tx_budget (txq t q) = tx_budget (txq s q)"]) (simp_all add: keep)
    then show ?thesis
      by (simp add: t7xx_dpmaif_tx_free_drb_skb_def run_simps)
  qed
  moreover have "tx_budget (txq s q) = int (Suc (room ?n 0 0))
      - int (used ?n (drb_release_rd_idx (txq s q)) (drb_wr_idx (txq s q)))"
    using i(4) rb.readable_writable [OF i(1-3)] rb.readable_writable [OF i(1) z z]
      rb.readable_same [OF i(1) z] by (simp only: unsigned_0)
  ultimately show ?thesis
    by (simp add: t7xx_dpmaif_txq_flush_rel_def run_simps Let_def split_beta in_flight_def
        rb.contents_empty [OF i(1) z])
qed

theorem flush_loses_budget_witness:
  "let s' = after (t7xx_dpmaif_txq_flush_rel 0) stuck_example in
     tx_budget (txq s' 0) = int (Suc (room (drb_size_cnt (txq s' 0)) 0 0)) - 2"
  using flush_loses_budget [of stuck_example 0]
  by (simp add: stuck_example_def tx_inv_def ring_size_def t7xx_ring_buf_rd_wr_count_def Let_def)

end
