(* ===== verification/Ccmni.thy ===== *)
theory Ccmni
  imports Dpmaif_Tx_Ring
begin

text \<open>
  The network interfaces, \<open>t7xx_netdev.c\<close>, except for its reaction to modem states. The
  private data of a net device is found by the device's address in \<open>ccmni_of\<close>; \<open>ccmni_inst\<close>
  is the table of devices by session number, whose length is \<open>NIC_DEV_MAX\<close>.
\<close>

section \<open>The interfaces\<close>

datatype md_state =
    MD_STATE_INVALID | MD_STATE_WAITING_FOR_HS1 | MD_STATE_WAITING_FOR_HS2 | MD_STATE_READY
  | MD_STATE_EXCEPTION | MD_STATE_WAITING_TO_STOP | MD_STATE_STOPPED

abbreviation (input) NIC_DEV_MAX :: nat where "NIC_DEV_MAX \<equiv> 21"
abbreviation (input) NIC_DEV_DEFAULT :: nat where "NIC_DEV_DEFAULT \<equiv> 2"
abbreviation (input) CCMNI_MTU_MAX :: u32 where "CCMNI_MTU_MAX \<equiv> 3000"
abbreviation (input) NIC_NAPI_POLL_BUDGET :: nat where "NIC_NAPI_POLL_BUDGET \<equiv> 128"
abbreviation (input) PKT_TYPE_IP6 :: u8 where "PKT_TYPE_IP6 \<equiv> 1"

record net_stats =
  rx_packets :: nat
  rx_bytes :: nat
  tx_packets :: nat
  tx_bytes :: nat
  tx_dropped :: nat
  tx_errors :: nat

record t7xx_ccmni =
  ccmni_index :: u8
  ccmni_usage :: int
  ccmni_mtu :: u32
  ccmni_stats :: net_stats

record t7xx_ccmni_ctrl =
  ccmni_inst :: "u64 option list"
  ccmni_of :: "u64 \<Rightarrow> t7xx_ccmni"
  nic_dev_num :: nat
  md_sta :: md_state
  wwan_is_registered :: bool
  dummy_dev :: u64
  napi_usr_refcnt :: int
  is_napi_en :: bool

record ccmni_layer = dpmaif_tx +
  ccmni :: t7xx_ccmni_ctrl

definition get_ccmni :: "(t7xx_ccmni_ctrl \<Rightarrow> 'a) \<Rightarrow> ('z ccmni_layer_scheme, 'a) state" where
  "get_ccmni f = gets (\<lambda>s. f (ccmni s))"

definition upd_ccmni ::
  "(t7xx_ccmni_ctrl \<Rightarrow> t7xx_ccmni_ctrl) \<Rightarrow> ('z ccmni_layer_scheme, unit) state" where
  "upd_ccmni f = modify (\<lambda>s. s\<lparr>ccmni := f (ccmni s)\<rparr>)"

definition upd_dev :: "u64 \<Rightarrow> (t7xx_ccmni \<Rightarrow> t7xx_ccmni) \<Rightarrow> ('z ccmni_layer_scheme, unit) state" where
  "upd_dev dev f = upd_ccmni (\<lambda>c. c\<lparr>ccmni_of := (ccmni_of c)(dev := f (ccmni_of c dev))\<rparr>)"

definition upd_stats :: "u64 \<Rightarrow> (net_stats \<Rightarrow> net_stats) \<Rightarrow> ('z ccmni_layer_scheme, unit) state" where
  "upd_stats dev f = upd_dev dev (\<lambda>d. d\<lparr>ccmni_stats := f (ccmni_stats d)\<rparr>)"

section \<open>Polling on and off\<close>

text \<open>The loop stops at the first queue whose device does not resume.\<close>

primrec enable_napi_loop :: "nat list \<Rightarrow> ('z ccmni_layer_scheme, bool) state" where
  "enable_napi_loop [] = return True"
| "enable_napi_loop (i # is) = do {
     ret \<leftarrow> kerr ''pm_runtime_resume_and_get'' [];
     if isl ret then return False else do {
       kcall ''napi_enable'' [of_nat i];
       kcall ''napi_schedule'' [of_nat i];
       enable_napi_loop is
     }
   }"

definition t7xx_ccmni_enable_napi :: "('z ccmni_layer_scheme, unit) state" where
  "t7xx_ccmni_enable_napi = do {
     en \<leftarrow> get_ccmni is_napi_en;
     if en then return () else do {
       ok \<leftarrow> enable_napi_loop [0..<DPMAIF_RXQ_NUM];
       c_when ok (upd_ccmni (\<lambda>c. c\<lparr>is_napi_en := True\<rparr>))
     }
   }"

definition t7xx_ccmni_disable_napi :: "('z ccmni_layer_scheme, unit) state" where
  "t7xx_ccmni_disable_napi = do {
     en \<leftarrow> get_ccmni is_napi_en;
     if \<not> en then return () else do {
       for_each [0..<DPMAIF_RXQ_NUM] (\<lambda>i. do {
         kcall ''napi_synchronize'' [of_nat i];
         kcall ''napi_disable'' [of_nat i]
       });
       upd_ccmni (\<lambda>c. c\<lparr>is_napi_en := False\<rparr>)
     }
   }"

section \<open>Operations of a net device\<close>

definition t7xx_ccmni_open :: "u64 \<Rightarrow> ('z ccmni_layer_scheme, errno + unit) state" where
  "t7xx_ccmni_open dev = do {
     kcall ''netif_carrier_on'' [dev];
     kcall ''netif_tx_start_all_queues'' [dev];
     old \<leftarrow> get_ccmni napi_usr_refcnt;
     upd_ccmni (\<lambda>c. c\<lparr>napi_usr_refcnt := napi_usr_refcnt c + 1\<rparr>);
     c_when (old = 0) t7xx_ccmni_enable_napi;
     upd_dev dev (\<lambda>d. d\<lparr>ccmni_usage := ccmni_usage d + 1\<rparr>);
     return (Inr ())
   }"

definition t7xx_ccmni_close :: "u64 \<Rightarrow> ('z ccmni_layer_scheme, errno + unit) state" where
  "t7xx_ccmni_close dev = do {
     upd_dev dev (\<lambda>d. d\<lparr>ccmni_usage := ccmni_usage d - 1\<rparr>);
     upd_ccmni (\<lambda>c. c\<lparr>napi_usr_refcnt := napi_usr_refcnt c - 1\<rparr>);
     new \<leftarrow> get_ccmni napi_usr_refcnt;
     c_when (new = 0) t7xx_ccmni_disable_napi;
     kcall ''netif_carrier_off'' [dev];
     kcall ''netif_tx_disable'' [dev];
     return (Inr ())
   }"

datatype netdev_tx_t = NETDEV_TX_OK | NETDEV_TX_BUSY

definition t7xx_ccmni_send_packet ::
  "'z ccmni_layer_ext state_notify \<Rightarrow> u64 \<Rightarrow> sk_buff \<Rightarrow> nat \<Rightarrow> ('z ccmni_layer_scheme, netdev_tx_t) state" where
  "t7xx_ccmni_send_packet cb dev skb txq_number = do {
     i \<leftarrow> get_ccmni (\<lambda>c. ccmni_index (ccmni_of c dev));
     ret \<leftarrow> t7xx_dpmaif_tx_send_skb cb txq_number (skb\<lparr>cb_netif_idx := i\<rparr>);
     return (if isl ret then NETDEV_TX_BUSY else NETDEV_TX_OK)
   }"

text \<open>\<open>headroom\<close> is \<open>skb_headroom(skb)\<close>; \<open>sizeof(struct ccci_header)\<close> is 16.\<close>

definition t7xx_ccmni_start_xmit ::
  "'z ccmni_layer_ext state_notify \<Rightarrow> sk_buff \<Rightarrow> u32 \<Rightarrow> u64 \<Rightarrow> ('z ccmni_layer_scheme, netdev_tx_t) state"
where
  "t7xx_ccmni_start_xmit cb skb headroom dev = do {
     mtu \<leftarrow> get_ccmni (\<lambda>c. ccmni_mtu (ccmni_of c dev));
     if skb_len skb > mtu \<or> headroom < 16 then do {
       dev_kfree_skb (skb_ptr skb);
       upd_stats dev (\<lambda>t. t\<lparr>tx_dropped := tx_dropped t + 1\<rparr>);
       return NETDEV_TX_OK
     } else do {
       ret \<leftarrow> t7xx_ccmni_send_packet cb dev skb DPMAIF_TX_DEFAULT_QUEUE;
       if ret = NETDEV_TX_BUSY then return NETDEV_TX_BUSY else do {
         upd_stats dev (\<lambda>t. t\<lparr>tx_packets := tx_packets t + 1,
                             tx_bytes := tx_bytes t + unat (skb_len skb)\<rparr>);
         return NETDEV_TX_OK
       }
     }
   }"

text \<open>
  The watchdog takes its interface from \<open>netdev_priv\<close> and not, as the other operations do, from
  \<open>wwan_netdev_drvpriv\<close>: it looks at the start of the private data of the WWAN core, whose layout
  is the kernel's. What it reads there as the usage count is the kernel's answer.
\<close>

definition t7xx_ccmni_tx_timeout :: "u64 \<Rightarrow> ('z ccmni_layer_scheme, unit) state" where
  "t7xx_ccmni_tx_timeout dev = do {
     upd_stats dev (\<lambda>t. t\<lparr>tx_errors := tx_errors t + 1\<rparr>);
     u \<leftarrow> kquery ''atomic_read netdev_priv usage'' [dev];
     c_when (sint (ucast u :: u32) > 0) (kcall ''netif_tx_wake_all_queues'' [dev])
   }"

section \<open>All interfaces together\<close>

text \<open>The loop of the next three functions: every registered device that is in use.\<close>

definition for_each_used :: "(u64 \<Rightarrow> ('z ccmni_layer_scheme, unit) state) \<Rightarrow> ('z ccmni_layer_scheme, unit) state"
where
  "for_each_used f = do {
     n \<leftarrow> get_ccmni nic_dev_num;
     for_each [0..<n] (\<lambda>i. do {
       c \<leftarrow> gets ccmni;
       case ccmni_inst c ! i of
         None \<Rightarrow> return ()
       | Some dev \<Rightarrow> c_when (ccmni_usage (ccmni_of c dev) > 0) (f dev)
     })
   }"

definition t7xx_ccmni_start :: "('z ccmni_layer_scheme, unit) state" where
  "t7xx_ccmni_start = do {
     for_each_used (\<lambda>dev. do {
       kcall ''netif_tx_start_all_queues'' [dev];
       kcall ''netif_carrier_on'' [dev]
     });
     n \<leftarrow> get_ccmni napi_usr_refcnt;
     c_when (n \<noteq> 0) t7xx_ccmni_enable_napi
   }"

definition t7xx_ccmni_pre_stop :: "('z ccmni_layer_scheme, unit) state" where
  "t7xx_ccmni_pre_stop = for_each_used (\<lambda>dev. kcall ''netif_tx_disable'' [dev])"

definition t7xx_ccmni_post_stop :: "('z ccmni_layer_scheme, unit) state" where
  "t7xx_ccmni_post_stop = do {
     n \<leftarrow> get_ccmni napi_usr_refcnt;
     c_when (n \<noteq> 0) t7xx_ccmni_disable_napi;
     for_each_used (\<lambda>dev. kcall ''netif_carrier_off'' [dev])
   }"

definition t7xx_init_netdev_napi :: "('z ccmni_layer_scheme, errno + unit) state" where
  "t7xx_init_netdev_napi = do {
     d \<leftarrow> kquery ''alloc_netdev_dummy'' [0];
     upd_ccmni (\<lambda>c. c\<lparr>dummy_dev := d\<rparr>);
     if d = 0 then return (Inl ENOMEM) else do {
       upd_ccmni (\<lambda>c. c\<lparr>napi_usr_refcnt := 0, is_napi_en := False\<rparr>);
       for_each [0..<DPMAIF_RXQ_NUM] (\<lambda>i.
         kcall ''netif_napi_add_weight'' [d, of_nat i, of_nat NIC_NAPI_POLL_BUDGET]);
       return (Inr ())
     }
   }"

definition t7xx_uninit_netdev_napi :: "('z ccmni_layer_scheme, unit) state" where
  "t7xx_uninit_netdev_napi = do {
     for_each [0..<DPMAIF_RXQ_NUM] (\<lambda>i. kcall ''netif_napi_del'' [of_nat i]);
     d \<leftarrow> get_ccmni dummy_dev;
     kcall ''free_netdev'' [d]
   }"

section \<open>Links\<close>

definition t7xx_ccmni_wwan_newlink :: "u64 \<Rightarrow> u32 \<Rightarrow> ('z ccmni_layer_scheme, errno + unit) state" where
  "t7xx_ccmni_wwan_newlink dev if_id =
     (if unat if_id \<ge> NIC_DEV_MAX then return (Inl EINVAL) else do {
        upd_dev dev (\<lambda>d. d\<lparr>ccmni_index := ucast if_id, ccmni_usage := 0\<rparr>);
        upd_ccmni (\<lambda>c. c\<lparr>ccmni_inst := (ccmni_inst c)[unat if_id := Some dev]\<rparr>);
        ret \<leftarrow> kerr ''register_netdevice'' [dev];
        if isl ret then return ret else do {
          kcall ''netif_device_attach'' [dev];
          return (Inr ())
        }
      })"

definition t7xx_ccmni_wwan_dellink :: "u64 \<Rightarrow> ('z ccmni_layer_scheme, unit) state" where
  "t7xx_ccmni_wwan_dellink dev = do {
     c \<leftarrow> gets ccmni;
     let if_id = unat (ccmni_index (ccmni_of c dev));
     if if_id \<ge> NIC_DEV_MAX then return ()
     else if ccmni_inst c ! if_id \<noteq> Some dev then return ()
     else kcall ''unregister_netdevice'' [dev]
   }"

definition t7xx_ccmni_register_wwan :: "('z ccmni_layer_scheme, errno + unit) state" where
  "t7xx_ccmni_register_wwan = do {
     r \<leftarrow> get_ccmni wwan_is_registered;
     if r then return (Inr ()) else do {
       ret \<leftarrow> kerr ''wwan_register_ops'' [0];
       if isl ret then return ret else do {
         upd_ccmni (\<lambda>c. c\<lparr>wwan_is_registered := True\<rparr>);
         return (Inr ())
       }
     }
   }"

section \<open>Callbacks of the data path\<close>

text \<open>
  A received packet: its address and length, and the session and type from its control
  block. The table is read at the session number without a check; reading past its end is
  the third result.
\<close>

datatype recv_result = RECV_DROPPED | RECV_DELIVERED | RECV_OUT_OF_BOUNDS

definition t7xx_ccmni_recv_skb ::
  "u64 \<Rightarrow> u32 \<Rightarrow> u8 \<Rightarrow> u8 \<Rightarrow> nat \<Rightarrow> ('z ccmni_layer_scheme, recv_result) state" where
  "t7xx_ccmni_recv_skb skb len netif_id pkt_type napi = do {
     insts \<leftarrow> get_ccmni ccmni_inst;
     if unat netif_id \<ge> length insts then return RECV_OUT_OF_BOUNDS
     else case insts ! unat netif_id of
       None \<Rightarrow> do { dev_kfree_skb skb; return RECV_DROPPED }
     | Some dev \<Rightarrow> do {
         kcall ''napi_gro_receive'' [of_nat napi, skb, dev, if pkt_type = PKT_TYPE_IP6 then 0x86DD else 0x0800];
         upd_stats dev (\<lambda>t. t\<lparr>rx_packets := rx_packets t + 1, rx_bytes := rx_bytes t + unat len\<rparr>);
         return RECV_DELIVERED
       }
   }"

definition t7xx_ccmni_queue_tx_irq_notify :: "u64 \<Rightarrow> nat \<Rightarrow> ('z ccmni_layer_scheme, unit) state" where
  "t7xx_ccmni_queue_tx_irq_notify dev qno = do {
     running \<leftarrow> kquery ''netif_running'' [dev];
     u \<leftarrow> get_ccmni (\<lambda>c. ccmni_usage (ccmni_of c dev));
     c_when (running \<noteq> 0 \<and> u > 0) (do {
       stopped \<leftarrow> kquery ''netif_tx_queue_stopped'' [dev, of_nat qno];
       c_when (stopped \<noteq> 0) (kcall ''netif_tx_wake_queue'' [dev, of_nat qno])
     })
   }"

definition t7xx_ccmni_queue_tx_full_notify :: "u64 \<Rightarrow> nat \<Rightarrow> ('z ccmni_layer_scheme, unit) state" where
  "t7xx_ccmni_queue_tx_full_notify dev qno = do {
     u \<leftarrow> get_ccmni (\<lambda>c. ccmni_usage (ccmni_of c dev));
     c_when (u > 0) (kcall ''netif_tx_stop_queue'' [dev, of_nat qno])
   }"

definition t7xx_ccmni_queue_state_notify :: "'z ccmni_layer_ext state_notify" where
  "t7xx_ccmni_queue_state_notify st qno = do {
     c \<leftarrow> gets ccmni;
     if md_sta c \<noteq> MD_STATE_READY then return ()
     else case ccmni_inst c ! 0 of
       None \<Rightarrow> return ()
     | Some dev \<Rightarrow> (case st of
         DMPAIF_TXQ_STATE_IRQ \<Rightarrow> t7xx_ccmni_queue_tx_irq_notify dev qno
       | DMPAIF_TXQ_STATE_FULL \<Rightarrow> t7xx_ccmni_queue_tx_full_notify dev qno)
   }"

section \<open>The transmit path with these callbacks\<close>

text \<open>The callback stops and wakes the kernel's queues; it gives nothing back to the kernel.\<close>

abbreviation no_release :: "ev \<Rightarrow> bool" where
  "no_release e \<equiv> (\<forall>args. e \<noteq> Call ''dma_unmap_single'' args \<and> e \<noteq> Call ''dev_kfree_skb'' args)"

lemma tx_irq_notify_only_asks: "only_asks no_release (t7xx_ccmni_queue_tx_irq_notify dev q)"
  unfolding t7xx_ccmni_queue_tx_irq_notify_def get_ccmni_def by (intro only_asks_intros) simp_all

lemma tx_full_notify_only_asks: "only_asks no_release (t7xx_ccmni_queue_tx_full_notify dev q)"
  unfolding t7xx_ccmni_queue_tx_full_notify_def get_ccmni_def by (intro only_asks_intros) simp_all

lemma queue_state_notify_only_asks: "only_asks no_release (t7xx_ccmni_queue_state_notify e q)"
  unfolding t7xx_ccmni_queue_state_notify_def
  by (intro only_asks_intros)
     (simp_all add: only_asks_return tx_irq_notify_only_asks tx_full_notify_only_asks
        split: option.split dpmaif_txq_state.split)

lemma calls_no_release:
  "list_all no_release es \<Longrightarrow> f = ''dma_unmap_single'' \<or> f = ''dev_kfree_skb'' \<Longrightarrow> calls f es = []"
  by (induction es) (auto split: ev.split)

interpretation tx: tx_callbacks t7xx_ccmni_queue_state_notify
proof (unfold_locales, goal_cases)
  case (1 e q s)
  show ?case by (rule only_asksE [OF queue_state_notify_only_asks [of e q], of s]) simp
next
  case (2 e q s)
  show ?case by (rule only_asksE [OF queue_state_notify_only_asks [of e q], of s]) simp
next
  case (3 e q)
  show ?case by (rule only_asks_recorded [OF queue_state_notify_only_asks])
next
  case (4 f e q s)
  obtain es where "after (t7xx_ccmni_queue_state_notify e q) s = s\<lparr>trace := trace s @ es\<rparr>"
      "list_all no_release es"
    by (rule only_asksE [OF queue_state_notify_only_asks])
  then show ?case
    using calls_no_release [OF _ 4] by simp
qed

lemma rets_unmapped: "rets f (map unmapped ks) = []"
  by (induction ks) (simp_all add: unmapped_def)

text \<open>C1: sending a packet whose descriptors fit in the ring. The buffers are mapped one after the
  other, and the mapping of each is what decides. When all are mapped to valid addresses, the
  descriptors in flight are those from before, then the message descriptor and one payload
  descriptor for each buffer with the address it was mapped to, in order; the budget goes down by
  their number. At the first buffer whose mapping reports an error, the packet is refused with
  \<open>ENOMEM\<close>, no further buffer is mapped, and the write index, the budget and the descriptors in
  flight are as they were before.\<close>

theorem tx_skb_to_ring:
  fixes s :: "'z ccmni_layer_scheme" and skb :: sk_buff
  assumes "ready_for skb s"
  defines "q \<equiv> cb_txq_number skb" and "bufs \<equiv> skb_payload skb"
    and "r \<equiv> result (t7xx_dpmaif_add_skb_to_ring t7xx_ccmni_queue_state_notify skb) s"
    and "s' \<equiv> after (t7xx_dpmaif_add_skb_to_ring t7xx_ccmni_queue_state_notify skb) s"
  shows "tx_inv (txq s' q) \<and>
    (\<exists>as rest. list_all (\<lambda>a. \<not> dma_mapping_error a) as \<and>
      (case r of
         Inr _ \<Rightarrow> length as = length bufs \<and>
           trace s' = trace s @ map mapped (zip bufs as) @ rest \<and>
           tx_budget (txq s' q) = tx_budget (txq s q) - int (slots_of skb) \<and>
           in_flight (txq s' q) (drb_wr_idx (txq s' q)) =
             in_flight (txq s q) (drb_wr_idx (txq s q))
               @ msg_slot skb (drb_base (txq s q) (drb_wr_idx (txq s q)))
               # payload_slots (skb_ptr skb) as bufs
       | Inl e \<Rightarrow> e = ENOMEM \<and> length as < length bufs \<and>
           (\<exists>bad. dma_mapping_error bad \<and> trace s' = trace s @ map mapped (zip bufs as)
             @ [mapped (bufs ! length as, bad)] @ rest) \<and>
           rets ''dma_map_single'' rest = [] \<and>
           tx_budget (txq s' q) = tx_budget (txq s q) \<and>
           drb_wr_idx (txq s' q) = drb_wr_idx (txq s q) \<and>
           in_flight (txq s' q) (drb_wr_idx (txq s' q)) =
             in_flight (txq s q) (drb_wr_idx (txq s q))))"
proof -
  have "tx_inv (txq s q)" "slots_of skb \<le> room (drb_size_cnt (txq s q))
      (drb_release_rd_idx (txq s q)) (drb_wr_idx (txq s q))"
    using assms(1) by (auto simp: ready_for_def Let_def q_def)
  note inv = tx.add_skb_inv(1) [where skb = skb and s = s, folded q_def, folded s'_def, OF this]
  note eff = tx.add_skb_done [OF assms(1), folded q_def s'_def r_def bufs_def]
  have valid: "list_all (\<lambda>a. \<not> dma_mapping_error a) as" if "- 1 \<notin> set as" for as
    using that by (auto simp: list_all_iff dma_mapping_error_def)
  have bad: "dma_mapping_error (- 1)"
    by (simp add: dma_mapping_error_def)
  show ?thesis
  proof (cases r)
    case (Inl e)
    then obtain as ks where as: "- 1 \<notin> set as" "e = ENOMEM" "length as < length bufs"
      "in_flight (txq s' q) (drb_wr_idx (txq s' q)) = in_flight (txq s q) (drb_wr_idx (txq s q))"
      "drb_wr_idx (txq s' q) = drb_wr_idx (txq s q)" "tx_budget (txq s' q) = tx_budget (txq s q)"
      "trace s' = trace s @ map mapped (zip bufs as) @ [mapped (bufs ! length as, - 1)] @ map unmapped ks"
      using eff by auto
    show ?thesis
      using inv as bad valid [OF as(1)] rets_unmapped [of _ ks] unfolding Inl sum.case
      by (intro conjI exI [of _ as] exI [of _ "map unmapped ks"] exI [of _ "- 1"])
  next
    case (Inr u)
    then obtain as x where as: "- 1 \<notin> set as" "length as = length bufs"
      "in_flight (txq s' q) (drb_wr_idx (txq s' q)) = in_flight (txq s q) (drb_wr_idx (txq s q))
        @ skb_slots skb (drb_base (txq s q) (drb_wr_idx (txq s q))) as"
      "tx_budget (txq s' q) = tx_budget (txq s q) - int (slots_of skb)"
      "trace s' = trace s @ map mapped (zip bufs as) @ x"
      using eff unfolding Inr bufs_def by auto
    show ?thesis
      using inv as(2-5) valid [OF as(1)] unfolding Inr sum.case skb_slots_def bufs_def
      by (intro conjI exI [of _ as] exI [of _ x])
  qed
qed

definition tx_example :: "sk_buff list \<Rightarrow> ccmni_layer" where
  "tx_example skbs = \<lparr>env = reg_file (\<lambda>_. 0)
       (\<lambda>f args. if f = ''dma_map_single'' then if hd args = 0xBAD then - 1 else hd args else 0),
     trace = [], pci = undefined, hw_info = undefined, dpmaif_st = DPMAIF_STATE_PWRON,
     txq = (\<lambda>_. \<lparr>txq_started = True, tx_budget = 8, drb_base_ptr = 1,
       drb_base = (\<lambda>_. \<lparr>drb_header = 0, drb_dw1 = 0, drb_dw2 = 0\<rparr>), drb_bus_addr = 0,
       drb_size_cnt = 8, drb_wr_idx = 6, drb_rd_idx = 6, drb_release_rd_idx = 6, drb_skb_ptr = 1,
       drb_skb_base = (\<lambda>_. \<lparr>ds_skb = 0, ds_bus_addr = 0, ds_data_len = 0, ds_index = 0,
         ds_is_msg = False, ds_is_frag = False, ds_is_last = False\<rparr>),
       txq_worker = 1, tx_processing = 0, tx_skb_head = skbs\<rparr>),
     tx_thread = 1,
     ccmni = \<lparr>ccmni_inst = replicate NIC_DEV_MAX None, ccmni_of = undefined, nic_dev_num = 2,
       md_sta = MD_STATE_READY, wwan_is_registered = True, dummy_dev = 1, napi_usr_refcnt = 0,
       is_napi_en = False\<rparr>\<rparr>"

definition skb_example :: "u64 \<Rightarrow> sk_buff" where
  "skb_example frag = \<lparr>skb_ptr = 0x5000, skb_len = 100, skb_headlen = 40, skb_data = 0x7000,
     skb_frags = [(frag, 60)], skb_has_frag_list = False, cb_netif_idx = 0, cb_txq_number = 0\<rparr>"

lemma tx_example_ready: "tx_inv (txq (tx_example skbs) q)" "ready_for (skb_example f) (tx_example skbs)"
  by (simp_all add: tx_example_def ready_for_def skb_example_def skb_payload_def tx_inv_def ring_size_def
      t7xx_ring_buf_rd_wr_count_def Let_def)

theorem tx_skb_to_ring_witness:
  "tx_inv (txq (after (t7xx_dpmaif_add_skb_to_ring t7xx_ccmni_queue_state_notify (skb_example 0x8000))
     (tx_example [])) 0)"
  using tx_skb_to_ring [OF tx_example_ready(2), of "0x8000" "[]"] by (simp add: skb_example_def)

text \<open>Sending succeeds exactly when a device that answers without memory maps every buffer.\<close>

lemma add_payload_isl:
  assumes "env s = reg_file init kern"
  shows "isl (result (add_payload q skb k c bs) s) \<longleftrightarrow>
    (\<exists>b \<in> set bs. dma_mapping_error (kern ''dma_map_single'' [fst b, ucast (fst (snd b))]))"
  using assms
proof (induction bs arbitrary: k c s)
  case Nil
  then show ?case by simp
next
  case (Cons b bs)
  obtain p l f where b: "b = (p, l, f)" by (cases b)
  have m: "result (dma_map_single p (ucast l)) s = kern ''dma_map_single'' [p, ucast l]"
    by (simp add: run_kquery Let_def Cons.prems reg_file_def)
  show ?case
    unfolding b add_payload_Cons Let_def split_beta m
    using Cons.IH [of "put_payload q skb _ _ l f (bs = []) (after (dma_map_single p (ucast l)) s)"] Cons.prems
    by auto
qed

lemma add_skb_result:
  fixes s :: "'z ccmni_layer_scheme" and skb :: sk_buff
  assumes "ready_for skb s" "env s = reg_file init kern"
  shows "result (t7xx_dpmaif_add_skb_to_ring t7xx_ccmni_queue_state_notify skb) s =
    (if \<exists>b \<in> set (skb_payload skb). dma_mapping_error (kern ''dma_map_single'' [fst b, ucast (fst (snd b))])
     then Inl ENOMEM else Inr ())"
  using add_payload_isl [of "s\<lparr>txq := (txq s)(cb_txq_number skb := start_skb skb (txq s (cb_txq_number skb)))\<rparr>"
      init kern "cb_txq_number skb" "skb_ptr skb" 0 "drb_wr_idx (txq s (cb_txq_number skb))" "skb_payload skb"] assms(2)
  unfolding tx.add_skb_run [OF assms(1)] Let_def split_beta
  by (auto split: sum.split simp: isl_def)

lemma tx_example_result:
  "result (t7xx_dpmaif_add_skb_to_ring t7xx_ccmni_queue_state_notify (skb_example f)) (tx_example skbs) =
    (if f = 0xBAD then Inl ENOMEM else if f = - 1 then Inl ENOMEM else Inr ())"
  using add_skb_result [OF tx_example_ready(2), of skbs _ _ f]
  by (simp add: tx_example_def skb_example_def skb_payload_def dma_mapping_error_def)

text \<open>C9: when a buffer of a packet cannot be mapped, the buffers mapped before it are to be
  unmapped. What is unmapped instead is the message slot, that is address 0 with length 0, and
  all buffers but the last of those that were mapped: the loop steps back before it looks at a
  slot, while the index is still that of the last slot written.\<close>

theorem tx_map_failure_leaks:
  fixes s :: "'z ccmni_layer_scheme" and skb :: sk_buff
  assumes "ready_for skb s"
    and "result (t7xx_dpmaif_add_skb_to_ring t7xx_ccmni_queue_state_notify skb) s = Inl ENOMEM"
  shows "\<exists>as b. length as < length (skb_payload skb) \<and>
    trace (after (t7xx_dpmaif_add_skb_to_ring t7xx_ccmni_queue_state_notify skb) s) = trace s
      @ map mapped (zip (skb_payload skb) as) @ [mapped (b, - 1)]
      @ (if as = [] then []
         else rev (map (\<lambda>((p, l, f), a). Call ''dma_unmap_single'' [a, ucast l])
                (butlast (zip (skb_payload skb) as)))
           @ [Call ''dma_unmap_single'' [0, 0]])"
proof -
  obtain as b where as: "length as < length (skb_payload skb)"
      "trace (after (t7xx_dpmaif_add_skb_to_ring t7xx_ccmni_queue_state_notify skb) s) = trace s
        @ map mapped (zip (skb_payload skb) as) @ [mapped (b, - 1)]
        @ map unmapped (rev (take (length as) (skb_slots skb
            (drb_base (txq s (cb_txq_number skb)) (drb_wr_idx (txq s (cb_txq_number skb)))) as)))"
    using tx.add_skb_done [OF assms(1)] assms(2) by fastforce
  show ?thesis
    by (rule exI [of _ as], rule exI [of _ b], rule conjI [OF as(1)])
       (simp only: as(2) unmapped_of_skb [OF less_imp_le [OF as(1)]])
qed

theorem tx_map_failure_leaks_witness:
  "\<exists>as b. trace (after (t7xx_dpmaif_add_skb_to_ring t7xx_ccmni_queue_state_notify (skb_example 0xBAD))
       (tx_example [])) =
     map mapped (zip (skb_payload (skb_example 0xBAD)) as) @ [mapped (b, - 1)]
       @ (if as = [] then []
         else rev (map (\<lambda>((p, l, f), a). Call ''dma_unmap_single'' [a, ucast l])
                (butlast (zip (skb_payload (skb_example 0xBAD)) as)))
           @ [Call ''dma_unmap_single'' [0, 0]])"
proof -
  have "result (t7xx_dpmaif_add_skb_to_ring t7xx_ccmni_queue_state_notify (skb_example 0xBAD))
      (tx_example []) = Inl ENOMEM"
    by (simp add: tx_example_result)
  note leak = tx_map_failure_leaks [OF tx_example_ready(2) this]
  have "trace (tx_example []) = []"
    by (simp add: tx_example_def)
  then show ?thesis
    using leak by (simp only: append_Nil) blast
qed

text \<open>C2: a packet that went to an empty ring and whose descriptors all come back: every buffer
  is unmapped with the address and length it was mapped with, once and in order, the packet is
  freed once, and the ring and its budget are as before.\<close>

theorem tx_packet_lifecycle:
  fixes s :: "'z ccmni_layer_scheme" and skb :: sk_buff
  assumes "ready_for skb s" and "skb_ptr skb \<noteq> 0"
  defines "q \<equiv> cb_txq_number skb"
  assumes "drb_wr_idx (txq s q) = drb_release_rd_idx (txq s q)"
    and "result (t7xx_dpmaif_add_skb_to_ring t7xx_ccmni_queue_state_notify skb) s = Inr ()"
  defines "s1 \<equiv> after (t7xx_dpmaif_add_skb_to_ring t7xx_ccmni_queue_state_notify skb) s"
  defines "s2 \<equiv> after (t7xx_dpmaif_release_tx_buffer t7xx_ccmni_queue_state_notify q (of_nat (slots_of skb))) s1"
  shows "\<exists>as rest. length as = length (skb_payload skb) \<and>
    trace s1 = trace s @ map mapped (zip (skb_payload skb) as) @ rest \<and>
    calls ''dma_unmap_single'' (trace s2) = calls ''dma_unmap_single'' (trace s1)
      @ map (\<lambda>((p, l, f), a). [a, ucast l]) (zip (skb_payload skb) as) \<and>
    calls ''dev_kfree_skb'' (trace s2) = calls ''dev_kfree_skb'' (trace s1) @ [[skb_ptr skb]] \<and>
    in_flight (txq s2 q) (drb_wr_idx (txq s2 q)) = [] \<and>
    tx_budget (txq s2 q) = tx_budget (txq s q)"
proof -
  let ?t = "txq s q" and ?u = "txq s1 q"
  have inv: "tx_inv ?t" and len: "slots_of skb \<le> room (drb_size_cnt ?t) (drb_release_rd_idx ?t) (drb_wr_idx ?t)"
    using assms(1) by (auto simp: ready_for_def Let_def q_def)
  note i = tx_invD [OF inv]
  have empty: "in_flight ?t (drb_wr_idx ?t) = []"
    using rb.contents_empty [OF i(1,2)] assms(4) by (simp add: in_flight_def)
  obtain as rest where as: "length as = length (skb_payload skb)"
      "in_flight ?u (drb_wr_idx ?u) = skb_slots skb (drb_base ?t (drb_wr_idx ?t)) as"
      "tx_budget ?u = tx_budget ?t - int (slots_of skb)"
      "trace s1 = trace s @ map mapped (zip (skb_payload skb) as) @ rest"
    using tx.add_skb_done [OF assms(1)] assms(5) empty unfolding s1_def q_def by auto
  have u: "tx_inv ?u"
    using tx.add_skb_inv(1) [where skb = skb and s = s] inv len unfolding s1_def q_def by simp
  have small: "unat (of_nat (slots_of skb) :: u32) = slots_of skb"
    using room_lt [OF i(1-3)] len i(1) by (intro unat_of_nat_u32) (simp add: ring_size_def)
  have n: "length (in_flight ?u (drb_wr_idx ?u)) = slots_of skb"
    using as(1,2) length_skb_slots by simp
  then have used: "slots_of skb = used (drb_size_cnt ?u) (drb_release_rd_idx ?u) (drb_wr_idx ?u)"
    by simp
  have ok: "list_all releasable (take (unat (of_nat (slots_of skb) :: u32)) (in_flight ?u (drb_wr_idx ?u)))"
    using as n releases_of_skb(3) [OF as(1) assms(2)] unfolding small by simp
  note rel = tx.release_tx_buffer_done [OF u _ ok, folded s2_def, unfolded small, OF eq_refl [OF used]]
  have all: "take (slots_of skb) (in_flight ?u (drb_wr_idx ?u)) = skb_slots skb (drb_base ?t (drb_wr_idx ?t)) as"
    using n as(2) by simp
  show ?thesis
    using as rel n unfolding all releases_of_skb(1,2) [OF as(1)]
    by (intro exI [of _ as] exI [of _ rest]) simp
qed

theorem tx_packet_lifecycle_witness:
  "let s1 = after (t7xx_dpmaif_add_skb_to_ring t7xx_ccmni_queue_state_notify (skb_example 0x8000)) (tx_example []);
       s2 = after (t7xx_dpmaif_release_tx_buffer t7xx_ccmni_queue_state_notify 0 3) s1
   in calls ''dev_kfree_skb'' (trace s2) = calls ''dev_kfree_skb'' (trace s1) @ [[0x5000]] \<and>
      tx_budget (txq s2 0) = 8"
proof -
  have r: "result (t7xx_dpmaif_add_skb_to_ring t7xx_ccmni_queue_state_notify (skb_example 0x8000))
      (tx_example []) = Inr ()"
    by (simp add: tx_example_result)
  have e: "skb_ptr (skb_example 0x8000) \<noteq> 0" "cb_txq_number (skb_example 0x8000) = 0"
      "drb_wr_idx (txq (tx_example []) 0) = drb_release_rd_idx (txq (tx_example []) 0)"
      "skb_ptr (skb_example 0x8000) = 0x5000" "tx_budget (txq (tx_example []) 0) = 8"
      "of_nat (slots_of (skb_example 0x8000)) = (3 :: u32)"
    by (simp_all add: skb_example_def tx_example_def skb_payload_def)
  show ?thesis
    using tx_packet_lifecycle [OF tx_example_ready(2) e(1) _ r, unfolded e(2,6), OF e(3)] e(4,5)
    by (auto simp: Let_def)
qed

text \<open>C3: a burst of the push thread. It sends packets from the head of the queue's list, in
  order and at most five; each sent packet leaves the list; the write index and the budget move by
  the number of descriptors it reports, and what was in flight before stays in flight, in front.
  So the queue is consistent after every burst, whatever the mappings and the device do.\<close>

theorem tx_burst:
  fixes s :: "'z ccmni_layer_scheme"
  assumes "tx_inv (txq s q)" and "small_skbs q (tx_skb_head (txq s q))"
  defines "s' \<equiv> after (t7xx_txq_burst_send_skb t7xx_ccmni_queue_state_notify q) s"
    and "r \<equiv> result (t7xx_txq_burst_send_skb t7xx_ccmni_queue_state_notify q) s"
  shows "tx_inv (txq s' q) \<and>
    (\<exists>j \<le> 5. burst_sent (txq s q) (txq s' q) j \<and>
      (case r of
         Inr n \<Rightarrow> n = int (sum_list (map slots_of (take j (tx_skb_head (txq s q)))))
       | Inl e \<Rightarrow> j = 0 \<or> tx_skb_head (txq s q) = []))"
proof -
  let ?av = "t7xx_ring_buf_rd_wr_count (drb_size_cnt (txq s q)) (drb_release_rd_idx (txq s q))
      (drb_wr_idx (txq s q)) DPMAIF_WRITE"
  let ?m = "burst_loop t7xx_ccmni_queue_state_notify q DPMAIF_SKB_TX_BURST_CNT ?av 0 (Inr ())"
  obtain j where j: "tx_inv (txq (after ?m s) q)" "j \<le> 5" "burst_sent (txq s q) (txq (after ?m s) q) j"
      "fst (result ?m s) = int (sum_list (map slots_of (take j (tx_skb_head (txq s q)))))"
    using tx.burst_loop_done [OF assms(1,2) order_refl, of 5 0 "Inr ()"] by auto
  have s': "s' = after ?m s"
    by (simp add: s'_def t7xx_txq_burst_send_skb_def run_simps split_beta t7xx_txq_drb_wr_available_def)
  have r: "r = (if fst (result ?m s) > 0 then Inr (fst (result ?m s))
      else case snd (result ?m s) of Inl e \<Rightarrow> Inl e | Inr _ \<Rightarrow> Inr 0)"
    by (simp add: r_def t7xx_txq_burst_send_skb_def run_simps split_beta t7xx_txq_drb_wr_available_def)
  have z: "j = 0 \<or> tx_skb_head (txq s q) = []" if "sum_list (map slots_of (take j (tx_skb_head (txq s q)))) = 0"
    using that by (cases j; cases "tx_skb_head (txq s q)") auto
  show ?thesis
    unfolding s' r using j z by (auto split: sum.split intro!: exI [of _ j])
qed

theorem tx_burst_witness:
  "tx_inv (txq (after (t7xx_txq_burst_send_skb t7xx_ccmni_queue_state_notify 0)
     (tx_example [skb_example 0x8000, skb_example 0xBAD])) 0)"
  using tx_burst [OF tx_example_ready(1), of 0 "[skb_example 0x8000, skb_example 0xBAD]"]
  by (simp add: tx_example_def skb_example_def small_skbs_def)

end
