(* ===== verification/Fsm_Queue.thy ===== *)
theory Fsm_Queue
  imports Ccmni
begin

text \<open>
  The data structures of the state monitor, \<open>t7xx_state_monitor.c\<close>: its queue of commands, its
  queue of events and its list of notifiers. The state machine itself is in
  \<open>Fsm_Machine\<close>.

  A command is shared between the queue, the thread of the state machine and a caller that
  waits for it, and is freed when its last reference goes; so commands live in a store,
  \<open>fsm_cmds\<close>, under their addresses. \<open>fsm_use_after_free\<close> is set by an access to a command that
  is not in the store. Events have one owner and are values.
\<close>

section \<open>Commands, events and the control block\<close>

datatype t7xx_fsm_state =
    FSM_STATE_INIT | FSM_STATE_PRE_START | FSM_STATE_STARTING | FSM_STATE_READY
  | FSM_STATE_EXCEPTION | FSM_STATE_STOPPING | FSM_STATE_STOPPED

datatype t7xx_fsm_event_state =
    FSM_EVENT_INVALID | FSM_EVENT_MD_HS2 | FSM_EVENT_AP_HS2 | FSM_EVENT_MD_EX
  | FSM_EVENT_MD_EX_REC_OK | FSM_EVENT_MD_EX_PASS | FSM_EVENT_MD_HS2_EXIT
  | FSM_EVENT_AP_HS2_EXIT | FSM_EVENT_MAX

datatype t7xx_fsm_cmd_state =
    FSM_CMD_INVALID | FSM_CMD_START | FSM_CMD_EXCEPTION | FSM_CMD_PRE_STOP | FSM_CMD_STOP

datatype t7xx_ex_reason = EXCEPTION_HS_TIMEOUT | EXCEPTION_EVENT

datatype t7xx_md_irq_type = MD_IRQ_WDT | MD_IRQ_CCIF_EX | MD_IRQ_PORT_ENUM

definition FSM_CMD_FLAG_WAIT_FOR_COMPLETION :: u32 where "FSM_CMD_FLAG_WAIT_FOR_COMPLETION = BIT 0"
definition FSM_CMD_FLAG_IN_INTERRUPT :: u32 where "FSM_CMD_FLAG_IN_INTERRUPT = BIT 2"
abbreviation (input) FSM_CMD_EX_REASON :: field where "FSM_CMD_EX_REASON \<equiv> (23, 16)"
abbreviation (input) FSM_EVENT_POLL_INTERVAL_MS :: nat where "FSM_EVENT_POLL_INTERVAL_MS \<equiv> 20"
abbreviation (input) FSM_CMD_TIMEOUT_MS :: nat where "FSM_CMD_TIMEOUT_MS \<equiv> 2000"

text \<open>\<open>T7XX_DEV_STAGE_INIT\<close> of \<open>t7xx_reg.h\<close>.\<close>

abbreviation (input) T7XX_DEV_STAGE_INIT :: u32 where "T7XX_DEV_STAGE_INIT \<equiv> 0"

record t7xx_fsm_event =
  ev_ptr :: u64
  event_id :: t7xx_fsm_event_state
  ev_data :: "u8 list"

record t7xx_fsm_command =
  cmd_id :: t7xx_fsm_cmd_state
  cmd_flag :: u32
  cmd_done :: bool
  cmd_result :: "errno + unit"
  cmd_refcnt :: nat

record t7xx_fsm_ctl =
  fsm_md_state :: md_state
  curr_state :: t7xx_fsm_state
  command_queue :: "u64 list"
  event_queue :: "t7xx_fsm_event list"
  exp_flg :: bool
  notifier_list :: "u64 list"
  fsm_status :: u32
  fsm_thread :: u64

record fsm_layer = ccmni_layer +
  fsm_ctl_set :: bool \<comment> \<open>\<open>md->fsm_ctl\<close> is not null\<close>
  fsm :: t7xx_fsm_ctl
  fsm_cmds :: "u64 \<Rightarrow> t7xx_fsm_command option"
  fsm_use_after_free :: bool

definition get_fsm :: "(t7xx_fsm_ctl \<Rightarrow> 'a) \<Rightarrow> ('z fsm_layer_scheme, 'a) state" where
  "get_fsm f = gets (\<lambda>s. f (fsm s))"

definition upd_fsm :: "(t7xx_fsm_ctl \<Rightarrow> t7xx_fsm_ctl) \<Rightarrow> ('z fsm_layer_scheme, unit) state" where
  "upd_fsm f = modify (\<lambda>s. s\<lparr>fsm := f (fsm s)\<rparr>)"

definition upd_cmd ::
  "u64 \<Rightarrow> (t7xx_fsm_command \<Rightarrow> t7xx_fsm_command) \<Rightarrow> ('z fsm_layer_scheme, unit) state" where
  "upd_cmd c f = modify (\<lambda>s. case fsm_cmds s c of
     None \<Rightarrow> s\<lparr>fsm_use_after_free := True\<rparr>
   | Some x \<Rightarrow> s\<lparr>fsm_cmds := (fsm_cmds s)(c := Some (f x))\<rparr>)"

definition waits :: "u32 \<Rightarrow> bool" where
  "waits flag \<longleftrightarrow> flag AND FSM_CMD_FLAG_WAIT_FOR_COMPLETION \<noteq> 0"

section \<open>Notifiers\<close>

definition t7xx_fsm_notifier_register :: "u64 \<Rightarrow> ('z fsm_layer_scheme, unit) state" where
  "t7xx_fsm_notifier_register n = upd_fsm (\<lambda>c. c\<lparr>notifier_list := notifier_list c @ [n]\<rparr>)"

definition t7xx_fsm_notifier_unregister :: "u64 \<Rightarrow> ('z fsm_layer_scheme, unit) state" where
  "t7xx_fsm_notifier_unregister n =
     upd_fsm (\<lambda>c. c\<lparr>notifier_list := filter (\<lambda>m. m \<noteq> n) (notifier_list c)\<rparr>)"

text \<open>\<open>notifier_fn n\<close> is the function of the notifier at address \<open>n\<close>, with its data.\<close>

definition fsm_state_notify ::
  "(u64 \<Rightarrow> md_state \<Rightarrow> ('z fsm_layer_scheme, unit) state) \<Rightarrow> md_state \<Rightarrow> ('z fsm_layer_scheme, unit) state"
where
  "fsm_state_notify notifier_fn st = do {
     ns \<leftarrow> get_fsm notifier_list;
     for_each ns (\<lambda>n. notifier_fn n st)
   }"

section \<open>Commands\<close>

definition fsm_release_command :: "u64 \<Rightarrow> ('z fsm_layer_scheme, unit) state" where
  "fsm_release_command c = do {
     modify (\<lambda>s. s\<lparr>fsm_cmds := (fsm_cmds s)(c := None)\<rparr>);
     kcall ''kfree'' [c]
   }"

definition kref_put :: "u64 \<Rightarrow> ('z fsm_layer_scheme, unit) state" where
  "kref_put c = do {
     upd_cmd c (\<lambda>x. x\<lparr>cmd_refcnt := cmd_refcnt x - 1\<rparr>);
     x \<leftarrow> gets (\<lambda>s. fsm_cmds s c);
     c_when (\<exists>y. x = Some y \<and> cmd_refcnt y = 0) (fsm_release_command c)
   }"

definition fsm_finish_command :: "u64 \<Rightarrow> errno + unit \<Rightarrow> ('z fsm_layer_scheme, unit) state" where
  "fsm_finish_command c res = do {
     x \<leftarrow> gets (\<lambda>s. fsm_cmds s c);
     c_when (\<exists>y. x = Some y \<and> waits (cmd_flag y)) (do {
       upd_cmd c (\<lambda>x. x\<lparr>cmd_result := res, cmd_done := True\<rparr>);
       kcall ''complete_all cmd->done'' [c]
     });
     kref_put c
   }"

text \<open>
  \<open>t7xx_fsm_append_cmd\<close> up to where it may wait, and the wait. While it waits other threads
  run, so that the two parts are also steps of their own.
\<close>

definition fsm_post_cmd :: "t7xx_fsm_cmd_state \<Rightarrow> u32 \<Rightarrow> ('z fsm_layer_scheme, u64 option) state" where
  "fsm_post_cmd cid flag = do {
     c \<leftarrow> kquery ''kzalloc'' [];
     if c = 0 then return None else do {
       modify (\<lambda>s. s\<lparr>fsm_cmds := (fsm_cmds s)(c \<mapsto> \<lparr>cmd_id = cid, cmd_flag = flag, cmd_done = False,
         cmd_result = Inr (), cmd_refcnt = 1\<rparr>)\<rparr>);
       c_when (waits flag) (upd_cmd c (\<lambda>x. x\<lparr>cmd_refcnt := cmd_refcnt x + 1\<rparr>));
       upd_cmd c (\<lambda>x. x\<lparr>cmd_refcnt := cmd_refcnt x + 1\<rparr>);
       upd_fsm (\<lambda>f. f\<lparr>command_queue := command_queue f @ [c]\<rparr>);
       kcall ''wake_up command_wq'' [];
       return (Some c)
     }
   }"

definition fsm_await_cmd :: "u64 \<Rightarrow> ('z fsm_layer_scheme, errno + unit) state" where
  "fsm_await_cmd c = do {
     wait_ret \<leftarrow> kquery ''wait_for_completion_timeout cmd->done'' [c, of_nat FSM_CMD_TIMEOUT_MS];
     x \<leftarrow> gets (\<lambda>s. fsm_cmds s c);
     let ret = (if wait_ret \<noteq> 0 then case x of Some y \<Rightarrow> cmd_result y | None \<Rightarrow> Inr () else Inl ETIMEDOUT);
     kref_put c;
     return ret
   }"

definition t7xx_fsm_append_cmd ::
  "t7xx_fsm_cmd_state \<Rightarrow> u32 \<Rightarrow> ('z fsm_layer_scheme, errno + unit) state" where
  "t7xx_fsm_append_cmd cid flag = do {
     c \<leftarrow> fsm_post_cmd cid flag;
     case c of
       None \<Rightarrow> return (Inl ENOMEM)
     | Some c \<Rightarrow> if waits flag then fsm_await_cmd c else return (Inr ())
   }"

text \<open>The thread of the state machine takes the first command.\<close>

definition fsm_take_cmd :: "('z fsm_layer_scheme, u64) state" where
  "fsm_take_cmd = do {
     cs \<leftarrow> get_fsm command_queue;
     upd_fsm (\<lambda>f. f\<lparr>command_queue := tl cs\<rparr>);
     return (hd cs)
   }"

section \<open>Events\<close>

text \<open>\<open>length\<close> is the length of \<open>data\<close>; \<open>sizeof(struct t7xx_fsm_event)\<close> is 24.\<close>

definition t7xx_fsm_append_event ::
  "t7xx_fsm_event_state \<Rightarrow> u8 list \<Rightarrow> ('z fsm_layer_scheme, errno + unit) state" where
  "t7xx_fsm_append_event eid data =
     (if eid = FSM_EVENT_INVALID \<or> eid = FSM_EVENT_MAX then return (Inl EINVAL) else do {
        p \<leftarrow> kquery ''kmalloc'' [24 + of_nat (length data)];
        if p = 0 then return (Inl ENOMEM) else do {
          upd_fsm (\<lambda>f. f\<lparr>event_queue := event_queue f @ [\<lparr>ev_ptr = p, event_id = eid, ev_data = data\<rparr>]\<rparr>);
          kcall ''wake_up_all event_wq'' [];
          return (Inr ())
        }
      })"

definition kfree_event :: "t7xx_fsm_event \<Rightarrow> ('z fsm_layer_scheme, unit) state" where
  "kfree_event e = kcall ''kfree'' [ev_ptr e]"

text \<open>Taking the first event off the queue.\<close>

definition fsm_del_kf_event :: "('z fsm_layer_scheme, unit) state" where
  "fsm_del_kf_event = do {
     es \<leftarrow> get_fsm event_queue;
     upd_fsm (\<lambda>f. f\<lparr>event_queue := tl es\<rparr>);
     kfree_event (hd es)
   }"

definition t7xx_fsm_clr_event :: "t7xx_fsm_event_state \<Rightarrow> ('z fsm_layer_scheme, unit) state" where
  "t7xx_fsm_clr_event eid = do {
     es \<leftarrow> get_fsm event_queue;
     upd_fsm (\<lambda>f. f\<lparr>event_queue := filter (\<lambda>e. event_id e \<noteq> eid) es\<rparr>);
     for_each (filter (\<lambda>e. event_id e = eid) es) kfree_event
   }"

text \<open>\<open>others\<close> is what other threads do while this one sleeps.\<close>

primrec fsm_wait_for_event ::
  "('z fsm_layer_scheme, unit) state \<Rightarrow> t7xx_fsm_event_state \<Rightarrow> t7xx_fsm_event_state \<Rightarrow> nat \<Rightarrow>
   ('z fsm_layer_scheme, unit) state" where
  "fsm_wait_for_event others expected ignore 0 = return ()"
| "fsm_wait_for_event others expected ignore (Suc retries) = do {
     stop \<leftarrow> kquery ''kthread_should_stop'' [];
     if stop \<noteq> 0 then return () else do {
       es \<leftarrow> get_fsm event_queue;
       let received = (case es of [] \<Rightarrow> False | e # _ \<Rightarrow> event_id e = expected);
       let take = (case es of [] \<Rightarrow> False | e # _ \<Rightarrow> event_id e = expected \<or> event_id e = ignore);
       c_when take fsm_del_kf_event;
       c_when (\<not> take) (do { kcall ''msleep'' [of_nat FSM_EVENT_POLL_INTERVAL_MS]; others });
       if received then return () else fsm_wait_for_event others expected ignore retries
     }
   }"

section \<open>Both queues\<close>

definition fsm_flush_event_cmd_qs :: "('z fsm_layer_scheme, unit) state" where
  "fsm_flush_event_cmd_qs = do {
     cs \<leftarrow> get_fsm command_queue;
     for_each cs (\<lambda>c. do {
       upd_fsm (\<lambda>f. f\<lparr>command_queue := remove1 c (command_queue f)\<rparr>);
       fsm_finish_command c (Inl EINVAL)
     });
     es \<leftarrow> get_fsm event_queue;
     for_each es (\<lambda>_. fsm_del_kf_event)
   }"

definition t7xx_fsm_get_md_state :: "('z fsm_layer_scheme, md_state) state" where
  "t7xx_fsm_get_md_state = gets (\<lambda>s. if fsm_ctl_set s then fsm_md_state (fsm s) else MD_STATE_INVALID)"

definition t7xx_fsm_get_ctl_state :: "('z fsm_layer_scheme, t7xx_fsm_state) state" where
  "t7xx_fsm_get_ctl_state = gets (\<lambda>s. if fsm_ctl_set s then curr_state (fsm s) else FSM_STATE_STOPPED)"

definition t7xx_fsm_recv_md_intr :: "t7xx_md_irq_type \<Rightarrow> ('z fsm_layer_scheme, errno + unit) state" where
  "t7xx_fsm_recv_md_intr type =
     (if type = MD_IRQ_PORT_ENUM then t7xx_fsm_append_cmd FSM_CMD_START FSM_CMD_FLAG_IN_INTERRUPT
      else if type = MD_IRQ_CCIF_EX then do {
        upd_fsm (\<lambda>f. f\<lparr>exp_flg := True\<rparr>);
        kcall ''wake_up async_hk_wq'' [];
        t7xx_fsm_append_cmd FSM_CMD_EXCEPTION
          (FSM_CMD_FLAG_IN_INTERRUPT OR FIELD_PREP FSM_CMD_EX_REASON 1)
      } else return (Inl EINVAL))"

definition t7xx_fsm_reset :: "('z fsm_layer_scheme, unit) state" where
  "t7xx_fsm_reset = do {
     fsm_flush_event_cmd_qs;
     upd_fsm (\<lambda>f. f\<lparr>curr_state := FSM_STATE_STOPPED, exp_flg := False, fsm_status := T7XX_DEV_STAGE_INIT\<rparr>)
   }"

text \<open>The control block is zeroed memory; \<open>md_state\<close> 0 is \<open>MD_STATE_INVALID\<close>.\<close>

definition t7xx_fsm_init :: "('z fsm_layer_scheme, errno + unit) state" where
  "t7xx_fsm_init = do {
     p \<leftarrow> kquery ''devm_kzalloc'' [];
     if p = 0 then return (Inl ENOMEM) else do {
       modify (\<lambda>s. s\<lparr>fsm_ctl_set := True\<rparr>);
       upd_fsm (\<lambda>_. \<lparr>fsm_md_state = MD_STATE_INVALID, curr_state = FSM_STATE_INIT, command_queue = [],
         event_queue = [], exp_flg = False, notifier_list = [], fsm_status = 0, fsm_thread = 0\<rparr>);
       ret \<leftarrow> kerr ''kthread_run t7xx_fsm'' [];
       upd_fsm (\<lambda>f. f\<lparr>fsm_thread := (if isl ret then - 1 else 1)\<rparr>);
       return ret
     }
   }"

definition t7xx_fsm_uninit :: "('z fsm_layer_scheme, unit) state" where
  "t7xx_fsm_uninit = do {
     set \<leftarrow> gets fsm_ctl_set;
     c_when set (do {
       t \<leftarrow> get_fsm fsm_thread;
       c_when (t \<noteq> 0) (kcall ''kthread_stop t7xx_fsm'' []);
       fsm_flush_event_cmd_qs
     })
   }"

end
