(* ===== verification/Fsm_Refs.thy ===== *)
theory Fsm_Refs
  imports Fsm_Queue
begin

text \<open>
  Who holds a command, and for how long. The steps of the callers of \<open>t7xx_fsm_append_cmd\<close> and
  of the thread of the state machine interleave; an inductive relation over the model's
  functions gives the reachable states, and an invariant by rule induction counts the
  references of every command.
\<close>

section \<open>Executing the queue's functions\<close>

lemma run_get_fsm [run_simps]: "run (get_fsm f) s = (f (fsm s), s)"
  by (simp add: get_fsm_def run_simps)

lemma run_upd_fsm [run_simps]: "run (upd_fsm f) s = ((), s\<lparr>fsm := f (fsm s)\<rparr>)"
  by (simp add: upd_fsm_def run_simps)

lemma run_upd_cmd [run_simps]:
  "fsm_cmds s c = Some x \<Longrightarrow> run (upd_cmd c f) s = ((), s\<lparr>fsm_cmds := (fsm_cmds s)(c \<mapsto> f x)\<rparr>)"
  by (simp add: upd_cmd_def run_simps)

lemma emit_fsm [simp]:
  "fsm (emit e s) = fsm s" "fsm_cmds (emit e s) = fsm_cmds s"
  "fsm_use_after_free (emit e s) = fsm_use_after_free s"
  by (simp_all add: emit_def)

text \<open>Giving up a reference that is not the last one.\<close>

lemma kref_put_shared:
  assumes "fsm_cmds s c = Some x" "1 < cmd_refcnt x"
  shows "after (kref_put c) s = s\<lparr>fsm_cmds := (fsm_cmds s)(c \<mapsto> x\<lparr>cmd_refcnt := cmd_refcnt x - 1\<rparr>)\<rparr>"
  using assms by (simp add: kref_put_def run_simps)

lemma finish_shared:
  assumes "fsm_cmds s c = Some x" "1 < cmd_refcnt x"
  shows "\<exists>es y. after (fsm_finish_command c res) s =
      s\<lparr>trace := es, fsm_cmds := (fsm_cmds s)(c \<mapsto> y)\<rparr> \<and>
      cmd_refcnt y = cmd_refcnt x - 1 \<and> cmd_flag y = cmd_flag x \<and>
      (waits (cmd_flag x) \<longrightarrow> cmd_done y \<and> cmd_result y = res)"
proof (cases "waits (cmd_flag x)")
  case True
  define t where "t = emit (Call ''complete_all cmd->done'' [c])
      (s\<lparr>fsm_cmds := (fsm_cmds s)(c \<mapsto> x\<lparr>cmd_result := res, cmd_done := True\<rparr>)\<rparr>)"
  have "after (fsm_finish_command c res) s = after (kref_put c) t"
    using assms True by (simp add: fsm_finish_command_def run_simps t_def)
  moreover have "fsm_cmds t c = Some (x\<lparr>cmd_result := res, cmd_done := True\<rparr>)"
    by (simp add: t_def)
  ultimately show ?thesis
    using kref_put_shared [of t c "x\<lparr>cmd_result := res, cmd_done := True\<rparr>"] assms(2)
    by (intro exI [of _ "trace t"]
        exI [of _ "x\<lparr>cmd_result := res, cmd_done := True, cmd_refcnt := cmd_refcnt x - 1\<rparr>"])
       (simp add: t_def emit_def)
next
  case False
  then show ?thesis
    using assms kref_put_shared [OF assms]
    by (intro exI [of _ "trace s"] exI [of _ "x\<lparr>cmd_refcnt := cmd_refcnt x - 1\<rparr>"])
       (simp add: fsm_finish_command_def run_simps)
qed

section \<open>The interleavings\<close>

text \<open>
  A configuration: the state, the commands that callers wait for, and the command the thread of
  the state machine works on. A new command is memory the kernel did not hand out before.
\<close>

type_synonym 'z fsm_config = "'z fsm_layer_scheme \<times> u64 list \<times> u64 option"

inductive fsm_step :: "'z fsm_config \<Rightarrow> 'z fsm_config \<Rightarrow> bool" where
  post: "run (fsm_post_cmd cid flag) s = (Some c, s') \<Longrightarrow> fsm_cmds s c = None \<Longrightarrow>
    fsm_step (s, ws, r) (s', if waits flag then c # ws else ws, r)"
| post_failed: "run (fsm_post_cmd cid flag) s = (None, s') \<Longrightarrow> fsm_step (s, ws, r) (s', ws, r)"
| await: "c \<in> set ws \<Longrightarrow> fsm_step (s, ws, r) (after (fsm_await_cmd c) s, remove1 c ws, r)"
| take: "command_queue (fsm s) \<noteq> [] \<Longrightarrow> run fsm_take_cmd s = (c, s') \<Longrightarrow>
    fsm_step (s, ws, None) (s', ws, Some c)"
| finish: "fsm_step (s, ws, Some c) (after (fsm_finish_command c res) s, ws, None)"
| flush: "fsm_step (s, ws, r) (after fsm_flush_event_cmd_qs s, ws, r)"

inductive_cases fsm_stepE [elim]: "fsm_step a b"

inductive fsm_reachable :: "'z fsm_config \<Rightarrow> bool" where
  init: "command_queue (fsm s) = [] \<Longrightarrow> fsm_cmds s = Map.empty \<Longrightarrow> \<not> fsm_use_after_free s \<Longrightarrow>
    fsm_reachable (s, [], None)"
| step: "fsm_reachable a \<Longrightarrow> fsm_step a b \<Longrightarrow> fsm_reachable b"

section \<open>Counting references\<close>

definition refs :: "u64 list \<Rightarrow> u64 list \<Rightarrow> u64 option \<Rightarrow> u64 \<Rightarrow> nat" where
  "refs cs ws r c = 1 + (if c \<in> set cs \<or> r = Some c then 1 else 0) + (if c \<in> set ws then 1 else 0)"

definition fsm_inv :: "'z fsm_config \<Rightarrow> bool" where
  "fsm_inv = (\<lambda>(s, ws, r). let cs = command_queue (fsm s) in
     \<not> fsm_use_after_free s \<and> distinct cs \<and> distinct ws \<and> (\<forall>c. r = Some c \<longrightarrow> c \<notin> set cs) \<and>
     (\<forall>c \<in> set cs \<union> set ws \<union> set_option r. fsm_cmds s c \<noteq> None) \<and>
     (\<forall>c x. fsm_cmds s c = Some x \<longrightarrow> cmd_refcnt x = refs cs ws r c))"

lemma fsm_invI:
  assumes "\<not> fsm_use_after_free s" "distinct (command_queue (fsm s))" "distinct ws"
    and "\<And>c. r = Some c \<Longrightarrow> c \<notin> set (command_queue (fsm s))"
    and "\<And>c. c \<in> set (command_queue (fsm s)) \<or> c \<in> set ws \<or> r = Some c \<Longrightarrow> \<exists>x. fsm_cmds s c = Some x"
    and "\<And>c x. fsm_cmds s c = Some x \<Longrightarrow> cmd_refcnt x = refs (command_queue (fsm s)) ws r c"
  shows "fsm_inv (s, ws, r)"
  using assms by (force simp: fsm_inv_def Let_def)

lemma fsm_invD:
  assumes "fsm_inv (s, ws, r)"
  shows "\<not> fsm_use_after_free s" "distinct (command_queue (fsm s))" "distinct ws"
    and "r = Some c \<Longrightarrow> c \<notin> set (command_queue (fsm s))"
    and "c \<in> set (command_queue (fsm s)) \<or> c \<in> set ws \<or> r = Some c \<Longrightarrow> \<exists>x. fsm_cmds s c = Some x"
    and "fsm_cmds s c = Some x \<Longrightarrow> cmd_refcnt x = refs (command_queue (fsm s)) ws r c"
  using assms by (auto simp: fsm_inv_def Let_def)

text \<open>Finishing a command whose reference came out of the queue or from the thread.\<close>

lemma finish_inv:
  assumes "fsm_inv (s, ws, Some c)"
  shows "fsm_inv (after (fsm_finish_command c res) s, ws, None)"
    and "command_queue (fsm (after (fsm_finish_command c res) s)) = command_queue (fsm s)"
    and "dom (fsm_cmds s) \<subseteq> dom (fsm_cmds (after (fsm_finish_command c res) s))"
proof -
  note i = fsm_invD [OF assms]
  obtain x where x: "fsm_cmds s c = Some x" using i(5) [of c] by auto
  have n: "cmd_refcnt x = refs (command_queue (fsm s)) ws (Some c) c"
    using i(6) [OF x] .
  then have "1 < cmd_refcnt x" by (simp add: refs_def)
  then obtain es y where t: "after (fsm_finish_command c res) s =
      s\<lparr>trace := es, fsm_cmds := (fsm_cmds s)(c \<mapsto> y)\<rparr>" and y: "cmd_refcnt y = cmd_refcnt x - 1"
    using finish_shared [OF x] by blast
  show "fsm_inv (after (fsm_finish_command c res) s, ws, None)"
    unfolding t using i(1-5) i(6) n y
    by (intro fsm_invI) (auto simp: refs_def split: if_splits)
  show "command_queue (fsm (after (fsm_finish_command c res) s)) = command_queue (fsm s)"
    unfolding t by simp
  show "dom (fsm_cmds s) \<subseteq> dom (fsm_cmds (after (fsm_finish_command c res) s))"
    unfolding t by auto
qed

lemma post_run:
  assumes "run (fsm_post_cmd cid flag) s = (Some c, s')"
  shows "\<exists>es. s' = s\<lparr>trace := es, fsm := (fsm s)\<lparr>command_queue := command_queue (fsm s) @ [c]\<rparr>,
    fsm_cmds := (fsm_cmds s)(c \<mapsto> \<lparr>cmd_id = cid, cmd_flag = flag, cmd_done = False,
      cmd_result = Inr (), cmd_refcnt = if waits flag then Suc (Suc (Suc 0)) else Suc (Suc 0)\<rparr>)\<rparr>"
  using assms
  by (intro exI [of _ "trace s'"]) (auto simp: fsm_post_cmd_def run_simps Let_def emit_def split: if_splits)

lemma post_inv:
  assumes "fsm_inv (s, ws, r)" "run (fsm_post_cmd cid flag) s = (Some c, s')" "fsm_cmds s c = None"
  shows "fsm_inv (s', if waits flag then c # ws else ws, r)"
proof -
  note i = fsm_invD [OF assms(1)]
  obtain es where s': "s' = s\<lparr>trace := es, fsm := (fsm s)\<lparr>command_queue := command_queue (fsm s) @ [c]\<rparr>,
    fsm_cmds := (fsm_cmds s)(c \<mapsto> \<lparr>cmd_id = cid, cmd_flag = flag, cmd_done = False,
      cmd_result = Inr (), cmd_refcnt = if waits flag then Suc (Suc (Suc 0)) else Suc (Suc 0)\<rparr>)\<rparr>"
    using post_run [OF assms(2)] by blast
  have new: "c \<notin> set (command_queue (fsm s))" "c \<notin> set ws" "r \<noteq> Some c"
    using i(5) [of c] assms(3) by auto
  show ?thesis
    unfolding s' using i(1-5) i(6) new
    by (intro fsm_invI) (auto simp: refs_def split: if_splits)
qed

lemma await_inv:
  assumes "fsm_inv (s, ws, r)" "c \<in> set ws"
  shows "fsm_inv (after (fsm_await_cmd c) s, remove1 c ws, r)"
    and "dom (fsm_cmds s) \<subseteq> dom (fsm_cmds (after (fsm_await_cmd c) s))"
proof -
  note i = fsm_invD [OF assms(1)]
  obtain x where x: "fsm_cmds s c = Some x" using i(5) [of c] assms(2) by auto
  have n: "cmd_refcnt x = refs (command_queue (fsm s)) ws r c"
    using i(6) [OF x] .
  have "\<exists>es. after (fsm_await_cmd c) s =
      s\<lparr>trace := es, fsm_cmds := (fsm_cmds s)(c \<mapsto> x\<lparr>cmd_refcnt := cmd_refcnt x - 1\<rparr>)\<rparr>"
    using x n assms(2)
    by (auto simp: fsm_await_cmd_def run_simps Let_def split_beta kref_put_shared refs_def emit_def
        intro!: exI [of _ "trace s @ [_]"])
  then obtain es where t: "after (fsm_await_cmd c) s =
      s\<lparr>trace := es, fsm_cmds := (fsm_cmds s)(c \<mapsto> x\<lparr>cmd_refcnt := cmd_refcnt x - 1\<rparr>)\<rparr>" ..
  show "fsm_inv (after (fsm_await_cmd c) s, remove1 c ws, r)"
    unfolding t using i(1-5) i(6) n assms(2)
    by (intro fsm_invI) (auto simp: refs_def split: if_splits)
  show "dom (fsm_cmds s) \<subseteq> dom (fsm_cmds (after (fsm_await_cmd c) s))"
    unfolding t by auto
qed

lemma take_inv:
  assumes "fsm_inv (s, ws, None)" "command_queue (fsm s) \<noteq> []" "run fsm_take_cmd s = (c, s')"
  shows "fsm_inv (s', ws, Some c)"
proof -
  note i = fsm_invD [OF assms(1)]
  obtain cs where q: "command_queue (fsm s) = c # cs"
    using assms(2,3) by (cases "command_queue (fsm s)") (auto simp: fsm_take_cmd_def run_simps)
  have s': "s' = s\<lparr>fsm := (fsm s)\<lparr>command_queue := cs\<rparr>\<rparr>"
    using assms(3) q by (simp add: fsm_take_cmd_def run_simps)
  show ?thesis
    unfolding s' using i(1-5) i(6) q by (intro fsm_invI) (auto simp: refs_def split: if_splits)
qed

text \<open>Flushing takes the commands one by one, each like the thread of the state machine.\<close>

lemma flush_cmds_inv:
  assumes "fsm_inv (s, ws, r)" "command_queue (fsm s) = cs"
  shows "fsm_inv (after (for_each cs (\<lambda>c. do {
       upd_fsm (\<lambda>f. f\<lparr>command_queue := remove1 c (command_queue f)\<rparr>);
       fsm_finish_command c (Inl EINVAL)
     })) s, ws, r) \<and>
     dom (fsm_cmds s) \<subseteq> dom (fsm_cmds (after (for_each cs (\<lambda>c. do {
       upd_fsm (\<lambda>f. f\<lparr>command_queue := remove1 c (command_queue f)\<rparr>);
       fsm_finish_command c (Inl EINVAL)
     })) s))"
  using assms
proof (induction cs arbitrary: s)
  case Nil
  then show ?case by simp
next
  case (Cons c cs)
  note i = fsm_invD [OF Cons.prems(1)]
  let ?t = "s\<lparr>fsm := (fsm s)\<lparr>command_queue := cs\<rparr>\<rparr>"
  obtain x where x: "fsm_cmds s c = Some x" using i(5) [of c] Cons.prems(2) by auto
  have n: "cmd_refcnt x = refs (command_queue (fsm s)) ws r c"
    using i(6) [OF x] .
  then have "1 < cmd_refcnt x" using Cons.prems(2) by (simp add: refs_def)
  then obtain es y where u: "after (fsm_finish_command c (Inl EINVAL)) ?t =
      ?t\<lparr>trace := es, fsm_cmds := (fsm_cmds ?t)(c \<mapsto> y)\<rparr>" and y: "cmd_refcnt y = cmd_refcnt x - 1"
    using finish_shared [of ?t c x "Inl EINVAL"] x by auto
  have "r \<noteq> Some c" using i(4) [of c] Cons.prems(2) by auto
  then have "fsm_inv (?t\<lparr>trace := es, fsm_cmds := (fsm_cmds ?t)(c \<mapsto> y)\<rparr>, ws, r)"
    using i(1-5) i(6) n y Cons.prems(2)
    by (intro fsm_invI) (auto simp: refs_def split: if_splits)
  moreover define v where "v = ?t\<lparr>trace := es, fsm_cmds := (fsm_cmds ?t)(c \<mapsto> y)\<rparr>"
  ultimately have inv: "fsm_inv (v, ws, r)" and q: "command_queue (fsm v) = cs"
    by simp_all
  have dom: "dom (fsm_cmds s) \<subseteq> dom (fsm_cmds v)"
    by (auto simp: v_def)
  have "after (upd_fsm (\<lambda>f. f\<lparr>command_queue := remove1 c (command_queue f)\<rparr>)) s = ?t"
    using Cons.prems(2) by (simp add: run_upd_fsm)
  then have "after (for_each (c # cs) f) s = after (for_each cs f) v"
    if "f = (\<lambda>c. do { upd_fsm (\<lambda>f. f\<lparr>command_queue := remove1 c (command_queue f)\<rparr>);
       fsm_finish_command c (Inl EINVAL) })" for f
    using u by (simp add: that run_bind split_beta v_def)
  then show ?case
    using Cons.IH [OF inv q] subset_trans [OF dom] by simp
qed

lemma del_events_cmds:
  "let t = after (for_each xs (\<lambda>_. fsm_del_kf_event)) s in
    fsm_cmds t = fsm_cmds s \<and> fsm_use_after_free t = fsm_use_after_free s \<and>
    command_queue (fsm t) = command_queue (fsm s)"
proof (induction xs arbitrary: s)
  case Nil
  then show ?case by simp
next
  case (Cons x xs)
  then show ?case
    by (simp add: run_simps split_beta Let_def fsm_del_kf_event_def kfree_event_def)
qed

lemma fsm_inv_cong:
  assumes "fsm_cmds t = fsm_cmds s" "fsm_use_after_free t = fsm_use_after_free s"
    "command_queue (fsm t) = command_queue (fsm s)"
  shows "fsm_inv (t, ws, r) = fsm_inv (s, ws, r)"
  using assms by (simp add: fsm_inv_def)

lemma flush_inv:
  assumes "fsm_inv (s, ws, r)"
  shows "fsm_inv (after fsm_flush_event_cmd_qs s, ws, r)"
    and "dom (fsm_cmds s) \<subseteq> dom (fsm_cmds (after fsm_flush_event_cmd_qs s))"
proof -
  let ?t = "after (for_each (command_queue (fsm s)) (\<lambda>c. do {
       upd_fsm (\<lambda>f. f\<lparr>command_queue := remove1 c (command_queue f)\<rparr>);
       fsm_finish_command c (Inl EINVAL)
     })) s"
  have "after fsm_flush_event_cmd_qs s = after (for_each (event_queue (fsm ?t)) (\<lambda>_. fsm_del_kf_event)) ?t"
    by (simp add: fsm_flush_event_cmd_qs_def run_simps split_beta)
  then show "fsm_inv (after fsm_flush_event_cmd_qs s, ws, r)"
    and "dom (fsm_cmds s) \<subseteq> dom (fsm_cmds (after fsm_flush_event_cmd_qs s))"
    using flush_cmds_inv [OF assms refl] del_events_cmds [of "event_queue (fsm ?t)" ?t]
      fsm_inv_cong [of "after fsm_flush_event_cmd_qs s" ?t ws r] by (simp_all add: Let_def)
qed

lemma fsm_step_inv: "fsm_step a b \<Longrightarrow> fsm_inv a \<Longrightarrow> fsm_inv b"
proof (induction rule: fsm_step.induct)
  case (post cid flag s c s' ws r)
  then show ?case by (intro post_inv)
next
  case (post_failed cid flag s s' ws r)
  then have "fsm_cmds s' = fsm_cmds s" "fsm_use_after_free s' = fsm_use_after_free s"
    "command_queue (fsm s') = command_queue (fsm s)"
    by (auto simp: fsm_post_cmd_def run_simps Let_def split: if_splits)
  then show ?case using post_failed.prems fsm_inv_cong by blast
next
  case (await c ws s r)
  then show ?case by (intro await_inv)
next
  case (take s c s' ws)
  then show ?case by (intro take_inv)
next
  case (finish s ws c res)
  then show ?case by (rule finish_inv)
next
  case (flush s ws r)
  then show ?case by (rule flush_inv)
qed

text \<open>No step frees a command.\<close>

lemma fsm_step_dom: "fsm_step a b \<Longrightarrow> fsm_inv a \<Longrightarrow> dom (fsm_cmds (fst a)) \<subseteq> dom (fsm_cmds (fst b))"
proof (induction rule: fsm_step.induct)
  case (post cid flag s c s' ws r)
  then show ?case using post_run [of cid flag s c s'] by auto
next
  case (post_failed cid flag s s' ws r)
  then show ?case by (auto simp: fsm_post_cmd_def run_simps Let_def split: if_splits)
next
  case (await c ws s r)
  then show ?case using await_inv(2) by simp
next
  case (take s c s' ws)
  then show ?case by (auto simp: fsm_take_cmd_def run_simps)
next
  case (finish s ws c res)
  then show ?case using finish_inv(3) by simp
next
  case (flush s ws r)
  then show ?case using flush_inv(2) by simp
qed

lemma fsm_steps_keep:
  assumes "fsm_step\<^sup>*\<^sup>* a b" and "fsm_inv a"
  shows "fsm_inv b \<and> dom (fsm_cmds (fst a)) \<subseteq> dom (fsm_cmds (fst b))"
  using assms
proof (induction rule: rtranclp_induct)
  case base
  then show ?case by simp
next
  case (step b d)
  then show ?case using fsm_step_inv [of b d] fsm_step_dom [of b d] by blast
qed

lemma fsm_reachable_inv: "fsm_reachable a \<Longrightarrow> fsm_inv a"
proof (induction rule: fsm_reachable.induct)
  case (init s)
  then show ?case by (intro fsm_invI) auto
next
  case (step a b)
  then show ?case using fsm_step_inv by blast
qed

section \<open>What the counts give\<close>

text \<open>C13: whatever the interleaving of callers that post commands, callers that wait for one, the
  thread of the state machine and flushes of the queue, no one ever touches a command that is
  freed: every command in the queue, in the thread's hands or waited for is alive, and none is
  twice in the queue.\<close>

theorem fsm_commands_safe:
  assumes "fsm_reachable (s, ws, r)"
  shows "\<not> fsm_use_after_free s \<and> distinct (command_queue (fsm s)) \<and>
    (\<forall>c \<in> set (command_queue (fsm s)) \<union> set ws \<union> set_option r.
      \<exists>x. fsm_cmds s c = Some x \<and> 1 < cmd_refcnt x)"
  using fsm_invD [OF fsm_reachable_inv [OF assms]] by (fastforce simp: refs_def)

definition fsm_example :: fsm_layer where
  "fsm_example = ccmni_layer.extend
     (tx_example [] \<lparr>env := reg_file (\<lambda>_. 0) (\<lambda>f args. if f = ''kzalloc'' then 0x100 else 0)\<rparr>)
     (fsm_layer.fields True \<lparr>fsm_md_state = MD_STATE_INVALID, curr_state = FSM_STATE_INIT,
        command_queue = [], event_queue = [], exp_flg = False, notifier_list = [], fsm_status = 0,
        fsm_thread = 1\<rparr> Map.empty False)"

definition posted :: fsm_layer where
  "posted = after (fsm_post_cmd FSM_CMD_START 0) fsm_example"

definition taken :: fsm_layer where
  "taken = after fsm_take_cmd posted"

lemma fsm_example_fields:
  "fsm_cmds fsm_example = Map.empty" "command_queue (fsm fsm_example) = []"
  "\<not> fsm_use_after_free fsm_example"
  "env fsm_example = reg_file (\<lambda>_. 0) (\<lambda>f args. if f = ''kzalloc'' then 0x100 else 0)"
  by (simp_all add: fsm_example_def ccmni_layer.defs fsm_layer.defs)

lemma posted_run: "run (fsm_post_cmd FSM_CMD_START 0) fsm_example = (Some 0x100, posted)"
  unfolding posted_def
  by (simp add: fsm_post_cmd_def run_simps Let_def fsm_example_fields reg_file_def)

lemma posted_queue: "command_queue (fsm posted) = [0x100]"
  by (simp add: posted_def fsm_post_cmd_def run_simps Let_def fsm_example_fields reg_file_def waits_def)

lemma taken_run: "run fsm_take_cmd posted = (0x100, taken)"
  by (simp add: taken_def fsm_take_cmd_def run_simps posted_queue)

lemma taken_reachable: "fsm_reachable (taken, [], Some 0x100)"
proof -
  have "fsm_reachable (fsm_example, [], None)"
    by (rule init) (simp_all add: fsm_example_fields)
  moreover have "fsm_step (fsm_example, [], None) (posted, [], None)"
    using fsm_step.post [OF posted_run, of "[]" None] by (simp add: fsm_example_fields waits_def)
  moreover have "fsm_step (posted, [], None) (taken, [], Some 0x100)"
    by (rule fsm_step.take) (simp_all add: posted_queue taken_run)
  ultimately show ?thesis by (blast intro: fsm_reachable.step)
qed

theorem fsm_commands_safe_witness: "\<exists>x. fsm_cmds taken 0x100 = Some x \<and> 1 < cmd_refcnt x"
  using fsm_commands_safe [OF taken_reachable] by simp

text \<open>C14: no command is ever freed. \<open>t7xx_fsm_append_cmd\<close> takes a reference for the queue on top
  of the one the command is born with; the thread gives one back when it finishes the command
  and a waiting caller the one taken for it, and the first is never given back. Whatever steps
  follow the posting of a command, its memory is still allocated and its count is one more than
  the number of those that hold it: 1 when nobody does any more.\<close>

theorem fsm_commands_leak:
  assumes "fsm_reachable (s, ws, r)"
    and "run (fsm_post_cmd cid flag) s = (Some c, s')" and "fsm_cmds s c = None"
    and "fsm_step\<^sup>*\<^sup>* (s', if waits flag then c # ws else ws, r) (t, ws', r')"
  shows "\<exists>x. fsm_cmds t c = Some x \<and>
    cmd_refcnt x = 1 + (if c \<in> set (command_queue (fsm t)) \<or> r' = Some c then 1 else 0)
      + (if c \<in> set ws' then 1 else 0)"
proof -
  have "fsm_inv (s', if waits flag then c # ws else ws, r)"
    by (rule post_inv [OF fsm_reachable_inv [OF assms(1)] assms(2,3)])
  note keep = fsm_steps_keep [OF assms(4) this]
  moreover have "c \<in> dom (fsm_cmds s')"
    using post_run [OF assms(2)] by auto
  ultimately obtain x where x: "fsm_cmds t c = Some x" by auto
  then show ?thesis
    using fsm_invD(6) [of t ws' r' c x] keep by (simp add: refs_def)
qed

theorem fsm_commands_leak_witness:
  "\<exists>x. fsm_cmds (after (fsm_finish_command 0x100 (Inr ())) taken) 0x100 = Some x \<and> cmd_refcnt x = 1"
proof -
  define s where "s = after (fsm_finish_command 0x100 (Inr ())) taken"
  have "fsm_step (posted, [], None) (taken, [], Some 0x100)"
    by (rule fsm_step.take) (simp_all add: posted_queue taken_run)
  moreover have "fsm_step (taken, [], Some 0x100) (s, [], None)"
    unfolding s_def by (rule fsm_step.finish)
  ultimately have steps: "fsm_step\<^sup>*\<^sup>* (posted, if waits 0 then 0x100 # [] else [], None) (s, [], None)"
    by (simp add: waits_def)
  have start: "fsm_reachable (fsm_example, [], None)"
    by (rule init) (simp_all add: fsm_example_fields)
  have "command_queue (fsm taken) = []"
    by (simp add: taken_def fsm_take_cmd_def run_simps posted_queue)
  then have "command_queue (fsm s) = []"
    using finish_inv(2) [OF fsm_reachable_inv [OF taken_reachable]] by (simp add: s_def)
  then show ?thesis
    using fsm_commands_leak [OF start posted_run _ steps] by (simp add: fsm_example_fields s_def)
qed

section \<open>Waiting for an event\<close>

text \<open>
  What a wait of \<open>n\<close> rounds makes of the events \<open>q\<close> in the queue when it begins: the events \<open>pre\<close>
  it took, the answers \<open>stops\<close> to its question whether it should stop, and the number of times
  it slept. It ends with the expected event, the last one taken; or when it should stop; or when
  its rounds are used up, which cannot be when the expected event was in the queue behind
  ignored ones that the rounds were enough for.
\<close>

definition skips :: "t7xx_fsm_event_state \<Rightarrow> t7xx_fsm_event_state \<Rightarrow> t7xx_fsm_event \<Rightarrow> bool" where
  "skips expected ignore e \<longleftrightarrow> event_id e \<noteq> expected \<and> event_id e = ignore"

definition within_reach ::
  "t7xx_fsm_event_state \<Rightarrow> t7xx_fsm_event_state \<Rightarrow> t7xx_fsm_event list \<Rightarrow> bool" where
  "within_reach expected ignore q \<longleftrightarrow>
     (case dropWhile (skips expected ignore) q of [] \<Rightarrow> False | e # _ \<Rightarrow> event_id e = expected)"

definition waited ::
  "t7xx_fsm_event_state \<Rightarrow> t7xx_fsm_event_state \<Rightarrow> nat \<Rightarrow> t7xx_fsm_event list \<Rightarrow>
   t7xx_fsm_event list \<Rightarrow> u64 list \<Rightarrow> nat \<Rightarrow> bool" where
  "waited expected ignore n q pre stops sleeps \<longleftrightarrow>
     (let rounds = sleeps + length pre in
      if list_ex (\<lambda>e. event_id e = expected) pre
      then rounds \<le> n \<and> stops = replicate rounds 0 \<and>
        event_id (last pre) = expected \<and> list_all (skips expected ignore) (butlast pre)
      else list_all (skips expected ignore) pre \<and>
        (if list_ex (\<lambda>v. v \<noteq> 0) stops
         then rounds < n \<and> butlast stops = replicate rounds 0
         else rounds = n \<and> stops = replicate n 0 \<and> \<not> within_reach expected ignore (take n q)))"

lemma waited_none: "waited expected ignore 0 q [] [] 0"
  by (simp add: waited_def within_reach_def)

lemma waited_stop: "v \<noteq> 0 \<Longrightarrow> waited expected ignore (Suc n) q [] [v] 0"
  by (simp add: waited_def)

lemma waited_received: "event_id e = expected \<Longrightarrow> waited expected ignore (Suc n) (e # q) [e] [0] 0"
  by (simp add: waited_def)

lemma waited_ignored:
  "skips expected ignore e \<Longrightarrow> waited expected ignore n q pre stops k \<Longrightarrow>
   waited expected ignore (Suc n) (e # q) (e # pre) (0 # stops) k"
  by (cases pre) (auto simp: waited_def within_reach_def skips_def Let_def split: if_splits)

lemma waited_slept:
  assumes "case q of [] \<Rightarrow> True | e # _ \<Rightarrow> event_id e \<notin> {expected, ignore}"
    and "waited expected ignore n (q @ new) pre stops k"
  shows "waited expected ignore (Suc n) q pre (0 # stops) (Suc k)"
proof -
  have "\<not> within_reach expected ignore (take (Suc n) q)"
    using assms(1) by (cases q) (auto simp: within_reach_def skips_def)
  then show ?thesis
    using assms(2) by (auto simp: waited_def Let_def split: if_splits)
qed

text \<open>
  What other threads do while this one sleeps: they may add events to the queue, and whatever
  they ask of the kernel, the events they free and the time they sleep are not in question.
\<close>

definition only_adds_events :: "('z fsm_layer_scheme, unit) state \<Rightarrow> bool" where
  "only_adds_events others \<longleftrightarrow> (\<forall>s. \<exists>new es.
     event_queue (fsm (after others s)) = event_queue (fsm s) @ new \<and>
     trace (after others s) = trace s @ es \<and>
     calls ''kfree'' es = [] \<and> calls ''msleep'' es = [] \<and> rets ''kthread_should_stop'' es = [])"

lemma only_adds_return: "only_adds_events (return ())"
  by (simp add: only_adds_events_def)

lemma only_adds_append_event:
  "only_adds_events (do { t7xx_fsm_append_event eid dat; return () })"
  by (auto simp: only_adds_events_def t7xx_fsm_append_event_def run_simps Let_def)

lemma wait_for_event_run:
  "run (fsm_wait_for_event others expected ignore (Suc n)) s = (let
     stop = env s (trace s) (Kernel ''kthread_should_stop'' []);
     t = emit (Ret ''kthread_should_stop'' [] stop) s;
     slept = after others (emit (Call ''msleep'' [20]) t)
   in if stop \<noteq> 0 then ((), t) else case event_queue (fsm s) of
     [] \<Rightarrow> run (fsm_wait_for_event others expected ignore n) slept
   | e # es' \<Rightarrow>
       if event_id e \<in> {expected, ignore} then
         (let u = emit (Call ''kfree'' [ev_ptr e]) (t\<lparr>fsm := (fsm t)\<lparr>event_queue := es'\<rparr>\<rparr>)
          in if event_id e = expected then ((), u) else run (fsm_wait_for_event others expected ignore n) u)
       else run (fsm_wait_for_event others expected ignore n) slept)"
  by (auto simp: run_simps Let_def fsm_del_kf_event_def kfree_event_def split_beta split: list.split)

declare fsm_wait_for_event.simps(2) [simp del]

lemma wait_for_event_cases:
  fixes s :: "'z fsm_layer_scheme" and others :: "('z fsm_layer_scheme, unit) state"
  assumes "only_adds_events others"
  shows "\<exists>arrived pre es.
    event_queue (fsm s) @ arrived
      = pre @ event_queue (fsm (after (fsm_wait_for_event others expected ignore n) s)) \<and>
    trace (after (fsm_wait_for_event others expected ignore n) s) = trace s @ es \<and>
    calls ''kfree'' es = map (\<lambda>e. [ev_ptr e]) pre \<and>
    calls ''msleep'' es = replicate (length (calls ''msleep'' es)) [20] \<and>
    waited expected ignore n (event_queue (fsm s)) pre
      (map snd (rets ''kthread_should_stop'' es)) (length (calls ''msleep'' es))"
proof (induction n arbitrary: s)
  case 0
  then show ?case
    by (intro exI [of _ "[]"]) (simp add: waited_none)
next
  case (Suc n)
  define v where "v = env s (trace s) (Kernel ''kthread_should_stop'' [])"
  define t where "t = emit (Ret ''kthread_should_stop'' [] v) s"
  have t: "trace t = trace s @ [Ret ''kthread_should_stop'' [] v]" "fsm t = fsm s"
    by (simp_all add: t_def)
  note run = wait_for_event_run [of others expected ignore n s, folded v_def, unfolded Let_def, folded t_def]
  consider (stopped) "v \<noteq> 0"
    | (taken) e q where "v = 0" "event_queue (fsm s) = e # q" "event_id e \<in> {expected, ignore}"
    | (sleep) "v = 0" "case event_queue (fsm s) of [] \<Rightarrow> True | e # _ \<Rightarrow> event_id e \<notin> {expected, ignore}"
    by (cases "event_queue (fsm s)") auto
  then show ?case
  proof cases
    case stopped
    then show ?thesis
      by (intro exI [of _ "[]"] exI [of _ "[Ret ''kthread_should_stop'' [] v]"])
         (simp add: run t waited_stop)
  next
    case taken
    define u where "u = emit (Call ''kfree'' [ev_ptr e]) (t\<lparr>fsm := (fsm t)\<lparr>event_queue := q\<rparr>\<rparr>)"
    define first where "first = [Ret ''kthread_should_stop'' [] v, Call ''kfree'' [ev_ptr e]]"
    have u: "trace u = trace s @ first" "event_queue (fsm u) = q"
      by (simp_all add: u_def t first_def)
    have calls: "calls ''kfree'' first = [[ev_ptr e]]" "calls ''msleep'' first = []"
      "map snd (rets ''kthread_should_stop'' first) = [0]"
      by (simp_all add: first_def taken(1))
    show ?thesis
    proof (cases "event_id e = expected")
      case True
      then have "run (fsm_wait_for_event others expected ignore (Suc n)) s = ((), u)"
        using taken by (simp add: run u_def)
      then show ?thesis
        using u taken calls waited_received [of e expected ignore n q, OF True]
        by (intro exI [of _ "[]"] exI [of _ "[e]"] exI [of _ first]) simp
    next
      case False
      then have r: "run (fsm_wait_for_event others expected ignore (Suc n)) s =
          run (fsm_wait_for_event others expected ignore n) u"
        using taken by (simp add: run u_def)
      have skip: "skips expected ignore e"
        using taken(3) False by (simp add: skips_def)
      obtain arrived pre es where
        "q @ arrived = pre @ event_queue (fsm (after (fsm_wait_for_event others expected ignore n) u))"
        "trace (after (fsm_wait_for_event others expected ignore n) u) = trace u @ es"
        "calls ''kfree'' es = map (\<lambda>e. [ev_ptr e]) pre"
        "calls ''msleep'' es = replicate (length (calls ''msleep'' es)) [20]"
        "waited expected ignore n q pre (map snd (rets ''kthread_should_stop'' es))
          (length (calls ''msleep'' es))"
        using Suc.IH [of u] unfolding u(2) by blast
      then show ?thesis
        using u taken calls waited_ignored [OF skip, of n q pre]
        by (intro exI [of _ arrived] exI [of _ "e # pre"] exI [of _ "first @ es"]) (simp add: r)
    qed
  next
    case sleep
    define t2 where "t2 = emit (Call ''msleep'' [20]) t"
    define u where "u = after others t2"
    obtain new fs where new: "event_queue (fsm u) = event_queue (fsm s) @ new"
        "trace u = trace t2 @ fs" "calls ''kfree'' fs = []" "calls ''msleep'' fs = []"
        "rets ''kthread_should_stop'' fs = []"
      using assms [unfolded only_adds_events_def, THEN spec, of t2] by (auto simp: u_def t2_def t)
    define first where "first = [Ret ''kthread_should_stop'' [] v, Call ''msleep'' [20]] @ fs"
    have u: "trace u = trace s @ first"
      by (simp add: new(2) t2_def t first_def)
    have calls: "calls ''kfree'' first = []" "calls ''msleep'' first = [[20]]"
      "map snd (rets ''kthread_should_stop'' first) = [0]"
      by (simp_all add: first_def sleep(1) new)
    have r: "run (fsm_wait_for_event others expected ignore (Suc n)) s =
        run (fsm_wait_for_event others expected ignore n) u"
      using sleep by (cases "event_queue (fsm s)") (simp_all add: run u_def t2_def)
    obtain arrived pre es where
        "event_queue (fsm s) @ new @ arrived =
          pre @ event_queue (fsm (after (fsm_wait_for_event others expected ignore n) u))"
        "trace (after (fsm_wait_for_event others expected ignore n) u) = trace u @ es"
        "calls ''kfree'' es = map (\<lambda>e. [ev_ptr e]) pre"
        "calls ''msleep'' es = replicate (length (calls ''msleep'' es)) [20]"
        "waited expected ignore n (event_queue (fsm s) @ new) pre
          (map snd (rets ''kthread_should_stop'' es)) (length (calls ''msleep'' es))"
      using Suc.IH [of u] unfolding new(1) append_assoc by blast
    then show ?thesis
      using u calls waited_slept [OF sleep(2), of n new pre]
      by (intro exI [of _ "new @ arrived"] exI [of _ pre] exI [of _ "first @ es"]) (simp add: r)
  qed
qed



end
