(* ===== verification/Cldma_Hw.thy ===== *)
theory Cldma_Hw
  imports T7xx_Reg
begin

text \<open>
  The registers of the control path's DMA engines, \<open>t7xx_cldma.c\<close> and \<open>t7xx_cldma.h\<close>. The
  functions take the engine's \<open>struct t7xx_cldma_hw\<close>, whose fields do not change after
  initialisation; queue numbers are \<open>unsigned int\<close>, and \<open>CLDMA_ALL_Q\<close> stands for all queues.
\<close>

section \<open>Registers\<close>

abbreviation (input) CLDMA_TXQ_NUM :: nat where "CLDMA_TXQ_NUM \<equiv> 8"
abbreviation (input) CLDMA_RXQ_NUM :: nat where "CLDMA_RXQ_NUM \<equiv> 8"
abbreviation (input) CLDMA_ALL_Q :: u32 where "CLDMA_ALL_Q \<equiv> GENMASK 7 0"
abbreviation (input) EMPTY_STATUS_BITMASK :: u32 where "EMPTY_STATUS_BITMASK \<equiv> GENMASK 15 8"
abbreviation (input) TXRX_STATUS_BITMASK :: u32 where "TXRX_STATUS_BITMASK \<equiv> GENMASK 7 0"
abbreviation (input) EQ_STA_BIT_OFFSET :: nat where "EQ_STA_BIT_OFFSET \<equiv> 8"
abbreviation (input) L2_INT_BIT_COUNT :: nat where "L2_INT_BIT_COUNT \<equiv> 16"
abbreviation (input) EQ_STA_BIT :: "nat \<Rightarrow> u32" where
  "EQ_STA_BIT index \<equiv> BIT (index + EQ_STA_BIT_OFFSET) AND EMPTY_STATUS_BITMASK"
abbreviation (input) TQ_ERR_INT_BITMASK :: u32 where "TQ_ERR_INT_BITMASK \<equiv> GENMASK 23 16"
abbreviation (input) TQ_ACTIVE_START_ERR_INT_BITMASK :: u32 where "TQ_ACTIVE_START_ERR_INT_BITMASK \<equiv> GENMASK 31 24"
abbreviation (input) RQ_ERR_INT_BITMASK :: u32 where "RQ_ERR_INT_BITMASK \<equiv> GENMASK 23 16"
abbreviation (input) RQ_ACTIVE_START_ERR_INT_BITMASK :: u32 where "RQ_ACTIVE_START_ERR_INT_BITMASK \<equiv> GENMASK 31 24"
abbreviation (input) CLDMA0_AO_BASE :: iomem where "CLDMA0_AO_BASE \<equiv> 0x10049000"
abbreviation (input) CLDMA0_PD_BASE :: iomem where "CLDMA0_PD_BASE \<equiv> 0x1021d000"
abbreviation (input) CLDMA1_AO_BASE :: iomem where "CLDMA1_AO_BASE \<equiv> 0x1004b000"
abbreviation (input) CLDMA1_PD_BASE :: iomem where "CLDMA1_PD_BASE \<equiv> 0x1021f000"
abbreviation (input) CLDMA_R_AO_BASE :: iomem where "CLDMA_R_AO_BASE \<equiv> 0x10023000"
abbreviation (input) CLDMA_R_PD_BASE :: iomem where "CLDMA_R_PD_BASE \<equiv> 0x1023d000"
abbreviation (input) REG_CLDMA_UL_START_ADDRL_0 :: iomem where "REG_CLDMA_UL_START_ADDRL_0 \<equiv> 0x0004"
abbreviation (input) REG_CLDMA_UL_START_ADDRH_0 :: iomem where "REG_CLDMA_UL_START_ADDRH_0 \<equiv> 0x0008"
abbreviation (input) REG_CLDMA_UL_CURRENT_ADDRL_0 :: iomem where "REG_CLDMA_UL_CURRENT_ADDRL_0 \<equiv> 0x0044"
abbreviation (input) REG_CLDMA_UL_CURRENT_ADDRH_0 :: iomem where "REG_CLDMA_UL_CURRENT_ADDRH_0 \<equiv> 0x0048"
abbreviation (input) REG_CLDMA_UL_STATUS :: iomem where "REG_CLDMA_UL_STATUS \<equiv> 0x0084"
abbreviation (input) REG_CLDMA_UL_START_CMD :: iomem where "REG_CLDMA_UL_START_CMD \<equiv> 0x0088"
abbreviation (input) REG_CLDMA_UL_RESUME_CMD :: iomem where "REG_CLDMA_UL_RESUME_CMD \<equiv> 0x008c"
abbreviation (input) REG_CLDMA_UL_STOP_CMD :: iomem where "REG_CLDMA_UL_STOP_CMD \<equiv> 0x0090"
abbreviation (input) REG_CLDMA_UL_ERROR :: iomem where "REG_CLDMA_UL_ERROR \<equiv> 0x0094"
abbreviation (input) REG_CLDMA_UL_CFG :: iomem where "REG_CLDMA_UL_CFG \<equiv> 0x0098"
abbreviation (input) UL_CFG_BIT_MODE_36 :: u32 where "UL_CFG_BIT_MODE_36 \<equiv> BIT 5"
abbreviation (input) UL_CFG_BIT_MODE_40 :: u32 where "UL_CFG_BIT_MODE_40 \<equiv> BIT 6"
abbreviation (input) UL_CFG_BIT_MODE_64 :: u32 where "UL_CFG_BIT_MODE_64 \<equiv> BIT 7"
abbreviation (input) UL_CFG_BIT_MODE_MASK :: u32 where "UL_CFG_BIT_MODE_MASK \<equiv> GENMASK 7 5"
abbreviation (input) REG_CLDMA_UL_MEM :: iomem where "REG_CLDMA_UL_MEM \<equiv> 0x009c"
abbreviation (input) UL_MEM_CHECK_DIS :: u32 where "UL_MEM_CHECK_DIS \<equiv> BIT 0"
abbreviation (input) REG_CLDMA_DL_START_CMD :: iomem where "REG_CLDMA_DL_START_CMD \<equiv> 0x05bc"
abbreviation (input) REG_CLDMA_DL_RESUME_CMD :: iomem where "REG_CLDMA_DL_RESUME_CMD \<equiv> 0x05c0"
abbreviation (input) REG_CLDMA_DL_STOP_CMD :: iomem where "REG_CLDMA_DL_STOP_CMD \<equiv> 0x05c4"
abbreviation (input) REG_CLDMA_DL_MEM :: iomem where "REG_CLDMA_DL_MEM \<equiv> 0x0508"
abbreviation (input) DL_MEM_CHECK_DIS :: u32 where "DL_MEM_CHECK_DIS \<equiv> BIT 0"
abbreviation (input) REG_CLDMA_DL_CFG :: iomem where "REG_CLDMA_DL_CFG \<equiv> 0x0404"
abbreviation (input) DL_CFG_UP_HW_LAST :: u32 where "DL_CFG_UP_HW_LAST \<equiv> BIT 2"
abbreviation (input) DL_CFG_BIT_MODE_36 :: u32 where "DL_CFG_BIT_MODE_36 \<equiv> BIT 10"
abbreviation (input) DL_CFG_BIT_MODE_40 :: u32 where "DL_CFG_BIT_MODE_40 \<equiv> BIT 11"
abbreviation (input) DL_CFG_BIT_MODE_64 :: u32 where "DL_CFG_BIT_MODE_64 \<equiv> BIT 12"
abbreviation (input) DL_CFG_BIT_MODE_MASK :: u32 where "DL_CFG_BIT_MODE_MASK \<equiv> GENMASK 12 10"
abbreviation (input) REG_CLDMA_DL_START_ADDRL_0 :: iomem where "REG_CLDMA_DL_START_ADDRL_0 \<equiv> 0x0478"
abbreviation (input) REG_CLDMA_DL_START_ADDRH_0 :: iomem where "REG_CLDMA_DL_START_ADDRH_0 \<equiv> 0x047c"
abbreviation (input) REG_CLDMA_DL_CURRENT_ADDRL_0 :: iomem where "REG_CLDMA_DL_CURRENT_ADDRL_0 \<equiv> 0x04b8"
abbreviation (input) REG_CLDMA_DL_CURRENT_ADDRH_0 :: iomem where "REG_CLDMA_DL_CURRENT_ADDRH_0 \<equiv> 0x04bc"
abbreviation (input) REG_CLDMA_DL_STATUS :: iomem where "REG_CLDMA_DL_STATUS \<equiv> 0x04f8"
abbreviation (input) REG_CLDMA_L2TISAR0 :: iomem where "REG_CLDMA_L2TISAR0 \<equiv> 0x0810"
abbreviation (input) REG_CLDMA_L2TISAR1 :: iomem where "REG_CLDMA_L2TISAR1 \<equiv> 0x0814"
abbreviation (input) REG_CLDMA_L2TIMR0 :: iomem where "REG_CLDMA_L2TIMR0 \<equiv> 0x0818"
abbreviation (input) REG_CLDMA_L2TIMR1 :: iomem where "REG_CLDMA_L2TIMR1 \<equiv> 0x081c"
abbreviation (input) REG_CLDMA_L2TIMCR0 :: iomem where "REG_CLDMA_L2TIMCR0 \<equiv> 0x0820"
abbreviation (input) REG_CLDMA_L2TIMCR1 :: iomem where "REG_CLDMA_L2TIMCR1 \<equiv> 0x0824"
abbreviation (input) REG_CLDMA_L2TIMSR0 :: iomem where "REG_CLDMA_L2TIMSR0 \<equiv> 0x0828"
abbreviation (input) REG_CLDMA_L2TIMSR1 :: iomem where "REG_CLDMA_L2TIMSR1 \<equiv> 0x082c"
abbreviation (input) REG_CLDMA_L3TISAR0 :: iomem where "REG_CLDMA_L3TISAR0 \<equiv> 0x0830"
abbreviation (input) REG_CLDMA_L3TISAR1 :: iomem where "REG_CLDMA_L3TISAR1 \<equiv> 0x0834"
abbreviation (input) REG_CLDMA_L2RISAR0 :: iomem where "REG_CLDMA_L2RISAR0 \<equiv> 0x0850"
abbreviation (input) REG_CLDMA_L2RISAR1 :: iomem where "REG_CLDMA_L2RISAR1 \<equiv> 0x0854"
abbreviation (input) REG_CLDMA_L3RISAR0 :: iomem where "REG_CLDMA_L3RISAR0 \<equiv> 0x0870"
abbreviation (input) REG_CLDMA_L3RISAR1 :: iomem where "REG_CLDMA_L3RISAR1 \<equiv> 0x0874"
abbreviation (input) REG_CLDMA_IP_BUSY :: iomem where "REG_CLDMA_IP_BUSY \<equiv> 0x08b4"
abbreviation (input) IP_BUSY_WAKEUP :: u32 where "IP_BUSY_WAKEUP \<equiv> BIT 0"
abbreviation (input) CLDMA_L2TISAR0_ALL_INT_MASK :: u32 where "CLDMA_L2TISAR0_ALL_INT_MASK \<equiv> GENMASK 15 0"
abbreviation (input) CLDMA_L2RISAR0_ALL_INT_MASK :: u32 where "CLDMA_L2RISAR0_ALL_INT_MASK \<equiv> GENMASK 15 0"
abbreviation (input) REG_CLDMA_L2RIMR0 :: iomem where "REG_CLDMA_L2RIMR0 \<equiv> 0x0858"
abbreviation (input) REG_CLDMA_L2RIMR1 :: iomem where "REG_CLDMA_L2RIMR1 \<equiv> 0x085c"
abbreviation (input) REG_CLDMA_L2RIMCR0 :: iomem where "REG_CLDMA_L2RIMCR0 \<equiv> 0x0860"
abbreviation (input) REG_CLDMA_L2RIMCR1 :: iomem where "REG_CLDMA_L2RIMCR1 \<equiv> 0x0864"
abbreviation (input) REG_CLDMA_L2RIMSR0 :: iomem where "REG_CLDMA_L2RIMSR0 \<equiv> 0x0868"
abbreviation (input) REG_CLDMA_L2RIMSR1 :: iomem where "REG_CLDMA_L2RIMSR1 \<equiv> 0x086c"
abbreviation (input) REG_CLDMA_BUSY_MASK :: iomem where "REG_CLDMA_BUSY_MASK \<equiv> 0x0954"
abbreviation (input) BUSY_MASK_PCIE :: u32 where "BUSY_MASK_PCIE \<equiv> BIT 0"
abbreviation (input) BUSY_MASK_AP :: u32 where "BUSY_MASK_AP \<equiv> BIT 1"
abbreviation (input) BUSY_MASK_MD :: u32 where "BUSY_MASK_MD \<equiv> BIT 2"
abbreviation (input) REG_CLDMA_INT_MASK :: iomem where "REG_CLDMA_INT_MASK \<equiv> 0x0960"
abbreviation (input) REG_INFRA_RST4_SET :: iomem where "REG_INFRA_RST4_SET \<equiv> 0x0730"
abbreviation (input) RST4_CLDMA1_SW_RST_SET :: u32 where "RST4_CLDMA1_SW_RST_SET \<equiv> BIT 20"
abbreviation (input) REG_INFRA_RST4_CLR :: iomem where "REG_INFRA_RST4_CLR \<equiv> 0x0734"
abbreviation (input) RST4_CLDMA1_SW_RST_CLR :: u32 where "RST4_CLDMA1_SW_RST_CLR \<equiv> BIT 20"
abbreviation (input) REG_INFRA_RST2_SET :: iomem where "REG_INFRA_RST2_SET \<equiv> 0x0140"
abbreviation (input) RST2_PMIC_SW_RST_SET :: u32 where "RST2_PMIC_SW_RST_SET \<equiv> BIT 18"
abbreviation (input) REG_INFRA_RST2_CLR :: iomem where "REG_INFRA_RST2_CLR \<equiv> 0x0144"
abbreviation (input) RST2_PMIC_SW_RST_CLR :: u32 where "RST2_PMIC_SW_RST_CLR \<equiv> BIT 18"

section \<open>Engines\<close>

datatype mtk_txrx = MTK_TX | MTK_RX

datatype t7xx_hw_mode = MODE_BIT_32 | MODE_BIT_36 | MODE_BIT_40 | MODE_BIT_64

record t7xx_cldma_hw =
  hw_mode :: t7xx_hw_mode
  ap_ao_base :: iomem
  ap_pdn_base :: iomem
  phy_interrupt_id :: t7xx_int

abbreviation (input) ADDR_SIZE :: iomem where "ADDR_SIZE \<equiv> 8"

definition t7xx_cldma_clear_ip_busy :: "t7xx_cldma_hw \<Rightarrow> ('z io_scheme, unit) state" where
  "t7xx_cldma_clear_ip_busy hw = do {
     val \<leftarrow> ioread32 (ap_pdn_base hw + REG_CLDMA_IP_BUSY);
     iowrite32 (val OR IP_BUSY_WAKEUP) (ap_pdn_base hw + REG_CLDMA_IP_BUSY)
   }"

definition ul_cfg_mode :: "t7xx_hw_mode \<Rightarrow> u32" where
  "ul_cfg_mode m = (case m of MODE_BIT_64 \<Rightarrow> UL_CFG_BIT_MODE_64 | MODE_BIT_40 \<Rightarrow> UL_CFG_BIT_MODE_40
     | MODE_BIT_36 \<Rightarrow> UL_CFG_BIT_MODE_36 | MODE_BIT_32 \<Rightarrow> 0)"

definition dl_cfg_mode :: "t7xx_hw_mode \<Rightarrow> u32" where
  "dl_cfg_mode m = (case m of MODE_BIT_64 \<Rightarrow> DL_CFG_BIT_MODE_64 | MODE_BIT_40 \<Rightarrow> DL_CFG_BIT_MODE_40
     | MODE_BIT_36 \<Rightarrow> DL_CFG_BIT_MODE_36 | MODE_BIT_32 \<Rightarrow> 0)"

definition t7xx_cldma_hw_restore :: "t7xx_cldma_hw \<Rightarrow> ('z io_scheme, unit) state" where
  "t7xx_cldma_hw_restore hw = do {
     ul_cfg \<leftarrow> ioread32 (ap_pdn_base hw + REG_CLDMA_UL_CFG);
     let ul_cfg = (ul_cfg AND NOT UL_CFG_BIT_MODE_MASK) OR ul_cfg_mode (hw_mode hw);
     iowrite32 ul_cfg (ap_pdn_base hw + REG_CLDMA_UL_CFG);
     iowrite32 UL_MEM_CHECK_DIS (ap_pdn_base hw + REG_CLDMA_UL_MEM);
     iowrite32 DL_MEM_CHECK_DIS (ap_pdn_base hw + REG_CLDMA_DL_MEM)
   }"

text \<open>\<open>qno == CLDMA_ALL_Q ? CLDMA_ALL_Q : BIT(qno)\<close>; queue numbers are below 8 or \<open>CLDMA_ALL_Q\<close>.\<close>

definition que_mask :: "u32 \<Rightarrow> u32" where
  "que_mask qno = (if qno = CLDMA_ALL_Q then CLDMA_ALL_Q else BIT (unat qno))"

definition t7xx_cldma_hw_start_queue ::
  "t7xx_cldma_hw \<Rightarrow> u32 \<Rightarrow> mtk_txrx \<Rightarrow> ('z io_scheme, unit) state" where
  "t7xx_cldma_hw_start_queue hw qno tx_rx =
     iowrite32 (que_mask qno)
       (case tx_rx of MTK_RX \<Rightarrow> ap_pdn_base hw + REG_CLDMA_DL_START_CMD
                    | MTK_TX \<Rightarrow> ap_pdn_base hw + REG_CLDMA_UL_START_CMD)"

definition t7xx_cldma_hw_start :: "t7xx_cldma_hw \<Rightarrow> ('z io_scheme, unit) state" where
  "t7xx_cldma_hw_start hw = do {
     iowrite32 TXRX_STATUS_BITMASK (ap_pdn_base hw + REG_CLDMA_L2TIMCR0);
     iowrite32 TXRX_STATUS_BITMASK (ap_ao_base hw + REG_CLDMA_L2RIMCR0);
     iowrite32 EMPTY_STATUS_BITMASK (ap_pdn_base hw + REG_CLDMA_L2TIMCR0);
     iowrite32 EMPTY_STATUS_BITMASK (ap_ao_base hw + REG_CLDMA_L2RIMCR0)
   }"

definition set_bits :: "iomem \<Rightarrow> u32 \<Rightarrow> ('z io_scheme, unit) state" where
  "set_bits a m = do { val \<leftarrow> ioread32 a; iowrite32 (val OR m) a }"

definition t7xx_cldma_hw_reset :: "iomem \<Rightarrow> ('z io_scheme, unit) state" where
  "t7xx_cldma_hw_reset ao_base = do {
     set_bits (ao_base + REG_INFRA_RST2_SET) RST2_PMIC_SW_RST_SET;
     set_bits (ao_base + REG_INFRA_RST4_SET) RST4_CLDMA1_SW_RST_SET;
     kcall ''udelay'' [1];
     set_bits (ao_base + REG_INFRA_RST4_CLR) RST4_CLDMA1_SW_RST_CLR;
     set_bits (ao_base + REG_INFRA_RST2_CLR) RST2_PMIC_SW_RST_CLR
   }"

definition t7xx_cldma_tx_addr_is_set :: "t7xx_cldma_hw \<Rightarrow> u32 \<Rightarrow> ('z io_scheme, bool) state" where
  "t7xx_cldma_tx_addr_is_set hw qno = do {
     v \<leftarrow> ioread64_lo_hi (ap_pdn_base hw + (REG_CLDMA_UL_START_ADDRL_0 + ucast qno * ADDR_SIZE));
     return (v \<noteq> 0)
   }"

definition t7xx_cldma_hw_set_start_addr ::
  "t7xx_cldma_hw \<Rightarrow> u32 \<Rightarrow> u64 \<Rightarrow> mtk_txrx \<Rightarrow> ('z io_scheme, unit) state" where
  "t7xx_cldma_hw_set_start_addr hw qno address tx_rx =
     iowrite64_lo_hi address
       ((case tx_rx of MTK_RX \<Rightarrow> ap_ao_base hw + REG_CLDMA_DL_START_ADDRL_0
                     | MTK_TX \<Rightarrow> ap_pdn_base hw + REG_CLDMA_UL_START_ADDRL_0) + ucast qno * ADDR_SIZE)"

definition t7xx_cldma_hw_resume_queue ::
  "t7xx_cldma_hw \<Rightarrow> u32 \<Rightarrow> mtk_txrx \<Rightarrow> ('z io_scheme, unit) state" where
  "t7xx_cldma_hw_resume_queue hw qno tx_rx =
     iowrite32 (BIT (unat qno))
       (case tx_rx of MTK_RX \<Rightarrow> ap_pdn_base hw + REG_CLDMA_DL_RESUME_CMD
                    | MTK_TX \<Rightarrow> ap_pdn_base hw + REG_CLDMA_UL_RESUME_CMD)"

definition t7xx_cldma_hw_queue_status ::
  "t7xx_cldma_hw \<Rightarrow> u32 \<Rightarrow> mtk_txrx \<Rightarrow> ('z io_scheme, u32) state" where
  "t7xx_cldma_hw_queue_status hw qno tx_rx = do {
     val \<leftarrow> ioread32 (case tx_rx of MTK_RX \<Rightarrow> ap_ao_base hw + REG_CLDMA_DL_STATUS
                                  | MTK_TX \<Rightarrow> ap_pdn_base hw + REG_CLDMA_UL_STATUS);
     return (val AND que_mask qno)
   }"

text \<open>Reading a status register, clearing what is in the mask, reading it once more.\<close>

definition ack_bits :: "iomem \<Rightarrow> u32 \<Rightarrow> ('z io_scheme, unit) state" where
  "ack_bits a bitmask = do {
     ch_id \<leftarrow> ioread32 a;
     iowrite32 (ch_id AND bitmask) a;
     ioread32 a;
     return ()
   }"

definition t7xx_cldma_hw_tx_done :: "t7xx_cldma_hw \<Rightarrow> u32 \<Rightarrow> ('z io_scheme, unit) state" where
  "t7xx_cldma_hw_tx_done hw bitmask = ack_bits (ap_pdn_base hw + REG_CLDMA_L2TISAR0) bitmask"

definition t7xx_cldma_hw_rx_done :: "t7xx_cldma_hw \<Rightarrow> u32 \<Rightarrow> ('z io_scheme, unit) state" where
  "t7xx_cldma_hw_rx_done hw bitmask = ack_bits (ap_pdn_base hw + REG_CLDMA_L2RISAR0) bitmask"

definition t7xx_cldma_hw_int_status ::
  "t7xx_cldma_hw \<Rightarrow> u32 \<Rightarrow> mtk_txrx \<Rightarrow> ('z io_scheme, u32) state" where
  "t7xx_cldma_hw_int_status hw bitmask tx_rx = do {
     val \<leftarrow> ioread32 (case tx_rx of MTK_RX \<Rightarrow> ap_pdn_base hw + REG_CLDMA_L2RISAR0
                                  | MTK_TX \<Rightarrow> ap_pdn_base hw + REG_CLDMA_L2TISAR0);
     return (val AND bitmask)
   }"

definition mask_set_reg :: "t7xx_cldma_hw \<Rightarrow> mtk_txrx \<Rightarrow> iomem" where
  "mask_set_reg hw tx_rx = (case tx_rx of MTK_RX \<Rightarrow> ap_ao_base hw + REG_CLDMA_L2RIMSR0
                                        | MTK_TX \<Rightarrow> ap_pdn_base hw + REG_CLDMA_L2TIMSR0)"

definition mask_clr_reg :: "t7xx_cldma_hw \<Rightarrow> mtk_txrx \<Rightarrow> iomem" where
  "mask_clr_reg hw tx_rx = (case tx_rx of MTK_RX \<Rightarrow> ap_ao_base hw + REG_CLDMA_L2RIMCR0
                                        | MTK_TX \<Rightarrow> ap_pdn_base hw + REG_CLDMA_L2TIMCR0)"

definition t7xx_cldma_hw_irq_dis_txrx ::
  "t7xx_cldma_hw \<Rightarrow> u32 \<Rightarrow> mtk_txrx \<Rightarrow> ('z io_scheme, unit) state" where
  "t7xx_cldma_hw_irq_dis_txrx hw qno tx_rx = iowrite32 (que_mask qno) (mask_set_reg hw tx_rx)"

definition t7xx_cldma_hw_irq_dis_eq ::
  "t7xx_cldma_hw \<Rightarrow> u32 \<Rightarrow> mtk_txrx \<Rightarrow> ('z io_scheme, unit) state" where
  "t7xx_cldma_hw_irq_dis_eq hw qno tx_rx =
     iowrite32 (push_bit EQ_STA_BIT_OFFSET (que_mask qno)) (mask_set_reg hw tx_rx)"

definition t7xx_cldma_hw_irq_en_txrx ::
  "t7xx_cldma_hw \<Rightarrow> u32 \<Rightarrow> mtk_txrx \<Rightarrow> ('z io_scheme, unit) state" where
  "t7xx_cldma_hw_irq_en_txrx hw qno tx_rx = iowrite32 (que_mask qno) (mask_clr_reg hw tx_rx)"

definition t7xx_cldma_hw_irq_en_eq ::
  "t7xx_cldma_hw \<Rightarrow> u32 \<Rightarrow> mtk_txrx \<Rightarrow> ('z io_scheme, unit) state" where
  "t7xx_cldma_hw_irq_en_eq hw qno tx_rx =
     iowrite32 (push_bit EQ_STA_BIT_OFFSET (que_mask qno)) (mask_clr_reg hw tx_rx)"

definition t7xx_cldma_hw_init :: "t7xx_cldma_hw \<Rightarrow> ('z io_scheme, unit) state" where
  "t7xx_cldma_hw_init hw = do {
     ul_cfg \<leftarrow> ioread32 (ap_pdn_base hw + REG_CLDMA_UL_CFG);
     dl_cfg \<leftarrow> ioread32 (ap_ao_base hw + REG_CLDMA_DL_CFG);
     let ul_cfg = (ul_cfg AND NOT UL_CFG_BIT_MODE_MASK) OR ul_cfg_mode (hw_mode hw);
     let dl_cfg = (dl_cfg AND NOT DL_CFG_BIT_MODE_MASK) OR dl_cfg_mode (hw_mode hw);
     iowrite32 ul_cfg (ap_pdn_base hw + REG_CLDMA_UL_CFG);
     iowrite32 (dl_cfg OR DL_CFG_UP_HW_LAST) (ap_ao_base hw + REG_CLDMA_DL_CFG);
     iowrite32 0 (ap_ao_base hw + REG_CLDMA_INT_MASK);
     iowrite32 BUSY_MASK_MD (ap_ao_base hw + REG_CLDMA_BUSY_MASK);
     iowrite32 UL_MEM_CHECK_DIS (ap_pdn_base hw + REG_CLDMA_UL_MEM);
     iowrite32 DL_MEM_CHECK_DIS (ap_pdn_base hw + REG_CLDMA_DL_MEM)
   }"

definition t7xx_cldma_hw_stop_all_qs :: "t7xx_cldma_hw \<Rightarrow> mtk_txrx \<Rightarrow> ('z io_scheme, unit) state" where
  "t7xx_cldma_hw_stop_all_qs hw tx_rx =
     iowrite32 CLDMA_ALL_Q (case tx_rx of MTK_RX \<Rightarrow> ap_pdn_base hw + REG_CLDMA_DL_STOP_CMD
                                        | MTK_TX \<Rightarrow> ap_pdn_base hw + REG_CLDMA_UL_STOP_CMD)"

definition t7xx_cldma_hw_stop :: "t7xx_cldma_hw \<Rightarrow> mtk_txrx \<Rightarrow> ('z io_scheme, unit) state" where
  "t7xx_cldma_hw_stop hw tx_rx = do {
     iowrite32 TXRX_STATUS_BITMASK (mask_set_reg hw tx_rx);
     iowrite32 EMPTY_STATUS_BITMASK (mask_set_reg hw tx_rx)
   }"

section \<open>They only talk to the device\<close>

lemmas cldma_hw_defs =
  t7xx_cldma_clear_ip_busy_def t7xx_cldma_hw_restore_def t7xx_cldma_hw_start_queue_def
  t7xx_cldma_hw_start_def set_bits_def t7xx_cldma_hw_reset_def t7xx_cldma_tx_addr_is_set_def
  t7xx_cldma_hw_set_start_addr_def t7xx_cldma_hw_resume_queue_def t7xx_cldma_hw_queue_status_def
  ack_bits_def t7xx_cldma_hw_tx_done_def t7xx_cldma_hw_rx_done_def t7xx_cldma_hw_int_status_def
  t7xx_cldma_hw_irq_dis_txrx_def t7xx_cldma_hw_irq_dis_eq_def t7xx_cldma_hw_irq_en_txrx_def
  t7xx_cldma_hw_irq_en_eq_def t7xx_cldma_hw_init_def t7xx_cldma_hw_stop_all_qs_def
  t7xx_cldma_hw_stop_def

text \<open>Register accesses and waiting, nothing else.\<close>

fun device_only :: "ev \<Rightarrow> bool" where
  "device_only (Rd a v) = True"
| "device_only (Wr a v) = True"
| "device_only (Call f args) = (f = ''udelay'')"
| "device_only (Ret f args v) = False"

lemma only_asks_ioread32 [only_asks_intros]: "(\<And>v. P (Rd a v)) \<Longrightarrow> only_asks P (ioread32 a)"
  by (auto simp: only_asks_def run_simps Let_def emit_def intro!: exI [of _ "[Rd a _]"])

lemma only_asks_iowrite32 [only_asks_intros]: "P (Wr a v) \<Longrightarrow> only_asks P (iowrite32 v a)"
  by (auto simp: only_asks_def run_simps emit_def intro!: exI [of _ "[Wr a v]"])

lemma only_asks_64 [only_asks_intros]:
  "(\<And>b v. P (Rd b v)) \<Longrightarrow> only_asks P (ioread64_lo_hi a)"
  "(\<And>b w. P (Wr b w)) \<Longrightarrow> only_asks P (iowrite64_lo_hi x a)"
  unfolding ioread64_lo_hi_def iowrite64_lo_hi_def by (intro only_asks_intros; simp)+

lemma only_asks_cldma_hw [only_asks_intros]:
  "only_asks device_only (t7xx_cldma_clear_ip_busy hw)" "only_asks device_only (t7xx_cldma_hw_restore hw)"
  "only_asks device_only (t7xx_cldma_hw_start_queue hw q d)" "only_asks device_only (t7xx_cldma_hw_start hw)"
  "only_asks device_only (t7xx_cldma_hw_reset b)" "only_asks device_only (t7xx_cldma_tx_addr_is_set hw q)"
  "only_asks device_only (t7xx_cldma_hw_set_start_addr hw q a d)"
  "only_asks device_only (t7xx_cldma_hw_resume_queue hw q d)"
  "only_asks device_only (t7xx_cldma_hw_queue_status hw q d)"
  "only_asks device_only (t7xx_cldma_hw_tx_done hw m)" "only_asks device_only (t7xx_cldma_hw_rx_done hw m)"
  "only_asks device_only (t7xx_cldma_hw_int_status hw m d)"
  "only_asks device_only (t7xx_cldma_hw_irq_dis_txrx hw q d)" "only_asks device_only (t7xx_cldma_hw_irq_dis_eq hw q d)"
  "only_asks device_only (t7xx_cldma_hw_irq_en_txrx hw q d)" "only_asks device_only (t7xx_cldma_hw_irq_en_eq hw q d)"
  "only_asks device_only (t7xx_cldma_hw_init hw)" "only_asks device_only (t7xx_cldma_hw_stop_all_qs hw d)"
  "only_asks device_only (t7xx_cldma_hw_stop hw d)"
  unfolding cldma_hw_defs Let_def by (intro only_asks_intros; simp)+

end
