(* ===== verification/Cldma.thy ===== *)
theory Cldma
  imports Fsm_Queue Cldma_Hw
begin

text \<open>
  The host interface of the control path, \<open>t7xx_hif_cldma.c\<close>: per engine eight transmit and
  eight receive queues, each on a ring of requests. A request owns a descriptor (GPD) in
  memory shared with the device and, at times, a packet.

  A ring is the list of its requests, and a pointer to a request (\<open>tr_done\<close>, \<open>tx_next\<close>,
  \<open>rx_refill\<close>) is its position in the list, \<open>None\<close> for the null pointer; \<open>tr_ring\<close> says
  whether the queue points to its ring. Following a null or dangling pointer, and putting more
  data into a packet than it has room for, sets \<open>cldma_fault\<close>. A queue is named by its engine,
  direction and number, which stands for its back pointer \<open>md_ctrl\<close>, \<open>dir\<close> and \<open>index\<close>.

  The device shares the descriptors. It clears \<open>HWO\<close> in a descriptor it is done with, and in
  the receive direction writes the length: \<open>sync_gpd\<close>, which runs where the code looks at the
  flags, asks the device whether it has. The data of a received packet are what the device
  wrote (\<open>read_mem\<close>).
\<close>

section \<open>Requests, rings, queues\<close>

abbreviation (input) MAX_TX_BUDGET :: nat where "MAX_TX_BUDGET \<equiv> 16"
abbreviation (input) MAX_RX_BUDGET :: nat where "MAX_RX_BUDGET \<equiv> 16"
abbreviation (input) CHECK_Q_STOP_TIMEOUT_US :: nat where "CHECK_Q_STOP_TIMEOUT_US \<equiv> 1000000"
abbreviation (input) CHECK_Q_STOP_STEP_US :: nat where "CHECK_Q_STOP_STEP_US \<equiv> 10000"
abbreviation (input) CLDMA_JUMBO_BUFF_SZ :: nat where "CLDMA_JUMBO_BUFF_SZ \<equiv> 63 * 1024 + 16"
abbreviation (input) CLDMA_SHARED_Q_BUFF_SZ :: nat where "CLDMA_SHARED_Q_BUFF_SZ \<equiv> 3584"
abbreviation (input) CLDMA_DEDICATED_Q_BUFF_SZ :: nat where "CLDMA_DEDICATED_Q_BUFF_SZ \<equiv> 2048"
abbreviation (input) CLDMA_Q_IDX_DUMP :: nat where "CLDMA_Q_IDX_DUMP \<equiv> 1"
abbreviation (input) GPD_FLAGS_HWO :: u8 where "GPD_FLAGS_HWO \<equiv> BIT 0"
abbreviation (input) GPD_FLAGS_IOC :: u8 where "GPD_FLAGS_IOC \<equiv> BIT 7"

datatype cldma_id = CLDMA_ID_MD | CLDMA_ID_AP

datatype cldma_cfg = CLDMA_SHARED_Q_CFG | CLDMA_DEDICATED_Q_CFG

text \<open>A packet of the control path: its address, the room of its buffer, its data.\<close>

record cskb =
  cskb_ptr :: u64
  cskb_size :: nat
  cskb_bytes :: "u8 list"

record cldma_gpd =
  gpd_flags :: u8
  rx_data_allow_len :: u16
  next_gpd_ptr_h :: u32
  next_gpd_ptr_l :: u32
  data_buff_bd_ptr_h :: u32
  data_buff_bd_ptr_l :: u32
  data_buff_len :: u16

record cldma_request =
  req_gpd :: cldma_gpd
  gpd_addr :: dma_addr
  req_skb :: "cskb option"
  mapped_buff :: dma_addr

record cldma_ring =
  gpd_ring :: "cldma_request list"
  ring_length :: nat
  pkt_size :: nat

text \<open>What \<open>recv_skb\<close> points to; the second and third function are in \<open>t7xx_port_proxy.c\<close>.\<close>

datatype recv_fn = RECV_DEFAULT | RECV_PROXY | RECV_DEDICATED

record cldma_queue =
  tr_ring :: bool
  tr_done :: "nat option"
  rx_refill :: "nat option"
  tx_next :: "nat option"
  budget :: int
  worker :: u64
  recv_skb :: recv_fn

record cldma_ctrl =
  cl_txq :: "nat \<Rightarrow> cldma_queue"
  cl_rxq :: "nat \<Rightarrow> cldma_queue"
  txq_active :: u16
  rxq_active :: u16
  txq_started :: u16
  gpd_dmapool :: u64
  tx_ring :: "nat \<Rightarrow> cldma_ring"
  rx_ring :: "nat \<Rightarrow> cldma_ring"
  cl_pm_entity :: bool
  hw_info :: t7xx_cldma_hw
  is_late_init :: bool

record cldma_layer = fsm_layer +
  md_ctrl :: "cldma_id \<Rightarrow> cldma_ctrl"
  cldma_fault :: bool

text \<open>The functions of the port layer that receive a packet: queue, number, packet.\<close>

type_synonym 'z port_recv =
  "recv_fn \<Rightarrow> cldma_id \<Rightarrow> nat \<Rightarrow> cskb \<Rightarrow> ('z cldma_layer_scheme, errno + unit) state"

section \<open>Access\<close>

definition get_cl :: "cldma_id \<Rightarrow> (cldma_ctrl \<Rightarrow> 'a) \<Rightarrow> ('z cldma_layer_scheme, 'a) state" where
  "get_cl c f = gets (\<lambda>s. f (md_ctrl s c))"

definition upd_cl :: "cldma_id \<Rightarrow> (cldma_ctrl \<Rightarrow> cldma_ctrl) \<Rightarrow> ('z cldma_layer_scheme, unit) state" where
  "upd_cl c f = modify (\<lambda>s. s\<lparr>md_ctrl := (md_ctrl s)(c := f (md_ctrl s c))\<rparr>)"

definition queue_of :: "mtk_txrx \<Rightarrow> nat \<Rightarrow> cldma_ctrl \<Rightarrow> cldma_queue" where
  "queue_of d i x = (case d of MTK_TX \<Rightarrow> cl_txq x i | MTK_RX \<Rightarrow> cl_rxq x i)"

definition ring_of :: "mtk_txrx \<Rightarrow> nat \<Rightarrow> cldma_ctrl \<Rightarrow> cldma_ring" where
  "ring_of d i x = (case d of MTK_TX \<Rightarrow> tx_ring x i | MTK_RX \<Rightarrow> rx_ring x i)"

definition upd_q ::
  "cldma_id \<Rightarrow> mtk_txrx \<Rightarrow> nat \<Rightarrow> (cldma_queue \<Rightarrow> cldma_queue) \<Rightarrow> ('z cldma_layer_scheme, unit) state"
where
  "upd_q c d i f = upd_cl c (\<lambda>x. case d of
     MTK_TX \<Rightarrow> x\<lparr>cl_txq := (cl_txq x)(i := f (cl_txq x i))\<rparr>
   | MTK_RX \<Rightarrow> x\<lparr>cl_rxq := (cl_rxq x)(i := f (cl_rxq x i))\<rparr>)"

definition upd_ring ::
  "cldma_id \<Rightarrow> mtk_txrx \<Rightarrow> nat \<Rightarrow> (cldma_ring \<Rightarrow> cldma_ring) \<Rightarrow> ('z cldma_layer_scheme, unit) state"
where
  "upd_ring c d i f = upd_cl c (\<lambda>x. case d of
     MTK_TX \<Rightarrow> x\<lparr>tx_ring := (tx_ring x)(i := f (tx_ring x i))\<rparr>
   | MTK_RX \<Rightarrow> x\<lparr>rx_ring := (rx_ring x)(i := f (rx_ring x i))\<rparr>)"

definition fault :: "('z cldma_layer_scheme, unit) state" where
  "fault = modify (\<lambda>s. s\<lparr>cldma_fault := True\<rparr>)"

definition zero_gpd :: cldma_gpd where
  "zero_gpd = \<lparr>gpd_flags = 0, rx_data_allow_len = 0, next_gpd_ptr_h = 0, next_gpd_ptr_l = 0,
     data_buff_bd_ptr_h = 0, data_buff_bd_ptr_l = 0, data_buff_len = 0\<rparr>"

definition zero_req :: "dma_addr \<Rightarrow> cldma_request" where
  "zero_req a = \<lparr>req_gpd = zero_gpd, gpd_addr = a, req_skb = None, mapped_buff = 0\<rparr>"

text \<open>The request behind a pointer, and an update through a pointer.\<close>

definition get_req ::
  "cldma_id \<Rightarrow> mtk_txrx \<Rightarrow> nat \<Rightarrow> nat option \<Rightarrow> ('z cldma_layer_scheme, cldma_request) state" where
  "get_req c d i p = do {
     r \<leftarrow> get_cl c (\<lambda>x. gpd_ring (ring_of d i x));
     case p of
       Some k \<Rightarrow> if k < length r then return (r ! k) else do { fault; return (zero_req 0) }
     | None \<Rightarrow> do { fault; return (zero_req 0) }
   }"

definition upd_req ::
  "cldma_id \<Rightarrow> mtk_txrx \<Rightarrow> nat \<Rightarrow> nat option \<Rightarrow> (cldma_request \<Rightarrow> cldma_request) \<Rightarrow>
   ('z cldma_layer_scheme, unit) state" where
  "upd_req c d i p f = do {
     r \<leftarrow> get_cl c (\<lambda>x. gpd_ring (ring_of d i x));
     case p of
       Some k \<Rightarrow> if k < length r then upd_ring c d i (\<lambda>g. g\<lparr>gpd_ring := r[k := f (r ! k)]\<rparr>) else fault
     | None \<Rightarrow> fault
   }"

text \<open>\<open>list_next_entry_circular\<close> and \<open>list_prev_entry_circular\<close> on a ring of \<open>n\<close> requests.\<close>

definition next_circular :: "nat \<Rightarrow> nat option \<Rightarrow> nat option" where
  "next_circular n p = map_option (\<lambda>k. (k + 1) mod n) p"

definition prev_circular :: "nat \<Rightarrow> nat option \<Rightarrow> nat option" where
  "prev_circular n p = map_option (\<lambda>k. (k + n - 1) mod n) p"

section \<open>Descriptors\<close>

definition md_cd_queue_struct_reset ::
  "cldma_id \<Rightarrow> mtk_txrx \<Rightarrow> nat \<Rightarrow> ('z cldma_layer_scheme, unit) state" where
  "md_cd_queue_struct_reset c d i =
     upd_q c d i (\<lambda>q. q\<lparr>tr_ring := False, tr_done := None, tx_next := None\<rparr>)"

definition md_cd_queue_struct_init ::
  "cldma_id \<Rightarrow> mtk_txrx \<Rightarrow> nat \<Rightarrow> ('z cldma_layer_scheme, unit) state" where
  "md_cd_queue_struct_init c d i = do {
     md_cd_queue_struct_reset c d i;
     kcall ''init_waitqueue_head req_wq'' []
   }"

definition t7xx_cldma_gpd_set_data_ptr :: "dma_addr \<Rightarrow> cldma_gpd \<Rightarrow> cldma_gpd" where
  "t7xx_cldma_gpd_set_data_ptr a g =
     g\<lparr>data_buff_bd_ptr_h := upper_32_bits a, data_buff_bd_ptr_l := lower_32_bits a\<rparr>"

definition t7xx_cldma_gpd_set_next_ptr :: "dma_addr \<Rightarrow> cldma_gpd \<Rightarrow> cldma_gpd" where
  "t7xx_cldma_gpd_set_next_ptr a g =
     g\<lparr>next_gpd_ptr_h := upper_32_bits a, next_gpd_ptr_l := lower_32_bits a\<rparr>"

definition upd_gpd :: "(cldma_gpd \<Rightarrow> cldma_gpd) \<Rightarrow> cldma_request \<Rightarrow> cldma_request" where
  "upd_gpd f r = r\<lparr>req_gpd := f (req_gpd r)\<rparr>"

definition hwo :: "cldma_gpd \<Rightarrow> bool" where
  "hwo g \<longleftrightarrow> gpd_flags g AND GPD_FLAGS_HWO \<noteq> 0"

text \<open>What the device did to a descriptor it owned.\<close>

definition sync_gpd ::
  "cldma_id \<Rightarrow> mtk_txrx \<Rightarrow> nat \<Rightarrow> nat option \<Rightarrow> ('z cldma_layer_scheme, unit) state" where
  "sync_gpd c d i p = do {
     r \<leftarrow> get_req c d i p;
     c_when (hwo (req_gpd r)) (do {
       owned \<leftarrow> kquery ''gpd->flags & HWO'' [gpd_addr r];
       c_when (owned = 0) (do {
         upd_req c d i p (upd_gpd (\<lambda>g. g\<lparr>gpd_flags := gpd_flags g AND NOT GPD_FLAGS_HWO\<rparr>));
         c_when (d = MTK_RX) (do {
           len \<leftarrow> kquery ''gpd->data_buff_len'' [gpd_addr r];
           upd_req c d i p (upd_gpd (\<lambda>g. g\<lparr>data_buff_len := ucast len\<rparr>))
         })
       })
     })
   }"

text \<open>\<open>n\<close> bytes of memory from address \<open>a\<close> on.\<close>

primrec read_mem :: "u64 \<Rightarrow> nat \<Rightarrow> ('z io_scheme, u8 list) state" where
  "read_mem a 0 = return []"
| "read_mem a (Suc n) = do {
     v \<leftarrow> kquery ''mem'' [a];
     vs \<leftarrow> read_mem (a + 1) n;
     return (ucast v # vs)
   }"

abbreviation dev_kfree_cskb :: "cskb option \<Rightarrow> ('z io_scheme, unit) state" where
  "dev_kfree_cskb s \<equiv> (case s of Some b \<Rightarrow> dev_kfree_skb (cskb_ptr b) | None \<Rightarrow> return ())"

definition t7xx_cldma_alloc_and_map_skb ::
  "cldma_request \<Rightarrow> nat \<Rightarrow> ('z io_scheme, (errno + unit) \<times> cldma_request) state" where
  "t7xx_cldma_alloc_and_map_skb req sz = do {
     p \<leftarrow> kquery ''__dev_alloc_skb'' [of_nat sz];
     if p = 0 then return (Inl ENOMEM, req\<lparr>req_skb := None\<rparr>) else do {
       a \<leftarrow> dma_map_single p (of_nat sz);
       if dma_mapping_error a then do {
         dev_kfree_skb p;
         return (Inl ENOMEM, req\<lparr>req_skb := None, mapped_buff := 0\<rparr>)
       } else return (Inr (), req\<lparr>req_skb := Some \<lparr>cskb_ptr = p, cskb_size = sz, cskb_bytes = []\<rparr>,
         mapped_buff := a\<rparr>)
     }
   }"

section \<open>Receiving\<close>

definition t7xx_cldma_default_recv_skb :: "cskb \<Rightarrow> ('z io_scheme, errno + unit) state" where
  "t7xx_cldma_default_recv_skb skb = do { dev_kfree_skb (cskb_ptr skb); return (Inr ()) }"

text \<open>\<open>queue->recv_skb(queue, skb)\<close>.\<close>

definition queue_recv_skb ::
  "'z port_recv \<Rightarrow> cldma_id \<Rightarrow> nat \<Rightarrow> cskb \<Rightarrow> ('z cldma_layer_scheme, errno + unit) state" where
  "queue_recv_skb recv c i skb = do {
     f \<leftarrow> get_cl c (\<lambda>x. recv_skb (cl_rxq x i));
     if f = RECV_DEFAULT then t7xx_cldma_default_recv_skb skb else recv f c i skb
   }"

text \<open>
  One packet: the data of the request at \<open>p\<close> are handed to the receiver. If it takes them, the
  request \<open>rx_refill\<close> points to gets a fresh buffer.
\<close>

definition rx_deliver ::
  "'z port_recv \<Rightarrow> cldma_id \<Rightarrow> nat \<Rightarrow> nat option \<Rightarrow> cldma_request \<Rightarrow>
   ('z cldma_layer_scheme, errno + unit) state" where
  "rx_deliver recv c i p req = do {
     sz \<leftarrow> get_cl c (\<lambda>x. pkt_size (rx_ring x i));
     c_when (mapped_buff req \<noteq> 0) (do {
       dma_unmap_single (mapped_buff req) (of_nat sz);
       upd_req c MTK_RX i p (\<lambda>r. r\<lparr>mapped_buff := 0\<rparr>)
     });
     let skb = the (req_skb req);
     let len = unat (data_buff_len (req_gpd req));
     c_when (cskb_size skb < len) fault;
     bytes \<leftarrow> read_mem (cskb_ptr skb) len;
     let skb = skb\<lparr>cskb_bytes := bytes\<rparr>;
     upd_req c MTK_RX i p (\<lambda>r. r\<lparr>req_skb := Some skb\<rparr>);
     queue_recv_skb recv c i skb
   }"

definition rx_renew :: "cldma_id \<Rightarrow> nat \<Rightarrow> ('z cldma_layer_scheme, errno + unit) state" where
  "rx_renew c i = do {
     f \<leftarrow> get_cl c (\<lambda>x. rx_refill (cl_rxq x i));
     sz \<leftarrow> get_cl c (\<lambda>x. pkt_size (rx_ring x i));
     req \<leftarrow> get_req c MTK_RX i f;
     (ret, req) \<leftarrow> t7xx_cldma_alloc_and_map_skb req sz;
     upd_req c MTK_RX i f (\<lambda>_. req);
     if isl ret then return ret else do {
       upd_req c MTK_RX i f (upd_gpd (\<lambda>g. (t7xx_cldma_gpd_set_data_ptr (mapped_buff req) g)
         \<lparr>data_buff_len := 0, gpd_flags := GPD_FLAGS_IOC OR GPD_FLAGS_HWO\<rparr>));
       n \<leftarrow> get_cl c (\<lambda>x. length (gpd_ring (rx_ring x i)));
       upd_q c MTK_RX i (\<lambda>q. q\<lparr>rx_refill := next_circular n f\<rparr>);
       return (Inr ())
     }
   }"

definition rx_one ::
  "'z port_recv \<Rightarrow> cldma_id \<Rightarrow> nat \<Rightarrow> nat option \<Rightarrow> cldma_request \<Rightarrow>
   ('z cldma_layer_scheme, errno + unit) state" where
  "rx_one recv c i p req = do {
     ret \<leftarrow> rx_deliver recv c i p req;
     if isl ret then return ret else do {
       upd_req c MTK_RX i p (\<lambda>r. upd_gpd (t7xx_cldma_gpd_set_data_ptr 0) (r\<lparr>req_skb := None\<rparr>));
       n \<leftarrow> get_cl c (\<lambda>x. length (gpd_ring (rx_ring x i)));
       upd_q c MTK_RX i (\<lambda>q. q\<lparr>tr_done := next_circular n p\<rparr>);
       rx_renew c i
     }
   }"

text \<open>
  The loop of \<open>t7xx_cldma_gpd_rx_from_q\<close>: it goes on for as long as the device delivers and
  no one else needs the processor, so it has fuel, and \<open>None\<close> for running out. The result on
  success is \<open>over_budget\<close>.
\<close>

primrec t7xx_cldma_gpd_rx_from_q ::
  "'z port_recv \<Rightarrow> cldma_id \<Rightarrow> nat \<Rightarrow> int \<Rightarrow> nat \<Rightarrow> nat \<Rightarrow> nat \<Rightarrow>
   ('z cldma_layer_scheme, (errno + bool) option) state" where
  "t7xx_cldma_gpd_rx_from_q recv c i bud 0 hwo_polling_count cnt = return None"
| "t7xx_cldma_gpd_rx_from_q recv c i bud (Suc fuel) hwo_polling_count cnt = do {
     p \<leftarrow> get_cl c (\<lambda>x. tr_done (cl_rxq x i));
     if p = None then return (Some (Inl ENODATA)) else do {
       sync_gpd c MTK_RX i p;
       req \<leftarrow> get_req c MTK_RX i p;
       if hwo (req_gpd req) \<or> req_skb req = None then do {
         present \<leftarrow> kquery ''pci_device_is_present'' [];
         if present = 0 then return (Some (Inl ENODEV)) else do {
           hw \<leftarrow> get_cl c hw_info;
           a \<leftarrow> ioread64_lo_hi (ap_pdn_base hw + REG_CLDMA_DL_CURRENT_ADDRL_0 + of_nat i * 8);
           if gpd_addr req = a \<or> 100 \<le> hwo_polling_count then return (Some (Inr False)) else do {
             kcall ''udelay'' [1];
             t7xx_cldma_gpd_rx_from_q recv c i bud fuel (hwo_polling_count + 1) cnt
           }
         }
       } else do {
         ret \<leftarrow> rx_one recv c i p req;
         case ret of
           Inl e \<Rightarrow> return (Some (Inl e))
         | Inr _ \<Rightarrow> do {
             go_on \<leftarrow> (if int (cnt + 1) < bud then return True
               else do { v \<leftarrow> kquery ''need_resched'' []; return (v = 0) });
             if go_on then t7xx_cldma_gpd_rx_from_q recv c i bud fuel 0 (cnt + 1)
             else return (Some (Inr True))
           }
       }
     }
   }"

primrec t7xx_cldma_gpd_rx_collect ::
  "'z port_recv \<Rightarrow> cldma_id \<Rightarrow> nat \<Rightarrow> int \<Rightarrow> nat \<Rightarrow> bool \<Rightarrow>
   ('z cldma_layer_scheme, (errno + unit) option) state" where
  "t7xx_cldma_gpd_rx_collect recv c i bud 0 over_budget = return None"
| "t7xx_cldma_gpd_rx_collect recv c i bud (Suc fuel) over_budget = do {
     r \<leftarrow> t7xx_cldma_gpd_rx_from_q recv c i bud (Suc fuel) 0 0;
     case r of
       None \<Rightarrow> return None
     | Some (Inl e) \<Rightarrow> return (Some (if e = ENODATA then Inr () else Inl e))
     | Some (Inr over) \<Rightarrow> do {
         hw \<leftarrow> get_cl c hw_info;
         act \<leftarrow> get_cl c rxq_active;
         if act AND BIT i = 0 then return (Some (Inr ())) else do {
           st \<leftarrow> t7xx_cldma_hw_queue_status hw (of_nat i) MTK_RX;
           c_when (st = 0) (t7xx_cldma_hw_resume_queue hw (of_nat i) MTK_RX);
           pending_rx_int \<leftarrow> t7xx_cldma_hw_int_status hw (BIT i) MTK_RX;
           if pending_rx_int = 0 then return (Some (Inr ())) else do {
             t7xx_cldma_hw_rx_done hw pending_rx_int;
             if over_budget \<or> over then return (Some (Inl EAGAIN))
             else t7xx_cldma_gpd_rx_collect recv c i bud fuel (over_budget \<or> over)
           }
         }
       }
   }"

text \<open>The arguments of \<open>queue_work\<close> and \<open>flush_work\<close>: engine, direction, number of the queue.\<close>

definition work_of :: "cldma_id \<Rightarrow> mtk_txrx \<Rightarrow> nat \<Rightarrow> u64 list" where
  "work_of c d i =
     [if c = CLDMA_ID_MD then 0 else 1, if d = MTK_TX then 0 else 1, of_nat i]"

definition t7xx_cldma_rx_done ::
  "'z port_recv \<Rightarrow> nat \<Rightarrow> cldma_id \<Rightarrow> nat \<Rightarrow> ('z cldma_layer_scheme, unit option) state" where
  "t7xx_cldma_rx_done recv fuel c i = do {
     bud \<leftarrow> get_cl c (\<lambda>x. budget (cl_rxq x i));
     r \<leftarrow> t7xx_cldma_gpd_rx_collect recv c i bud fuel False;
     case r of
       None \<Rightarrow> return None
     | Some val \<Rightarrow> do {
         act \<leftarrow> get_cl c rxq_active;
         (if isl val \<and> act AND BIT i \<noteq> 0 then kcall ''queue_work'' (work_of c MTK_RX i)
         else do {
           hw \<leftarrow> get_cl c hw_info;
           t7xx_cldma_clear_ip_busy hw;
           t7xx_cldma_hw_irq_en_txrx hw (of_nat i) MTK_RX;
           t7xx_cldma_hw_irq_en_eq hw (of_nat i) MTK_RX;
           kcall ''pm_runtime_mark_last_busy'' [];
           kcall ''pm_runtime_put_autosuspend'' []
         });
         return (Some ())
       }
   }"

section \<open>Finished transmissions\<close>

text \<open>
  A round of \<open>t7xx_cldma_gpd_tx_collect\<close> empties the request \<open>tr_done\<close> points to, so that
  \<open>Suc n\<close> rounds are enough for a ring of \<open>n\<close> requests (\<open>tx_collect_enough\<close> in
  \<open>Cldma_Ring\<close>).
\<close>

primrec tx_collect_loop :: "cldma_id \<Rightarrow> nat \<Rightarrow> nat \<Rightarrow> nat \<Rightarrow> ('z cldma_layer_scheme, nat) state" where
  "tx_collect_loop c i 0 count = return count"
| "tx_collect_loop c i (Suc fuel) count = do {
     stop \<leftarrow> kquery ''kthread_should_stop'' [];
     p \<leftarrow> get_cl c (\<lambda>x. tr_done (cl_txq x i));
     if stop \<noteq> 0 \<or> p = None then return count else do {
       sync_gpd c MTK_TX i p;
       req \<leftarrow> get_req c MTK_TX i p;
       case req_skb req of
         None \<Rightarrow> return count
       | Some skb \<Rightarrow> if hwo (req_gpd req) then return count else do {
           upd_q c MTK_TX i (\<lambda>q. q\<lparr>budget := budget q + 1\<rparr>);
           upd_req c MTK_TX i p (\<lambda>r. r\<lparr>req_skb := None\<rparr>);
           n \<leftarrow> get_cl c (\<lambda>x. length (gpd_ring (tx_ring x i)));
           upd_q c MTK_TX i (\<lambda>q. q\<lparr>tr_done := next_circular n p\<rparr>);
           dma_unmap_single (mapped_buff req) (ucast (data_buff_len (req_gpd req)));
           dev_kfree_skb (cskb_ptr skb);
           tx_collect_loop c i fuel (count + 1)
         }
     }
   }"

definition t7xx_cldma_gpd_tx_collect :: "cldma_id \<Rightarrow> nat \<Rightarrow> ('z cldma_layer_scheme, nat) state" where
  "t7xx_cldma_gpd_tx_collect c i = do {
     n \<leftarrow> get_cl c (\<lambda>x. length (gpd_ring (tx_ring x i)));
     count \<leftarrow> tx_collect_loop c i (Suc n) 0;
     c_when (count \<noteq> 0) (kcall ''wake_up_nr req_wq'' (work_of c MTK_TX i @ [of_nat count]));
     return count
   }"

definition t7xx_cldma_txq_empty_hndl :: "cldma_id \<Rightarrow> nat \<Rightarrow> ('z cldma_layer_scheme, unit) state" where
  "t7xx_cldma_txq_empty_hndl c i = do {
     act \<leftarrow> get_cl c txq_active;
     if act AND BIT i = 0 then return () else do {
       n \<leftarrow> get_cl c (\<lambda>x. length (gpd_ring (tx_ring x i)));
       nxt \<leftarrow> get_cl c (\<lambda>x. tx_next (cl_txq x i));
       let p = prev_circular n nxt;
       sync_gpd c MTK_TX i p;
       req \<leftarrow> get_req c MTK_TX i p;
       c_when (hwo (req_gpd req) \<and> req_skb req \<noteq> None) (do {
         hw \<leftarrow> get_cl c hw_info;
         a \<leftarrow> ioread64_lo_hi (ap_pdn_base hw + REG_CLDMA_UL_CURRENT_ADDRL_0 + of_nat i * 8);
         c_when (gpd_addr req = a) (t7xx_cldma_hw_resume_queue hw (of_nat i) MTK_TX)
       })
     }
   }"

definition t7xx_cldma_tx_done :: "cldma_id \<Rightarrow> nat \<Rightarrow> ('z cldma_layer_scheme, unit) state" where
  "t7xx_cldma_tx_done c i = do {
     hw \<leftarrow> get_cl c hw_info;
     t7xx_cldma_gpd_tx_collect c i;
     l2_tx_int \<leftarrow> t7xx_cldma_hw_int_status hw (BIT i OR EQ_STA_BIT i) MTK_TX;
     c_when (l2_tx_int AND EQ_STA_BIT i \<noteq> 0) (do {
       t7xx_cldma_hw_tx_done hw (EQ_STA_BIT i);
       t7xx_cldma_txq_empty_hndl c i
     });
     if l2_tx_int AND BIT i \<noteq> 0 then do {
       t7xx_cldma_hw_tx_done hw (BIT i);
       kcall ''queue_work'' (work_of c MTK_TX i)
     } else do {
       act \<leftarrow> get_cl c txq_active;
       c_when (act AND BIT i \<noteq> 0) (do {
         t7xx_cldma_clear_ip_busy hw;
         t7xx_cldma_hw_irq_en_eq hw (of_nat i) MTK_TX;
         t7xx_cldma_hw_irq_en_txrx hw (of_nat i) MTK_TX
       });
       kcall ''pm_runtime_mark_last_busy'' [];
       kcall ''pm_runtime_put_autosuspend'' []
     }
   }"

section \<open>Setting up and tearing down rings\<close>

definition t7xx_cldma_ring_free ::
  "cldma_id \<Rightarrow> mtk_txrx \<Rightarrow> nat \<Rightarrow> ('z cldma_layer_scheme, unit) state" where
  "t7xx_cldma_ring_free c d i = do {
     ring \<leftarrow> get_cl c (ring_of d i);
     for_each (gpd_ring ring) (\<lambda>req. do {
       c_when (mapped_buff req \<noteq> 0 \<and> req_skb req \<noteq> None)
         (dma_unmap_single (mapped_buff req) (of_nat (pkt_size ring)));
       dev_kfree_cskb (req_skb req);
       kcall ''dma_pool_free'' [gpd_addr req]
     });
     upd_ring c d i (\<lambda>g. g\<lparr>gpd_ring := []\<rparr>)
   }"

text \<open>A request and its descriptor; the bus address 0 stands for a failed allocation.\<close>

definition t7xx_alloc_tx_request :: "('z io_scheme, cldma_request option) state" where
  "t7xx_alloc_tx_request = do {
     req \<leftarrow> kquery ''kzalloc req'' [];
     if req = 0 then return None else do {
       a \<leftarrow> kquery ''dma_pool_zalloc'' [];
       if a = 0 then do { kcall ''kfree'' [req]; return None } else return (Some (zero_req a))
     }
   }"

definition t7xx_alloc_rx_request :: "nat \<Rightarrow> ('z io_scheme, cldma_request option) state" where
  "t7xx_alloc_rx_request sz = do {
     req \<leftarrow> kquery ''kzalloc req'' [];
     if req = 0 then return None else do {
       a \<leftarrow> kquery ''dma_pool_zalloc'' [];
       if a = 0 then do { kcall ''kfree'' [req]; return None } else do {
         (val, r) \<leftarrow> t7xx_cldma_alloc_and_map_skb (zero_req a) sz;
         if isl val then do { kcall ''dma_pool_free'' [a]; kcall ''kfree'' [req]; return None }
         else return (Some r)
       }
     }
   }"

text \<open>Each descriptor is linked to the next, the last one (where \<open>gpd\<close> stands first) to the first.\<close>

primrec link_ring ::
  "cldma_id \<Rightarrow> mtk_txrx \<Rightarrow> nat \<Rightarrow> nat list \<Rightarrow> nat \<Rightarrow> ('z cldma_layer_scheme, unit) state" where
  "link_ring c d i [] gpd = return ()"
| "link_ring c d i (j # js) gpd = do {
     req \<leftarrow> get_req c d i (Some j);
     upd_req c d i (Some gpd) (upd_gpd (t7xx_cldma_gpd_set_next_ptr (gpd_addr req)));
     link_ring c d i js j
   }"

primrec rx_ring_fill :: "cldma_id \<Rightarrow> nat \<Rightarrow> nat \<Rightarrow> ('z cldma_layer_scheme, errno + unit) state" where
  "rx_ring_fill c i 0 = return (Inr ())"
| "rx_ring_fill c i (Suc k) = do {
     sz \<leftarrow> get_cl c (\<lambda>x. pkt_size (rx_ring x i));
     r \<leftarrow> t7xx_alloc_rx_request sz;
     case r of
       None \<Rightarrow> do { t7xx_cldma_ring_free c MTK_RX i; return (Inl ENOMEM) }
     | Some req \<Rightarrow> do {
         let req = upd_gpd (\<lambda>g. (t7xx_cldma_gpd_set_data_ptr (mapped_buff req) g)
           \<lparr>rx_data_allow_len := of_nat sz, gpd_flags := GPD_FLAGS_IOC OR GPD_FLAGS_HWO\<rparr>) req;
         upd_ring c MTK_RX i (\<lambda>g. g\<lparr>gpd_ring := gpd_ring g @ [req]\<rparr>);
         rx_ring_fill c i k
       }
   }"

definition t7xx_cldma_rx_ring_init ::
  "cldma_id \<Rightarrow> nat \<Rightarrow> ('z cldma_layer_scheme, errno + unit) state" where
  "t7xx_cldma_rx_ring_init c i = do {
     upd_ring c MTK_RX i (\<lambda>g. g\<lparr>gpd_ring := [], ring_length := MAX_RX_BUDGET\<rparr>);
     ret \<leftarrow> rx_ring_fill c i MAX_RX_BUDGET;
     if isl ret then return ret else do {
       link_ring c MTK_RX i [0..<MAX_RX_BUDGET] (MAX_RX_BUDGET - 1);
       return (Inr ())
     }
   }"

primrec tx_ring_fill :: "cldma_id \<Rightarrow> nat \<Rightarrow> nat \<Rightarrow> ('z cldma_layer_scheme, errno + unit) state" where
  "tx_ring_fill c i 0 = return (Inr ())"
| "tx_ring_fill c i (Suc k) = do {
     r \<leftarrow> t7xx_alloc_tx_request;
     case r of
       None \<Rightarrow> do { t7xx_cldma_ring_free c MTK_TX i; return (Inl ENOMEM) }
     | Some req \<Rightarrow> do {
         let req = upd_gpd (\<lambda>g. g\<lparr>gpd_flags := GPD_FLAGS_IOC\<rparr>) req;
         upd_ring c MTK_TX i (\<lambda>g. g\<lparr>gpd_ring := gpd_ring g @ [req]\<rparr>);
         tx_ring_fill c i k
       }
   }"

definition t7xx_cldma_tx_ring_init ::
  "cldma_id \<Rightarrow> nat \<Rightarrow> ('z cldma_layer_scheme, errno + unit) state" where
  "t7xx_cldma_tx_ring_init c i = do {
     upd_ring c MTK_TX i (\<lambda>g. g\<lparr>gpd_ring := [], ring_length := MAX_TX_BUDGET\<rparr>);
     ret \<leftarrow> tx_ring_fill c i MAX_TX_BUDGET;
     if isl ret then return ret else do {
       link_ring c MTK_TX i [0..<MAX_TX_BUDGET] (MAX_TX_BUDGET - 1);
       return (Inr ())
     }
   }"

definition t7xx_cldma_q_reset :: "cldma_id \<Rightarrow> mtk_txrx \<Rightarrow> nat \<Rightarrow> ('z cldma_layer_scheme, unit) state" where
  "t7xx_cldma_q_reset c d i = do {
     q \<leftarrow> get_cl c (queue_of d i);
     ring \<leftarrow> get_cl c (ring_of d i);
     c_when (\<not> tr_ring q \<or> gpd_ring ring = []) fault;
     upd_q c d i (\<lambda>q. q\<lparr>tr_done := Some 0, budget := int (ring_length ring)\<rparr>);
     upd_q c d i (\<lambda>q. if d = MTK_TX then q\<lparr>tx_next := Some 0\<rparr> else q\<lparr>rx_refill := Some 0\<rparr>)
   }"

definition t7xx_cldma_rxq_init :: "cldma_id \<Rightarrow> nat \<Rightarrow> ('z cldma_layer_scheme, unit) state" where
  "t7xx_cldma_rxq_init c i = do {
     upd_q c MTK_RX i (\<lambda>q. q\<lparr>tr_ring := True\<rparr>);
     t7xx_cldma_q_reset c MTK_RX i
   }"

definition t7xx_cldma_txq_init :: "cldma_id \<Rightarrow> nat \<Rightarrow> ('z cldma_layer_scheme, unit) state" where
  "t7xx_cldma_txq_init c i = do {
     upd_q c MTK_TX i (\<lambda>q. q\<lparr>tr_ring := True\<rparr>);
     t7xx_cldma_q_reset c MTK_TX i
   }"

section \<open>Interrupts\<close>

definition t7xx_cldma_enable_irq :: "cldma_id \<Rightarrow> ('z cldma_layer_scheme, unit) state" where
  "t7xx_cldma_enable_irq c = do {
     hw \<leftarrow> get_cl c hw_info;
     t7xx_pcie_mac_set_int (phy_interrupt_id hw)
   }"

definition t7xx_cldma_disable_irq :: "cldma_id \<Rightarrow> ('z cldma_layer_scheme, unit) state" where
  "t7xx_cldma_disable_irq c = do {
     hw \<leftarrow> get_cl c hw_info;
     t7xx_pcie_mac_clear_int (phy_interrupt_id hw)
   }"

text \<open>Reading a level 3 status register and writing back what was read.\<close>

definition read_and_clear :: "iomem \<Rightarrow> ('z io_scheme, unit) state" where
  "read_and_clear a = do { val \<leftarrow> ioread32 a; iowrite32 val a }"

text \<open>A queue whose interrupt came: mask it and leave the rest to its work item.\<close>

definition irq_queue :: "cldma_id \<Rightarrow> mtk_txrx \<Rightarrow> nat \<Rightarrow> ('z cldma_layer_scheme, unit) state" where
  "irq_queue c d i = do {
     hw \<leftarrow> get_cl c hw_info;
     kcall ''pm_runtime_get'' [];
     t7xx_cldma_hw_irq_dis_eq hw (of_nat i) d;
     t7xx_cldma_hw_irq_dis_txrx hw (of_nat i) d;
     kcall ''queue_work'' (work_of c d i)
   }"

definition t7xx_cldma_irq_work_cb :: "cldma_id \<Rightarrow> ('z cldma_layer_scheme, unit) state" where
  "t7xx_cldma_irq_work_cb c = do {
     hw \<leftarrow> get_cl c hw_info;
     l2_tx_int \<leftarrow> ioread32 (ap_pdn_base hw + REG_CLDMA_L2TISAR0);
     l2_rx_int \<leftarrow> ioread32 (ap_pdn_base hw + REG_CLDMA_L2RISAR0);
     l2_tx_int_msk \<leftarrow> ioread32 (ap_pdn_base hw + REG_CLDMA_L2TIMR0);
     l2_rx_int_msk \<leftarrow> ioread32 (ap_ao_base hw + REG_CLDMA_L2RIMR0);
     let l2_tx_int = l2_tx_int AND NOT l2_tx_int_msk;
     let l2_rx_int = l2_rx_int AND NOT l2_rx_int_msk;
     c_when (l2_tx_int \<noteq> 0) (do {
       c_when (l2_tx_int AND (TQ_ERR_INT_BITMASK OR TQ_ACTIVE_START_ERR_INT_BITMASK) \<noteq> 0) (do {
         read_and_clear (ap_pdn_base hw + REG_CLDMA_L3TISAR0);
         read_and_clear (ap_pdn_base hw + REG_CLDMA_L3TISAR1)
       });
       t7xx_cldma_hw_tx_done hw l2_tx_int;
       c_when (l2_tx_int AND (TXRX_STATUS_BITMASK OR EMPTY_STATUS_BITMASK) \<noteq> 0)
         (for_each (filter (bit l2_tx_int) [0..<L2_INT_BIT_COUNT]) (\<lambda>i.
            if i < CLDMA_TXQ_NUM then irq_queue c MTK_TX i
            else t7xx_cldma_txq_empty_hndl c (i - CLDMA_TXQ_NUM)))
     });
     c_when (l2_rx_int \<noteq> 0) (do {
       c_when (l2_rx_int AND (RQ_ERR_INT_BITMASK OR RQ_ACTIVE_START_ERR_INT_BITMASK) \<noteq> 0) (do {
         read_and_clear (ap_pdn_base hw + REG_CLDMA_L3RISAR0);
         read_and_clear (ap_pdn_base hw + REG_CLDMA_L3RISAR1)
       });
       t7xx_cldma_hw_rx_done hw l2_rx_int;
       c_when (l2_rx_int AND (TXRX_STATUS_BITMASK OR EMPTY_STATUS_BITMASK) \<noteq> 0)
         (for_each (filter (bit (l2_rx_int OR drop_bit CLDMA_RXQ_NUM l2_rx_int)) [0..<CLDMA_RXQ_NUM])
           (irq_queue c MTK_RX))
     })
   }"

definition t7xx_cldma_isr_handler :: "cldma_id \<Rightarrow> ('z cldma_layer_scheme, unit) state" where
  "t7xx_cldma_isr_handler c = do {
     hw \<leftarrow> get_cl c hw_info;
     let interrupt = phy_interrupt_id hw;
     t7xx_pcie_mac_clear_int interrupt;
     t7xx_cldma_irq_work_cb c;
     t7xx_pcie_mac_clear_int_status interrupt;
     t7xx_pcie_mac_set_int interrupt
   }"

section \<open>Start and stop\<close>

definition t7xx_cldma_qs_are_active :: "cldma_id \<Rightarrow> ('z cldma_layer_scheme, bool) state" where
  "t7xx_cldma_qs_are_active c = do {
     hw \<leftarrow> get_cl c hw_info;
     present \<leftarrow> kquery ''pci_device_is_present'' [];
     if present = 0 then return False else do {
       tx_active \<leftarrow> t7xx_cldma_hw_queue_status hw CLDMA_ALL_Q MTK_TX;
       rx_active \<leftarrow> t7xx_cldma_hw_queue_status hw CLDMA_ALL_Q MTK_RX;
       return (tx_active \<noteq> 0 \<or> rx_active \<noteq> 0)
     }
   }"

definition t7xx_cldma_stop :: "cldma_id \<Rightarrow> ('z cldma_layer_scheme, errno + unit) state" where
  "t7xx_cldma_stop c = do {
     hw \<leftarrow> get_cl c hw_info;
     upd_cl c (\<lambda>x. x\<lparr>rxq_active := 0\<rparr>);
     t7xx_cldma_hw_stop_all_qs hw MTK_RX;
     upd_cl c (\<lambda>x. x\<lparr>txq_active := 0\<rparr>);
     t7xx_cldma_hw_stop_all_qs hw MTK_TX;
     upd_cl c (\<lambda>x. x\<lparr>txq_started := 0\<rparr>);
     t7xx_cldma_disable_irq c;
     t7xx_cldma_hw_stop hw MTK_RX;
     t7xx_cldma_hw_stop hw MTK_TX;
     t7xx_cldma_hw_tx_done hw CLDMA_L2TISAR0_ALL_INT_MASK;
     t7xx_cldma_hw_rx_done hw CLDMA_L2RISAR0_ALL_INT_MASK;
     late \<leftarrow> get_cl c is_late_init;
     c_when late (do {
       for_each [0..<CLDMA_TXQ_NUM] (\<lambda>i. kcall ''flush_work'' (work_of c MTK_TX i));
       for_each [0..<CLDMA_RXQ_NUM] (\<lambda>i. kcall ''flush_work'' (work_of c MTK_RX i))
     });
     read_poll_timeout (t7xx_cldma_qs_are_active c) (\<lambda>active. \<not> active)
       (of_nat CHECK_Q_STOP_STEP_US) (of_nat CHECK_Q_STOP_TIMEOUT_US)
   }"

definition t7xx_cldma_late_release :: "cldma_id \<Rightarrow> ('z cldma_layer_scheme, unit) state" where
  "t7xx_cldma_late_release c = do {
     late \<leftarrow> get_cl c is_late_init;
     if \<not> late then return () else do {
       for_each [0..<CLDMA_TXQ_NUM] (t7xx_cldma_ring_free c MTK_TX);
       for_each [0..<CLDMA_RXQ_NUM] (t7xx_cldma_ring_free c MTK_RX);
       pool \<leftarrow> get_cl c gpd_dmapool;
       kcall ''dma_pool_destroy'' [pool];
       upd_cl c (\<lambda>x. x\<lparr>gpd_dmapool := 0, is_late_init := False\<rparr>)
     }
   }"

definition t7xx_cldma_reset :: "cldma_id \<Rightarrow> ('z cldma_layer_scheme, unit) state" where
  "t7xx_cldma_reset c = do {
     upd_cl c (\<lambda>x. x\<lparr>txq_active := 0, rxq_active := 0\<rparr>);
     t7xx_cldma_disable_irq c;
     for_each [0..<CLDMA_TXQ_NUM] (\<lambda>i. do {
       kcall ''cancel_work_sync'' (work_of c MTK_TX i);
       md_cd_queue_struct_reset c MTK_TX i
     });
     for_each [0..<CLDMA_RXQ_NUM] (\<lambda>i. do {
       kcall ''cancel_work_sync'' (work_of c MTK_RX i);
       md_cd_queue_struct_reset c MTK_RX i
     });
     t7xx_cldma_late_release c
   }"

text \<open>The start address of a queue is the descriptor of \<open>tr_done\<close>, if there is one.\<close>

definition set_start_addr :: "cldma_id \<Rightarrow> mtk_txrx \<Rightarrow> nat \<Rightarrow> ('z cldma_layer_scheme, unit) state" where
  "set_start_addr c d i = do {
     hw \<leftarrow> get_cl c hw_info;
     q \<leftarrow> get_cl c (queue_of d i);
     c_when (tr_done q \<noteq> None) (do {
       req \<leftarrow> get_req c d i (tr_done q);
       t7xx_cldma_hw_set_start_addr hw (of_nat i) (gpd_addr req) d
     })
   }"

definition t7xx_cldma_start :: "cldma_id \<Rightarrow> ('z cldma_layer_scheme, unit) state" where
  "t7xx_cldma_start c = do {
     late \<leftarrow> get_cl c is_late_init;
     c_when late (do {
       hw \<leftarrow> get_cl c hw_info;
       t7xx_cldma_enable_irq c;
       for_each [0..<CLDMA_TXQ_NUM] (set_start_addr c MTK_TX);
       for_each [0..<CLDMA_RXQ_NUM] (set_start_addr c MTK_RX);
       t7xx_cldma_hw_start_queue hw CLDMA_ALL_Q MTK_RX;
       t7xx_cldma_hw_start hw;
       upd_cl c (\<lambda>x. x\<lparr>txq_started := 0, txq_active := txq_active x OR ucast TXRX_STATUS_BITMASK,
         rxq_active := rxq_active x OR ucast TXRX_STATUS_BITMASK\<rparr>)
     })
   }"

definition t7xx_cldma_clear_txq :: "cldma_id \<Rightarrow> nat \<Rightarrow> ('z cldma_layer_scheme, unit) state" where
  "t7xx_cldma_clear_txq c i = do {
     t7xx_cldma_q_reset c MTK_TX i;
     n \<leftarrow> get_cl c (\<lambda>x. length (gpd_ring (tx_ring x i)));
     for_each [0..<n] (\<lambda>k. do {
       upd_req c MTK_TX i (Some k) (upd_gpd (\<lambda>g. (t7xx_cldma_gpd_set_data_ptr 0 g)
         \<lparr>gpd_flags := gpd_flags g AND NOT GPD_FLAGS_HWO, data_buff_len := 0\<rparr>));
       req \<leftarrow> get_req c MTK_TX i (Some k);
       dev_kfree_cskb (req_skb req);
       upd_req c MTK_TX i (Some k) (\<lambda>r. r\<lparr>req_skb := None\<rparr>)
     })
   }"

primrec refill_empty ::
  "cldma_id \<Rightarrow> nat \<Rightarrow> nat list \<Rightarrow> ('z cldma_layer_scheme, errno + unit) state" where
  "refill_empty c i [] = return (Inr ())"
| "refill_empty c i (k # ks) = do {
     req \<leftarrow> get_req c MTK_RX i (Some k);
     if req_skb req \<noteq> None then refill_empty c i ks else do {
       sz \<leftarrow> get_cl c (\<lambda>x. pkt_size (rx_ring x i));
       (ret, req) \<leftarrow> t7xx_cldma_alloc_and_map_skb req sz;
       upd_req c MTK_RX i (Some k) (\<lambda>_. req);
       if isl ret then return ret else do {
         upd_req c MTK_RX i (Some k) (upd_gpd (t7xx_cldma_gpd_set_data_ptr (mapped_buff req)));
         refill_empty c i ks
       }
     }
   }"

definition t7xx_cldma_clear_rxq :: "cldma_id \<Rightarrow> nat \<Rightarrow> ('z cldma_layer_scheme, errno + unit) state" where
  "t7xx_cldma_clear_rxq c i = do {
     t7xx_cldma_q_reset c MTK_RX i;
     n \<leftarrow> get_cl c (\<lambda>x. length (gpd_ring (rx_ring x i)));
     for_each [0..<n] (\<lambda>k. upd_req c MTK_RX i (Some k)
       (\<lambda>r. upd_gpd (\<lambda>g. g\<lparr>gpd_flags := GPD_FLAGS_IOC OR GPD_FLAGS_HWO, data_buff_len := 0\<rparr>)
         (r\<lparr>req_skb := map_option (\<lambda>b. b\<lparr>cskb_bytes := []\<rparr>) (req_skb r)\<rparr>)));
     refill_empty c i [0..<n]
   }"

definition t7xx_cldma_clear_all_qs :: "cldma_id \<Rightarrow> mtk_txrx \<Rightarrow> ('z cldma_layer_scheme, unit) state" where
  "t7xx_cldma_clear_all_qs c tx_rx = (case tx_rx of
     MTK_TX \<Rightarrow> for_each [0..<CLDMA_TXQ_NUM] (t7xx_cldma_clear_txq c)
   | MTK_RX \<Rightarrow> for_each [0..<CLDMA_RXQ_NUM] (\<lambda>i. do { t7xx_cldma_clear_rxq c i; return () }))"

definition set_active ::
  "cldma_id \<Rightarrow> mtk_txrx \<Rightarrow> (u16 \<Rightarrow> u16) \<Rightarrow> ('z cldma_layer_scheme, unit) state" where
  "set_active c d f = upd_cl c (\<lambda>x. case d of
     MTK_RX \<Rightarrow> x\<lparr>rxq_active := f (rxq_active x)\<rparr>
   | MTK_TX \<Rightarrow> x\<lparr>txq_active := f (txq_active x)\<rparr>)"

definition t7xx_cldma_stop_all_qs :: "cldma_id \<Rightarrow> mtk_txrx \<Rightarrow> ('z cldma_layer_scheme, unit) state" where
  "t7xx_cldma_stop_all_qs c tx_rx = do {
     hw \<leftarrow> get_cl c hw_info;
     t7xx_cldma_hw_irq_dis_eq hw CLDMA_ALL_Q tx_rx;
     t7xx_cldma_hw_irq_dis_txrx hw CLDMA_ALL_Q tx_rx;
     set_active c tx_rx (\<lambda>a. a AND NOT (ucast TXRX_STATUS_BITMASK));
     t7xx_cldma_hw_stop_all_qs hw tx_rx
   }"

section \<open>Sending\<close>

definition t7xx_cldma_gpd_handle_tx_request ::
  "cldma_id \<Rightarrow> nat \<Rightarrow> nat option \<Rightarrow> cskb \<Rightarrow> ('z cldma_layer_scheme, errno + unit) state" where
  "t7xx_cldma_gpd_handle_tx_request c q p skb = do {
     let len = length (cskb_bytes skb);
     a \<leftarrow> dma_map_single (cskb_ptr skb) (of_nat len);
     upd_req c MTK_TX q p (\<lambda>r. r\<lparr>mapped_buff := a\<rparr>);
     if dma_mapping_error a then return (Inl ENOMEM) else do {
       upd_req c MTK_TX q p (upd_gpd (\<lambda>g. (t7xx_cldma_gpd_set_data_ptr a g)\<lparr>data_buff_len := of_nat len\<rparr>));
       act \<leftarrow> get_cl c txq_active;
       c_when (act AND BIT q \<noteq> 0)
         (upd_req c MTK_TX q p (upd_gpd (\<lambda>g. g\<lparr>gpd_flags := gpd_flags g OR GPD_FLAGS_HWO\<rparr>)));
       upd_req c MTK_TX q p (\<lambda>r. r\<lparr>req_skb := Some skb\<rparr>);
       return (Inr ())
     }
   }"

definition t7xx_cldma_hw_start_send ::
  "cldma_id \<Rightarrow> nat \<Rightarrow> nat option \<Rightarrow> ('z cldma_layer_scheme, unit) state" where
  "t7xx_cldma_hw_start_send c q prev_req = do {
     hw \<leftarrow> get_cl c hw_info;
     set \<leftarrow> t7xx_cldma_tx_addr_is_set hw (of_nat q);
     c_when (\<not> set) (do {
       t7xx_cldma_hw_init hw;
       req \<leftarrow> get_req c MTK_TX q prev_req;
       t7xx_cldma_hw_set_start_addr hw (of_nat q) (gpd_addr req) MTK_TX;
       upd_cl c (\<lambda>x. x\<lparr>txq_started := txq_started x AND NOT (BIT q)\<rparr>)
     });
     st \<leftarrow> t7xx_cldma_hw_queue_status hw (of_nat q) MTK_TX;
     c_when (st = 0) (do {
       started \<leftarrow> get_cl c txq_started;
       (if started AND BIT q \<noteq> 0 then t7xx_cldma_hw_resume_queue hw (of_nat q) MTK_TX
        else t7xx_cldma_hw_start_queue hw (of_nat q) MTK_TX);
       upd_cl c (\<lambda>x. x\<lparr>txq_started := txq_started x OR BIT q\<rparr>)
     })
   }"

definition t7xx_cldma_set_recv_skb ::
  "cldma_id \<Rightarrow> nat \<Rightarrow> recv_fn \<Rightarrow> ('z cldma_layer_scheme, unit) state" where
  "t7xx_cldma_set_recv_skb c i f = upd_q c MTK_RX i (\<lambda>q. q\<lparr>recv_skb := f\<rparr>)"

text \<open>
  The loop of \<open>t7xx_cldma_send_skb\<close>. It may wait for room: then other threads run, and
  \<open>others\<close> is what they do meanwhile. Nothing bounds how often it wakes up to find the room
  taken again, so it has fuel, and \<open>None\<close> for running out.
\<close>

primrec send_loop ::
  "('z cldma_layer_scheme, unit) state \<Rightarrow> cldma_id \<Rightarrow> nat \<Rightarrow> cskb \<Rightarrow> nat \<Rightarrow> errno + unit \<Rightarrow>
   ('z cldma_layer_scheme, (errno + unit) option) state" where
  "send_loop others c q skb 0 ret = return None"
| "send_loop others c q skb (Suc fuel) ret = do {
     p \<leftarrow> get_cl c (\<lambda>x. tx_next (cl_txq x q));
     bud \<leftarrow> get_cl c (\<lambda>x. budget (cl_txq x q));
     room \<leftarrow> (if 0 < bud then do { req \<leftarrow> get_req c MTK_TX q p; return (req_skb req = None) }
              else return False);
     if room then do {
       upd_q c MTK_TX q (\<lambda>t. t\<lparr>budget := budget t - 1\<rparr>);
       t7xx_cldma_gpd_handle_tx_request c q p skb;
       n \<leftarrow> get_cl c (\<lambda>x. length (gpd_ring (tx_ring x q)));
       upd_q c MTK_TX q (\<lambda>t. t\<lparr>tx_next := next_circular n p\<rparr>);
       complete \<leftarrow> t7xx_pci_sleep_disable_complete;
       if \<not> complete then return (Some (Inl ETIMEDOUT)) else do {
         t7xx_cldma_hw_start_send c q p;
         return (Some ret)
       }
     } else do {
       complete \<leftarrow> t7xx_pci_sleep_disable_complete;
       if \<not> complete then return (Some (Inl ETIMEDOUT)) else do {
         hw \<leftarrow> get_cl c hw_info;
         st \<leftarrow> t7xx_cldma_hw_queue_status hw (of_nat q) MTK_TX;
         c_when (st = 0) (t7xx_cldma_hw_resume_queue hw (of_nat q) MTK_TX);
         ret \<leftarrow> kerr ''wait_event_interruptible_exclusive req_wq'' (work_of c MTK_TX q);
         others;
         if isl ret then return (Some ret) else send_loop others c q skb fuel ret
       }
     }
   }"

definition t7xx_cldma_send_skb ::
  "('z cldma_layer_scheme, unit) state \<Rightarrow> nat \<Rightarrow> cldma_id \<Rightarrow> nat \<Rightarrow> cskb \<Rightarrow>
   ('z cldma_layer_scheme, (errno + unit) option) state" where
  "t7xx_cldma_send_skb others fuel c qno skb =
     (if CLDMA_TXQ_NUM \<le> qno then return (Some (Inl EINVAL)) else do {
        ret \<leftarrow> kerr ''pm_runtime_resume_and_get'' [];
        if pm_get_failed ret then return (Some ret) else do {
          t7xx_pci_disable_sleep;
          act \<leftarrow> get_cl c txq_active;
          r \<leftarrow> (if act AND BIT qno = 0 then return (Some (Inl EIO))
                else send_loop others c qno skb fuel ret);
          t7xx_pci_enable_sleep;
          kcall ''pm_runtime_mark_last_busy'' [];
          kcall ''pm_runtime_put_autosuspend'' [];
          return r
        }
      })"

section \<open>Configuration, initialisation, power management\<close>

definition t7xx_cldma_adjust_config :: "cldma_id \<Rightarrow> cldma_cfg \<Rightarrow> ('z cldma_layer_scheme, unit) state" where
  "t7xx_cldma_adjust_config c cfg_id = do {
     for_each [0..<CLDMA_RXQ_NUM] (\<lambda>qno. do {
       upd_ring c MTK_RX qno (\<lambda>g. g\<lparr>pkt_size := CLDMA_SHARED_Q_BUFF_SZ\<rparr>);
       t7xx_cldma_set_recv_skb c qno RECV_PROXY
     });
     upd_ring c MTK_RX (CLDMA_RXQ_NUM - 1) (\<lambda>g. g\<lparr>pkt_size := CLDMA_JUMBO_BUFF_SZ\<rparr>);
     for_each [0..<CLDMA_TXQ_NUM] (\<lambda>qno. upd_ring c MTK_TX qno (\<lambda>g. g\<lparr>pkt_size := CLDMA_SHARED_Q_BUFF_SZ\<rparr>));
     c_when (cfg_id = CLDMA_DEDICATED_Q_CFG) (do {
       upd_ring c MTK_TX CLDMA_Q_IDX_DUMP (\<lambda>g. g\<lparr>pkt_size := CLDMA_DEDICATED_Q_BUFF_SZ\<rparr>);
       upd_ring c MTK_RX CLDMA_Q_IDX_DUMP (\<lambda>g. g\<lparr>pkt_size := CLDMA_DEDICATED_Q_BUFF_SZ\<rparr>);
       t7xx_cldma_set_recv_skb c CLDMA_Q_IDX_DUMP RECV_DEDICATED
     })
   }"

text \<open>How many calls of a loop that stops at the first failure succeed.\<close>

primrec count_ok :: "'b list \<Rightarrow> ('b \<Rightarrow> ('s, errno + unit) state) \<Rightarrow> ('s, nat) state" where
  "count_ok [] f = return 0"
| "count_ok (x # xs) f = do {
     ret \<leftarrow> f x;
     if isl ret then return 0 else do { n \<leftarrow> count_ok xs f; return (Suc n) }
   }"

definition t7xx_cldma_late_init :: "cldma_id \<Rightarrow> ('z cldma_layer_scheme, errno + unit) state" where
  "t7xx_cldma_late_init c = do {
     late \<leftarrow> get_cl c is_late_init;
     if late then return (Inl EALREADY) else do {
       pool \<leftarrow> kquery ''dma_pool_create'' [];
       upd_cl c (\<lambda>x. x\<lparr>gpd_dmapool := pool\<rparr>);
       if pool = 0 then return (Inl ENOMEM) else do {
         i \<leftarrow> count_ok [0..<CLDMA_TXQ_NUM] (t7xx_cldma_tx_ring_init c);
         if i < CLDMA_TXQ_NUM then do {
           for_each (rev [0..<i]) (t7xx_cldma_ring_free c MTK_TX);
           return (Inl ENOMEM)
         } else do {
           j \<leftarrow> count_ok [0..<CLDMA_RXQ_NUM] (t7xx_cldma_rx_ring_init c);
           if j < CLDMA_RXQ_NUM then do {
             for_each (rev [0..<j]) (t7xx_cldma_ring_free c MTK_RX);
             for_each (rev [0..<CLDMA_TXQ_NUM]) (t7xx_cldma_ring_free c MTK_TX);
             return (Inl ENOMEM)
           } else do {
             for_each [0..<CLDMA_TXQ_NUM] (t7xx_cldma_txq_init c);
             for_each [0..<CLDMA_RXQ_NUM] (t7xx_cldma_rxq_init c);
             upd_cl c (\<lambda>x. x\<lparr>is_late_init := True\<rparr>);
             return (Inr ())
           }
         }
       }
     }
   }"

definition t7xx_pcie_addr_transfer :: "iomem \<Rightarrow> u32 \<Rightarrow> iomem \<Rightarrow> iomem" where
  "t7xx_pcie_addr_transfer addr addr_trs1 phy_addr = addr + phy_addr - ucast addr_trs1"

definition t7xx_hw_info_init :: "cldma_id \<Rightarrow> ('z cldma_layer_scheme, unit) state" where
  "t7xx_hw_info_init c = do {
     pbase \<leftarrow> get_pci base_addr;
     let transfer = t7xx_pcie_addr_transfer (pcie_ext_reg_base pbase) (pcie_dev_reg_trsl_addr pbase);
     upd_cl c (\<lambda>x. x\<lparr>hw_info := \<lparr>hw_mode = MODE_BIT_64,
       ap_ao_base = transfer (case c of CLDMA_ID_MD \<Rightarrow> CLDMA1_AO_BASE | CLDMA_ID_AP \<Rightarrow> CLDMA0_AO_BASE),
       ap_pdn_base = transfer (case c of CLDMA_ID_MD \<Rightarrow> CLDMA1_PD_BASE | CLDMA_ID_AP \<Rightarrow> CLDMA0_PD_BASE),
       phy_interrupt_id = (case c of CLDMA_ID_MD \<Rightarrow> CLDMA1_INT | CLDMA_ID_AP \<Rightarrow> CLDMA0_INT)\<rparr>\<rparr>)
   }"

text \<open>\<open>devm_kzalloc\<close>: everything is 0 or null.\<close>

definition zero_queue :: cldma_queue where
  "zero_queue = \<lparr>tr_ring = False, tr_done = None, rx_refill = None, tx_next = None, budget = 0,
     worker = 0, recv_skb = RECV_DEFAULT\<rparr>"

definition zero_ctrl :: cldma_ctrl where
  "zero_ctrl = \<lparr>cl_txq = (\<lambda>_. zero_queue), cl_rxq = (\<lambda>_. zero_queue), txq_active = 0, rxq_active = 0,
     txq_started = 0, gpd_dmapool = 0, tx_ring = (\<lambda>_. \<lparr>gpd_ring = [], ring_length = 0, pkt_size = 0\<rparr>),
     rx_ring = (\<lambda>_. \<lparr>gpd_ring = [], ring_length = 0, pkt_size = 0\<rparr>), cl_pm_entity = False,
     hw_info = \<lparr>hw_mode = MODE_BIT_32, ap_ao_base = 0, ap_pdn_base = 0, phy_interrupt_id = DPMAIF_INT\<rparr>,
     is_late_init = False\<rparr>"

definition t7xx_cldma_alloc :: "cldma_id \<Rightarrow> ('z cldma_layer_scheme, errno + unit) state" where
  "t7xx_cldma_alloc c = do {
     p \<leftarrow> kquery ''devm_kzalloc'' [];
     if p = 0 then return (Inl ENOMEM) else do {
       upd_cl c (\<lambda>_. zero_ctrl);
       for_each [0..<CLDMA_RXQ_NUM] (\<lambda>qno. t7xx_cldma_set_recv_skb c qno RECV_DEFAULT);
       t7xx_hw_info_init c;
       return (Inr ())
     }
   }"

definition t7xx_cldma_resume_early :: "cldma_id \<Rightarrow> ('z cldma_layer_scheme, unit) state" where
  "t7xx_cldma_resume_early c = do {
     hw \<leftarrow> get_cl c hw_info;
     t7xx_cldma_hw_restore hw;
     for_each [0..<CLDMA_TXQ_NUM] (\<lambda>i. do {
       p \<leftarrow> get_cl c (\<lambda>x. tx_next (cl_txq x i));
       req \<leftarrow> get_req c MTK_TX i p;
       t7xx_cldma_hw_set_start_addr hw (of_nat i) (gpd_addr req) MTK_TX;
       p \<leftarrow> get_cl c (\<lambda>x. tr_done (cl_rxq x i));
       req \<leftarrow> get_req c MTK_RX i p;
       t7xx_cldma_hw_set_start_addr hw (of_nat i) (gpd_addr req) MTK_RX
     });
     t7xx_cldma_enable_irq c;
     t7xx_cldma_hw_start_queue hw CLDMA_ALL_Q MTK_RX;
     set_active c MTK_RX (\<lambda>a. a OR ucast TXRX_STATUS_BITMASK);
     t7xx_cldma_hw_irq_en_eq hw CLDMA_ALL_Q MTK_RX;
     t7xx_cldma_hw_irq_en_txrx hw CLDMA_ALL_Q MTK_RX
   }"

definition t7xx_cldma_resume :: "cldma_id \<Rightarrow> ('z cldma_layer_scheme, errno + unit) state" where
  "t7xx_cldma_resume c = do {
     hw \<leftarrow> get_cl c hw_info;
     set_active c MTK_TX (\<lambda>a. a OR ucast TXRX_STATUS_BITMASK);
     t7xx_cldma_hw_irq_en_txrx hw CLDMA_ALL_Q MTK_TX;
     t7xx_cldma_hw_irq_en_eq hw CLDMA_ALL_Q MTK_TX;
     c_when (c = CLDMA_ID_MD) (t7xx_mhccif_mask_clr D2H_SW_INT_MASK);
     return (Inr ())
   }"

definition t7xx_cldma_suspend_late :: "cldma_id \<Rightarrow> ('z cldma_layer_scheme, unit) state" where
  "t7xx_cldma_suspend_late c = do {
     hw \<leftarrow> get_cl c hw_info;
     t7xx_cldma_hw_irq_dis_eq hw CLDMA_ALL_Q MTK_RX;
     t7xx_cldma_hw_irq_dis_txrx hw CLDMA_ALL_Q MTK_RX;
     set_active c MTK_RX (\<lambda>a. a AND NOT (ucast TXRX_STATUS_BITMASK));
     t7xx_cldma_hw_stop_all_qs hw MTK_RX;
     t7xx_cldma_clear_ip_busy hw;
     t7xx_cldma_disable_irq c
   }"

definition t7xx_cldma_suspend :: "cldma_id \<Rightarrow> ('z cldma_layer_scheme, errno + unit) state" where
  "t7xx_cldma_suspend c = do {
     c_when (c = CLDMA_ID_MD) (t7xx_mhccif_mask_set D2H_SW_INT_MASK);
     hw \<leftarrow> get_cl c hw_info;
     t7xx_cldma_hw_irq_dis_eq hw CLDMA_ALL_Q MTK_TX;
     t7xx_cldma_hw_irq_dis_txrx hw CLDMA_ALL_Q MTK_TX;
     set_active c MTK_TX (\<lambda>a. a AND NOT (ucast TXRX_STATUS_BITMASK));
     t7xx_cldma_hw_stop_all_qs hw MTK_TX;
     upd_cl c (\<lambda>x. x\<lparr>txq_started := 0\<rparr>);
     return (Inr ())
   }"

text \<open>The callbacks of the entity are the four functions above, found by its identifier.\<close>

definition cldma_pm_id :: "cldma_id \<Rightarrow> t7xx_pm_id" where
  "cldma_pm_id c = (case c of CLDMA_ID_MD \<Rightarrow> PM_ENTITY_ID_CTRL1 | CLDMA_ID_AP \<Rightarrow> PM_ENTITY_ID_CTRL2)"

definition t7xx_cldma_pm_init :: "cldma_id \<Rightarrow> ('z cldma_layer_scheme, errno + unit) state" where
  "t7xx_cldma_pm_init c = do {
     p \<leftarrow> kquery ''kzalloc pm_entity'' [];
     upd_cl c (\<lambda>x. x\<lparr>cl_pm_entity := (p \<noteq> 0)\<rparr>);
     if p = 0 then return (Inl ENOMEM) else t7xx_pci_pm_entity_register (cldma_pm_id c)
   }"

definition t7xx_cldma_pm_uninit :: "cldma_id \<Rightarrow> ('z cldma_layer_scheme, errno + unit) state" where
  "t7xx_cldma_pm_uninit c = do {
     e \<leftarrow> get_cl c cl_pm_entity;
     if \<not> e then return (Inl EINVAL) else do {
       t7xx_pci_pm_entity_unregister (cldma_pm_id c);
       kcall ''kfree pm_entity'' [];
       upd_cl c (\<lambda>x. x\<lparr>cl_pm_entity := False\<rparr>);
       return (Inr ())
     }
   }"

definition t7xx_cldma_hif_hw_init :: "cldma_id \<Rightarrow> ('z cldma_layer_scheme, unit) state" where
  "t7xx_cldma_hif_hw_init c = do {
     hw \<leftarrow> get_cl c hw_info;
     t7xx_cldma_hw_stop hw MTK_TX;
     t7xx_cldma_hw_stop hw MTK_RX;
     t7xx_cldma_hw_rx_done hw (EMPTY_STATUS_BITMASK OR TXRX_STATUS_BITMASK);
     t7xx_cldma_hw_tx_done hw (EMPTY_STATUS_BITMASK OR TXRX_STATUS_BITMASK);
     t7xx_cldma_hw_init hw
   }"

definition destroy_wq :: "cldma_id \<Rightarrow> mtk_txrx \<Rightarrow> nat \<Rightarrow> ('z cldma_layer_scheme, unit) state" where
  "destroy_wq c d i = do {
     q \<leftarrow> get_cl c (queue_of d i);
     c_when (worker q \<noteq> 0) (do {
       kcall ''destroy_workqueue'' [worker q];
       upd_q c d i (\<lambda>q. q\<lparr>worker := 0\<rparr>)
     })
   }"

definition t7xx_cldma_destroy_wqs :: "cldma_id \<Rightarrow> ('z cldma_layer_scheme, unit) state" where
  "t7xx_cldma_destroy_wqs c = do {
     for_each [0..<CLDMA_TXQ_NUM] (destroy_wq c MTK_TX);
     for_each [0..<CLDMA_RXQ_NUM] (destroy_wq c MTK_RX)
   }"

definition alloc_worker :: "cldma_id \<Rightarrow> mtk_txrx \<Rightarrow> nat \<Rightarrow> ('z cldma_layer_scheme, errno + unit) state" where
  "alloc_worker c d i = do {
     md_cd_queue_struct_init c d i;
     w \<leftarrow> kquery ''alloc_ordered_workqueue'' (work_of c d i);
     upd_q c d i (\<lambda>q. q\<lparr>worker := w\<rparr>);
     return (if w = 0 then Inl ENOMEM else Inr ())
   }"

definition t7xx_cldma_init :: "cldma_id \<Rightarrow> ('z cldma_layer_scheme, errno + unit) state" where
  "t7xx_cldma_init c = do {
     hw \<leftarrow> get_cl c hw_info;
     upd_cl c (\<lambda>x. x\<lparr>txq_active := 0, rxq_active := 0, is_late_init := False\<rparr>);
     ret \<leftarrow> t7xx_cldma_pm_init c;
     if isl ret then return ret else do {
       i \<leftarrow> count_ok [0..<CLDMA_TXQ_NUM] (alloc_worker c MTK_TX);
       j \<leftarrow> (if i < CLDMA_TXQ_NUM then return 0 else count_ok [0..<CLDMA_RXQ_NUM] (alloc_worker c MTK_RX));
       if i < CLDMA_TXQ_NUM \<or> j < CLDMA_RXQ_NUM then do {
         t7xx_cldma_destroy_wqs c;
         t7xx_cldma_pm_uninit c;
         return (Inl ENOMEM)
       } else do {
         t7xx_pcie_mac_clear_int (phy_interrupt_id hw);
         upd_pci (\<lambda>p. p\<lparr>intr_handler := (intr_handler p)(phy_interrupt_id hw \<mapsto>
           OWN_CLDMA (case c of CLDMA_ID_MD \<Rightarrow> 0 | CLDMA_ID_AP \<Rightarrow> 1))\<rparr>);
         t7xx_pcie_mac_clear_int_status (phy_interrupt_id hw);
         return (Inr ())
       }
     }
   }"

definition t7xx_cldma_switch_cfg :: "cldma_id \<Rightarrow> cldma_cfg \<Rightarrow> ('z cldma_layer_scheme, unit) state" where
  "t7xx_cldma_switch_cfg c cfg_id = do {
     t7xx_cldma_late_release c;
     t7xx_cldma_adjust_config c cfg_id;
     t7xx_cldma_late_init c;
     return ()
   }"

definition t7xx_cldma_exit :: "cldma_id \<Rightarrow> ('z cldma_layer_scheme, unit) state" where
  "t7xx_cldma_exit c = do {
     t7xx_cldma_stop c;
     t7xx_cldma_late_release c;
     t7xx_cldma_destroy_wqs c;
     t7xx_cldma_pm_uninit c;
     return ()
   }"

end
