(* ===== verification/Frames.thy ===== *)
theory Frames
  imports Pci_Dev
begin

text \<open>
  What an operation leaves unchanged. \<open>preserves f m\<close>: the operation \<open>m\<close> does not change the
  observation \<open>f\<close> of the state, which may be a component of it or a part of the history. The
  rules go down a function of the driver statement by statement; what is left are the
  statements that touch what \<open>f\<close> looks at.
\<close>

named_theorems preserves_intros \<open>what operations leave unchanged\<close>

definition preserves :: "('s \<Rightarrow> 'b) \<Rightarrow> ('s, 'a) state \<Rightarrow> bool" where
  "preserves f m \<longleftrightarrow> (\<forall>s. f (after m s) = f s)"

lemma preservesD: "preserves f m \<Longrightarrow> f (after m s) = f s"
  by (simp add: preserves_def)

lemma preserves_return [preserves_intros]: "preserves f (return a)"
  by (simp add: preserves_def)

lemma preserves_bind [preserves_intros]:
  "preserves f m \<Longrightarrow> (\<And>a. preserves f (g a)) \<Longrightarrow> preserves f (State_Monad.bind m g)"
  by (simp add: preserves_def run_bind split_beta)

lemma preserves_if [preserves_intros]:
  "(b \<Longrightarrow> preserves f m) \<Longrightarrow> (\<not> b \<Longrightarrow> preserves f n) \<Longrightarrow> preserves f (if b then m else n)"
  by simp

lemma preserves_c_when [preserves_intros]: "(b \<Longrightarrow> preserves f m) \<Longrightarrow> preserves f (c_when b m)"
  by (simp add: c_when_def preserves_return)

lemma preserves_gets [preserves_intros]: "preserves f (gets g)"
  by (simp add: preserves_def run_simps)

lemma preserves_option [preserves_intros]:
  "preserves f m \<Longrightarrow> (\<And>a. preserves f (g a)) \<Longrightarrow>
   preserves f (case x of None \<Rightarrow> m | Some a \<Rightarrow> g a)"
  by (cases x) simp_all

lemma preserves_sum [preserves_intros]:
  "(\<And>a. preserves f (m a)) \<Longrightarrow> (\<And>a. preserves f (g a)) \<Longrightarrow>
   preserves f (case x of Inl a \<Rightarrow> m a | Inr b \<Rightarrow> g b)"
  by (cases x) simp_all

lemma preserves_prod [preserves_intros]:
  "(\<And>a b. preserves f (m a b)) \<Longrightarrow> preserves f (case x of (a, b) \<Rightarrow> m a b)"
  by (cases x) simp

lemma preserves_list [preserves_intros]:
  "preserves f m \<Longrightarrow> (\<And>a as. preserves f (g a as)) \<Longrightarrow>
   preserves f (case x of [] \<Rightarrow> m | a # as \<Rightarrow> g a as)"
  by (cases x) simp_all

lemma preserves_for_each [preserves_intros]:
  "(\<And>x. preserves f (g x)) \<Longrightarrow> preserves f (for_each xs g)"
proof (induction xs)
  case (Cons x xs)
  then show ?case by (auto intro!: preserves_bind)
qed (simp add: preserves_return)

lemma preserves_modify [preserves_intros]: "(\<And>s. f (g s) = f s) \<Longrightarrow> preserves f (modify g)"
  by (simp add: preserves_def run_simps)

section \<open>The outside world\<close>

lemma preserves_kcall [preserves_intros]:
  "(\<And>s. f (emit (Call g args) s) = f s) \<Longrightarrow> preserves f (kcall g args)"
  by (simp add: preserves_def run_simps)

lemma preserves_kquery [preserves_intros]:
  "(\<And>s v. f (emit (Ret g args v) s) = f s) \<Longrightarrow> preserves f (kquery g args)"
  by (simp add: preserves_def run_simps Let_def)

lemma preserves_kerr [preserves_intros]:
  "(\<And>s v. f (emit (Ret g args v) s) = f s) \<Longrightarrow> preserves f (kerr g args)"
  unfolding kerr_def by (intro preserves_intros)

lemma preserves_ioread32 [preserves_intros]:
  "(\<And>s v. f (emit (Rd a v) s) = f s) \<Longrightarrow> preserves f (ioread32 a)"
  by (simp add: preserves_def run_simps Let_def)

lemma preserves_iowrite32 [preserves_intros]:
  "(\<And>s. f (emit (Wr a v) s) = f s) \<Longrightarrow> preserves f (iowrite32 v a)"
  by (simp add: preserves_def run_simps)

lemma preserves_64 [preserves_intros]:
  "(\<And>s a v. f (emit (Rd a v) s) = f s) \<Longrightarrow> preserves f (ioread64_lo_hi b)"
  "(\<And>s a v. f (emit (Wr a v) s) = f s) \<Longrightarrow> preserves f (iowrite64_lo_hi x b)"
  unfolding ioread64_lo_hi_def iowrite64_lo_hi_def by (intro preserves_intros; simp)+

lemma preserves_poll_loop: "preserves f op \<Longrightarrow> preserves f (poll_loop n op ok)"
  by (induction n) (auto intro!: preserves_intros)

lemma preserves_read_poll [preserves_intros]:
  "preserves f op \<Longrightarrow> (\<And>s v. f (emit (Ret ''poll_rounds'' [d, t] v) s) = f s) \<Longrightarrow>
   preserves f (read_poll_timeout op ok d t)"
  unfolding read_poll_timeout_def by (intro preserves_intros preserves_poll_loop)

lemma preserves_ioread32_poll [preserves_intros]:
  "(\<And>s v. f (emit (Rd a v) s) = f s) \<Longrightarrow> (\<And>s v. f (emit (Ret ''poll_rounds'' [d, t] v) s) = f s) \<Longrightarrow>
   preserves f (ioread32_poll_timeout a ok d t)"
  unfolding ioread32_poll_timeout_def by (intro preserves_intros)

text \<open>Operations known to add only certain events.\<close>

lemma only_asks_preserves:
  assumes "only_asks P m" and "\<And>s e. P e \<Longrightarrow> f (emit e s) = f s"
  shows "preserves f m"
  unfolding preserves_def
proof
  fix s
  obtain es where es: "after m s = s\<lparr>trace := trace s @ es\<rparr>" "list_all P es"
    using assms(1) by (rule only_asksE)
  have "f (s\<lparr>trace := trace s @ es\<rparr>) = f s"
    using es(2)
  proof (induction es arbitrary: s)
    case (Cons e es)
    have eq: "s\<lparr>trace := trace s @ e # es\<rparr> = (emit e s)\<lparr>trace := trace (emit e s) @ es\<rparr>"
      by (simp add: emit_def)
    then have "f (s\<lparr>trace := trace s @ e # es\<rparr>) = f (emit e s)"
      unfolding eq using Cons.IH [of "emit e s"] Cons.prems by simp
    then show ?case using Cons.prems assms(2) by simp
  qed simp
  then show "f (after m s) = f s" using es(1) by simp
qed

section \<open>The PCI layer\<close>

lemma preserves_pci [preserves_intros]:
  "preserves f (get_pci g)" "(\<And>s p. f (s\<lparr>pci := p\<rparr>) = f s) \<Longrightarrow> preserves f (upd_pci h)"
  by (simp_all add: preserves_def run_simps)

text \<open>Events in which no memory is given back.\<close>

definition harmless :: "ev \<Rightarrow> bool" where
  "harmless e \<longleftrightarrow> (case e of Call g _ \<Rightarrow> g \<noteq> ''dma_unmap_single'' \<and> g \<noteq> ''dev_kfree_skb'' | _ \<Rightarrow> True)"

lemma harmless_simps [simp]:
  "harmless (Rd a v)" "harmless (Wr a v)" "harmless (Ret g as w)"
  "harmless (Call g as) \<longleftrightarrow> g \<noteq> ''dma_unmap_single'' \<and> g \<noteq> ''dev_kfree_skb''"
  by (simp_all add: harmless_def)

lemma calls_harmless:
  "list_all harmless es \<Longrightarrow> g = ''dma_unmap_single'' \<or> g = ''dev_kfree_skb'' \<Longrightarrow> calls g es = []"
  by (induction es) (auto split: ev.split)

lemma preserves_pci_dev:
  assumes "\<And>s p. f (s\<lparr>pci := p\<rparr>) = f s" and "\<And>s e. harmless e \<Longrightarrow> f (emit e s) = f s"
  shows "preserves f t7xx_pci_disable_sleep" "preserves f t7xx_pci_enable_sleep"
    "preserves f t7xx_pci_sleep_disable_complete" "preserves f (t7xx_mode_update m)"
    "preserves f (t7xx_mhccif_mask_set v)" "preserves f (t7xx_mhccif_mask_clr v)"
    "preserves f (t7xx_mhccif_h2d_swint_trigger c)" "preserves f t7xx_pci_pm_init_late"
    "preserves f t7xx_pci_pm_exp_detected" "preserves f (t7xx_pcie_mac_clear_int i)"
    "preserves f (t7xx_pcie_mac_set_int i)" "preserves f (t7xx_pcie_mac_clear_int_status i)"
    "preserves f (t7xx_pci_pm_entity_register x)" "preserves f (t7xx_pci_pm_entity_unregister x)"
    "preserves f (t7xx_send_pm_request r)"
  unfolding pci_dev_defs mac_defs Let_def by (intro preserves_intros; simp add: assms)+

end
