(* ===== verification/Cldma_Ring.thy ===== *)
theory Cldma_Ring
  imports Cldma Frames
begin

text \<open>
  The transmit rings of the control path as queues. \<open>tx_holds s c i ps\<close> says that queue \<open>i\<close> of
  engine \<open>c\<close> has the packets \<open>ps\<close> in flight, oldest first, each with the bus address and the
  length it was mapped with: the requests from \<open>tr_done\<close> on hold them, the others hold none,
  the budget counts the others, and \<open>tx_next\<close> is the first of them.
\<close>

section \<open>Executing the accesses\<close>

lemma run_get_cl [run_simps]: "run (get_cl c f) s = (f (md_ctrl s c), s)"
  by (simp add: get_cl_def run_simps)

lemma run_upd_cl [run_simps]:
  "run (upd_cl c f) s = ((), s\<lparr>md_ctrl := (md_ctrl s)(c := f (md_ctrl s c))\<rparr>)"
  by (simp add: upd_cl_def run_simps)

lemma emit_cldma [simp]:
  "md_ctrl (emit e s) = md_ctrl s" "cldma_fault (emit e s) = cldma_fault s"
  by (simp_all add: emit_def)

lemma md_ctrl_trace [simp]:
  "md_ctrl (s\<lparr>trace := t\<rparr>) = md_ctrl s" "cldma_fault (s\<lparr>trace := t\<rparr>) = cldma_fault s"
  by simp_all

text \<open>
  The operations on one queue change the queue, its ring and the history. \<open>with_tx\<close> and
  \<open>with_rx\<close> are such changes, and the rules below keep them in this form.
\<close>

definition with_tx :: "'z cldma_layer_scheme \<Rightarrow> cldma_id \<Rightarrow> nat \<Rightarrow> cldma_queue \<Rightarrow> cldma_request list \<Rightarrow> ev list \<Rightarrow>
  'z cldma_layer_scheme" where
  "with_tx s c i q r es = s\<lparr>trace := trace s @ es, md_ctrl := (md_ctrl s)(c := (md_ctrl s c)
     \<lparr>cl_txq := (cl_txq (md_ctrl s c))(i := q),
      tx_ring := (tx_ring (md_ctrl s c))(i := (tx_ring (md_ctrl s c) i)\<lparr>gpd_ring := r\<rparr>)\<rparr>)\<rparr>"

definition with_rx :: "'z cldma_layer_scheme \<Rightarrow> cldma_id \<Rightarrow> nat \<Rightarrow> cldma_queue \<Rightarrow> cldma_request list \<Rightarrow> ev list \<Rightarrow>
  'z cldma_layer_scheme" where
  "with_rx s c i q r es = s\<lparr>trace := trace s @ es, md_ctrl := (md_ctrl s)(c := (md_ctrl s c)
     \<lparr>cl_rxq := (cl_rxq (md_ctrl s c))(i := q),
      rx_ring := (rx_ring (md_ctrl s c))(i := (rx_ring (md_ctrl s c) i)\<lparr>gpd_ring := r\<rparr>)\<rparr>)\<rparr>"

abbreviation (input) txq_at :: "'z cldma_layer_scheme \<Rightarrow> cldma_id \<Rightarrow> nat \<Rightarrow> cldma_queue" where
  "txq_at s c i \<equiv> cl_txq (md_ctrl s c) i"

abbreviation (input) rxq_at :: "'z cldma_layer_scheme \<Rightarrow> cldma_id \<Rightarrow> nat \<Rightarrow> cldma_queue" where
  "rxq_at s c i \<equiv> cl_rxq (md_ctrl s c) i"

abbreviation (input) txr_at :: "'z cldma_layer_scheme \<Rightarrow> cldma_id \<Rightarrow> nat \<Rightarrow> cldma_request list" where
  "txr_at s c i \<equiv> gpd_ring (tx_ring (md_ctrl s c) i)"

abbreviation (input) rxr_at :: "'z cldma_layer_scheme \<Rightarrow> cldma_id \<Rightarrow> nat \<Rightarrow> cldma_request list" where
  "rxr_at s c i \<equiv> gpd_ring (rx_ring (md_ctrl s c) i)"

lemma with_tx_fields [simp]:
  "txq_at (with_tx s c i q r es) c i = q" "txr_at (with_tx s c i q r es) c i = r"
  "txq_active (md_ctrl (with_tx s c i q r es) c) = txq_active (md_ctrl s c)"
  "txq_started (md_ctrl (with_tx s c i q r es) c) = txq_started (md_ctrl s c)"
  "hw_info (md_ctrl (with_tx s c i q r es) c) = hw_info (md_ctrl s c)"
  "trace (with_tx s c i q r es) = trace s @ es" "env (with_tx s c i q r es) = env s"
  "cldma_fault (with_tx s c i q r es) = cldma_fault s" "pci (with_tx s c i q r es) = pci s"
  by (simp_all add: with_tx_def)

lemma with_rx_fields [simp]:
  "rxq_at (with_rx s c i q r es) c i = q" "rxr_at (with_rx s c i q r es) c i = r"
  "pkt_size (rx_ring (md_ctrl (with_rx s c i q r es) c) i) = pkt_size (rx_ring (md_ctrl s c) i)"
  "rxq_active (md_ctrl (with_rx s c i q r es) c) = rxq_active (md_ctrl s c)"
  "hw_info (md_ctrl (with_rx s c i q r es) c) = hw_info (md_ctrl s c)"
  "trace (with_rx s c i q r es) = trace s @ es" "env (with_rx s c i q r es) = env s"
  "cldma_fault (with_rx s c i q r es) = cldma_fault s" "pci (with_rx s c i q r es) = pci s"
  by (simp_all add: with_rx_def)

lemma with_tx_with_tx [simp]:
  "with_tx (with_tx s c i q r es) c i q' r' es' = with_tx s c i q' r' (es @ es')"
  "with_tx (emit e s) c i q r es = with_tx s c i q r (e # es)"
  "emit e (with_tx s c i q r es) = with_tx s c i q r (es @ [e])"
  by (simp_all add: with_tx_def emit_def)

lemma with_rx_with_rx [simp]:
  "with_rx (with_rx s c i q r es) c i q' r' es' = with_rx s c i q' r' (es @ es')"
  "with_rx (emit e s) c i q r es = with_rx s c i q r (e # es)"
  "emit e (with_rx s c i q r es) = with_rx s c i q r (es @ [e])"
  by (simp_all add: with_rx_def emit_def)

lemma with_same:
  "with_tx s c i (txq_at s c i) (txr_at s c i) [] = s" "with_rx s c i (rxq_at s c i) (rxr_at s c i) [] = s"
  by (simp_all add: with_tx_def with_rx_def)

lemma emit_with:
  "emit e s = with_tx s c i (txq_at s c i) (txr_at s c i) [e]"
  "emit e s = with_rx s c i (rxq_at s c i) (rxr_at s c i) [e]"
  by (simp_all add: with_tx_def with_rx_def emit_def)

lemma run_upd_q [run_simps]:
  "run (upd_q c MTK_TX i f) s = ((), with_tx s c i (f (txq_at s c i)) (txr_at s c i) [])"
  "run (upd_q c MTK_RX i f) s = ((), with_rx s c i (f (rxq_at s c i)) (rxr_at s c i) [])"
  by (simp_all add: upd_q_def run_simps with_tx_def with_rx_def)

lemma run_upd_ring [run_simps]:
  "run (upd_ring c MTK_TX i f) s = ((), s\<lparr>md_ctrl := (md_ctrl s)(c := (md_ctrl s c)
     \<lparr>tx_ring := (tx_ring (md_ctrl s c))(i := f (tx_ring (md_ctrl s c) i))\<rparr>)\<rparr>)"
  "run (upd_ring c MTK_RX i f) s = ((), s\<lparr>md_ctrl := (md_ctrl s)(c := (md_ctrl s c)
     \<lparr>rx_ring := (rx_ring (md_ctrl s c))(i := f (rx_ring (md_ctrl s c) i))\<rparr>)\<rparr>)"
  by (simp_all add: upd_ring_def run_simps)

lemma run_get_req [run_simps]:
  "k < length (txr_at s c i) \<Longrightarrow> run (get_req c MTK_TX i (Some k)) s = (txr_at s c i ! k, s)"
  "k < length (rxr_at s c i) \<Longrightarrow> run (get_req c MTK_RX i (Some k)) s = (rxr_at s c i ! k, s)"
  by (simp_all add: get_req_def ring_of_def run_simps)

lemma run_upd_req [run_simps]:
  "k < length (txr_at s c i) \<Longrightarrow> run (upd_req c MTK_TX i (Some k) f) s =
     ((), with_tx s c i (txq_at s c i) ((txr_at s c i)[k := f (txr_at s c i ! k)]) [])"
  "k < length (rxr_at s c i) \<Longrightarrow> run (upd_req c MTK_RX i (Some k) f) s =
     ((), with_rx s c i (rxq_at s c i) ((rxr_at s c i)[k := f (rxr_at s c i ! k)]) [])"
  by (simp_all add: upd_req_def ring_of_def run_simps with_tx_def with_rx_def)

section \<open>Rings as rotated lists\<close>

lemma rotated_slot_inj:
  assumes "j < n" "k < n" "(d + j) mod n = (d + k) mod (n :: nat)"
  shows "j = k"
proof -
  have le: "j = k" if "j \<le> k" "k < n" "(d + j) mod n = (d + k) mod n" for j k
  proof -
    have "n dvd k - j"
      using that mod_eq_dvd_iff_nat [of "d + j" "d + k" n] by simp
    then show ?thesis using that(1,2) nat_dvd_not_less [of "k - j" n] by linarith
  qed
  show ?thesis
    using le [of j k] le [of k j] assms by (cases "j \<le> k") auto
qed

lemma rotate_update:
  assumes "k < length r"
  shows "rotate d (r[(d + k) mod length r := v]) = (rotate d r)[k := v]"
proof (rule nth_equalityI)
  show "length (rotate d (r[(d + k) mod length r := v])) = length ((rotate d r)[k := v])" by simp
next
  fix j assume "j < length (rotate d (r[(d + k) mod length r := v]))"
  then have j: "j < length r" by simp
  then show "rotate d (r[(d + k) mod length r := v]) ! j = (rotate d r)[k := v] ! j"
    using assms rotated_slot_inj [OF j assms, of d]
    by (cases "r = []") (auto simp: nth_rotate nth_list_update)
qed

lemma rotate_next: "rotate (Suc d mod length r) r = rotate1 (rotate d r)"
  by (metis rotate_Suc rotate_conv_mod)

lemma rotate_head: "d < length r \<Longrightarrow> rotate d r = p # ps \<Longrightarrow> r ! d = p"
  using nth_rotate [of 0 r d] by (cases r) auto

definition has_skb :: "cldma_request \<Rightarrow> bool" where
  "has_skb r \<longleftrightarrow> req_skb r \<noteq> None"

text \<open>What was sent with a request: the packet, the bus address and length of its mapping.\<close>

definition sent_of :: "cldma_request \<Rightarrow> cskb \<times> dma_addr \<times> u16" where
  "sent_of r = (the (req_skb r), mapped_buff r, data_buff_len (req_gpd r))"

definition ring_holds :: "cldma_queue \<Rightarrow> cldma_request list \<Rightarrow> (cskb \<times> dma_addr \<times> u16) list \<Rightarrow> bool" where
  "ring_holds q r ps \<longleftrightarrow> (\<exists>d busy idle. tr_done q = Some d \<and> d < length r \<and> rotate d r = busy @ idle \<and>
     list_all has_skb busy \<and> list_all (\<lambda>x. \<not> has_skb x) idle \<and> ps = map sent_of busy \<and>
     budget q = int (length idle) \<and> tx_next q = Some ((d + length busy) mod length r))"

definition tx_holds ::
  "'z cldma_layer_scheme \<Rightarrow> cldma_id \<Rightarrow> nat \<Rightarrow> (cskb \<times> dma_addr \<times> u16) list \<Rightarrow> bool" where
  "tx_holds s c i ps = ring_holds (cl_txq (md_ctrl s c) i) (txr_at s c i) ps"

lemma ring_holdsE:
  assumes "ring_holds q r ps"
  obtains d busy idle where "tr_done q = Some d" "d < length r" "rotate d r = busy @ idle"
    "list_all has_skb busy" "list_all (\<lambda>x. \<not> has_skb x) idle" "ps = map sent_of busy"
    "budget q = int (length idle)" "tx_next q = Some ((d + length busy) mod length r)"
  using assms unfolding ring_holds_def by blast

text \<open>Budget and packets in flight add up to the ring; no two readings of a ring differ.\<close>

lemma ring_holds_length: "ring_holds q r ps \<Longrightarrow> int (length ps) + budget q = int (length r)"
  by (elim ring_holdsE) (metis length_append length_map length_rotate of_nat_add)

lemma ring_holds_fun:
  assumes "ring_holds q r ps" "ring_holds q r qs"
  shows "ps = qs"
proof -
  have "ps = map sent_of (filter has_skb (rotate (the (tr_done q)) r))" if "ring_holds q r ps" for ps
    using that by (elim ring_holdsE) (simp add: list_all_iff filter_id_conv)
  then show ?thesis using assms by blast
qed

text \<open>Sending fills the request at \<open>tx_next\<close>, collecting empties the one at \<open>tr_done\<close>.\<close>

lemma ring_holds_room:
  assumes "ring_holds q r ps" "0 < budget q" "tx_next q = Some x"
  shows "x < length r" "\<not> has_skb (r ! x)"
proof -
  obtain d busy idle where h: "d < length r" "rotate d r = busy @ idle" "list_all (\<lambda>x. \<not> has_skb x) idle"
    "budget q = int (length idle)" "tx_next q = Some ((d + length busy) mod length r)"
    using assms(1) by (rule ring_holdsE)
  then obtain y idle' where y: "idle = y # idle'" using assms(2) by (cases idle) auto
  have n: "length busy < length r" using arg_cong [OF h(2), of length] y by simp
  then show x: "x < length r" using h(5) assms(3) by (cases r) auto
  have "r ! x = y"
    using nth_rotate [OF n, of d] h(2,5) assms(3) y by (simp add: nth_append)
  then show "\<not> has_skb (r ! x)" using h(3) y by simp
qed

lemma ring_holds_send:
  assumes "ring_holds q r ps" "0 < budget q" "tx_next q = Some x" "has_skb v"
  shows "ring_holds (q\<lparr>budget := budget q - 1, tx_next := next_circular (length r) (Some x)\<rparr>) (r[x := v])
    (ps @ [sent_of v])"
proof -
  obtain d busy idle where h: "tr_done q = Some d" "d < length r" "rotate d r = busy @ idle"
    "list_all has_skb busy" "list_all (\<lambda>x. \<not> has_skb x) idle" "ps = map sent_of busy"
    "budget q = int (length idle)" "tx_next q = Some ((d + length busy) mod length r)"
    using assms(1) by (rule ring_holdsE)
  obtain y idle' where y: "idle = y # idle'" using h(7) assms(2) by (cases idle) auto
  have n: "length busy < length r" using arg_cong [OF h(3), of length] y by simp
  have "rotate d (r[x := v]) = (busy @ [v]) @ idle'"
    using rotate_update [OF n, of d v] h(3,8) assms(3) y by simp
  moreover have "Suc x mod length r = (d + length (busy @ [v])) mod length r"
    using h(8) assms(3) by (auto simp: mod_Suc_eq)
  ultimately show ?thesis
    unfolding ring_holds_def using h y assms(4)
    by (intro exI [of _ d] exI [of _ "busy @ [v]"] exI [of _ idle'])
       (simp add: next_circular_def list_all_append)
qed

lemma ring_holds_empty:
  assumes "ring_holds q r []" "tr_done q = Some d"
  shows "d < length r" "\<not> has_skb (r ! d)"
proof -
  obtain idle where h: "d < length r" "rotate d r = idle" "list_all (\<lambda>x. \<not> has_skb x) idle"
    using assms by (elim ring_holdsE) auto
  then obtain y ys where "rotate d r = y # ys" by (cases "rotate d r") auto
  then show "d < length r" "\<not> has_skb (r ! d)"
    using h rotate_head [OF h(1)] by auto
qed

lemma ring_holds_head:
  assumes "ring_holds q r (b # ps)" "tr_done q = Some d"
  shows "d < length r" "has_skb (r ! d)" "sent_of (r ! d) = b"
proof -
  obtain y busy idle where h: "d < length r" "rotate d r = y # busy @ idle" "has_skb y" "b = sent_of y"
    using assms by (elim ring_holdsE) auto
  then show "d < length r" "has_skb (r ! d)" "sent_of (r ! d) = b"
    using rotate_head [OF h(1,2)] by auto
qed

lemma ring_holds_touch:
  assumes "ring_holds q r ps" "tr_done q = Some d" "req_skb v = req_skb (r ! d)" "sent_of v = sent_of (r ! d)"
  shows "ring_holds q (r[d := v]) ps"
proof -
  obtain busy idle where h: "d < length r" "rotate d r = busy @ idle" "list_all has_skb busy"
    "list_all (\<lambda>x. \<not> has_skb x) idle" "ps = map sent_of busy"
    "budget q = int (length idle)" "tx_next q = Some ((d + length busy) mod length r)"
    using assms(1,2) by (elim ring_holdsE) auto
  have u: "rotate d (r[d := v]) = (busy @ idle)[0 := v]"
    using rotate_update [of 0 r d v] h(1,2) by (cases r) auto
  have same: "has_skb v = has_skb (r ! d)" using assms(3) by (simp add: has_skb_def)
  show ?thesis
  proof (cases busy)
    case Nil
    then obtain y ys where "idle = y # ys" using h(1,2) by (cases idle) auto
    then show ?thesis
      unfolding ring_holds_def using h assms(2-4) u Nil rotate_head [OF h(1), of y ys] same
      by (intro exI [of _ d] exI [of _ "[]"] exI [of _ "v # ys"]) simp
  next
    case (Cons y ys)
    then show ?thesis
      unfolding ring_holds_def using h assms(2-4) u rotate_head [OF h(1), of y "ys @ idle"] same
      by (intro exI [of _ d] exI [of _ "v # ys"] exI [of _ idle]) simp
  qed
qed

lemma ring_holds_collect:
  assumes "ring_holds q r (b # ps)" "tr_done q = Some d" "\<not> has_skb v"
  shows "ring_holds (q\<lparr>budget := budget q + 1, tr_done := next_circular (length r) (Some d)\<rparr>) (r[d := v]) ps"
proof -
  obtain y busy idle where h: "d < length r" "rotate d r = (y # busy) @ idle" "list_all has_skb busy"
    "list_all (\<lambda>x. \<not> has_skb x) idle" "ps = map sent_of busy"
    "budget q = int (length idle)" "tx_next q = Some ((d + length (y # busy)) mod length r)"
    using assms(1,2) by (elim ring_holdsE) auto
  have "rotate d (r[d := v]) = v # busy @ idle"
    using rotate_update [of 0 r d v] h(1,2) by (cases r) auto
  then have "rotate (Suc d mod length r) (r[d := v]) = busy @ idle @ [v]"
    using rotate_next [of d "r[d := v]"] by simp
  moreover have "(Suc d mod length r + length busy) mod length r = (d + length (y # busy)) mod length r"
    by (simp add: mod_add_left_eq)
  moreover have "Suc d mod length r < length r"
    using h(1) by (cases r) auto
  ultimately show ?thesis
    unfolding ring_holds_def using h assms(3)
    by (intro exI [of _ "Suc d mod length r"] exI [of _ busy] exI [of _ "idle @ [v]"])
       (simp add: next_circular_def)
qed


section \<open>Collecting\<close>

text \<open>Looking at the flags changes them at most.\<close>

lemma run_sync_gpd_tx:
  assumes "d < length (txr_at s c i)"
  shows "run (sync_gpd c MTK_TX i (Some d)) s = ((),
    let r = txr_at s c i; g = req_gpd (r ! d);
        v = env s (trace s) (Kernel ''gpd->flags & HWO'' [gpd_addr (r ! d)]);
        e = Ret ''gpd->flags & HWO'' [gpd_addr (r ! d)] v
    in if \<not> hwo g then s
       else if v = 0 then with_tx s c i (txq_at s c i)
         (r[d := (r ! d)\<lparr>req_gpd := g\<lparr>gpd_flags := gpd_flags g AND NOT GPD_FLAGS_HWO\<rparr>\<rparr>]) [e]
       else emit e s)"
  using assms by (simp add: sync_gpd_def run_simps Let_def upd_gpd_def emit_with(1) [of _ s c i])

lemma sync_gpd_tx:
  assumes "d < length (txr_at s c i)"
  shows "\<exists>g es. after (sync_gpd c MTK_TX i (Some d)) s =
      with_tx s c i (txq_at s c i) ((txr_at s c i)[d := (txr_at s c i ! d)\<lparr>req_gpd := g\<rparr>]) es \<and>
    data_buff_len g = data_buff_len (req_gpd (txr_at s c i ! d)) \<and>
    calls ''dma_unmap_single'' es = [] \<and> calls ''dev_kfree_skb'' es = []"
proof -
  define r where "r = txr_at s c i ! d"
  define e where "e = Ret ''gpd->flags & HWO'' [gpd_addr r]
    (env s (trace s) (Kernel ''gpd->flags & HWO'' [gpd_addr r]))"
  define g where "g = (req_gpd r)\<lparr>gpd_flags := gpd_flags (req_gpd r) AND NOT GPD_FLAGS_HWO\<rparr>"
  have same: "(txr_at s c i)[d := (txr_at s c i ! d)\<lparr>req_gpd := req_gpd r\<rparr>] = txr_at s c i"
    by (simp add: r_def list_update_id)
  consider "after (sync_gpd c MTK_TX i (Some d)) s = with_tx s c i (txq_at s c i) (txr_at s c i) []"
    | "after (sync_gpd c MTK_TX i (Some d)) s = with_tx s c i (txq_at s c i) (txr_at s c i) [e]"
    | "after (sync_gpd c MTK_TX i (Some d)) s =
        with_tx s c i (txq_at s c i) ((txr_at s c i)[d := (txr_at s c i ! d)\<lparr>req_gpd := g\<rparr>]) [e]"
    using run_sync_gpd_tx [OF assms]
    by (simp add: Let_def with_same emit_with(1) [of _ s c i] r_def e_def g_def split: if_splits)
  then show ?thesis
  proof cases
    case 1
    then show ?thesis by (intro exI [of _ "req_gpd r"] exI [of _ "[]"]) (simp only: same, simp add: r_def)
  next
    case 2
    then show ?thesis
      by (intro exI [of _ "req_gpd r"] exI [of _ "[e]"]) (simp only: same, simp add: r_def e_def)
  next
    case 3
    then show ?thesis by (intro exI [of _ g] exI [of _ "[e]"]) (simp add: g_def r_def e_def)
  qed
qed

text \<open>What a round of collecting does.\<close>

definition unmap_of :: "cskb \<times> dma_addr \<times> u16 \<Rightarrow> u64 list" where
  "unmap_of p = [fst (snd p), ucast (snd (snd p))]"

definition ptr_of :: "cskb \<times> dma_addr \<times> u16 \<Rightarrow> u64 list" where
  "ptr_of p = [cskb_ptr (fst p)]"

lemma tx_collect_round:
  assumes "tr_done (txq_at s c i) = Some d" "d < length (txr_at s c i)"
  shows "run (tx_collect_loop c i (Suc fuel) n) s = (let
      stop = env s (trace s) (Kernel ''kthread_should_stop'' []);
      s1 = emit (Ret ''kthread_should_stop'' [] stop) s;
      t = after (sync_gpd c MTK_TX i (Some d)) s1;
      req = txr_at t c i ! d
    in if stop \<noteq> 0 then (n, s1) else if req_skb req = None \<or> hwo (req_gpd req) then (n, t)
      else run (tx_collect_loop c i fuel (n + 1)) (with_tx t c i
        ((txq_at t c i)\<lparr>budget := budget (txq_at t c i) + 1, tr_done := next_circular (length (txr_at t c i)) (Some d)\<rparr>)
        ((txr_at t c i)[d := req\<lparr>req_skb := None\<rparr>])
        [Call ''dma_unmap_single'' (unmap_of (sent_of req)), Call ''dev_kfree_skb'' (ptr_of (sent_of req))]))"
proof (cases "env s (trace s) (Kernel ''kthread_should_stop'' []) = 0")
  case False
  then show ?thesis by (simp add: run_simps Let_def)
next
  case True
  define s1 where "s1 = emit (Ret ''kthread_should_stop'' [] 0) s"
  define t where "t = after (sync_gpd c MTK_TX i (Some d)) s1"
  have s1: "md_ctrl s1 = md_ctrl s" by (simp add: s1_def)
  obtain g es where t: "t = with_tx s1 c i (txq_at s c i) ((txr_at s c i)[d := (txr_at s c i ! d)\<lparr>req_gpd := g\<rparr>]) es"
    using sync_gpd_tx [of d s1 c i] assms by (auto simp: t_def s1)
  have "run (sync_gpd c MTK_TX i (Some d)) s1 = ((), t)"
    by (simp add: t_def prod_eq_iff)
  moreover have "d < length (txr_at t c i)" using assms t by simp
  ultimately show ?thesis
    using assms True
    by (cases "req_skb (txr_at t c i ! d)")
       (simp_all add: run_simps Let_def s1_def [symmetric] s1 t_def [symmetric]
         sent_of_def unmap_of_def ptr_of_def)
qed

declare tx_collect_loop.simps(2) [simp del]

text \<open>A device that is done with everything, and a thread no one stops.\<close>

definition all_done :: "environment \<Rightarrow> bool" where
  "all_done ev \<longleftrightarrow> (\<forall>tr. ev tr (Kernel ''kthread_should_stop'' []) = 0 \<and>
     (\<forall>a. ev tr (Kernel ''gpd->flags & HWO'' [a]) = 0))"

lemma not_hwo_cleared: "\<not> hwo (g\<lparr>gpd_flags := gpd_flags g AND NOT GPD_FLAGS_HWO\<rparr>)"
  by (simp add: hwo_def and.assoc)

lemma sync_gpd_done:
  assumes "all_done (env s)" "d < length (txr_at s c i)"
  shows "\<not> hwo (req_gpd (txr_at (after (sync_gpd c MTK_TX i (Some d)) s) c i ! d))"
  using assms not_hwo_cleared by (simp add: run_sync_gpd_tx Let_def all_done_def)

text \<open>
  Collecting takes finished packets from the front, unmaps and frees each of them once, and
  gives their requests back to the budget.
\<close>

lemma tx_collect_loop_takes:
  assumes "tx_holds s c i ps"
  shows "\<exists>k q r es. k \<le> length ps \<and> run (tx_collect_loop c i fuel n) s = (n + k, with_tx s c i q r es) \<and>
    ring_holds q r (drop k ps) \<and> length r = length (txr_at s c i) \<and>
    calls ''dma_unmap_single'' es = map unmap_of (take k ps) \<and>
    calls ''dev_kfree_skb'' es = map ptr_of (take k ps) \<and>
    (all_done (env s) \<longrightarrow> k = min fuel (length ps))"
  using assms
proof (induction fuel arbitrary: s ps n)
  case 0
  then show ?case
    by (intro exI [of _ 0] exI [of _ "txq_at s c i"] exI [of _ "txr_at s c i"] exI [of _ "[]"])
       (simp add: tx_holds_def with_same)
next
  case (Suc fuel)
  note h = Suc.prems [unfolded tx_holds_def]
  obtain d where d: "tr_done (txq_at s c i) = Some d" "d < length (txr_at s c i)"
    using h by (rule ring_holdsE)
  define e where "e = Ret ''kthread_should_stop'' [] (env s (trace s) (Kernel ''kthread_should_stop'' []))"
  define t where "t = after (sync_gpd c MTK_TX i (Some d)) (emit e s)"
  obtain g es where t: "t = with_tx s c i (txq_at s c i) ((txr_at s c i)[d := (txr_at s c i ! d)\<lparr>req_gpd := g\<rparr>]) (e # es)"
    and g: "data_buff_len g = data_buff_len (req_gpd (txr_at s c i ! d))"
    and es: "calls ''dma_unmap_single'' es = []" "calls ''dev_kfree_skb'' es = []"
    using sync_gpd_tx [of d "emit e s" c i] d by (auto simp: t_def)
  have ht: "ring_holds (txq_at t c i) (txr_at t c i) ps"
    unfolding t using ring_holds_touch [OF h d(1)] g by (simp add: sent_of_def)
  have dt: "tr_done (txq_at t c i) = Some d" "d < length (txr_at t c i)"
    using d by (simp_all add: t)
  note round = tx_collect_round [OF d, of fuel n, unfolded Let_def, folded e_def, folded t_def]
  let ?req = "txr_at t c i ! d"
  have stopped: "env s (trace s) (Kernel ''kthread_should_stop'' []) = 0" if "all_done (env s)"
    using that by (simp add: all_done_def)
  have finished: "\<not> hwo (req_gpd ?req)" if "all_done (env s)"
    using sync_gpd_done [of "emit e s" d c i] that d(2) by (simp add: t_def)
  have idle: "ps = []" if "req_skb ?req = None"
    using that ht ring_holds_head(2) [of "txq_at t c i" "txr_at t c i" "hd ps" "tl ps" d] dt(1)
    by (cases ps) (auto simp: has_skb_def)
  consider (stop) "run (tx_collect_loop c i (Suc fuel) n) s = (n, emit e s)" "\<not> all_done (env s)"
    | (busy) "run (tx_collect_loop c i (Suc fuel) n) s = (n, t)" "all_done (env s) \<Longrightarrow> ps = []"
    | (one) "has_skb ?req" "run (tx_collect_loop c i (Suc fuel) n) s =
        run (tx_collect_loop c i fuel (n + 1)) (with_tx t c i
        ((txq_at t c i)\<lparr>budget := budget (txq_at t c i) + 1, tr_done := next_circular (length (txr_at t c i)) (Some d)\<rparr>)
        ((txr_at t c i)[d := ?req\<lparr>req_skb := None\<rparr>])
        [Call ''dma_unmap_single'' (unmap_of (sent_of ?req)), Call ''dev_kfree_skb'' (ptr_of (sent_of ?req))])"
    using round stopped finished idle by (auto simp: has_skb_def split: if_splits)
  then show ?case
  proof cases
    case stop
    then show ?thesis
      using h by (intro exI [of _ 0] exI [of _ "txq_at s c i"] exI [of _ "txr_at s c i"] exI [of _ "[e]"])
        (simp add: emit_with(1) [of _ s c i] e_def)
  next
    case busy
    then show ?thesis
      using ht es by (intro exI [of _ 0] exI [of _ "txq_at t c i"] exI [of _ "txr_at t c i"] exI [of _ "e # es"])
        (simp add: t e_def)
  next
    case one
    obtain b ps' where ps: "ps = b # ps'"
      using one(1) ring_holds_empty(2) [of "txq_at t c i" "txr_at t c i" d] ht dt(1)
      by (cases ps) auto
    have b: "sent_of ?req = b" using ring_holds_head(3) [OF ht [unfolded ps] dt(1)] .
    define u where "u = with_tx t c i
        ((txq_at t c i)\<lparr>budget := budget (txq_at t c i) + 1, tr_done := next_circular (length (txr_at t c i)) (Some d)\<rparr>)
        ((txr_at t c i)[d := ?req\<lparr>req_skb := None\<rparr>])
        [Call ''dma_unmap_single'' (unmap_of (sent_of ?req)), Call ''dev_kfree_skb'' (ptr_of (sent_of ?req))]"
    have "tx_holds u c i ps'"
      using ring_holds_collect [OF ht [unfolded ps] dt(1), of "?req\<lparr>req_skb := None\<rparr>"]
      by (simp add: u_def tx_holds_def has_skb_def)
    from Suc.IH [OF this, of "n + 1"] obtain k q r es' where
      k: "k \<le> length ps'" "run (tx_collect_loop c i fuel (n + 1)) u = (n + 1 + k, with_tx u c i q r es')"
        "ring_holds q r (drop k ps')" "length r = length (txr_at u c i)"
        "calls ''dma_unmap_single'' es' = map unmap_of (take k ps')"
        "calls ''dev_kfree_skb'' es' = map ptr_of (take k ps')"
        "all_done (env s) \<longrightarrow> k = min fuel (length ps')"
      by (auto simp: u_def t)
    show ?thesis
      using k one(2) es b
      by (intro exI [of _ "Suc k"] exI [of _ q] exI [of _ r]
          exI [of _ "e # es @ [Call ''dma_unmap_single'' (unmap_of b), Call ''dev_kfree_skb'' (ptr_of b)] @ es'"])
         (simp add: u_def t ps e_def)
  qed
qed

text \<open>More rounds than there are packets make no difference.\<close>

lemma tx_collect_fuel:
  assumes "tx_holds s c i ps" "length ps < fuel"
  shows "run (tx_collect_loop c i (Suc fuel) n) s = run (tx_collect_loop c i fuel n) s"
  using assms
proof (induction fuel arbitrary: s ps n)
  case 0
  then show ?case by simp
next
  case (Suc fuel)
  note h = Suc.prems(1) [unfolded tx_holds_def]
  obtain d where d: "tr_done (txq_at s c i) = Some d" "d < length (txr_at s c i)"
    using h by (rule ring_holdsE)
  define e where "e = Ret ''kthread_should_stop'' [] (env s (trace s) (Kernel ''kthread_should_stop'' []))"
  define t where "t = after (sync_gpd c MTK_TX i (Some d)) (emit e s)"
  obtain g es where t: "t = with_tx s c i (txq_at s c i) ((txr_at s c i)[d := (txr_at s c i ! d)\<lparr>req_gpd := g\<rparr>]) (e # es)"
    and g: "data_buff_len g = data_buff_len (req_gpd (txr_at s c i ! d))"
    using sync_gpd_tx [of d "emit e s" c i] d by (auto simp: t_def)
  have ht: "ring_holds (txq_at t c i) (txr_at t c i) ps"
    unfolding t using ring_holds_touch [OF h d(1)] g by (simp add: sent_of_def)
  have dt: "tr_done (txq_at t c i) = Some d" using d by (simp add: t)
  let ?req = "txr_at t c i ! d"
  let ?u = "with_tx t c i
        ((txq_at t c i)\<lparr>budget := budget (txq_at t c i) + 1, tr_done := next_circular (length (txr_at t c i)) (Some d)\<rparr>)
        ((txr_at t c i)[d := ?req\<lparr>req_skb := None\<rparr>])
        [Call ''dma_unmap_single'' (unmap_of (sent_of ?req)), Call ''dev_kfree_skb'' (ptr_of (sent_of ?req))]"
  have "run (tx_collect_loop c i (Suc fuel) (n + 1)) ?u = run (tx_collect_loop c i fuel (n + 1)) ?u"
    if "req_skb ?req \<noteq> None"
  proof -
    have "ps \<noteq> []"
      using that ring_holds_empty(2) [of "txq_at t c i" "txr_at t c i" d] ht dt by (auto simp: has_skb_def)
    then obtain b ps' where ps: "ps = b # ps'" by (cases ps) auto
    have "tx_holds ?u c i ps'"
      using ring_holds_collect [OF ht [unfolded ps] dt, of "?req\<lparr>req_skb := None\<rparr>"]
      by (simp add: tx_holds_def has_skb_def)
    then show ?thesis using Suc.IH [of ?u ps' "n + 1"] Suc.prems(2) ps by simp
  qed
  then show ?case
    unfolding tx_collect_round [OF d, of _ n] Let_def e_def [symmetric] t_def [symmetric] by simp
qed

lemma tx_collect_enough:
  assumes "tx_holds s c i ps" "length ps < fuel"
  shows "run (tx_collect_loop c i (fuel + k) n) s = run (tx_collect_loop c i fuel n) s"
proof (induction k)
  case (Suc k)
  then show ?case using tx_collect_fuel [OF assms(1), of "fuel + k" n] assms(2) by simp
qed simp

section \<open>What other operations leave alone\<close>

text \<open>The memory given back so far.\<close>

definition released :: "'z io_scheme \<Rightarrow> u64 list list \<times> u64 list list" where
  "released s = (calls ''dma_unmap_single'' (trace s), calls ''dev_kfree_skb'' (trace s))"

lemma released_emit [simp]: "harmless e \<Longrightarrow> released (emit e s) = released s"
  by (cases e) (simp_all add: released_def emit_def)

lemma released_pci [simp]: "released (s\<lparr>pci := p\<rparr>) = released s"
  by (simp add: released_def)

lemma released_md_ctrl [simp]: "released (s\<lparr>md_ctrl := m\<rparr>) = released s"
  by (simp add: released_def)

lemma device_only_harmless: "device_only e \<Longrightarrow> harmless e"
  by (cases e) auto

lemma preserves_cldma_hw:
  assumes "\<And>s e. harmless e \<Longrightarrow> f (emit e s) = f s"
  shows "preserves f (t7xx_cldma_tx_addr_is_set hw n)" "preserves f (t7xx_cldma_hw_init hw)"
    "preserves f (t7xx_cldma_hw_set_start_addr hw n a d)" "preserves f (t7xx_cldma_hw_queue_status hw n d)"
    "preserves f (t7xx_cldma_hw_resume_queue hw n d)" "preserves f (t7xx_cldma_hw_start_queue hw n d)"
    "preserves f (t7xx_cldma_hw_irq_dis_eq hw n d)" "preserves f (t7xx_cldma_hw_irq_dis_txrx hw n d)"
    "preserves f (t7xx_cldma_hw_irq_en_eq hw n d)" "preserves f (t7xx_cldma_hw_irq_en_txrx hw n d)"
    "preserves f (t7xx_cldma_hw_stop_all_qs hw d)" "preserves f (t7xx_cldma_hw_stop hw d)"
    "preserves f (t7xx_cldma_hw_tx_done hw m)" "preserves f (t7xx_cldma_hw_rx_done hw m)"
    "preserves f (t7xx_cldma_clear_ip_busy hw)" "preserves f (t7xx_cldma_hw_restore hw)"
    "preserves f (t7xx_cldma_hw_int_status hw m d)" "preserves f (t7xx_cldma_hw_start hw)"
  by (rule only_asks_preserves [OF _ assms [OF device_only_harmless]], rule only_asks_cldma_hw, assumption)+

text \<open>What the control path looks at: its engines, its faults, the memory given back.\<close>

definition cl_view :: "'z cldma_layer_scheme \<Rightarrow> _" where
  "cl_view s = (md_ctrl s, cldma_fault s, released s, env s)"

lemma cl_view_eq [simp]:
  "harmless e \<Longrightarrow> cl_view (emit e s) = cl_view s" "cl_view (s\<lparr>pci := p\<rparr>) = cl_view s"
  by (simp_all add: cl_view_def)

lemmas cl_view_hw = preserves_cldma_hw [where f = cl_view, OF cl_view_eq(1), THEN preservesD]
lemmas cl_view_pci = preserves_pci_dev [where f = cl_view, OF cl_view_eq(2,1), THEN preservesD]

lemma cl_view_iff:
  "cl_view t = cl_view s \<longleftrightarrow>
     md_ctrl t = md_ctrl s \<and> cldma_fault t = cldma_fault s \<and> released t = released s \<and> env t = env s"
  by (simp add: cl_view_def)

lemmas cl_hw_frame [simp] = cl_view_hw [unfolded cl_view_iff, THEN conjunct1]
  cl_view_hw [unfolded cl_view_iff, THEN conjunct2, THEN conjunct1]
  cl_view_hw [unfolded cl_view_iff, THEN conjunct2, THEN conjunct2, THEN conjunct1]
  cl_view_hw [unfolded cl_view_iff, THEN conjunct2, THEN conjunct2, THEN conjunct2]

lemma hw_start_send_frame:
  assumes "x < length (txr_at s c i)"
  shows "\<exists>b. md_ctrl (after (t7xx_cldma_hw_start_send c i (Some x)) s) =
      (md_ctrl s)(c := (md_ctrl s c)\<lparr>txq_started := b\<rparr>) \<and>
    cldma_fault (after (t7xx_cldma_hw_start_send c i (Some x)) s) = cldma_fault s \<and>
    released (after (t7xx_cldma_hw_start_send c i (Some x)) s) = released s \<and>
    env (after (t7xx_cldma_hw_start_send c i (Some x)) s) = env s"
  using assms
  by (intro exI [of _ "txq_started (md_ctrl (after (t7xx_cldma_hw_start_send c i (Some x)) s) c)"])
     (simp add: t7xx_cldma_hw_start_send_def run_simps split_beta)

section \<open>Sending\<close>

definition map_addr :: "environment \<Rightarrow> ev list \<Rightarrow> cskb \<Rightarrow> dma_addr" where
  "map_addr ev tr skb = ev tr (Kernel ''dma_map_single'' [cskb_ptr skb, of_nat (length (cskb_bytes skb))])"

lemma handle_tx_request:
  fixes s :: "'z cldma_layer_scheme" and skb :: cskb
  assumes "x < length (txr_at s c i)"
  defines "a \<equiv> map_addr (env s) (trace s) skb"
  shows "dma_mapping_error a \<Longrightarrow> \<exists>es. run (t7xx_cldma_gpd_handle_tx_request c i (Some x) skb) s =
      (Inl ENOMEM, with_tx s c i (txq_at s c i) ((txr_at s c i)[x := (txr_at s c i ! x)\<lparr>mapped_buff := a\<rparr>]) [es])
      \<and> harmless es"
    and "\<not> dma_mapping_error a \<Longrightarrow> \<exists>v es. run (t7xx_cldma_gpd_handle_tx_request c i (Some x) skb) s =
      (Inr (), with_tx s c i (txq_at s c i) ((txr_at s c i)[x := v]) [es]) \<and>
      has_skb v \<and> sent_of v = (skb, a, of_nat (length (cskb_bytes skb))) \<and> harmless es"
proof -
  note simps = t7xx_cldma_gpd_handle_tx_request_def run_simps Let_def a_def map_addr_def upd_gpd_def
    has_skb_def sent_of_def t7xx_cldma_gpd_set_data_ptr_def
  let ?e = "Ret ''dma_map_single'' [cskb_ptr skb, of_nat (length (cskb_bytes skb))] a"
  show "\<exists>es. run (t7xx_cldma_gpd_handle_tx_request c i (Some x) skb) s =
      (Inl ENOMEM, with_tx s c i (txq_at s c i) ((txr_at s c i)[x := (txr_at s c i ! x)\<lparr>mapped_buff := a\<rparr>]) [es])
      \<and> harmless es" if "dma_mapping_error a"
    using assms(1) that by (intro exI [of _ ?e]) (simp add: simps)
  define g where "g = (t7xx_cldma_gpd_set_data_ptr a (req_gpd (txr_at s c i ! x)))
      \<lparr>data_buff_len := of_nat (length (cskb_bytes skb))\<rparr>"
  define v where "v = (txr_at s c i ! x)\<lparr>mapped_buff := a, req_gpd :=
      (if txq_active (md_ctrl s c) AND BIT i \<noteq> 0 then g\<lparr>gpd_flags := gpd_flags g OR GPD_FLAGS_HWO\<rparr> else g),
      req_skb := Some skb\<rparr>"
  show "\<exists>v es. run (t7xx_cldma_gpd_handle_tx_request c i (Some x) skb) s =
      (Inr (), with_tx s c i (txq_at s c i) ((txr_at s c i)[x := v]) [es]) \<and>
      has_skb v \<and> sent_of v = (skb, a, of_nat (length (cskb_bytes skb))) \<and> harmless es"
    if "\<not> dma_mapping_error a"
    using assms(1) that by (intro exI [of _ v] exI [of _ ?e]) (auto simp: simps v_def g_def)
qed

lemma run_get_req_view:
  "run (get_req c MTK_TX i (Some k)) s = (if k < length (txr_at s c i) then (txr_at s c i ! k, s)
     else (zero_req 0, s\<lparr>cldma_fault := True\<rparr>))"
  by (simp add: get_req_def ring_of_def fault_def run_simps)

text \<open>The round in which there is room: the request is filled, and the device may be told.\<close>

lemma send_loop_room_run:
  fixes s :: "'z cldma_layer_scheme" and skb :: cskb
  assumes r: "x < length (txr_at s c i)" "\<not> has_skb (txr_at s c i ! x)"
    and room: "0 < budget (txq_at s c i)" and x: "tx_next (txq_at s c i) = Some x"
  defines "a \<equiv> map_addr (env s) (trace s) skb"
  shows "\<exists>v e u. u = with_tx s c i
        ((txq_at s c i)\<lparr>budget := budget (txq_at s c i) - 1, tx_next := next_circular (length (txr_at s c i)) (Some x)\<rparr>)
        ((txr_at s c i)[x := v]) [e] \<and> harmless e \<and> x < length (txr_at s c i) \<and>
      (if dma_mapping_error a then req_skb v = None
       else has_skb v \<and> sent_of v = (skb, a, of_nat (length (cskb_bytes skb)))) \<and>
      run (send_loop others c i skb (Suc fuel) ret) s =
        (if result t7xx_pci_sleep_disable_complete u
         then (Some ret, after (t7xx_cldma_hw_start_send c i (Some x)) (after t7xx_pci_sleep_disable_complete u))
         else (Some (Inl ETIMEDOUT), after t7xx_pci_sleep_disable_complete u))"
proof -
  define s1 where "s1 = with_tx s c i ((txq_at s c i)\<lparr>budget := budget (txq_at s c i) - 1\<rparr>) (txr_at s c i) []"
  have a: "a = map_addr (env s1) (trace s1) skb" by (simp add: a_def s1_def)
  have x1: "x < length (txr_at s1 c i)" using r by (simp add: s1_def)
  have none: "req_skb (txr_at s c i ! x) = None" using r(2) by (simp add: has_skb_def)
  obtain v e b where v: "run (t7xx_cldma_gpd_handle_tx_request c i (Some x) skb) s1 =
      (b, with_tx s1 c i (txq_at s1 c i) ((txr_at s1 c i)[x := v]) [e])" "harmless e"
      "if dma_mapping_error a then req_skb v = None
       else has_skb v \<and> sent_of v = (skb, a, of_nat (length (cskb_bytes skb)))"
  proof (cases "dma_mapping_error a")
    case True
    then show thesis
      using handle_tx_request(1) [OF x1, of skb] none r(1) that by (fastforce simp: a s1_def)
  next
    case False
    then show thesis using handle_tx_request(2) [OF x1, of skb] that by (fastforce simp: a)
  qed
  show ?thesis
    by (rule exI [of _ v], rule exI [of _ e], rule exI, intro conjI, rule refl)
       (use v r x none room in \<open>simp_all add: run_simps split_beta s1_def\<close>)
qed

declare send_loop.simps(2) [simp del]

lemma sleep_complete_result:
  "result t7xx_pci_sleep_disable_complete s \<longleftrightarrow>
     env s (trace s) (Kernel ''wait_for_completion_timeout sleep_lock_acquire'' [20]) \<noteq> 0"
  by (simp add: t7xx_pci_sleep_disable_complete_def run_simps Let_def)

text \<open>The device wakes up in time, or it does not, whenever it is asked.\<close>

definition wakes :: "environment \<Rightarrow> bool" where
  "wakes ev \<longleftrightarrow> (\<forall>tr. ev tr (Kernel ''wait_for_completion_timeout sleep_lock_acquire'' [20]) \<noteq> 0)"

definition sleeps :: "environment \<Rightarrow> bool" where
  "sleeps ev \<longleftrightarrow> (\<forall>tr. ev tr (Kernel ''wait_for_completion_timeout sleep_lock_acquire'' [20]) = 0)"

lemma send_loop_room:
  fixes s :: "'z cldma_layer_scheme" and skb :: cskb and i fuel :: nat and ret :: "errno + unit"
    and others :: "('z cldma_layer_scheme, unit) state"
  assumes h: "tx_holds s c i ps" and room: "0 < budget (txq_at s c i)"
  defines "a \<equiv> map_addr (env s) (trace s) skb"
    and "t \<equiv> after (send_loop others c i skb (Suc fuel) ret) s"
  shows "result (send_loop others c i skb (Suc fuel) ret) s \<in> {Some ret, Some (Inl ETIMEDOUT)}"
    and "cldma_fault t = cldma_fault s" "released t = released s" "env t = env s"
    and "\<not> dma_mapping_error a \<Longrightarrow> tx_holds t c i (ps @ [(skb, a, of_nat (length (cskb_bytes skb)))])"
    and "dma_mapping_error a \<Longrightarrow> budget (txq_at t c i) = budget (txq_at s c i) - 1 \<and>
      tr_done (txq_at t c i) = tr_done (txq_at s c i) \<and> map req_skb (txr_at t c i) = map req_skb (txr_at s c i)"
    and "wakes (env s) \<Longrightarrow> result (send_loop others c i skb (Suc fuel) ret) s = Some ret"
    and "sleeps (env s) \<Longrightarrow> result (send_loop others c i skb (Suc fuel) ret) s = Some (Inl ETIMEDOUT)"
proof -
  obtain x where x: "tx_next (txq_at s c i) = Some x"
    using h unfolding tx_holds_def by (elim ring_holdsE)
  note r = ring_holds_room [OF h [unfolded tx_holds_def] room x]
  obtain v e u where u: "u = with_tx s c i
        ((txq_at s c i)\<lparr>budget := budget (txq_at s c i) - 1, tx_next := next_circular (length (txr_at s c i)) (Some x)\<rparr>)
        ((txr_at s c i)[x := v]) [e]" and e: "harmless e" and lt: "x < length (txr_at s c i)"
    and v: "if dma_mapping_error a then req_skb v = None
       else has_skb v \<and> sent_of v = (skb, a, of_nat (length (cskb_bytes skb)))"
    and run: "run (send_loop others c i skb (Suc fuel) ret) s =
        (if result t7xx_pci_sleep_disable_complete u
         then (Some ret, after (t7xx_cldma_hw_start_send c i (Some x)) (after t7xx_pci_sleep_disable_complete u))
         else (Some (Inl ETIMEDOUT), after t7xx_pci_sleep_disable_complete u))"
    using send_loop_room_run [OF r room x, of skb others fuel ret] unfolding a_def by blast
  note w = cl_view_pci(3) [of u, unfolded cl_view_iff]
  have f: "x < length (txr_at (after t7xx_pci_sleep_disable_complete u) c i)"
    using lt w by (simp add: u)
  have rel: "released u = released s"
    using e by (cases e) (simp_all add: released_def u)
  have same: "(md_ctrl u)(c := (md_ctrl u c)\<lparr>txq_started := txq_started (md_ctrl u c)\<rparr>) = md_ctrl u"
    by simp
  have t: "\<exists>b. md_ctrl t = (md_ctrl u)(c := (md_ctrl u c)\<lparr>txq_started := b\<rparr>) \<and>
      cldma_fault t = cldma_fault s \<and> released t = released s \<and> env t = env s"
  proof (cases "result t7xx_pci_sleep_disable_complete u")
    case True
    have "cldma_fault u = cldma_fault s" "env u = env s" by (simp_all add: u)
    then show ?thesis
      using hw_start_send_frame [OF f] w run rel True by (simp add: t_def)
  next
    case False
    have "cldma_fault u = cldma_fault s" "env u = env s" by (simp_all add: u)
    then show ?thesis
      using same w run rel False by (intro exI [of _ "txq_started (md_ctrl u c)"]) (simp add: t_def)
  qed
  show "result (send_loop others c i skb (Suc fuel) ret) s \<in> {Some ret, Some (Inl ETIMEDOUT)}"
    using run by simp
  have "env u = env s" by (simp add: u)
  then show "wakes (env s) \<Longrightarrow> result (send_loop others c i skb (Suc fuel) ret) s = Some ret"
    "sleeps (env s) \<Longrightarrow> result (send_loop others c i skb (Suc fuel) ret) s = Some (Inl ETIMEDOUT)"
    using run by (simp_all add: sleep_complete_result wakes_def sleeps_def)
  show "cldma_fault t = cldma_fault s" "released t = released s" "env t = env s"
    using t by auto
  show "tx_holds t c i (ps @ [(skb, a, of_nat (length (cskb_bytes skb)))])" if "\<not> dma_mapping_error a"
    using t ring_holds_send [OF h [unfolded tx_holds_def] room x, of v] v that
    by (auto simp: tx_holds_def u)
  show "budget (txq_at t c i) = budget (txq_at s c i) - 1 \<and>
      tr_done (txq_at t c i) = tr_done (txq_at s c i) \<and> map req_skb (txr_at t c i) = map req_skb (txr_at s c i)"
    if "dma_mapping_error a"
    using t v that r by (auto simp: u map_update list_update_same_conv has_skb_def)
qed

end
