(* ===== verification/Cldma_Props.thy ===== *)
theory Cldma_Props
  imports Cldma_Ring Fsm_Refs
begin

text \<open>
  What the transmit side of the control path promises: packets go out in the order they came
  in, each is given back exactly once, and where that fails.
\<close>

section \<open>A transmit queue in use\<close>

lemma send_skb_run:
  fixes s :: "'z cldma_layer_scheme"
  assumes "i < 8" "txq_active (md_ctrl s c) AND BIT i \<noteq> 0"
    and pm: "\<not> pm_get_failed (kret (env s (trace s) (Kernel ''pm_runtime_resume_and_get'' [])))"
  shows "\<exists>u. cl_view u = cl_view s \<and>
    result (t7xx_cldma_send_skb others fuel c i skb) s =
      result (send_loop others c i skb fuel (kret (env s (trace s) (Kernel ''pm_runtime_resume_and_get'' [])))) u \<and>
    cl_view (after (t7xx_cldma_send_skb others fuel c i skb) s) =
      cl_view (after (send_loop others c i skb fuel (kret (env s (trace s) (Kernel ''pm_runtime_resume_and_get'' [])))) u)"
proof -
  let ?r = "kret (env s (trace s) (Kernel ''pm_runtime_resume_and_get'' []))"
  let ?u = "after t7xx_pci_disable_sleep (emit (Ret ''pm_runtime_resume_and_get'' []
    (env s (trace s) (Kernel ''pm_runtime_resume_and_get'' []))) s)"
  have u: "cl_view ?u = cl_view s"
    by (simp add: cl_view_pci(1))
  then have "txq_active (md_ctrl ?u c) AND BIT i \<noteq> 0"
    using assms(2) by (simp add: cl_view_iff)
  then show ?thesis
    using assms(1) pm u
    by (intro exI [of _ ?u])
       (simp add: t7xx_cldma_send_skb_def kerr_def run_simps Let_def split_beta cl_view_pci(2))
qed

lemma send_queues:
  fixes s :: "'z cldma_layer_scheme"
  assumes h: "tx_holds s c i ps" and room: "0 < budget (txq_at s c i)"
    and "i < 8" "txq_active (md_ctrl s c) AND BIT i \<noteq> 0"
    and "\<not> pm_get_failed (kret (env s (trace s) (Kernel ''pm_runtime_resume_and_get'' [])))"
    and mapped: "\<And>tr. \<not> dma_mapping_error (map_addr (env s) tr skb)"
  shows "\<exists>t r a. run (t7xx_cldma_send_skb others (Suc fuel) c i skb) s = (Some r, t) \<and>
    tx_holds t c i (ps @ [(skb, a, of_nat (length (cskb_bytes skb)))]) \<and> \<not> dma_mapping_error a \<and>
    cldma_fault t = cldma_fault s \<and> released t = released s \<and> env t = env s"
proof -
  define ret where "ret = kret (env s (trace s) (Kernel ''pm_runtime_resume_and_get'' []))"
  obtain u where u: "cl_view u = cl_view s"
    and r: "result (t7xx_cldma_send_skb others (Suc fuel) c i skb) s =
      result (send_loop others c i skb (Suc fuel) ret) u"
    and v: "cl_view (after (t7xx_cldma_send_skb others (Suc fuel) c i skb) s) =
      cl_view (after (send_loop others c i skb (Suc fuel) ret) u)"
    using send_skb_run [OF assms(3-5), of others "Suc fuel" skb] unfolding ret_def by blast
  have hu: "tx_holds u c i ps" "0 < budget (txq_at u c i)"
    using h room u by (simp_all add: tx_holds_def cl_view_iff)
  note l = send_loop_room [OF hu, where skb = skb and fuel = fuel and ret = ret and others = others]
  have "\<not> dma_mapping_error (map_addr (env u) (trace u) skb)"
    using mapped u by (simp add: cl_view_iff)
  note held = l(5) [OF this]
  define t where "t = after (t7xx_cldma_send_skb others (Suc fuel) c i skb) s"
  have t: "md_ctrl t = md_ctrl (after (send_loop others c i skb (Suc fuel) ret) u)"
    "cldma_fault t = cldma_fault s" "released t = released s" "env t = env s"
    using v l(2-4) u by (simp_all add: t_def cl_view_iff)
  obtain r' where "result (send_loop others c i skb (Suc fuel) ret) u = Some r'"
    using l(1) by blast
  then have "run (t7xx_cldma_send_skb others (Suc fuel) c i skb) s = (Some r', t)"
    using r by (simp add: t_def prod_eq_iff)
  moreover have "tx_holds t c i (ps @ [(skb, map_addr (env u) (trace u) skb, of_nat (length (cskb_bytes skb)))])"
    using held t(1) by (simp only: tx_holds_def)
  ultimately show ?thesis
    using t(2-4) mapped u
    by (intro exI [of _ t] exI [of _ r'] exI [of _ "map_addr (env u) (trace u) skb"]) (simp add: cl_view_iff)
qed

lemma collect_fifo:
  fixes s :: "'z cldma_layer_scheme"
  assumes "tx_holds s c i ps"
  shows "\<exists>k t es. k \<le> length ps \<and> run (t7xx_cldma_gpd_tx_collect c i) s = (k, t) \<and>
    tx_holds t c i (drop k ps) \<and> cldma_fault t = cldma_fault s \<and> trace t = trace s @ es \<and>
    calls ''dma_unmap_single'' es = map unmap_of (take k ps) \<and>
    calls ''dev_kfree_skb'' es = map ptr_of (take k ps) \<and>
    (all_done (env s) \<longrightarrow> k = length ps)"
proof -
  have n: "length ps \<le> length (txr_at s c i)"
    using assms unfolding tx_holds_def by (elim ring_holdsE) (metis length_append length_map length_rotate le_add1)
  obtain k q r es where k: "k \<le> length ps"
    "run (tx_collect_loop c i (Suc (length (txr_at s c i))) 0) s = (k, with_tx s c i q r es)"
    "ring_holds q r (drop k ps)"
    "calls ''dma_unmap_single'' es = map unmap_of (take k ps)"
    "calls ''dev_kfree_skb'' es = map ptr_of (take k ps)"
    "all_done (env s) \<longrightarrow> k = length ps"
    using tx_collect_loop_takes [OF assms, of "Suc (length (txr_at s c i))" 0] n by (auto simp: min_def)
  define e where "e = (if k = 0 then [] else [Call ''wake_up_nr req_wq'' (work_of c MTK_TX i @ [of_nat k])])"
  have "run (t7xx_cldma_gpd_tx_collect c i) s = (k, with_tx s c i q r (es @ e))"
    using k(2) by (simp add: t7xx_cldma_gpd_tx_collect_def run_simps e_def)
  then show ?thesis
    using k by (intro exI [of _ k] exI [of _ "with_tx s c i q r (es @ e)"] exI [of _ "es @ e"])
      (simp add: tx_holds_def e_def)
qed

text \<open>C16: sending a packet through an active queue with room. Provided the packet can be mapped,
  it is queued behind those in flight with the address it was mapped to, the call does not wait,
  nothing is unmapped or freed, and no bad pointer is followed.\<close>

theorem cldma_send_queues:
  fixes s :: "'z cldma_layer_scheme"
  assumes "tx_holds s c i ps" and "0 < budget (txq_at s c i)"
    and "i < 8" "txq_active (md_ctrl s c) AND BIT i \<noteq> 0"
    and "\<not> pm_get_failed (kret (env s (trace s) (Kernel ''pm_runtime_resume_and_get'' [])))"
    and "\<And>tr. \<not> dma_mapping_error (map_addr (env s) tr skb)"
  shows "\<exists>t r a. run (t7xx_cldma_send_skb others (Suc fuel) c i skb) s = (Some r, t) \<and>
    tx_holds t c i (ps @ [(skb, a, of_nat (length (cskb_bytes skb)))]) \<and> \<not> dma_mapping_error a \<and>
    cldma_fault t = cldma_fault s \<and> released t = released s \<and> env t = env s"
  using assms by (rule send_queues)

text \<open>C17: a transmit queue is a queue. Collecting what the device is done with takes packets from
  the front, unmaps each with the address and length it was mapped with, frees each once, in
  order, returns how many, and follows no bad pointer; the others stay in flight. When the
  device is done with all of them, and no one stops the thread, none is left behind.\<close>

theorem cldma_collect_fifo:
  fixes s :: "'z cldma_layer_scheme"
  assumes "tx_holds s c i ps"
  shows "\<exists>k t es. k \<le> length ps \<and> run (t7xx_cldma_gpd_tx_collect c i) s = (k, t) \<and>
    tx_holds t c i (drop k ps) \<and> cldma_fault t = cldma_fault s \<and> trace t = trace s @ es \<and>
    calls ''dma_unmap_single'' es = map unmap_of (take k ps) \<and>
    calls ''dev_kfree_skb'' es = map ptr_of (take k ps) \<and>
    (all_done (env s) \<longrightarrow> k = length ps)"
  using assms by (rule collect_fifo)

section \<open>Where it fails\<close>

text \<open>
  A ring with a hole: behind the packets \<open>ps\<close>, which the device may finish, lies an empty
  request, and behind that what was sent later. \<open>tr_done\<close> never passes an empty request.
\<close>

definition ring_stuck :: "cldma_queue \<Rightarrow> cldma_request list \<Rightarrow> (cskb \<times> dma_addr \<times> u16) list \<Rightarrow> bool" where
  "ring_stuck q r ps \<longleftrightarrow> (\<exists>d busy hole later idle. tr_done q = Some d \<and> d < length r \<and>
     rotate d r = busy @ hole # later @ idle \<and> list_all has_skb busy \<and> \<not> has_skb hole \<and>
     list_all (\<lambda>x. \<not> has_skb x) idle \<and> ps = map sent_of busy \<and> budget q = int (length idle) \<and>
     tx_next q = Some ((d + length (busy @ hole # later)) mod length r))"

lemma ring_stuckE:
  assumes "ring_stuck q r ps"
  obtains d busy hole later idle where "tr_done q = Some d" "d < length r"
    "rotate d r = busy @ hole # later @ idle" "list_all has_skb busy" "\<not> has_skb hole"
    "list_all (\<lambda>x. \<not> has_skb x) idle" "ps = map sent_of busy" "budget q = int (length idle)"
    "tx_next q = Some ((d + length (busy @ hole # later)) mod length r)"
  using assms unfolding ring_stuck_def by blast

lemma ring_stuck_start:
  assumes "ring_holds q r ps" "0 < budget q" "tx_next q = Some x" "\<not> has_skb v"
  shows "ring_stuck (q\<lparr>budget := budget q - 1, tx_next := next_circular (length r) (Some x)\<rparr>) (r[x := v]) ps"
proof -
  obtain d busy idle where h: "tr_done q = Some d" "d < length r" "rotate d r = busy @ idle"
    "list_all has_skb busy" "list_all (\<lambda>x. \<not> has_skb x) idle" "ps = map sent_of busy"
    "budget q = int (length idle)" "tx_next q = Some ((d + length busy) mod length r)"
    using assms(1) by (rule ring_holdsE)
  obtain y idle' where y: "idle = y # idle'" using h(7) assms(2) by (cases idle) auto
  have n: "length busy < length r" using arg_cong [OF h(3), of length] y by simp
  have "rotate d (r[x := v]) = busy @ v # [] @ idle'"
    using rotate_update [OF n, of d v] h(3,8) assms(3) y by simp
  moreover have "Suc x mod length r = (d + length (busy @ v # [])) mod length r"
    using h(8) assms(3) by (auto simp: mod_Suc_eq)
  ultimately show ?thesis
    unfolding ring_stuck_def using h y assms(4)
    by (intro exI [of _ d] exI [of _ busy] exI [of _ v] exI [of _ "[]"] exI [of _ idle'])
       (simp add: next_circular_def)
qed

lemma ring_stuck_send:
  assumes "ring_stuck q r ps" "0 < budget q" "tx_next q = Some x"
  shows "x < length r" "\<not> has_skb (r ! x)"
    and "ring_stuck (q\<lparr>budget := budget q - 1, tx_next := next_circular (length r) (Some x)\<rparr>) (r[x := v]) ps"
proof -
  obtain d busy hole later idle where h: "tr_done q = Some d" "d < length r"
    "rotate d r = busy @ hole # later @ idle" "list_all has_skb busy" "\<not> has_skb hole"
    "list_all (\<lambda>x. \<not> has_skb x) idle" "ps = map sent_of busy" "budget q = int (length idle)"
    "tx_next q = Some ((d + length (busy @ hole # later)) mod length r)"
    using assms(1) by (rule ring_stuckE)
  obtain y idle' where y: "idle = y # idle'" using h(8) assms(2) by (cases idle) auto
  define pre where "pre = busy @ hole # later"
  have rot: "rotate d r = pre @ y # idle'" using h(3) y by (simp add: pre_def)
  have n: "length pre < length r" using arg_cong [OF rot, of length] by simp
  have x: "x = (d + length pre) mod length r" using h(9) assms(3) by (simp add: pre_def)
  then show "x < length r" using h(2) by (cases r) auto
  have "r ! x = y"
    using nth_rotate [OF n, of d] rot x by (simp add: nth_append)
  then show "\<not> has_skb (r ! x)" using h(6) y by simp
  have "rotate d (r[x := v]) = pre @ v # idle'"
    using rotate_update [OF n, of d v] rot x by simp
  then have "rotate d (r[x := v]) = busy @ hole # (later @ [v]) @ idle'"
    by (simp add: pre_def)
  moreover have "Suc x mod length r = (d + length (busy @ hole # (later @ [v]))) mod length r"
    using x by (simp add: pre_def mod_Suc_eq)
  ultimately show "ring_stuck (q\<lparr>budget := budget q - 1, tx_next := next_circular (length r) (Some x)\<rparr>)
      (r[x := v]) ps"
    unfolding ring_stuck_def using h y
    by (intro exI [of _ d] exI [of _ busy] exI [of _ hole] exI [of _ "later @ [v]"] exI [of _ idle'])
       (simp add: next_circular_def)
qed

lemma ring_stuck_head:
  assumes "ring_stuck q r ps" "tr_done q = Some d"
  shows "d < length r" "has_skb (r ! d) \<longleftrightarrow> ps \<noteq> []" "ps \<noteq> [] \<Longrightarrow> sent_of (r ! d) = hd ps"
proof -
  obtain busy hole later idle where h: "d < length r" "rotate d r = busy @ hole # later @ idle"
    "list_all has_skb busy" "\<not> has_skb hole" "ps = map sent_of busy"
    using assms by (elim ring_stuckE) auto
  then show "d < length r" "has_skb (r ! d) \<longleftrightarrow> ps \<noteq> []" "ps \<noteq> [] \<Longrightarrow> sent_of (r ! d) = hd ps"
    using rotate_head [OF h(1), of "hd (busy @ [hole])" "tl (busy @ hole # later @ idle)"]
    by (cases busy; simp)+
qed

lemma ring_stuck_touch:
  assumes "ring_stuck q r ps" "tr_done q = Some d" "req_skb v = req_skb (r ! d)" "sent_of v = sent_of (r ! d)"
  shows "ring_stuck q (r[d := v]) ps"
proof -
  obtain busy hole later idle where h: "d < length r"
    "rotate d r = busy @ hole # later @ idle" "list_all has_skb busy" "\<not> has_skb hole"
    "list_all (\<lambda>x. \<not> has_skb x) idle" "ps = map sent_of busy" "budget q = int (length idle)"
    "tx_next q = Some ((d + length (busy @ hole # later)) mod length r)"
    using assms(1,2) by (elim ring_stuckE) auto
  have u: "rotate d (r[d := v]) = (busy @ hole # later @ idle)[0 := v]"
    using rotate_update [of 0 r d v] h(1,2) by (cases r) auto
  have same: "has_skb v = has_skb (r ! d)" using assms(3) by (simp add: has_skb_def)
  show ?thesis
  proof (cases busy)
    case Nil
    then show ?thesis
      unfolding ring_stuck_def using h assms(2-4) u rotate_head [OF h(1), of hole "later @ idle"] same
      by (intro exI [of _ d] exI [of _ "[]"] exI [of _ v] exI [of _ later] exI [of _ idle]) simp
  next
    case (Cons y ys)
    then show ?thesis
      unfolding ring_stuck_def using h assms(2-4) u rotate_head [OF h(1), of y "ys @ hole # later @ idle"] same
      by (intro exI [of _ d] exI [of _ "v # ys"] exI [of _ hole] exI [of _ later] exI [of _ idle]) simp
  qed
qed

lemma ring_stuck_collect:
  assumes "ring_stuck q r (b # ps)" "tr_done q = Some d" "\<not> has_skb v"
  shows "ring_stuck (q\<lparr>budget := budget q + 1, tr_done := next_circular (length r) (Some d)\<rparr>) (r[d := v]) ps"
proof -
  obtain y busy hole later idle where h: "d < length r"
    "rotate d r = (y # busy) @ hole # later @ idle" "list_all has_skb busy" "\<not> has_skb hole"
    "list_all (\<lambda>x. \<not> has_skb x) idle" "ps = map sent_of busy" "budget q = int (length idle)"
    "tx_next q = Some ((d + length ((y # busy) @ hole # later)) mod length r)"
    using assms(1,2) by (elim ring_stuckE) auto
  have "rotate d (r[d := v]) = v # busy @ hole # later @ idle"
    using rotate_update [of 0 r d v] h(1,2) by (cases r) auto
  then have "rotate (Suc d mod length r) (r[d := v]) = busy @ hole # later @ idle @ [v]"
    using rotate_next [of d "r[d := v]"] by simp
  moreover have "(Suc d mod length r + length (busy @ hole # later)) mod length r =
      (d + length ((y # busy) @ hole # later)) mod length r"
    using mod_add_left_eq [of "Suc d" "length r" "length (busy @ hole # later)"]
    by (simp del: mod_add_left_eq)
  moreover have "Suc d mod length r < length r"
    using h(1) by (cases r) auto
  ultimately show ?thesis
    unfolding ring_stuck_def using h assms(3)
    by (intro exI [of _ "Suc d mod length r"] exI [of _ busy] exI [of _ hole] exI [of _ later]
        exI [of _ "idle @ [v]"])
       (simp add: next_circular_def)
qed

text \<open>
  \<open>gives_back c i s t\<close>: on the way from \<open>s\<close> to \<open>t\<close> a queue with a hole keeps it, and the packets
  unmapped and freed are those at the front of \<open>ps\<close>.
\<close>

definition gives_back :: "cldma_id \<Rightarrow> nat \<Rightarrow> 'z cldma_layer_scheme \<Rightarrow> 'z cldma_layer_scheme \<Rightarrow> bool" where
  "gives_back c i s t \<longleftrightarrow> (\<forall>ps. ring_stuck (txq_at s c i) (txr_at s c i) ps \<longrightarrow>
     (\<exists>k. k \<le> length ps \<and> ring_stuck (txq_at t c i) (txr_at t c i) (drop k ps) \<and>
       released t = (fst (released s) @ map unmap_of (take k ps), snd (released s) @ map ptr_of (take k ps))))"

lemma gives_backI:
  assumes "\<And>ps. ring_stuck (txq_at s c i) (txr_at s c i) ps \<Longrightarrow>
    \<exists>k. k \<le> length ps \<and> ring_stuck (txq_at t c i) (txr_at t c i) (drop k ps) \<and>
      released t = (fst (released s) @ map unmap_of (take k ps), snd (released s) @ map ptr_of (take k ps))"
  shows "gives_back c i s t"
  using assms by (simp add: gives_back_def)

lemma gives_back_same:
  assumes "txq_at t c i = txq_at s c i" "txr_at t c i = txr_at s c i" "released t = released s"
  shows "gives_back c i s t"
  using assms by (intro gives_backI exI [of _ 0]) simp

lemma gives_back_view: "cl_view t = cl_view s \<Longrightarrow> gives_back c i s t"
  by (intro gives_back_same) (simp_all add: cl_view_iff)

lemma gives_back_trans:
  fixes s t u :: "'z cldma_layer_scheme"
  assumes "gives_back c i s t" "gives_back c i t u"
  shows "gives_back c i s u"
proof (rule gives_backI)
  fix ps
  assume "ring_stuck (txq_at s c i) (txr_at s c i) ps"
  then obtain k where k: "k \<le> length ps" "ring_stuck (txq_at t c i) (txr_at t c i) (drop k ps)"
    "released t = (fst (released s) @ map unmap_of (take k ps), snd (released s) @ map ptr_of (take k ps))"
    using assms(1) unfolding gives_back_def by blast
  then obtain j where j: "j \<le> length (drop k ps)" "ring_stuck (txq_at u c i) (txr_at u c i) (drop j (drop k ps))"
    "released u = (fst (released t) @ map unmap_of (take j (drop k ps)), snd (released t) @ map ptr_of (take j (drop k ps)))"
    using assms(2) unfolding gives_back_def by blast
  show "\<exists>k. k \<le> length ps \<and> ring_stuck (txq_at u c i) (txr_at u c i) (drop k ps) \<and>
      released u = (fst (released s) @ map unmap_of (take k ps), snd (released s) @ map ptr_of (take k ps))"
    using j k take_add [of k j ps] drop_drop [of j k ps, symmetric]
    by (intro exI [of _ "k + j"]) (simp add: add.commute [of j k] del: drop_drop)
qed

text \<open>Collecting.\<close>

lemma collect_loop_stuck:
  fixes s :: "'z cldma_layer_scheme"
  assumes "ring_stuck (txq_at s c i) (txr_at s c i) ps"
  shows "\<exists>k q r es. k \<le> length ps \<and> run (tx_collect_loop c i fuel n) s = (n + k, with_tx s c i q r es) \<and>
    ring_stuck q r (drop k ps) \<and> calls ''dma_unmap_single'' es = map unmap_of (take k ps) \<and>
    calls ''dev_kfree_skb'' es = map ptr_of (take k ps)"
  using assms
proof (induction fuel arbitrary: s ps n)
  case 0
  then show ?case
    by (intro exI [of _ 0] exI [of _ "txq_at s c i"] exI [of _ "txr_at s c i"] exI [of _ "[]"])
       (simp add: with_same)
next
  case (Suc fuel)
  note h = Suc.prems
  obtain d where d: "tr_done (txq_at s c i) = Some d" "d < length (txr_at s c i)"
    using h by (rule ring_stuckE)
  define e where "e = Ret ''kthread_should_stop'' [] (env s (trace s) (Kernel ''kthread_should_stop'' []))"
  define t where "t = after (sync_gpd c MTK_TX i (Some d)) (emit e s)"
  obtain g es where t: "t = with_tx s c i (txq_at s c i) ((txr_at s c i)[d := (txr_at s c i ! d)\<lparr>req_gpd := g\<rparr>]) (e # es)"
    and g: "data_buff_len g = data_buff_len (req_gpd (txr_at s c i ! d))"
    and es: "calls ''dma_unmap_single'' es = []" "calls ''dev_kfree_skb'' es = []"
    using sync_gpd_tx [of d "emit e s" c i] d by (auto simp: t_def)
  have ht: "ring_stuck (txq_at t c i) (txr_at t c i) ps"
    unfolding t using ring_stuck_touch [OF h d(1)] g by (simp add: sent_of_def)
  have dt: "tr_done (txq_at t c i) = Some d"
    using d by (simp add: t)
  note round = tx_collect_round [OF d, of fuel n, unfolded Let_def, folded e_def, folded t_def]
  let ?req = "txr_at t c i ! d"
  define u where "u = with_tx t c i
      ((txq_at t c i)\<lparr>budget := budget (txq_at t c i) + 1, tr_done := next_circular (length (txr_at t c i)) (Some d)\<rparr>)
      ((txr_at t c i)[d := ?req\<lparr>req_skb := None\<rparr>])
      [Call ''dma_unmap_single'' (unmap_of (sent_of ?req)), Call ''dev_kfree_skb'' (ptr_of (sent_of ?req))]"
  consider (stop) "run (tx_collect_loop c i (Suc fuel) n) s = (n, emit e s)"
    | (busy) "run (tx_collect_loop c i (Suc fuel) n) s = (n, t)"
    | (one) "has_skb ?req" "run (tx_collect_loop c i (Suc fuel) n) s = run (tx_collect_loop c i fuel (n + 1)) u"
    using round by (auto simp: has_skb_def u_def split: if_splits)
  then show ?case
  proof cases
    case stop
    then show ?thesis
      using h by (intro exI [of _ 0] exI [of _ "txq_at s c i"] exI [of _ "txr_at s c i"] exI [of _ "[e]"])
        (simp add: emit_with(1) [of _ s c i] e_def)
  next
    case busy
    then show ?thesis
      using ht es by (intro exI [of _ 0] exI [of _ "txq_at t c i"] exI [of _ "txr_at t c i"] exI [of _ "e # es"])
        (simp add: t e_def)
  next
    case one
    obtain b ps' where ps: "ps = b # ps'"
      using one(1) ring_stuck_head(2) [OF ht dt] by (cases ps) auto
    have b: "sent_of ?req = b" using ring_stuck_head(3) [OF ht dt] ps by simp
    have "ring_stuck (txq_at u c i) (txr_at u c i) ps'"
      using ring_stuck_collect [OF ht [unfolded ps] dt, of "?req\<lparr>req_skb := None\<rparr>"]
      by (simp add: u_def has_skb_def)
    from Suc.IH [OF this, of "n + 1"] obtain k q r es' where
      k: "k \<le> length ps'" "run (tx_collect_loop c i fuel (n + 1)) u = (n + 1 + k, with_tx u c i q r es')"
        "ring_stuck q r (drop k ps')" "calls ''dma_unmap_single'' es' = map unmap_of (take k ps')"
        "calls ''dev_kfree_skb'' es' = map ptr_of (take k ps')"
      by auto
    show ?thesis
      using k one(2) es b
      by (intro exI [of _ "Suc k"] exI [of _ q] exI [of _ r]
          exI [of _ "e # es @ [Call ''dma_unmap_single'' (unmap_of b), Call ''dev_kfree_skb'' (ptr_of b)] @ es'"])
         (simp add: u_def t ps e_def)
  qed
qed

lemma collect_stuck:
  fixes s :: "'z cldma_layer_scheme"
  assumes "ring_stuck (txq_at s c i) (txr_at s c i) ps"
  shows "result (t7xx_cldma_gpd_tx_collect c i) s \<le> length ps"
  using collect_loop_stuck [OF assms, of "Suc (length (txr_at s c i))" 0]
  by (auto simp: t7xx_cldma_gpd_tx_collect_def run_simps)

lemma gives_back_collect:
  fixes s :: "'z cldma_layer_scheme"
  shows "gives_back c i s (after (t7xx_cldma_gpd_tx_collect c i) s)"
proof (rule gives_backI)
  fix ps
  assume "ring_stuck (txq_at s c i) (txr_at s c i) ps"
  then obtain k q r es where k: "k \<le> length ps"
    "run (tx_collect_loop c i (Suc (length (txr_at s c i))) 0) s = (k, with_tx s c i q r es)"
    "ring_stuck q r (drop k ps)" "calls ''dma_unmap_single'' es = map unmap_of (take k ps)"
    "calls ''dev_kfree_skb'' es = map ptr_of (take k ps)"
    using collect_loop_stuck [of s c i ps "Suc (length (txr_at s c i))" 0] by auto
  then show "\<exists>k. k \<le> length ps \<and>
      ring_stuck (txq_at (after (t7xx_cldma_gpd_tx_collect c i) s) c i)
        (txr_at (after (t7xx_cldma_gpd_tx_collect c i) s) c i) (drop k ps) \<and>
      released (after (t7xx_cldma_gpd_tx_collect c i) s) =
        (fst (released s) @ map unmap_of (take k ps), snd (released s) @ map ptr_of (take k ps))"
    by (intro exI [of _ k]) (auto simp: t7xx_cldma_gpd_tx_collect_def run_simps released_def)
qed

text \<open>Sending, with and without room.\<close>

definition keeps_hole :: "cldma_id \<Rightarrow> nat \<Rightarrow> ('z cldma_layer_scheme, 'a) state \<Rightarrow> bool" where
  "keeps_hole c i m \<longleftrightarrow> (\<forall>s. gives_back c i s (after m s))"

lemma keeps_hole_view: "preserves cl_view m \<Longrightarrow> keeps_hole c i m"
  by (simp add: keeps_hole_def preserves_def gives_back_view)

lemma keeps_hole_bind:
  fixes m :: "('z cldma_layer_scheme, 'a) state"
  shows "keeps_hole c i m \<Longrightarrow> (\<And>a. keeps_hole c i (f a)) \<Longrightarrow> keeps_hole c i (State_Monad.bind m f)"
  unfolding keeps_hole_def run_bind split_beta by (blast intro: gives_back_trans)

lemma keeps_hole_if:
  "keeps_hole c i m \<Longrightarrow> keeps_hole c i n \<Longrightarrow> keeps_hole c i (if b then m else n)"
  by simp

lemma keeps_hole_return: "keeps_hole c i (return a)"
  by (rule keeps_hole_view) (rule preserves_return)

lemma keeps_hole_kernel:
  fixes c :: cldma_id
  shows "keeps_hole c i (kquery f args)" "keeps_hole c i (kerr f args)" "keeps_hole c i (get_cl d g)"
    "f \<noteq> ''dma_unmap_single'' \<Longrightarrow> f \<noteq> ''dev_kfree_skb'' \<Longrightarrow> keeps_hole c i (kcall f args)"
  by (intro keeps_hole_view; simp add: preserves_def kerr_def run_simps Let_def)+

lemmas keeps_hole_intros = keeps_hole_return keeps_hole_kernel keeps_hole_bind keeps_hole_if

lemma keeps_hole_hw:
  "keeps_hole c i t7xx_pci_disable_sleep" "keeps_hole c i t7xx_pci_enable_sleep"
  "keeps_hole c i t7xx_pci_sleep_disable_complete"
  "keeps_hole c i (t7xx_cldma_hw_queue_status hw n d)" "keeps_hole c i (t7xx_cldma_hw_resume_queue hw n d)"
  by (intro keeps_hole_view; simp add: preserves_def cl_view_pci cl_view_hw)+

lemma gives_back_start_send:
  assumes "x < length (txr_at s c i)"
  shows "gives_back c i s (after (t7xx_cldma_hw_start_send c i (Some x)) s)"
  using hw_start_send_frame [OF assms] by (intro gives_back_same) auto

lemma keeps_hole_send_loop:
  fixes others :: "('z cldma_layer_scheme, unit) state"
  assumes others: "keeps_hole c i others"
  shows "keeps_hole c i (send_loop others c i skb fuel ret)"
proof (induction fuel arbitrary: ret)
  case 0
  then show ?case by (simp add: keeps_hole_return)
next
  case (Suc fuel)
  have "gives_back c i s (after (send_loop others c i skb (Suc fuel) ret) s)" for s
  proof (cases "\<exists>ps. ring_stuck (txq_at s c i) (txr_at s c i) ps")
    case False
    then show ?thesis by (simp add: gives_back_def)
  next
    case True
    then obtain ps where h: "ring_stuck (txq_at s c i) (txr_at s c i) ps" ..
    obtain x where x: "tx_next (txq_at s c i) = Some x"
      using h by (rule ring_stuckE)
    show ?thesis
    proof (cases "0 < budget (txq_at s c i)")
      case room: True
      note r = ring_stuck_send(1,2) [OF h room x]
      obtain v e u where u: "u = with_tx s c i ((txq_at s c i)\<lparr>budget := budget (txq_at s c i) - 1,
            tx_next := next_circular (length (txr_at s c i)) (Some x)\<rparr>) ((txr_at s c i)[x := v]) [e]"
        and e: "harmless e"
        and run: "run (send_loop others c i skb (Suc fuel) ret) s =
          (if result t7xx_pci_sleep_disable_complete u
           then (Some ret, after (t7xx_cldma_hw_start_send c i (Some x)) (after t7xx_pci_sleep_disable_complete u))
           else (Some (Inl ETIMEDOUT), after t7xx_pci_sleep_disable_complete u))"
        using send_loop_room_run [OF r room x, of skb others fuel ret] by blast
      have "released u = released s"
        using e by (cases e) (simp_all add: released_def u)
      then have "gives_back c i s u"
        using ring_stuck_send(3) [OF _ room x, of "txr_at s c i" _ v]
        by (intro gives_backI exI [of _ 0]) (simp add: u)
      moreover have w: "cl_view (after t7xx_pci_sleep_disable_complete u) = cl_view u"
        by (rule cl_view_pci(3))
      then have "gives_back c i u (after t7xx_pci_sleep_disable_complete u)"
        by (rule gives_back_view)
      moreover have "x < length (txr_at (after t7xx_pci_sleep_disable_complete u) c i)"
        using w r by (simp add: cl_view_iff u)
      note gives_back_start_send [OF this]
      ultimately show ?thesis
        unfolding run by (auto intro: gives_back_trans)
    next
      case False
      define wait :: "('z cldma_layer_scheme, (errno + unit) option) state" where "wait = do {
         complete \<leftarrow> t7xx_pci_sleep_disable_complete;
         if \<not> complete then return (Some (Inl ETIMEDOUT)) else do {
           hw \<leftarrow> get_cl c hw_info;
           st \<leftarrow> t7xx_cldma_hw_queue_status hw (of_nat i) MTK_TX;
           c_when (st = 0) (t7xx_cldma_hw_resume_queue hw (of_nat i) MTK_TX);
           ret \<leftarrow> kerr ''wait_event_interruptible_exclusive req_wq'' (work_of c MTK_TX i);
           others;
           if isl ret then return (Some ret) else send_loop others c i skb fuel ret
         }
       }"
      have "run (send_loop others c i skb (Suc fuel) ret) s = run wait s"
        using False unfolding send_loop.simps(2) by (simp add: run_bind run_get_cl wait_def)
      moreover have "keeps_hole c i wait"
        unfolding wait_def c_when_def by (intro keeps_hole_intros keeps_hole_hw others Suc.IH)
      ultimately show ?thesis
        by (simp add: keeps_hole_def)
    qed
  qed
  then show ?case by (simp add: keeps_hole_def)
qed

lemma keeps_hole_send_skb:
  assumes "keeps_hole c i others"
  shows "keeps_hole c i (t7xx_cldma_send_skb others fuel c i skb)"
  unfolding t7xx_cldma_send_skb_def
  by (intro keeps_hole_intros keeps_hole_hw keeps_hole_send_loop [OF assms]) simp_all

text \<open>The failed mapping leaves the hole.\<close>

lemma send_loop_hole:
  fixes s :: "'z cldma_layer_scheme"
  assumes h: "tx_holds s c i ps" and room: "0 < budget (txq_at s c i)"
    and unmapped: "dma_mapping_error (map_addr (env s) (trace s) skb)"
  shows "ring_stuck (txq_at (after (send_loop others c i skb (Suc fuel) ret) s) c i)
    (txr_at (after (send_loop others c i skb (Suc fuel) ret) s) c i) ps"
proof -
  obtain x where x: "tx_next (txq_at s c i) = Some x"
    using h unfolding tx_holds_def by (elim ring_holdsE)
  note r = ring_holds_room [OF h [unfolded tx_holds_def] room x]
  obtain v e u where u: "u = with_tx s c i ((txq_at s c i)\<lparr>budget := budget (txq_at s c i) - 1,
        tx_next := next_circular (length (txr_at s c i)) (Some x)\<rparr>) ((txr_at s c i)[x := v]) [e]"
    and v: "req_skb v = None"
    and run: "run (send_loop others c i skb (Suc fuel) ret) s =
      (if result t7xx_pci_sleep_disable_complete u
       then (Some ret, after (t7xx_cldma_hw_start_send c i (Some x)) (after t7xx_pci_sleep_disable_complete u))
       else (Some (Inl ETIMEDOUT), after t7xx_pci_sleep_disable_complete u))"
    using send_loop_room_run [OF r room x, of skb others fuel ret] unmapped by auto
  define w where "w = after t7xx_pci_sleep_disable_complete u"
  have "ring_stuck (txq_at u c i) (txr_at u c i) ps"
    using ring_stuck_start [OF h [unfolded tx_holds_def] room x, of v] v by (simp add: u has_skb_def)
  moreover have "md_ctrl w = md_ctrl u"
    using cl_view_pci(3) [of u] by (simp add: w_def cl_view_iff)
  moreover have "x < length (txr_at w c i)"
    using calculation(2) r by (simp add: u)
  note hw_start_send_frame [OF this]
  ultimately show ?thesis
    unfolding run w_def [symmetric] by (auto split: if_splits)
qed

text \<open>
  What may happen to a transmit queue after the failure: packets are sent through it, finished
  ones are collected, also while a sender waits for room, and anything else that leaves the
  queue alone and gives no packet back.
\<close>

definition collecting :: "cldma_id \<Rightarrow> nat \<Rightarrow> ('z cldma_layer_scheme, unit) state" where
  "collecting c i = do { t7xx_cldma_gpd_tx_collect c i; return () }"

inductive tx_step :: "cldma_id \<Rightarrow> nat \<Rightarrow> 'z cldma_layer_scheme \<Rightarrow> 'z cldma_layer_scheme \<Rightarrow> bool"
  for c :: cldma_id and i :: nat where
  tx_send: "others = return () \<or> others = collecting c i \<Longrightarrow>
    tx_step c i s (after (t7xx_cldma_send_skb others fuel c i skb) s)"
| tx_collect: "tx_step c i s (after (t7xx_cldma_gpd_tx_collect c i) s)"
| tx_elsewhere: "txq_at t c i = txq_at s c i \<Longrightarrow> txr_at t c i = txr_at s c i \<Longrightarrow>
    released t = released s \<Longrightarrow> tx_step c i s t"

lemma gives_back_step:
  assumes "tx_step c i s t"
  shows "gives_back c i s t"
  using assms
proof cases
  case (tx_send others fuel skb)
  have "keeps_hole c i (collecting c i :: ('a cldma_layer_scheme, unit) state)"
    unfolding collecting_def by (intro keeps_hole_bind keeps_hole_return) (simp add: keeps_hole_def gives_back_collect)
  then have "keeps_hole c i others"
    using tx_send(2) by (auto simp: keeps_hole_return)
  then show ?thesis
    using keeps_hole_send_skb [of c i others fuel skb] tx_send(1) by (simp add: keeps_hole_def)
next
  case tx_collect
  then show ?thesis by (simp add: gives_back_collect)
next
  case tx_elsewhere
  then show ?thesis by (rule gives_back_same)
qed

lemma gives_back_steps:
  assumes "(tx_step c i)\<^sup>*\<^sup>* s t"
  shows "gives_back c i s t"
  using assms
proof (induction rule: rtranclp_induct)
  case base
  then show ?case by (rule gives_back_same) simp_all
next
  case (step t u)
  then show ?case using gives_back_step gives_back_trans by blast
qed

text \<open>C19: a packet that cannot be mapped is lost, and the queue with it. \<open>t7xx_cldma_send_skb\<close>
  does not look at the result of \<open>t7xx_cldma_gpd_handle_tx_request\<close>: it reports success for a
  packet it did not queue, and steps over the request, which stays empty. \<open>tr_done\<close> never
  passes an empty request. Whatever is sent later through the queue, however often it is
  collected and whatever the kernel and the device answer, the packets unmapped and freed are
  only those that were in flight before the failure, each once and in order: no packet sent
  later is ever collected.\<close>

theorem cldma_map_failure_sticks:
  fixes s u :: "'z cldma_layer_scheme"
  assumes h: "tx_holds s c i ps" and room: "0 < budget (txq_at s c i)"
    and act: "i < 8" "txq_active (md_ctrl s c) AND BIT i \<noteq> 0"
    and pm: "env s (trace s) (Kernel ''pm_runtime_resume_and_get'' []) = 0" and awake: "wakes (env s)"
    and unmapped: "\<And>tr. dma_mapping_error (map_addr (env s) tr skb)"
    and sent: "run (t7xx_cldma_send_skb others (Suc fuel) c i skb) s = (r, t)"
    and later: "(tx_step c i)\<^sup>*\<^sup>* t u"
  shows "r = Some (Inr ()) \<and>
    (\<exists>k. k \<le> length ps \<and>
      calls ''dma_unmap_single'' (trace u) = calls ''dma_unmap_single'' (trace s) @ map unmap_of (take k ps) \<and>
      calls ''dev_kfree_skb'' (trace u) = calls ''dev_kfree_skb'' (trace s) @ map ptr_of (take k ps) \<and>
      result (t7xx_cldma_gpd_tx_collect c i) u \<le> length ps - k)"
proof -
  have ret: "kret (env s (trace s) (Kernel ''pm_runtime_resume_and_get'' [])) = Inr ()"
    using pm by (simp add: kret_def)
  obtain v where v: "cl_view v = cl_view s"
    and r: "r = result (send_loop others c i skb (Suc fuel) (Inr ())) v"
    and t: "cl_view t = cl_view (after (send_loop others c i skb (Suc fuel) (Inr ())) v)"
    using send_skb_run [OF act, of others "Suc fuel" skb] ret sent by (auto simp: pm_get_failed_def)
  have hv: "tx_holds v c i ps" "0 < budget (txq_at v c i)" "wakes (env v)"
    "dma_mapping_error (map_addr (env v) (trace v) skb)"
    using h room v awake unmapped by (simp_all add: tx_holds_def cl_view_iff)
  note l = send_loop_room [OF hv(1,2), where skb = skb and fuel = fuel and ret = "Inr ()" and others = others]
  have "ring_stuck (txq_at t c i) (txr_at t c i) ps"
    using send_loop_hole [OF hv(1,2,4), of others fuel "Inr ()"] t by (simp add: cl_view_iff)
  then obtain k where k: "k \<le> length ps" "ring_stuck (txq_at u c i) (txr_at u c i) (drop k ps)"
    "released u = (fst (released t) @ map unmap_of (take k ps), snd (released t) @ map ptr_of (take k ps))"
    using gives_back_steps [OF later] unfolding gives_back_def by blast
  moreover have "released t = released s"
    using t v l(3) by (simp add: cl_view_iff)
  moreover have "r = Some (Inr ())"
    using r l(7) [OF hv(3)] by simp
  ultimately show ?thesis
    using collect_stuck [OF k(2)] by (intro conjI exI [of _ k]) (simp_all add: released_def)
qed

text \<open>C20: an error does not mean that the packet was not sent. When the device does not wake up in
  time, \<open>t7xx_cldma_send_skb\<close> returns \<open>-ETIMEDOUT\<close> for a packet that is in the ring and that will
  be sent, unmapped and freed when the device is done with it.\<close>

theorem cldma_send_timeout_keeps_packet:
  fixes s :: "'z cldma_layer_scheme"
  assumes h: "tx_holds s c i ps" and room: "0 < budget (txq_at s c i)"
    and act: "i < 8" "txq_active (md_ctrl s c) AND BIT i \<noteq> 0"
    and pm: "\<not> pm_get_failed (kret (env s (trace s) (Kernel ''pm_runtime_resume_and_get'' [])))"
    and asleep: "sleeps (env s)"
    and mapped: "\<And>tr. \<not> dma_mapping_error (map_addr (env s) tr skb)"
  shows "\<exists>t a. run (t7xx_cldma_send_skb others (Suc fuel) c i skb) s = (Some (Inl ETIMEDOUT), t) \<and>
    tx_holds t c i (ps @ [(skb, a, of_nat (length (cskb_bytes skb)))])"
proof -
  obtain t r a where t: "run (t7xx_cldma_send_skb others (Suc fuel) c i skb) s = (Some r, t)"
    "tx_holds t c i (ps @ [(skb, a, of_nat (length (cskb_bytes skb)))])"
    using send_queues [OF h room act pm mapped, of others fuel] by blast
  obtain u where u: "cl_view u = cl_view s"
    and r: "result (t7xx_cldma_send_skb others (Suc fuel) c i skb) s =
      result (send_loop others c i skb (Suc fuel) (kret (env s (trace s) (Kernel ''pm_runtime_resume_and_get'' [])))) u"
    using send_skb_run [OF act pm, of others "Suc fuel" skb] by blast
  have "tx_holds u c i ps" "0 < budget (txq_at u c i)" "sleeps (env u)"
    using h room u asleep by (simp_all add: tx_holds_def cl_view_iff)
  then show ?thesis
    using t r send_loop_room(8) [of u c i ps] by (metis fst_conv option.inject)
qed

section \<open>A queue to try it on\<close>

definition cldma_example :: "(string \<Rightarrow> u64 list \<Rightarrow> u64) \<Rightarrow> cldma_layer" where
  "cldma_example answers = fsm_layer.extend (fsm_example\<lparr>env := reg_file (\<lambda>_. 0) answers\<rparr>)
     (cldma_layer.fields (\<lambda>_. zero_ctrl\<lparr>txq_active := 0xFF,
        cl_txq := (\<lambda>_. zero_queue\<lparr>tr_ring := True, tr_done := Some 1, tx_next := Some 1, budget := 2\<rparr>),
        tx_ring := (\<lambda>_. \<lparr>gpd_ring = [zero_req 0x1000, zero_req 0x2000], ring_length = 2, pkt_size = 3584\<rparr>)\<rparr>)
      False)"

lemma cldma_example_fields [simp]:
  "env (cldma_example f) = reg_file (\<lambda>_. 0) f"
  "md_ctrl (cldma_example f) = (\<lambda>_. zero_ctrl\<lparr>txq_active := 0xFF,
     cl_txq := (\<lambda>_. zero_queue\<lparr>tr_ring := True, tr_done := Some 1, tx_next := Some 1, budget := 2\<rparr>),
     tx_ring := (\<lambda>_. \<lparr>gpd_ring = [zero_req 0x1000, zero_req 0x2000], ring_length = 2, pkt_size = 3584\<rparr>)\<rparr>)"
  "\<not> cldma_fault (cldma_example f)"
  by (simp_all add: cldma_example_def fsm_layer.defs cldma_layer.defs)

lemma cldma_example_holds: "tx_holds (cldma_example f) c i []"
  by (auto simp: tx_holds_def ring_holds_def has_skb_def zero_req_def)

text \<open>The kernel says 1 to everything, or 0 to a question, or refuses to map.\<close>

definition yes_but :: "string \<Rightarrow> u64 \<Rightarrow> string \<Rightarrow> u64 list \<Rightarrow> u64" where
  "yes_but q v f args = (if f = q then v else if f = ''pm_runtime_resume_and_get'' then 0 else 1)"

definition cskb_example :: cskb where
  "cskb_example = \<lparr>cskb_ptr = 0x5000, cskb_size = 16, cskb_bytes = [1, 2, 3]\<rparr>"

lemma cldma_example_ready:
  "0 < budget (txq_at (cldma_example f) c i)" "txq_active (md_ctrl (cldma_example f) c) AND BIT 3 \<noteq> 0"
  by (simp_all add: zero_queue_def BIT_def)

lemma yes_but_pm:
  "q \<noteq> ''pm_runtime_resume_and_get'' \<Longrightarrow>
   env (cldma_example (yes_but q v)) tr (Kernel ''pm_runtime_resume_and_get'' []) = 0"
  by (simp add: reg_file_def yes_but_def)

theorem cldma_send_queues_witness:
  "\<exists>t r a. run (t7xx_cldma_send_skb (return ()) 1 CLDMA_ID_MD 3 cskb_example) (cldma_example (yes_but ''x'' 0)) =
      (Some r, t) \<and> tx_holds t CLDMA_ID_MD 3 [(cskb_example, a, 3)] \<and> \<not> cldma_fault t"
  using cldma_send_queues [OF cldma_example_holds [of "yes_but ''x'' 0" CLDMA_ID_MD 3]
      cldma_example_ready(1) _ cldma_example_ready(2), where skb = cskb_example and others = "return ()" and fuel = 0]
  by (auto simp: yes_but_pm pm_get_failed_def kret_def map_addr_def reg_file_def yes_but_def
      dma_mapping_error_def cskb_example_def)

definition only_maps :: "string \<Rightarrow> u64 list \<Rightarrow> u64" where
  "only_maps f args = (if f = ''dma_map_single'' then 0x7000 else 0)"

theorem cldma_collect_fifo_witness:
  "\<exists>t u. run (t7xx_cldma_send_skb (return ()) 1 CLDMA_ID_MD 3 cskb_example) (cldma_example only_maps) = t \<and>
    run (t7xx_cldma_gpd_tx_collect CLDMA_ID_MD 3) (snd t) = (1, u) \<and> tx_holds u CLDMA_ID_MD 3 [] \<and>
    calls ''dev_kfree_skb'' (trace u) = calls ''dev_kfree_skb'' (trace (snd t)) @ [[0x5000]]"
proof -
  obtain t r a where t: "run (t7xx_cldma_send_skb (return ()) 1 CLDMA_ID_MD 3 cskb_example)
      (cldma_example only_maps) = (Some r, t)"
    "tx_holds t CLDMA_ID_MD 3 [(cskb_example, a, 3)]" "env t = reg_file (\<lambda>_. 0) only_maps"
    using send_queues [OF cldma_example_holds [of only_maps CLDMA_ID_MD 3]
      cldma_example_ready(1) _ cldma_example_ready(2), where skb = cskb_example and others = "return ()" and fuel = 0]
    by (auto simp: pm_get_failed_def kret_def map_addr_def reg_file_def only_maps_def
        dma_mapping_error_def cskb_example_def)
  then show ?thesis
    using cldma_collect_fifo [OF t(2)]
    by (auto simp: all_done_def reg_file_def only_maps_def ptr_of_def cskb_example_def)
qed

theorem cldma_map_failure_sticks_witness:
  "\<exists>t. run (t7xx_cldma_send_skb (return ()) 1 CLDMA_ID_MD 3 cskb_example)
      (cldma_example (yes_but ''dma_map_single'' (- 1))) = (Some (Inr ()), t) \<and>
    (let u = after (t7xx_cldma_send_skb (return ()) 1 CLDMA_ID_MD 3 cskb_example) t
     in result (t7xx_cldma_gpd_tx_collect CLDMA_ID_MD 3) u = 0 \<and>
       calls ''dev_kfree_skb'' (trace u) = calls ''dev_kfree_skb'' (trace (cldma_example (yes_but ''dma_map_single'' (- 1)))))"
proof -
  let ?s = "cldma_example (yes_but ''dma_map_single'' (- 1))"
  obtain r t where t: "run (t7xx_cldma_send_skb (return ()) (Suc 0) CLDMA_ID_MD 3 cskb_example) ?s = (r, t)"
    by fastforce
  have "(tx_step CLDMA_ID_MD 3)\<^sup>*\<^sup>* t (after (t7xx_cldma_send_skb (return ()) (Suc 0) CLDMA_ID_MD 3 cskb_example) t)"
    by (intro r_into_rtranclp tx_send) simp
  then show ?thesis
    using cldma_map_failure_sticks [OF cldma_example_holds [of "yes_but ''dma_map_single'' (- 1)" CLDMA_ID_MD 3]
      cldma_example_ready(1) _ cldma_example_ready(2) _ _ _ t]
    by (auto simp: t Let_def yes_but_pm map_addr_def reg_file_def yes_but_def wakes_def dma_mapping_error_def)
qed

theorem cldma_send_timeout_keeps_packet_witness:
  "\<exists>t a. run (t7xx_cldma_send_skb (return ()) 1 CLDMA_ID_MD 3 cskb_example)
      (cldma_example (yes_but ''wait_for_completion_timeout sleep_lock_acquire'' 0)) =
        (Some (Inl ETIMEDOUT), t) \<and> tx_holds t CLDMA_ID_MD 3 [(cskb_example, a, 3)]"
  using cldma_send_timeout_keeps_packet [OF cldma_example_holds [of "yes_but ''wait_for_completion_timeout sleep_lock_acquire'' 0" CLDMA_ID_MD 3]
      cldma_example_ready(1) _ cldma_example_ready(2), where skb = cskb_example and others = "return ()" and fuel = 0]
  by (auto simp: yes_but_pm pm_get_failed_def kret_def map_addr_def reg_file_def yes_but_def sleeps_def
      dma_mapping_error_def cskb_example_def)

end
