(* ===== verification/Cldma_Init.thy ===== *)
theory Cldma_Init
  imports Cldma_Props
begin

text \<open>
  The life of the rings of the control path: how \<open>t7xx_cldma_late_init\<close> builds them, and what
  clearing a transmit queue leaves behind.
\<close>

lemma run_for_each_append:
  "run (for_each (xs @ ys) f) s = run (for_each ys f) (after (for_each xs f) s)"
proof (induction xs arbitrary: s)
  case (Cons x xs)
  then show ?case by (simp add: run_bind split_beta)
qed simp

section \<open>Clearing a transmit queue\<close>

definition cleared :: "cldma_request \<Rightarrow> cldma_request" where
  "cleared r = (upd_gpd (\<lambda>g. (t7xx_cldma_gpd_set_data_ptr 0 g)
     \<lparr>gpd_flags := gpd_flags g AND NOT GPD_FLAGS_HWO, data_buff_len := 0\<rparr>) r)\<lparr>req_skb := None\<rparr>"

definition freed_with :: "cldma_request \<Rightarrow> ev list" where
  "freed_with r = (case req_skb r of None \<Rightarrow> [] | Some b \<Rightarrow> [Call ''dev_kfree_skb'' [cskb_ptr b]])"

lemma run_free_skb:
  "run (dev_kfree_cskb (req_skb r)) (with_tx s c i q rs es) = ((), with_tx s c i q rs (es @ freed_with r))"
  by (simp add: freed_with_def run_simps split: option.split)

lemma clear_loop:
  assumes "m \<le> length (txr_at s c i)"
  shows "run (for_each [0..<m] (\<lambda>k. do {
       upd_req c MTK_TX i (Some k) (upd_gpd (\<lambda>g. (t7xx_cldma_gpd_set_data_ptr 0 g)
         \<lparr>gpd_flags := gpd_flags g AND NOT GPD_FLAGS_HWO, data_buff_len := 0\<rparr>));
       req \<leftarrow> get_req c MTK_TX i (Some k);
       dev_kfree_cskb (req_skb req);
       upd_req c MTK_TX i (Some k) (\<lambda>r. r\<lparr>req_skb := None\<rparr>)
     })) s = ((), with_tx s c i (txq_at s c i)
       (map cleared (take m (txr_at s c i)) @ drop m (txr_at s c i))
       (concat (map freed_with (take m (txr_at s c i)))))"
  using assms
proof (induction m)
  case 0
  then show ?case by (simp add: with_same)
next
  case (Suc m)
  let ?r = "txr_at s c i"
  let ?rs = "map cleared (take m ?r) @ drop m ?r"
  have m: "m < length ?r" using Suc.prems by simp
  have len: "m < length ?rs" using m by simp
  have at: "?rs ! m = ?r ! m" using m by (simp add: nth_append)
  have upd: "?rs[m := v] = map cleared (take m ?r) @ v # drop (Suc m) ?r" for v
    using m by (simp add: list_update_append Cons_nth_drop_Suc [symmetric])
  have at': "(map cleared (take m ?r) @ v # xs) ! m = v" for v xs
    using nth_append_length [of "map cleared (take m ?r)" v xs] m by simp
  have upd': "(map cleared (take m ?r) @ v # xs)[m := w] = map cleared (take m ?r) @ w # xs" for v w xs
    using list_update_length [of "map cleared (take m ?r)" v xs w] m by simp
  have "req_skb (upd_gpd f r) = req_skb r" for f r by (simp add: upd_gpd_def)
  then have fr: "freed_with (upd_gpd f r) = freed_with r" for f r by (simp add: freed_with_def)
  show ?case
    using Suc m len at upd at' upd' fr
    by (simp add: run_for_each_append run_simps run_free_skb take_Suc_conv_app_nth cleared_def [symmetric])
qed

text \<open>Clearing a transmit queue (after an exception of the modem) frees the packet of every
  request and leaves the queue empty with its whole budget, but unmaps nothing: the mappings of
  all packets that were in flight are lost.\<close>

theorem cldma_clear_txq_leaks:
  assumes "tr_ring (txq_at s c i)" "txr_at s c i \<noteq> []"
    and "ring_length (tx_ring (md_ctrl s c) i) = length (txr_at s c i)"
  shows "\<exists>t es. run (t7xx_cldma_clear_txq c i) s = ((), t) \<and> tx_holds t c i [] \<and> trace t = trace s @ es \<and>
    calls ''dma_unmap_single'' es = [] \<and>
    calls ''dev_kfree_skb'' es = map (\<lambda>r. [cskb_ptr (the (req_skb r))]) (filter has_skb (txr_at s c i))"
proof -
  let ?r = "txr_at s c i"
  define q where "q = (txq_at s c i)\<lparr>tr_done := Some 0, budget := int (length ?r), tx_next := Some 0\<rparr>"
  have "run (t7xx_cldma_clear_txq c i) s = ((), with_tx s c i q (map cleared ?r) (concat (map freed_with ?r)))"
    using assms clear_loop [of "length ?r" "with_tx s c i q ?r []" c i]
    by (simp add: t7xx_cldma_clear_txq_def t7xx_cldma_q_reset_def queue_of_def ring_of_def run_simps q_def)
  moreover have "ring_holds q (map cleared ?r) []"
    using assms by (simp add: ring_holds_def q_def has_skb_def cleared_def list_all_iff)
  moreover have "calls ''dma_unmap_single'' (concat (map freed_with rs)) = []" for rs
    by (induction rs) (auto simp: freed_with_def split: option.split)
  moreover have "calls ''dev_kfree_skb'' (concat (map freed_with rs)) =
      map (\<lambda>r. [cskb_ptr (the (req_skb r))]) (filter has_skb rs)" for rs
    by (induction rs) (auto simp: freed_with_def has_skb_def split: option.split)
  ultimately show ?thesis
    by (intro exI [of _ "with_tx s c i q (map cleared ?r) (concat (map freed_with ?r))"]
        exI [of _ "concat (map freed_with ?r)"]) (simp add: tx_holds_def)
qed

theorem cldma_clear_txq_leaks_witness:
  "\<exists>t. run (t7xx_cldma_clear_txq CLDMA_ID_AP 1) (cldma_example only_maps) = ((), t) \<and> tx_holds t CLDMA_ID_AP 1 []"
  using cldma_clear_txq_leaks [of "cldma_example only_maps" CLDMA_ID_AP 1] by auto

section \<open>Linking the descriptors\<close>

abbreviation (input) ring_at :: "'z cldma_layer_scheme \<Rightarrow> cldma_id \<Rightarrow> mtk_txrx \<Rightarrow> nat \<Rightarrow> cldma_request list" where
  "ring_at s c d i \<equiv> gpd_ring (ring_of d i (md_ctrl s c))"

definition next_gpd :: "cldma_request \<Rightarrow> dma_addr" where
  "next_gpd r = ucast (next_gpd_ptr_h (req_gpd r)) * 2 ^ 32 + ucast (next_gpd_ptr_l (req_gpd r))"

definition link_to :: "dma_addr \<Rightarrow> cldma_request \<Rightarrow> cldma_request" where
  "link_to a = upd_gpd (t7xx_cldma_gpd_set_next_ptr a)"

lemma link_to_simps [simp]:
  "next_gpd (link_to a r) = a" "gpd_addr (link_to a r) = gpd_addr r" "req_skb (link_to a r) = req_skb r"
  "mapped_buff (link_to a r) = mapped_buff r" "gpd_flags (req_gpd (link_to a r)) = gpd_flags (req_gpd r)"
  "rx_data_allow_len (req_gpd (link_to a r)) = rx_data_allow_len (req_gpd r)"
  by (simp_all add: link_to_def next_gpd_def upd_gpd_def t7xx_cldma_gpd_set_next_ptr_def split_32_bits [simplified])

text \<open>A state in which one ring has other requests.\<close>

definition set_ring :: "'z cldma_layer_scheme \<Rightarrow> cldma_id \<Rightarrow> mtk_txrx \<Rightarrow> nat \<Rightarrow> cldma_request list \<Rightarrow> 'z cldma_layer_scheme" where
  "set_ring s c d i r = after (upd_ring c d i (\<lambda>g. g\<lparr>gpd_ring := r\<rparr>)) s"

lemma ring_at_set_ring [simp]: "ring_at (set_ring s c d i r) c d i = r"
  by (cases d) (simp_all add: set_ring_def ring_of_def run_simps)

lemma set_ring_set_ring [simp]: "set_ring (set_ring s c d i r) c d i r' = set_ring s c d i r'"
  by (cases d) (simp_all add: set_ring_def run_simps)

lemma set_ring_same: "set_ring s c d i (ring_at s c d i) = s"
  by (cases d) (simp_all add: set_ring_def ring_of_def run_simps)

lemma link_step:
  assumes "j < length (ring_at s c d i)" "g < length (ring_at s c d i)"
  shows "run (link_ring c d i (j # js) g) s = run (link_ring c d i js j)
    (set_ring s c d i ((ring_at s c d i)[g := link_to (gpd_addr (ring_at s c d i ! j)) (ring_at s c d i ! g)]))"
  using assms by (cases d) (simp_all add: run_simps ring_of_def set_ring_def with_tx_def with_rx_def link_to_def)

lemma link_rest:
  assumes "j = Suc g" "j \<le> length (ring_at s c d i)"
  shows "\<exists>r. run (link_ring c d i [j..<length (ring_at s c d i)] g) s = ((), set_ring s c d i r) \<and>
    length r = length (ring_at s c d i) \<and>
    (\<forall>k < length (ring_at s c d i). r ! k = (if g \<le> k \<and> Suc k < length (ring_at s c d i)
       then link_to (gpd_addr (ring_at s c d i ! Suc k)) (ring_at s c d i ! k) else ring_at s c d i ! k))"
  using assms
proof (induction "length (ring_at s c d i) - j" arbitrary: j g s)
  case 0
  then show ?case
    by (intro exI [of _ "ring_at s c d i"]) (auto simp: set_ring_same)
next
  case (Suc n)
  let ?r = "ring_at s c d i"
  let ?r' = "?r[g := link_to (gpd_addr (?r ! j)) (?r ! g)]"
  have j: "j < length ?r" using Suc.hyps(2) by simp
  then have g: "g < length ?r" using Suc.prems(1) by simp
  obtain r where r: "run (link_ring c d i [Suc j..<length ?r'] j) (set_ring s c d i ?r') = ((), set_ring s c d i r)"
    "length r = length ?r"
    "\<forall>k < length ?r. r ! k = (if j \<le> k \<and> Suc k < length ?r then link_to (gpd_addr (?r' ! Suc k)) (?r' ! k) else ?r' ! k)"
  proof -
    let ?s = "set_ring s c d i ?r'"
    have "n = length (ring_at ?s c d i) - Suc j" "Suc j \<le> length (ring_at ?s c d i)"
      using Suc.hyps(2) j by simp_all
    from Suc.hyps(1) [OF this(1) refl this(2)] show thesis
      using that by (simp only: ring_at_set_ring set_ring_set_ring length_list_update) blast
  qed
  have "run (link_ring c d i [j..<length ?r] g) s = ((), set_ring s c d i r)"
    using link_step [OF j g] r(1) j by (simp add: upt_conv_Cons)
  then show ?case
    using r(2,3) Suc.prems(1) g j
    by (intro exI [of _ r]) (auto simp: nth_list_update split: if_splits)
qed

text \<open>The whole ring.\<close>

definition linked :: "cldma_request list \<Rightarrow> bool" where
  "linked r \<longleftrightarrow> (\<forall>k < length r. next_gpd (r ! k) = gpd_addr (r ! (Suc k mod length r)))"

definition relinked :: "cldma_request list \<Rightarrow> cldma_request list" where
  "relinked r = map (\<lambda>k. link_to (gpd_addr (r ! (Suc k mod length r))) (r ! k)) [0..<length r]"

lemma linked_relinked: "linked (relinked r)"
  unfolding linked_def
proof (intro allI impI)
  fix k assume "k < length (relinked r)"
  then have "k < length r" "Suc k mod length r < length r"
    by (auto simp: relinked_def intro: mod_less_divisor gr_zeroI)
  then show "next_gpd (relinked r ! k) = gpd_addr (relinked r ! (Suc k mod length (relinked r)))"
    by (simp add: relinked_def)
qed

lemma run_link_ring:
  assumes "ring_at s c d i \<noteq> []"
  shows "run (link_ring c d i [0..<length (ring_at s c d i)] (length (ring_at s c d i) - 1)) s =
    ((), set_ring s c d i (relinked (ring_at s c d i)))"
proof -
  let ?r = "ring_at s c d i"
  let ?n = "length ?r"
  let ?r' = "?r[?n - 1 := link_to (gpd_addr (?r ! 0)) (?r ! (?n - 1))]"
  have n: "0 < ?n" using assms by simp
  obtain r where r: "run (link_ring c d i [1..<?n] 0) (set_ring s c d i ?r') = ((), set_ring s c d i r)"
    "length r = ?n"
    "\<forall>k < ?n. r ! k = (if Suc k < ?n then link_to (gpd_addr (?r' ! Suc k)) (?r' ! k) else ?r' ! k)"
    using link_rest [where j = 1 and g = 0 and s = "set_ring s c d i ?r'" and c = c and d = d and i = i] n by auto
  have "r = relinked ?r"
  proof (rule nth_equalityI)
    fix k assume k: "k < length r"
    show "r ! k = relinked ?r ! k"
    proof (cases "Suc k < ?n")
      case True
      then show ?thesis using r(2,3) k by (auto simp: relinked_def nth_list_update)
    next
      case False
      then have "k = ?n - 1" using r(2) k by simp
      then show ?thesis using r(3) n by (simp add: relinked_def)
    qed
  qed (simp add: r(2) relinked_def)
  then show ?thesis
    using link_step [where j = 0 and s = s and c = c and d = d and i = i and g = "?n - 1"] n r(1) by (simp add: upt_conv_Cons)
qed


section \<open>Building the rings\<close>

text \<open>A request of a fresh ring: no packet and nothing for the device to do, or an empty buffer for it.\<close>

definition fresh_tx :: "cldma_request \<Rightarrow> bool" where
  "fresh_tx r \<longleftrightarrow> req_skb r = None \<and> gpd_flags (req_gpd r) = GPD_FLAGS_IOC \<and> gpd_addr r \<noteq> 0"

definition data_ptr :: "cldma_request \<Rightarrow> dma_addr" where
  "data_ptr r = ucast (data_buff_bd_ptr_h (req_gpd r)) * 2 ^ 32 + ucast (data_buff_bd_ptr_l (req_gpd r))"

definition fresh_rx :: "nat \<Rightarrow> cldma_request \<Rightarrow> bool" where
  "fresh_rx sz r \<longleftrightarrow> (\<exists>b. req_skb r = Some b \<and> cskb_size b = sz) \<and> \<not> dma_mapping_error (mapped_buff r) \<and>
     data_ptr r = mapped_buff r \<and> gpd_flags (req_gpd r) = GPD_FLAGS_IOC OR GPD_FLAGS_HWO \<and>
     rx_data_allow_len (req_gpd r) = of_nat sz \<and> gpd_addr r \<noteq> 0"

lemma data_ptr_link [simp]: "data_ptr (link_to a r) = data_ptr r"
  by (simp add: data_ptr_def link_to_def upd_gpd_def t7xx_cldma_gpd_set_next_ptr_def)

lemma relinked_fresh:
  "list_all fresh_tx r \<Longrightarrow> list_all fresh_tx (relinked r)"
  "list_all (fresh_rx sz) r \<Longrightarrow> list_all (fresh_rx sz) (relinked r)"
  by (auto simp: list_all_length relinked_def fresh_tx_def fresh_rx_def)

lemma length_relinked [simp]: "length (relinked r) = length r"
  by (simp add: relinked_def)

lemma tx_ring_fill_ok:
  "result (tx_ring_fill c i k) s = Inr () \<Longrightarrow> list_all fresh_tx (txr_at s c i) \<Longrightarrow>
   list_all fresh_tx (txr_at (after (tx_ring_fill c i k) s) c i) \<and>
   length (txr_at (after (tx_ring_fill c i k) s) c i) = length (txr_at s c i) + k"
proof (induction k arbitrary: s)
  case (Suc k)
  obtain r u where a: "run t7xx_alloc_tx_request s = (r, u)" by (cases "run t7xx_alloc_tx_request s")
  then have u: "md_ctrl u = md_ctrl s"
    by (auto simp: t7xx_alloc_tx_request_def run_simps Let_def split: if_splits)
  show ?case
  proof (cases r)
    case None
    then show ?thesis using Suc.prems a by (simp add: run_simps split_beta)
  next
    case (Some q)
    then obtain x where q: "q = zero_req x" "x \<noteq> 0"
      using a by (auto simp: t7xx_alloc_tx_request_def run_simps Let_def split: if_splits)
    let ?q = "upd_gpd (gpd_flags_update (\<lambda>_. GPD_FLAGS_IOC)) q"
    let ?v = "after (upd_ring c MTK_TX i (\<lambda>g. g\<lparr>gpd_ring := gpd_ring g @ [?q]\<rparr>)) u"
    have v: "txr_at ?v c i = txr_at s c i @ [?q]" by (simp add: run_simps u)
    have f: "fresh_tx ?q" using q by (simp add: fresh_tx_def upd_gpd_def zero_req_def)
    have run: "run (tx_ring_fill c i (Suc k)) s = run (tx_ring_fill c i k) ?v"
      using a Some by (simp add: run_simps Let_def)
    show ?thesis
      using Suc.IH [of ?v] Suc.prems run v f by simp
  qed
qed simp

lemma alloc_rx_request_ok:
  assumes "run (t7xx_alloc_rx_request sz) s = (Some q, u)"
  shows "\<exists>x p a. q = \<lparr>req_gpd = zero_gpd, gpd_addr = x,
      req_skb = Some \<lparr>cskb_ptr = p, cskb_size = sz, cskb_bytes = []\<rparr>, mapped_buff = a\<rparr> \<and>
    x \<noteq> 0 \<and> \<not> dma_mapping_error a"
  using assms
  by (auto simp: t7xx_alloc_rx_request_def t7xx_cldma_alloc_and_map_skb_def zero_req_def run_simps Let_def
      split: if_splits)

lemma alloc_rx_request_md_ctrl:
  "md_ctrl (after (t7xx_alloc_rx_request sz) s) = md_ctrl s"
  by (simp add: t7xx_alloc_rx_request_def t7xx_cldma_alloc_and_map_skb_def run_simps Let_def split_beta)

lemma rx_ring_fill_ok:
  "result (rx_ring_fill c i k) s = Inr () \<Longrightarrow> list_all (fresh_rx (pkt_size (rx_ring (md_ctrl s c) i))) (rxr_at s c i) \<Longrightarrow>
   list_all (fresh_rx (pkt_size (rx_ring (md_ctrl s c) i))) (rxr_at (after (rx_ring_fill c i k) s) c i) \<and>
   length (rxr_at (after (rx_ring_fill c i k) s) c i) = length (rxr_at s c i) + k"
proof (induction k arbitrary: s)
  case (Suc k)
  let ?sz = "pkt_size (rx_ring (md_ctrl s c) i)"
  obtain r u where a: "run (t7xx_alloc_rx_request ?sz) s = (r, u)"
    by (cases "run (t7xx_alloc_rx_request ?sz) s")
  then have u: "md_ctrl u = md_ctrl s" using alloc_rx_request_md_ctrl [of ?sz s] by simp
  show ?case
  proof (cases r)
    case None
    then show ?thesis using Suc.prems a by (simp add: run_simps split_beta)
  next
    case (Some q)
    obtain x p b where q: "q = \<lparr>req_gpd = zero_gpd, gpd_addr = x,
      req_skb = Some \<lparr>cskb_ptr = p, cskb_size = ?sz, cskb_bytes = []\<rparr>, mapped_buff = b\<rparr>" "x \<noteq> 0" "\<not> dma_mapping_error b"
      using alloc_rx_request_ok a Some by blast
    let ?q = "upd_gpd (\<lambda>g. (t7xx_cldma_gpd_set_data_ptr (mapped_buff q) g)
      \<lparr>rx_data_allow_len := of_nat ?sz, gpd_flags := GPD_FLAGS_IOC OR GPD_FLAGS_HWO\<rparr>) q"
    let ?v = "after (upd_ring c MTK_RX i (\<lambda>g. g\<lparr>gpd_ring := gpd_ring g @ [?q]\<rparr>)) u"
    have v: "rxr_at ?v c i = rxr_at s c i @ [?q]" "pkt_size (rx_ring (md_ctrl ?v c) i) = ?sz"
      by (simp_all add: run_simps u)
    have f: "fresh_rx ?sz ?q"
      using q by (simp add: fresh_rx_def data_ptr_def upd_gpd_def t7xx_cldma_gpd_set_data_ptr_def split_32_bits [simplified])
    have run: "run (rx_ring_fill c i (Suc k)) s = run (rx_ring_fill c i k) ?v"
      using a Some by (simp add: run_simps Let_def)
    show ?thesis
      using Suc.IH [of ?v] Suc.prems run v f by simp
  qed
qed simp

text \<open>A ring as \<open>t7xx_cldma_late_init\<close> leaves it.\<close>

definition tx_built :: "'z cldma_layer_scheme \<Rightarrow> cldma_id \<Rightarrow> nat \<Rightarrow> bool" where
  "tx_built s c i \<longleftrightarrow> length (txr_at s c i) = 16 \<and> ring_length (tx_ring (md_ctrl s c) i) = 16 \<and>
     list_all fresh_tx (txr_at s c i) \<and> linked (txr_at s c i)"

definition rx_built :: "'z cldma_layer_scheme \<Rightarrow> cldma_id \<Rightarrow> nat \<Rightarrow> bool" where
  "rx_built s c i \<longleftrightarrow> length (rxr_at s c i) = 16 \<and> ring_length (rx_ring (md_ctrl s c) i) = 16 \<and>
     list_all (fresh_rx (pkt_size (rx_ring (md_ctrl s c) i))) (rxr_at s c i) \<and> linked (rxr_at s c i)"

text \<open>
  The functions that work on one ring leave alone what does not look at its requests: the other
  rings, and its own sizes.
\<close>

lemma preserves_ring_ops:
  assumes A: "\<And>h. preserves f (upd_ring c d i (\<lambda>g. g\<lparr>gpd_ring := h g\<rparr>))"
    and B: "\<And>s e. (\<forall>a. e \<noteq> Call ''dma_pool_destroy'' a) \<Longrightarrow> f (emit e s) = f s" and C: "\<And>s b. f (s\<lparr>cldma_fault := b\<rparr>) = f s"
  shows "preserves f (get_req c d i p)" "preserves f (upd_req c d i p u)"
    and "preserves f (t7xx_cldma_ring_free c d i)" and "preserves f (link_ring c d i js g)"
    and "d = MTK_TX \<Longrightarrow> preserves f (tx_ring_fill c i k)" and "d = MTK_RX \<Longrightarrow> preserves f (rx_ring_fill c i k)"
proof -
  have gc: "preserves f (get_cl c' h)" for c' h by (simp add: preserves_def run_simps)
  have ft: "preserves f fault" unfolding fault_def by (intro preserves_intros C)
  show gr: "preserves f (get_req c d i p)" for p
    unfolding get_req_def by (intro preserves_intros gc ft)
  show ur: "preserves f (upd_req c d i p u)" for p u
    unfolding upd_req_def by (intro preserves_intros gc ft A)
  show fr: "preserves f (t7xx_cldma_ring_free c d i)"
    unfolding t7xx_cldma_ring_free_def by (intro preserves_intros gc A B; simp)
  show "preserves f (link_ring c d i js g)"
    by (induction js arbitrary: g) (auto intro!: preserves_intros gr ur)
  show "preserves f (tx_ring_fill c i k)" if "d = MTK_TX"
    using A fr unfolding that
    by (induction k) (auto intro!: preserves_intros B simp: t7xx_alloc_tx_request_def Let_def)
  show "preserves f (rx_ring_fill c i k)" if "d = MTK_RX"
    using A fr unfolding that
    by (induction k) (auto intro!: preserves_intros gc B
        simp: t7xx_alloc_rx_request_def t7xx_cldma_alloc_and_map_skb_def Let_def)
qed

lemma other_ring:
  assumes "d \<noteq> d' \<or> i \<noteq> i'"
  shows "preserves (\<lambda>s. ring_of d' i' (md_ctrl s c)) (upd_ring c d i f)"
  using assms by (cases d; cases d') (auto simp: preserves_def run_simps ring_of_def)

definition ring_sizes :: "cldma_ring \<Rightarrow> nat \<times> nat" where
  "ring_sizes g = (ring_length g, pkt_size g)"

lemma own_sizes:
  "preserves (\<lambda>s. ring_sizes (ring_of d i (md_ctrl s c))) (upd_ring c d i (\<lambda>g. g\<lparr>gpd_ring := h g\<rparr>))"
  by (cases d) (auto simp: preserves_def run_simps ring_of_def ring_sizes_def)

lemmas other_ring_ops = preserves_ring_ops [where f = "\<lambda>s. ring_of d' i' (md_ctrl s c)" for d' i' c, OF other_ring]
lemmas own_sizes_ops = preserves_ring_ops [where f = "\<lambda>s. ring_sizes (ring_of d i (md_ctrl s c))" for d i c, OF own_sizes]

lemma tx_ring_init_other:
  assumes "d' = MTK_RX \<or> i \<noteq> i'"
  shows "preserves (\<lambda>s. ring_of d' i' (md_ctrl s c)) (t7xx_cldma_tx_ring_init c i)"
proof -
  have "MTK_TX \<noteq> d' \<or> i \<noteq> i'" using assms by auto
  note o = other_ring [OF this] other_ring_ops(4,5) [OF this]
  show ?thesis
    unfolding t7xx_cldma_tx_ring_init_def by (intro preserves_intros o; simp)
qed

lemma rx_ring_init_other:
  assumes "d' = MTK_TX \<or> i \<noteq> i'"
  shows "preserves (\<lambda>s. ring_of d' i' (md_ctrl s c)) (t7xx_cldma_rx_ring_init c i)"
proof -
  have "MTK_RX \<noteq> d' \<or> i \<noteq> i'" using assms by auto
  note o = other_ring [OF this] other_ring_ops(4,6) [OF this]
  show ?thesis
    unfolding t7xx_cldma_rx_ring_init_def by (intro preserves_intros o; simp)
qed

lemma tx_ring_init_built:
  assumes "result (t7xx_cldma_tx_ring_init c i) s = Inr ()"
  shows "tx_built (after (t7xx_cldma_tx_ring_init c i) s) c i"
proof -
  let ?u = "after (upd_ring c MTK_TX i (\<lambda>g. g\<lparr>gpd_ring := [], ring_length := 16\<rparr>)) s"
  let ?v = "after (tx_ring_fill c i 16) ?u"
  have res: "result (tx_ring_fill c i 16) ?u = Inr ()"
    using assms unfolding t7xx_cldma_tx_ring_init_def
    by (cases "result (tx_ring_fill c i 16) ?u") (auto simp: run_simps split_beta split: if_splits)
  have v: "list_all fresh_tx (txr_at ?v c i)" "length (txr_at ?v c i) = 16"
    using tx_ring_fill_ok [OF res] by (simp_all add: run_simps)
  have "ring_sizes (ring_of MTK_TX i (md_ctrl ?v c)) = ring_sizes (ring_of MTK_TX i (md_ctrl ?u c))"
    using own_sizes_ops(5) [of MTK_TX i c 16] preservesD by fastforce
  then have l: "ring_length (tx_ring (md_ctrl ?v c) i) = 16"
    by (simp add: ring_sizes_def ring_of_def run_simps)
  have ne: "ring_at ?v c MTK_TX i \<noteq> []" using v(2) by (auto simp: ring_of_def)
  have "after (t7xx_cldma_tx_ring_init c i) s = set_ring ?v c MTK_TX i (relinked (txr_at ?v c i))"
    using res v run_link_ring [OF ne]
    unfolding t7xx_cldma_tx_ring_init_def
    by (simp add: run_simps split_beta ring_of_def)
  then show ?thesis
    using v l relinked_fresh(1) linked_relinked
    by (simp add: tx_built_def set_ring_def run_simps)
qed

lemma rx_ring_init_built:
  assumes "result (t7xx_cldma_rx_ring_init c i) s = Inr ()"
  shows "rx_built (after (t7xx_cldma_rx_ring_init c i) s) c i"
proof -
  let ?u = "after (upd_ring c MTK_RX i (\<lambda>g. g\<lparr>gpd_ring := [], ring_length := 16\<rparr>)) s"
  let ?v = "after (rx_ring_fill c i 16) ?u"
  have res: "result (rx_ring_fill c i 16) ?u = Inr ()"
    using assms unfolding t7xx_cldma_rx_ring_init_def
    by (cases "result (rx_ring_fill c i 16) ?u") (auto simp: run_simps split_beta split: if_splits)
  have "ring_sizes (ring_of MTK_RX i (md_ctrl ?v c)) = ring_sizes (ring_of MTK_RX i (md_ctrl ?u c))"
    using own_sizes_ops(6) [of MTK_RX i c 16] preservesD by fastforce
  then have l: "ring_length (rx_ring (md_ctrl ?v c) i) = 16"
    "pkt_size (rx_ring (md_ctrl ?v c) i) = pkt_size (rx_ring (md_ctrl s c) i)"
    by (simp_all add: ring_sizes_def ring_of_def run_simps)
  then have v: "list_all (fresh_rx (pkt_size (rx_ring (md_ctrl ?v c) i))) (rxr_at ?v c i)" "length (rxr_at ?v c i) = 16"
    using rx_ring_fill_ok [OF res] by (simp_all add: run_simps)
  have ne: "ring_at ?v c MTK_RX i \<noteq> []" using v(2) by (auto simp: ring_of_def)
  have "after (t7xx_cldma_rx_ring_init c i) s = set_ring ?v c MTK_RX i (relinked (rxr_at ?v c i))"
    using res v run_link_ring [OF ne]
    unfolding t7xx_cldma_rx_ring_init_def
    by (simp add: run_simps split_beta ring_of_def)
  then show ?thesis
    using v l relinked_fresh(2) linked_relinked
    by (simp add: rx_built_def set_ring_def run_simps)
qed

section \<open>The whole engine\<close>

text \<open>Allocations and mappings succeed.\<close>

definition alloc_ok :: "environment \<Rightarrow> bool" where
  "alloc_ok ev \<longleftrightarrow> (\<forall>tr args. ev tr (Kernel ''kzalloc req'' args) \<noteq> 0 \<and> ev tr (Kernel ''dma_pool_zalloc'' args) \<noteq> 0 \<and>
     ev tr (Kernel ''__dev_alloc_skb'' args) \<noteq> 0 \<and> ev tr (Kernel ''dma_pool_create'' args) \<noteq> 0 \<and>
     \<not> dma_mapping_error (ev tr (Kernel ''dma_map_single'' args)))"

definition setting :: "cldma_id \<Rightarrow> 'z cldma_layer_scheme \<Rightarrow> environment \<times> u64 \<times> bool \<times> u64 list list" where
  "setting c s = (env s, gpd_dmapool (md_ctrl s c), is_late_init (md_ctrl s c), calls ''dma_pool_destroy'' (trace s))"

lemma setting_upd_ring: "preserves (setting c') (upd_ring c d i h)"
  by (cases d) (simp_all add: preserves_def run_simps setting_def)

lemma setting_simps [simp]:
  "\<forall>a. e \<noteq> Call ''dma_pool_destroy'' a \<Longrightarrow> setting c (emit e s) = setting c s"
  "setting c (s\<lparr>cldma_fault := b\<rparr>) = setting c s"
  by (cases e; simp add: setting_def emit_def)+

lemma setting_ring_ops:
  "preserves (setting c') (t7xx_cldma_ring_free c d i)" "preserves (setting c') (link_ring c d i js g)"
  "preserves (setting c') (tx_ring_fill c i k)" "preserves (setting c') (rx_ring_fill c i k)"
  by (rule preserves_ring_ops; simp add: setting_upd_ring)+

lemma setting_ring_init:
  "preserves (setting c') (t7xx_cldma_tx_ring_init c i)" "preserves (setting c') (t7xx_cldma_rx_ring_init c i)"
  unfolding t7xx_cldma_tx_ring_init_def t7xx_cldma_rx_ring_init_def
  by (intro preserves_intros setting_upd_ring setting_ring_ops)+

lemma ring_fill_succeeds:
  "alloc_ok (env s) \<Longrightarrow> result (tx_ring_fill c i k) s = Inr ()"
  "alloc_ok (env s) \<Longrightarrow> result (rx_ring_fill c i k) s = Inr ()"
proof (induction k arbitrary: s)
  case (Suc k)
  {
    case 1
    then show ?case
      using Suc.IH(1) by (simp add: t7xx_alloc_tx_request_def alloc_ok_def run_simps Let_def)
  next
    case 2
    then show ?case
      using Suc.IH(2)
      by (simp add: t7xx_alloc_rx_request_def t7xx_cldma_alloc_and_map_skb_def alloc_ok_def run_simps Let_def)
  }
qed simp_all

lemma ring_init_succeeds:
  assumes "alloc_ok (env s)"
  shows "result (t7xx_cldma_tx_ring_init c i) s = Inr ()" "result (t7xx_cldma_rx_ring_init c i) s = Inr ()"
proof -
  have r: "result (tx_ring_fill c i 16) u = Inr ()" "result (rx_ring_fill c i 16) u = Inr ()"
    if "env u = env s" for u
    using ring_fill_succeeds [of u] assms that by simp_all
  show "result (t7xx_cldma_tx_ring_init c i) s = Inr ()"
    by (simp add: t7xx_cldma_tx_ring_init_def run_simps split_beta r(1))
  show "result (t7xx_cldma_rx_ring_init c i) s = Inr ()"
    by (simp add: t7xx_cldma_rx_ring_init_def run_simps split_beta r(2))
qed

lemma preserves_count_ok: "(\<And>x. preserves f (g x)) \<Longrightarrow> preserves f (count_ok xs g)"
  by (induction xs) (auto intro!: preserves_intros)

text \<open>A loop whose rounds each set up one thing.\<close>

lemma count_ok_all:
  assumes "distinct xs"
    and ok: "\<And>x s. x \<in> set xs \<Longrightarrow> I s \<Longrightarrow> result (f x) s = Inr () \<and> I (after (f x) s) \<and> Q x (after (f x) s)"
    and other: "\<And>x y s. x \<noteq> y \<Longrightarrow> Q y s \<Longrightarrow> Q y (after (f x) s)"
    and "I s"
  shows "result (count_ok xs f) s = length xs \<and> I (after (count_ok xs f) s) \<and>
    (\<forall>x. x \<in> set xs \<or> Q x s \<longrightarrow> Q x (after (count_ok xs f) s))"
  using assms
proof (induction xs arbitrary: s)
  case (Cons x xs)
  note x = Cons.prems(2) [of x s]
  have o: "Q y (after (f x) s)" if "Q y s" for y
    using x Cons.prems(3) [of x y s] Cons.prems(4) that by (cases "x = y") auto
  show ?case
    using Cons.IH [of "after (f x) s"] Cons.prems x o
    by (auto simp: run_simps split_beta)
qed (simp add: run_simps)

lemma for_each_all:
  assumes "distinct xs"
    and ok: "\<And>x s. x \<in> set xs \<Longrightarrow> I s \<Longrightarrow> I (after (f x) s) \<and> Q x (after (f x) s)"
    and other: "\<And>x y s. x \<in> set xs \<Longrightarrow> I s \<Longrightarrow> x \<noteq> y \<Longrightarrow> Q y s \<Longrightarrow> Q y (after (f x) s)"
    and "I s"
  shows "I (after (for_each xs f) s) \<and> (\<forall>x. x \<in> set xs \<or> Q x s \<longrightarrow> Q x (after (for_each xs f) s))"
  using assms
proof (induction xs arbitrary: s)
  case (Cons x xs)
  note x = Cons.prems(2) [of x s]
  have o: "Q y (after (f x) s)" if "Q y s" for y
    using x Cons.prems(3) [of x s y] Cons.prems(4) that by (cases "x = y") auto
  show ?case
    using Cons.IH [of "after (f x) s"] Cons.prems x o
    by (auto simp: run_simps split_beta)
qed simp

lemma built_other:
  "i \<noteq> j \<Longrightarrow> tx_built s c j \<Longrightarrow> tx_built (after (t7xx_cldma_tx_ring_init c i) s) c j"
  "tx_built s c j \<Longrightarrow> tx_built (after (t7xx_cldma_rx_ring_init c i) s) c j"
  "i \<noteq> j \<Longrightarrow> rx_built s c j \<Longrightarrow> rx_built (after (t7xx_cldma_rx_ring_init c i) s) c j"
  using tx_ring_init_other [of MTK_TX i j c, THEN preservesD, of s]
    rx_ring_init_other [of MTK_TX i j c, THEN preservesD, of s]
    rx_ring_init_other [of MTK_RX i j c, THEN preservesD, of s]
  by (simp_all add: tx_built_def rx_built_def ring_of_def)

text \<open>The pointers of a queue after \<open>t7xx_cldma_q_reset\<close>.\<close>

definition at_start :: "cldma_queue \<Rightarrow> mtk_txrx \<Rightarrow> bool" where
  "at_start q d \<longleftrightarrow> tr_ring q \<and> tr_done q = Some 0 \<and> budget q = 16 \<and>
     (case d of MTK_TX \<Rightarrow> tx_next q | MTK_RX \<Rightarrow> rx_refill q) = Some 0"

lemma txq_init_run:
  assumes "tx_built s c i"
  shows "\<exists>q. run (t7xx_cldma_txq_init c i) s = ((), with_tx s c i q (txr_at s c i) []) \<and> at_start q MTK_TX"
proof -
  let ?q = "(txq_at s c i)\<lparr>tr_ring := True, tr_done := Some 0, budget := 16, tx_next := Some 0\<rparr>"
  have "txr_at s c i \<noteq> []" using assms by (auto simp: tx_built_def)
  moreover have "ring_length (tx_ring (md_ctrl (with_tx s c i q r es) c) i) = ring_length (tx_ring (md_ctrl s c) i)"
    for q r es by (simp add: with_tx_def)
  ultimately show ?thesis
    using assms
    by (intro exI [of _ ?q]) (simp add: t7xx_cldma_txq_init_def t7xx_cldma_q_reset_def run_simps queue_of_def
        ring_of_def tx_built_def at_start_def)
qed

lemma rxq_init_run:
  assumes "rx_built s c i"
  shows "\<exists>q. run (t7xx_cldma_rxq_init c i) s = ((), with_rx s c i q (rxr_at s c i) []) \<and> at_start q MTK_RX"
proof -
  let ?q = "(rxq_at s c i)\<lparr>tr_ring := True, tr_done := Some 0, budget := 16, rx_refill := Some 0\<rparr>"
  have "rxr_at s c i \<noteq> []" using assms by (auto simp: rx_built_def)
  moreover have "ring_length (rx_ring (md_ctrl (with_rx s c i q r es) c) i) = ring_length (rx_ring (md_ctrl s c) i)"
    for q r es by (simp add: with_rx_def)
  ultimately show ?thesis
    using assms
    by (intro exI [of _ ?q]) (simp add: t7xx_cldma_rxq_init_def t7xx_cldma_q_reset_def run_simps queue_of_def
        ring_of_def rx_built_def at_start_def)
qed

lemma built_with [simp]:
  "tx_built (with_tx s c i q (txr_at s c i) es) c j = tx_built s c j"
  "rx_built (with_tx s c i q r es) c j = rx_built s c j"
  "tx_built (with_rx s c i q r es) c j = tx_built s c j"
  "rx_built (with_rx s c i q (rxr_at s c i) es) c j = rx_built s c j"
  by (simp_all add: tx_built_def rx_built_def with_tx_def with_rx_def)

lemma queue_with_other [simp]:
  "i \<noteq> j \<Longrightarrow> txq_at (with_tx s c i q r es) c j = txq_at s c j"
  "txq_at (with_rx s c i q r es) c j = txq_at s c j"
  "i \<noteq> j \<Longrightarrow> rxq_at (with_rx s c i q r es) c j = rxq_at s c j"
  by (simp_all add: with_tx_def with_rx_def)

lemma built_start_holds:
  assumes "tx_built s c i" "at_start (txq_at s c i) MTK_TX"
  shows "tx_holds s c i []"
  using assms
  by (auto simp: tx_holds_def ring_holds_def tx_built_def at_start_def fresh_tx_def has_skb_def list_all_iff)

text \<open>All queues of an engine built and started.\<close>

definition engine_ready :: "'z cldma_layer_scheme \<Rightarrow> cldma_id \<Rightarrow> bool" where
  "engine_ready s c \<longleftrightarrow> is_late_init (md_ctrl s c) \<and> gpd_dmapool (md_ctrl s c) \<noteq> 0 \<and>
     list_all (\<lambda>i. tx_built s c i \<and> tx_holds s c i [] \<and> rx_built s c i \<and> at_start (rxq_at s c i) MTK_RX) [0..<8]"

definition can_build :: "cldma_id \<Rightarrow> 'z cldma_layer_scheme \<Rightarrow> bool" where
  "can_build c s \<longleftrightarrow> alloc_ok (env s) \<and> gpd_dmapool (md_ctrl s c) \<noteq> 0"

lemma can_build_setting: "setting c t = setting c s \<Longrightarrow> can_build c t = can_build c s"
  by (simp add: can_build_def setting_def)

lemma can_build_init [simp]:
  "can_build c (after (t7xx_cldma_tx_ring_init c i) s) = can_build c s"
  "can_build c (after (t7xx_cldma_rx_ring_init c i) s) = can_build c s"
  by (intro can_build_setting preservesD setting_ring_init)+

lemma can_build_with [simp]:
  "can_build c (with_tx s c i q r es) = can_build c s" "can_build c (with_rx s c i q r es) = can_build c s"
  by (simp_all add: can_build_def with_tx_def with_rx_def)

lemma late_init_rings:
  assumes "can_build c s"
  shows "let t = after (count_ok [0..<8] (t7xx_cldma_tx_ring_init c)) s;
             u = after (count_ok [0..<8] (t7xx_cldma_rx_ring_init c)) t
    in result (count_ok [0..<8] (t7xx_cldma_tx_ring_init c)) s = 8 \<and>
       result (count_ok [0..<8] (t7xx_cldma_rx_ring_init c)) t = 8 \<and> can_build c u \<and>
       (\<forall>i \<in> set [0..<8]. tx_built u c i \<and> rx_built u c i)"
proof -
  let ?t = "after (count_ok [0..<8] (t7xx_cldma_tx_ring_init c)) s"
  let ?u = "after (count_ok [0..<8] (t7xx_cldma_rx_ring_init c)) ?t"
  have t: "result (count_ok [0..<8] (t7xx_cldma_tx_ring_init c)) s = length [0..<8] \<and> can_build c ?t \<and>
      (\<forall>i. i \<in> set [0..<8] \<or> tx_built s c i \<longrightarrow> tx_built ?t c i)"
    by (rule count_ok_all [where I = "can_build c" and Q = "\<lambda>i s. tx_built s c i"])
       (use assms in \<open>auto simp: can_build_def ring_init_succeeds tx_ring_init_built built_other
          can_build_init [unfolded can_build_def]\<close>)
  define I where "I = (\<lambda>s :: 'a cldma_layer_scheme. can_build c s \<and> (\<forall>i \<in> set [0..<8]. tx_built s c i))"
  have "result (count_ok [0..<8] (t7xx_cldma_rx_ring_init c)) ?t = length [0..<8] \<and> I ?u \<and>
      (\<forall>i. i \<in> set [0..<8] \<or> rx_built ?t c i \<longrightarrow> rx_built ?u c i)"
    by (rule count_ok_all [where I = I and Q = "\<lambda>i s. rx_built s c i"])
       (use t in \<open>auto simp: I_def can_build_def ring_init_succeeds rx_ring_init_built built_other
          can_build_init [unfolded can_build_def]\<close>)
  then show ?thesis using t by (simp add: Let_def I_def)
qed

lemma late_init_queues:
  assumes "can_build c s" "\<forall>i \<in> set [0..<8]. tx_built s c i \<and> rx_built s c i"
  defines "t \<equiv> after (for_each [0..<8] (t7xx_cldma_rxq_init c)) (after (for_each [0..<8] (t7xx_cldma_txq_init c)) s)"
  shows "can_build c t \<and> (\<forall>i \<in> set [0..<8]. tx_built t c i \<and> at_start (txq_at t c i) MTK_TX \<and>
    rx_built t c i \<and> at_start (rxq_at t c i) MTK_RX)"
proof -
  define I where "I = (\<lambda>s :: 'a cldma_layer_scheme. can_build c s \<and> (\<forall>i \<in> set [0..<8]. tx_built s c i \<and> rx_built s c i))"
  define J where "J = (\<lambda>s :: 'a cldma_layer_scheme. I s \<and> (\<forall>i \<in> set [0..<8]. at_start (txq_at s c i) MTK_TX))"
  let ?u = "after (for_each [0..<8] (t7xx_cldma_txq_init c)) s"
  have u: "I ?u \<and> (\<forall>i. i \<in> set [0..<8] \<or> at_start (txq_at s c i) MTK_TX \<longrightarrow> at_start (txq_at ?u c i) MTK_TX)"
  proof (rule for_each_all)
    fix x y and s :: "'a cldma_layer_scheme"
    assume x: "x \<in> set [0..<8]" "I s"
    then obtain q where "run (t7xx_cldma_txq_init c x) s = ((), with_tx s c x q (txr_at s c x) [])" "at_start q MTK_TX"
      using txq_init_run [of s c x] unfolding I_def by blast
    then show "I (after (t7xx_cldma_txq_init c x) s) \<and> at_start (txq_at (after (t7xx_cldma_txq_init c x) s) c x) MTK_TX"
      "x \<noteq> y \<Longrightarrow> at_start (txq_at s c y) MTK_TX \<Longrightarrow> at_start (txq_at (after (t7xx_cldma_txq_init c x) s) c y) MTK_TX"
      using x by (simp_all add: I_def)
  qed (use assms in \<open>simp_all add: I_def\<close>)
  have "J t \<and> (\<forall>i. i \<in> set [0..<8] \<or> at_start (rxq_at ?u c i) MTK_RX \<longrightarrow> at_start (rxq_at t c i) MTK_RX)"
    unfolding t_def
  proof (rule for_each_all)
    fix x y and s :: "'a cldma_layer_scheme"
    assume x: "x \<in> set [0..<8]" "J s"
    then obtain q where "run (t7xx_cldma_rxq_init c x) s = ((), with_rx s c x q (rxr_at s c x) [])" "at_start q MTK_RX"
      using rxq_init_run [of s c x] unfolding I_def J_def by blast
    then show "J (after (t7xx_cldma_rxq_init c x) s) \<and> at_start (rxq_at (after (t7xx_cldma_rxq_init c x) s) c x) MTK_RX"
      "x \<noteq> y \<Longrightarrow> at_start (rxq_at s c y) MTK_RX \<Longrightarrow> at_start (rxq_at (after (t7xx_cldma_rxq_init c x) s) c y) MTK_RX"
      using x by (simp_all add: I_def J_def)
  qed (use u in \<open>simp_all add: J_def\<close>)
  then show ?thesis by (simp add: I_def J_def)
qed

text \<open>C18: when memory can be had, \<open>t7xx_cldma_late_init\<close> succeeds and leaves every one of the 16
  queues ready: a ring of 16 requests whose descriptors are linked in a circle, the transmit
  queues empty with their whole budget, every receive request with an unused buffer of the
  size of its queue, mapped, announced in its descriptor and owned by the device.\<close>

theorem cldma_late_init_builds:
  assumes "alloc_ok (env s)" "\<not> is_late_init (md_ctrl s c)"
  shows "\<exists>t. run (t7xx_cldma_late_init c) s = (Inr (), t) \<and> engine_ready t c"
proof -
  define p where "p = env s (trace s) (Kernel ''dma_pool_create'' [])"
  have p: "p \<noteq> 0" using assms(1) by (simp add: alloc_ok_def p_def)
  define s1 where "s1 = after (upd_cl c (\<lambda>x. x\<lparr>gpd_dmapool := p\<rparr>)) (emit (Ret ''dma_pool_create'' [] p) s)"
  have s1: "can_build c s1" using assms(1) p by (simp add: s1_def can_build_def run_simps)
  define t where "t = after (count_ok [0..<8] (t7xx_cldma_tx_ring_init c)) s1"
  define u where "u = after (count_ok [0..<8] (t7xx_cldma_rx_ring_init c)) t"
  note r = late_init_rings [OF s1, unfolded Let_def, folded t_def, folded u_def]
  define v where "v = after (for_each [0..<8] (t7xx_cldma_rxq_init c)) (after (for_each [0..<8] (t7xx_cldma_txq_init c)) u)"
  note q = late_init_queues [of c u, folded v_def] r
  define w where "w = after (upd_cl c (\<lambda>x. x\<lparr>is_late_init := True\<rparr>)) v"
  have "run (t7xx_cldma_late_init c) s = (Inr (), w)"
    using assms(2) p r unfolding t7xx_cldma_late_init_def
    by (simp add: run_simps Let_def split_beta p_def [symmetric] s1_def [symmetric, unfolded run_simps, simplified]
        t_def [symmetric] u_def [symmetric] v_def [symmetric] w_def del: upt_rec_numeral)
  moreover have "engine_ready w c"
    using q built_start_holds [of v c]
    by (auto simp: engine_ready_def w_def run_simps list_all_iff tx_built_def rx_built_def tx_holds_def can_build_def)
  ultimately show ?thesis by blast
qed

theorem cldma_late_init_builds_witness:
  "\<exists>t. run (t7xx_cldma_late_init CLDMA_ID_MD) (cldma_example (yes_but ''x'' 0)) = (Inr (), t) \<and>
    engine_ready t CLDMA_ID_MD"
  using cldma_late_init_builds [of "cldma_example (yes_but ''x'' 0)" CLDMA_ID_MD]
  by (simp add: alloc_ok_def reg_file_def yes_but_def dma_mapping_error_def zero_ctrl_def)

text \<open>C21: when \<open>t7xx_cldma_late_init\<close> runs out of memory after it created the pool of
  descriptors, it does not destroy the pool. The pool is not destroyed later either, because
  \<open>t7xx_cldma_late_release\<close> only acts on an engine that was built.\<close>

theorem cldma_late_init_leaks_pool:
  fixes s :: "'z cldma_layer_scheme"
  assumes "result (t7xx_cldma_late_init c) s = Inl ENOMEM"
    and pool: "env s (trace s) (Kernel ''dma_pool_create'' []) \<noteq> 0"
  shows "\<exists>t. run (t7xx_cldma_late_init c) s = (Inl ENOMEM, t) \<and>
    calls ''dma_pool_destroy'' (trace t) = calls ''dma_pool_destroy'' (trace s) \<and>
    gpd_dmapool (md_ctrl t c) \<noteq> 0 \<and> after (t7xx_cldma_late_release c) t = t"
proof -
  define p where "p = env s (trace s) (Kernel ''dma_pool_create'' [])"
  define s1 where "s1 = after (upd_cl c (\<lambda>x. x\<lparr>gpd_dmapool := p\<rparr>)) (emit (Ret ''dma_pool_create'' [] p) s)"
  define t where "t = after (count_ok [0..<8] (t7xx_cldma_tx_ring_init c)) s1"
  define u where "u = after (count_ok [0..<8] (t7xx_cldma_rx_ring_init c)) t"
  let ?i = "result (count_ok [0..<8] (t7xx_cldma_tx_ring_init c)) s1"
  let ?j = "result (count_ok [0..<8] (t7xx_cldma_rx_ring_init c)) t"
  let ?free = "\<lambda>d n. for_each (rev [0..<n]) (t7xx_cldma_ring_free c d)"
  define v where "v = (if ?i < 8 then after (?free MTK_TX ?i) t else after (?free MTK_TX 8) (after (?free MTK_RX ?j) u))"
  have late: "\<not> is_late_init (md_ctrl s c)"
    using assms(1) by (auto simp: t7xx_cldma_late_init_def run_simps)
  have run: "run (t7xx_cldma_late_init c) s = (Inl ENOMEM, v)"
    using assms(1) pool late unfolding t7xx_cldma_late_init_def
    by (auto simp: run_simps Let_def split_beta p_def [symmetric] s1_def [symmetric, unfolded run_simps, simplified]
        t_def [symmetric] u_def [symmetric] v_def simp del: upt_rec_numeral split: if_splits)
  have free: "preserves (setting c) (?free d n :: ('z cldma_layer_scheme, unit) state)" for d n
    by (intro preserves_intros setting_ring_ops)
  have "setting c t = setting c s1" "setting c u = setting c t"
    unfolding t_def u_def by (intro preservesD preserves_count_ok setting_ring_init)+
  then have "setting c v = setting c s1"
    using preservesD [OF free] by (simp add: v_def)
  then have "gpd_dmapool (md_ctrl v c) = p" "\<not> is_late_init (md_ctrl v c)"
    "calls ''dma_pool_destroy'' (trace v) = calls ''dma_pool_destroy'' (trace s)"
    using late by (simp_all add: setting_def s1_def run_simps)
  then show ?thesis
    using run pool by (intro exI [of _ v]) (simp add: p_def t7xx_cldma_late_release_def run_simps)
qed

lemma late_init_no_memory:
  assumes "\<And>tr args. env s tr (Kernel ''kzalloc req'' args) = 0" "\<not> is_late_init (md_ctrl s c)"
  shows "result (t7xx_cldma_late_init c) s = Inl ENOMEM"
proof -
  have fill: "result (tx_ring_fill c 0 16) u = Inl ENOMEM" if "env u = env s" for u :: "'a cldma_layer_scheme"
    using assms(1) that
    by (simp add: numeral_eq_Suc t7xx_alloc_tx_request_def run_simps Let_def split_beta)
  have "result (count_ok [0..<8] (t7xx_cldma_tx_ring_init c)) u = 0" if "env u = env s" for u :: "'a cldma_layer_scheme"
    using that fill by (simp add: upt_conv_Cons t7xx_cldma_tx_ring_init_def run_simps split_beta del: upt_rec_numeral)
  then show ?thesis
    using assms(2) by (simp add: t7xx_cldma_late_init_def run_simps Let_def split_beta del: upt_rec_numeral)
qed

theorem cldma_late_init_leaks_pool_witness:
  "\<exists>t. run (t7xx_cldma_late_init CLDMA_ID_MD) (cldma_example (\<lambda>f _. if f = ''dma_pool_create'' then 1 else 0)) =
    (Inl ENOMEM, t) \<and> gpd_dmapool (md_ctrl t CLDMA_ID_MD) \<noteq> 0"
  using cldma_late_init_leaks_pool [OF late_init_no_memory,
      of "cldma_example (\<lambda>f _. if f = ''dma_pool_create'' then 1 else 0)" CLDMA_ID_MD]
  by (auto simp: reg_file_def zero_ctrl_def)

end
