(* ===== verification/Ports.thy ===== *)
theory Ports
  imports Frames Cldma
begin

text \<open>
  The ports on top of CLDMA: \<open>t7xx_port_proxy.c\<close> (which port a packet belongs to, headers and
  sequence numbers), \<open>t7xx_port_ctrl_msg.c\<close> (the control port), \<open>t7xx_port_wwan.c\<close> (ports of
  the WWAN subsystem) and \<open>t7xx_port_trace.c\<close> (the log of the modem).

  The ports are an array, and a pointer to a port is its index. A packet is the \<open>cskb\<close> of
  \<open>Cldma\<close>; a header is pushed in front of its bytes and pulled off again. Reading beyond the
  bytes of a packet sets \<open>cldma_fault\<close> and gives what happens to be in memory there.

  A caller that is stuck for ever in \<open>t7xx_cldma_send_skb\<close> does not go on: results are options
  where a function may wait, with \<open>None\<close> for not returning.
\<close>

section \<open>Bytes of a message\<close>

text \<open>\<open>cpu_to_le32\<close> and \<open>le32_to_cpu\<close>.\<close>

definition le32_bytes :: "u32 \<Rightarrow> u8 list" where
  "le32_bytes v = [ucast v, ucast (drop_bit 8 v), ucast (drop_bit 16 v), ucast (drop_bit 24 v)]"

definition le32_at :: "u8 list \<Rightarrow> nat \<Rightarrow> u32" where
  "le32_at bs k = ucast (bs ! k) OR push_bit 8 (ucast (bs ! (k + 1))) OR
     push_bit 16 (ucast (bs ! (k + 2))) OR push_bit 24 (ucast (bs ! (k + 3)))"

text \<open>A byte and a little-endian word at an offset of a buffer with address \<open>a\<close> and bytes \<open>bs\<close>.\<close>

definition buf_u8 :: "u64 \<Rightarrow> u8 list \<Rightarrow> int \<Rightarrow> ('z cldma_layer_scheme, u8) state" where
  "buf_u8 a bs k =
     (if 0 \<le> k \<and> k < int (length bs) then return (bs ! nat k) else do {
        fault;
        v \<leftarrow> kquery ''mem'' [a + of_int k];
        return (ucast v)
      })"

definition buf_le32 :: "u64 \<Rightarrow> u8 list \<Rightarrow> int \<Rightarrow> ('z cldma_layer_scheme, u32) state" where
  "buf_le32 a bs k =
     (if 0 \<le> k \<and> k + 4 \<le> int (length bs) then return (le32_at bs (nat k)) else do {
        fault;
        v \<leftarrow> kquery ''mem'' [a + of_int k];
        return (ucast v)
      })"

abbreviation skb_le32 :: "cskb \<Rightarrow> int \<Rightarrow> ('z cldma_layer_scheme, u32) state" where
  "skb_le32 skb \<equiv> buf_le32 (cskb_ptr skb) (cskb_bytes skb)"

definition skb_push :: "u8 list \<Rightarrow> cskb \<Rightarrow> cskb" where
  "skb_push h skb = skb\<lparr>cskb_bytes := h @ cskb_bytes skb\<rparr>"

text \<open>\<open>skb_pull\<close> refuses to pull more than there is.\<close>

definition skb_pull :: "nat \<Rightarrow> cskb \<Rightarrow> cskb" where
  "skb_pull n skb = (if length (cskb_bytes skb) < n then skb
     else skb\<lparr>cskb_bytes := drop n (cskb_bytes skb)\<rparr>)"

text \<open>The caller of a function that does not return does not go on.\<close>

definition bind_opt ::
  "('s, 'a option) state \<Rightarrow> ('a \<Rightarrow> ('s, 'b option) state) \<Rightarrow> ('s, 'b option) state" where
  "bind_opt m f = do { r \<leftarrow> m; case r of None \<Rightarrow> return None | Some a \<Rightarrow> f a }"

definition IS_ERR :: "u64 \<Rightarrow> bool" where
  "IS_ERR p \<longleftrightarrow> - 4095 \<le> p"

definition PTR_ERR :: "u64 \<Rightarrow> errno + unit" where
  "PTR_ERR p = kret (- p)"

section \<open>Channels, configurations, ports\<close>

type_synonym port_ch = u16

abbreviation (input) PORT_CH_AP_CONTROL_RX :: port_ch where "PORT_CH_AP_CONTROL_RX \<equiv> 0x1000"
abbreviation (input) PORT_CH_AP_CONTROL_TX :: port_ch where "PORT_CH_AP_CONTROL_TX \<equiv> 0x1001"
abbreviation (input) PORT_CH_AP_ADB_RX :: port_ch where "PORT_CH_AP_ADB_RX \<equiv> 0x100a"
abbreviation (input) PORT_CH_AP_ADB_TX :: port_ch where "PORT_CH_AP_ADB_TX \<equiv> 0x100b"
abbreviation (input) PORT_CH_CONTROL_RX :: port_ch where "PORT_CH_CONTROL_RX \<equiv> 0x2000"
abbreviation (input) PORT_CH_CONTROL_TX :: port_ch where "PORT_CH_CONTROL_TX \<equiv> 0x2001"
abbreviation (input) PORT_CH_UART2_RX :: port_ch where "PORT_CH_UART2_RX \<equiv> 0x200a"
abbreviation (input) PORT_CH_UART2_TX :: port_ch where "PORT_CH_UART2_TX \<equiv> 0x200c"
abbreviation (input) PORT_CH_MD_LOG_RX :: port_ch where "PORT_CH_MD_LOG_RX \<equiv> 0x202a"
abbreviation (input) PORT_CH_MD_LOG_TX :: port_ch where "PORT_CH_MD_LOG_TX \<equiv> 0x202b"
abbreviation (input) PORT_CH_MIPC_RX :: port_ch where "PORT_CH_MIPC_RX \<equiv> 0x20ce"
abbreviation (input) PORT_CH_MIPC_TX :: port_ch where "PORT_CH_MIPC_TX \<equiv> 0x20cf"
abbreviation (input) PORT_CH_MBIM_RX :: port_ch where "PORT_CH_MBIM_RX \<equiv> 0x20d0"
abbreviation (input) PORT_CH_MBIM_TX :: port_ch where "PORT_CH_MBIM_TX \<equiv> 0x20d1"
abbreviation (input) PORT_CH_UNIMPORTANT :: port_ch where "PORT_CH_UNIMPORTANT \<equiv> 0xffff"

abbreviation (input) PORT_CH_ID_MASK :: field where "PORT_CH_ID_MASK \<equiv> (7, 0)"
abbreviation (input) CCCI_HEADER_NO_DATA :: u32 where "CCCI_HEADER_NO_DATA \<equiv> 0xffffffff"
abbreviation (input) CCCI_H_AST_BIT :: u32 where "CCCI_H_AST_BIT \<equiv> BIT 31"
abbreviation (input) CCCI_H_SEQ_FLD :: field where "CCCI_H_SEQ_FLD \<equiv> (30, 16)"
abbreviation (input) CCCI_H_CHN_FLD :: field where "CCCI_H_CHN_FLD \<equiv> (15, 0)"
abbreviation (input) INVALID_SEQ_NUM :: u16 where "INVALID_SEQ_NUM \<equiv> 0xffff"
abbreviation (input) RX_QUEUE_MAXLEN :: nat where "RX_QUEUE_MAXLEN \<equiv> 32"
abbreviation (input) CTRL_QUEUE_MAXLEN :: nat where "CTRL_QUEUE_MAXLEN \<equiv> 16"

text \<open>
  The operations of a port; \<open>TRACE_PORT_OPS\<close> exists when the kernel has
  \<open>CONFIG_WWAN_DEBUGFS\<close>. A \<open>port_type\<close> that a configuration leaves out is 0, \<open>WWAN_PORT_AT\<close>.
\<close>

datatype port_ops = WWAN_SUB_PORT_OPS | CTL_PORT_OPS | TRACE_PORT_OPS

datatype wwan_port_type =
    WWAN_PORT_AT | WWAN_PORT_MBIM | WWAN_PORT_FASTBOOT | WWAN_PORT_ADB | WWAN_PORT_MIPC

datatype port_cfg_id = PORT_CFG_ID_INVALID | PORT_CFG_ID_NORMAL | PORT_CFG_ID_EARLY

record t7xx_port_conf =
  tx_ch :: port_ch
  rx_ch :: port_ch
  txq_index :: nat
  rxq_index :: nat
  txq_exp_index :: nat
  rxq_exp_index :: nat
  path_id :: cldma_id
  ops :: port_ops
  port_name :: string
  port_type :: wwan_port_type
  debug :: bool

text \<open>\<open>port_priv\<close> is the union of \<open>wwan.wwan_port\<close> and \<open>log.relaych\<close>; 0 is the null pointer.\<close>

record t7xx_port =
  port_conf :: t7xx_port_conf
  seq_tx :: u16
  seq_rx :: u16
  usage_cnt :: int
  rx_skb_list :: "cskb list"
  rx_length_th :: nat
  chan_enable :: bool
  port_thread :: u64
  port_priv :: u64

record port_proxy =
  port_count :: nat
  ports :: "nat \<Rightarrow> t7xx_port"
  rx_ch_ports :: "u8 \<Rightarrow> nat list"
  queue_ports :: "cldma_id \<Rightarrow> nat \<Rightarrow> nat list"
  cfg_id :: port_cfg_id

text \<open>
  \<open>ctl_port\<close> is the port of \<open>core_md\<close> and \<open>core_ap\<close>, \<open>wwan_debugfs\<close> the configuration of the
  kernel, \<open>debugfs_dir\<close> a field of \<open>struct t7xx_pci_dev\<close>.
\<close>

record port_layer = cldma_layer +
  port_prox :: port_proxy
  ctl_port :: "cldma_id \<Rightarrow> nat option"
  wwan_debugfs :: bool
  debugfs_dir :: u64

definition get_prox :: "(port_proxy \<Rightarrow> 'a) \<Rightarrow> ('z port_layer_scheme, 'a) state" where
  "get_prox f = gets (\<lambda>s. f (port_prox s))"

definition upd_prox :: "(port_proxy \<Rightarrow> port_proxy) \<Rightarrow> ('z port_layer_scheme, unit) state" where
  "upd_prox f = modify (\<lambda>s. s\<lparr>port_prox := f (port_prox s)\<rparr>)"

definition get_port :: "nat \<Rightarrow> (t7xx_port \<Rightarrow> 'a) \<Rightarrow> ('z port_layer_scheme, 'a) state" where
  "get_port p f = gets (\<lambda>s. f (ports (port_prox s) p))"

definition upd_port :: "nat \<Rightarrow> (t7xx_port \<Rightarrow> t7xx_port) \<Rightarrow> ('z port_layer_scheme, unit) state" where
  "upd_port p f = upd_prox (\<lambda>x. x\<lparr>ports := (ports x)(p := f (ports x p))\<rparr>)"

definition for_each_proxy_port ::
  "(nat \<Rightarrow> ('z port_layer_scheme, unit) state) \<Rightarrow> ('z port_layer_scheme, unit) state" where
  "for_each_proxy_port f = do { n \<leftarrow> get_prox port_count; for_each [0..<n] f }"

section \<open>The two configurations\<close>

abbreviation (input) Q_IDX_CTRL :: nat where "Q_IDX_CTRL \<equiv> 0"
abbreviation (input) Q_IDX_MBIM_MIPC :: nat where "Q_IDX_MBIM_MIPC \<equiv> 2"
abbreviation (input) Q_IDX_ADB :: nat where "Q_IDX_ADB \<equiv> 3"
abbreviation (input) Q_IDX_AT_CMD :: nat where "Q_IDX_AT_CMD \<equiv> 5"

definition t7xx_port_conf_table :: "bool \<Rightarrow> t7xx_port_conf list" where
  "t7xx_port_conf_table debugfs =
    [\<lparr>tx_ch = PORT_CH_UART2_TX, rx_ch = PORT_CH_UART2_RX, txq_index = Q_IDX_AT_CMD,
      rxq_index = Q_IDX_AT_CMD, txq_exp_index = 0xff, rxq_exp_index = 0xff,
      path_id = CLDMA_ID_MD, ops = WWAN_SUB_PORT_OPS, port_name = ''AT'',
      port_type = WWAN_PORT_AT, debug = False\<rparr>,
     \<lparr>tx_ch = PORT_CH_MBIM_TX, rx_ch = PORT_CH_MBIM_RX, txq_index = Q_IDX_MBIM_MIPC,
      rxq_index = Q_IDX_MBIM_MIPC, txq_exp_index = 0, rxq_exp_index = 0,
      path_id = CLDMA_ID_MD, ops = WWAN_SUB_PORT_OPS, port_name = ''MBIM'',
      port_type = WWAN_PORT_MBIM, debug = False\<rparr>] @
    (if debugfs then
     [\<lparr>tx_ch = PORT_CH_MD_LOG_TX, rx_ch = PORT_CH_MD_LOG_RX, txq_index = 7, rxq_index = 7,
       txq_exp_index = 7, rxq_exp_index = 7, path_id = CLDMA_ID_MD, ops = TRACE_PORT_OPS,
       port_name = ''mdlog'', port_type = WWAN_PORT_AT, debug = False\<rparr>]
     else []) @
    [\<lparr>tx_ch = PORT_CH_CONTROL_TX, rx_ch = PORT_CH_CONTROL_RX, txq_index = Q_IDX_CTRL,
      rxq_index = Q_IDX_CTRL, txq_exp_index = 0, rxq_exp_index = 0, path_id = CLDMA_ID_MD,
      ops = CTL_PORT_OPS, port_name = ''t7xx_ctrl'', port_type = WWAN_PORT_AT, debug = False\<rparr>,
     \<lparr>tx_ch = PORT_CH_AP_CONTROL_TX, rx_ch = PORT_CH_AP_CONTROL_RX, txq_index = Q_IDX_CTRL,
      rxq_index = Q_IDX_CTRL, txq_exp_index = 0, rxq_exp_index = 0, path_id = CLDMA_ID_AP,
      ops = CTL_PORT_OPS, port_name = ''t7xx_ap_ctrl'', port_type = WWAN_PORT_AT, debug = False\<rparr>,
     \<lparr>tx_ch = PORT_CH_AP_ADB_TX, rx_ch = PORT_CH_AP_ADB_RX, txq_index = Q_IDX_ADB,
      rxq_index = Q_IDX_ADB, txq_exp_index = 0, rxq_exp_index = 0, path_id = CLDMA_ID_AP,
      ops = WWAN_SUB_PORT_OPS, port_name = ''adb'', port_type = WWAN_PORT_ADB, debug = True\<rparr>,
     \<lparr>tx_ch = PORT_CH_MIPC_TX, rx_ch = PORT_CH_MIPC_RX, txq_index = Q_IDX_MBIM_MIPC,
      rxq_index = Q_IDX_MBIM_MIPC, txq_exp_index = 0, rxq_exp_index = 0, path_id = CLDMA_ID_MD,
      ops = WWAN_SUB_PORT_OPS, port_name = ''mipc'', port_type = WWAN_PORT_MIPC, debug = True\<rparr>]"

definition t7xx_early_port_conf :: "t7xx_port_conf list" where
  "t7xx_early_port_conf =
    [\<lparr>tx_ch = PORT_CH_UNIMPORTANT, rx_ch = PORT_CH_UNIMPORTANT, txq_index = CLDMA_Q_IDX_DUMP,
      rxq_index = CLDMA_Q_IDX_DUMP, txq_exp_index = CLDMA_Q_IDX_DUMP,
      rxq_exp_index = CLDMA_Q_IDX_DUMP, path_id = CLDMA_ID_AP, ops = WWAN_SUB_PORT_OPS,
      port_name = ''fastboot'', port_type = WWAN_PORT_FASTBOOT, debug = False\<rparr>]"

section \<open>Sending\<close>

definition t7xx_proxy_get_port_by_ch :: "u32 \<Rightarrow> ('z port_layer_scheme, nat option) state" where
  "t7xx_proxy_get_port_by_ch ch = gets (\<lambda>s. find
     (\<lambda>i. let conf = port_conf (ports (port_prox s) i) in ucast (rx_ch conf) = ch \<or> ucast (tx_ch conf) = ch)
     [0..<port_count (port_prox s)])"

text \<open>
  The number expected next is that of the packet plus one; a packet out of order is only
  logged.
\<close>

definition t7xx_port_next_rx_seq_num :: "u32 \<Rightarrow> u16" where
  "t7xx_port_next_rx_seq_num status =
     (let seq_num = ucast (FIELD_GET CCCI_H_SEQ_FLD status) in (seq_num + 1) AND GENMASK 14 0)"

definition t7xx_port_proxy_reset :: "('z port_layer_scheme, unit) state" where
  "t7xx_port_proxy_reset = for_each_proxy_port (\<lambda>i.
     upd_port i (\<lambda>p. p\<lparr>seq_rx := INVALID_SEQ_NUM, seq_tx := 0\<rparr>))"

definition t7xx_port_get_queue_no :: "nat \<Rightarrow> ('z port_layer_scheme, nat) state" where
  "t7xx_port_get_queue_no p = do {
     conf \<leftarrow> get_port p port_conf;
     st \<leftarrow> t7xx_fsm_get_md_state;
     return (if st = MD_STATE_EXCEPTION then txq_exp_index conf else txq_index conf)
   }"

definition t7xx_port_struct_init :: "nat \<Rightarrow> ('z port_layer_scheme, unit) state" where
  "t7xx_port_struct_init p = upd_port p (\<lambda>x. x\<lparr>rx_skb_list := [], seq_rx := INVALID_SEQ_NUM,
     seq_tx := 0, usage_cnt := 0\<rparr>)"

text \<open>A new packet with room for \<open>payload\<close> bytes and the header in front, which is reserved.\<close>

definition t7xx_port_alloc_skb :: "nat \<Rightarrow> ('z io_scheme, cskb option) state" where
  "t7xx_port_alloc_skb payload = do {
     p \<leftarrow> kquery ''__dev_alloc_skb'' [of_nat (payload + 16)];
     return (if p = 0 then None
       else Some \<lparr>cskb_ptr = p, cskb_size = payload + 16, cskb_bytes = []\<rparr>)
   }"

definition t7xx_ctrl_alloc_skb :: "nat \<Rightarrow> ('z io_scheme, cskb option) state" where
  "t7xx_ctrl_alloc_skb payload = t7xx_port_alloc_skb (payload + 12)"

definition t7xx_port_enqueue_skb :: "nat \<Rightarrow> cskb \<Rightarrow> ('z port_layer_scheme, errno + unit) state" where
  "t7xx_port_enqueue_skb p skb = do {
     full \<leftarrow> get_port p (\<lambda>x. rx_length_th x \<le> length (rx_skb_list x));
     if full then return (Inl ENOBUFS) else do {
       upd_port p (\<lambda>x. x\<lparr>rx_skb_list := rx_skb_list x @ [skb]\<rparr>);
       kcall ''wake_up_all rx_wq'' [of_nat p];
       return (Inr ())
     }
   }"

definition t7xx_get_port_mtu :: "nat \<Rightarrow> ('z port_layer_scheme, nat) state" where
  "t7xx_get_port_mtu p = do {
     path \<leftarrow> get_port p (path_id \<circ> port_conf);
     q \<leftarrow> t7xx_port_get_queue_no p;
     get_cl path (\<lambda>x. pkt_size (tx_ring x q))
   }"

text \<open>\<open>others\<close> and \<open>fuel\<close> are those of \<open>t7xx_cldma_send_skb\<close>.\<close>

definition t7xx_port_send_raw_skb ::
  "('z port_layer_scheme, unit) state \<Rightarrow> nat \<Rightarrow> nat \<Rightarrow> cskb \<Rightarrow>
   ('z port_layer_scheme, (errno + unit) option) state" where
  "t7xx_port_send_raw_skb others fuel p skb = do {
     path \<leftarrow> get_port p (path_id \<circ> port_conf);
     tx_qno \<leftarrow> t7xx_port_get_queue_no p;
     t7xx_cldma_send_skb others fuel path tx_qno skb
   }"

text \<open>\<open>struct ccci_header\<close>: \<open>packet_header\<close>, \<open>packet_len\<close>, \<open>status\<close>, \<open>ex_msg\<close>.\<close>

definition ccci_header :: "u32 \<Rightarrow> u32 \<Rightarrow> u32 \<Rightarrow> u32 \<Rightarrow> u8 list" where
  "ccci_header packet_header packet_len status ex_msg =
     le32_bytes packet_header @ le32_bytes packet_len @ le32_bytes status @ le32_bytes ex_msg"

definition ccci_status :: "port_ch \<Rightarrow> u16 \<Rightarrow> u32" where
  "ccci_status ch seq = FIELD_PREP CCCI_H_CHN_FLD (ucast ch) OR FIELD_PREP CCCI_H_SEQ_FLD (ucast seq)
     OR CCCI_H_AST_BIT"

definition t7xx_port_send_ccci_skb ::
  "('z port_layer_scheme, unit) state \<Rightarrow> nat \<Rightarrow> nat \<Rightarrow> cskb \<Rightarrow> u32 \<Rightarrow> u32 \<Rightarrow>
   ('z port_layer_scheme, (errno + unit) option) state" where
  "t7xx_port_send_ccci_skb others fuel p skb pkt_header ex_msg = do {
     ch \<leftarrow> get_port p (tx_ch \<circ> port_conf);
     seq \<leftarrow> get_port p seq_tx;
     let status = ccci_status ch seq;
     let packet_len = of_nat (length (cskb_bytes skb) + 16);
     let skb = skb_push (ccci_header pkt_header packet_len status ex_msg) skb;
     bind_opt (t7xx_port_send_raw_skb others fuel p skb) (\<lambda>ret.
       if isl ret then return (Some ret) else do {
         upd_port p (\<lambda>x. x\<lparr>seq_tx := seq_tx x + 1\<rparr>);
         return (Some (Inr ()))
       })
   }"

text \<open>\<open>struct ctrl_msg_header\<close>: \<open>ctrl_msg_id\<close>, \<open>ex_msg\<close>, \<open>data_length\<close>.\<close>

definition t7xx_port_send_ctl_skb ::
  "('z port_layer_scheme, unit) state \<Rightarrow> nat \<Rightarrow> nat \<Rightarrow> cskb \<Rightarrow> u32 \<Rightarrow> u32 \<Rightarrow>
   ('z port_layer_scheme, (errno + unit) option) state" where
  "t7xx_port_send_ctl_skb others fuel p skb msg ex_msg = do {
     let msg_len = of_nat (length (cskb_bytes skb));
     let skb = skb_push (le32_bytes msg @ le32_bytes ex_msg @ le32_bytes msg_len) skb;
     let pkt_header = (if msg_len = 0 then CCCI_HEADER_NO_DATA else 0);
     t7xx_port_send_ccci_skb others fuel p skb pkt_header ex_msg
   }"

text \<open>Why a port may not send in the current state of the modem, if so.\<close>

definition send_refused :: "t7xx_port_conf \<Rightarrow> t7xx_fsm_state \<Rightarrow> md_state \<Rightarrow> errno option" where
  "send_refused conf fsm_state md_state =
     (if fsm_state = FSM_STATE_PRE_START then None else case md_state of
        MD_STATE_EXCEPTION \<Rightarrow> if tx_ch conf \<noteq> PORT_CH_MD_LOG_TX then Some EBUSY else None
      | MD_STATE_WAITING_FOR_HS1 \<Rightarrow> Some ENODEV
      | MD_STATE_WAITING_FOR_HS2 \<Rightarrow> Some ENODEV
      | MD_STATE_STOPPED \<Rightarrow> Some ENODEV
      | MD_STATE_WAITING_TO_STOP \<Rightarrow> Some ENODEV
      | MD_STATE_INVALID \<Rightarrow> Some ENODEV
      | _ \<Rightarrow> None)"

definition t7xx_port_send_skb ::
  "('z port_layer_scheme, unit) state \<Rightarrow> nat \<Rightarrow> nat \<Rightarrow> cskb \<Rightarrow> u32 \<Rightarrow> u32 \<Rightarrow>
   ('z port_layer_scheme, (errno + unit) option) state" where
  "t7xx_port_send_skb others fuel p skb pkt_header ex_msg = do {
     fsm_state \<leftarrow> t7xx_fsm_get_ctl_state;
     conf \<leftarrow> get_port p port_conf;
     md_state \<leftarrow> t7xx_fsm_get_md_state;
     case send_refused conf fsm_state md_state of
       Some e \<Rightarrow> return (Some (Inl e))
     | None \<Rightarrow> t7xx_port_send_ccci_skb others fuel p skb pkt_header ex_msg
   }"

section \<open>Ports of the WWAN subsystem\<close>

definition t7xx_port_wwan_start :: "nat \<Rightarrow> ('z port_layer_scheme, errno + unit) state" where
  "t7xx_port_wwan_start p = do {
     n \<leftarrow> get_port p usage_cnt;
     if n \<noteq> 0 then return (Inl EBUSY) else do {
       upd_port p (\<lambda>x. x\<lparr>usage_cnt := usage_cnt x + 1\<rparr>);
       return (Inr ())
     }
   }"

definition t7xx_port_wwan_stop :: "nat \<Rightarrow> ('z port_layer_scheme, unit) state" where
  "t7xx_port_wwan_stop p = upd_port p (\<lambda>x. x\<lparr>usage_cnt := usage_cnt x - 1\<rparr>)"

text \<open>
  The loop of \<open>t7xx_port_fastboot_tx\<close> over what is left of the packet; a round that sends
  something makes it shorter, so that \<open>length bs\<close> rounds are enough, unless the queue takes
  packets of 0 bytes only. \<open>Inl\<close> is an early return.
\<close>

primrec fastboot_loop ::
  "('z port_layer_scheme, unit) state \<Rightarrow> nat \<Rightarrow> nat \<Rightarrow> nat \<Rightarrow> nat \<Rightarrow> u8 list \<Rightarrow>
   ('z port_layer_scheme, (errno + unit) option) state" where
  "fastboot_loop others fuel p txq_mtu 0 bs = return (if bs = [] then Some (Inr ()) else None)"
| "fastboot_loop others fuel p txq_mtu (Suc k) bs =
     (if bs = [] then return (Some (Inr ())) else do {
        let len = min (length bs) txq_mtu;
        a \<leftarrow> kquery ''__dev_alloc_skb'' [of_nat len];
        if a = 0 then return (Some (Inl ENOMEM)) else do {
          let tx_skb = \<lparr>cskb_ptr = a, cskb_size = len, cskb_bytes = take len bs\<rparr>;
          bind_opt (t7xx_port_send_raw_skb others fuel p tx_skb) (\<lambda>ret.
            if isl ret then do {
              dev_kfree_skb a;
              return (Some (Inr ()))
            } else fastboot_loop others fuel p txq_mtu k (drop len bs))
        }
      })"

definition t7xx_port_fastboot_tx ::
  "('z port_layer_scheme, unit) state \<Rightarrow> nat \<Rightarrow> nat \<Rightarrow> cskb \<Rightarrow>
   ('z port_layer_scheme, (errno + unit) option) state" where
  "t7xx_port_fastboot_tx others fuel p skb = do {
     txq_mtu \<leftarrow> t7xx_get_port_mtu p;
     bind_opt (fastboot_loop others fuel p txq_mtu (length (cskb_bytes skb)) (cskb_bytes skb)) (\<lambda>ret.
       if isl ret then return (Some ret) else do {
         dev_kfree_skb (cskb_ptr skb);
         return (Some (Inr ()))
       })
   }"

text \<open>The number of an error, as in \<open>asm-generic/errno.h\<close>.\<close>

primrec errno_val :: "errno \<Rightarrow> int" where
  "errno_val EIO = 5" | "errno_val ENXIO = 6" | "errno_val EAGAIN = 11" | "errno_val ENOMEM = 12"
| "errno_val EACCES = 13" | "errno_val EFAULT = 14" | "errno_val EBUSY = 16" | "errno_val EEXIST = 17"
| "errno_val ENODEV = 19" | "errno_val EINVAL = 22" | "errno_val ENODATA = 61"
| "errno_val ENOBUFS = 105" | "errno_val ETIMEDOUT = 110" | "errno_val EALREADY = 114"
| "errno_val (ERRNO n) = uint n"

text \<open>
  A packet from user space is a chain: the packet and those of its \<open>frag_list\<close>. Each is cloned
  and sent on its own. The result is a C integer, 0 for success. \<open>lens\<close> are the \<open>len\<close> fields of
  the packets still to be sent; that of the first packet of a chain counts the whole chain.
  \<open>Inl\<close> is an early return.
\<close>

primrec ctrl_tx_loop ::
  "('z port_layer_scheme, unit) state \<Rightarrow> nat \<Rightarrow> nat \<Rightarrow> cskb list \<Rightarrow> int \<Rightarrow> int list \<Rightarrow>
   ('z port_layer_scheme, (int + unit) option) state" where
  "ctrl_tx_loop others fuel p [] cnt lens = return (Some (Inr ()))"
| "ctrl_tx_loop others fuel p (cur # rest) cnt lens = do {
     a \<leftarrow> kquery ''skb_clone'' [cskb_ptr cur];
     if a = 0 then do { fault; return None } else do {
       let cloned = cur\<lparr>cskb_ptr := a\<rparr>;
       bind_opt (t7xx_port_send_skb others fuel p cloned 0 0) (\<lambda>ret.
         case ret of
           Inl e \<Rightarrow> do {
             dev_kfree_skb a;
             return (Some (Inl (if cnt \<noteq> 0 then cnt - errno_val e else - errno_val e)))
           }
         | Inr _ \<Rightarrow> ctrl_tx_loop others fuel p rest (cnt + hd lens) (tl lens))
     }
   }"

definition chain_lens :: "cskb list \<Rightarrow> int list" where
  "chain_lens chain = (case map (\<lambda>x. int (length (cskb_bytes x))) chain of
     [] \<Rightarrow> [] | n # ns \<Rightarrow> (n + sum_list ns) # ns)"

definition t7xx_port_ctrl_tx ::
  "('z port_layer_scheme, unit) state \<Rightarrow> nat \<Rightarrow> nat \<Rightarrow> cskb list \<Rightarrow>
   ('z port_layer_scheme, int option) state" where
  "t7xx_port_ctrl_tx others fuel p chain = do {
     md_state \<leftarrow> t7xx_fsm_get_md_state;
     if md_state = MD_STATE_WAITING_FOR_HS1 \<or> md_state = MD_STATE_WAITING_FOR_HS2
     then return (Some (- errno_val ENODEV))
     else bind_opt (ctrl_tx_loop others fuel p chain 0 (chain_lens chain)) (\<lambda>ret.
       case ret of
         Inl r \<Rightarrow> return (Some r)
       | Inr _ \<Rightarrow> do {
           dev_kfree_skb (cskb_ptr (hd chain));
           return (Some 0)
         })
   }"

definition t7xx_port_wwan_tx ::
  "('z port_layer_scheme, unit) state \<Rightarrow> nat \<Rightarrow> nat \<Rightarrow> cskb list \<Rightarrow>
   ('z port_layer_scheme, int option) state" where
  "t7xx_port_wwan_tx others fuel p chain = do {
     x \<leftarrow> get_port p (\<lambda>x. x);
     if \<not> chan_enable x then return (Some (- errno_val EINVAL))
     else if port_type (port_conf x) \<noteq> WWAN_PORT_FASTBOOT then t7xx_port_ctrl_tx others fuel p chain
     else bind_opt (t7xx_port_fastboot_tx others fuel p (hd chain)) (\<lambda>ret.
       return (Some (case ret of Inl e \<Rightarrow> - errno_val e | Inr _ \<Rightarrow> 0)))
   }"

text \<open>The result of \<open>wwan_create_port\<close> is kept as it is, also when it stands for an error.\<close>

definition t7xx_port_wwan_create :: "nat \<Rightarrow> ('z port_layer_scheme, unit) state" where
  "t7xx_port_wwan_create p = do {
     w \<leftarrow> get_port p port_priv;
     c_when (w = 0) (do {
       mtu \<leftarrow> t7xx_get_port_mtu p;
       w \<leftarrow> kquery ''wwan_create_port'' [of_nat p, of_nat mtu - 16, 16];
       upd_port p (\<lambda>x. x\<lparr>port_priv := w\<rparr>)
     })
   }"

definition always_there :: "wwan_port_type \<Rightarrow> bool" where
  "always_there t \<longleftrightarrow> t = WWAN_PORT_FASTBOOT \<or> t = WWAN_PORT_ADB \<or> t = WWAN_PORT_MIPC"

definition t7xx_port_wwan_init :: "nat \<Rightarrow> ('z port_layer_scheme, errno + unit) state" where
  "t7xx_port_wwan_init p = do {
     conf \<leftarrow> get_port p port_conf;
     c_when (always_there (port_type conf)) (t7xx_port_wwan_create p);
     upd_port p (\<lambda>x. x\<lparr>rx_length_th := RX_QUEUE_MAXLEN\<rparr>);
     return (Inr ())
   }"

definition t7xx_port_wwan_uninit :: "nat \<Rightarrow> ('z port_layer_scheme, unit) state" where
  "t7xx_port_wwan_uninit p = do {
     w \<leftarrow> get_port p port_priv;
     c_when (w \<noteq> 0) (do {
       upd_port p (\<lambda>x. x\<lparr>rx_length_th := 0\<rparr>);
       kcall ''wwan_remove_port'' [w];
       upd_port p (\<lambda>x. x\<lparr>port_priv := 0\<rparr>)
     })
   }"

definition t7xx_port_wwan_recv_skb :: "nat \<Rightarrow> cskb \<Rightarrow> ('z port_layer_scheme, errno + unit) state" where
  "t7xx_port_wwan_recv_skb p skb = do {
     x \<leftarrow> get_port p (\<lambda>x. x);
     if usage_cnt x = 0 \<or> \<not> chan_enable x then do {
       dev_kfree_skb (cskb_ptr skb);
       return (Inr ())
     } else do {
       kcall ''wwan_port_rx'' [port_priv x, cskb_ptr skb];
       return (Inr ())
     }
   }"

definition t7xx_port_wwan_enable_chl :: "nat \<Rightarrow> ('z port_layer_scheme, unit) state" where
  "t7xx_port_wwan_enable_chl p = upd_port p (\<lambda>x. x\<lparr>chan_enable := True\<rparr>)"

definition t7xx_port_wwan_disable_chl :: "nat \<Rightarrow> ('z port_layer_scheme, unit) state" where
  "t7xx_port_wwan_disable_chl p = upd_port p (\<lambda>x. x\<lparr>chan_enable := False\<rparr>)"

definition t7xx_port_wwan_md_state_notify :: "nat \<Rightarrow> md_state \<Rightarrow> ('z port_layer_scheme, unit) state" where
  "t7xx_port_wwan_md_state_notify p st = do {
     conf \<leftarrow> get_port p port_conf;
     if always_there (port_type conf) then return ()
     else if st \<noteq> MD_STATE_READY then return ()
     else t7xx_port_wwan_create p
   }"

section \<open>The log of the modem\<close>

definition t7xx_trace_port_uninit :: "nat \<Rightarrow> ('z port_layer_scheme, unit) state" where
  "t7xx_trace_port_uninit p = do {
     dir \<leftarrow> gets debugfs_dir;
     relaych \<leftarrow> get_port p port_priv;
     c_when (relaych \<noteq> 0) (do {
       kcall ''relay_close'' [relaych];
       kcall ''debugfs_remove_recursive'' [dir];
       upd_port p (\<lambda>x. x\<lparr>port_priv := 0\<rparr>)
     })
   }"

definition t7xx_trace_port_recv_skb :: "nat \<Rightarrow> cskb \<Rightarrow> ('z port_layer_scheme, errno + unit) state" where
  "t7xx_trace_port_recv_skb p skb = do {
     relaych \<leftarrow> get_port p port_priv;
     if relaych = 0 then return (Inl EINVAL) else do {
       kcall ''relay_write'' [relaych, cskb_ptr skb, of_nat (length (cskb_bytes skb))];
       dev_kfree_skb (cskb_ptr skb);
       return (Inr ())
     }
   }"

definition t7xx_port_trace_md_state_notify :: "nat \<Rightarrow> md_state \<Rightarrow> ('z port_layer_scheme, unit) state" where
  "t7xx_port_trace_md_state_notify p st = do {
     relaych \<leftarrow> get_port p port_priv;
     c_when (st = MD_STATE_READY \<and> relaych = 0) (do {
       wwan_dir \<leftarrow> kquery ''wwan_get_debugfs_dir'' [];
       c_when (\<not> IS_ERR wwan_dir) (do {
         dir \<leftarrow> kquery ''debugfs_create_dir'' [wwan_dir];
         if dir = 0 \<or> IS_ERR dir then kcall ''wwan_put_debugfs_dir'' [wwan_dir] else do {
           relaych \<leftarrow> kquery ''relay_open'' [dir];
           if relaych = 0 then do {
             kcall ''debugfs_remove_recursive'' [dir];
             kcall ''wwan_put_debugfs_dir'' [wwan_dir]
           } else do {
             kcall ''wwan_put_debugfs_dir'' [wwan_dir];
             upd_port p (\<lambda>x. x\<lparr>port_priv := relaych\<rparr>);
             modify (\<lambda>s. s\<lparr>debugfs_dir := dir\<rparr>)
           }
         }
       })
     })
   }"

section \<open>The control port\<close>

abbreviation (input) CTL_ID_HS1_MSG :: u32 where "CTL_ID_HS1_MSG \<equiv> 0"
abbreviation (input) CTL_ID_HS2_MSG :: u32 where "CTL_ID_HS2_MSG \<equiv> 1"
abbreviation (input) CTL_ID_HS3_MSG :: u32 where "CTL_ID_HS3_MSG \<equiv> 2"
abbreviation (input) CTL_ID_MD_EX :: u32 where "CTL_ID_MD_EX \<equiv> 4"
abbreviation (input) CTL_ID_DRV_VER_ERROR :: u32 where "CTL_ID_DRV_VER_ERROR \<equiv> 5"
abbreviation (input) CTL_ID_MD_EX_ACK :: u32 where "CTL_ID_MD_EX_ACK \<equiv> 6"
abbreviation (input) CTL_ID_MD_EX_PASS :: u32 where "CTL_ID_MD_EX_PASS \<equiv> 8"
abbreviation (input) CTL_ID_PORT_ENUM :: u32 where "CTL_ID_PORT_ENUM \<equiv> 9"
abbreviation (input) MD_EX_CHK_ID :: u32 where "MD_EX_CHK_ID \<equiv> 0x45584350"
abbreviation (input) MD_EX_CHK_ACK_ID :: u32 where "MD_EX_CHK_ACK_ID \<equiv> 0x45524543"
abbreviation (input) PORT_INFO_ENFLG :: u32 where "PORT_INFO_ENFLG \<equiv> BIT 15"
abbreviation (input) PORT_INFO_CH_ID :: field where "PORT_INFO_CH_ID \<equiv> (14, 0)"
abbreviation (input) PORT_ENUM_VER :: u32 where "PORT_ENUM_VER \<equiv> 0"
abbreviation (input) PORT_ENUM_HEAD_PATTERN :: u32 where "PORT_ENUM_HEAD_PATTERN \<equiv> 0x5a5a5a5a"
abbreviation (input) PORT_ENUM_TAIL_PATTERN :: u32 where "PORT_ENUM_TAIL_PATTERN \<equiv> 0xa5a5a5a5"
abbreviation (input) PORT_ENUM_VER_MISMATCH :: u32 where "PORT_ENUM_VER_MISMATCH \<equiv> 0x00657272"
abbreviation (input) PORT_MSG_VERSION :: field where "PORT_MSG_VERSION \<equiv> (31, 16)"
abbreviation (input) PORT_MSG_PRT_CNT :: field where "PORT_MSG_PRT_CNT \<equiv> (15, 0)"

definition port_ctl_send_msg_to_md ::
  "('z port_layer_scheme, unit) state \<Rightarrow> nat \<Rightarrow> nat \<Rightarrow> u32 \<Rightarrow> u32 \<Rightarrow>
   ('z port_layer_scheme, (errno + unit) option) state" where
  "port_ctl_send_msg_to_md others fuel p msg ex_msg = do {
     a \<leftarrow> t7xx_ctrl_alloc_skb 0;
     case a of
       None \<Rightarrow> return (Some (Inl ENOMEM))
     | Some skb \<Rightarrow> bind_opt (t7xx_port_send_ctl_skb others fuel p skb msg ex_msg) (\<lambda>ret. do {
         c_when (isl ret) (dev_kfree_skb (cskb_ptr skb));
         return (Some ret)
       })
   }"

definition fsm_ee_message_handler ::
  "('z port_layer_scheme, unit) state \<Rightarrow> nat \<Rightarrow> nat \<Rightarrow> cskb \<Rightarrow>
   ('z port_layer_scheme, (errno + unit) option) state" where
  "fsm_ee_message_handler others fuel p skb = do {
     md_state \<leftarrow> t7xx_fsm_get_md_state;
     if md_state \<noteq> MD_STATE_EXCEPTION then return (Some (Inl EINVAL)) else do {
       ident \<leftarrow> skb_le32 skb 0;
       if ident = CTL_ID_MD_EX then do {
         ex_msg \<leftarrow> skb_le32 skb 4;
         if ex_msg \<noteq> MD_EX_CHK_ID then return (Some (Inl EINVAL)) else
           bind_opt (port_ctl_send_msg_to_md others fuel p CTL_ID_MD_EX MD_EX_CHK_ID) (\<lambda>ret.
             if isl ret then return (Some ret) else do {
               ret \<leftarrow> t7xx_fsm_append_event FSM_EVENT_MD_EX [];
               return (Some ret)
             })
       } else if ident = CTL_ID_MD_EX_ACK then do {
         ex_msg \<leftarrow> skb_le32 skb 4;
         if ex_msg \<noteq> MD_EX_CHK_ACK_ID then return (Some (Inl EINVAL)) else do {
           ret \<leftarrow> t7xx_fsm_append_event FSM_EVENT_MD_EX_REC_OK [];
           return (Some ret)
         }
       } else if ident = CTL_ID_MD_EX_PASS then do {
         ret \<leftarrow> t7xx_fsm_append_event FSM_EVENT_MD_EX_PASS [];
         return (Some ret)
       } else return (Some (Inl EINVAL))
     }
   }"

text \<open>Only the WWAN ports have \<open>enable_chl\<close> and \<open>disable_chl\<close>.\<close>

definition t7xx_port_proxy_chl_enable_disable ::
  "u32 \<Rightarrow> bool \<Rightarrow> ('z port_layer_scheme, errno + unit) state" where
  "t7xx_port_proxy_chl_enable_disable ch_id en_flag = do {
     port \<leftarrow> t7xx_proxy_get_port_by_ch ch_id;
     case port of
       None \<Rightarrow> return (Inl EINVAL)
     | Some p \<Rightarrow> do {
         f \<leftarrow> get_port p (ops \<circ> port_conf);
         c_when (f = WWAN_SUB_PORT_OPS)
           (if en_flag then t7xx_port_wwan_enable_chl p else t7xx_port_wwan_disable_chl p);
         return (Inr ())
       }
   }"

text \<open>
  The message lies at offset \<open>off\<close> of the buffer with address \<open>a\<close> and bytes \<open>bs\<close>:
  \<open>head_pattern\<close>, \<open>info\<close>, \<open>tail_pattern\<close>, \<open>data[]\<close>.
\<close>

definition t7xx_port_enum_msg_handler ::
  "u64 \<Rightarrow> u8 list \<Rightarrow> int \<Rightarrow> ('z port_layer_scheme, errno + unit) state" where
  "t7xx_port_enum_msg_handler a bs off = do {
     info \<leftarrow> buf_le32 a bs (off + 4);
     head_pattern \<leftarrow> buf_le32 a bs off;
     tail_pattern \<leftarrow> buf_le32 a bs (off + 8);
     if FIELD_GET PORT_MSG_VERSION info \<noteq> PORT_ENUM_VER \<or> head_pattern \<noteq> PORT_ENUM_HEAD_PATTERN \<or>
       tail_pattern \<noteq> PORT_ENUM_TAIL_PATTERN
     then return (Inl EFAULT) else do {
       let n = unat (FIELD_GET PORT_MSG_PRT_CNT info);
       for_each [0..<n] (\<lambda>i. do {
         port_info \<leftarrow> buf_le32 a bs (off + 12 + 4 * int i);
         t7xx_port_proxy_chl_enable_disable (FIELD_GET PORT_INFO_CH_ID port_info)
           (port_info AND PORT_INFO_ENFLG \<noteq> 0);
         return ()
       });
       return (Inr ())
     }
   }"

text \<open>
  \<open>t7xx_fsm_append_event\<close> copies as many bytes as the message says from the packet; what lies
  beyond the packet is \<open>rest\<close>.
\<close>

definition append_hs2_event ::
  "t7xx_fsm_event_state \<Rightarrow> cskb \<Rightarrow> nat \<Rightarrow> ('z port_layer_scheme, errno + unit) state" where
  "append_hs2_event event skb len = do {
     rest \<leftarrow> read_mem (cskb_ptr skb + of_nat (length (cskb_bytes skb))) (len - length (cskb_bytes skb));
     ret \<leftarrow> t7xx_fsm_append_event event (take len (cskb_bytes skb) @ rest);
     c_when (\<not> isl ret \<and> length (cskb_bytes skb) < len) fault;
     return ret
   }"

definition control_msg_handler ::
  "('z port_layer_scheme, unit) state \<Rightarrow> nat \<Rightarrow> nat \<Rightarrow> cskb \<Rightarrow>
   ('z port_layer_scheme, (errno + unit) option) state" where
  "control_msg_handler others fuel p skb = do {
     conf \<leftarrow> get_port p port_conf;
     ident \<leftarrow> skb_le32 skb 0;
     if ident = CTL_ID_HS2_MSG then do {
       len \<leftarrow> skb_le32 skb 8;
       let skb = skb_pull 12 skb;
       ret \<leftarrow> (if rx_ch conf = PORT_CH_CONTROL_RX then append_hs2_event FSM_EVENT_MD_HS2 skb (unat len)
              else if rx_ch conf = PORT_CH_AP_CONTROL_RX
              then append_hs2_event FSM_EVENT_AP_HS2 skb (unat len)
              else return (Inr ()));
       dev_kfree_skb (cskb_ptr skb);
       return (Some ret)
     } else if ident = CTL_ID_MD_EX \<or> ident = CTL_ID_MD_EX_ACK \<or> ident = CTL_ID_MD_EX_PASS \<or>
       ident = CTL_ID_DRV_VER_ERROR then
       bind_opt (fsm_ee_message_handler others fuel p skb) (\<lambda>ret. do {
         dev_kfree_skb (cskb_ptr skb);
         return (Some ret)
       })
     else if ident = CTL_ID_PORT_ENUM then do {
       let skb = skb_pull 12 skb;
       ret \<leftarrow> t7xx_port_enum_msg_handler (cskb_ptr skb) (cskb_bytes skb) 0;
       port_ctl_send_msg_to_md others fuel p CTL_ID_PORT_ENUM
         (if isl ret then PORT_ENUM_VER_MISMATCH else 0)
     } else return (Some (Inl EINVAL))
   }"

text \<open>
  The thread of a control port runs until it is told to stop, so it has fuel. It sleeps while
  its list is empty; meanwhile others run.
\<close>

primrec port_ctl_rx_thread ::
  "('z port_layer_scheme, unit) state \<Rightarrow> nat \<Rightarrow> nat \<Rightarrow> nat \<Rightarrow> ('z port_layer_scheme, unit option) state"
where
  "port_ctl_rx_thread others fuel p 0 = return None"
| "port_ctl_rx_thread others fuel p (Suc k) = do {
     stop \<leftarrow> kquery ''kthread_should_stop'' [];
     if stop \<noteq> 0 then return (Some ()) else do {
       skbs \<leftarrow> get_port p rx_skb_list;
       interrupted \<leftarrow> (if skbs \<noteq> [] then return 0 else do {
         others;
         kquery ''wait_event_interruptible_locked_irq rx_wq'' [of_nat p]
       });
       if interrupted \<noteq> 0 then port_ctl_rx_thread others fuel p k else do {
         stop \<leftarrow> kquery ''kthread_should_stop'' [];
         if stop \<noteq> 0 then return (Some ()) else do {
           skbs \<leftarrow> get_port p rx_skb_list;
           if skbs = [] then do { fault; return None } else do {
             upd_port p (\<lambda>x. x\<lparr>rx_skb_list := tl skbs\<rparr>);
             bind_opt (control_msg_handler others fuel p (hd skbs)) (\<lambda>_.
               port_ctl_rx_thread others fuel p k)
           }
         }
       }
     }
   }"

definition port_ctl_init :: "nat \<Rightarrow> ('z port_layer_scheme, errno + unit) state" where
  "port_ctl_init p = do {
     t \<leftarrow> kquery ''kthread_run port_ctl_rx_thread'' [of_nat p];
     upd_port p (\<lambda>x. x\<lparr>port_thread := t\<rparr>);
     if IS_ERR t then do {
       upd_port p (\<lambda>x. x\<lparr>port_thread := 0\<rparr>);
       return (PTR_ERR t)
     } else do {
       upd_port p (\<lambda>x. x\<lparr>rx_length_th := CTRL_QUEUE_MAXLEN\<rparr>);
       return (Inr ())
     }
   }"

definition port_ctl_uninit :: "nat \<Rightarrow> ('z port_layer_scheme, unit) state" where
  "port_ctl_uninit p = do {
     t \<leftarrow> get_port p port_thread;
     c_when (t \<noteq> 0) (do {
       kcall ''kthread_stop'' [t];
       upd_port p (\<lambda>x. x\<lparr>port_thread := 0\<rparr>)
     });
     upd_port p (\<lambda>x. x\<lparr>rx_length_th := 0\<rparr>);
     skbs \<leftarrow> get_port p rx_skb_list;
     for_each skbs (\<lambda>skb. do {
       upd_port p (\<lambda>x. x\<lparr>rx_skb_list := tl (rx_skb_list x)\<rparr>);
       dev_kfree_skb (cskb_ptr skb)
     })
   }"

section \<open>The operations of a port\<close>

definition ops_init :: "nat \<Rightarrow> ('z port_layer_scheme, unit) state" where
  "ops_init p = do {
     f \<leftarrow> get_port p (ops \<circ> port_conf);
     case f of
       WWAN_SUB_PORT_OPS \<Rightarrow> do { t7xx_port_wwan_init p; return () }
     | CTL_PORT_OPS \<Rightarrow> do { port_ctl_init p; return () }
     | TRACE_PORT_OPS \<Rightarrow> return ()
   }"

definition ops_uninit :: "nat \<Rightarrow> ('z port_layer_scheme, unit) state" where
  "ops_uninit p = do {
     f \<leftarrow> get_port p (ops \<circ> port_conf);
     case f of
       WWAN_SUB_PORT_OPS \<Rightarrow> t7xx_port_wwan_uninit p
     | CTL_PORT_OPS \<Rightarrow> port_ctl_uninit p
     | TRACE_PORT_OPS \<Rightarrow> t7xx_trace_port_uninit p
   }"

definition ops_recv_skb :: "nat \<Rightarrow> cskb \<Rightarrow> ('z port_layer_scheme, errno + unit) state" where
  "ops_recv_skb p skb = do {
     f \<leftarrow> get_port p (ops \<circ> port_conf);
     case f of
       WWAN_SUB_PORT_OPS \<Rightarrow> t7xx_port_wwan_recv_skb p skb
     | CTL_PORT_OPS \<Rightarrow> t7xx_port_enqueue_skb p skb
     | TRACE_PORT_OPS \<Rightarrow> t7xx_trace_port_recv_skb p skb
   }"

definition ops_md_state_notify :: "nat \<Rightarrow> md_state \<Rightarrow> ('z port_layer_scheme, unit) state" where
  "ops_md_state_notify p st = do {
     f \<leftarrow> get_port p (ops \<circ> port_conf);
     case f of
       WWAN_SUB_PORT_OPS \<Rightarrow> t7xx_port_wwan_md_state_notify p st
     | CTL_PORT_OPS \<Rightarrow> return ()
     | TRACE_PORT_OPS \<Rightarrow> t7xx_port_trace_md_state_notify p st
   }"

section \<open>Receiving\<close>

text \<open>All lists are emptied, then every port is appended to the list of its channel and queue.\<close>

definition map_port :: "nat \<Rightarrow> ('z port_layer_scheme, unit) state" where
  "map_port i = do {
     conf \<leftarrow> get_port i port_conf;
     let ch_id = ucast (FIELD_GET PORT_CH_ID_MASK (rx_ch conf));
     upd_prox (\<lambda>x. x\<lparr>rx_ch_ports := (rx_ch_ports x)(ch_id := rx_ch_ports x ch_id @ [i])\<rparr>);
     upd_prox (\<lambda>x. x\<lparr>queue_ports := (queue_ports x)(path_id conf :=
       (queue_ports x (path_id conf))(rxq_index conf := queue_ports x (path_id conf) (rxq_index conf) @ [i]))\<rparr>)
   }"

definition t7xx_proxy_setup_ch_mapping :: "('z port_layer_scheme, unit) state" where
  "t7xx_proxy_setup_ch_mapping = do {
     upd_prox (\<lambda>x. x\<lparr>rx_ch_ports := (\<lambda>_. []), queue_ports := (\<lambda>_ _. [])\<rparr>);
     for_each_proxy_port map_port
   }"

definition t7xx_port_proxy_recv_skb_from_dedicated_queue ::
  "cldma_id \<Rightarrow> nat \<Rightarrow> cskb \<Rightarrow> ('z port_layer_scheme, errno + unit) state" where
  "t7xx_port_proxy_recv_skb_from_dedicated_queue c index skb = do {
     conf \<leftarrow> get_port 0 port_conf;
     if rxq_index conf \<noteq> index then do {
       dev_kfree_skb (cskb_ptr skb);
       return (Inl EINVAL)
     } else do {
       ret \<leftarrow> ops_recv_skb 0 skb;
       c_when (isl ret \<and> ret \<noteq> Inl ENOBUFS) (dev_kfree_skb (cskb_ptr skb));
       return ret
     }
   }"

definition t7xx_port_proxy_find_port ::
  "cldma_id \<Rightarrow> u16 \<Rightarrow> ('z port_layer_scheme, nat option) state" where
  "t7xx_port_proxy_find_port c channel = do {
     let ch_id = ucast (FIELD_GET PORT_CH_ID_MASK channel);
     port_list \<leftarrow> get_prox (\<lambda>x. rx_ch_ports x ch_id);
     gets (\<lambda>s. find (\<lambda>i. let conf = port_conf (ports (port_prox s) i) in
       c = path_id conf \<and> channel = rx_ch conf) port_list)
   }"

definition t7xx_port_proxy_recv_skb ::
  "cldma_id \<Rightarrow> nat \<Rightarrow> cskb \<Rightarrow> ('z port_layer_scheme, errno + unit) state" where
  "t7xx_port_proxy_recv_skb c index skb = do {
     status \<leftarrow> skb_le32 skb 8;
     let channel = ucast (FIELD_GET CCCI_H_CHN_FLD status);
     st \<leftarrow> t7xx_fsm_get_md_state;
     port \<leftarrow> (if st = MD_STATE_INVALID then return None else t7xx_port_proxy_find_port c channel);
     case port of
       None \<Rightarrow> do {
         dev_kfree_skb (cskb_ptr skb);
         return (Inr ())
       }
     | Some p \<Rightarrow> do {
         let seq_num = t7xx_port_next_rx_seq_num status;
         ret \<leftarrow> ops_recv_skb p (skb_pull 16 skb);
         if isl ret then return ret else do {
           upd_port p (\<lambda>x. x\<lparr>seq_rx := seq_num\<rparr>);
           return (Inr ())
         }
       }
   }"

text \<open>The receive functions that \<open>t7xx_cldma_adjust_config\<close> gives to the queues.\<close>

definition port_recv_fn :: "'z port_layer_ext port_recv" where
  "port_recv_fn f c i skb = (case f of
     RECV_PROXY \<Rightarrow> t7xx_port_proxy_recv_skb c i skb
   | RECV_DEDICATED \<Rightarrow> t7xx_port_proxy_recv_skb_from_dedicated_queue c i skb
   | RECV_DEFAULT \<Rightarrow> t7xx_cldma_default_recv_skb skb)"

section \<open>Configurations and states\<close>

definition t7xx_port_proxy_md_status_notify :: "md_state \<Rightarrow> ('z port_layer_scheme, unit) state" where
  "t7xx_port_proxy_md_status_notify st = for_each_proxy_port (\<lambda>i. ops_md_state_notify i st)"

definition t7xx_proxy_init_all_ports :: "('z port_layer_scheme, unit) state" where
  "t7xx_proxy_init_all_ports = do {
     for_each_proxy_port (\<lambda>i. do {
       conf \<leftarrow> get_port i port_conf;
       t7xx_port_struct_init i;
       c_when (tx_ch conf = PORT_CH_CONTROL_TX)
         (modify (\<lambda>s. s\<lparr>ctl_port := (ctl_port s)(CLDMA_ID_MD := Some i)\<rparr>));
       c_when (tx_ch conf = PORT_CH_AP_CONTROL_TX)
         (modify (\<lambda>s. s\<lparr>ctl_port := (ctl_port s)(CLDMA_ID_AP := Some i)\<rparr>));
       upd_port i (\<lambda>p. p\<lparr>chan_enable := False\<rparr>);
       c_when (\<not> debug conf) (ops_init i)
     });
     t7xx_proxy_setup_ch_mapping
   }"

definition t7xx_proxy_debug_ports_show :: "bool \<Rightarrow> ('z port_layer_scheme, unit) state" where
  "t7xx_proxy_debug_ports_show show_them = for_each_proxy_port (\<lambda>i. do {
     conf \<leftarrow> get_port i port_conf;
     c_when (debug conf) (if show_them then ops_init i else ops_uninit i)
   })"

definition t7xx_port_proxy_uninit :: "('z port_layer_scheme, unit) state" where
  "t7xx_port_proxy_uninit = for_each_proxy_port ops_uninit"

definition t7xx_port_proxy_set_cfg :: "port_cfg_id \<Rightarrow> ('z port_layer_scheme, unit) state" where
  "t7xx_port_proxy_set_cfg cfg = do {
     t7xx_port_proxy_uninit;
     debugfs \<leftarrow> gets wwan_debugfs;
     let confs = (if cfg = PORT_CFG_ID_EARLY then t7xx_early_port_conf else t7xx_port_conf_table debugfs);
     for_each [0..<length confs] (\<lambda>i. upd_port i (\<lambda>p. p\<lparr>port_conf := confs ! i\<rparr>));
     upd_prox (\<lambda>x. x\<lparr>cfg_id := cfg, port_count := length confs\<rparr>);
     t7xx_proxy_init_all_ports
   }"

text \<open>\<open>devm_kzalloc\<close>: no ports, and everything 0 or null.\<close>

definition zero_port :: t7xx_port where
  "zero_port = \<lparr>port_conf = \<lparr>tx_ch = 0, rx_ch = 0, txq_index = 0, rxq_index = 0, txq_exp_index = 0,
     rxq_exp_index = 0, path_id = CLDMA_ID_MD, ops = CTL_PORT_OPS, port_name = [],
     port_type = WWAN_PORT_AT, debug = False\<rparr>, seq_tx = 0, seq_rx = 0, usage_cnt = 0,
     rx_skb_list = [], rx_length_th = 0, chan_enable = False, port_thread = 0, port_priv = 0\<rparr>"

definition t7xx_proxy_alloc :: "('z port_layer_scheme, errno + unit) state" where
  "t7xx_proxy_alloc = do {
     p \<leftarrow> kquery ''devm_kzalloc'' [];
     if p = 0 then return (Inl ENOMEM) else do {
       upd_prox (\<lambda>_. \<lparr>port_count = 0, ports = (\<lambda>_. zero_port), rx_ch_ports = (\<lambda>_. []),
         queue_ports = (\<lambda>_ _. []), cfg_id = PORT_CFG_ID_INVALID\<rparr>);
       return (Inr ())
     }
   }"

definition t7xx_port_proxy_init :: "('z port_layer_scheme, errno + unit) state" where
  "t7xx_port_proxy_init = t7xx_proxy_alloc"

end
