(* ===== verification/Cldma_Rx.thy ===== *)
theory Cldma_Rx
  imports Cldma_Ring
begin

text \<open>
  The receive rings of the control path. \<open>rx_ring_ok s c i g\<close> says that the requests of a queue
  from \<open>rx_refill\<close> on are first \<open>g\<close> requests without a buffer, the gap, and then requests with
  one, the first of which is \<open>tr_done\<close>. What the layer above must promise of the function that
  takes a packet is the locale \<open>packet_receiver\<close>.
\<close>

section \<open>The ring\<close>

definition ring_gap :: "cldma_queue \<Rightarrow> cldma_request list \<Rightarrow> nat \<Rightarrow> bool" where
  "ring_gap q r g \<longleftrightarrow> (\<exists>f gap full. rx_refill q = Some f \<and> f < length r \<and> rotate f r = gap @ full \<and>
     length gap = g \<and> list_all (\<lambda>x. \<not> has_skb x) gap \<and> list_all has_skb full \<and>
     tr_done q = Some ((f + g) mod length r))"

definition rx_ring_ok :: "'z cldma_layer_scheme \<Rightarrow> cldma_id \<Rightarrow> nat \<Rightarrow> nat \<Rightarrow> bool" where
  "rx_ring_ok s c i g = ring_gap (rxq_at s c i) (rxr_at s c i) g"

lemma ring_gapE:
  assumes "ring_gap q r g"
  obtains f gap full where "rx_refill q = Some f" "f < length r" "rotate f r = gap @ full"
    "length gap = g" "list_all (\<lambda>x. \<not> has_skb x) gap" "list_all has_skb full"
    "tr_done q = Some ((f + g) mod length r)"
  using assms unfolding ring_gap_def by blast

text \<open>The number of buffers: all requests but the gap have one.\<close>

lemma ring_gap_count: "ring_gap q r g \<Longrightarrow> length (filter has_skb r) + g = length r"
proof (elim ring_gapE)
  fix f gap full assume h: "rotate f r = gap @ full" "length gap = g" "list_all (\<lambda>x. \<not> has_skb x) gap"
    "list_all has_skb full"
  have "length (filter has_skb (rotate f r)) = length (filter has_skb r)"
    by (metis add.commute append_take_drop_id filter_append length_append rotate_drop_take)
  then have "length (filter has_skb r) = length (filter has_skb (gap @ full))"
    using h(1) by simp
  moreover have "filter has_skb gap = []" "filter has_skb full = full"
    using h(3,4) by (simp_all add: list_all_iff filter_empty_conv filter_id_conv)
  ultimately show ?thesis
    using h(2) arg_cong [OF h(1), of length] by simp
qed

text \<open>Changing the request at \<open>tr_done\<close> without giving up its buffer.\<close>

lemma ring_gap_touch:
  assumes "ring_gap q r g" "tr_done q = Some d" "has_skb (r ! d)" "has_skb v"
  shows "ring_gap q (r[d := v]) g"
proof -
  obtain f gap full where h: "rx_refill q = Some f" "f < length r" "rotate f r = gap @ full"
    "length gap = g" "list_all (\<lambda>x. \<not> has_skb x) gap" "list_all has_skb full" "d = (f + g) mod length r"
    using assms(1,2) by (elim ring_gapE) auto
  show ?thesis
  proof (cases full)
    case Nil
    then have n: "g = length r" using arg_cong [OF h(3), of length] h(4) by simp
    then have "d = f" using h(2,7) by simp
    then have "\<not> has_skb (r ! d)" using h(2,3,5) Nil rotate_head [of f r] by (cases gap) auto
    then show ?thesis using assms(3) by simp
  next
    case (Cons x full')
    have g: "g < length r" using arg_cong [OF h(3), of length] h(4) Cons by simp
    have "rotate f (r[d := v]) = gap @ v # full'"
      using rotate_update [OF g, of f v] h(3,4,7) Cons by (auto simp: list_update_append)
    then show ?thesis
      unfolding ring_gap_def using h Cons assms(2,4)
      by (intro exI [of _ f] exI [of _ gap] exI [of _ "v # full'"]) simp
  qed
qed

text \<open>Giving up the buffer at \<open>tr_done\<close> makes the gap longer.\<close>

lemma ring_gap_take:
  assumes "ring_gap q r g" "tr_done q = Some d" "has_skb (r ! d)" "\<not> has_skb v"
  shows "ring_gap (q\<lparr>tr_done := next_circular (length r) (Some d)\<rparr>) (r[d := v]) (Suc g)"
proof -
  obtain f gap full where h: "rx_refill q = Some f" "f < length r" "rotate f r = gap @ full"
    "length gap = g" "list_all (\<lambda>x. \<not> has_skb x) gap" "list_all has_skb full" "d = (f + g) mod length r"
    using assms(1,2) by (elim ring_gapE) auto
  show ?thesis
  proof (cases full)
    case Nil
    then have n: "g = length r" using arg_cong [OF h(3), of length] h(4) by simp
    then have "d = f" using h(2,7) by simp
    then have "\<not> has_skb (r ! d)" using h(2,3,5) Nil rotate_head [of f r] by (cases gap) auto
    then show ?thesis using assms(3) by simp
  next
    case (Cons x full')
    have g: "g < length r" using arg_cong [OF h(3), of length] h(4) Cons by simp
    have "rotate f (r[d := v]) = (gap @ [v]) @ full'"
      using rotate_update [OF g, of f v] h(3,4,7) Cons by (auto simp: list_update_append)
    moreover have "Suc d mod length r = (f + Suc g) mod length r"
      using h(7) by (simp add: mod_Suc_eq)
    ultimately show ?thesis
      unfolding ring_gap_def using h Cons assms(4)
      by (intro exI [of _ f] exI [of _ "gap @ [v]"] exI [of _ full']) (simp add: next_circular_def list_all_append)
  qed
qed

text \<open>A new buffer at \<open>rx_refill\<close> makes it shorter, a request there that stays empty does not.\<close>

lemma ring_gap_fill:
  assumes "ring_gap q r (Suc g)" "rx_refill q = Some f"
  shows "has_skb v \<Longrightarrow> ring_gap (q\<lparr>rx_refill := next_circular (length r) (Some f)\<rparr>) (r[f := v]) g"
    and "\<not> has_skb v \<Longrightarrow> ring_gap q (r[f := v]) (Suc g)"
    and "f < length r"
proof -
  obtain y gap full where h: "f < length r" "rotate f r = (y # gap) @ full"
    "length gap = g" "list_all (\<lambda>x. \<not> has_skb x) (y # gap)" "list_all has_skb full"
    "tr_done q = Some ((f + Suc g) mod length r)"
    using assms by (elim ring_gapE) (metis length_Suc_conv option.inject)
  show "f < length r" by (rule h(1))
  have u: "rotate f (r[f := v]) = v # gap @ full"
    using rotate_update [of 0 r f v] h(1,2) by (cases r) auto
  then have "rotate (Suc f mod length r) (r[f := v]) = gap @ full @ [v]"
    using rotate_next [of f "r[f := v]"] by simp
  moreover have "(Suc f mod length r + g) mod length r = (f + Suc g) mod length r"
    by (simp add: mod_add_left_eq)
  moreover have "Suc f mod length r < length r" using h(1) by (cases r) auto
  ultimately show "ring_gap (q\<lparr>rx_refill := next_circular (length r) (Some f)\<rparr>) (r[f := v]) g" if "has_skb v"
    unfolding ring_gap_def using h that
    by (intro exI [of _ "Suc f mod length r"] exI [of _ gap] exI [of _ "full @ [v]"])
       (simp add: next_circular_def)
  show "ring_gap q (r[f := v]) (Suc g)" if "\<not> has_skb v"
    unfolding ring_gap_def using h u that assms(2)
    by (intro exI [of _ f] exI [of _ "v # gap"] exI [of _ full]) simp
qed

section \<open>What a round asks of the outside\<close>

lemma preserves_cl_access:
  assumes "\<And>s m. f (s\<lparr>md_ctrl := m\<rparr>) = f s" and "\<And>s. f (s\<lparr>cldma_fault := True\<rparr>) = f s"
  shows "preserves f (get_cl c g)" "preserves f (upd_cl c h)" "preserves f (upd_q c d i k)"
    "preserves f (upd_ring c d i r)" "preserves f fault" "preserves f (get_req c d i p)"
    "preserves f (upd_req c d i p u)"
  unfolding get_cl_def upd_cl_def upd_q_def upd_ring_def fault_def get_req_def upd_req_def
  by (intro preserves_intros; simp add: assms)+

lemma only_asks_read_mem: "only_asks harmless (read_mem a n)"
proof (induction n arbitrary: a)
  case (Suc n)
  then show ?case by (auto intro!: only_asks_intros)
qed (simp add: only_asks_return)

lemma read_mem_frame:
  "md_ctrl (after (read_mem a n) s) = md_ctrl s" "released (after (read_mem a n) s) = released s"
  "env (after (read_mem a n) s) = env s" "cldma_fault (after (read_mem a n) s) = cldma_fault s"
proof -
  have "preserves cl_view (read_mem a n :: ('a cldma_layer_scheme, u8 list) state)"
    by (rule only_asks_preserves [OF only_asks_read_mem]) simp
  then have "cl_view (after (read_mem a n) s) = cl_view s" by (rule preservesD)
  then show "md_ctrl (after (read_mem a n) s) = md_ctrl s" "released (after (read_mem a n) s) = released s"
    "env (after (read_mem a n) s) = env s" "cldma_fault (after (read_mem a n) s) = cldma_fault s"
    by (simp_all add: cl_view_iff)
qed

text \<open>
  A new buffer, or none: what the kernel says when the driver asks for a buffer of \<open>sz\<close> bytes,
  and what comes of it, the buffer and the address it is mapped to. A buffer that cannot be
  mapped is freed.
\<close>

definition fresh_buffer :: "nat \<Rightarrow> ev list \<Rightarrow> (u64 \<times> dma_addr) option \<Rightarrow> bool" where
  "fresh_buffer sz es b \<longleftrightarrow> (\<exists>p a.
     es = Ret ''__dev_alloc_skb'' [of_nat sz] p
       # (if p = 0 then [] else Ret ''dma_map_single'' [p, of_nat sz] a
           # (if dma_mapping_error a then [Call ''dev_kfree_skb'' [p]] else [])) \<and>
     b = (if p = 0 \<or> dma_mapping_error a then None else Some (p, a)))"

definition holds_buffer :: "cldma_request \<Rightarrow> nat \<Rightarrow> u64 \<times> dma_addr \<Rightarrow> bool" where
  "holds_buffer r sz b \<longleftrightarrow>
     req_skb r = Some \<lparr>cskb_ptr = fst b, cskb_size = sz, cskb_bytes = []\<rparr> \<and> mapped_buff r = snd b"

lemma holds_buffer_has: "holds_buffer r sz b \<Longrightarrow> has_skb r"
  by (simp add: holds_buffer_def has_skb_def)

lemma alloc_and_map:
  fixes s :: "'z cldma_layer_scheme"
  shows "\<exists>es b. trace (after (t7xx_cldma_alloc_and_map_skb req sz) s) = trace s @ es \<and>
    md_ctrl (after (t7xx_cldma_alloc_and_map_skb req sz) s) = md_ctrl s \<and> fresh_buffer sz es b \<and>
    (case b of
       None \<Rightarrow> fst (result (t7xx_cldma_alloc_and_map_skb req sz) s) = Inl ENOMEM \<and>
         \<not> has_skb (snd (result (t7xx_cldma_alloc_and_map_skb req sz) s))
     | Some x \<Rightarrow> fst (result (t7xx_cldma_alloc_and_map_skb req sz) s) = Inr () \<and>
         holds_buffer (snd (result (t7xx_cldma_alloc_and_map_skb req sz) s)) sz x)"
proof -
  define p where "p = result (kquery ''__dev_alloc_skb'' [of_nat sz]) s"
  define t where "t = emit (Ret ''__dev_alloc_skb'' [of_nat sz] p) s"
  have p: "run (kquery ''__dev_alloc_skb'' [of_nat sz]) s = (p, t)"
    by (simp add: p_def t_def run_kquery Let_def)
  define a where "a = result (dma_map_single p (of_nat sz)) t"
  have a: "run (dma_map_single p (of_nat sz)) t = (a, emit (Ret ''dma_map_single'' [p, of_nat sz] a) t)"
    by (simp add: a_def run_kquery Let_def)
  have t: "trace t = trace s @ [Ret ''__dev_alloc_skb'' [of_nat sz] p]" "md_ctrl t = md_ctrl s"
    by (simp_all add: t_def)
  define es where "es = Ret ''__dev_alloc_skb'' [of_nat sz] p
       # (if p = 0 then [] else Ret ''dma_map_single'' [p, of_nat sz] a
           # (if dma_mapping_error a then [Call ''dev_kfree_skb'' [p]] else []))"
  define b where "b = (if p = 0 \<or> dma_mapping_error a then None else Some (p, a))"
  have "fresh_buffer sz es b"
    unfolding fresh_buffer_def es_def b_def by blast
  then show ?thesis
    by (intro exI [of _ es] exI [of _ b])
       (simp add: t7xx_cldma_alloc_and_map_skb_def run_bind p a t run_kcall es_def b_def has_skb_def holds_buffer_def)
qed

text \<open>Renewing a buffer makes the gap shorter, or fails and leaves it.\<close>

definition renewed ::
  "'z cldma_layer_scheme \<Rightarrow> cldma_id \<Rightarrow> nat \<Rightarrow> nat \<Rightarrow> nat \<Rightarrow> (u64 \<times> dma_addr) option \<Rightarrow> errno + unit \<Rightarrow>
   'z cldma_layer_scheme \<Rightarrow> bool" where
  "renewed s c i g sz b res t \<longleftrightarrow> (case b of
     None \<Rightarrow> res = Inl ENOMEM \<and> rx_ring_ok t c i (Suc g)
   | Some x \<Rightarrow> res = Inr () \<and> rx_ring_ok t c i g \<and>
       (\<exists>f. rx_refill (rxq_at s c i) = Some f \<and> holds_buffer (rxr_at t c i ! f) sz x))"

lemma rx_renew_step:
  assumes "rx_ring_ok s c i (Suc g)"
  shows "\<exists>es b. trace (after (rx_renew c i) s) = trace s @ es \<and>
    fresh_buffer (pkt_size (rx_ring (md_ctrl s c) i)) es b \<and>
    tr_done (rxq_at (after (rx_renew c i) s) c i) = tr_done (rxq_at s c i) \<and>
    renewed s c i g (pkt_size (rx_ring (md_ctrl s c) i)) b (result (rx_renew c i) s) (after (rx_renew c i) s)"
proof -
  note h = assms [unfolded rx_ring_ok_def]
  let ?sz = "pkt_size (rx_ring (md_ctrl s c) i)"
  obtain f where f: "rx_refill (rxq_at s c i) = Some f"
    using h by (rule ring_gapE)
  note fill = ring_gap_fill [OF h f]
  let ?m = "t7xx_cldma_alloc_and_map_skb (rxr_at s c i ! f) ?sz"
  define u where "u = after ?m s"
  define v where "v = snd (result ?m s)"
  obtain es b where b: "trace u = trace s @ es" "md_ctrl u = md_ctrl s" "fresh_buffer ?sz es b"
    and res: "case b of None \<Rightarrow> fst (result ?m s) = Inl ENOMEM \<and> \<not> has_skb v
     | Some x \<Rightarrow> fst (result ?m s) = Inr () \<and> holds_buffer v ?sz x"
    using alloc_and_map [of "rxr_at s c i ! f" ?sz s] unfolding u_def v_def by blast
  show ?thesis
  proof (cases b)
    case None
    then have "run (rx_renew c i) s = (Inl ENOMEM, with_rx u c i (rxq_at u c i) ((rxr_at u c i)[f := v]) [])"
      using res fill(3) f b(2)
      by (simp add: rx_renew_def run_simps split_beta u_def [symmetric] v_def [symmetric])
    then show ?thesis
      using fill(2) [of v] b res None
      by (intro exI [of _ es] exI [of _ b]) (simp add: rx_ring_ok_def renewed_def)
  next
    case (Some x)
    define w where "w = upd_gpd (\<lambda>g. (t7xx_cldma_gpd_set_data_ptr (mapped_buff v) g)
         \<lparr>data_buff_len := 0, gpd_flags := GPD_FLAGS_IOC OR GPD_FLAGS_HWO\<rparr>) v"
    have w: "holds_buffer w ?sz x"
      using res Some by (simp add: w_def holds_buffer_def upd_gpd_def)
    have "run (rx_renew c i) s = (Inr (), with_rx u c i
        ((rxq_at s c i)\<lparr>rx_refill := next_circular (length (rxr_at s c i)) (Some f)\<rparr>)
        ((rxr_at s c i)[f := w]) [])"
      using res Some fill(3) f b(2)
      by (simp add: rx_renew_def run_simps split_beta u_def [symmetric] v_def [symmetric] w_def)
    then show ?thesis
      using fill(1) [of w] holds_buffer_has [OF w] fill(3) f w b Some
      by (intro exI [of _ es] exI [of _ b]) (simp add: rx_ring_ok_def renewed_def)
  qed
qed

section \<open>The contract of a receiver\<close>

text \<open>What happens before the receiver is called; \<open>f\<close> is anything the control path does not touch.\<close>

lemma rx_deliver_run:
  fixes s :: "'z cldma_layer_scheme"
  assumes d: "d < length (rxr_at s c i)" "has_skb (rxr_at s c i ! d)"
    and fn: "recv_skb (rxq_at s c i) = fn" "fn \<noteq> RECV_DEFAULT"
    and f: "\<And>s e. harmless e \<Longrightarrow> f (emit e s) = f s" "\<And>s a. f (emit (Call ''dma_unmap_single'' a) s) = f s"
      "\<And>s m. f (s\<lparr>md_ctrl := m\<rparr>) = f s" "\<And>s. f (s\<lparr>cldma_fault := True\<rparr>) = f s"
  shows "\<exists>u w skb. run (rx_deliver recv c i (Some d) (rxr_at s c i ! d)) s = run (recv fn c i skb) u \<and>
    rxr_at u c i = (rxr_at s c i)[d := w] \<and> req_skb w = Some skb \<and> rxq_at u c i = rxq_at s c i \<and>
    cskb_ptr skb = cskb_ptr (the (req_skb (rxr_at s c i ! d))) \<and>
    pkt_size (rx_ring (md_ctrl u c) i) = pkt_size (rx_ring (md_ctrl s c) i) \<and>
    calls ''dev_kfree_skb'' (trace u) = calls ''dev_kfree_skb'' (trace s) \<and> f u = f s"
proof -
  let ?r = "rxr_at s c i" and ?q = "rxq_at s c i"
  define req where "req = ?r ! d"
  define len where "len = unat (data_buff_len (req_gpd req))"
  define unmap where "unmap = (do {
       dma_unmap_single (mapped_buff req) (of_nat (pkt_size (rx_ring (md_ctrl s c) i)));
       upd_req c MTK_RX i (Some d) (\<lambda>r. r\<lparr>mapped_buff := 0\<rparr>)
     } :: ('z cldma_layer_scheme, unit) state)"
  define s1 where "s1 = after (c_when (mapped_buff req \<noteq> 0) unmap) s"
  have s1: "rxq_at s1 c i = ?q" "pkt_size (rx_ring (md_ctrl s1 c) i) = pkt_size (rx_ring (md_ctrl s c) i)"
    "calls ''dev_kfree_skb'' (trace s1) = calls ''dev_kfree_skb'' (trace s)"
    and w1: "\<exists>w. rxr_at s1 c i = ?r[d := w]"
    using d(1) by (auto simp: s1_def unmap_def run_simps intro: exI [of _ "?r ! d"])
  define s2 where "s2 = after (c_when (cskb_size (the (req_skb req)) < len) fault) s1"
  have s2: "md_ctrl s2 = md_ctrl s1" "trace s2 = trace s1"
    by (simp_all add: s2_def run_simps fault_def)
  define s3 where "s3 = after (read_mem (cskb_ptr (the (req_skb req))) len) s2"
  define skb where "skb = (the (req_skb req))\<lparr>cskb_bytes := result (read_mem (cskb_ptr (the (req_skb req))) len) s2\<rparr>"
  have s3: "md_ctrl s3 = md_ctrl s1" "calls ''dev_kfree_skb'' (trace s3) = calls ''dev_kfree_skb'' (trace s1)"
    using read_mem_frame(1,2) [of "cskb_ptr (the (req_skb req))" len s2] s2
    by (simp_all add: s3_def released_def)
  define s4 where "s4 = after (upd_req c MTK_RX i (Some d) (\<lambda>r. r\<lparr>req_skb := Some skb\<rparr>)) s3"
  have n: "d < length (rxr_at s3 c i)" using w1 s3(1) d(1) by auto
  then have s4: "rxq_at s4 c i = ?q" "pkt_size (rx_ring (md_ctrl s4 c) i) = pkt_size (rx_ring (md_ctrl s c) i)"
    "calls ''dev_kfree_skb'' (trace s4) = calls ''dev_kfree_skb'' (trace s)"
    using s1 s3 by (simp_all add: s4_def run_simps)
  obtain w where w: "rxr_at s4 c i = ?r[d := w]" "req_skb w = Some skb"
    using w1 s3(1) d(1) n by (auto simp: s4_def run_simps)
  have "f s1 = f s"
    unfolding s1_def unmap_def
    by (rule preservesD) (intro preserves_intros preserves_cl_access(7) [of f]; simp add: f)
  moreover have "f s2 = f s1"
    unfolding s2_def by (rule preservesD) (intro preserves_intros preserves_cl_access(5) [of f]; simp add: f)
  moreover have "f s3 = f s2"
    unfolding s3_def by (rule preservesD, rule only_asks_preserves [OF only_asks_read_mem]) (rule f(1))
  moreover have "f s4 = f s3"
    unfolding s4_def by (rule preservesD) (intro preserves_cl_access(7) [of f]; simp add: f)
  ultimately have same: "f s4 = f s" by simp
  have "run (c_when (mapped_buff req \<noteq> 0) unmap) s = ((), s1)"
    "run (c_when (cskb_size (the (req_skb req)) < len) fault) s1 = ((), s2)"
    "run (read_mem (cskb_ptr (the (req_skb req))) len) s2 = (cskb_bytes skb, s3)"
    "run (upd_req c MTK_RX i (Some d) (\<lambda>r. r\<lparr>req_skb := Some skb\<rparr>)) s3 = ((), s4)"
    by (simp_all add: prod_eq_iff s1_def s2_def s3_def s4_def skb_def)
  moreover have "run (queue_recv_skb recv c i skb) s4 = run (recv fn c i skb) s4"
    using fn s4(1) by (simp add: queue_recv_skb_def run_simps)
  moreover have "(the (req_skb req))\<lparr>cskb_bytes := cskb_bytes skb\<rparr> = skb"
    by (simp add: skb_def)
  ultimately have run: "run (rx_deliver recv c i (Some d) (?r ! d)) s = run (recv fn c i skb) s4"
    unfolding rx_deliver_def req_def [symmetric] len_def unmap_def
    by (simp add: run_bind run_get_cl Let_def)
  have "cskb_ptr skb = cskb_ptr (the (req_skb (?r ! d)))" by (simp add: skb_def req_def)
  then show ?thesis using run w s4 same by blast
qed

text \<open>
  A receiver leaves the engines alone, and a packet that it refuses, to be offered again, it
  does not free.
\<close>

locale engine_user =
  fixes recv :: "'z port_recv" and fn :: recv_fn
  assumes not_default: "fn \<noteq> RECV_DEFAULT"
    and keeps_engines: "md_ctrl (after (recv fn c i skb) s) = md_ctrl s"

locale packet_receiver = engine_user recv fn for recv :: "'z port_recv" and fn :: recv_fn +
  assumes refused_kept: "isl (result (recv fn c i skb) s) \<Longrightarrow>
      calls ''dev_kfree_skb'' (trace (after (recv fn c i skb) s)) = calls ''dev_kfree_skb'' (trace s)"

context engine_user
begin

lemma rx_deliver_engine:
  fixes s :: "'z cldma_layer_scheme"
  assumes d: "d < length (rxr_at s c i)" "has_skb (rxr_at s c i ! d)"
    and fn: "recv_skb (rxq_at s c i) = fn"
  defines "m \<equiv> rx_deliver recv c i (Some d) (rxr_at s c i ! d)"
  shows "\<exists>w. rxr_at (after m s) c i = (rxr_at s c i)[d := w] \<and> has_skb w \<and>
      cskb_ptr (the (req_skb w)) = cskb_ptr (the (req_skb (rxr_at s c i ! d)))"
    and "rxq_at (after m s) c i = rxq_at s c i"
proof -
  obtain u w skb where u: "run m s = run (recv fn c i skb) u" "rxr_at u c i = (rxr_at s c i)[d := w]"
    "req_skb w = Some skb" "rxq_at u c i = rxq_at s c i" "cskb_ptr skb = cskb_ptr (the (req_skb (rxr_at s c i ! d)))"
    using rx_deliver_run [OF d fn not_default, of "\<lambda>_. ()" recv] unfolding m_def by auto
  then show "\<exists>w. rxr_at (after m s) c i = (rxr_at s c i)[d := w] \<and> has_skb w \<and>
      cskb_ptr (the (req_skb w)) = cskb_ptr (the (req_skb (rxr_at s c i ! d)))"
    and "rxq_at (after m s) c i = rxq_at s c i"
    by (auto simp: keeps_engines has_skb_def)
qed

end

text \<open>
  A round of the receive loop: the receiver is called with the packet; a refused one stays where
  it is, an accepted one makes room for a new buffer, and when there is none the gap grows.
\<close>

definition rx_round :: "'z cldma_layer_scheme \<Rightarrow> cldma_id \<Rightarrow> nat \<Rightarrow> nat \<Rightarrow> nat \<Rightarrow> errno + unit \<Rightarrow>
   'z cldma_layer_scheme \<Rightarrow> errno + unit \<Rightarrow> 'z cldma_layer_scheme \<Rightarrow> bool" where
  "rx_round s c i g d ret v res t \<longleftrightarrow> (case ret of
     Inl e \<Rightarrow> res = Inl e \<and> t = v \<and> rx_ring_ok t c i g \<and>
       tr_done (rxq_at t c i) = Some d \<and> has_skb (rxr_at t c i ! d) \<and>
       cskb_ptr (the (req_skb (rxr_at t c i ! d))) = cskb_ptr (the (req_skb (rxr_at s c i ! d))) \<and>
       calls ''dev_kfree_skb'' (trace t) = calls ''dev_kfree_skb'' (trace s)
   | Inr _ \<Rightarrow> tr_done (rxq_at t c i) = next_circular (length (rxr_at s c i)) (Some d) \<and>
       (\<exists>es b. trace t = trace v @ es \<and> fresh_buffer (pkt_size (rx_ring (md_ctrl s c) i)) es b \<and>
         renewed s c i g (pkt_size (rx_ring (md_ctrl s c) i)) b res t))"

context packet_receiver
begin

lemma rx_one_step:
  fixes s :: "'z cldma_layer_scheme"
  assumes h: "rx_ring_ok s c i g" and d: "tr_done (rxq_at s c i) = Some d" "has_skb (rxr_at s c i ! d)"
    and fn: "recv_skb (rxq_at s c i) = fn"
  defines "m \<equiv> rx_one recv c i (Some d) (rxr_at s c i ! d)"
  shows "\<exists>u skb ret v. run (recv fn c i skb) u = (ret, v) \<and>
    cskb_ptr skb = cskb_ptr (the (req_skb (rxr_at s c i ! d))) \<and>
    calls ''dev_kfree_skb'' (trace u) = calls ''dev_kfree_skb'' (trace s) \<and>
    rx_round s c i g d ret v (result m s) (after m s)"
proof -
  let ?r = "rxr_at s c i" and ?q = "rxq_at s c i" and ?sz = "pkt_size (rx_ring (md_ctrl s c) i)"
  have dr: "d < length ?r"
    using h d(1) unfolding rx_ring_ok_def
    by (elim ring_gapE) (metis gr_implies_not0 length_0_conv mod_less_divisor neq0_conv option.inject)
  obtain u w skb where u: "run (rx_deliver recv c i (Some d) (?r ! d)) s = run (recv fn c i skb) u"
    "rxr_at u c i = ?r[d := w]" "req_skb w = Some skb" "rxq_at u c i = ?q"
    "cskb_ptr skb = cskb_ptr (the (req_skb (?r ! d)))" "pkt_size (rx_ring (md_ctrl u c) i) = ?sz"
    "calls ''dev_kfree_skb'' (trace u) = calls ''dev_kfree_skb'' (trace s)"
    using rx_deliver_run [OF dr d(2) fn not_default, of "\<lambda>_. ()" recv] by auto
  define ret where "ret = result (recv fn c i skb) u"
  define v where "v = after (recv fn c i skb) u"
  have rv: "run (recv fn c i skb) u = (ret, v)"
    by (simp add: ret_def v_def)
  have mv: "md_ctrl v = md_ctrl u"
    by (simp add: v_def keeps_engines)
  have w: "has_skb w"
    using u(3) by (simp add: has_skb_def)
  have before: "rx_ring_ok v c i g"
    using ring_gap_touch [OF h [unfolded rx_ring_ok_def] d w] u(2,4) mv by (simp add: rx_ring_ok_def)
  have "rx_round s c i g d ret v (result m s) (after m s)"
  proof (cases ret)
    case (Inl e)
    then have "run m s = (Inl e, v)"
      by (simp add: m_def rx_one_def run_bind u(1) rv)
    moreover have "calls ''dev_kfree_skb'' (trace v) = calls ''dev_kfree_skb'' (trace s)"
      using refused_kept [of c i skb u] Inl u(7) by (simp add: ret_def v_def)
    ultimately show ?thesis
      using before u mv w dr d(1) Inl by (simp add: rx_round_def)
  next
    case (Inr y)
    define x where "x = upd_gpd (t7xx_cldma_gpd_set_data_ptr 0) (w\<lparr>req_skb := None\<rparr>)"
    define t where "t = with_rx v c i (?q\<lparr>tr_done := next_circular (length ?r) (Some d)\<rparr>) (?r[d := x]) []"
    have run: "run m s = run (rx_renew c i) t"
      using Inr u(2,4) mv dr
      by (simp add: m_def rx_one_def run_bind u(1) rv) (simp add: run_simps t_def x_def)
    have "has_skb ((?r[d := w]) ! d)" using w dr by simp
    then have "rx_ring_ok t c i (Suc g)"
      using ring_gap_take [OF before [unfolded rx_ring_ok_def], of d x] d(1) u(2,4) mv
      by (simp add: rx_ring_ok_def t_def x_def has_skb_def upd_gpd_def)
    moreover have "pkt_size (rx_ring (md_ctrl t c) i) = ?sz" "trace t = trace v"
      "rx_refill (rxq_at t c i) = rx_refill ?q" "tr_done (rxq_at t c i) = next_circular (length ?r) (Some d)"
      using u(6) mv by (simp_all add: t_def)
    moreover from calculation obtain es b where "trace (after m s) = trace v @ es" "fresh_buffer ?sz es b"
      "tr_done (rxq_at (after m s) c i) = next_circular (length ?r) (Some d)"
      "renewed t c i g ?sz b (result m s) (after m s)"
      using rx_renew_step [of t c i g] unfolding run by metis
    moreover have "renewed t c i g ?sz b (result m s) (after m s) = renewed s c i g ?sz b (result m s) (after m s)"
      by (simp add: renewed_def t_def split: option.split)
    ultimately show ?thesis
      using Inr by (auto simp: rx_round_def)
  qed
  then show ?thesis
    using rv u(5,7) by blast
qed

end

end
