(* ===== verification/Port_Props.thy ===== *)
theory Port_Props
  imports Ports Cldma_Props Cldma_Rx
begin

text \<open>
  What the ports promise: a packet goes to the port of its channel, a header says what the
  sender put there, a control message does what it says, and a packet has one owner. And
  where a packet has two, or none.
\<close>

section \<open>Executing the accesses\<close>

lemma run_ports [run_simps]:
  "run (get_prox f) s = (f (port_prox s), s)"
  "run (upd_prox g) s = ((), s\<lparr>port_prox := g (port_prox s)\<rparr>)"
  "run (get_port p h) s = (h (ports (port_prox s) p), s)"
  "run (upd_port p k) s = ((), s\<lparr>port_prox := (port_prox s)
     \<lparr>ports := (ports (port_prox s))(p := k (ports (port_prox s) p))\<rparr>\<rparr>)"
  by (simp_all add: get_prox_def upd_prox_def get_port_def upd_port_def run_simps)

lemma run_bind_opt [run_simps]:
  "run (bind_opt m f) s =
     (case run m s of (r, t) \<Rightarrow> (case r of None \<Rightarrow> (None, t) | Some a \<Rightarrow> run (f a) t))"
  by (simp add: bind_opt_def run_simps split: prod.split option.split)

lemma run_fsm_get [run_simps]:
  "run t7xx_fsm_get_md_state s = (if fsm_ctl_set s then fsm_md_state (fsm s) else MD_STATE_INVALID, s)"
  "run t7xx_fsm_get_ctl_state s = (if fsm_ctl_set s then curr_state (fsm s) else FSM_STATE_STOPPED, s)"
  by (simp_all add: t7xx_fsm_get_md_state_def t7xx_fsm_get_ctl_state_def run_simps)

lemma emit_ports [simp]:
  "port_prox (emit e s) = port_prox s" "ctl_port (emit e s) = ctl_port s"
  "wwan_debugfs (emit e s) = wwan_debugfs s" "debugfs_dir (emit e s) = debugfs_dir s"
  by (simp_all add: emit_def)

section \<open>Little-endian words\<close>

lemma le32_at_bytes [simp]: "le32_at (le32_bytes v @ bs) 0 = v" "le32_at (le32_bytes v) 0 = v"
proof -
  define w :: u32 where "w = ucast (ucast v :: u8) OR push_bit 8 (ucast (ucast (drop_bit 8 v) :: u8)) OR
      push_bit 16 (ucast (ucast (drop_bit 16 v) :: u8)) OR push_bit 24 (ucast (ucast (drop_bit 24 v) :: u8))"
  have "w = v"
  proof (rule bit_word_eqI)
    fix n assume "n < LENGTH(32)"
    then consider "n < 8" | "8 \<le> n" "n < 16" | "16 \<le> n" "n < 24" | "24 \<le> n" "n < 32" by fastforce
    then show "bit w n \<longleftrightarrow> bit v n"
      by cases (auto simp: bit_simps w_def)
  qed
  then show "le32_at (le32_bytes v @ bs) 0 = v" "le32_at (le32_bytes v) 0 = v"
    by (simp_all add: le32_at_def le32_bytes_def w_def)
qed

lemma length_le32_bytes [simp]: "length (le32_bytes v) = 4"
  by (simp add: le32_bytes_def)

lemma le32_at_skip: "length xs \<le> k \<Longrightarrow> le32_at (xs @ ys) k = le32_at ys (k - length xs)"
  by (simp add: le32_at_def nth_append Suc_diff_le)

lemma run_buf_le32 [run_simps]:
  "0 \<le> k \<Longrightarrow> k + 4 \<le> int (length bs) \<Longrightarrow> run (buf_le32 a bs k) s = (le32_at bs (nat k), s)"
  by (simp add: buf_le32_def run_simps)

section \<open>The header of a packet\<close>

lemma ccci_header_fields:
  "length (ccci_header h l st ex) = 16" "le32_at (ccci_header h l st ex) 0 = h"
  "le32_at (ccci_header h l st ex) 4 = l" "le32_at (ccci_header h l st ex) 8 = st"
  "le32_at (ccci_header h l st ex) 12 = ex"
  by (simp_all add: ccci_header_def le32_at_skip)

text \<open>The channel comes back as it is, the sequence number cut to its 15 bits.\<close>

lemma ccci_status_fields:
  "FIELD_GET CCCI_H_CHN_FLD (ccci_status ch seq) = ucast ch"
  "t7xx_port_next_rx_seq_num (ccci_status ch seq) = (seq + 1) AND GENMASK 14 0"
proof -
  show "FIELD_GET CCCI_H_CHN_FLD (ccci_status ch seq) = ucast ch"
    by (rule bit_word_eqI) (auto simp: ccci_status_def bits_simps bit_simps dest: bit_imp_le_length)
  have field: "FIELD_GET CCCI_H_SEQ_FLD (ccci_status ch seq) = take_bit 15 (ucast seq)"
    by (rule bit_word_eqI) (auto simp: ccci_status_def bits_simps bit_simps dest: bit_imp_le_length)
  have low: "x AND GENMASK 14 0 = take_bit 15 x" for x :: u16
    by (rule bit_word_eqI) (auto simp: bits_simps bit_simps)
  have cut: "ucast (take_bit 15 (ucast seq :: u32)) = take_bit 15 seq"
    by (rule bit_word_eqI) (auto simp: bit_simps)
  show "t7xx_port_next_rx_seq_num (ccci_status ch seq) = (seq + 1) AND GENMASK 14 0"
    unfolding t7xx_port_next_rx_seq_num_def field Let_def low cut
    by (simp only: word_unat_eq_iff unsigned_take_bit_eq unat_word_ariths)
       (simp add: take_bit_eq_mod mod_simps mod_mod_cancel)
qed

section \<open>Sending through a port\<close>

lemma preserves_send:
  assumes "\<And>s e. harmless e \<Longrightarrow> f (emit e s) = f s" "\<And>s p. f (s\<lparr>pci := p\<rparr>) = f s"
    "\<And>s m. f (s\<lparr>md_ctrl := m\<rparr>) = f s" "\<And>s. f (s\<lparr>cldma_fault := True\<rparr>) = f s"
  shows "preserves f (t7xx_cldma_send_skb (return ()) fuel c i skb)"
proof -
  note acc = preserves_cl_access [where f = f, OF assms(3,4)]
  note hw = preserves_cldma_hw [where f = f, OF assms(1)] preserves_pci_dev [where f = f, OF assms(2,1)]
  have handle: "preserves f (t7xx_cldma_gpd_handle_tx_request c i p skb)" for p
    unfolding t7xx_cldma_gpd_handle_tx_request_def Let_def
    by (intro preserves_intros acc; simp add: assms)
  have start: "preserves f (t7xx_cldma_hw_start_send c i p)" for p
    unfolding t7xx_cldma_hw_start_send_def by (intro preserves_intros acc hw)
  have loop: "preserves f (send_loop (return ()) c i skb fuel ret)" for ret
  proof (induction fuel arbitrary: ret)
    case 0
    then show ?case by (simp add: preserves_return)
  next
    case (Suc fuel)
    show ?case
      unfolding send_loop.simps(2)
      by (intro preserves_intros acc hw handle start Suc.IH; simp add: assms)
  qed
  show ?thesis
    unfolding t7xx_cldma_send_skb_def by (intro preserves_intros acc hw loop; simp add: assms)
qed

text \<open>When there is room, the call does not wait, and it does not matter what others do.\<close>

lemma send_loop_others:
  assumes "tx_holds s c i ps" "0 < budget (txq_at s c i)"
  shows "run (send_loop others c i skb (Suc fuel) ret) s = run (send_loop (return ()) c i skb (Suc fuel) ret) s"
proof -
  obtain x where x: "tx_next (txq_at s c i) = Some x"
    using assms(1) unfolding tx_holds_def by (elim ring_holdsE)
  note r = ring_holds_room [OF assms(1) [unfolded tx_holds_def] assms(2) x]
  show ?thesis
    using r x assms(2) by (simp add: send_loop.simps(2) run_simps has_skb_def split_beta)
qed

lemma send_skb_others:
  fixes s :: "'z cldma_layer_scheme"
  assumes h: "tx_holds s c i ps" "0 < budget (txq_at s c i)"
  shows "run (t7xx_cldma_send_skb others (Suc fuel) c i skb) s =
    run (t7xx_cldma_send_skb (return ()) (Suc fuel) c i skb) s"
proof -
  let ?u = "after t7xx_pci_disable_sleep (emit (Ret ''pm_runtime_resume_and_get'' []
    (env s (trace s) (Kernel ''pm_runtime_resume_and_get'' []))) s)"
  have u: "cl_view ?u = cl_view s"
    by (simp add: cl_view_pci(1))
  then have "tx_holds ?u c i ps" "0 < budget (txq_at ?u c i)"
    using h by (simp_all add: tx_holds_def cl_view_iff)
  then have "run (send_loop others c i skb (Suc fuel) ret) ?u =
      run (send_loop (return ()) c i skb (Suc fuel) ret) ?u" for ret
    by (rule send_loop_others)
  then show ?thesis
    by (simp add: t7xx_cldma_send_skb_def kerr_def run_simps Let_def split_beta)
qed

text \<open>The queue a port sends through.\<close>

definition port_at :: "'z port_layer_scheme \<Rightarrow> nat \<Rightarrow> t7xx_port" where
  "port_at s p = ports (port_prox s) p"

definition md_state_of :: "'z fsm_layer_scheme \<Rightarrow> md_state" where
  "md_state_of s = (if fsm_ctl_set s then fsm_md_state (fsm s) else MD_STATE_INVALID)"

definition port_engine :: "'z port_layer_scheme \<Rightarrow> nat \<Rightarrow> cldma_id" where
  "port_engine s p = path_id (port_conf (port_at s p))"

definition port_queue :: "'z port_layer_scheme \<Rightarrow> nat \<Rightarrow> nat" where
  "port_queue s p = (if md_state_of s = MD_STATE_EXCEPTION then txq_exp_index (port_conf (port_at s p))
     else txq_index (port_conf (port_at s p)))"

definition port_can_send :: "'z port_layer_scheme \<Rightarrow> nat \<Rightarrow> bool" where
  "port_can_send s p \<longleftrightarrow> 0 < budget (txq_at s (port_engine s p) (port_queue s p)) \<and>
     port_queue s p < 8 \<and> txq_active (md_ctrl s (port_engine s p)) AND BIT (port_queue s p) \<noteq> 0 \<and>
     (\<forall>tr. \<not> pm_get_failed (kret (env s tr (Kernel ''pm_runtime_resume_and_get'' []))) \<and>
       (\<forall>skb. \<not> dma_mapping_error (map_addr (env s) tr skb)))"

lemma run_send_raw:
  "run (t7xx_port_send_raw_skb others fuel p skb) s =
     run (t7xx_cldma_send_skb others fuel (port_engine s p) (port_queue s p) skb) s"
  by (simp add: t7xx_port_send_raw_skb_def t7xx_port_get_queue_no_def run_simps port_engine_def
      port_queue_def port_at_def md_state_of_def)

lemma send_raw_queues:
  fixes s :: "'z port_layer_scheme"
  assumes h: "tx_holds s (port_engine s p) (port_queue s p) ps" and ok: "port_can_send s p"
  shows "\<exists>t r a. run (t7xx_port_send_raw_skb others (Suc fuel) p skb) s = (Some r, t) \<and>
    tx_holds t (port_engine s p) (port_queue s p) (ps @ [(skb, a, of_nat (length (cskb_bytes skb)))]) \<and>
    cldma_fault t = cldma_fault s \<and> released t = released s \<and> env t = env s \<and> port_prox t = port_prox s \<and>
    fsm t = fsm s \<and> fsm_ctl_set t = fsm_ctl_set s \<and> (sleeps (env s) \<longrightarrow> r = Inl ETIMEDOUT)"
proof -
  let ?c = "port_engine s p" and ?q = "port_queue s p"
  have room: "0 < budget (txq_at s ?c ?q)" "?q < 8" "txq_active (md_ctrl s ?c) AND BIT ?q \<noteq> 0"
    "\<not> pm_get_failed (kret (env s (trace s) (Kernel ''pm_runtime_resume_and_get'' [])))"
    "\<And>tr. \<not> dma_mapping_error (map_addr (env s) tr skb)"
    using ok by (simp_all add: port_can_send_def)
  obtain t r a where t: "run (t7xx_cldma_send_skb others (Suc fuel) ?c ?q skb) s = (Some r, t)"
    "tx_holds t ?c ?q (ps @ [(skb, a, of_nat (length (cskb_bytes skb)))])"
    "cldma_fault t = cldma_fault s" "released t = released s" "env t = env s"
    using send_queues [OF h room, of others fuel] by blast
  define f where "f = (\<lambda>u :: 'z port_layer_scheme. (port_prox u, fsm u, fsm_ctl_set u))"
  have "preserves f (t7xx_cldma_send_skb (return ()) (Suc fuel) ?c ?q skb)"
    by (rule preserves_send) (simp_all add: f_def emit_def)
  then have "f t = f s"
    using t(1) send_skb_others [OF h room(1), of others fuel skb] by (metis preservesD snd_conv)
  moreover have "r = Inl ETIMEDOUT" if "sleeps (env s)"
  proof -
    obtain u where u: "cl_view u = cl_view s"
      and r: "result (t7xx_cldma_send_skb others (Suc fuel) ?c ?q skb) s =
        result (send_loop others ?c ?q skb (Suc fuel) (kret (env s (trace s) (Kernel ''pm_runtime_resume_and_get'' [])))) u"
      using send_skb_run [OF room(2-4), of others "Suc fuel" skb] by blast
    have "tx_holds u ?c ?q ps" "0 < budget (txq_at u ?c ?q)" "sleeps (env u)"
      using h room u that by (simp_all add: tx_holds_def cl_view_iff)
    then show ?thesis using t(1) r send_loop_room(8) by (metis fst_conv option.inject)
  qed
  ultimately show ?thesis
    using t by (intro exI [of _ t] exI [of _ r] exI [of _ a]) (simp add: run_send_raw f_def)
qed

text \<open>C22: a packet that a port sends, when its queue has room, is queued behind those in flight with a
  header in front that says what the sender put there: the two words the caller gave, the
  length of the whole packet, the channel of the port, and a sequence number which the
  receiver's rule for the next number takes to the port's next one. The number advances exactly
  when the call succeeds, and no bad pointer is followed.\<close>

theorem port_send_queues:
  fixes s :: "'z port_layer_scheme" and skb :: cskb
  assumes h: "tx_holds s (port_engine s p) (port_queue s p) ps" and ok: "port_can_send s p"
  defines "n \<equiv> length (cskb_bytes skb) + 16"
  shows "\<exists>t r a hdr. run (t7xx_port_send_ccci_skb others (Suc fuel) p skb pkt_header ex_msg) s = (Some r, t) \<and>
    tx_holds t (port_engine s p) (port_queue s p)
      (ps @ [(skb\<lparr>cskb_bytes := hdr @ cskb_bytes skb\<rparr>, a, of_nat n)]) \<and>
    length hdr = 16 \<and> le32_at hdr 0 = pkt_header \<and> le32_at hdr 4 = of_nat n \<and> le32_at hdr 12 = ex_msg \<and>
    FIELD_GET CCCI_H_CHN_FLD (le32_at hdr 8) = ucast (tx_ch (port_conf (port_at s p))) \<and>
    t7xx_port_next_rx_seq_num (le32_at hdr 8) = (seq_tx (port_at s p) + 1) AND GENMASK 14 0 \<and>
    seq_tx (port_at t p) = (if isl r then seq_tx (port_at s p) else seq_tx (port_at s p) + 1) \<and>
    cldma_fault t = cldma_fault s"
proof -
  define hdr where "hdr = ccci_header pkt_header (of_nat n)
    (ccci_status (tx_ch (port_conf (port_at s p))) (seq_tx (port_at s p))) ex_msg"
  obtain t r a where t: "run (t7xx_port_send_raw_skb others (Suc fuel) p (skb_push hdr skb)) s = (Some r, t)"
    "tx_holds t (port_engine s p) (port_queue s p)
      (ps @ [(skb_push hdr skb, a, of_nat (length (cskb_bytes (skb_push hdr skb))))])"
    "cldma_fault t = cldma_fault s" "port_prox t = port_prox s"
    using send_raw_queues [OF h ok, of others fuel "skb_push hdr skb"] by blast
  define u where "u = (if isl r then t else after (upd_port p (\<lambda>x. x\<lparr>seq_tx := seq_tx x + 1\<rparr>)) t)"
  have "run (t7xx_port_send_ccci_skb others (Suc fuel) p skb pkt_header ex_msg) s = (Some r, u)"
    using t(1) by (cases r) (simp_all add: t7xx_port_send_ccci_skb_def run_simps Let_def hdr_def n_def
        port_at_def u_def add.commute)
  then show ?thesis
    using t(2-) by (intro exI [of _ u] exI [of _ r] exI [of _ a] exI [of _ hdr])
      (auto simp: u_def hdr_def ccci_header_fields ccci_status_fields skb_push_def n_def tx_holds_def
        run_simps port_at_def add.commute)
qed

section \<open>A packet with two owners\<close>

lemma send_ctl_queues:
  fixes s :: "'z port_layer_scheme" and skb :: cskb
  assumes h: "tx_holds s (port_engine s p) (port_queue s p) ps" and ok: "port_can_send s p"
  shows "\<exists>t r x. run (t7xx_port_send_ctl_skb others (Suc fuel) p skb msg ex_msg) s = (Some r, t) \<and>
    tx_holds t (port_engine s p) (port_queue s p) (ps @ [x]) \<and> cskb_ptr (fst x) = cskb_ptr skb \<and>
    released t = released s \<and> env t = env s \<and> (sleeps (env s) \<longrightarrow> r = Inl ETIMEDOUT)"
proof -
  define h1 where "h1 = le32_bytes msg @ le32_bytes ex_msg @ le32_bytes (of_nat (length (cskb_bytes skb)))"
  define hdr where "hdr = ccci_header (if (of_nat (length (cskb_bytes skb)) :: u32) = 0 then CCCI_HEADER_NO_DATA else 0)
    (of_nat (length (h1 @ cskb_bytes skb) + 16))
    (ccci_status (tx_ch (port_conf (port_at s p))) (seq_tx (port_at s p))) ex_msg"
  let ?skb = "skb_push hdr (skb_push h1 skb)"
  obtain t r a where t: "run (t7xx_port_send_raw_skb others (Suc fuel) p ?skb) s = (Some r, t)"
    "tx_holds t (port_engine s p) (port_queue s p) (ps @ [(?skb, a, of_nat (length (cskb_bytes ?skb)))])"
    "released t = released s" "env t = env s" "sleeps (env s) \<longrightarrow> r = Inl ETIMEDOUT"
    using send_raw_queues [OF h ok, of others fuel ?skb] by blast
  define u where "u = (if isl r then t else after (upd_port p (\<lambda>x. x\<lparr>seq_tx := seq_tx x + 1\<rparr>)) t)"
  have "run (t7xx_port_send_ctl_skb others (Suc fuel) p skb msg ex_msg) s = (Some r, u)"
    using t(1) by (cases r) (simp_all add: t7xx_port_send_ctl_skb_def t7xx_port_send_ccci_skb_def run_simps
        Let_def hdr_def h1_def port_at_def u_def skb_push_def)
  then show ?thesis
    using t(2-) by (intro exI [of _ u] exI [of _ r] exI)
      (auto simp: u_def skb_push_def tx_holds_def run_simps released_def)
qed

text \<open>C26: when the device does not wake up in time, an answer of the control port is freed twice.
  \<open>t7xx_cldma_send_skb\<close> reports \<open>-ETIMEDOUT\<close> for the packet it queued,
  \<open>port_ctl_send_msg_to_md\<close> frees the packet because the call failed, and when the device is done
  with it the queue frees it again.\<close>

theorem ctl_send_timeout_frees_twice:
  fixes s :: "'z port_layer_scheme"
  assumes h: "tx_holds s (port_engine s p) (port_queue s p) []" and ok: "port_can_send s p"
    and asleep: "sleeps (env s)"
    and mem: "env s (trace s) (Kernel ''__dev_alloc_skb'' [28]) = a" "a \<noteq> 0"
  shows "\<exists>t. run (port_ctl_send_msg_to_md others (Suc fuel) p msg ex_msg) s = (Some (Inl ETIMEDOUT), t) \<and>
    calls ''dev_kfree_skb'' (trace t) = calls ''dev_kfree_skb'' (trace s) @ [[a]] \<and>
    (all_done (env s) \<longrightarrow>
      calls ''dev_kfree_skb'' (trace (after (t7xx_cldma_gpd_tx_collect (port_engine s p) (port_queue s p)) t)) =
        calls ''dev_kfree_skb'' (trace t) @ [[a]])"
proof -
  let ?c = "port_engine s p" and ?q = "port_queue s p"
  let ?s = "emit (Ret ''__dev_alloc_skb'' [28] a) s"
  have at: "port_engine ?s p = ?c" "port_queue ?s p = ?q"
    by (simp_all add: port_engine_def port_queue_def port_at_def md_state_of_def emit_def)
  have hs: "tx_holds ?s (port_engine ?s p) (port_queue ?s p) []" "port_can_send ?s p" "sleeps (env ?s)"
    unfolding port_can_send_def at using h ok asleep by (simp_all add: tx_holds_def port_can_send_def)
  obtain u x where u: "run (t7xx_port_send_ctl_skb others (Suc fuel) p \<lparr>cskb_ptr = a, cskb_size = 28, cskb_bytes = []\<rparr>
      msg ex_msg) ?s = (Some (Inl ETIMEDOUT), u)"
    "tx_holds u ?c ?q [x]" "cskb_ptr (fst x) = a" "released u = released ?s" "env u = env s"
    using send_ctl_queues [OF hs(1,2), of others fuel "\<lparr>cskb_ptr = a, cskb_size = 28, cskb_bytes = []\<rparr>" msg ex_msg]
      hs(3) at by auto
  define t where "t = emit (Call ''dev_kfree_skb'' [a]) u"
  have t: "run (port_ctl_send_msg_to_md others (Suc fuel) p msg ex_msg) s = (Some (Inl ETIMEDOUT), t)"
    using u(1) mem by (simp add: port_ctl_send_msg_to_md_def t7xx_ctrl_alloc_skb_def t7xx_port_alloc_skb_def
        run_simps Let_def t_def)
  have "calls ''dev_kfree_skb'' (trace t) = calls ''dev_kfree_skb'' (trace s) @ [[a]]"
    using u(4) by (simp add: t_def released_def emit_def)
  moreover have "tx_holds t ?c ?q [x]" "env t = env s"
    using u by (simp_all add: t_def tx_holds_def)
  then have "calls ''dev_kfree_skb'' (trace (after (t7xx_cldma_gpd_tx_collect ?c ?q) t)) =
      calls ''dev_kfree_skb'' (trace t) @ [[a]]" if "all_done (env s)"
    using collect_fifo [of t ?c ?q "[x]"] that u(3) by (auto simp: ptr_of_def)
  ultimately show ?thesis using t by blast
qed

section \<open>Finding the port of a packet\<close>

abbreviation (input) conf_of :: "'z port_layer_scheme \<Rightarrow> nat \<Rightarrow> t7xx_port_conf" where
  "conf_of s i \<equiv> port_conf (ports (port_prox s) i)"

definition ch_list :: "port_ch \<Rightarrow> u8" where
  "ch_list ch = ucast (FIELD_GET PORT_CH_ID_MASK ch)"

lemma setup_ch_mapping_loop:
  "\<exists>q. after (for_each is map_port) s = s\<lparr>port_prox := (port_prox s)\<lparr>rx_ch_ports :=
     (\<lambda>l. rx_ch_ports (port_prox s) l @ filter (\<lambda>i. ch_list (rx_ch (conf_of s i)) = l) is),
     queue_ports := q\<rparr>\<rparr>"
proof (induction "is" arbitrary: s)
  case Nil
  show ?case by (rule exI [of _ "queue_ports (port_prox s)"]) simp
next
  case (Cons i "is")
  define t where "t = after (map_port i) s"
  have t: "\<exists>q. t = s\<lparr>port_prox := (port_prox s)\<lparr>rx_ch_ports := (rx_ch_ports (port_prox s))
      (ch_list (rx_ch (conf_of s i)) := rx_ch_ports (port_prox s) (ch_list (rx_ch (conf_of s i))) @ [i]),
      queue_ports := q\<rparr>\<rparr>"
    by (rule exI) (simp add: t_def map_port_def run_simps Let_def ch_list_def)
  obtain r where r: "after (for_each is map_port) t = t\<lparr>port_prox := (port_prox t)\<lparr>rx_ch_ports :=
      (\<lambda>l. rx_ch_ports (port_prox t) l @ filter (\<lambda>i. ch_list (rx_ch (conf_of t i)) = l) is),
      queue_ports := r\<rparr>\<rparr>"
    using Cons.IH by blast
  have lists: "(\<lambda>l. rx_ch_ports (port_prox t) l @ filter (\<lambda>i. ch_list (rx_ch (conf_of t i)) = l) is) =
      (\<lambda>l. rx_ch_ports (port_prox s) l @ filter (\<lambda>i. ch_list (rx_ch (conf_of s i)) = l) (i # is))"
    using t by (intro ext) auto
  have "after (for_each (i # is) map_port) s = after (for_each is map_port) t"
    by (simp add: run_bind split_beta t_def)
  then show ?case
    using r t unfolding lists by (intro exI [of _ r]) auto
qed

lemma find_filter: "(\<And>x. P x \<Longrightarrow> Q x) \<Longrightarrow> find P (filter Q xs) = find P xs"
  by (induction xs) auto

text \<open>C23: the lists of ports by channel, eight bits of it, do not change which port gets a packet. The
  port found through them is the first in the array with the engine and the channel of the
  packet, none if there is none.\<close>

theorem find_port_is_search:
  fixes s :: "'z port_layer_scheme"
  shows "result (do { t7xx_proxy_setup_ch_mapping; t7xx_port_proxy_find_port c ch }) s =
    find (\<lambda>i. path_id (port_conf (port_at s i)) = c \<and> rx_ch (port_conf (port_at s i)) = ch)
      [0..<port_count (port_prox s)]"
proof -
  define s1 where "s1 = s\<lparr>port_prox := (port_prox s)\<lparr>rx_ch_ports := \<lambda>_. [], queue_ports := \<lambda>_ _. []\<rparr>\<rparr>"
  obtain q where q: "after t7xx_proxy_setup_ch_mapping s = s1\<lparr>port_prox := (port_prox s1)\<lparr>rx_ch_ports :=
      (\<lambda>l. rx_ch_ports (port_prox s1) l @
        filter (\<lambda>i. ch_list (rx_ch (conf_of s1 i)) = l) [0..<port_count (port_prox s)]), queue_ports := q\<rparr>\<rparr>"
    using setup_ch_mapping_loop [of "[0..<port_count (port_prox s)]" s1]
    by (auto simp: t7xx_proxy_setup_ch_mapping_def for_each_proxy_port_def run_simps split_beta s1_def)
  have same: "find (\<lambda>i. c = path_id (conf_of s i) \<and> ch = rx_ch (conf_of s i))
      (filter (\<lambda>i. ch_list (rx_ch (conf_of s i)) = ch_list ch) [0..<port_count (port_prox s)]) =
    find (\<lambda>i. c = path_id (conf_of s i) \<and> ch = rx_ch (conf_of s i)) [0..<port_count (port_prox s)]"
    by (rule find_filter) simp
  show ?thesis
    using same by (simp add: t7xx_port_proxy_find_port_def run_simps split_beta Let_def q)
       (simp add: s1_def ch_list_def port_at_def eq_commute [of c] eq_commute [of ch])
qed

section \<open>Enumeration of ports\<close>

lemma for_each_append: "run (for_each (xs @ ys) f) s = run (for_each ys f) (after (for_each xs f) s)"
  by (induction xs arbitrary: s) (simp_all add: run_bind split_beta)

definition port_info_of :: "u32 \<times> bool \<Rightarrow> u32" where
  "port_info_of e = FIELD_PREP PORT_INFO_CH_ID (fst e) OR (if snd e then PORT_INFO_ENFLG else 0)"

text \<open>The message that a modem sends to enable or disable the channels \<open>es\<close>.\<close>

definition port_enum_msg :: "(u32 \<times> bool) list \<Rightarrow> u8 list" where
  "port_enum_msg es = le32_bytes PORT_ENUM_HEAD_PATTERN @ le32_bytes (of_nat (length es)) @
     le32_bytes PORT_ENUM_TAIL_PATTERN @ concat (map (le32_bytes \<circ> port_info_of) es)"

lemma port_info_fields:
  "fst e < 2 ^ 15 \<Longrightarrow> FIELD_GET PORT_INFO_CH_ID (port_info_of e) = fst e"
  "port_info_of e AND PORT_INFO_ENFLG \<noteq> 0 \<longleftrightarrow> snd e"
proof -
  assume "fst e < 2 ^ 15"
  then have small: "take_bit 15 (fst e) = fst e"
    by (intro take_bit_small) (simp add: word_less_nat_alt)
  have "FIELD_GET PORT_INFO_CH_ID (port_info_of e) = take_bit 15 (fst e)"
    by (rule bit_word_eqI) (auto simp: port_info_of_def bits_simps bit_simps)
  then show "FIELD_GET PORT_INFO_CH_ID (port_info_of e) = fst e" by (simp add: small)
next
  have "port_info_of e AND PORT_INFO_ENFLG = (if snd e then PORT_INFO_ENFLG else 0)"
    by (rule bit_word_eqI) (auto simp: port_info_of_def bits_simps bit_simps)
  moreover have "PORT_INFO_ENFLG \<noteq> (0 :: u32)" by (simp add: BIT_def)
  ultimately show "port_info_of e AND PORT_INFO_ENFLG \<noteq> 0 \<longleftrightarrow> snd e" by simp
qed

lemma le32_at_concat: "i < length vs \<Longrightarrow> le32_at (concat (map (le32_bytes \<circ> f) vs)) (4 * i) = f (vs ! i)"
proof (induction vs arbitrary: i)
  case (Cons v vs)
  then show ?case by (cases i) (simp_all add: le32_at_skip)
qed simp

lemma length_concat_le32 [simp]: "length (concat (map (le32_bytes \<circ> f) vs)) = 4 * length vs"
  by (induction vs) simp_all

lemma port_enum_msg_fields:
  "length (port_enum_msg es) = 12 + 4 * length es"
  "le32_at (port_enum_msg es) 0 = PORT_ENUM_HEAD_PATTERN"
  "le32_at (port_enum_msg es) 4 = of_nat (length es)"
  "le32_at (port_enum_msg es) 8 = PORT_ENUM_TAIL_PATTERN"
  "i < length es \<Longrightarrow> le32_at (port_enum_msg es) (12 + 4 * i) = port_info_of (es ! i)"
  by (simp_all add: port_enum_msg_def le32_at_skip le32_at_concat)

text \<open>The port that a channel number names, and whether port \<open>i\<close> is enabled after a list of entries.\<close>

definition named :: "'z port_layer_scheme \<Rightarrow> u32 \<Rightarrow> nat option" where
  "named s ch = result (t7xx_proxy_get_port_by_ch ch) s"

definition enabled_after :: "'z port_layer_scheme \<Rightarrow> (u32 \<times> bool) list \<Rightarrow> nat \<Rightarrow> bool \<Rightarrow> bool" where
  "enabled_after s es i b = foldl (\<lambda>b e. if named s (fst e) = Some i then snd e else b) b es"

definition with_enabled :: "'z port_layer_scheme \<Rightarrow> (u32 \<times> bool) list \<Rightarrow> 'z port_layer_scheme" where
  "with_enabled s es = s\<lparr>port_prox := (port_prox s)\<lparr>ports := (\<lambda>i. let p = ports (port_prox s) i in
     if ops (port_conf p) = WWAN_SUB_PORT_OPS then p\<lparr>chan_enable := enabled_after s es i (chan_enable p)\<rparr>
     else p)\<rparr>\<rparr>"

lemma run_get_port_by_ch: "run (t7xx_proxy_get_port_by_ch ch) s = (named s ch, s)"
  by (simp add: named_def t7xx_proxy_get_port_by_ch_def run_simps)

lemma with_enabled_simps:
  "with_enabled s [] = s" "named (with_enabled s es) = named s"
  "with_enabled (with_enabled s es) es' = with_enabled s (es @ es')"
proof -
  show "with_enabled s [] = s"
    by (simp add: with_enabled_def enabled_after_def Let_def cong: if_cong)
  show names: "named (with_enabled s es) = named s" for es
  proof
    fix ch
    have "conf_of (with_enabled s es) i = conf_of s i" for i
      by (simp add: with_enabled_def Let_def)
    then show "named (with_enabled s es) ch = named s ch"
      by (simp add: named_def t7xx_proxy_get_port_by_ch_def run_simps) (simp add: with_enabled_def)
  qed
  have "enabled_after (with_enabled s es) es' i b = enabled_after s es' i b" for i b
    by (simp add: enabled_after_def names)
  then show "with_enabled (with_enabled s es) es' = with_enabled s (es @ es')"
    by (simp add: with_enabled_def enabled_after_def Let_def if_distrib [of port_conf] cong: if_cong)
qed

lemma with_enabled_one:
  "with_enabled s [(ch, en)] = (case named s ch of
     Some p \<Rightarrow> if ops (conf_of s p) = WWAN_SUB_PORT_OPS
       then after (upd_port p (\<lambda>x. x\<lparr>chan_enable := en\<rparr>)) s else s
   | None \<Rightarrow> s)"
proof -
  let ?f = "\<lambda>i. let p = ports (port_prox s) i in if ops (port_conf p) = WWAN_SUB_PORT_OPS
    then p\<lparr>chan_enable := enabled_after s [(ch, en)] i (chan_enable p)\<rparr> else p"
  have "?f = (case named s ch of
     Some p \<Rightarrow> if ops (conf_of s p) = WWAN_SUB_PORT_OPS
       then (ports (port_prox s))(p := (ports (port_prox s) p)\<lparr>chan_enable := en\<rparr>) else ports (port_prox s)
   | None \<Rightarrow> ports (port_prox s))"
    by (rule ext) (auto simp: enabled_after_def Let_def split: option.split)
  then show ?thesis
    unfolding with_enabled_def by (simp add: run_simps split: option.split)
qed

lemma run_chl_enable_disable:
  "after (t7xx_port_proxy_chl_enable_disable ch en) s = with_enabled s [(ch, en)]"
  unfolding with_enabled_one
  by (simp add: t7xx_port_proxy_chl_enable_disable_def run_simps run_get_port_by_ch
      t7xx_port_wwan_enable_chl_def t7xx_port_wwan_disable_chl_def split: option.split)

text \<open>The message may stand anywhere in a buffer.\<close>

lemma le32_at_embed:
  "k + 4 \<le> length m \<Longrightarrow> le32_at (pre @ m @ post) (length pre + k) = le32_at m k"
  by (simp add: le32_at_def nth_append)

lemma run_port_enum_at:
  fixes s :: "'z port_layer_scheme"
  assumes "length es < 2 ^ 16" and "list_all (\<lambda>e. fst e < 2 ^ 15) es"
  defines "bs pre post \<equiv> pre @ port_enum_msg es @ post"
  shows "run (t7xx_port_enum_msg_handler a (bs pre post) (int (length pre))) s = (Inr (), with_enabled s es)"
proof -
  let ?off = "int (length pre)"
  have at: "run (buf_le32 a (bs pre post) (?off + k)) t = (le32_at (port_enum_msg es) (nat k), t)"
    if "0 \<le> k" "k + 4 \<le> int (length (port_enum_msg es))" for k and t :: "'z port_layer_scheme"
  proof -
    have "nat (?off + k) = length pre + nat k" using that(1) by simp
    then show ?thesis
      using that le32_at_embed [of "nat k" "port_enum_msg es" pre post]
      by (simp add: run_buf_le32 bs_def)
  qed
  let ?body = "\<lambda>i. (do {
         port_info \<leftarrow> buf_le32 a (bs pre post) (?off + 12 + 4 * int i);
         t7xx_port_proxy_chl_enable_disable (FIELD_GET PORT_INFO_CH_ID port_info)
           (port_info AND PORT_INFO_ENFLG \<noteq> 0);
         return ()
       }) :: ('z port_layer_scheme, unit) state"
  have round: "after (?body i) t = with_enabled t [es ! i]" if i: "i < length es"
    for i and t :: "'z port_layer_scheme"
  proof -
    have n: "nat (12 + 4 * int i) = 12 + 4 * i" by simp
    have "fst (es ! i) < 2 ^ 15" using assms(2) i by (simp add: list_all_length)
    then show ?thesis
      using i at [of "12 + 4 * int i"]
      by (simp add: run_simps port_enum_msg_fields n port_info_fields split_beta run_chl_enable_disable add.assoc)
  qed
  have loop: "k \<le> length es \<Longrightarrow> after (for_each [0..<k] ?body) s = with_enabled s (take k es)" for k
  proof (induction k)
    case 0
    then show ?case by (simp add: with_enabled_simps)
  next
    case (Suc k)
    then have "after (for_each [0..<Suc k] ?body) s = with_enabled (with_enabled s (take k es)) [es ! k]"
      using round by (simp add: for_each_append run_bind split_beta)
    then show ?case
      using Suc.prems by (simp add: with_enabled_simps take_Suc_conv_app_nth)
  qed
  have n: "unat (FIELD_GET PORT_MSG_PRT_CNT (of_nat (length es) :: u32)) = length es"
    and ver: "FIELD_GET PORT_MSG_VERSION (of_nat (length es) :: u32) = 0"
  proof -
    have u: "unat (of_nat (length es) :: u32) = length es"
      using assms(1) by (simp add: unsigned_of_nat take_bit_nat_eq_self)
    then have small: "take_bit 16 (of_nat (length es) :: u32) = of_nat (length es)"
      using assms(1) by (intro take_bit_small) simp
    have "FIELD_GET PORT_MSG_PRT_CNT (of_nat (length es) :: u32) = take_bit 16 (of_nat (length es))"
      by (rule bit_word_eqI) (auto simp: bits_simps bit_simps)
    then show "unat (FIELD_GET PORT_MSG_PRT_CNT (of_nat (length es) :: u32)) = length es"
      by (simp only: small u)
    have "FIELD_GET PORT_MSG_VERSION (take_bit 16 (of_nat (length es)) :: u32) = 0"
      by (rule bit_word_eqI) (auto simp: bits_simps bit_simps)
    then show "FIELD_GET PORT_MSG_VERSION (of_nat (length es) :: u32) = 0" by (simp only: small)
  qed
  show ?thesis
    using loop [of "length es"] at [of 0] at [of 4] at [of 8]
    by (simp add: t7xx_port_enum_msg_handler_def run_simps port_enum_msg_fields Let_def ver n prod_eq_iff split_beta)
qed

text \<open>C24: an enumeration message does what it says. A message that lists channels to enable or
  disable is accepted; afterwards each WWAN port is enabled or disabled as the last entry that
  names it says, and as before if none does, no other port changes, and nothing beyond the
  message is read.\<close>

theorem port_enum_applies:
  fixes s :: "'z port_layer_scheme"
  assumes "length es < 2 ^ 16" and "list_all (\<lambda>e. fst e < 2 ^ 15) es"
  shows "run (t7xx_port_enum_msg_handler a (port_enum_msg es) 0) s = (Inr (), with_enabled s es)"
  using run_port_enum_at [OF assms, of a "[]" "[]"] by simp

section \<open>Ports to try it on\<close>

text \<open>The normal configuration on the queues of \<open>cldma_example\<close>, and a modem that is ready.\<close>

definition port_example :: "(string \<Rightarrow> u64 list \<Rightarrow> u64) \<Rightarrow> port_layer" where
  "port_example answers = cldma_layer.extend
     ((cldma_example answers)\<lparr>fsm_ctl_set := True, fsm := (fsm (cldma_example answers))\<lparr>fsm_md_state := MD_STATE_READY\<rparr>\<rparr>)
     (port_layer.fields
       \<lparr>port_count = 7, ports = (\<lambda>i. zero_port\<lparr>port_conf :=
          if i < 7 then t7xx_port_conf_table False ! i else port_conf zero_port\<rparr>),
        rx_ch_ports = (\<lambda>_. []), queue_ports = (\<lambda>_ _. []), cfg_id = PORT_CFG_ID_NORMAL\<rparr>
       (\<lambda>_. None) False 0)"

lemma port_example_fields [simp]:
  "env (port_example f) = reg_file (\<lambda>_. 0) f" "md_ctrl (port_example f) = md_ctrl (cldma_example f)"
  "md_state_of (port_example f) = MD_STATE_READY" "port_count (port_prox (port_example f)) = 7"
  "i < 7 \<Longrightarrow> ports (port_prox (port_example f)) i = zero_port\<lparr>port_conf := t7xx_port_conf_table False ! i\<rparr>"
  by (simp_all add: port_example_def cldma_example_def cldma_layer.defs port_layer.defs fsm_layer.defs
      md_state_of_def)

text \<open>Port 2 is the control port of the modem, on queue 0.\<close>

lemma port_example_ctl:
  "port_engine (port_example f) 2 = CLDMA_ID_MD" "port_queue (port_example f) 2 = 0"
  "tx_holds (port_example f) CLDMA_ID_MD 0 []"
  using cldma_example_holds [of f CLDMA_ID_MD 0]
  by (simp_all add: port_engine_def port_queue_def port_at_def t7xx_port_conf_table_def tx_holds_def)

lemma port_example_can_send:
  assumes "q \<noteq> ''pm_runtime_resume_and_get''" "q \<noteq> ''dma_map_single''"
  shows "port_can_send (port_example (yes_but q v)) 2"
  using assms
  by (simp add: port_can_send_def port_example_ctl zero_queue_def BIT_def reg_file_def yes_but_def
      map_addr_def dma_mapping_error_def pm_get_failed_def kret_def)

theorem port_send_queues_witness:
  "\<exists>t r a hdr. run (t7xx_port_send_ccci_skb (return ()) 1 2 cskb_example 7 8) (port_example (yes_but ''x'' 0)) =
      (Some r, t) \<and> tx_holds t CLDMA_ID_MD 0 [(cskb_example\<lparr>cskb_bytes := hdr @ [1, 2, 3]\<rparr>, a, 19)] \<and>
    le32_at hdr 0 = 7 \<and> le32_at hdr 4 = 19 \<and> le32_at hdr 12 = 8 \<and>
    FIELD_GET CCCI_H_CHN_FLD (le32_at hdr 8) = 0x2001"
  using port_send_queues [of "port_example (yes_but ''x'' 0)" 2 "[]" "return ()" 0 cskb_example 7 8]
  by (auto simp: port_example_ctl port_example_can_send port_at_def t7xx_port_conf_table_def cskb_example_def)

theorem ctl_send_timeout_frees_twice_witness:
  "\<exists>t. run (port_ctl_send_msg_to_md (return ()) 1 2 CTL_ID_MD_EX 0)
      (port_example (yes_but ''wait_for_completion_timeout sleep_lock_acquire'' 0)) = (Some (Inl ETIMEDOUT), t) \<and>
    calls ''dev_kfree_skb'' (trace t) =
      calls ''dev_kfree_skb'' (trace (port_example (yes_but ''wait_for_completion_timeout sleep_lock_acquire'' 0))) @ [[1]]"
  using ctl_send_timeout_frees_twice
    [of "port_example (yes_but ''wait_for_completion_timeout sleep_lock_acquire'' 0)" 2 1 "return ()" 0]
  by (auto simp: port_example_ctl port_example_can_send sleeps_def reg_file_def yes_but_def)

theorem port_enum_applies_witness:
  "\<exists>t. run (t7xx_port_enum_msg_handler 0x9000 (port_enum_msg [(0x20d0, True), (0x200a, True), (0x20d0, False)]) 0)
      (port_example (yes_but ''x'' 0)) = (Inr (), t) \<and>
    chan_enable (port_at t 0) \<and> \<not> chan_enable (port_at t 1)"
proof -
  have "named (port_example (yes_but ''x'' 0)) 0x200a = Some 0" "named (port_example (yes_but ''x'' 0)) 0x20d0 = Some 1"
    by (simp_all add: named_def t7xx_proxy_get_port_by_ch_def run_simps upt_rec t7xx_port_conf_table_def Let_def)
  then show ?thesis
    using port_enum_applies [where es = "[(0x20d0, True), (0x200a, True), (0x20d0, False)]" and a = "0x9000"
        and s = "port_example (yes_but ''x'' 0)"]
    by (simp add: with_enabled_def enabled_after_def port_at_def Let_def t7xx_port_conf_table_def zero_port_def)
qed

end
