(* ===== verification/Port_Rx.thy ===== *)
theory Port_Rx
  imports Port_Props
begin

text \<open>
  The ports as receivers of the control path: the interpretation of \<open>packet_receiver\<close> by the
  receive function of the port proxy, and the receive rings with it. The receive function of
  the dedicated queue leaves the engines alone, but it frees packets that it refuses.
\<close>

section \<open>What the receive functions leave alone\<close>

lemma preserves_md_ctrl_ports:
  "preserves md_ctrl (ops_recv_skb p skb)" "preserves md_ctrl (t7xx_port_proxy_find_port c ch)"
  "preserves md_ctrl (skb_le32 skb k)" "preserves md_ctrl t7xx_fsm_get_md_state"
  "preserves md_ctrl (get_port p f)" "preserves md_ctrl (upd_port p g)"
proof -
  have acc: "preserves md_ctrl (get_port p f)" "preserves md_ctrl (upd_port p g)"
    "preserves md_ctrl (get_prox h)" "preserves md_ctrl t7xx_fsm_get_md_state" for p f g h
    unfolding get_port_def upd_port_def get_prox_def upd_prox_def t7xx_fsm_get_md_state_def
    by (intro preserves_intros; simp)+
  show "preserves md_ctrl (get_port p f)" "preserves md_ctrl (upd_port p g)"
    "preserves md_ctrl t7xx_fsm_get_md_state"
    by (rule acc)+
  show "preserves md_ctrl (skb_le32 skb k)"
    unfolding buf_le32_def fault_def by (intro preserves_intros; simp)
  show "preserves md_ctrl (t7xx_port_proxy_find_port c ch)"
    unfolding t7xx_port_proxy_find_port_def Let_def by (intro preserves_intros acc)
  have "preserves md_ctrl (case x of WWAN_SUB_PORT_OPS \<Rightarrow> t7xx_port_wwan_recv_skb p skb
     | CTL_PORT_OPS \<Rightarrow> t7xx_port_enqueue_skb p skb | TRACE_PORT_OPS \<Rightarrow> t7xx_trace_port_recv_skb p skb)" for x
    by (cases x; simp add: t7xx_port_wwan_recv_skb_def t7xx_port_enqueue_skb_def t7xx_trace_port_recv_skb_def)
       (intro preserves_intros acc; simp)+
  then show "preserves md_ctrl (ops_recv_skb p skb)"
    unfolding ops_recv_skb_def by (intro preserves_intros acc)
qed

lemma ops_recv_refused:
  "isl (result (ops_recv_skb p skb) s) \<Longrightarrow> after (ops_recv_skb p skb) s = s"
  by (simp add: ops_recv_skb_def t7xx_port_wwan_recv_skb_def t7xx_port_enqueue_skb_def
      t7xx_trace_port_recv_skb_def run_simps split: port_ops.splits if_splits)

lemma skb_le32_frame: "calls f (trace (after (skb_le32 skb k) s)) = calls f (trace s)"
  by (simp add: buf_le32_def run_simps fault_def Let_def)

section \<open>The port proxy as a receiver\<close>

lemma proxy_recv_engines:
  "md_ctrl (after (t7xx_port_proxy_recv_skb c i skb) s) = md_ctrl s"
  by (rule preservesD, unfold t7xx_port_proxy_recv_skb_def Let_def)
     (intro preserves_intros preserves_md_ctrl_ports; simp)

lemma proxy_recv_refused:
  assumes "isl (result (t7xx_port_proxy_recv_skb c i skb) s)"
  shows "calls f (trace (after (t7xx_port_proxy_recv_skb c i skb) s)) = calls f (trace s)"
proof -
  define s1 where "s1 = after (skb_le32 skb 8) s"
  define ch where "ch = (ucast (FIELD_GET CCCI_H_CHN_FLD (result (skb_le32 skb 8) s)) :: u16)"
  have find: "after (t7xx_port_proxy_find_port c ch) s1 = s1"
    by (simp add: t7xx_port_proxy_find_port_def run_simps Let_def)
  have trace: "calls f (trace s1) = calls f (trace s)"
    by (simp add: s1_def skb_le32_frame)
  define st where "st = (if fsm_ctl_set s1 then fsm_md_state (fsm s1) else MD_STATE_INVALID)"
  define port where "port = (if st = MD_STATE_INVALID then None else result (t7xx_port_proxy_find_port c ch) s1)"
  have run: "run (t7xx_port_proxy_recv_skb c i skb) s = run (case port of
       None \<Rightarrow> do { dev_kfree_skb (cskb_ptr skb); return (Inr ()) }
     | Some p \<Rightarrow> do {
         ret \<leftarrow> ops_recv_skb p (skb_pull 16 skb);
         if isl ret then return ret else do {
           upd_port p (\<lambda>x. x\<lparr>seq_rx := t7xx_port_next_rx_seq_num (result (skb_le32 skb 8) s)\<rparr>);
           return (Inr ())
         }
       }) s1"
    by (simp add: t7xx_port_proxy_recv_skb_def run_bind split_beta Let_def run_fsm_get s1_def [symmetric]
        ch_def [symmetric] st_def [symmetric] port_def find)
  show ?thesis
  proof (cases port)
    case None
    then show ?thesis using assms run by (simp add: run_simps)
  next
    case (Some p)
    then have "isl (result (ops_recv_skb p (skb_pull 16 skb)) s1)"
      using assms run by (simp add: run_simps split_beta split: if_splits)
    then show ?thesis
      using ops_recv_refused [of p "skb_pull 16 skb" s1] run Some trace by (simp add: run_simps split_beta)
  qed
qed

interpretation rp: packet_receiver port_recv_fn RECV_PROXY
  by unfold_locales (simp_all add: port_recv_fn_def proxy_recv_engines proxy_recv_refused)

lemma dedicated_recv_engines:
  "md_ctrl (after (t7xx_port_proxy_recv_skb_from_dedicated_queue c i skb) s) = md_ctrl s"
  by (rule preservesD, unfold t7xx_port_proxy_recv_skb_from_dedicated_queue_def)
     (intro preserves_intros preserves_md_ctrl_ports; simp)

interpretation rd: engine_user port_recv_fn RECV_DEDICATED
  by unfold_locales (simp_all add: port_recv_fn_def dedicated_recv_engines)

section \<open>The receive rings\<close>

text \<open>C25: a receive ring loses buffers for good. A round of the receive loop calls the port proxy
  with the packet at \<open>tr_done\<close>, and what it answers decides. When it refuses the packet, its
  error is returned and nothing else happens: nothing is freed or asked of the kernel, nothing
  moves, and the ring offers the same packet again. When it takes the packet, the ring moves on
  and the kernel is asked for one buffer. If that can be had and mapped, it is in the request at
  \<open>rx_refill\<close> and the ring is as full as before. If not, \<open>ENOMEM\<close> is returned and the ring has one
  buffer less; since a round never adds more than the one it took away, it never gets it back.\<close>

theorem cldma_rx_round:
  fixes s :: "'z port_layer_scheme"
  assumes h: "rx_ring_ok s c i g" and d: "tr_done (rxq_at s c i) = Some d" "has_skb (rxr_at s c i ! d)"
    and fn: "recv_skb (rxq_at s c i) = RECV_PROXY"
  defines "m \<equiv> rx_one port_recv_fn c i (Some d) (rxr_at s c i ! d)"
  shows "\<exists>u skb ret v. run (t7xx_port_proxy_recv_skb c i skb) u = (ret, v) \<and>
    cskb_ptr skb = cskb_ptr (the (req_skb (rxr_at s c i ! d))) \<and>
    calls ''dev_kfree_skb'' (trace u) = calls ''dev_kfree_skb'' (trace s) \<and>
    rx_round s c i g d ret v (result m s) (after m s)"
  using rp.rx_one_step [OF h d fn] by (simp add: m_def port_recv_fn_def)

text \<open>C27: the dedicated queue frees a packet that stays in the ring. When a packet arrives for which
  the first port is not the right one, as after the switch to the normal configuration and
  before that of the queues, the packet is freed and an error is returned, so that the request
  keeps the freed packet as the next one to be received: it is written to, handed on and freed
  again.\<close>

theorem dedicated_recv_frees_kept_packet:
  fixes s :: "'z port_layer_scheme"
  assumes h: "rx_ring_ok s c i g" and d: "tr_done (rxq_at s c i) = Some d" "has_skb (rxr_at s c i ! d)"
    and fn: "recv_skb (rxq_at s c i) = RECV_DEDICATED" and wrong: "rxq_index (port_conf (port_at s 0)) \<noteq> i"
  defines "a \<equiv> cskb_ptr (the (req_skb (rxr_at s c i ! d)))"
    and "t \<equiv> after (rx_one port_recv_fn c i (Some d) (rxr_at s c i ! d)) s"
  shows "result (rx_one port_recv_fn c i (Some d) (rxr_at s c i ! d)) s = Inl EINVAL \<and>
    calls ''dev_kfree_skb'' (trace t) = calls ''dev_kfree_skb'' (trace s) @ [[a]] \<and>
    tr_done (rxq_at t c i) = Some d \<and> has_skb (rxr_at t c i ! d) \<and>
    cskb_ptr (the (req_skb (rxr_at t c i ! d))) = a"
proof -
  let ?m = "rx_deliver port_recv_fn c i (Some d) (rxr_at s c i ! d)"
  have dr: "d < length (rxr_at s c i)"
    using h d(1) unfolding rx_ring_ok_def
    by (elim ring_gapE) (metis gr_implies_not0 length_0_conv mod_less_divisor neq0_conv option.inject)
  obtain u skb where u: "run ?m s = run (port_recv_fn RECV_DEDICATED c i skb) u" "cskb_ptr skb = a"
    "calls ''dev_kfree_skb'' (trace u) = calls ''dev_kfree_skb'' (trace s)" "port_prox u = port_prox s"
    using rx_deliver_run [OF dr d(2) fn, of port_prox port_recv_fn] unfolding a_def by (auto simp: emit_def)
  have run: "run ?m s = (Inl EINVAL, emit (Call ''dev_kfree_skb'' [a]) u)"
    using u wrong by (simp add: port_recv_fn_def t7xx_port_proxy_recv_skb_from_dedicated_queue_def run_simps port_at_def)
  then have one: "run (rx_one port_recv_fn c i (Some d) (rxr_at s c i ! d)) s =
      (Inl EINVAL, after ?m s)"
    by (simp add: rx_one_def run_simps)
  obtain w where w: "rxr_at (after ?m s) c i = (rxr_at s c i)[d := w]" "has_skb w" "cskb_ptr (the (req_skb w)) = a"
    using rd.rx_deliver_engine(1) [OF dr d(2) fn] unfolding a_def by blast
  have "rxq_at (after ?m s) c i = rxq_at s c i"
    by (rule rd.rx_deliver_engine(2) [OF dr d(2) fn])
  then show ?thesis
    using one w dr d(1) run u(3) by (simp add: t_def)
qed

section \<open>A ring to try it on\<close>

definition rx_example :: "recv_fn \<Rightarrow> port_layer" where
  "rx_example fn = (port_example (yes_but ''x'' 0))\<lparr>md_ctrl := (\<lambda>_. zero_ctrl\<lparr>
     cl_rxq := (\<lambda>_. zero_queue\<lparr>tr_ring := True, tr_done := Some 0, rx_refill := Some 0, recv_skb := fn\<rparr>),
     rx_ring := (\<lambda>_. \<lparr>gpd_ring = [(zero_req 0x1000)\<lparr>req_skb := Some cskb_example\<rparr>], ring_length = 1,
       pkt_size = 3584\<rparr>)\<rparr>)\<rparr>"

lemma rx_example_ok:
  "rx_ring_ok (rx_example fn) c i 0" "tr_done (rxq_at (rx_example fn) c i) = Some 0"
  "has_skb (rxr_at (rx_example fn) c i ! 0)" "recv_skb (rxq_at (rx_example fn) c i) = fn"
  "rxr_at (rx_example fn) c i ! 0 = (zero_req 0x1000)\<lparr>req_skb := Some cskb_example\<rparr>"
  by (auto simp: rx_ring_ok_def ring_gap_def rx_example_def has_skb_def)

theorem cldma_rx_round_witness:
  "let s = rx_example RECV_PROXY;
       m = rx_one port_recv_fn CLDMA_ID_MD 2 (Some 0) ((zero_req 0x1000)\<lparr>req_skb := Some cskb_example\<rparr>)
   in \<exists>u skb ret v. run (t7xx_port_proxy_recv_skb CLDMA_ID_MD 2 skb) u = (ret, v) \<and> cskb_ptr skb = 0x5000 \<and>
     rx_round s CLDMA_ID_MD 2 0 0 ret v (result m s) (after m s)"
  using cldma_rx_round [OF rx_example_ok(1-4), where i = 2 and c = CLDMA_ID_MD]
  unfolding rx_example_ok(5) by (auto simp: Let_def cskb_example_def)

theorem dedicated_recv_frees_kept_packet_witness:
  "\<exists>t. run (rx_one port_recv_fn CLDMA_ID_AP 1 (Some 0) ((zero_req 0x1000)\<lparr>req_skb := Some cskb_example\<rparr>))
      (rx_example RECV_DEDICATED) = (Inl EINVAL, t) \<and> tr_done (rxq_at t CLDMA_ID_AP 1) = Some 0 \<and>
    calls ''dev_kfree_skb'' (trace t) = calls ''dev_kfree_skb'' (trace (rx_example RECV_DEDICATED)) @ [[0x5000]] \<and>
    cskb_ptr (the (req_skb (rxr_at t CLDMA_ID_AP 1 ! 0))) = 0x5000"
proof -
  have "rxq_index (port_conf (port_at (rx_example RECV_DEDICATED) 0)) = 5"
    by (simp add: port_at_def rx_example_def t7xx_port_conf_table_def)
  then show ?thesis
    using dedicated_recv_frees_kept_packet [OF rx_example_ok(1-4), where i = 1 and c = CLDMA_ID_AP]
    unfolding rx_example_ok(5) by (auto simp: prod_eq_iff cskb_example_def)
qed

end
