(* ===== verification/Modem.thy ===== *)
theory Modem
  imports Ports
begin

text \<open>
  The modem: \<open>t7xx_modem_ops.c\<close>, interrupts and resets, the handshake at boot and the one
  after an exception, and from \<open>t7xx_pci.c\<close> what a reset needs.

  \<open>core c\<close> is \<open>core_md\<close> or \<open>core_ap\<close> by the engine of its control port; the port itself is
  \<open>ctl_port c\<close> of \<open>Ports\<close>. A work item that is queued is a call in the history. As in \<open>Ports\<close>,
  \<open>others\<close> is what runs while a function waits, \<open>fuel\<close> bounds the waits without a time limit,
  and \<open>None\<close> stands for not returning.
\<close>

section \<open>The state\<close>

abbreviation (input) FEATURE_COUNT :: nat where "FEATURE_COUNT \<equiv> 64"
abbreviation (input) RT_ID_MD_PORT_ENUM :: nat where "RT_ID_MD_PORT_ENUM \<equiv> 0"
abbreviation (input) RT_ID_AP_PORT_ENUM :: nat where "RT_ID_AP_PORT_ENUM \<equiv> 1"
abbreviation (input) MD_FEATURE_QUERY_ID :: u32 where "MD_FEATURE_QUERY_ID \<equiv> 0x49434343"
abbreviation (input) FEATURE_MSK :: field where "FEATURE_MSK \<equiv> (3, 0)"
abbreviation (input) RGU_RESET_DELAY_MS :: nat where "RGU_RESET_DELAY_MS \<equiv> 10"
abbreviation (input) PORT_RESET_DELAY_MS :: nat where "PORT_RESET_DELAY_MS \<equiv> 2000"
abbreviation (input) FASTBOOT_RESET_DELAY_MS :: nat where "FASTBOOT_RESET_DELAY_MS \<equiv> 2000"
abbreviation (input) EX_HS_TIMEOUT_MS :: nat where "EX_HS_TIMEOUT_MS \<equiv> 5000"
abbreviation (input) EX_HS_POLL_DELAY_MS :: nat where "EX_HS_POLL_DELAY_MS \<equiv> 10"

text \<open>\<open>enum mtk_feature_support_type\<close>, the low bits of an entry of a feature set.\<close>

abbreviation (input) MTK_FEATURE_DOES_NOT_EXIST :: u8 where "MTK_FEATURE_DOES_NOT_EXIST \<equiv> 0"
abbreviation (input) MTK_FEATURE_NOT_SUPPORTED :: u8 where "MTK_FEATURE_NOT_SUPPORTED \<equiv> 1"
abbreviation (input) MTK_FEATURE_MUST_BE_SUPPORTED :: u8 where "MTK_FEATURE_MUST_BE_SUPPORTED \<equiv> 2"

datatype hif_ex_stage = HIF_EX_INIT | HIF_EX_INIT_DONE | HIF_EX_CLEARQ_DONE | HIF_EX_ALLQ_RESET

datatype md_event_id = FSM_PRE_START | FSM_START | FSM_READY

datatype reset_type = FLDR | PLDR | FASTBOOT

datatype irqreturn = IRQ_HANDLED | IRQ_WAKE_THREAD

record t7xx_sys_info =
  core_ready :: bool
  handshake_ongoing :: bool
  feature_set :: "u8 list"

text \<open>\<open>config_acpi\<close> is \<open>CONFIG_ACPI\<close> of the kernel.\<close>

record modem_layer = port_layer +
  core :: "cldma_id \<Rightarrow> t7xx_sys_info"
  md_init_finish :: bool
  rgu_irq_asserted :: bool
  handshake_wq :: u64
  exp_id :: u32
  config_acpi :: bool

definition upd_core ::
  "cldma_id \<Rightarrow> (t7xx_sys_info \<Rightarrow> t7xx_sys_info) \<Rightarrow> ('z modem_layer_scheme, unit) state" where
  "upd_core c f = modify (\<lambda>s. s\<lparr>core := (core s)(c := f (core s c))\<rparr>)"

definition upd_exp_id :: "(u32 \<Rightarrow> u32) \<Rightarrow> ('z modem_layer_scheme, unit) state" where
  "upd_exp_id f = modify (\<lambda>s. s\<lparr>exp_id := f (exp_id s)\<rparr>)"

section \<open>Interrupts of the modem\<close>

definition t7xx_get_interrupt_status :: "('z t7xx_scheme, u32) state" where
  "t7xx_get_interrupt_status = do {
     v \<leftarrow> t7xx_mhccif_read_sw_int_sts;
     return (v AND D2H_SW_INT_MASK)
   }"

definition t7xx_pci_mhccif_isr :: "('z modem_layer_scheme, errno + unit) state" where
  "t7xx_pci_mhccif_isr = do {
     ctl \<leftarrow> gets fsm_ctl_set;
     if \<not> ctl then return (Inl EINVAL) else do {
       int_sta \<leftarrow> t7xx_get_interrupt_status;
       upd_exp_id (\<lambda>e. e OR int_sta);
       e \<leftarrow> gets exp_id;
       st \<leftarrow> get_fsm fsm_md_state;
       if e AND D2H_INT_EXCEPTION_INIT \<noteq> 0 then
         (if st = MD_STATE_INVALID \<or> st = MD_STATE_WAITING_FOR_HS1 \<or> st = MD_STATE_WAITING_FOR_HS2 \<or>
            st = MD_STATE_READY
          then do {
            upd_exp_id (\<lambda>e. e AND NOT D2H_INT_EXCEPTION_INIT);
            t7xx_fsm_recv_md_intr MD_IRQ_CCIF_EX
          } else return (Inr ()))
       else if e AND D2H_INT_PORT_ENUM \<noteq> 0 then do {
         upd_exp_id (\<lambda>e. e AND NOT D2H_INT_PORT_ENUM);
         cs \<leftarrow> get_fsm curr_state;
         if cs = FSM_STATE_INIT \<or> cs = FSM_STATE_PRE_START \<or> cs = FSM_STATE_STOPPED
         then t7xx_fsm_recv_md_intr MD_IRQ_PORT_ENUM else return (Inr ())
       } else if st = MD_STATE_WAITING_FOR_HS1 then do {
         m \<leftarrow> t7xx_mhccif_mask_get;
         c_when (e AND D2H_INT_ASYNC_MD_HK \<noteq> 0 \<and> m AND D2H_INT_ASYNC_MD_HK = 0) (do {
           upd_exp_id (\<lambda>e. e AND NOT D2H_INT_ASYNC_MD_HK);
           kcall ''queue_work handshake_work'' []
         });
         return (Inr ())
       } else return (Inr ())
     }
   }"

section \<open>Resets\<close>

definition t7xx_clr_device_irq_via_pcie :: "('z t7xx_scheme, unit) state" where
  "t7xx_clr_device_irq_via_pcie = do {
     reset_pcie_reg \<leftarrow> get_pci (\<lambda>p. pcie_ext_reg_base (base_addr p) + TOPRGU_CH_PCIE_IRQ_STA
       - ucast (pcie_dev_reg_trsl_addr (base_addr p)));
     val \<leftarrow> ioread32 reset_pcie_reg;
     iowrite32 val reset_pcie_reg
   }"

definition t7xx_clear_rgu_irq :: "('z t7xx_scheme, unit) state" where
  "t7xx_clear_rgu_irq = do {
     t7xx_clr_device_irq_via_pcie;
     t7xx_pcie_mac_clear_int_status SAP_RGU_INT
   }"

definition t7xx_acpi_reset :: "string \<Rightarrow> ('z modem_layer_scheme, errno + unit) state" where
  "t7xx_acpi_reset fn_name = do {
     acpi \<leftarrow> gets config_acpi;
     if acpi then do {
       handle \<leftarrow> kquery ''ACPI_HANDLE'' [];
       if handle = 0 then return (Inl EFAULT) else do {
         has \<leftarrow> kquery (''acpi_has_method '' @ fn_name) [handle];
         if has = 0 then return (Inl EFAULT) else do {
           acpi_ret \<leftarrow> kquery (''acpi_evaluate_object '' @ fn_name) [handle];
           if acpi_ret \<noteq> 0 then return (Inl EFAULT) else do {
             kcall ''kfree acpi_buffer'' [];
             return (Inr ())
           }
         }
       }
     } else kerr ''pci_reset_function'' []
   }"

definition t7xx_host_event_notify :: "u32 \<Rightarrow> ('z t7xx_scheme, unit) state" where
  "t7xx_host_event_notify ident = do {
     b \<leftarrow> gets IREG_BASE;
     value \<leftarrow> ioread32 (b + T7XX_PCIE_MISC_DEV_STATUS);
     iowrite32 ((value AND NOT (FMASK HOST_EVENT_MASK)) OR FIELD_PREP HOST_EVENT_MASK ident)
       (b + T7XX_PCIE_MISC_DEV_STATUS)
   }"

text \<open>From \<open>t7xx_pci.c\<close>: a command to the state machine, and the two halves of a new probe.\<close>

definition t7xx_send_fsm_command :: "t7xx_fsm_cmd_state \<Rightarrow> ('z fsm_layer_scheme, errno + unit) state" where
  "t7xx_send_fsm_command event =
     (if event = FSM_CMD_STOP then t7xx_fsm_append_cmd FSM_CMD_STOP FSM_CMD_FLAG_WAIT_FOR_COMPLETION
      else if event = FSM_CMD_START then do {
        t7xx_pcie_mac_clear_int SAP_RGU_INT;
        t7xx_pcie_mac_clear_int_status SAP_RGU_INT;
        upd_pci (\<lambda>p. p\<lparr>rgu_pci_irq_en := True\<rparr>);
        t7xx_pcie_mac_set_int SAP_RGU_INT;
        t7xx_fsm_append_cmd FSM_CMD_START 0
      } else return (Inl EINVAL))"

definition t7xx_pci_reprobe_early :: "('z fsm_layer_scheme, errno + unit) state" where
  "t7xx_pci_reprobe_early = do {
     m \<leftarrow> get_pci mode;
     c_when (m = T7XX_FASTBOOT_DOWNLOAD) (kcall ''pm_runtime_put_noidle'' []);
     t7xx_send_fsm_command FSM_CMD_STOP
   }"

definition t7xx_pci_reprobe :: "bool \<Rightarrow> ('z fsm_layer_scheme, errno + unit) state" where
  "t7xx_pci_reprobe boot = do {
     ret \<leftarrow> t7xx_pcie_reinit boot;
     if isl ret then return ret else do {
       t7xx_clear_rgu_irq;
       t7xx_send_fsm_command FSM_CMD_START
     }
   }"

definition t7xx_reset_device :: "reset_type \<Rightarrow> ('z modem_layer_scheme, errno + unit) state" where
  "t7xx_reset_device type = do {
     kcall ''pci_save_state'' [];
     t7xx_pci_reprobe_early;
     t7xx_mode_update T7XX_RESET;
     upd_pci (\<lambda>p. p\<lparr>debug_ports_show := False\<rparr>);
     ret \<leftarrow> (case type of
       FLDR \<Rightarrow> t7xx_acpi_reset ''_RST''
     | PLDR \<Rightarrow> t7xx_acpi_reset ''MRST._RST''
     | FASTBOOT \<Rightarrow> do {
         t7xx_host_event_notify (host_event_e_val FASTBOOT_DL_NOTIFY);
         t7xx_mhccif_h2d_swint_trigger H2D_CH_DEVICE_RESET;
         kcall ''msleep'' [of_nat FASTBOOT_RESET_DELAY_MS];
         return (Inr ())
       });
     kcall ''pci_restore_state'' [];
     if isl ret then return ret else t7xx_pci_reprobe True
   }"

definition t7xx_reset_device_via_pmic :: "('z modem_layer_scheme, unit) state" where
  "t7xx_reset_device_via_pmic = do {
     b \<leftarrow> gets IREG_BASE;
     val \<leftarrow> ioread32 (b + T7XX_PCIE_MISC_DEV_STATUS);
     if val AND MISC_RESET_TYPE_PLDR \<noteq> 0 then do { t7xx_reset_device PLDR; return () }
     else if val AND MISC_RESET_TYPE_FLDR \<noteq> 0 then do { t7xx_reset_device FLDR; return () }
     else return ()
   }"

definition t7xx_rgu_isr_thread :: "('z modem_layer_scheme, irqreturn) state" where
  "t7xx_rgu_isr_thread = do {
     kcall ''msleep'' [of_nat RGU_RESET_DELAY_MS];
     t7xx_reset_device_via_pmic;
     return IRQ_HANDLED
   }"

definition t7xx_rgu_isr_handler :: "('z modem_layer_scheme, irqreturn) state" where
  "t7xx_rgu_isr_handler = do {
     t7xx_clear_rgu_irq;
     en \<leftarrow> get_pci rgu_pci_irq_en;
     if \<not> en then return IRQ_HANDLED else do {
       modify (\<lambda>s. s\<lparr>rgu_irq_asserted := True\<rparr>);
       t7xx_pcie_mac_clear_int SAP_RGU_INT;
       return IRQ_WAKE_THREAD
     }
   }"

definition t7xx_pcie_register_rgu_isr :: "('z t7xx_scheme, unit) state" where
  "t7xx_pcie_register_rgu_isr = do {
     t7xx_pcie_mac_clear_int SAP_RGU_INT;
     t7xx_pcie_mac_clear_int_status SAP_RGU_INT;
     upd_pci (\<lambda>p. p\<lparr>intr_handler := (intr_handler p)(SAP_RGU_INT \<mapsto> OWN_RGU)\<rparr>);
     t7xx_pcie_mac_set_int SAP_RGU_INT
   }"

definition t7xx_md_sys_sw_init :: "('z t7xx_scheme, unit) state" where
  "t7xx_md_sys_sw_init = do {
     t7xx_mhccif_mask_set D2H_SW_INT_MASK;
     t7xx_mhccif_mask_clr D2H_INT_PORT_ENUM;
     upd_pci (\<lambda>p. p\<lparr>rgu_pci_irq_en := True\<rparr>);
     t7xx_pcie_register_rgu_isr
   }"

section \<open>The handshake after an exception\<close>

definition t7xx_cldma_exception :: "cldma_id \<Rightarrow> hif_ex_stage \<Rightarrow> ('z cldma_layer_scheme, unit) state" where
  "t7xx_cldma_exception c stage = (case stage of
     HIF_EX_INIT \<Rightarrow> do {
       t7xx_cldma_stop_all_qs c MTK_TX;
       t7xx_cldma_clear_all_qs c MTK_TX
     }
   | HIF_EX_CLEARQ_DONE \<Rightarrow> do {
       t7xx_cldma_stop_all_qs c MTK_RX;
       t7xx_cldma_stop c;
       ao \<leftarrow> get_pci (\<lambda>p. infracfg_ao_base (base_addr p));
       c_when (c = CLDMA_ID_MD) (t7xx_cldma_hw_reset ao);
       t7xx_cldma_clear_all_qs c MTK_RX
     }
   | HIF_EX_ALLQ_RESET \<Rightarrow> do {
       hw \<leftarrow> get_cl c hw_info;
       t7xx_cldma_hw_init hw;
       t7xx_cldma_start c
     }
   | HIF_EX_INIT_DONE \<Rightarrow> return ())"

definition t7xx_md_exception :: "hif_ex_stage \<Rightarrow> ('z port_layer_scheme, unit) state" where
  "t7xx_md_exception stage = do {
     c_when (stage = HIF_EX_CLEARQ_DONE) (do {
       kcall ''msleep'' [of_nat PORT_RESET_DELAY_MS];
       t7xx_port_proxy_reset
     });
     t7xx_cldma_exception CLDMA_ID_MD stage;
     t7xx_cldma_exception CLDMA_ID_AP stage;
     if stage = HIF_EX_INIT then t7xx_mhccif_h2d_swint_trigger H2D_CH_EXCEPTION_ACK
     else if stage = HIF_EX_CLEARQ_DONE then t7xx_mhccif_h2d_swint_trigger H2D_CH_EXCEPTION_CLEARQ_ACK
     else return ()
   }"

text \<open>The loop looks before it sleeps, so many times as sleeps fit in the time.\<close>

primrec wait_ex_loop ::
  "('z modem_layer_scheme, unit) state \<Rightarrow> u32 \<Rightarrow> nat \<Rightarrow> ('z modem_layer_scheme, errno + unit) state" where
  "wait_ex_loop others ident 0 = return (Inl EFAULT)"
| "wait_ex_loop others ident (Suc n) = do {
     e \<leftarrow> gets exp_id;
     if e AND ident \<noteq> 0 then return (Inr ()) else do {
       kcall ''msleep'' [of_nat EX_HS_POLL_DELAY_MS];
       others;
       wait_ex_loop others ident n
     }
   }"

definition t7xx_wait_hif_ex_hk_event ::
  "('z modem_layer_scheme, unit) state \<Rightarrow> u32 \<Rightarrow> ('z modem_layer_scheme, errno + unit) state" where
  "t7xx_wait_hif_ex_hk_event others ident =
     wait_ex_loop others ident (EX_HS_TIMEOUT_MS div EX_HS_POLL_DELAY_MS)"

text \<open>A time-out is only logged.\<close>

definition t7xx_md_exception_handshake ::
  "('z modem_layer_scheme, unit) state \<Rightarrow> ('z modem_layer_scheme, unit) state" where
  "t7xx_md_exception_handshake others = do {
     t7xx_md_exception HIF_EX_INIT;
     t7xx_wait_hif_ex_hk_event others D2H_INT_EXCEPTION_INIT_DONE;
     t7xx_md_exception HIF_EX_INIT_DONE;
     t7xx_wait_hif_ex_hk_event others D2H_INT_EXCEPTION_CLEARQ_DONE;
     t7xx_md_exception HIF_EX_CLEARQ_DONE;
     t7xx_wait_hif_ex_hk_event others D2H_INT_EXCEPTION_ALLQ_RESET;
     t7xx_md_exception HIF_EX_ALLQ_RESET
   }"

section \<open>Features\<close>

definition feature_mask :: "u8 \<Rightarrow> u8" where
  "feature_mask v = FIELD_GET FEATURE_MSK v"

text \<open>Sending on the control port of a core.\<close>

definition core_send ::
  "('z port_layer_scheme, unit) state \<Rightarrow> nat \<Rightarrow> cldma_id \<Rightarrow> cskb \<Rightarrow> u32 \<Rightarrow>
   ('z port_layer_scheme, (errno + unit) option) state" where
  "core_send others fuel c skb msg = do {
     port \<leftarrow> gets (\<lambda>s. ctl_port s c);
     case port of
       None \<Rightarrow> do { fault; return None }
     | Some p \<Rightarrow> t7xx_port_send_ctl_skb others fuel p skb msg 0
   }"

text \<open>
  \<open>struct feature_query\<close>, 72 bytes: \<open>head_pattern\<close>, \<open>feature_set\<close>, \<open>tail_pattern\<close>. The result
  of sending is ignored.
\<close>

definition t7xx_prepare_host_rt_data_query ::
  "('z modem_layer_scheme, unit) state \<Rightarrow> nat \<Rightarrow> cldma_id \<Rightarrow> ('z modem_layer_scheme, unit option) state" where
  "t7xx_prepare_host_rt_data_query others fuel c = do {
     a \<leftarrow> t7xx_ctrl_alloc_skb 72;
     case a of
       None \<Rightarrow> return (Some ())
     | Some skb \<Rightarrow> do {
         fs \<leftarrow> gets (\<lambda>s. feature_set (core s c));
         let skb = skb\<lparr>cskb_bytes := le32_bytes MD_FEATURE_QUERY_ID @ fs @ le32_bytes MD_FEATURE_QUERY_ID\<rparr>;
         bind_opt (core_send others fuel c skb CTL_ID_HS1_MSG) (\<lambda>_. return (Some ()))
       }
   }"

text \<open>
  The two loops of \<open>t7xx_prepare_device_rt_data\<close> over the features: the length of the answer,
  and the answer itself, written to a buffer of that length. An entry has 8 bytes:
  \<open>feature_id\<close>, \<open>support_info\<close>, two reserved ones and \<open>data_len\<close>, which stay 0.
\<close>

primrec rt_data_len :: "u64 \<Rightarrow> u8 list \<Rightarrow> nat list \<Rightarrow> nat \<Rightarrow> ('z cldma_layer_scheme, nat) state" where
  "rt_data_len a bs [] n = return n"
| "rt_data_len a bs (i # is) n = do {
     v \<leftarrow> buf_u8 a bs (4 + int i);
     rt_data_len a bs is (if feature_mask v \<noteq> MTK_FEATURE_MUST_BE_SUPPORTED then n + 8 else n)
   }"

definition put_u8 :: "nat \<Rightarrow> u8 \<Rightarrow> u8 list \<Rightarrow> ('z cldma_layer_scheme, u8 list) state" where
  "put_u8 k v buf = (if k < length buf then return (buf[k := v]) else do { fault; return buf })"

primrec rt_data_fill ::
  "u64 \<Rightarrow> u8 list \<Rightarrow> nat list \<Rightarrow> nat \<Rightarrow> u8 list \<Rightarrow> ('z cldma_layer_scheme, u8 list) state" where
  "rt_data_fill a bs [] k buf = return buf"
| "rt_data_fill a bs (i # is) k buf = do {
     v \<leftarrow> buf_u8 a bs (4 + int i);
     if feature_mask v = MTK_FEATURE_MUST_BE_SUPPORTED then rt_data_fill a bs is k buf else do {
       buf \<leftarrow> put_u8 k (of_nat i) buf;
       buf \<leftarrow> (if feature_mask v = MTK_FEATURE_DOES_NOT_EXIST then put_u8 (k + 1) v buf else return buf);
       rt_data_fill a bs is (k + 8) buf
     }
   }"

text \<open>The query has address \<open>a\<close> and bytes \<open>bs\<close>.\<close>

definition t7xx_prepare_device_rt_data ::
  "('z port_layer_scheme, unit) state \<Rightarrow> nat \<Rightarrow> cldma_id \<Rightarrow> u64 \<Rightarrow> u8 list \<Rightarrow>
   ('z port_layer_scheme, (errno + unit) option) state" where
  "t7xx_prepare_device_rt_data others fuel c a bs = do {
     head_pattern \<leftarrow> buf_le32 a bs 0;
     tail_pattern \<leftarrow> buf_le32 a bs 68;
     if head_pattern \<noteq> MD_FEATURE_QUERY_ID \<or> tail_pattern \<noteq> MD_FEATURE_QUERY_ID
     then return (Some (Inl EINVAL)) else do {
       len \<leftarrow> rt_data_len a bs [0..<FEATURE_COUNT] 0;
       p \<leftarrow> t7xx_ctrl_alloc_skb len;
       case p of
         None \<Rightarrow> return (Some (Inl ENOMEM))
       | Some skb \<Rightarrow> do {
           buf \<leftarrow> rt_data_fill a bs [0..<FEATURE_COUNT] 0 (replicate len 0);
           bind_opt (core_send others fuel c (skb\<lparr>cskb_bytes := buf\<rparr>) CTL_ID_HS3_MSG) (\<lambda>_.
             return (Some (Inr ())))
         }
     }
   }"

text \<open>
  The entries of the modem's answer follow the query one after the other. The offset of the
  next one is a signed 32-bit integer; \<open>len\<close> is the length of the answer, signed as well.
\<close>

definition next_offset :: "int \<Rightarrow> u32 \<Rightarrow> int" where
  "next_offset off data_len = sint (of_int (off + 8) + data_len)"

primrec parse_loop ::
  "cldma_id \<Rightarrow> u64 \<Rightarrow> u8 list \<Rightarrow> int \<Rightarrow> nat list \<Rightarrow> int \<Rightarrow> ('z modem_layer_scheme, errno + unit) state" where
  "parse_loop c a bs len [] off = return (Inr ())"
| "parse_loop c a bs len (i # is) off =
     (if \<not> off < len then return (Inr ()) else do {
        data_len \<leftarrow> buf_le32 a bs (off + 4);
        cfg \<leftarrow> gets (\<lambda>s. feature_set (core s c) ! i);
        if feature_mask cfg \<noteq> MTK_FEATURE_MUST_BE_SUPPORTED
        then parse_loop c a bs len is (next_offset off data_len) else do {
          support_info \<leftarrow> buf_u8 a bs (off + 1);
          if feature_mask support_info \<noteq> MTK_FEATURE_MUST_BE_SUPPORTED then return (Inl EINVAL) else do {
            c_when (i = RT_ID_MD_PORT_ENUM \<or> i = RT_ID_AP_PORT_ENUM)
              (do { t7xx_port_enum_msg_handler a bs (off + 8); return () });
            parse_loop c a bs len is (next_offset off data_len)
          }
        }
      })"

definition t7xx_parse_host_rt_data ::
  "cldma_id \<Rightarrow> u64 \<Rightarrow> u8 list \<Rightarrow> ('z modem_layer_scheme, errno + unit) state" where
  "t7xx_parse_host_rt_data c a bs =
     parse_loop c a bs (sint (of_nat (length bs) :: u32)) [0..<FEATURE_COUNT] 72"

section \<open>The handshake at boot\<close>

text \<open>
  What the pointer \<open>event\<close> of \<open>t7xx_core_hk_handler\<close> is: null, or, after a look through the
  queue that found nothing, the head of the list taken for an event, or an event taken off the
  queue.
\<close>

datatype hk_event = NO_EVENT | LIST_HEAD | EVENT t7xx_fsm_event

definition scan_events ::
  "t7xx_fsm_event_state \<Rightarrow> t7xx_fsm_event_state \<Rightarrow> ('z fsm_layer_scheme, hk_event) state" where
  "scan_events ident err_detect = do {
     es \<leftarrow> get_fsm event_queue;
     case find (\<lambda>e. event_id e = err_detect \<or> event_id e = ident) es of
       None \<Rightarrow> return LIST_HEAD
     | Some e \<Rightarrow> do {
         upd_fsm (\<lambda>f. f\<lparr>event_queue := remove1 e es\<rparr>);
         return (EVENT e)
       }
   }"

text \<open>The loop gives the pointer and whether the code goes on with it (or frees it at once).\<close>

primrec hk_loop ::
  "('z fsm_layer_scheme, unit) state \<Rightarrow> t7xx_fsm_event_state \<Rightarrow> t7xx_fsm_event_state \<Rightarrow> nat \<Rightarrow> hk_event \<Rightarrow>
   ('z fsm_layer_scheme, (hk_event \<times> bool) option) state" where
  "hk_loop others ident err_detect 0 event = return None"
| "hk_loop others ident err_detect (Suc k) event = do {
     stop \<leftarrow> kquery ''kthread_should_stop'' [];
     if stop \<noteq> 0 then return (Some (event, True)) else do {
       event \<leftarrow> scan_events ident err_detect;
       case event of
         EVENT e \<Rightarrow> return (Some (event, event_id e \<noteq> err_detect))
       | _ \<Rightarrow> do {
           others;
           kquery ''wait_event_interruptible event_wq'' [];
           stop \<leftarrow> kquery ''kthread_should_stop'' [];
           if stop \<noteq> 0 then return (Some (event, False)) else hk_loop others ident err_detect k event
         }
     }
   }"

definition kfree_hk_event :: "hk_event \<Rightarrow> ('z cldma_layer_scheme, unit) state" where
  "kfree_hk_event event = (case event of
     NO_EVENT \<Rightarrow> kcall ''kfree'' [0]
   | LIST_HEAD \<Rightarrow> fault
   | EVENT e \<Rightarrow> kfree_event e)"

text \<open>
  What the code does with an event: \<open>None\<close> inside for not reaching the end. \<open>event->data\<close> is
  24 bytes into the event.
\<close>

definition use_hk_event ::
  "('z modem_layer_scheme, unit) state \<Rightarrow> nat \<Rightarrow> cldma_id \<Rightarrow> t7xx_fsm_event \<Rightarrow>
   ('z modem_layer_scheme, unit option) state" where
  "use_hk_event others fuel c e = do {
     let data = ev_ptr e + 24;
     ret \<leftarrow> t7xx_parse_host_rt_data c data (ev_data e);
     exp \<leftarrow> get_fsm exp_flg;
     if isl ret \<or> exp then return (Some ()) else
       bind_opt (t7xx_prepare_device_rt_data others fuel c data (ev_data e)) (\<lambda>ret.
         if isl ret then return (Some ()) else do {
           upd_core c (\<lambda>x. x\<lparr>core_ready := True, handshake_ongoing := False\<rparr>);
           kcall ''wake_up async_hk_wq'' [];
           return (Some ())
         })
   }"

definition t7xx_core_hk_handler ::
  "('z modem_layer_scheme, unit) state \<Rightarrow> nat \<Rightarrow> cldma_id \<Rightarrow> t7xx_fsm_event_state \<Rightarrow> t7xx_fsm_event_state \<Rightarrow>
   ('z modem_layer_scheme, unit option) state" where
  "t7xx_core_hk_handler others fuel c ident err_detect =
     bind_opt (t7xx_prepare_host_rt_data_query others fuel c) (\<lambda>_.
       bind_opt (hk_loop others ident err_detect fuel NO_EVENT) (\<lambda>(event, go_on). do {
         exp \<leftarrow> get_fsm exp_flg;
         bind_opt (case event of
             EVENT e \<Rightarrow> if go_on \<and> \<not> exp then use_hk_event others fuel c e else return (Some ())
           | LIST_HEAD \<Rightarrow> do { c_when (go_on \<and> \<not> exp) fault; return (Some ()) }
           | NO_EVENT \<Rightarrow> return (Some ())) (\<lambda>_. do {
           kfree_hk_event event;
           return (Some ())
         })
       }))"

text \<open>From \<open>t7xx_state_monitor.c\<close>. \<open>notifier_fn\<close> is that of \<open>fsm_state_notify\<close>.\<close>

definition t7xx_fsm_broadcast_state ::
  "(u64 \<Rightarrow> md_state \<Rightarrow> ('z port_layer_scheme, unit) state) \<Rightarrow> md_state \<Rightarrow> ('z port_layer_scheme, unit) state" where
  "t7xx_fsm_broadcast_state notifier_fn st = do {
     upd_fsm (\<lambda>f. f\<lparr>fsm_md_state := st\<rparr>);
     t7xx_port_proxy_md_status_notify st;
     fsm_state_notify notifier_fn st
   }"

definition t7xx_md_hk_wq ::
  "(u64 \<Rightarrow> md_state \<Rightarrow> ('z modem_layer_scheme, unit) state) \<Rightarrow> ('z modem_layer_scheme, unit) state \<Rightarrow> nat \<Rightarrow>
   ('z modem_layer_scheme, unit option) state" where
  "t7xx_md_hk_wq notifier_fn others fuel = do {
     t7xx_fsm_clr_event FSM_EVENT_MD_HS2_EXIT;
     t7xx_cldma_switch_cfg CLDMA_ID_MD CLDMA_SHARED_Q_CFG;
     t7xx_cldma_start CLDMA_ID_MD;
     t7xx_fsm_broadcast_state notifier_fn MD_STATE_WAITING_FOR_HS2;
     upd_core CLDMA_ID_MD (\<lambda>x. x\<lparr>handshake_ongoing := True\<rparr>);
     t7xx_core_hk_handler others fuel CLDMA_ID_MD FSM_EVENT_MD_HS2 FSM_EVENT_MD_HS2_EXIT
   }"

definition t7xx_ap_hk_wq ::
  "('z modem_layer_scheme, unit) state \<Rightarrow> nat \<Rightarrow> ('z modem_layer_scheme, unit option) state" where
  "t7xx_ap_hk_wq others fuel = do {
     t7xx_fsm_clr_event FSM_EVENT_AP_HS2_EXIT;
     t7xx_cldma_stop CLDMA_ID_AP;
     t7xx_cldma_switch_cfg CLDMA_ID_AP CLDMA_SHARED_Q_CFG;
     t7xx_cldma_start CLDMA_ID_AP;
     upd_core CLDMA_ID_AP (\<lambda>x. x\<lparr>handshake_ongoing := True\<rparr>);
     t7xx_core_hk_handler others fuel CLDMA_ID_AP FSM_EVENT_AP_HS2 FSM_EVENT_AP_HS2_EXIT
   }"

text \<open>One handshake interrupt that is pending at the start: the work is queued, the interrupt
  acknowledged and masked.\<close>

definition start_handshake :: "u32 \<Rightarrow> string \<Rightarrow> ('z modem_layer_scheme, unit) state" where
  "start_handshake hk work = do {
     e \<leftarrow> gets exp_id;
     c_when (e AND hk \<noteq> 0) (do {
       kcall work [];
       upd_exp_id (\<lambda>e. e AND NOT hk);
       b \<leftarrow> gets mhccif_base;
       iowrite32 hk (b + REG_EP2RC_SW_INT_ACK);
       t7xx_mhccif_mask_set hk
     })
   }"

definition t7xx_md_event_notify :: "md_event_id \<Rightarrow> ('z modem_layer_scheme, unit) state" where
  "t7xx_md_event_notify evt_id = (case evt_id of
     FSM_PRE_START \<Rightarrow>
       t7xx_mhccif_mask_clr (D2H_INT_PORT_ENUM OR D2H_INT_ASYNC_MD_HK OR D2H_INT_ASYNC_AP_HK)
   | FSM_START \<Rightarrow> do {
       t7xx_mhccif_mask_set D2H_INT_PORT_ENUM;
       int_sta \<leftarrow> t7xx_get_interrupt_status;
       upd_exp_id (\<lambda>e. e OR int_sta);
       e \<leftarrow> gets exp_id;
       exp \<leftarrow> get_fsm exp_flg;
       (if e AND D2H_INT_EXCEPTION_INIT \<noteq> 0 then do {
          upd_fsm (\<lambda>f. f\<lparr>exp_flg := True\<rparr>);
          upd_exp_id (\<lambda>e. e AND NOT D2H_INT_EXCEPTION_INIT AND NOT D2H_INT_ASYNC_MD_HK
            AND NOT D2H_INT_ASYNC_AP_HK)
        } else if exp then upd_exp_id (\<lambda>e. e AND NOT D2H_INT_ASYNC_MD_HK AND NOT D2H_INT_ASYNC_AP_HK)
        else do {
          start_handshake D2H_INT_ASYNC_MD_HK ''queue_work handshake_work'';
          start_handshake D2H_INT_ASYNC_AP_HK ''queue_work ap_handshake_work''
        });
       t7xx_mhccif_mask_clr (D2H_INT_EXCEPTION_INIT OR D2H_INT_EXCEPTION_INIT_DONE OR
         D2H_INT_EXCEPTION_CLEARQ_DONE OR D2H_INT_EXCEPTION_ALLQ_RESET)
     }
   | FSM_READY \<Rightarrow> do {
       t7xx_mhccif_mask_set D2H_INT_ASYNC_MD_HK;
       t7xx_mhccif_mask_set D2H_INT_ASYNC_AP_HK
     })"

section \<open>Set-up and reset of the modem\<close>

definition t7xx_core_reset :: "('z modem_layer_scheme, errno + unit) state" where
  "t7xx_core_reset = do {
     upd_core CLDMA_ID_MD (\<lambda>x. x\<lparr>core_ready := False\<rparr>);
     ctl \<leftarrow> gets fsm_ctl_set;
     if \<not> ctl then return (Inl EINVAL) else do {
       ongoing \<leftarrow> gets (\<lambda>s. handshake_ongoing (core s CLDMA_ID_MD));
       ret \<leftarrow> (if ongoing then t7xx_fsm_append_event FSM_EVENT_MD_HS2_EXIT [] else return (Inr ()));
       if isl ret then return ret else do {
         upd_core CLDMA_ID_MD (\<lambda>x. x\<lparr>handshake_ongoing := False\<rparr>);
         return (Inr ())
       }
     }
   }"

definition t7xx_md_reset :: "('z modem_layer_scheme, errno + unit) state" where
  "t7xx_md_reset = do {
     modify (\<lambda>s. s\<lparr>md_init_finish := False, exp_id := 0\<rparr>);
     t7xx_fsm_reset;
     t7xx_cldma_reset CLDMA_ID_MD;
     t7xx_cldma_reset CLDMA_ID_AP;
     t7xx_port_proxy_reset;
     modify (\<lambda>s. s\<lparr>md_init_finish := True\<rparr>);
     t7xx_core_reset
   }"

text \<open>The structure is zeroed memory.\<close>

definition must_support :: "nat \<Rightarrow> u8 list \<Rightarrow> u8 list" where
  "must_support i fs = fs[i := (fs ! i AND NOT (FMASK FEATURE_MSK)) OR
     FIELD_PREP FEATURE_MSK MTK_FEATURE_MUST_BE_SUPPORTED]"

definition t7xx_md_alloc :: "('z modem_layer_scheme, bool) state" where
  "t7xx_md_alloc = do {
     p \<leftarrow> kquery ''devm_kzalloc'' [];
     if p = 0 then return False else do {
       modify (\<lambda>s. s\<lparr>core := (\<lambda>_. \<lparr>core_ready = False, handshake_ongoing = False,
         feature_set = replicate FEATURE_COUNT 0\<rparr>), ctl_port := (\<lambda>_. None), md_init_finish := False,
         rgu_irq_asserted := False, exp_id := 0, fsm_ctl_set := False\<rparr>);
       wq \<leftarrow> kquery ''alloc_workqueue md_hk_wq'' [];
       modify (\<lambda>s. s\<lparr>handshake_wq := wq\<rparr>);
       if wq = 0 then return False else do {
         upd_core CLDMA_ID_MD (\<lambda>x. x\<lparr>feature_set := must_support RT_ID_MD_PORT_ENUM (feature_set x)\<rparr>);
         upd_core CLDMA_ID_AP (\<lambda>x. x\<lparr>feature_set := must_support RT_ID_AP_PORT_ENUM (feature_set x)\<rparr>);
         return True
       }
     }
   }"

end
