(* ===== verification/Fsm_Machine.thy ===== *)
theory Fsm_Machine
  imports Modem
begin

text \<open>
  The state machine of the state monitor, \<open>t7xx_state_monitor.c\<close>: what its thread does for each
  command. \<open>notifier_fn\<close> gives the function of a registered notifier, \<open>others\<close> is what other
  threads do while this one waits.
\<close>

abbreviation (input) FSM_DRM_DISABLE_DELAY_MS :: nat where "FSM_DRM_DISABLE_DELAY_MS \<equiv> 200"
abbreviation (input) FSM_MD_EX_REC_OK_TIMEOUT_MS :: nat where "FSM_MD_EX_REC_OK_TIMEOUT_MS \<equiv> 10000"
abbreviation (input) FSM_MD_EX_PASS_TIMEOUT_MS :: nat where "FSM_MD_EX_PASS_TIMEOUT_MS \<equiv> 45000"

type_synonym 'z notifiers = "u64 \<Rightarrow> md_state \<Rightarrow> ('z modem_layer_scheme, unit) state"

section \<open>The stage of the device\<close>

text \<open>\<open>read_poll_timeout\<close> where the value that was read last is used.\<close>

primrec poll_value_loop ::
  "nat \<Rightarrow> ('z io_scheme, 'a) state \<Rightarrow> ('a \<Rightarrow> bool) \<Rightarrow> ('z io_scheme, errno + 'a) state" where
  "poll_value_loop 0 op ok = do {
     v \<leftarrow> op;
     if ok v then return (Inr v) else do {
       w \<leftarrow> op;
       return (if ok w then Inr w else Inl ETIMEDOUT)
     }
   }"
| "poll_value_loop (Suc n) op ok = do {
     v \<leftarrow> op;
     if ok v then return (Inr v) else poll_value_loop n op ok
   }"

definition stage_of :: "u32 \<Rightarrow> u32" where
  "stage_of status = FIELD_GET MISC_STAGE_MASK status"

definition expected_stage :: "u32 \<Rightarrow> bool" where
  "expected_stage status \<longleftrightarrow>
     status AND FMASK MISC_STAGE_MASK = t7xx_device_stage_val T7XX_DEV_STAGE_LINUX \<or>
     status AND FMASK MISC_STAGE_MASK = t7xx_device_stage_val T7XX_DEV_STAGE_LK"

definition wait_for_expected_dev_stage :: "('z t7xx_scheme, errno + u32) state" where
  "wait_for_expected_dev_stage = do {
     b \<leftarrow> gets IREG_BASE;
     n \<leftarrow> kquery ''poll_rounds'' [100000, 60000000];
     poll_value_loop (unat n) (ioread32 (b + T7XX_PCIE_MISC_DEV_STATUS)) expected_stage
   }"

section \<open>Exceptions\<close>

text \<open>The reason of an exception command; \<open>None\<close> is a number without a meaning.\<close>

definition ex_reason :: "u32 \<Rightarrow> t7xx_ex_reason option" where
  "ex_reason flag =
     (let r = FIELD_GET FSM_CMD_EX_REASON flag in
      if r = 0 then Some EXCEPTION_HS_TIMEOUT else if r = 1 then Some EXCEPTION_EVENT else None)"

definition finish_opt :: "u64 option \<Rightarrow> errno + unit \<Rightarrow> ('z fsm_layer_scheme, unit) state" where
  "finish_opt cmd res = (case cmd of None \<Rightarrow> return () | Some c \<Rightarrow> fsm_finish_command c res)"

definition fsm_routine_exception ::
  "'z notifiers \<Rightarrow> ('z modem_layer_scheme, unit) state \<Rightarrow> u64 option \<Rightarrow> t7xx_ex_reason option \<Rightarrow>
   ('z modem_layer_scheme, unit) state" where
  "fsm_routine_exception notifier_fn others cmd reason = do {
     cs \<leftarrow> get_fsm curr_state;
     if cs \<noteq> FSM_STATE_READY \<and> cs \<noteq> FSM_STATE_STARTING then finish_opt cmd (Inl EINVAL) else do {
       upd_fsm (\<lambda>f. f\<lparr>curr_state := FSM_STATE_EXCEPTION\<rparr>);
       c_when (reason = Some EXCEPTION_EVENT) (do {
         t7xx_fsm_broadcast_state notifier_fn MD_STATE_EXCEPTION;
         t7xx_pci_pm_exp_detected;
         t7xx_md_exception_handshake others;
         fsm_wait_for_event others FSM_EVENT_MD_EX_REC_OK FSM_EVENT_MD_EX
           (FSM_MD_EX_REC_OK_TIMEOUT_MS div FSM_EVENT_POLL_INTERVAL_MS);
         fsm_wait_for_event others FSM_EVENT_MD_EX_PASS FSM_EVENT_INVALID
           (FSM_MD_EX_PASS_TIMEOUT_MS div FSM_EVENT_POLL_INTERVAL_MS)
       });
       finish_opt cmd (Inr ())
     }
   }"

section \<open>The boot loader\<close>

text \<open>A dedicated queue for the first port, which must be one that can be enabled.\<close>

definition t7xx_lk_stage_event_handling :: "u32 \<Rightarrow> ('z modem_layer_scheme, unit) state" where
  "t7xx_lk_stage_event_handling status = do {
     let lk_event = FIELD_GET MISC_LK_EVENT_MASK status;
     c_when (lk_event = lk_event_id_val LK_EVENT_CREATE_PD_PORT \<or>
       lk_event = lk_event_id_val LK_EVENT_CREATE_POST_DL_PORT) (do {
       t7xx_cldma_hif_hw_init CLDMA_ID_AP;
       t7xx_cldma_stop CLDMA_ID_AP;
       t7xx_cldma_switch_cfg CLDMA_ID_AP CLDMA_DEDICATED_Q_CFG;
       f \<leftarrow> get_port 0 (ops \<circ> port_conf);
       (if f = WWAN_SUB_PORT_OPS then t7xx_port_wwan_enable_chl 0 else fault);
       t7xx_cldma_start CLDMA_ID_AP;
       t7xx_mode_update (if lk_event = lk_event_id_val LK_EVENT_CREATE_POST_DL_PORT
         then T7XX_FASTBOOT_DOWNLOAD else T7XX_FASTBOOT_DUMP)
     })
   }"

section \<open>Stopping\<close>

definition fsm_stopped_handler :: "'z notifiers \<Rightarrow> ('z modem_layer_scheme, errno + unit) state" where
  "fsm_stopped_handler notifier_fn = do {
     upd_fsm (\<lambda>f. f\<lparr>curr_state := FSM_STATE_STOPPED\<rparr>);
     m \<leftarrow> get_pci mode;
     if m = T7XX_FASTBOOT_DOWNLOAD \<or> m = T7XX_FASTBOOT_DUMP then return (Inr ()) else do {
       t7xx_fsm_broadcast_state notifier_fn MD_STATE_STOPPED;
       t7xx_md_reset
     }
   }"

definition fsm_routine_stopped :: "'z notifiers \<Rightarrow> u64 \<Rightarrow> ('z modem_layer_scheme, unit) state" where
  "fsm_routine_stopped notifier_fn cmd = do {
     cs \<leftarrow> get_fsm curr_state;
     if cs = FSM_STATE_STOPPED then fsm_finish_command cmd (Inl EINVAL) else do {
       ret \<leftarrow> fsm_stopped_handler notifier_fn;
       fsm_finish_command cmd ret
     }
   }"

definition fsm_routine_stopping :: "'z notifiers \<Rightarrow> u64 \<Rightarrow> ('z modem_layer_scheme, unit) state" where
  "fsm_routine_stopping notifier_fn cmd = do {
     cs \<leftarrow> get_fsm curr_state;
     if cs = FSM_STATE_STOPPED \<or> cs = FSM_STATE_STOPPING then fsm_finish_command cmd (Inl EINVAL) else do {
       upd_fsm (\<lambda>f. f\<lparr>curr_state := FSM_STATE_STOPPING\<rparr>);
       t7xx_fsm_broadcast_state notifier_fn MD_STATE_WAITING_TO_STOP;
       t7xx_cldma_stop CLDMA_ID_MD;
       t7xx_mhccif_h2d_swint_trigger H2D_CH_DRM_DISABLE_AP;
       kcall ''msleep'' [of_nat FSM_DRM_DISABLE_DELAY_MS];
       ret \<leftarrow> fsm_stopped_handler notifier_fn;
       fsm_finish_command cmd ret
     }
   }"

section \<open>Starting\<close>

definition t7xx_fsm_broadcast_ready_state :: "'z notifiers \<Rightarrow> ('z modem_layer_scheme, unit) state" where
  "t7xx_fsm_broadcast_ready_state notifier_fn = do {
     st \<leftarrow> get_fsm fsm_md_state;
     c_when (st = MD_STATE_WAITING_FOR_HS2) (do {
       upd_fsm (\<lambda>f. f\<lparr>fsm_md_state := MD_STATE_READY\<rparr>);
       fsm_state_notify notifier_fn MD_STATE_READY;
       t7xx_port_proxy_md_status_notify MD_STATE_READY
     })
   }"

definition fsm_routine_ready :: "'z notifiers \<Rightarrow> ('z modem_layer_scheme, unit) state" where
  "fsm_routine_ready notifier_fn = do {
     upd_fsm (\<lambda>f. f\<lparr>curr_state := FSM_STATE_READY\<rparr>);
     t7xx_fsm_broadcast_ready_state notifier_fn;
     t7xx_mode_update T7XX_READY;
     t7xx_md_event_notify FSM_READY
   }"

text \<open>What comes after the wait for the handshake.\<close>

definition fsm_handshake_over ::
  "'z notifiers \<Rightarrow> ('z modem_layer_scheme, unit) state \<Rightarrow> ('z modem_layer_scheme, errno + unit) state" where
  "fsm_handshake_over notifier_fn others = do {
     md \<leftarrow> gets (\<lambda>s. core s CLDMA_ID_MD);
     ap \<leftarrow> gets (\<lambda>s. core s CLDMA_ID_AP);
     if \<not> core_ready md then do {
       c_when (handshake_ongoing md) (do { t7xx_fsm_append_event FSM_EVENT_MD_HS2_EXIT []; return () });
       fsm_routine_exception notifier_fn others None (Some EXCEPTION_HS_TIMEOUT);
       return (Inl ETIMEDOUT)
     } else if \<not> core_ready ap then do {
       c_when (handshake_ongoing ap) (do { t7xx_fsm_append_event FSM_EVENT_AP_HS2_EXIT []; return () });
       fsm_routine_exception notifier_fn others None (Some EXCEPTION_HS_TIMEOUT);
       return (Inl ETIMEDOUT)
     } else do {
       t7xx_pci_pm_init_late;
       fsm_routine_ready notifier_fn;
       return (Inr ())
     }
   }"

text \<open>
  Both cores have a minute for the handshake, which \<open>others\<close> does; the wait also ends when an
  exception is seen.
\<close>

definition fsm_routine_starting ::
  "'z notifiers \<Rightarrow> ('z modem_layer_scheme, unit) state \<Rightarrow> ('z modem_layer_scheme, errno + unit) state" where
  "fsm_routine_starting notifier_fn others = do {
     upd_fsm (\<lambda>f. f\<lparr>curr_state := FSM_STATE_STARTING\<rparr>);
     t7xx_fsm_broadcast_state notifier_fn MD_STATE_WAITING_FOR_HS1;
     t7xx_md_event_notify FSM_START;
     others;
     kquery ''wait_event_interruptible_timeout async_hk_wq'' [60];
     fsm_handshake_over notifier_fn others
   }"

definition get_cmd_flag :: "u64 \<Rightarrow> ('z fsm_layer_scheme, u32) state" where
  "get_cmd_flag c = do {
     x \<leftarrow> gets (\<lambda>s. fsm_cmds s c);
     case x of
       Some y \<Rightarrow> return (cmd_flag y)
     | None \<Rightarrow> do { modify (\<lambda>s. s\<lparr>fsm_use_after_free := True\<rparr>); return 0 }
   }"

text \<open>What starting does in each stage of the device; \<open>flag\<close> is that of the command.\<close>

definition fsm_start_stage ::
  "'z notifiers \<Rightarrow> ('z modem_layer_scheme, unit) state \<Rightarrow> u32 \<Rightarrow> u32 \<Rightarrow>
   ('z modem_layer_scheme, errno + unit) state" where
  "fsm_start_stage notifier_fn others flag status = (let stage = stage_of status in
     if stage = t7xx_device_stage_val t7xx_device_stage.T7XX_DEV_STAGE_INIT \<or>
       stage = t7xx_device_stage_val T7XX_DEV_STAGE_BROM_PRE \<or>
       stage = t7xx_device_stage_val T7XX_DEV_STAGE_BROM_POST
     then t7xx_fsm_append_cmd FSM_CMD_START 0
     else if stage = t7xx_device_stage_val T7XX_DEV_STAGE_LK then do {
       t7xx_port_proxy_set_cfg PORT_CFG_ID_EARLY;
       t7xx_lk_stage_event_handling status;
       return (Inr ())
     } else if stage = t7xx_device_stage_val T7XX_DEV_STAGE_LINUX then do {
       t7xx_mhccif_mask_clr (D2H_INT_PORT_ENUM OR D2H_INT_ASYNC_MD_HK OR D2H_INT_ASYNC_AP_HK);
       if flag = 0 then return (Inr ()) else do {
         t7xx_cldma_hif_hw_init CLDMA_ID_AP;
         t7xx_cldma_hif_hw_init CLDMA_ID_MD;
         t7xx_port_proxy_set_cfg PORT_CFG_ID_NORMAL;
         fsm_routine_starting notifier_fn others
       }
     } else return (Inr ()))"

definition fsm_routine_start ::
  "'z notifiers \<Rightarrow> ('z modem_layer_scheme, unit) state \<Rightarrow> u64 \<Rightarrow> ('z modem_layer_scheme, unit) state" where
  "fsm_routine_start notifier_fn others cmd = do {
     cs \<leftarrow> get_fsm curr_state;
     if cs \<noteq> FSM_STATE_INIT \<and> cs \<noteq> FSM_STATE_PRE_START \<and> cs \<noteq> FSM_STATE_STOPPED
     then fsm_finish_command cmd (Inl EINVAL) else do {
       upd_fsm (\<lambda>f. f\<lparr>curr_state := FSM_STATE_PRE_START\<rparr>);
       t7xx_md_event_notify FSM_PRE_START;
       polled \<leftarrow> wait_for_expected_dev_stage;
       ret \<leftarrow> (case polled of
         Inl e \<Rightarrow> return (Inl e)
       | Inr status \<Rightarrow> do {
           old \<leftarrow> get_fsm fsm_status;
           flag \<leftarrow> get_cmd_flag cmd;
           if status \<noteq> old \<or> flag \<noteq> 0 then do {
             ret \<leftarrow> fsm_start_stage notifier_fn others flag status;
             upd_fsm (\<lambda>f. f\<lparr>fsm_status := status\<rparr>);
             return ret
           } else return (Inr ())
         });
       c_when (isl ret) (t7xx_mode_update T7XX_UNKNOWN);
       fsm_finish_command cmd ret
     }
   }"

section \<open>The thread\<close>

definition fsm_handle_cmd ::
  "'z notifiers \<Rightarrow> ('z modem_layer_scheme, unit) state \<Rightarrow> u64 \<Rightarrow> ('z modem_layer_scheme, unit) state" where
  "fsm_handle_cmd notifier_fn others cmd = do {
     x \<leftarrow> gets (\<lambda>s. fsm_cmds s cmd);
     case x of
       None \<Rightarrow> modify (\<lambda>s. s\<lparr>fsm_use_after_free := True\<rparr>)
     | Some y \<Rightarrow> (case cmd_id y of
         FSM_CMD_START \<Rightarrow> fsm_routine_start notifier_fn others cmd
       | FSM_CMD_EXCEPTION \<Rightarrow> fsm_routine_exception notifier_fn others (Some cmd) (ex_reason (cmd_flag y))
       | FSM_CMD_PRE_STOP \<Rightarrow> fsm_routine_stopping notifier_fn cmd
       | FSM_CMD_STOP \<Rightarrow> fsm_routine_stopped notifier_fn cmd
       | FSM_CMD_INVALID \<Rightarrow> do {
           fsm_finish_command cmd (Inl EINVAL);
           fsm_flush_event_cmd_qs
         })
   }"

text \<open>The thread runs until it is told to stop, so it has fuel.\<close>

primrec fsm_main_thread ::
  "'z notifiers \<Rightarrow> ('z modem_layer_scheme, unit) state \<Rightarrow> nat \<Rightarrow> ('z modem_layer_scheme, unit option) state" where
  "fsm_main_thread notifier_fn others 0 = return None"
| "fsm_main_thread notifier_fn others (Suc k) = do {
     stop \<leftarrow> kquery ''kthread_should_stop'' [];
     if stop \<noteq> 0 then return (Some ()) else do {
       cs \<leftarrow> get_fsm command_queue;
       interrupted \<leftarrow> (if cs \<noteq> [] then return 0 else do {
         others;
         kquery ''wait_event_interruptible command_wq'' []
       });
       if interrupted \<noteq> 0 then fsm_main_thread notifier_fn others k else do {
         stop \<leftarrow> kquery ''kthread_should_stop'' [];
         if stop \<noteq> 0 then return (Some ()) else do {
           cs \<leftarrow> get_fsm command_queue;
           if cs = [] then do { fault; return None } else do {
             cmd \<leftarrow> fsm_take_cmd;
             fsm_handle_cmd notifier_fn others cmd;
             fsm_main_thread notifier_fn others k
           }
         }
       }
     }
   }"

end
