(* ===== verification/Fsm_Frame.thy ===== *)
theory Fsm_Frame
  imports Fsm_Machine Cldma_Rx
begin

text \<open>
  What the state machine's operations leave alone. An observation of the state that sees
  neither the outside world nor the engines, the ports and the queues of the state monitor is
  \<open>blind_to_work\<close>; the theory goes through the operations once and shows that none of them
  changes such an observation.
\<close>

lemma preserves_bind_opt [preserves_intros]:
  "preserves f m \<Longrightarrow> (\<And>a. preserves f (g a)) \<Longrightarrow> preserves f (bind_opt m g)"
  unfolding bind_opt_def by (intro preserves_intros)

lemma preserves_case_txrx [preserves_intros]:
  "preserves f m \<Longrightarrow> preserves f g \<Longrightarrow> preserves f (case d of MTK_TX \<Rightarrow> m | MTK_RX \<Rightarrow> g)"
  by (cases d) simp_all

lemma preserves_case_ops [preserves_intros]:
  "preserves f a \<Longrightarrow> preserves f b \<Longrightarrow> preserves f c \<Longrightarrow>
   preserves f (case p of WWAN_SUB_PORT_OPS \<Rightarrow> a | CTL_PORT_OPS \<Rightarrow> b | TRACE_PORT_OPS \<Rightarrow> c)"
  by (cases p) simp_all

lemma preserves_case_stage [preserves_intros]:
  "preserves f a \<Longrightarrow> preserves f b \<Longrightarrow> preserves f c \<Longrightarrow> preserves f d \<Longrightarrow>
   preserves f (case p of HIF_EX_INIT \<Rightarrow> a | HIF_EX_INIT_DONE \<Rightarrow> b | HIF_EX_CLEARQ_DONE \<Rightarrow> c
     | HIF_EX_ALLQ_RESET \<Rightarrow> d)"
  by (cases p) simp_all

lemma preserves_case_event [preserves_intros]:
  "preserves f a \<Longrightarrow> preserves f b \<Longrightarrow> preserves f c \<Longrightarrow>
   preserves f (case p of FSM_PRE_START \<Rightarrow> a | FSM_START \<Rightarrow> b | FSM_READY \<Rightarrow> c)"
  by (cases p) simp_all

lemma preserves_counting [preserves_intros]: "(\<And>x. preserves f (g x)) \<Longrightarrow> preserves f (count_ok xs g)"
  by (induction xs) (auto intro!: preserves_intros)

lemma preserves_poll_value [preserves_intros]: "preserves f op \<Longrightarrow> preserves f (poll_value_loop n op ok)"
  by (induction n) (auto intro!: preserves_intros)

locale blind_to_engines =
  fixes f :: "'z cldma_layer_scheme \<Rightarrow> 'b"
  assumes blind_emit: "f (emit e s) = f s" and blind_pci: "f (s\<lparr>pci := p\<rparr>) = f s"
    and blind_engines: "f (s\<lparr>md_ctrl := m\<rparr>) = f s" and blind_fault: "f (s\<lparr>cldma_fault := True\<rparr>) = f s"
begin

lemmas acc = preserves_cl_access [where f = f, OF blind_engines blind_fault]
lemmas hw = preserves_cldma_hw [where f = f, OF blind_emit]
lemmas dev = preserves_pci_dev [where f = f, OF blind_pci blind_emit]

lemma keeps_irq [preserves_intros]:
  "preserves f (t7xx_cldma_enable_irq c)" "preserves f (t7xx_cldma_disable_irq c)"
  unfolding t7xx_cldma_enable_irq_def t7xx_cldma_disable_irq_def by (intro preserves_intros acc dev)+

lemma keeps_stop [preserves_intros]: "preserves f (t7xx_cldma_stop c)"
  unfolding t7xx_cldma_stop_def t7xx_cldma_qs_are_active_def
  by (intro preserves_intros acc hw dev blind_emit)

lemma keeps_ring_free [preserves_intros]: "preserves f (t7xx_cldma_ring_free c d i)"
  unfolding t7xx_cldma_ring_free_def by (intro preserves_intros acc blind_emit)

lemma keeps_late_release [preserves_intros]: "preserves f (t7xx_cldma_late_release c)"
  unfolding t7xx_cldma_late_release_def by (intro preserves_intros acc blind_emit)

lemma keeps_struct_reset [preserves_intros]: "preserves f (md_cd_queue_struct_reset c d i)"
  unfolding md_cd_queue_struct_reset_def by (intro acc)

lemma keeps_reset [preserves_intros]: "preserves f (t7xx_cldma_reset c)"
  unfolding t7xx_cldma_reset_def by (intro preserves_intros acc blind_emit)

lemma keeps_start [preserves_intros]: "preserves f (t7xx_cldma_start c)"
  unfolding t7xx_cldma_start_def set_start_addr_def by (intro preserves_intros acc hw)

lemma keeps_adjust [preserves_intros]: "preserves f (t7xx_cldma_adjust_config c k)"
  unfolding t7xx_cldma_adjust_config_def t7xx_cldma_set_recv_skb_def by (intro preserves_intros acc)

lemma keeps_alloc [preserves_intros]:
  "preserves f (t7xx_cldma_alloc_and_map_skb r n)" "preserves f t7xx_alloc_tx_request"
  "preserves f (t7xx_alloc_rx_request n)"
proof -
  show a: "preserves f (t7xx_cldma_alloc_and_map_skb r n)" for r n
    unfolding t7xx_cldma_alloc_and_map_skb_def by (intro preserves_intros blind_emit)
  show "preserves f t7xx_alloc_tx_request" "preserves f (t7xx_alloc_rx_request n)"
    unfolding t7xx_alloc_tx_request_def t7xx_alloc_rx_request_def by (intro preserves_intros blind_emit a)+
qed

lemma keeps_link [preserves_intros]: "preserves f (link_ring c d i js k)"
  by (induction js arbitrary: k) (auto intro!: preserves_intros acc)

lemma keeps_fill [preserves_intros]: "preserves f (rx_ring_fill c i k)" "preserves f (tx_ring_fill c i k)"
proof -
  show "preserves f (rx_ring_fill c i k)"
    by (induction k) (auto simp: Let_def intro!: preserves_intros acc)
  show "preserves f (tx_ring_fill c i k)"
    by (induction k) (auto simp: Let_def intro!: preserves_intros acc)
qed

lemma keeps_q_reset [preserves_intros]: "preserves f (t7xx_cldma_q_reset c d i)"
  unfolding t7xx_cldma_q_reset_def by (intro preserves_intros acc)

lemma keeps_late_init [preserves_intros]: "preserves f (t7xx_cldma_late_init c)"
  unfolding t7xx_cldma_late_init_def t7xx_cldma_tx_ring_init_def t7xx_cldma_rx_ring_init_def
    t7xx_cldma_txq_init_def t7xx_cldma_rxq_init_def
  by (intro preserves_intros acc blind_emit)

lemma keeps_switch_cfg [preserves_intros]: "preserves f (t7xx_cldma_switch_cfg c k)"
  unfolding t7xx_cldma_switch_cfg_def by (intro preserves_intros)

lemma keeps_hif_hw_init [preserves_intros]: "preserves f (t7xx_cldma_hif_hw_init c)"
  unfolding t7xx_cldma_hif_hw_init_def by (intro preserves_intros acc hw)

lemma keeps_refill [preserves_intros]: "preserves f (refill_empty c i ks)"
  by (induction ks) (auto intro!: preserves_intros acc)

lemma preserves_kfree_skb [preserves_intros]: "preserves f (dev_kfree_cskb x)"
  by (intro preserves_intros blind_emit)

lemma keeps_clear_all [preserves_intros]: "preserves f (t7xx_cldma_clear_all_qs c d)"
  unfolding t7xx_cldma_clear_all_qs_def t7xx_cldma_clear_txq_def t7xx_cldma_clear_rxq_def
  by (intro preserves_intros acc blind_emit)

lemma keeps_stop_all [preserves_intros]: "preserves f (t7xx_cldma_stop_all_qs c d)"
  unfolding t7xx_cldma_stop_all_qs_def set_active_def by (intro preserves_intros acc hw)

lemma keeps_exception [preserves_intros]: "preserves f (t7xx_cldma_exception c st)"
  unfolding t7xx_cldma_exception_def t7xx_cldma_hw_reset_def set_bits_def
  by (intro preserves_intros acc hw blind_emit)

end

text \<open>\<open>core\<close> is not in the list: who changes it is the point of some of the properties.\<close>

locale blind_to_work = blind_to_engines f for f :: "'z modem_layer_scheme \<Rightarrow> 'b" +
  assumes blind_ports: "f (s\<lparr>port_prox := x\<rparr>) = f s" and blind_ctl: "f (s\<lparr>ctl_port := k\<rparr>) = f s"
    and blind_dir: "f (s\<lparr>debugfs_dir := a\<rparr>) = f s"
    and blind_fsm: "curr_state x' = curr_state (fsm s) \<Longrightarrow> f (s\<lparr>fsm := x'\<rparr>) = f s"
    and blind_cmds: "f (s\<lparr>fsm_cmds := q\<rparr>) = f s" and blind_uaf: "f (s\<lparr>fsm_use_after_free := True\<rparr>) = f s"
    and blind_exp: "f (s\<lparr>exp_id := e'\<rparr>) = f s" and blind_finish: "f (s\<lparr>md_init_finish := b\<rparr>) = f s"
begin

lemma upd [preserves_intros]:
  "preserves f (get_prox g)" "preserves f (upd_prox h)" "preserves f (get_port p k)"
  "preserves f (upd_port p l)" "preserves f (get_fsm m)" "preserves f (upd_exp_id n)"
  unfolding get_prox_def upd_prox_def get_port_def upd_port_def get_fsm_def upd_exp_id_def
  by (intro preserves_intros blind_ports blind_exp)+

lemma upd_fsm_other [preserves_intros]:
  "(\<And>x. curr_state (g x) = curr_state x) \<Longrightarrow> preserves f (upd_fsm g)"
  unfolding upd_fsm_def by (intro preserves_intros blind_fsm) simp

lemma upd_cmd_any [preserves_intros]: "preserves f (upd_cmd c g)"
  unfolding upd_cmd_def
  by (intro preserves_intros) (simp add: blind_cmds blind_uaf split: option.split)

lemma keeps_commands [preserves_intros]:
  "preserves f (kref_put c)" "preserves f (fsm_finish_command c r)" "preserves f (t7xx_fsm_append_cmd i fl)"
  "preserves f (finish_opt x r)" "preserves f (get_cmd_flag c)"
proof -
  show k: "preserves f (kref_put c)" for c
    unfolding kref_put_def fsm_release_command_def by (intro preserves_intros blind_emit blind_cmds)
  show fin: "preserves f (fsm_finish_command c r)" for c r
    unfolding fsm_finish_command_def by (intro preserves_intros blind_emit k)
  show "preserves f (t7xx_fsm_append_cmd i fl)"
    unfolding t7xx_fsm_append_cmd_def fsm_post_cmd_def fsm_await_cmd_def Let_def
    by (intro preserves_intros blind_emit blind_cmds k) simp_all
  show "preserves f (finish_opt x r)"
    unfolding finish_opt_def by (intro preserves_intros fin)
  show "preserves f (get_cmd_flag c)"
    unfolding get_cmd_flag_def by (intro preserves_intros blind_uaf)
qed

lemma keeps_events [preserves_intros]:
  "preserves f (t7xx_fsm_append_event i d)" "preserves f fsm_del_kf_event" "preserves f fsm_flush_event_cmd_qs"
  unfolding t7xx_fsm_append_event_def fsm_del_kf_event_def kfree_event_def fsm_flush_event_cmd_qs_def
  by (intro preserves_intros blind_emit; simp)+

lemma keeps_wait_for_event [preserves_intros]:
  "preserves f others \<Longrightarrow> preserves f (fsm_wait_for_event others a b n)"
  by (induction n) (auto simp: Let_def fsm_wait_for_event.simps intro!: preserves_intros blind_emit)

lemma keeps_for_each_port [preserves_intros]:
  "(\<And>i. preserves f (g i)) \<Longrightarrow> preserves f (for_each_proxy_port g)"
  unfolding for_each_proxy_port_def by (intro preserves_intros)

lemma keeps_queue_no [preserves_intros]:
  "preserves f (t7xx_port_get_queue_no p)" "preserves f (t7xx_get_port_mtu p)"
  unfolding t7xx_get_port_mtu_def t7xx_port_get_queue_no_def t7xx_fsm_get_md_state_def
  by (intro preserves_intros acc)+

lemma keeps_wwan [preserves_intros]:
  "preserves f (t7xx_port_wwan_create p)" "preserves f (t7xx_port_wwan_init p)"
  "preserves f (t7xx_port_wwan_uninit p)" "preserves f (t7xx_port_wwan_enable_chl p)"
  unfolding t7xx_port_wwan_create_def t7xx_port_wwan_init_def t7xx_port_wwan_uninit_def
    t7xx_port_wwan_enable_chl_def
  by (intro preserves_intros blind_emit)+

lemma keeps_ctl [preserves_intros]: "preserves f (port_ctl_init p)" "preserves f (port_ctl_uninit p)"
  unfolding port_ctl_init_def port_ctl_uninit_def by (intro preserves_intros blind_emit)+

lemma keeps_trace [preserves_intros]:
  "preserves f (t7xx_trace_port_uninit p)" "preserves f (t7xx_port_trace_md_state_notify p st)"
  unfolding t7xx_trace_port_uninit_def t7xx_port_trace_md_state_notify_def
  by (intro preserves_intros blind_emit blind_dir)+

lemma keeps_ports [preserves_intros]:
  "preserves f (t7xx_port_proxy_md_status_notify st)" "preserves f t7xx_port_proxy_reset"
  "preserves f (t7xx_port_proxy_set_cfg cfg)"
  unfolding t7xx_port_proxy_md_status_notify_def t7xx_port_proxy_reset_def t7xx_port_proxy_set_cfg_def
    t7xx_port_proxy_uninit_def t7xx_proxy_init_all_ports_def t7xx_proxy_setup_ch_mapping_def map_port_def
    t7xx_port_struct_init_def ops_md_state_notify_def ops_init_def ops_uninit_def t7xx_port_wwan_md_state_notify_def
    Let_def
  by (intro preserves_intros blind_ctl)+

lemma keeps_notify [preserves_intros]:
  "(\<And>n st. preserves f (notifier_fn n st)) \<Longrightarrow> preserves f (fsm_state_notify notifier_fn st)"
  unfolding fsm_state_notify_def by (intro preserves_intros)

lemma keeps_broadcast [preserves_intros]:
  "(\<And>n st. preserves f (notifier_fn n st)) \<Longrightarrow> preserves f (t7xx_fsm_broadcast_state notifier_fn st)"
  unfolding t7xx_fsm_broadcast_state_def by (intro preserves_intros) simp_all

lemma keeps_wait_ex [preserves_intros]:
  "preserves f others \<Longrightarrow> preserves f (wait_ex_loop others e n)"
  by (induction n) (auto intro!: preserves_intros blind_emit)

lemma keeps_md_exception [preserves_intros]: "preserves f (t7xx_md_exception st)"
  unfolding t7xx_md_exception_def by (intro preserves_intros dev blind_emit)

lemma keeps_handshake [preserves_intros]:
  "preserves f others \<Longrightarrow> preserves f (t7xx_md_exception_handshake others)"
  unfolding t7xx_md_exception_handshake_def t7xx_wait_hif_ex_hk_event_def by (intro preserves_intros)

lemma keeps_lk [preserves_intros]: "preserves f (t7xx_lk_stage_event_handling st)"
  unfolding t7xx_lk_stage_event_handling_def Let_def by (intro preserves_intros acc dev)

lemma keeps_event_notify [preserves_intros]: "preserves f (t7xx_md_event_notify e)"
  unfolding t7xx_md_event_notify_def start_handshake_def t7xx_get_interrupt_status_def
    t7xx_mhccif_read_sw_int_sts_def
  by (intro preserves_intros dev blind_emit; simp)

lemma keeps_stage [preserves_intros]: "preserves f wait_for_expected_dev_stage"
  unfolding wait_for_expected_dev_stage_def by (intro preserves_intros blind_emit)

end

end
