(* ===== verification/Modem_Props.thy ===== *)
theory Modem_Props
  imports Modem Port_Props
begin

text \<open>
  What is proved of the handshake at boot: the answer to the modem's query lists exactly the
  features it should, the modem's own answer is read within its bounds when it is well
  formed, and outside them when it is not.
\<close>

lemma run_modem [run_simps]:
  "run (upd_core c f) s = ((), s\<lparr>core := (core s)(c := f (core s c))\<rparr>)"
  "run (upd_exp_id g) s = ((), s\<lparr>exp_id := g (exp_id s)\<rparr>)"
  by (simp_all add: upd_core_def upd_exp_id_def run_simps)

lemma emit_modem [simp]:
  "core (emit e s) = core s" "exp_id (emit e s) = exp_id s" "md_init_finish (emit e s) = md_init_finish s"
  "rgu_irq_asserted (emit e s) = rgu_irq_asserted s" "handshake_wq (emit e s) = handshake_wq s"
  "config_acpi (emit e s) = config_acpi s"
  by (simp_all add: emit_def)

lemma run_buf_u8 [run_simps]:
  "0 \<le> k \<Longrightarrow> k < int (length bs) \<Longrightarrow> run (buf_u8 a bs k) s = (bs ! nat k, s)"
  by (simp add: buf_u8_def run_simps)

section \<open>The answer to the modem's query\<close>

text \<open>The features that get an entry, and the entry of feature \<open>i\<close>.\<close>

definition answered :: "u8 list \<Rightarrow> nat \<Rightarrow> bool" where
  "answered bs i \<longleftrightarrow> feature_mask (bs ! (4 + i)) \<noteq> MTK_FEATURE_MUST_BE_SUPPORTED"

definition rt_answer :: "u8 list \<Rightarrow> nat \<Rightarrow> u8 list" where
  "rt_answer bs i = [of_nat i,
     if feature_mask (bs ! (4 + i)) = MTK_FEATURE_DOES_NOT_EXIST then bs ! (4 + i) else 0, 0, 0, 0, 0, 0, 0]"

abbreviation hs_answer :: "u8 list \<Rightarrow> nat list \<Rightarrow> u8 list" where
  "hs_answer bs is \<equiv> concat (map (rt_answer bs) (filter (answered bs) is))"

lemma length_rt_answer [simp]: "length (rt_answer bs i) = 8"
  by (simp add: rt_answer_def)

lemma length_hs_answer: "length (hs_answer bs is) = 8 * length (filter (answered bs) is)"
  by (induction "is") simp_all

lemma run_rt_data_len:
  "list_all (\<lambda>i. 4 + i < length bs) is \<Longrightarrow>
   run (rt_data_len a bs is n) s = (n + length (hs_answer bs is), s)"
proof (induction "is" arbitrary: n)
  case (Cons i "is")
  have "nat (4 + int i) = 4 + i" by simp
  then show ?case using Cons by (simp add: run_simps length_hs_answer answered_def)
qed simp

lemma run_rt_data_fill:
  "list_all (\<lambda>i. 4 + i < length bs) is \<Longrightarrow>
   run (rt_data_fill a bs is (length pre) (pre @ replicate (length (hs_answer bs is)) 0)) s =
     (pre @ hs_answer bs is, s)"
proof (induction "is" arbitrary: pre)
  case (Cons i "is")
  have n: "nat (4 + int i) = 4 + i" by simp
  show ?case
  proof (cases "answered bs i")
    case False
    then show ?thesis using Cons n by (simp add: run_simps answered_def)
  next
    case True
    let ?pre = "pre @ rt_answer bs i"
    have len: "length ?pre = length pre + 8" by simp
    have step: "run (rt_data_fill a bs (i # is) (length pre)
          (pre @ replicate (length (hs_answer bs (i # is))) 0)) s =
        run (rt_data_fill a bs is (length pre + 8) (?pre @ replicate (length (hs_answer bs is)) 0)) s"
      using True Cons.prems n
      by (simp add: run_simps put_u8_def answered_def rt_answer_def length_hs_answer
          list_update_append nth_append)
    show ?thesis unfolding step using Cons.IH [of ?pre] Cons.prems True by (simp add: len)
  qed
qed simp

text \<open>C30: the answer to the modem's query. A query with the right patterns is answered with one
  entry for each feature that the modem does not demand, in order, with the number of the
  feature, and its support information when the modem does not know it. The length that is
  counted first is that of the entries written: no byte is written outside the message or read
  outside the query.\<close>

theorem hs_query_answered:
  fixes s :: "'z port_layer_scheme"
  assumes "72 \<le> length bs" and "le32_at bs 0 = MD_FEATURE_QUERY_ID" "le32_at bs 68 = MD_FEATURE_QUERY_ID"
  defines "ans \<equiv> concat (map (rt_answer bs) (filter (answered bs) [0..<64]))"
  shows "run (t7xx_prepare_device_rt_data others fuel c a bs) s =
    run (do {
      p \<leftarrow> t7xx_ctrl_alloc_skb (length ans);
      case p of
        None \<Rightarrow> return (Some (Inl ENOMEM))
      | Some skb \<Rightarrow> bind_opt (core_send others fuel c (skb\<lparr>cskb_bytes := ans\<rparr>) CTL_ID_HS3_MSG)
          (\<lambda>_. return (Some (Inr ())))
    }) s"
proof -
  have r: "list_all (\<lambda>i. 4 + i < length bs) [0..<64]"
    using assms(1) by (simp add: list_all_iff)
  have len: "run (rt_data_len a bs [0..<64] 0) t = (length ans, t)" for t :: "'z port_layer_scheme"
    using run_rt_data_len [OF r, of a 0 t] by (simp add: ans_def)
  have fill: "run (rt_data_fill a bs [0..<64] 0 (replicate (length ans) 0)) t = (ans, t)"
    for t :: "'z port_layer_scheme"
    using run_rt_data_fill [OF r, of a "[]" t] by (simp add: ans_def)
  show ?thesis
    using assms(1-3)
    by (simp add: t7xx_prepare_device_rt_data_def run_simps len fill split_beta split: option.split del: upt_Suc)
qed

section \<open>The modem's own answer\<close>

text \<open>An entry of the answer: number, support information, data.\<close>

definition rt_entry :: "u8 \<times> u8 \<times> u8 list \<Rightarrow> u8 list" where
  "rt_entry e = (case e of (ident, support, data) \<Rightarrow>
     [ident, support, 0, 0] @ le32_bytes (of_nat (length data)) @ data)"

lemma length_rt_entry: "length (rt_entry e) = 8 + length (snd (snd e))"
  by (simp add: rt_entry_def split: prod.split)

lemma sint_small:
  "0 \<le> k \<Longrightarrow> k < 2 ^ 31 \<Longrightarrow> sint (of_int k :: u32) = k"
  by (simp add: signed_of_int signed_take_bit_int_eq_self)

lemma next_offset_small:
  "int n + 8 + int m < 2 ^ 31 \<Longrightarrow> next_offset (int n) (of_nat m) = int n + 8 + int m"
proof -
  assume h: "int n + 8 + int m < 2 ^ 31"
  have "(of_int (int n + 8) + of_nat m :: u32) = of_int (int n + 8 + int m)" by simp
  moreover have "sint (of_int (int n + 8 + int m) :: u32) = int n + 8 + int m"
    using h by (intro sint_small) simp_all
  ultimately show ?thesis by (simp only: next_offset_def)
qed

lemma rt_entry_fields:
  "le32_at (rt_entry (ident, support, data)) 4 = of_nat (length data)"
  "rt_entry (ident, support, data) ! 1 = support"
  "drop 8 (rt_entry (ident, support, data)) = data"
proof -
  show "le32_at (rt_entry (ident, support, data)) 4 = of_nat (length data)"
    using le32_at_skip [of "[ident, support, 0, 0]" 4 "le32_bytes (of_nat (length data)) @ data"]
    by (simp add: rt_entry_def)
  show "rt_entry (ident, support, data) ! 1 = support" "drop 8 (rt_entry (ident, support, data)) = data"
    by (simp_all add: rt_entry_def le32_bytes_def)
qed

text \<open>One round of the loop on an entry that need not be supported.\<close>

lemma parse_skip_one:
  fixes s :: "'z modem_layer_scheme"
  assumes bs: "bs = pre @ rt_entry e @ post" "length bs < 2 ^ 31"
    and free: "feature_mask (feature_set (core s c) ! i) \<noteq> MTK_FEATURE_MUST_BE_SUPPORTED"
  shows "run (parse_loop c a bs (int (length bs)) (i # is) (int (length pre))) s =
    run (parse_loop c a bs (int (length bs)) is (int (length (pre @ rt_entry e)))) s"
proof -
  obtain ident support data where e: "e = (ident, support, data)" by (cases e) auto
  have len: "le32_at bs (length pre + 4) = of_nat (length data)"
    using le32_at_embed [of 4 "rt_entry e" pre post] by (simp add: bs(1) e length_rt_entry rt_entry_fields)
  have n: "nat (int (length pre) + 4) = length pre + 4" by simp
  show ?thesis
    using free bs(2) len n next_offset_small [of "length pre" "length data"]
    by (simp add: run_simps run_buf_le32 bs(1) length_rt_entry e add.assoc)
qed

lemma parse_skip:
  fixes s :: "'z modem_layer_scheme"
  assumes "bs = pre @ concat (map rt_entry es) @ post" "length bs < 2 ^ 31" "length is = length es"
    and "list_all (\<lambda>i. feature_mask (feature_set (core s c) ! i) \<noteq> MTK_FEATURE_MUST_BE_SUPPORTED) is"
  shows "run (parse_loop c a bs (int (length bs)) (is @ js) (int (length pre))) s =
    run (parse_loop c a bs (int (length bs)) js (int (length (pre @ concat (map rt_entry es))))) s"
  using assms
proof (induction es arbitrary: pre "is")
  case (Cons e es)
  obtain i is' where i: "is = i # is'" using Cons.prems(3) by (cases "is") auto
  show ?case
    using parse_skip_one [of bs pre e "concat (map rt_entry es) @ post" s c i a "is' @ js"]
      Cons.IH [of "pre @ rt_entry e" is'] Cons.prems
    by (simp add: i)
qed simp

lemma parse_rest:
  fixes s :: "'z modem_layer_scheme"
  assumes "bs = pre @ concat (map rt_entry es)" "length bs < 2 ^ 31"
    and "list_all (\<lambda>i. feature_mask (feature_set (core s c) ! i) \<noteq> MTK_FEATURE_MUST_BE_SUPPORTED) is"
  shows "run (parse_loop c a bs (int (length bs)) is (int (length pre))) s = (Inr (), s)"
  using assms
proof (induction "is" arbitrary: pre es)
  case (Cons i "is")
  show ?case
  proof (cases es)
    case Nil
    then show ?thesis using Cons.prems(1) by simp
  next
    case e: (Cons e es')
    show ?thesis
      using parse_skip_one [of bs pre e "concat (map rt_entry es')" s c i a "is"]
        Cons.IH [of "pre @ rt_entry e" es'] Cons.prems
      by (simp add: e)
  qed
qed simp

lemma with_enabled_core [simp]: "core (with_enabled s es) = core s"
  by (simp add: with_enabled_def)

text \<open>C31: the modem's answer at the handshake. Each core demands one feature, number \<open>j\<close>: its
  enumeration of ports. If the answer to the query, whose entries follow the query itself, has
  an entry for it that says so, the message in it enables and disables the ports as
  \<open>port_enum_applies\<close> says, and the answer is accepted whatever the other entries hold, without
  a read beyond it; if the entry says otherwise the answer is refused and nothing happens.\<close>

theorem hs_answer_applied:
  fixes s :: "'z modem_layer_scheme" and ident support :: u8 and later :: "(u8 \<times> u8 \<times> u8 list) list"
  assumes core: "list_all (\<lambda>i. (feature_mask (feature_set (core s c) ! i) = MTK_FEATURE_MUST_BE_SUPPORTED) = (i = j)) [0..<64]"
    and j: "j \<le> 1" "length before = j" and q: "length q = 72"
    and es: "length es < 2 ^ 16" "list_all (\<lambda>e. fst e < 2 ^ 15) es"
  defines "bs \<equiv> q @ concat (map rt_entry before) @ rt_entry (ident, support, port_enum_msg es) @
      concat (map rt_entry later)"
  assumes len: "length bs < 2 ^ 31"
  shows "run (t7xx_parse_host_rt_data c a bs) s =
    (if feature_mask support = MTK_FEATURE_MUST_BE_SUPPORTED then (Inr (), with_enabled s es)
     else (Inl EINVAL, s))"
proof -
  define e where "e = rt_entry (ident, support, port_enum_msg es)"
  let ?pre = "q @ concat (map rt_entry before)"
  let ?post = "concat (map rt_entry later)"
  have bs: "bs = ?pre @ e @ ?post" by (simp add: bs_def e_def)
  have ids: "[0..<64] = [0..<j] @ j # [Suc j..<64]"
    using j(1) by (cases j) (simp_all add: upt_conv_Cons)
  have free: "list_all (\<lambda>i. feature_mask (feature_set (core s c) ! i) \<noteq> MTK_FEATURE_MUST_BE_SUPPORTED) [0..<j]"
    "list_all (\<lambda>i. feature_mask (feature_set (core s c) ! i) \<noteq> MTK_FEATURE_MUST_BE_SUPPORTED) [Suc j..<64]"
    and must: "feature_mask (feature_set (core s c) ! j) = MTK_FEATURE_MUST_BE_SUPPORTED"
    using core j(1) by (auto simp: list_all_iff)
  have n4: "nat (int (length ?pre) + 4) = length ?pre + 4" and n1: "nat (int (length ?pre) + 1) = length ?pre + 1"
    by simp_all
  have le: "length e = 8 + length (port_enum_msg es)" by (simp add: e_def length_rt_entry)
  have dl: "le32_at bs (length ?pre + 4) = of_nat (length (port_enum_msg es))"
    using le32_at_embed [of 4 e ?pre ?post] le by (simp only: bs) (simp add: e_def rt_entry_fields)
  have sup: "bs ! (length ?pre + 1) = support"
    using le rt_entry_fields(2) by (simp only: bs nth_append) (simp add: e_def)
  have bound: "length bs = length ?pre + 8 + length (port_enum_msg es) + length ?post" by (simp only: bs length_append le)
  have enum: "run (t7xx_port_enum_msg_handler a bs (int (length ?pre) + 8)) t = (Inr (), with_enabled t es)"
    for t :: "'z modem_layer_scheme"
  proof -
    have "bs = (?pre @ take 8 e) @ port_enum_msg es @ ?post"
      using append_take_drop_id [of 8 e] by (simp only: bs) (simp add: e_def rt_entry_fields)
    moreover have "int (length (?pre @ take 8 e)) = int (length ?pre) + 8" using le by simp
    ultimately show ?thesis using run_port_enum_at [OF es, of a "?pre @ take 8 e" ?post t] by metis
  qed
  have nxt: "next_offset (int (length ?pre)) (of_nat (length (port_enum_msg es))) = int (length (?pre @ e))"
    using next_offset_small [of "length ?pre" "length (port_enum_msg es)"] bound len le by simp
  have rest: "run (parse_loop c a bs (int (length bs)) [Suc j..<64] (int (length (?pre @ e)))) t = (Inr (), t)"
    if "core t = core s" for t :: "'z modem_layer_scheme"
    using parse_rest [of bs "?pre @ e" later t c "[Suc j..<64]" a] free(2) len by (simp add: bs that)
  have j01: "j = 0 \<or> j = 1" using j(1) by auto
  have "run (t7xx_parse_host_rt_data c a bs) s =
      run (parse_loop c a bs (int (length bs)) (j # [Suc j..<64]) (int (length ?pre))) s"
    using parse_skip [of bs q before "e @ ?post" "[0..<j]" s c a "j # [Suc j..<64]"] free(1) j(2) q len
    sint_small [of "int (length bs)"]
    by (simp add: t7xx_parse_host_rt_data_def bs ids)
  also have "\<dots> = (if feature_mask support = MTK_FEATURE_MUST_BE_SUPPORTED then (Inr (), with_enabled s es)
     else (Inl EINVAL, s))"
    using must j01 bound dl sup n4 n1 enum nxt rest
    by (simp add: run_simps run_buf_le32 del: length_append upt_Suc)
  finally show ?thesis .
qed

section \<open>An answer that is not well formed\<close>

lemma recorded_buf [recorded_intros]:
  "recorded fault" "recorded (buf_u8 a bs k)" "recorded (buf_le32 a bs k)"
proof -
  show f: "recorded fault" by (simp add: recorded_def fault_def run_simps)
  show "recorded (buf_u8 a bs k)" "recorded (buf_le32 a bs k)"
    unfolding buf_u8_def buf_le32_def by (intro recorded_intros f)+
qed

lemma recorded_option [recorded_intros]:
  "recorded m \<Longrightarrow> (\<And>a. recorded (f a)) \<Longrightarrow> recorded (case x of None \<Rightarrow> m | Some a \<Rightarrow> f a)"
  by (cases x) simp_all

lemma recorded_enum [recorded_intros]: "recorded (t7xx_port_enum_msg_handler a bs off)"
proof -
  have "recorded (get_port p f)" "recorded (upd_port p g)" "recorded (t7xx_proxy_get_port_by_ch ch)" for p f g ch
    by (simp_all add: recorded_def run_simps run_get_port_by_ch)
  then have "recorded (t7xx_port_proxy_chl_enable_disable ch en)" for ch en
    unfolding t7xx_port_proxy_chl_enable_disable_def t7xx_port_wwan_enable_chl_def t7xx_port_wwan_disable_chl_def
    by (intro recorded_intros)
  then show ?thesis
    unfolding t7xx_port_enum_msg_handler_def Let_def by (intro recorded_intros)
qed

lemma recorded_parse_loop [recorded_intros]: "recorded (parse_loop c a bs len is off)"
  by (induction "is" arbitrary: off) (auto intro!: recorded_intros)

text \<open>Memory at an address that a read outside of a buffer starts from.\<close>

lemma outside_read:
  "k < 0 \<Longrightarrow> ([a + of_int k], env s (trace s) (Kernel ''mem'' [a + of_int k])) \<in>
     set (rets ''mem'' (trace (after (buf_le32 a bs k) s)))"
  by (simp add: buf_le32_def fault_def run_simps Let_def)

text \<open>C32: the length in an entry is not checked. When the first entry of the answer, of a core
  that does not demand feature 0, has a length so large that the next offset wraps around to a
  negative number, the loop takes this for an offset within the answer and reads memory in
  front of it.\<close>

theorem hs_answer_reads_before:
  fixes s :: "'z modem_layer_scheme"
  assumes len: "80 \<le> length bs" "length bs < 2 ^ 31"
    and free: "feature_mask (feature_set (core s c) ! 0) \<noteq> MTK_FEATURE_MUST_BE_SUPPORTED"
    and off: "next_offset 72 (le32_at bs 76) < - 4"
  shows "[a + of_int (next_offset 72 (le32_at bs 76) + 4)] \<in>
    fst ` set (rets ''mem'' (trace (after (t7xx_parse_host_rt_data c a bs) s)))"
proof -
  let ?k = "next_offset 72 (le32_at bs 76)"
  let ?read = "buf_le32 a bs (?k + 4) :: ('z modem_layer_scheme, u32) state"
  have ids: "[0..<64] = 0 # 1 # [2..<64]" by (simp add: upt_conv_Cons)
  define rest where "rest v = (do {
        cfg \<leftarrow> gets (\<lambda>s. feature_set (core s c) ! 1);
        if feature_mask cfg \<noteq> MTK_FEATURE_MUST_BE_SUPPORTED
        then parse_loop c a bs (int (length bs)) [2..<64] (next_offset ?k v) else do {
          support_info \<leftarrow> buf_u8 a bs (?k + 1);
          if feature_mask support_info \<noteq> MTK_FEATURE_MUST_BE_SUPPORTED then return (Inl EINVAL) else do {
            t7xx_port_enum_msg_handler a bs (?k + 8);
            parse_loop c a bs (int (length bs)) [2..<64] (next_offset ?k v)
          }
        }
      } :: ('z modem_layer_scheme, errno + unit) state)" for v
  have rec: "recorded (rest v)" for v unfolding rest_def by (intro recorded_intros)
  have run: "run (t7xx_parse_host_rt_data c a bs) s = run (do { v \<leftarrow> ?read; rest v }) s"
    using len free off sint_small [of "int (length bs)"]
    by (simp add: t7xx_parse_host_rt_data_def ids rest_def run_simps run_buf_le32 split_beta del: upt_Suc)
  obtain es where "trace (after (t7xx_parse_host_rt_data c a bs) s) = trace (after ?read s) @ es"
    using recorded_trace [OF rec] unfolding run by (auto simp: run_bind split_beta)
  then show ?thesis
    using outside_read [of "?k + 4" a s bs] off by (auto intro!: rev_image_eqI)
qed

section \<open>A modem to try it on\<close>

definition modem_example :: "(string \<Rightarrow> u64 list \<Rightarrow> u64) \<Rightarrow> modem_layer" where
  "modem_example answers = port_layer.extend (port_example answers)
     (modem_layer.fields (\<lambda>c. \<lparr>core_ready = False, handshake_ongoing = True,
        feature_set = must_support (if c = CLDMA_ID_MD then 0 else 1) (replicate 64 0)\<rparr>) True False 1 0 True)"

lemma modem_example_fields [simp]:
  "env (modem_example f) = reg_file (\<lambda>_. 0) f" "port_prox (modem_example f) = port_prox (port_example f)"
  "port_at (modem_example f) i = port_at (port_example f) i"
  by (simp_all add: modem_example_def port_layer.defs modem_layer.defs port_at_def)

lemma modem_example_core:
  "list_all (\<lambda>i. (feature_mask (feature_set (core (modem_example f) c) ! i) = MTK_FEATURE_MUST_BE_SUPPORTED) =
     (i = (if c = CLDMA_ID_MD then 0 else 1))) [0..<64]"
proof -
  have m: "feature_mask 0 = 0" "feature_mask (FIELD_PREP FEATURE_MSK 2) = 2"
    by code_simp+
  show ?thesis
    by (auto simp: modem_example_def port_layer.defs modem_layer.defs must_support_def list_all_iff nth_list_update m)
qed

theorem hs_query_answered_witness:
  "run (t7xx_prepare_device_rt_data (return ()) 1 CLDMA_ID_MD 0x9000
      (le32_bytes 0x49434343 @ [2, 0x30] @ replicate 62 2 @ le32_bytes 0x49434343))
      (modem_example (yes_but ''__dev_alloc_skb'' 0)) =
    (Some (Inl ENOMEM), emit (Ret ''__dev_alloc_skb'' [36] 0) (modem_example (yes_but ''__dev_alloc_skb'' 0)))"
proof -
  let ?bs = "le32_bytes 0x49434343 @ [2, 0x30] @ replicate 62 2 @ le32_bytes 0x49434343"
  have fields: "72 \<le> length ?bs" "le32_at ?bs 0 = MD_FEATURE_QUERY_ID" "le32_at ?bs 68 = MD_FEATURE_QUERY_ID"
    "length (hs_answer ?bs [0..<64]) = 8"
    by code_simp+
  show ?thesis
    unfolding hs_query_answered [OF fields(1-3)]
    using fields(4) by (simp add: run_simps t7xx_ctrl_alloc_skb_def t7xx_port_alloc_skb_def reg_file_def yes_but_def)
qed

theorem hs_answer_applied_witness:
  "\<exists>t. run (t7xx_parse_host_rt_data CLDMA_ID_MD 0x9000 (replicate 72 0 @
      rt_entry (0, 0x12, port_enum_msg [(0x20d0, True)]) @ rt_entry (1, 0, [1, 2, 3])))
      (modem_example (yes_but ''x'' 0)) = (Inr (), t) \<and> chan_enable (port_at t 1)"
proof -
  have "named (modem_example (yes_but ''x'' 0)) 0x20d0 = Some 1"
    by (simp add: named_def t7xx_proxy_get_port_by_ch_def run_simps upt_rec t7xx_port_conf_table_def)
  moreover have "feature_mask 0x12 = 2" by code_simp
  ultimately show ?thesis
    using hs_answer_applied [where s = "modem_example (yes_but ''x'' 0)" and c = CLDMA_ID_MD and j = 0 and
        before = "[]" and q = "replicate 72 0" and es = "[(0x20d0, True)]" and ident = 0 and support = "0x12" and
        later = "[(1, 0, [1, 2, 3])]" and a = "0x9000"] modem_example_core [of "yes_but ''x'' 0" CLDMA_ID_MD]
    by (simp add: length_rt_entry port_enum_msg_fields port_at_def with_enabled_def enabled_after_def Let_def
        t7xx_port_conf_table_def)
qed

theorem hs_answer_reads_before_witness:
  "[0x9000 - 0x7fffffac] \<in> fst ` set (rets ''mem'' (trace (after (t7xx_parse_host_rt_data CLDMA_ID_AP 0x9000
      (replicate 76 0 @ le32_bytes 0x80000000)) (modem_example (yes_but ''x'' 0)))))"
proof -
  let ?bs = "replicate 76 0 @ le32_bytes 0x80000000"
  have at: "le32_at ?bs 76 = 0x80000000" "length ?bs = 80" by code_simp+
  have off: "next_offset 72 0x80000000 = - 0x7fffffb0" by code_simp
  have free: "feature_mask (feature_set (core (modem_example (yes_but ''x'' 0)) CLDMA_ID_AP) ! 0) \<noteq>
      MTK_FEATURE_MUST_BE_SUPPORTED"
    using modem_example_core [of "yes_but ''x'' 0" CLDMA_ID_AP] by (simp add: list_all_iff)
  show ?thesis
    using hs_answer_reads_before [of ?bs "modem_example (yes_but ''x'' 0)" CLDMA_ID_AP "0x9000"] free
    by (simp add: at off)
qed

end
