(* ===== verification/Fsm_Props.thy ===== *)
theory Fsm_Props
  imports Fsm_Frame Modem_Props
begin

text \<open>
  What is proved of the state machine: which states a command can lead to, what it takes to be
  ready, and what a reset forgets.
\<close>

section \<open>Where an operation leads\<close>

text \<open>\<open>moves f P m Q\<close>: from a state that looks like one of \<open>P\<close>, \<open>m\<close> leads to one that looks like
  one of \<open>Q\<close>.\<close>

definition moves :: "('s \<Rightarrow> 'b) \<Rightarrow> 'b set \<Rightarrow> ('s, 'a) state \<Rightarrow> 'b set \<Rightarrow> bool" where
  "moves f P m Q \<longleftrightarrow> (\<forall>s. f s \<in> P \<longrightarrow> f (after m s) \<in> Q)"

lemma movesD: "moves f P m Q \<Longrightarrow> f s \<in> P \<Longrightarrow> f (after m s) \<in> Q"
  by (simp add: moves_def)

lemma moves_preserves: "preserves f m \<Longrightarrow> P \<subseteq> Q \<Longrightarrow> moves f P m Q"
  by (auto simp: moves_def preserves_def)

lemma moves_mono: "moves f P m Q \<Longrightarrow> P' \<subseteq> P \<Longrightarrow> Q \<subseteq> Q' \<Longrightarrow> moves f P' m Q'"
  by (auto simp: moves_def)

lemma moves_bind: "moves f P m R \<Longrightarrow> (\<And>a. moves f R (g a) Q) \<Longrightarrow> moves f P (State_Monad.bind m g) Q"
  by (simp add: moves_def run_bind split_beta)

text \<open>A statement that changes nothing before the rest, and after it.\<close>

lemma moves_skip: "preserves f m \<Longrightarrow> (\<And>a. moves f P (g a) Q) \<Longrightarrow> moves f P (State_Monad.bind m g) Q"
  by (rule moves_bind [OF moves_preserves [OF _ order_refl]])

lemma moves_then: "moves f P m Q \<Longrightarrow> (\<And>a. preserves f (g a)) \<Longrightarrow> moves f P (State_Monad.bind m g) Q"
  by (rule moves_bind, assumption) (rule moves_preserves [OF _ order_refl])

lemma moves_get:
  "(\<And>s. f s \<in> P \<Longrightarrow> moves f {f s} (g (h s)) Q) \<Longrightarrow> moves f P (State_Monad.bind (gets h) g) Q"
  by (simp add: moves_def run_simps)

lemma moves_if:
  "(b \<Longrightarrow> moves f P m Q) \<Longrightarrow> (\<not> b \<Longrightarrow> moves f P n Q) \<Longrightarrow> moves f P (if b then m else n) Q"
  by simp

lemma moves_upd_fsm: "(\<And>s. f s \<in> P \<Longrightarrow> f (s\<lparr>fsm := g (fsm s)\<rparr>) \<in> Q) \<Longrightarrow> moves f P (upd_fsm g) Q"
  by (simp add: moves_def upd_fsm_def run_simps)

section \<open>What is observed\<close>

abbreviation fsm_st :: "'z modem_layer_scheme \<Rightarrow> t7xx_fsm_state" where
  "fsm_st s \<equiv> curr_state (fsm s)"

interpretation st: blind_to_work fsm_st
  by unfold_locales (simp_all add: emit_def)

interpretation co: blind_to_work core
  by unfold_locales (simp_all add: emit_def)

definition st_core :: "'z modem_layer_scheme \<Rightarrow> t7xx_fsm_state \<times> (cldma_id \<Rightarrow> t7xx_sys_info)" where
  "st_core s = (fsm_st s, core s)"

interpretation sc: blind_to_work st_core
  by unfold_locales (simp_all add: emit_def st_core_def)

lemma preserves_st_core: "preserves fsm_st m \<Longrightarrow> preserves core m \<Longrightarrow> preserves st_core m"
  by (simp add: preserves_def st_core_def)

text \<open>Both cores are ready.\<close>

definition both_ready :: "(cldma_id \<Rightarrow> t7xx_sys_info) \<Rightarrow> bool" where
  "both_ready k \<longleftrightarrow> core_ready (k CLDMA_ID_MD) \<and> core_ready (k CLDMA_ID_AP)"

abbreviation looks :: "t7xx_fsm_state \<Rightarrow> (t7xx_fsm_state \<times> (cldma_id \<Rightarrow> t7xx_sys_info)) set" where
  "looks x \<equiv> {x} \<times> UNIV"

abbreviation started :: "(t7xx_fsm_state \<times> (cldma_id \<Rightarrow> t7xx_sys_info)) set" where
  "started \<equiv> looks FSM_STATE_EXCEPTION \<union> {FSM_STATE_READY} \<times> Collect both_ready"

section \<open>The routines\<close>

lemma ready_moves:
  assumes "\<And>n st. preserves st_core (notifier_fn n st)"
  shows "moves st_core (UNIV \<times> K) (fsm_routine_ready notifier_fn) ({FSM_STATE_READY} \<times> K)"
  unfolding fsm_routine_ready_def t7xx_fsm_broadcast_ready_state_def
  by (intro moves_then moves_upd_fsm preserves_intros sc.dev assms) (auto simp: st_core_def)

lemma handshake_moves:
  assumes n: "\<And>n st. preserves st_core (notifier_fn n st)"
  shows "moves st_core (looks FSM_STATE_STARTING) (fsm_handshake_over notifier_fn others) started"
proof -
  have to_ex: "moves st_core (looks FSM_STATE_STARTING)
      (fsm_routine_exception notifier_fn others None (Some EXCEPTION_HS_TIMEOUT)) started"
    unfolding fsm_routine_exception_def get_fsm_def
    by (intro moves_get moves_if moves_then moves_upd_fsm preserves_intros)
       (auto simp: st_core_def finish_opt_def c_when_def preserves_return)
  have to_ready: "moves st_core ({FSM_STATE_STARTING} \<times> Collect both_ready) (fsm_routine_ready notifier_fn) started"
    using ready_moves [OF n, of "Collect both_ready"] by (auto simp: moves_def)
  have event: "preserves st_core (c_when b (do { t7xx_fsm_append_event e []; return () }))" for b e
    by (intro preserves_intros)
  show ?thesis
    unfolding moves_def
  proof (intro allI impI)
    fix s :: "'a modem_layer_scheme"
    assume s: "st_core s \<in> looks FSM_STATE_STARTING"
    let ?md = "core s CLDMA_ID_MD" and ?ap = "core s CLDMA_ID_AP"
    have ex: "moves st_core (looks FSM_STATE_STARTING) (do {
        c_when b (do { t7xx_fsm_append_event e []; return () });
        fsm_routine_exception notifier_fn others None (Some EXCEPTION_HS_TIMEOUT);
        return (Inl ETIMEDOUT :: errno + unit) }) started" for b e
      by (intro moves_skip event moves_then to_ex preserves_return)
    have ok: "moves st_core ({FSM_STATE_STARTING} \<times> Collect both_ready) (do {
        t7xx_pci_pm_init_late; fsm_routine_ready notifier_fn; return (Inr () :: errno + unit) }) started"
      by (intro moves_skip sc.dev moves_then to_ready preserves_return)
    show "st_core (after (fsm_handshake_over notifier_fn others) s) \<in> started"
      using movesD [OF ex s] movesD [OF ok, of s] s
      by (simp add: fsm_handshake_over_def run_gets run_bind [of "gets _"] both_ready_def st_core_def)
  qed
qed

lemma starting_moves:
  assumes n: "\<And>n st. preserves st_core (notifier_fn n st)" and o: "preserves fsm_st others"
  shows "moves st_core UNIV (fsm_routine_starting notifier_fn others) started"
proof -
  have oth: "moves st_core (looks FSM_STATE_STARTING) others (looks FSM_STATE_STARTING)"
    using o by (simp add: moves_def st_core_def preserves_def)
  have upd: "moves st_core UNIV (upd_fsm (\<lambda>f. f\<lparr>curr_state := FSM_STATE_STARTING\<rparr>)) (looks FSM_STATE_STARTING)"
    by (rule moves_upd_fsm) (simp add: st_core_def)
  show ?thesis
    unfolding fsm_routine_starting_def
    by (rule moves_bind [OF upd], rule moves_skip [OF sc.keeps_broadcast [OF n]],
        rule moves_skip [OF sc.keeps_event_notify], rule moves_bind [OF oth], rule moves_skip,
        rule preserves_kquery, rule sc.blind_emit, rule handshake_moves [OF n])
qed

text \<open>What the start of the state machine leaves: still waiting for the device, failed, or ready.\<close>

abbreviation start_states :: "t7xx_fsm_state set" where
  "start_states \<equiv> {FSM_STATE_INIT, FSM_STATE_PRE_START, FSM_STATE_STOPPED}"

abbreviation begun :: "(t7xx_fsm_state \<times> (cldma_id \<Rightarrow> t7xx_sys_info)) set" where
  "begun \<equiv> looks FSM_STATE_PRE_START \<union> started"

lemma stage_moves:
  assumes n: "\<And>n st. preserves st_core (notifier_fn n st)" and o: "preserves fsm_st others"
  shows "moves st_core (looks FSM_STATE_PRE_START) (fsm_start_stage notifier_fn others flag status) begun"
proof -
  have starting: "moves st_core (looks FSM_STATE_PRE_START) (fsm_routine_starting notifier_fn others) begun"
    using starting_moves [OF n o] by (auto simp: moves_def)
  have keep: "moves st_core (looks FSM_STATE_PRE_START) m begun" if "preserves st_core m"
    for m :: "('a modem_layer_scheme, errno + unit) state"
    using that by (rule moves_preserves) blast
  show ?thesis
    unfolding fsm_start_stage_def Let_def
    by (intro moves_if moves_skip sc.dev sc.keeps_hif_hw_init sc.keeps_ports sc.keeps_lk starting
        keep [OF preserves_return] keep [OF sc.keeps_commands(3)])
qed

lemma start_moves:
  assumes n: "\<And>n st. preserves st_core (notifier_fn n st)" and o: "preserves fsm_st others"
  shows "moves st_core (start_states \<times> UNIV) (fsm_routine_start notifier_fn others c) begun"
proof -
  define body where "body = (do {
       polled \<leftarrow> wait_for_expected_dev_stage;
       ret \<leftarrow> (case polled of
         Inl e \<Rightarrow> return (Inl e)
       | Inr status \<Rightarrow> do {
           old \<leftarrow> get_fsm fsm_status;
           flag \<leftarrow> get_cmd_flag c;
           if status \<noteq> old \<or> flag \<noteq> 0 then do {
             ret \<leftarrow> fsm_start_stage notifier_fn others flag status;
             upd_fsm (\<lambda>f. f\<lparr>fsm_status := status\<rparr>);
             return ret
           } else return (Inr ())
         });
       c_when (isl ret) (t7xx_mode_update T7XX_UNKNOWN);
       fsm_finish_command c ret
     } :: ('a modem_layer_scheme, unit) state)"
  have keep: "moves st_core (looks FSM_STATE_PRE_START) (return r) begun" for r :: "errno + unit"
    by (rule moves_preserves [OF preserves_return]) blast
  have body: "moves st_core (looks FSM_STATE_PRE_START) body begun"
    unfolding body_def
  proof (rule moves_skip [OF sc.keeps_stage], rule moves_then)
    fix polled :: "errno + u32"
    have step: "moves st_core (looks FSM_STATE_PRE_START) (do {
           old \<leftarrow> get_fsm fsm_status;
           flag \<leftarrow> get_cmd_flag c;
           if status \<noteq> old \<or> flag \<noteq> 0 then do {
             ret \<leftarrow> fsm_start_stage notifier_fn others flag status;
             upd_fsm (\<lambda>f. f\<lparr>fsm_status := status\<rparr>);
             return ret
           } else return (Inr ())
         }) begun" for status
      by (rule moves_skip [OF sc.upd(5)], rule moves_skip [OF sc.keeps_commands(5)], rule moves_if,
          rule moves_then [OF stage_moves [OF n o]])
         (intro preserves_intros sc.upd_fsm_other keep; simp)+
    show "moves st_core (looks FSM_STATE_PRE_START) (case polled of
         Inl e \<Rightarrow> return (Inl e)
       | Inr status \<Rightarrow> do {
           old \<leftarrow> get_fsm fsm_status;
           flag \<leftarrow> get_cmd_flag c;
           if status \<noteq> old \<or> flag \<noteq> 0 then do {
             ret \<leftarrow> fsm_start_stage notifier_fn others flag status;
             upd_fsm (\<lambda>f. f\<lparr>fsm_status := status\<rparr>);
             return ret
           } else return (Inr ())
         }) begun"
      using step keep by (cases polled) simp_all
  qed (intro preserves_intros sc.dev)
  show "moves st_core (start_states \<times> UNIV) (fsm_routine_start notifier_fn others c) begun"
    unfolding fsm_routine_start_def get_fsm_def body_def [unfolded get_fsm_def, symmetric]
  proof (rule moves_get)
    fix s :: "'a modem_layer_scheme"
    assume "st_core s \<in> start_states \<times> UNIV"
    then have ok: "\<not> (fsm_st s \<noteq> FSM_STATE_INIT \<and> fsm_st s \<noteq> FSM_STATE_PRE_START \<and> fsm_st s \<noteq> FSM_STATE_STOPPED)"
      by (auto simp: st_core_def)
    show "moves st_core {st_core s} (if fsm_st s \<noteq> FSM_STATE_INIT \<and> fsm_st s \<noteq> FSM_STATE_PRE_START \<and>
        fsm_st s \<noteq> FSM_STATE_STOPPED then fsm_finish_command c (Inl EINVAL) else do {
        upd_fsm (\<lambda>f. f\<lparr>curr_state := FSM_STATE_PRE_START\<rparr>);
        t7xx_md_event_notify FSM_PRE_START;
        body }) begun"
      using ok
      by (auto intro!: moves_if moves_bind [OF moves_upd_fsm [where Q = "looks FSM_STATE_PRE_START"]]
          moves_skip [OF sc.keeps_event_notify] body simp: st_core_def)
  qed
qed

text \<open>A command that does not fit the state is refused: it is finished with an error, and that is all.\<close>

lemma refused:
  "fsm_st s \<notin> start_states \<Longrightarrow>
    run (fsm_routine_start notifier_fn others c) s = run (fsm_finish_command c (Inl EINVAL)) s"
  "fsm_st s \<notin> {FSM_STATE_READY, FSM_STATE_STARTING} \<Longrightarrow>
    run (fsm_routine_exception notifier_fn others (Some c) r) s = run (fsm_finish_command c (Inl EINVAL)) s"
  "fsm_st s \<in> {FSM_STATE_STOPPED, FSM_STATE_STOPPING} \<Longrightarrow>
    run (fsm_routine_stopping notifier_fn c) s = run (fsm_finish_command c (Inl EINVAL)) s"
  "fsm_st s = FSM_STATE_STOPPED \<Longrightarrow>
    run (fsm_routine_stopped notifier_fn c) s = run (fsm_finish_command c (Inl EINVAL)) s"
  by (auto simp: fsm_routine_start_def fsm_routine_exception_def fsm_routine_stopping_def
      fsm_routine_stopped_def finish_opt_def run_simps)

section \<open>Stopping\<close>

lemma md_reset_keeps:
  "preserves core t7xx_fsm_reset" "preserves core (do {
     modify (\<lambda>s. s\<lparr>md_init_finish := False, exp_id := 0\<rparr>);
     t7xx_fsm_reset;
     t7xx_cldma_reset CLDMA_ID_MD;
     t7xx_cldma_reset CLDMA_ID_AP;
     t7xx_port_proxy_reset;
     modify (\<lambda>s. s\<lparr>md_init_finish := True\<rparr>)
   })"
proof -
  show r: "preserves core t7xx_fsm_reset"
    unfolding t7xx_fsm_reset_def upd_fsm_def by (intro preserves_intros co.keeps_events) simp
  show "preserves core (do {
     modify (\<lambda>s. s\<lparr>md_init_finish := False, exp_id := 0\<rparr>);
     t7xx_fsm_reset;
     t7xx_cldma_reset CLDMA_ID_MD;
     t7xx_cldma_reset CLDMA_ID_AP;
     t7xx_port_proxy_reset;
     modify (\<lambda>s. s\<lparr>md_init_finish := True\<rparr>)
   })"
    by (intro preserves_intros r co.keeps_reset co.keeps_ports; simp)
qed

lemma md_reset_moves: "moves fsm_st UNIV t7xx_md_reset {FSM_STATE_STOPPED}"
proof -
  have reset: "moves fsm_st UNIV t7xx_fsm_reset {FSM_STATE_STOPPED}"
    unfolding t7xx_fsm_reset_def
    by (rule moves_skip [OF st.keeps_events(3)], rule moves_upd_fsm) simp
  have core: "preserves fsm_st t7xx_core_reset"
    unfolding t7xx_core_reset_def upd_core_def
    by (intro preserves_intros st.keeps_events) simp_all
  show ?thesis
    unfolding t7xx_md_reset_def
    by (rule moves_skip, (intro preserves_intros; simp), rule moves_then [OF reset])
       (intro preserves_intros st.keeps_reset st.keeps_ports core; simp)
qed

lemma stopped_moves:
  fixes notifier_fn :: "'z notifiers"
  assumes n: "\<And>n st. preserves fsm_st (notifier_fn n st)"
  shows "moves fsm_st UNIV (fsm_stopped_handler notifier_fn) {FSM_STATE_STOPPED}"
    "moves fsm_st UNIV (fsm_routine_stopped notifier_fn c) {FSM_STATE_STOPPED}"
    "moves fsm_st (- {FSM_STATE_STOPPED, FSM_STATE_STOPPING}) (fsm_routine_stopping notifier_fn c) {FSM_STATE_STOPPED}"
proof -
  show h: "moves fsm_st UNIV (fsm_stopped_handler notifier_fn) {FSM_STATE_STOPPED}"
  proof -
    have upd: "moves fsm_st UNIV (upd_fsm (\<lambda>f. f\<lparr>curr_state := FSM_STATE_STOPPED\<rparr>)) {FSM_STATE_STOPPED}"
      by (rule moves_upd_fsm) simp
    have reset: "moves fsm_st {FSM_STATE_STOPPED} t7xx_md_reset {FSM_STATE_STOPPED}"
      using md_reset_moves by (auto simp: moves_def)
    show ?thesis
      unfolding fsm_stopped_handler_def
      by (rule moves_bind [OF upd], rule moves_skip [OF preserves_pci(1)], rule moves_if,
          rule moves_preserves [OF preserves_return order_refl],
          rule moves_skip [OF st.keeps_broadcast [OF n]], rule reset)
  qed
  have fin: "moves fsm_st {FSM_STATE_STOPPED} (fsm_finish_command c r) {FSM_STATE_STOPPED}" for r
    by (rule moves_preserves [OF st.keeps_commands(2) order_refl])
  have tail: "moves fsm_st UNIV (do { ret \<leftarrow> fsm_stopped_handler notifier_fn; fsm_finish_command c ret })
      {FSM_STATE_STOPPED}"
    by (rule moves_bind [OF h fin])
  have refuse: "fsm_st (after (fsm_finish_command c (Inl EINVAL)) t) = fsm_st t" for t :: "'z modem_layer_scheme"
    by (rule preservesD) (rule st.keeps_commands)
  show "moves fsm_st UNIV (fsm_routine_stopped notifier_fn c) {FSM_STATE_STOPPED}"
    using movesD [OF tail] refuse
    by (auto simp: moves_def fsm_routine_stopped_def run_bind [of "get_fsm _"] run_get_fsm)
  have stopping: "moves fsm_st UNIV (do {
       upd_fsm (\<lambda>f. f\<lparr>curr_state := FSM_STATE_STOPPING\<rparr>);
       t7xx_fsm_broadcast_state notifier_fn MD_STATE_WAITING_TO_STOP;
       t7xx_cldma_stop CLDMA_ID_MD;
       t7xx_mhccif_h2d_swint_trigger H2D_CH_DRM_DISABLE_AP;
       kcall ''msleep'' [of_nat FSM_DRM_DISABLE_DELAY_MS];
       ret \<leftarrow> fsm_stopped_handler notifier_fn;
       fsm_finish_command c ret
     }) {FSM_STATE_STOPPED}"
    by (rule moves_bind [where R = UNIV], simp add: moves_def, rule moves_skip [OF st.keeps_broadcast [OF n]],
        rule moves_skip [OF st.keeps_stop], rule moves_skip [OF st.dev(7)], rule moves_skip, rule preserves_kcall,
        rule st.blind_emit, rule tail)
  show "moves fsm_st (- {FSM_STATE_STOPPED, FSM_STATE_STOPPING}) (fsm_routine_stopping notifier_fn c) {FSM_STATE_STOPPED}"
    using movesD [OF stopping]
    by (auto simp: moves_def fsm_routine_stopping_def run_bind [of "get_fsm _"] run_get_fsm)
qed

lemma exception_moves:
  assumes n: "\<And>n st. preserves fsm_st (notifier_fn n st)" and o: "preserves fsm_st others"
  shows "moves fsm_st {FSM_STATE_READY, FSM_STATE_STARTING}
    (fsm_routine_exception notifier_fn others c r) {FSM_STATE_EXCEPTION}"
proof -
  define ex where "ex = (do {
       upd_fsm (\<lambda>f. f\<lparr>curr_state := FSM_STATE_EXCEPTION\<rparr>);
       c_when (r = Some EXCEPTION_EVENT) (do {
         t7xx_fsm_broadcast_state notifier_fn MD_STATE_EXCEPTION;
         t7xx_pci_pm_exp_detected;
         t7xx_md_exception_handshake others;
         fsm_wait_for_event others FSM_EVENT_MD_EX_REC_OK FSM_EVENT_MD_EX
           (FSM_MD_EX_REC_OK_TIMEOUT_MS div FSM_EVENT_POLL_INTERVAL_MS);
         fsm_wait_for_event others FSM_EVENT_MD_EX_PASS FSM_EVENT_INVALID
           (FSM_MD_EX_PASS_TIMEOUT_MS div FSM_EVENT_POLL_INTERVAL_MS)
       });
       finish_opt c (Inr ())
     })"
  have upd: "moves fsm_st UNIV (upd_fsm (\<lambda>f. f\<lparr>curr_state := FSM_STATE_EXCEPTION\<rparr>)) {FSM_STATE_EXCEPTION}"
    by (rule moves_upd_fsm) simp
  have "moves fsm_st UNIV ex {FSM_STATE_EXCEPTION}"
    unfolding ex_def
    by (rule moves_bind [OF upd], rule moves_preserves [OF _ order_refl])
       (intro preserves_intros n o st.dev)
  then show ?thesis
    by (auto simp: moves_def fsm_routine_exception_def run_bind [of "get_fsm _"] run_get_fsm ex_def)
qed

section \<open>The properties\<close>

text \<open>The states a command can lead to.\<close>

fun fsm_next :: "t7xx_fsm_cmd_state \<Rightarrow> t7xx_fsm_state \<Rightarrow> t7xx_fsm_state set" where
  "fsm_next FSM_CMD_START x = (if x \<in> {FSM_STATE_INIT, FSM_STATE_PRE_START, FSM_STATE_STOPPED}
     then {FSM_STATE_PRE_START, FSM_STATE_READY, FSM_STATE_EXCEPTION} else {x})"
| "fsm_next FSM_CMD_EXCEPTION x =
     (if x \<in> {FSM_STATE_READY, FSM_STATE_STARTING} then {FSM_STATE_EXCEPTION} else {x})"
| "fsm_next FSM_CMD_PRE_STOP x = (if x = FSM_STATE_STOPPING then {x} else {FSM_STATE_STOPPED})"
| "fsm_next FSM_CMD_STOP x = {FSM_STATE_STOPPED}"
| "fsm_next FSM_CMD_INVALID x = {x}"

text \<open>C28: the states of the state machine. When the thread has handled a command, the state is one
  that the table \<open>fsm_next\<close> allows: only a start leads out of a stop, only to waiting for the
  device, ready or exception; an exception is left only by stopping; and a command that does
  not fit the state does not change it. This holds whatever the device and the kernel answer,
  if notifiers and other threads leave the state to the thread.\<close>

theorem fsm_transitions:
  fixes notifier_fn :: "'z notifiers"
  assumes "\<And>n st. preserves (\<lambda>s. curr_state (fsm s)) (notifier_fn n st)"
    and "\<And>n st. preserves core (notifier_fn n st)"
    and "preserves (\<lambda>s. curr_state (fsm s)) others" and c: "fsm_cmds s c = Some y"
  shows "curr_state (fsm (after (fsm_handle_cmd notifier_fn others c) s)) \<in> fsm_next (cmd_id y) (curr_state (fsm s))"
proof -
  have n: "\<And>n st. preserves st_core (notifier_fn n st)"
    using assms(1,2) by (rule preserves_st_core)
  have fin: "fsm_st (after (fsm_finish_command c r) t) = fsm_st t" for r and t :: "'z modem_layer_scheme"
    by (rule preservesD) (rule st.keeps_commands)
  have flush: "fsm_st (after fsm_flush_event_cmd_qs t) = fsm_st t" for t :: "'z modem_layer_scheme"
    by (rule preservesD) (rule st.keeps_events)
  show ?thesis
  proof (cases "cmd_id y")
    case FSM_CMD_START
    then show ?thesis
      using movesD [OF start_moves [where notifier_fn = notifier_fn and c = c, OF n assms(3)], of s] refused(1) [where s = s and c = c] fin c
      by (auto simp: fsm_handle_cmd_def run_simps st_core_def)
  next
    case FSM_CMD_EXCEPTION
    then show ?thesis
      using movesD [OF exception_moves [where notifier_fn = notifier_fn and c = "Some c" and r = "ex_reason (cmd_flag y)", OF assms(1,3)], of s]
        refused(2) [where s = s and c = c and r = "ex_reason (cmd_flag y)"] fin c
      by (auto simp: fsm_handle_cmd_def run_simps)
  next
    case FSM_CMD_PRE_STOP
    then show ?thesis
      using movesD [OF stopped_moves(3) [where notifier_fn = notifier_fn and c = c, OF assms(1)], of s]
        refused(3) [where s = s and c = c and notifier_fn = notifier_fn] fin c
      by (cases "fsm_st s = FSM_STATE_STOPPED") (auto simp: fsm_handle_cmd_def run_simps)
  next
    case FSM_CMD_STOP
    then show ?thesis
      using movesD [OF stopped_moves(2) [where notifier_fn = notifier_fn and c = c, OF assms(1)], of s] c
      by (auto simp: fsm_handle_cmd_def run_simps)
  next
    case FSM_CMD_INVALID
    then show ?thesis using fin flush c by (simp add: fsm_handle_cmd_def run_simps split_beta)
  qed
qed

text \<open>C29: ready means that both handshakes are over. When handling a start makes the state machine
  ready, both cores have completed their handshake.\<close>

theorem fsm_ready_after_handshake:
  fixes notifier_fn :: "'z notifiers"
  assumes "\<And>n st. preserves (\<lambda>s. curr_state (fsm s)) (notifier_fn n st)"
    and "\<And>n st. preserves core (notifier_fn n st)"
    and "preserves (\<lambda>s. curr_state (fsm s)) others"
    and "fsm_cmds s c = Some y" "cmd_id y = FSM_CMD_START" "curr_state (fsm s) \<noteq> FSM_STATE_READY"
    and "curr_state (fsm (after (fsm_handle_cmd notifier_fn others c) s)) = FSM_STATE_READY"
  shows "core_ready (core (after (fsm_handle_cmd notifier_fn others c) s) CLDMA_ID_MD) \<and>
    core_ready (core (after (fsm_handle_cmd notifier_fn others c) s) CLDMA_ID_AP)"
proof -
  have n: "\<And>n st. preserves st_core (notifier_fn n st)"
    using assms(1,2) by (rule preserves_st_core)
  have run: "run (fsm_handle_cmd notifier_fn others c) s = run (fsm_routine_start notifier_fn others c) s"
    using assms(4,5) by (simp add: fsm_handle_cmd_def run_simps)
  have "fsm_st s \<in> start_states"
  proof (rule ccontr)
    assume no: "fsm_st s \<notin> start_states"
    have "fsm_st (after (fsm_finish_command c (Inl EINVAL)) s) = fsm_st s"
      by (rule preservesD) (rule st.keeps_commands)
    then show False using refused(1) [OF no, where c = c] assms(6,7) run by simp
  qed
  then show ?thesis
    using movesD [OF start_moves [where notifier_fn = notifier_fn and c = c, OF n assms(3)], of s] assms(7) run
    by (auto simp: st_core_def both_ready_def)
qed

text \<open>C33: a reset forgets only one of the two cores. It takes back that the modem core is ready, but
  not that the application core is: at the next start the state machine does not wait for the
  handshake of the latter.\<close>

theorem reset_keeps_ap_ready:
  "\<not> core_ready (core (after t7xx_md_reset s) CLDMA_ID_MD) \<and>
   core (after t7xx_md_reset s) CLDMA_ID_AP = core s CLDMA_ID_AP"
proof -
  let ?m = "do {
     modify (\<lambda>s. s\<lparr>md_init_finish := False, exp_id := 0\<rparr>);
     t7xx_fsm_reset;
     t7xx_cldma_reset CLDMA_ID_MD;
     t7xx_cldma_reset CLDMA_ID_AP;
     t7xx_port_proxy_reset;
     modify (\<lambda>s. s\<lparr>md_init_finish := True\<rparr>)
   } :: ('a modem_layer_scheme, unit) state"
  have "run t7xx_md_reset s = run t7xx_core_reset (after ?m s)"
    by (simp add: t7xx_md_reset_def run_bind split_beta)
  moreover have "core (after ?m s) = core s" by (rule preservesD [OF md_reset_keeps(2)])
  moreover have "\<not> core_ready (core (after t7xx_core_reset t) CLDMA_ID_MD) \<and>
      core (after t7xx_core_reset t) CLDMA_ID_AP = core t CLDMA_ID_AP" for t :: "'a modem_layer_scheme"
  proof -
    have "core (after (t7xx_fsm_append_event e d) u) = core u" for e d and u :: "'a modem_layer_scheme"
      by (rule preservesD) (rule co.keeps_events)
    then show ?thesis by (simp add: t7xx_core_reset_def run_simps split_beta)
  qed
  ultimately show ?thesis by simp
qed

section \<open>A state machine to try it on\<close>

lemma ready_handshake_moves:
  assumes n: "\<And>n st. preserves st_core (notifier_fn n st)" and o: "preserves st_core others"
  shows "moves st_core (UNIV \<times> Collect both_ready) (fsm_routine_starting notifier_fn others)
    ({FSM_STATE_READY} \<times> UNIV)"
proof -
  let ?P = "{FSM_STATE_STARTING} \<times> Collect both_ready"
  have upd: "moves st_core (UNIV \<times> Collect both_ready)
      (upd_fsm (\<lambda>f. f\<lparr>curr_state := FSM_STATE_STARTING\<rparr>)) ?P"
    by (rule moves_upd_fsm) (auto simp: st_core_def)
  have ready: "moves st_core ?P (fsm_routine_ready notifier_fn) ({FSM_STATE_READY} \<times> UNIV)"
    by (rule moves_mono [OF ready_moves [OF n]]) auto
  have ok: "moves st_core ?P (do {
      t7xx_pci_pm_init_late; fsm_routine_ready notifier_fn; return (Inr () :: errno + unit) })
      ({FSM_STATE_READY} \<times> UNIV)"
    by (intro moves_skip sc.dev moves_then ready preserves_return)
  have over: "moves st_core ?P (fsm_handshake_over notifier_fn others) ({FSM_STATE_READY} \<times> UNIV)"
    unfolding moves_def
  proof (intro allI impI)
    fix s :: "'a modem_layer_scheme"
    assume "st_core s \<in> ?P"
    then show "st_core (after (fsm_handshake_over notifier_fn others) s) \<in> {FSM_STATE_READY} \<times> UNIV"
      using movesD [OF ok, of s]
      by (auto simp: fsm_handshake_over_def run_gets run_bind [of "gets _"] both_ready_def st_core_def)
  qed
  show ?thesis
    unfolding fsm_routine_starting_def
    by (rule moves_bind [OF upd], rule moves_skip [OF sc.keeps_broadcast [OF n]],
        rule moves_skip [OF sc.keeps_event_notify], rule moves_skip [OF o], rule moves_skip,
        rule preserves_kquery, rule sc.blind_emit, rule over)
qed

text \<open>A device in its last stage, both cores ready, and a command with a waiter.\<close>

definition machine_example :: "t7xx_fsm_state \<Rightarrow> t7xx_fsm_cmd_state \<Rightarrow> modem_layer" where
  "machine_example st k = (let s = modem_example (yes_but ''x'' 0) in
     s\<lparr>env := \<lambda>_ _. 4, core := \<lambda>c. (core s c)\<lparr>core_ready := True\<rparr>,
       fsm := (fsm s)\<lparr>curr_state := st\<rparr>,
       fsm_cmds := [5 \<mapsto> \<lparr>cmd_id = k, cmd_flag = 1, cmd_done = False, cmd_result = Inr (), cmd_refcnt = 2\<rparr>]\<rparr>)"

lemma machine_example_fields [simp]:
  "fsm_st (machine_example st k) = st" "env (machine_example st k) = (\<lambda>_ _. 4)"
  "core_ready (core (machine_example st k) c)"
  "fsm_cmds (machine_example st k) 5 =
     Some \<lparr>cmd_id = k, cmd_flag = 1, cmd_done = False, cmd_result = Inr (), cmd_refcnt = 2\<rparr>"
  by (simp_all add: machine_example_def Let_def)

lemma poll_value_at_once:
  "ok (ucast (env s (trace s) (ReadReg a))) \<Longrightarrow>
   run (poll_value_loop n (ioread32 a) ok) s =
     (Inr (ucast (env s (trace s) (ReadReg a))), emit (Rd a (ucast (env s (trace s) (ReadReg a)))) s)"
  by (cases n) (simp_all add: run_simps Let_def)

lemma machine_example_ready:
  "fsm_st (after (fsm_handle_cmd (\<lambda>_ _. return ()) (return ()) 5)
     (machine_example FSM_STATE_INIT FSM_CMD_START)) = FSM_STATE_READY"
proof -
  let ?n = "\<lambda>_ _. return () :: (modem_layer, unit) state"
  have n: "preserves st_core (?n a b)" for a b by (rule preserves_return)
  have st: "expected_stage 4" "stage_of 4 = 4" by code_simp+
  have stage: "moves st_core (UNIV \<times> Collect both_ready) (fsm_start_stage ?n (return ()) 1 4) ({FSM_STATE_READY} \<times> UNIV)"
    unfolding fsm_start_stage_def st Let_def
    by (simp, intro moves_skip sc.dev sc.keeps_hif_hw_init sc.keeps_ports)
       (rule ready_handshake_moves [where notifier_fn = ?n, OF n preserves_return])
  have to_ready: "fsm_st (after (fsm_start_stage ?n (return ()) 1 4) t) = FSM_STATE_READY" if "both_ready (core t)" for t
    using movesD [OF stage, of t] that by (auto simp: st_core_def)
  have fin: "fsm_st (after (fsm_finish_command 5 r) t) = fsm_st t"
    "fsm_st (after (t7xx_mode_update T7XX_UNKNOWN) t) = fsm_st t" for r and t :: modem_layer
    by (rule preservesD, intro st.keeps_commands preserves_intros st.dev)+
  show ?thesis
    by (simp add: fsm_handle_cmd_def fsm_routine_start_def run_simps get_fsm_def upd_fsm_def t7xx_md_event_notify_def
     wait_for_expected_dev_stage_def st t7xx_mhccif_mask_clr_def split_beta get_cmd_flag_def poll_value_at_once
     to_ready fin both_ready_def)
qed

theorem fsm_ready_after_handshake_witness:
  "core_ready (core (after (fsm_handle_cmd (\<lambda>_ _. return ()) (return ()) 5)
      (machine_example FSM_STATE_INIT FSM_CMD_START)) CLDMA_ID_MD)"
  using fsm_ready_after_handshake [where notifier_fn = "\<lambda>_ _. return ()" and others = "return ()" and c = 5 and
      s = "machine_example FSM_STATE_INIT FSM_CMD_START", OF preserves_return preserves_return preserves_return
        machine_example_fields(4) _ _ machine_example_ready]
  by simp

end
