(* ===== verification/Dpmaif_Rx.thy ===== *)
theory Dpmaif_Rx
  imports Modem
begin

text \<open>
  The receive path, \<open>t7xx_hif_dpmaif_rx.c\<close>. The device fills buffers and describes them in the
  ring of entries (PIT) of a queue; the driver takes the buffers out of the two buffer tables
  (BAT), hands packets to the network layer, and puts new buffers in.

  A PIT entry is written by the device alone: the driver reads the sequence number until it is
  right and then the entry, each word a question to the device (\<open>pit\<close>). A table has a ring of
  bus addresses for the device (\<open>bat_base\<close>), the buffer of each slot, which is a packet
  in the normal table and a page in the fragment table, and a bitmap of the slots whose buffer was
  taken. Both queues use the same two tables. \<open>atomic_t\<close> counters are unbounded integers.

  An \<open>sk_buff\<close> of the receive path is its address, the offset of its data in its buffer, its
  tail and end offsets, the length of its data, and its fragments.
\<close>

section \<open>Tables and queues\<close>

abbreviation (input) DPMAIF_BAT_COUNT :: u32 where "DPMAIF_BAT_COUNT \<equiv> 8192"
abbreviation (input) DPMAIF_FRG_COUNT :: u32 where "DPMAIF_FRG_COUNT \<equiv> 4814"
abbreviation (input) DPMAIF_PIT_COUNT :: u32 where "DPMAIF_PIT_COUNT \<equiv> DPMAIF_BAT_COUNT * 2"
abbreviation (input) DPMAIF_BAT_CNT_THRESHOLD :: u32 where "DPMAIF_BAT_CNT_THRESHOLD \<equiv> 30"
abbreviation (input) DPMAIF_PIT_CNT_THRESHOLD :: u32 where "DPMAIF_PIT_CNT_THRESHOLD \<equiv> 60"
abbreviation (input) DPMAIF_NOTIFY_RELEASE_COUNT :: nat where "DPMAIF_NOTIFY_RELEASE_COUNT \<equiv> 128"
abbreviation (input) DPMAIF_POLL_PIT_TIME_US :: u64 where "DPMAIF_POLL_PIT_TIME_US \<equiv> 20"
abbreviation (input) DPMAIF_POLL_PIT_MAX_TIME_US :: u64 where "DPMAIF_POLL_PIT_MAX_TIME_US \<equiv> 2000"
abbreviation (input) DPMAIF_CS_RESULT_PASS :: u32 where "DPMAIF_CS_RESULT_PASS \<equiv> 0"
abbreviation (input) DES_PT_MSG :: u32 where "DES_PT_MSG \<equiv> 1"
abbreviation (input) PKT_BUF_FRAG :: u32 where "PKT_BUF_FRAG \<equiv> 1"
abbreviation (input) NETIF_MASK :: field where "NETIF_MASK \<equiv> (4, 0)"
abbreviation (input) PD_PIT_DATA_LEN :: field where "PD_PIT_DATA_LEN \<equiv> (31, 16)"
abbreviation (input) PD_PIT_BUFFER_ID :: field where "PD_PIT_BUFFER_ID \<equiv> (15, 3)"
abbreviation (input) PD_PIT_BUFFER_TYPE :: field where "PD_PIT_BUFFER_TYPE \<equiv> (2, 2)"
abbreviation (input) PD_PIT_CONT :: field where "PD_PIT_CONT \<equiv> (1, 1)"
abbreviation (input) PD_PIT_PACKET_TYPE :: field where "PD_PIT_PACKET_TYPE \<equiv> (0, 0)"
abbreviation (input) PD_PIT_H_BID :: field where "PD_PIT_H_BID \<equiv> (10, 8)"
abbreviation (input) PD_PIT_PIT_SEQ :: field where "PD_PIT_PIT_SEQ \<equiv> (7, 0)"
abbreviation (input) MSG_PIT_DP :: field where "MSG_PIT_DP \<equiv> (31, 31)"
abbreviation (input) MSG_PIT_CHANNEL_ID :: field where "MSG_PIT_CHANNEL_ID \<equiv> (23, 16)"
abbreviation (input) MSG_PIT_CHECKSUM :: field where "MSG_PIT_CHECKSUM \<equiv> (3, 2)"
abbreviation (input) MSG_PIT_IP :: field where "MSG_PIT_IP \<equiv> (23, 23)"

datatype bat_type = BAT_TYPE_NORMAL | BAT_TYPE_FRAG

record rx_skb =
  rs_ptr :: u64
  rs_off :: u32 \<comment> \<open>\<open>skb->data - skb->head\<close>\<close>
  rs_tail :: u32
  rs_end :: u32
  rs_len :: u32
  rs_frags :: "(u64 \<times> u32 \<times> u32) list" \<comment> \<open>page, offset, length\<close>

record dpmaif_pit =
  pit_header :: u32
  pit_dw1 :: u32 \<comment> \<open>\<open>pd.data_addr_l\<close> or \<open>msg.params_1\<close>\<close>
  pit_dw2 :: u32 \<comment> \<open>\<open>pd.data_addr_h\<close> or \<open>msg.params_2\<close>\<close>
  pit_dw3 :: u32 \<comment> \<open>\<open>pd.footer\<close> or \<open>msg.params_3\<close>\<close>

record dpmaif_cur_rx_skb_info =
  msg_pit_received :: bool
  cur_skb :: "rx_skb option"
  cur_chn_idx :: u32
  check_sum :: u32
  pit_dp :: u32
  pkt_type :: u32
  err_payload :: bool

record dpmaif_bat =
  p_buffer_addr :: u32
  buffer_addr_ext :: u32

record dpmaif_bat_skb =
  bs_skb :: "rx_skb option"
  bs_bus_addr :: dma_addr
  bs_data_len :: u32

record dpmaif_bat_page =
  bp_page :: u64 \<comment> \<open>0 is the null pointer\<close>
  bp_bus_addr :: dma_addr
  bp_offset :: u32
  bp_data_len :: u32

record dpmaif_bat_request =
  bat_base_ptr :: u64
  bat_base :: "u32 \<Rightarrow> dpmaif_bat"
  bat_bus_addr :: dma_addr
  bat_size_cnt :: u32
  bat_wr_idx :: u32
  bat_release_rd_idx :: u32
  bat_skb_ptr :: u64
  bat_skb :: "u32 \<Rightarrow> dpmaif_bat_skb" \<comment> \<open>\<open>bat_skb\<close> of the normal table\<close>
  bat_page :: "u32 \<Rightarrow> dpmaif_bat_page" \<comment> \<open>\<open>bat_skb\<close> of the fragment table\<close>
  pkt_buf_sz :: u32
  bat_bitmap_ptr :: u64
  bat_bitmap :: "u32 \<Rightarrow> bool"
  bat_refcnt :: int

record dpmaif_rx_queue =
  rxq_index :: nat
  rxq_started :: bool
  rxq_budget :: u32
  pit_base :: u64
  pit_bus_addr :: dma_addr
  pit_size_cnt :: u32
  pit_rd_idx :: u32
  pit_wr_idx :: u32
  pit_release_rd_idx :: u32
  rxq_bats_set :: bool \<comment> \<open>\<open>bat_req\<close> and \<open>bat_frag\<close> are not null\<close>
  rxq_ctrl_set :: bool \<comment> \<open>\<open>dpmaif_ctrl\<close> is not null\<close>
  rx_processing :: int
  expect_pit_seq :: u32
  pit_remain_release_cnt :: u32
  rx_data_info :: dpmaif_cur_rx_skb_info
  sleep_lock_pending :: bool

record rx_layer = modem_layer +
  rxq :: "nat \<Rightarrow> dpmaif_rx_queue"
  bat :: "bat_type \<Rightarrow> dpmaif_bat_request"
  bat_release_wq :: u64

definition zero_rx_info :: dpmaif_cur_rx_skb_info where
  "zero_rx_info = \<lparr>msg_pit_received = False, cur_skb = None, cur_chn_idx = 0, check_sum = 0,
     pit_dp = 0, pkt_type = 0, err_payload = False\<rparr>"

definition get_rxq :: "nat \<Rightarrow> (dpmaif_rx_queue \<Rightarrow> 'a) \<Rightarrow> ('z rx_layer_scheme, 'a) state" where
  "get_rxq q f = gets (\<lambda>s. f (rxq s q))"

definition upd_rxq ::
  "nat \<Rightarrow> (dpmaif_rx_queue \<Rightarrow> dpmaif_rx_queue) \<Rightarrow> ('z rx_layer_scheme, unit) state" where
  "upd_rxq q f = modify (\<lambda>s. s\<lparr>rxq := (rxq s)(q := f (rxq s q))\<rparr>)"

definition get_bat :: "bat_type \<Rightarrow> (dpmaif_bat_request \<Rightarrow> 'a) \<Rightarrow> ('z rx_layer_scheme, 'a) state" where
  "get_bat b f = gets (\<lambda>s. f (bat s b))"

definition upd_bat ::
  "bat_type \<Rightarrow> (dpmaif_bat_request \<Rightarrow> dpmaif_bat_request) \<Rightarrow> ('z rx_layer_scheme, unit) state" where
  "upd_bat b f = modify (\<lambda>s. s\<lparr>bat := (bat s)(b := f (bat s b))\<rparr>)"

definition upd_info ::
  "nat \<Rightarrow> (dpmaif_cur_rx_skb_info \<Rightarrow> dpmaif_cur_rx_skb_info) \<Rightarrow> ('z rx_layer_scheme, unit) state" where
  "upd_info q f = upd_rxq q (\<lambda>r. r\<lparr>rx_data_info := f (rx_data_info r)\<rparr>)"

definition upd_slot ::
  "u32 \<Rightarrow> (dpmaif_bat_skb \<Rightarrow> dpmaif_bat_skb) \<Rightarrow> ('z rx_layer_scheme, unit) state" where
  "upd_slot i f = upd_bat BAT_TYPE_NORMAL (\<lambda>b. b\<lparr>bat_skb := (bat_skb b)(i := f (bat_skb b i))\<rparr>)"

definition upd_page ::
  "u32 \<Rightarrow> (dpmaif_bat_page \<Rightarrow> dpmaif_bat_page) \<Rightarrow> ('z rx_layer_scheme, unit) state" where
  "upd_page i f = upd_bat BAT_TYPE_FRAG (\<lambda>b. b\<lparr>bat_page := (bat_page b)(i := f (bat_page b i))\<rparr>)"

text \<open>What the device reads of a slot.\<close>

definition put_bat :: "bat_type \<Rightarrow> u32 \<Rightarrow> dma_addr \<Rightarrow> ('z rx_layer_scheme, unit) state" where
  "put_bat b i a = upd_bat b (\<lambda>x. x\<lparr>bat_base := (bat_base x)(i :=
     \<lparr>p_buffer_addr = lower_32_bits a, buffer_addr_ext = upper_32_bits a\<rparr>)\<rparr>)"

abbreviation dma_unmap_page :: "dma_addr \<Rightarrow> u64 \<Rightarrow> ('z io_scheme, unit) state" where
  "dma_unmap_page a len \<equiv> kcall ''dma_unmap_page'' [a, len]"

section \<open>Buffers for packets\<close>

definition t7xx_normal_pit_bid :: "dpmaif_pit \<Rightarrow> u32" where
  "t7xx_normal_pit_bid pit =
     push_bit 13 (FIELD_GET PD_PIT_H_BID (pit_dw3 pit)) + FIELD_GET PD_PIT_BUFFER_ID (pit_header pit)"

definition t7xx_dpmaif_update_bat_wr_idx :: "nat \<Rightarrow> u32 \<Rightarrow> ('z rx_layer_scheme, errno + unit) state" where
  "t7xx_dpmaif_update_bat_wr_idx q_num bat_cnt = do {
     started \<leftarrow> get_rxq q_num rxq_started;
     if \<not> started then return (Inl EINVAL) else do {
       n \<leftarrow> get_bat BAT_TYPE_NORMAL bat_size_cnt;
       old_rl_idx \<leftarrow> get_bat BAT_TYPE_NORMAL bat_release_rd_idx;
       old_wr_idx \<leftarrow> get_bat BAT_TYPE_NORMAL bat_wr_idx;
       let new_wr_idx = old_wr_idx + bat_cnt;
       if old_rl_idx > old_wr_idx \<and> new_wr_idx \<ge> old_rl_idx then return (Inl EINVAL)
       else if new_wr_idx \<ge> n \<and> new_wr_idx - n \<ge> old_rl_idx then return (Inl EINVAL)
       else do {
         upd_bat BAT_TYPE_NORMAL (\<lambda>b. b\<lparr>bat_wr_idx := if new_wr_idx \<ge> n then new_wr_idx - n else new_wr_idx\<rparr>);
         return (Inr ())
       }
     }
   }"

text \<open>The layout of a fresh packet is the kernel's.\<close>

definition t7xx_alloc_and_map_skb_info :: "u32 \<Rightarrow> u32 \<Rightarrow> ('z rx_layer_scheme, bool) state" where
  "t7xx_alloc_and_map_skb_info sz i = do {
     skb \<leftarrow> kquery ''__dev_alloc_skb'' [ucast sz];
     if skb = 0 then return False else do {
       a \<leftarrow> dma_map_single skb (ucast sz);
       if dma_mapping_error a then do {
         dev_kfree_skb skb;
         return False
       } else do {
         off \<leftarrow> kquery ''skb_headroom'' [skb];
         end_off \<leftarrow> kquery ''skb_end_offset'' [skb];
         upd_slot i (\<lambda>_. \<lparr>bs_skb = Some \<lparr>rs_ptr = skb, rs_off = ucast off, rs_tail = ucast off,
             rs_end = ucast end_off, rs_len = 0, rs_frags = []\<rparr>, bs_bus_addr = a, bs_data_len = sz\<rparr>);
         return True
       }
     }
   }"

definition t7xx_unmap_bat_skb :: "u32 \<Rightarrow> ('z rx_layer_scheme, unit) state" where
  "t7xx_unmap_bat_skb i = do {
     x \<leftarrow> get_bat BAT_TYPE_NORMAL (\<lambda>b. bat_skb b i);
     case bs_skb x of
       None \<Rightarrow> return ()
     | Some skb \<Rightarrow> do {
         dma_unmap_single (bs_bus_addr x) (ucast (bs_data_len x));
         dev_kfree_skb (rs_ptr skb);
         upd_slot i (\<lambda>x. x\<lparr>bs_skb := None\<rparr>)
       }
   }"

text \<open>
  The loop over the slots: \<open>n\<close> are left, \<open>i\<close> have their buffer. The result is the number that
  have.
\<close>

primrec buf_alloc_loop :: "u32 \<Rightarrow> nat \<Rightarrow> nat \<Rightarrow> ('z rx_layer_scheme, nat) state" where
  "buf_alloc_loop start 0 i = return i"
| "buf_alloc_loop start (Suc n) i = do {
     bat_max_cnt \<leftarrow> get_bat BAT_TYPE_NORMAL bat_size_cnt;
     let cur = start + of_nat i;
     let cur_bat_idx = (if cur \<ge> bat_max_cnt then cur - bat_max_cnt else cur);
     x \<leftarrow> get_bat BAT_TYPE_NORMAL (\<lambda>b. bat_skb b cur_bat_idx);
     sz \<leftarrow> get_bat BAT_TYPE_NORMAL pkt_buf_sz;
     ok \<leftarrow> (if bs_skb x = None then t7xx_alloc_and_map_skb_info sz cur_bat_idx else return True);
     if \<not> ok then return i else do {
       a \<leftarrow> get_bat BAT_TYPE_NORMAL (\<lambda>b. bs_bus_addr (bat_skb b cur_bat_idx));
       put_bat BAT_TYPE_NORMAL cur_bat_idx a;
       buf_alloc_loop start n (Suc i)
     }
   }"

text \<open>\<open>while (i--)\<close>: the slots it clears are those with the numbers below \<open>i\<close>.\<close>

primrec unmap_skbs :: "nat \<Rightarrow> ('z rx_layer_scheme, unit) state" where
  "unmap_skbs 0 = return ()"
| "unmap_skbs (Suc i) = do { t7xx_unmap_bat_skb (of_nat i); unmap_skbs i }"

text \<open>The count of new buffers goes to the device, whose write index must then be the driver's.\<close>

definition buf_alloc_notify :: "nat \<Rightarrow> bool \<Rightarrow> ('z rx_layer_scheme, errno + unit) state" where
  "buf_alloc_notify i initial =
     (if initial then return (Inr ()) else do {
        ret \<leftarrow> t7xx_dpmaif_dl_snd_hw_bat_cnt (of_nat i);
        if isl ret then return ret else do {
          hw_wr_idx \<leftarrow> t7xx_dpmaif_dl_get_bat_wr_idx;
          w \<leftarrow> get_bat BAT_TYPE_NORMAL bat_wr_idx;
          return (if hw_wr_idx \<noteq> w then Inl EFAULT else Inr ())
        }
      })"

definition t7xx_dpmaif_rx_buf_alloc ::
  "nat \<Rightarrow> u32 \<Rightarrow> bool \<Rightarrow> ('z rx_layer_scheme, errno + unit) state" where
  "t7xx_dpmaif_rx_buf_alloc q_num buf_cnt initial = do {
     bat_max_cnt \<leftarrow> get_bat BAT_TYPE_NORMAL bat_size_cnt;
     if buf_cnt = 0 \<or> buf_cnt > bat_max_cnt then return (Inl EINVAL) else do {
       bat_cnt \<leftarrow> get_bat BAT_TYPE_NORMAL (\<lambda>b.
         t7xx_ring_buf_rd_wr_count bat_max_cnt (bat_release_rd_idx b) (bat_wr_idx b) DPMAIF_WRITE);
       if buf_cnt > bat_cnt then return (Inl ENOMEM) else do {
         bat_start_idx \<leftarrow> get_bat BAT_TYPE_NORMAL bat_wr_idx;
         i \<leftarrow> buf_alloc_loop bat_start_idx (unat buf_cnt) 0;
         if i = 0 then return (Inl ENOMEM) else do {
           ret \<leftarrow> t7xx_dpmaif_update_bat_wr_idx q_num (of_nat i);
           ret \<leftarrow> (if isl ret then return ret else buf_alloc_notify i initial);
           c_when (isl ret) (unmap_skbs i);
           return ret
         }
       }
     }
   }"

section \<open>Entries given back to the device\<close>

definition t7xx_dpmaifq_release_pit_entry ::
  "nat \<Rightarrow> u32 \<Rightarrow> ('z rx_layer_scheme, errno + unit) state" where
  "t7xx_dpmaifq_release_pit_entry q rel_entry_num = do {
     r \<leftarrow> get_rxq q (\<lambda>r. r);
     if \<not> rxq_started r then return (Inr ())
     else if rel_entry_num \<ge> pit_size_cnt r then return (Inl EINVAL) else do {
       let old_rel_idx = pit_release_rd_idx r;
       let new_rel_idx = old_rel_idx + rel_entry_num;
       let new_rel_idx = (if pit_wr_idx r < old_rel_idx \<and> new_rel_idx \<ge> pit_size_cnt r
         then new_rel_idx - pit_size_cnt r else new_rel_idx);
       ret \<leftarrow> t7xx_dpmaif_dlq_add_pit_remain_cnt (rxq_index r) rel_entry_num;
       if isl ret then return ret else do {
         upd_rxq q (\<lambda>r. r\<lparr>pit_release_rd_idx := new_rel_idx\<rparr>);
         return (Inr ())
       }
     }
   }"

definition t7xx_dpmaif_set_bat_mask :: "bat_type \<Rightarrow> u32 \<Rightarrow> ('z rx_layer_scheme, unit) state" where
  "t7xx_dpmaif_set_bat_mask b i = upd_bat b (\<lambda>x. x\<lparr>bat_bitmap := (bat_bitmap x)(i := True)\<rparr>)"

definition t7xx_frag_bat_cur_bid_check :: "u32 \<Rightarrow> ('z rx_layer_scheme, errno + unit) state" where
  "t7xx_frag_bat_cur_bid_check cur_bid =
     (if cur_bid \<ge> DPMAIF_FRG_COUNT then return (Inl EINVAL) else do {
        p \<leftarrow> get_bat BAT_TYPE_FRAG (\<lambda>b. bp_page (bat_page b cur_bid));
        return (if p = 0 then Inl EINVAL else Inr ())
      })"

definition t7xx_unmap_bat_page :: "u32 \<Rightarrow> ('z rx_layer_scheme, unit) state" where
  "t7xx_unmap_bat_page i = do {
     x \<leftarrow> get_bat BAT_TYPE_FRAG (\<lambda>b. bat_page b i);
     c_when (bp_page x \<noteq> 0) (do {
       dma_unmap_page (bp_bus_addr x) (ucast (bp_data_len x));
       kcall ''put_page'' [bp_page x];
       upd_page i (\<lambda>x. x\<lparr>bp_page := 0\<rparr>)
     })
   }"

section \<open>Buffers for fragments\<close>

definition alloc_frag_page :: "u32 \<Rightarrow> u32 \<Rightarrow> ('z rx_layer_scheme, bool) state" where
  "alloc_frag_page sz i = do {
     data \<leftarrow> kquery ''netdev_alloc_frag'' [ucast sz];
     if data = 0 then return False else do {
       page \<leftarrow> kquery ''virt_to_head_page'' [data];
       base \<leftarrow> kquery ''page_address'' [page];
       let offset = data - base;
       a \<leftarrow> kquery ''dma_map_page'' [page, offset, ucast sz];
       if dma_mapping_error a then do {
         kcall ''put_page'' [page];
         return False
       } else do {
         upd_page i (\<lambda>_. \<lparr>bp_page = page, bp_bus_addr = a, bp_offset = ucast offset, bp_data_len = sz\<rparr>);
         return True
       }
     }
   }"

text \<open>The loop gives the number of slots that have their buffer and the index after the last.\<close>

primrec frag_alloc_loop :: "nat \<Rightarrow> nat \<Rightarrow> u32 \<Rightarrow> ('z rx_layer_scheme, nat \<times> u32) state" where
  "frag_alloc_loop 0 i cur_bat_idx = return (i, cur_bat_idx)"
| "frag_alloc_loop (Suc n) i cur_bat_idx = do {
     p \<leftarrow> get_bat BAT_TYPE_FRAG (\<lambda>b. bp_page (bat_page b cur_bat_idx));
     sz \<leftarrow> get_bat BAT_TYPE_FRAG pkt_buf_sz;
     ok \<leftarrow> (if p = 0 then alloc_frag_page sz cur_bat_idx else return True);
     if \<not> ok then return (i, cur_bat_idx) else do {
       a \<leftarrow> get_bat BAT_TYPE_FRAG (\<lambda>b. bp_bus_addr (bat_page b cur_bat_idx));
       put_bat BAT_TYPE_FRAG cur_bat_idx a;
       m \<leftarrow> get_bat BAT_TYPE_FRAG bat_size_cnt;
       frag_alloc_loop n (Suc i) (t7xx_ring_buf_get_next_wr_idx m cur_bat_idx)
     }
   }"

text \<open>\<open>while (--i > 0)\<close>\<close>

primrec unmap_pages :: "nat \<Rightarrow> ('z rx_layer_scheme, unit) state" where
  "unmap_pages 0 = return ()"
| "unmap_pages (Suc i) = c_when (0 < i) (do { t7xx_unmap_bat_page (of_nat i); unmap_pages i })"

definition t7xx_dpmaif_rx_frag_alloc :: "u32 \<Rightarrow> bool \<Rightarrow> ('z rx_layer_scheme, errno + unit) state" where
  "t7xx_dpmaif_rx_frag_alloc buf_cnt initial = do {
     n \<leftarrow> get_bat BAT_TYPE_FRAG bat_size_cnt;
     if buf_cnt = 0 \<or> buf_cnt > n then return (Inl EINVAL) else do {
       buf_space \<leftarrow> get_bat BAT_TYPE_FRAG (\<lambda>b.
         t7xx_ring_buf_rd_wr_count n (bat_release_rd_idx b) (bat_wr_idx b) DPMAIF_WRITE);
       if buf_cnt > buf_space then return (Inl EINVAL) else do {
         w \<leftarrow> get_bat BAT_TYPE_FRAG bat_wr_idx;
         (i, cur_bat_idx) \<leftarrow> frag_alloc_loop (unat buf_cnt) 0 w;
         upd_bat BAT_TYPE_FRAG (\<lambda>b. b\<lparr>bat_wr_idx := cur_bat_idx\<rparr>);
         c_when (\<not> initial) (do { t7xx_dpmaif_dl_snd_hw_frg_cnt (of_nat i); return () });
         if i < unat buf_cnt then do {
           c_when initial (unmap_pages i);
           return (Inl ENOMEM)
         } else return (Inr ())
       }
     }
   }"

section \<open>Packets from entries\<close>

definition pit_data_addr :: "dpmaif_pit \<Rightarrow> u64" where
  "pit_data_addr pit = push_bit 32 (ucast (pit_dw2 pit)) + ucast (pit_dw1 pit)"

text \<open>
  Offsets are C ints: the difference of the addresses is cut to 32 bits. \<open>skb_add_rx_frag\<close> writes
  to an array of \<open>MAX_SKB_FRAGS\<close> entries.
\<close>

definition t7xx_dpmaif_set_frag_to_skb ::
  "dpmaif_pit \<Rightarrow> rx_skb \<Rightarrow> ('z rx_layer_scheme, errno + rx_skb) state" where
  "t7xx_dpmaif_set_frag_to_skb pit skb = do {
     let bid = t7xx_normal_pit_bid pit;
     p \<leftarrow> get_bat BAT_TYPE_FRAG (\<lambda>b. bat_page b bid);
     dma_unmap_page (bp_bus_addr p) (ucast (bp_data_len p));
     if bp_page p = 0 then return (Inl EINVAL) else do {
       let data_offset = ucast (pit_data_addr pit - bp_bus_addr p) + bp_offset p;
       let data_len = FIELD_GET PD_PIT_DATA_LEN (pit_header pit);
       c_when (MAX_SKB_FRAGS \<le> int (length (rs_frags skb))) fault;
       upd_page bid (\<lambda>p. p\<lparr>bp_page := 0, bp_offset := 0, bp_data_len := 0\<rparr>);
       return (Inr (skb\<lparr>rs_frags := rs_frags skb @ [(bp_page p, data_offset, data_len)],
         rs_len := rs_len skb + data_len\<rparr>))
     }
   }"

definition t7xx_dpmaif_get_frag ::
  "nat \<Rightarrow> dpmaif_pit \<Rightarrow> rx_skb \<Rightarrow> ('z rx_layer_scheme, errno + unit) state" where
  "t7xx_dpmaif_get_frag q pit skb = do {
     let cur_bid = t7xx_normal_pit_bid pit;
     ret \<leftarrow> t7xx_frag_bat_cur_bid_check cur_bid;
     if isl ret then return ret else do {
       ret \<leftarrow> t7xx_dpmaif_set_frag_to_skb pit skb;
       case ret of
         Inl e \<Rightarrow> return (Inl e)
       | Inr skb' \<Rightarrow> do {
           upd_info q (\<lambda>x. x\<lparr>cur_skb := Some skb'\<rparr>);
           t7xx_dpmaif_set_bat_mask BAT_TYPE_FRAG cur_bid;
           return (Inr ())
         }
     }
   }"

definition t7xx_bat_cur_bid_check :: "u32 \<Rightarrow> ('z rx_layer_scheme, errno + unit) state" where
  "t7xx_bat_cur_bid_check cur_bid = do {
     x \<leftarrow> get_bat BAT_TYPE_NORMAL (\<lambda>b. bs_skb (bat_skb b cur_bid));
     return (if cur_bid \<ge> DPMAIF_BAT_COUNT \<or> x = None then Inl EINVAL else Inr ())
   }"

text \<open>The words of an entry of 16 bytes.\<close>

definition pit_word :: "nat \<Rightarrow> u32 \<Rightarrow> u64 \<Rightarrow> ('z rx_layer_scheme, u32) state" where
  "pit_word q i k = do {
     b \<leftarrow> get_rxq q pit_base;
     v \<leftarrow> kquery ''pit'' [b + ucast i * 16 + k];
     return (ucast v)
   }"

definition read_pit :: "nat \<Rightarrow> u32 \<Rightarrow> ('z rx_layer_scheme, dpmaif_pit) state" where
  "read_pit q i = do {
     h \<leftarrow> pit_word q i 0;
     w1 \<leftarrow> pit_word q i 4;
     w2 \<leftarrow> pit_word q i 8;
     w3 \<leftarrow> pit_word q i 12;
     return \<lparr>pit_header = h, pit_dw1 = w1, pit_dw2 = w2, pit_dw3 = w3\<rparr>
   }"

definition t7xx_dpmaif_read_pit_seq :: "nat \<Rightarrow> u32 \<Rightarrow> ('z rx_layer_scheme, u32) state" where
  "t7xx_dpmaif_read_pit_seq q i = do {
     footer \<leftarrow> pit_word q i 12;
     return (FIELD_GET PD_PIT_PIT_SEQ footer)
   }"

definition t7xx_dpmaif_check_pit_seq :: "nat \<Rightarrow> u32 \<Rightarrow> ('z rx_layer_scheme, errno + unit) state" where
  "t7xx_dpmaif_check_pit_seq q i = do {
     expect \<leftarrow> get_rxq q expect_pit_seq;
     ret \<leftarrow> read_poll_timeout (t7xx_dpmaif_read_pit_seq q i) (\<lambda>v. v = expect)
              DPMAIF_POLL_PIT_TIME_US DPMAIF_POLL_PIT_MAX_TIME_US;
     if isl ret then return (Inl EFAULT) else do {
       upd_rxq q (\<lambda>r. r\<lparr>expect_pit_seq :=
         if expect_pit_seq r + 1 \<ge> DPMAIF_DL_PIT_SEQ_VALUE then 0 else expect_pit_seq r + 1\<rparr>);
       return (Inr ())
     }
   }"

section \<open>Taking the buffers\<close>

text \<open>
  The first clear bit of the map at or after an index, and below a bound; the bound if there
  is none.
\<close>

definition find_next_zero_bit :: "(u32 \<Rightarrow> bool) \<Rightarrow> u32 \<Rightarrow> u32 \<Rightarrow> u32" where
  "find_next_zero_bit m n start =
     (case find (\<lambda>i. \<not> m (of_nat i)) [unat start..<unat n] of Some i \<Rightarrow> of_nat i | None \<Rightarrow> n)"

definition t7xx_dpmaif_avail_pkt_bat_cnt :: "bat_type \<Rightarrow> ('z rx_layer_scheme, u32) state" where
  "t7xx_dpmaif_avail_pkt_bat_cnt b = do {
     m \<leftarrow> get_bat b bat_bitmap;
     n \<leftarrow> get_bat b bat_size_cnt;
     r \<leftarrow> get_bat b bat_release_rd_idx;
     let zero_index = find_next_zero_bit m n r;
     return (if zero_index < n then zero_index - r else n - r + find_next_zero_bit m r 0)
   }"

definition t7xx_dpmaif_release_bat_entry ::
  "nat \<Rightarrow> u32 \<Rightarrow> bat_type \<Rightarrow> ('z rx_layer_scheme, errno + u32) state" where
  "t7xx_dpmaif_release_bat_entry q rel_entry_num b = do {
     started \<leftarrow> get_rxq q rxq_started;
     if \<not> started \<or> rel_entry_num = 0 then return (Inl EINVAL) else do {
       hw_rd_idx \<leftarrow> (case b of BAT_TYPE_FRAG \<Rightarrow> t7xx_dpmaif_dl_get_frg_rd_idx
                           | BAT_TYPE_NORMAL \<Rightarrow> t7xx_dpmaif_dl_get_bat_rd_idx);
       n \<leftarrow> get_bat b bat_size_cnt;
       if rel_entry_num \<ge> n then return (Inl EINVAL) else do {
         old_rel_idx \<leftarrow> get_bat b bat_release_rd_idx;
         w \<leftarrow> get_bat b bat_wr_idx;
         let new_rel_idx = old_rel_idx + rel_entry_num;
         if w = old_rel_idx then return (Inr 0)
         else if hw_rd_idx \<ge> old_rel_idx \<and> new_rel_idx > hw_rd_idx then return (Inl EINVAL)
         else if new_rel_idx \<ge> n \<and> new_rel_idx - n > hw_rd_idx then return (Inl EINVAL)
         else do {
           for_each [0..<unat rel_entry_num] (\<lambda>i. do {
             let index = old_rel_idx + of_nat i;
             upd_bat b (\<lambda>x. x\<lparr>bat_bitmap :=
               (bat_bitmap x)((if index \<ge> n then index - n else index) := False)\<rparr>)
           });
           upd_bat b (\<lambda>x. x\<lparr>bat_release_rd_idx := if new_rel_idx \<ge> n then new_rel_idx - n else new_rel_idx\<rparr>);
           return (Inr rel_entry_num)
         }
       }
     }
   }"

definition t7xx_dpmaif_pit_release_and_add :: "nat \<Rightarrow> ('z rx_layer_scheme, errno + unit) state" where
  "t7xx_dpmaif_pit_release_and_add q = do {
     n \<leftarrow> get_rxq q pit_remain_release_cnt;
     if n < DPMAIF_PIT_CNT_THRESHOLD then return (Inr ()) else do {
       ret \<leftarrow> t7xx_dpmaifq_release_pit_entry q n;
       if isl ret then return ret else do {
         upd_rxq q (\<lambda>r. r\<lparr>pit_remain_release_cnt := 0\<rparr>);
         return (Inr ())
       }
     }
   }"

definition t7xx_dpmaif_bat_release_and_add :: "nat \<Rightarrow> ('z rx_layer_scheme, errno + unit) state" where
  "t7xx_dpmaif_bat_release_and_add q = do {
     bid_cnt \<leftarrow> t7xx_dpmaif_avail_pkt_bat_cnt BAT_TYPE_NORMAL;
     if bid_cnt < DPMAIF_BAT_CNT_THRESHOLD then return (Inr ()) else do {
       ret \<leftarrow> t7xx_dpmaif_release_bat_entry q bid_cnt BAT_TYPE_NORMAL;
       case ret of
         Inl e \<Rightarrow> return (Inl e)
       | Inr n \<Rightarrow> if n = 0 then return (Inr ()) else do {
           i \<leftarrow> get_rxq q rxq_index;
           t7xx_dpmaif_rx_buf_alloc i bid_cnt False
         }
     }
   }"

definition t7xx_dpmaif_frag_bat_release_and_add :: "nat \<Rightarrow> ('z rx_layer_scheme, errno + unit) state" where
  "t7xx_dpmaif_frag_bat_release_and_add q = do {
     bid_cnt \<leftarrow> t7xx_dpmaif_avail_pkt_bat_cnt BAT_TYPE_FRAG;
     if bid_cnt < DPMAIF_BAT_CNT_THRESHOLD then return (Inr ()) else do {
       ret \<leftarrow> t7xx_dpmaif_release_bat_entry q bid_cnt BAT_TYPE_FRAG;
       case ret of
         Inl e \<Rightarrow> return (Inl e)
       | Inr n \<Rightarrow> if n = 0 then return (Inr ()) else t7xx_dpmaif_rx_frag_alloc bid_cnt False
     }
   }"

section \<open>Packets for the network layer\<close>

definition t7xx_dpmaif_parse_msg_pit :: "nat \<Rightarrow> dpmaif_pit \<Rightarrow> ('z rx_layer_scheme, unit) state" where
  "t7xx_dpmaif_parse_msg_pit q pit = upd_info q (\<lambda>x. x\<lparr>
     cur_chn_idx := FIELD_GET MSG_PIT_CHANNEL_ID (pit_header pit),
     check_sum := FIELD_GET MSG_PIT_CHECKSUM (pit_header pit),
     pit_dp := FIELD_GET MSG_PIT_DP (pit_header pit),
     pkt_type := FIELD_GET MSG_PIT_IP (pit_dw3 pit)\<rparr>)"

text \<open>\<open>skb_reset_tail_pointer\<close>, \<open>skb_reserve\<close>, \<open>skb_put\<close>.\<close>

definition skb_reset_reserve :: "u32 \<Rightarrow> rx_skb \<Rightarrow> rx_skb" where
  "skb_reset_reserve data_offset skb =
     skb\<lparr>rs_len := 0, rs_off := rs_off skb + data_offset, rs_tail := rs_off skb + data_offset\<rparr>"

definition rx_skb_put :: "u32 \<Rightarrow> rx_skb \<Rightarrow> rx_skb" where
  "rx_skb_put len skb = skb\<lparr>rs_tail := rs_tail skb + len, rs_len := rs_len skb + len\<rparr>"

definition t7xx_dpmaif_set_data_to_skb ::
  "nat \<Rightarrow> dpmaif_pit \<Rightarrow> ('z rx_layer_scheme, errno + unit) state" where
  "t7xx_dpmaif_set_data_to_skb q pit = do {
     let bid = t7xx_normal_pit_bid pit;
     x \<leftarrow> get_bat BAT_TYPE_NORMAL (\<lambda>b. bat_skb b bid);
     dma_unmap_single (bs_bus_addr x) (ucast (bs_data_len x));
     let data_offset = ucast (pit_data_addr pit - bs_bus_addr x);
     let data_len = FIELD_GET PD_PIT_DATA_LEN (pit_header pit);
     case bs_skb x of
       None \<Rightarrow> do { fault; return (Inl EINVAL) }
     | Some skb \<Rightarrow> do {
         let skb = skb_reset_reserve data_offset skb;
         upd_slot bid (\<lambda>x. x\<lparr>bs_skb := Some skb\<rparr>);
         if rs_tail skb + data_len > rs_end skb then return (Inl ENOBUFS) else do {
           upd_info q (\<lambda>x. x\<lparr>cur_skb := Some (rx_skb_put data_len skb)\<rparr>);
           upd_slot bid (\<lambda>x. x\<lparr>bs_skb := None\<rparr>);
           return (Inr ())
         }
       }
   }"

definition t7xx_dpmaif_get_rx_pkt :: "nat \<Rightarrow> dpmaif_pit \<Rightarrow> ('z rx_layer_scheme, errno + unit) state" where
  "t7xx_dpmaif_get_rx_pkt q pit = do {
     let cur_bid = t7xx_normal_pit_bid pit;
     ret \<leftarrow> t7xx_bat_cur_bid_check cur_bid;
     if isl ret then return ret else do {
       ret \<leftarrow> t7xx_dpmaif_set_data_to_skb q pit;
       if isl ret then return ret else do {
         t7xx_dpmaif_set_bat_mask BAT_TYPE_NORMAL cur_bid;
         return (Inr ())
       }
     }
   }"

definition t7xx_dpmaifq_rx_notify_hw :: "nat \<Rightarrow> ('z rx_layer_scheme, errno + unit) state" where
  "t7xx_dpmaifq_rx_notify_hw q = do {
     kcall ''queue_work bat_release_work'' [];
     t7xx_dpmaif_pit_release_and_add q
   }"

text \<open>The device's session number has five bits; the table of the network layer has 21 entries.\<close>

definition t7xx_dpmaif_rx_skb :: "nat \<Rightarrow> ('z rx_layer_scheme, unit) state" where
  "t7xx_dpmaif_rx_skb q = do {
     x \<leftarrow> get_rxq q rx_data_info;
     case cur_skb x of
       None \<Rightarrow> fault
     | Some skb \<Rightarrow> do {
         upd_info q (\<lambda>x. x\<lparr>cur_skb := None\<rparr>);
         if pit_dp x \<noteq> 0 then dev_kfree_skb (rs_ptr skb) else do {
           kcall ''skb->ip_summed'' [rs_ptr skb, if check_sum x = DPMAIF_CS_RESULT_PASS then 1 else 0];
           let netif_id = FIELD_GET NETIF_MASK (cur_chn_idx x);
           res \<leftarrow> t7xx_ccmni_recv_skb (rs_ptr skb) (rs_len skb) (ucast netif_id) (ucast (pkt_type x)) q;
           c_when (res = RECV_OUT_OF_BOUNDS) fault
         }
       }
   }"

section \<open>The receive loop\<close>

text \<open>The buffer of an entry; the result is that of the code's \<open>ret\<close>.\<close>

definition take_buffer :: "nat \<Rightarrow> dpmaif_pit \<Rightarrow> ('z rx_layer_scheme, errno + unit) state" where
  "take_buffer q pit =
     (if FIELD_GET PD_PIT_BUFFER_TYPE (pit_header pit) \<noteq> PKT_BUF_FRAG
      then t7xx_dpmaif_get_rx_pkt q pit
      else do {
        x \<leftarrow> get_rxq q (\<lambda>r. cur_skb (rx_data_info r));
        case x of None \<Rightarrow> return (Inl EINVAL) | Some skb \<Rightarrow> t7xx_dpmaif_get_frag q pit skb
      })"

text \<open>The end of a packet.\<close>

definition end_packet :: "nat \<Rightarrow> ('z rx_layer_scheme, unit) state" where
  "end_packet q = do {
     x \<leftarrow> get_rxq q rx_data_info;
     (if \<not> err_payload x then t7xx_dpmaif_rx_skb q
      else case cur_skb x of None \<Rightarrow> return () | Some skb \<Rightarrow> dev_kfree_skb (rs_ptr skb));
     upd_info q (\<lambda>_. zero_rx_info)
   }"

text \<open>What the loop does with an entry, from the code's \<open>ret\<close> and \<open>recv_skb_cnt\<close> to the new ones.\<close>

definition rx_entry ::
  "nat \<Rightarrow> dpmaif_pit \<Rightarrow> errno + unit \<Rightarrow> nat \<Rightarrow> ('z rx_layer_scheme, (errno + unit) \<times> nat) state" where
  "rx_entry q pit ret recv_skb_cnt =
     (if FIELD_GET PD_PIT_PACKET_TYPE (pit_header pit) = DES_PT_MSG then do {
        upd_info q (\<lambda>x. x\<lparr>msg_pit_received := True\<rparr>);
        t7xx_dpmaif_parse_msg_pit q pit;
        return (ret, recv_skb_cnt)
      } else do {
        ret \<leftarrow> take_buffer q pit;
        c_when (isl ret) (upd_info q (\<lambda>x. x\<lparr>err_payload := True\<rparr>));
        if FIELD_GET PD_PIT_CONT (pit_header pit) = 0 then do {
          end_packet q;
          return (ret, recv_skb_cnt + 1)
        } else return (ret, recv_skb_cnt)
      })"

definition pit_advance :: "nat \<Rightarrow> ('z rx_layer_scheme, unit) state" where
  "pit_advance q = upd_rxq q (\<lambda>r. r\<lparr>
     pit_rd_idx := t7xx_ring_buf_get_next_wr_idx (pit_size_cnt r) (pit_rd_idx r),
     pit_remain_release_cnt := pit_remain_release_cnt r + 1\<rparr>)"

text \<open>
  \<open>n\<close> entries are left after \<open>rx_cnt\<close>. \<open>Inl cnt\<close>: the sequence number of an entry was not there
  in time, the code returns the packets so far and asks for another poll.
\<close>

primrec rx_loop ::
  "nat \<Rightarrow> nat \<Rightarrow> nat \<Rightarrow> nat \<Rightarrow> errno + unit \<Rightarrow> nat \<Rightarrow>
   ('z rx_layer_scheme, nat + (errno + unit) \<times> nat) state" where
  "rx_loop q bud 0 rx_cnt ret recv_skb_cnt = return (Inr (ret, recv_skb_cnt))"
| "rx_loop q bud (Suc n) rx_cnt ret recv_skb_cnt = do {
     x \<leftarrow> get_rxq q rx_data_info;
     if \<not> msg_pit_received x \<and> recv_skb_cnt \<ge> bud then return (Inr (ret, recv_skb_cnt)) else do {
       cur_pit \<leftarrow> get_rxq q pit_rd_idx;
       seq \<leftarrow> t7xx_dpmaif_check_pit_seq q cur_pit;
       if isl seq then return (Inl recv_skb_cnt) else do {
         pit \<leftarrow> read_pit q cur_pit;
         (ret, recv_skb_cnt) \<leftarrow> rx_entry q pit ret recv_skb_cnt;
         pit_advance q;
         if 0 < rx_cnt \<and> rx_cnt mod DPMAIF_NOTIFY_RELEASE_COUNT = 0 then do {
           ret \<leftarrow> t7xx_dpmaifq_rx_notify_hw q;
           if isl ret then return (Inr (ret, recv_skb_cnt))
           else rx_loop q bud n (Suc rx_cnt) ret recv_skb_cnt
         } else rx_loop q bud n (Suc rx_cnt) ret recv_skb_cnt
       }
     }
   }"

text \<open>The second part of the result is \<open>once_more\<close>.\<close>

definition t7xx_dpmaif_rx_start :: "nat \<Rightarrow> nat \<Rightarrow> nat \<Rightarrow> ('z rx_layer_scheme, (errno + nat) \<times> bool) state" where
  "t7xx_dpmaif_rx_start q pit_cnt bud = do {
     res \<leftarrow> rx_loop q bud pit_cnt 0 (Inr ()) 0;
     case res of
       Inl cnt \<Rightarrow> return (Inr cnt, True)
     | Inr (ret, cnt) \<Rightarrow> do {
         ret \<leftarrow> (if isl ret then return ret else t7xx_dpmaifq_rx_notify_hw q);
         return (case ret of Inl e \<Rightarrow> Inl e | Inr _ \<Rightarrow> Inr cnt, False)
       }
   }"

definition t7xx_dpmaifq_poll_pit :: "nat \<Rightarrow> ('z rx_layer_scheme, u32) state" where
  "t7xx_dpmaifq_poll_pit q = do {
     started \<leftarrow> get_rxq q rxq_started;
     if \<not> started then return 0 else do {
       i \<leftarrow> get_rxq q rxq_index;
       hw_wr_idx \<leftarrow> t7xx_dpmaif_dl_dlq_pit_get_wr_idx i;
       pit_cnt \<leftarrow> get_rxq q (\<lambda>r. t7xx_ring_buf_rd_wr_count (pit_size_cnt r) (pit_rd_idx r) hw_wr_idx DPMAIF_READ);
       upd_rxq q (\<lambda>r. r\<lparr>pit_wr_idx := hw_wr_idx\<rparr>);
       return pit_cnt
     }
   }"

definition t7xx_dpmaif_napi_rx_data_collect ::
  "nat \<Rightarrow> nat \<Rightarrow> ('z rx_layer_scheme, (errno + nat) \<times> bool) state" where
  "t7xx_dpmaif_napi_rx_data_collect q bud = do {
     cnt \<leftarrow> t7xx_dpmaifq_poll_pit q;
     if cnt = 0 then return (Inr 0, False) else t7xx_dpmaif_rx_start q (unat cnt) bud
   }"

text \<open>
  A round that goes on has received at least one packet, so \<open>budget\<close> rounds are enough.
\<close>

primrec poll_rounds :: "nat \<Rightarrow> nat \<Rightarrow> nat \<Rightarrow> nat \<Rightarrow> bool \<Rightarrow> ('z rx_layer_scheme, nat \<times> bool) state" where
  "poll_rounds q bud 0 work_done once_more = return (work_done, once_more)"
| "poll_rounds q bud (Suc n) work_done once_more =
     (if bud \<le> work_done then return (work_done, once_more) else do {
        i \<leftarrow> get_rxq q rxq_index;
        (rx_cnt, again) \<leftarrow> t7xx_dpmaif_napi_rx_data_collect i (bud - work_done);
        case rx_cnt of
          Inl _ \<Rightarrow> return (work_done, once_more \<or> again)
        | Inr k \<Rightarrow> if k = 0 then return (work_done, once_more \<or> again)
            else poll_rounds q bud n (work_done + k) (once_more \<or> again)
      })"

text \<open>The end of a poll.\<close>

definition poll_finish :: "nat \<Rightarrow> nat \<Rightarrow> nat \<Rightarrow> bool \<Rightarrow> ('z rx_layer_scheme, nat) state" where
  "poll_finish q bud work_done once_more =
     (if once_more then do {
        kcall ''napi_gro_flush'' [of_nat q];
        t7xx_dpmaif_clr_ip_busy_sts;
        return bud
      } else if work_done < bud then do {
        kcall ''napi_complete_done'' [of_nat q, of_nat work_done];
        t7xx_dpmaif_clr_ip_busy_sts;
        i \<leftarrow> get_rxq q rxq_index;
        t7xx_dpmaif_dlq_unmask_rx_done i;
        t7xx_pci_enable_sleep;
        kcall ''pm_runtime_mark_last_busy'' [];
        kcall ''pm_runtime_put_autosuspend'' [];
        upd_rxq q (\<lambda>r. r\<lparr>rx_processing := 0\<rparr>);
        return work_done
      } else do {
        t7xx_dpmaif_clr_ip_busy_sts;
        return work_done
      })"

definition t7xx_dpmaif_napi_rx_poll :: "nat \<Rightarrow> nat \<Rightarrow> ('z rx_layer_scheme, nat) state" where
  "t7xx_dpmaif_napi_rx_poll q bud = do {
     upd_rxq q (\<lambda>r. r\<lparr>rx_processing := 1\<rparr>);
     started \<leftarrow> get_rxq q rxq_started;
     if \<not> started then do {
       upd_rxq q (\<lambda>r. r\<lparr>rx_processing := 0\<rparr>);
       kcall ''pm_runtime_put_autosuspend'' [];
       return 0
     } else do {
       pending \<leftarrow> get_rxq q sleep_lock_pending;
       c_when (\<not> pending) t7xx_pci_disable_sleep;
       ret \<leftarrow> kquery ''try_wait_for_completion sleep_lock_acquire'' [];
       if ret = 0 then do {
         kcall ''napi_complete_done'' [of_nat q, 0];
         upd_rxq q (\<lambda>r. r\<lparr>sleep_lock_pending := True\<rparr>);
         kcall ''napi_schedule'' [of_nat q];
         return 0
       } else do {
         upd_rxq q (\<lambda>r. r\<lparr>sleep_lock_pending := False\<rparr>);
         (work_done, once_more) \<leftarrow> poll_rounds q bud bud 0 False;
         poll_finish q bud work_done once_more
       }
     }
   }"

definition t7xx_dpmaif_irq_rx_done :: "u32 \<Rightarrow> ('z rx_layer_scheme, unit) state" where
  "t7xx_dpmaif_irq_rx_done queues = do {
     let qno = int (ffs32 queues) - 1;
     if qno < 0 \<or> qno > int DPMAIF_RXQ_NUM - 1 then return () else do {
       ret \<leftarrow> kerr ''pm_runtime_resume_and_get'' [];
       if pm_get_failed ret then return () else kcall ''napi_schedule'' [of_int qno]
     }
   }"

section \<open>Memory of the tables and queues\<close>

definition t7xx_dpmaif_base_free :: "bat_type \<Rightarrow> ('z rx_layer_scheme, unit) state" where
  "t7xx_dpmaif_base_free b = do {
     x \<leftarrow> get_bat b (\<lambda>x. x);
     c_when (bat_base_ptr x \<noteq> 0)
       (kcall ''dma_free_coherent'' [ucast (bat_size_cnt x) * 8, bat_base_ptr x, bat_bus_addr x])
   }"

text \<open>\<open>struct dpmaif_bat\<close> has 8 bytes, the two structures of a slot have 24.\<close>

definition t7xx_dpmaif_bat_alloc :: "bat_type \<Rightarrow> ('z rx_layer_scheme, errno + unit) state" where
  "t7xx_dpmaif_bat_alloc b = do {
     let n = (case b of BAT_TYPE_FRAG \<Rightarrow> DPMAIF_FRG_COUNT | BAT_TYPE_NORMAL \<Rightarrow> DPMAIF_BAT_COUNT);
     let sz = (case b of BAT_TYPE_FRAG \<Rightarrow> DPMAIF_HW_FRG_PKTBUF | BAT_TYPE_NORMAL \<Rightarrow> DPMAIF_HW_BAT_PKTBUF);
     upd_bat b (\<lambda>x. x\<lparr>bat_size_cnt := n, pkt_buf_sz := sz, bat_wr_idx := 0, bat_release_rd_idx := 0\<rparr>);
     p \<leftarrow> kquery ''dma_alloc_coherent'' [ucast n * 8];
     bus \<leftarrow> kquery ''dma_alloc_coherent_handle'' [p];
     upd_bat b (\<lambda>x. x\<lparr>bat_base_ptr := p, bat_bus_addr := bus,
       bat_base := (\<lambda>_. \<lparr>p_buffer_addr = 0, buffer_addr_ext = 0\<rparr>)\<rparr>);
     if p = 0 then return (Inl ENOMEM) else do {
       d \<leftarrow> kquery ''devm_kzalloc'' [ucast n * 24];
       upd_bat b (\<lambda>x. x\<lparr>bat_skb_ptr := d,
         bat_skb := (\<lambda>_. \<lparr>bs_skb = None, bs_bus_addr = 0, bs_data_len = 0\<rparr>),
         bat_page := (\<lambda>_. \<lparr>bp_page = 0, bp_bus_addr = 0, bp_offset = 0, bp_data_len = 0\<rparr>)\<rparr>);
       if d = 0 then do { t7xx_dpmaif_base_free b; return (Inl ENOMEM) } else do {
         m \<leftarrow> kquery ''bitmap_zalloc'' [ucast n];
         upd_bat b (\<lambda>x. x\<lparr>bat_bitmap_ptr := m, bat_bitmap := (\<lambda>_. False)\<rparr>);
         if m = 0 then do { t7xx_dpmaif_base_free b; return (Inl ENOMEM) } else do {
           upd_bat b (\<lambda>x. x\<lparr>bat_refcnt := 0\<rparr>);
           return (Inr ())
         }
       }
     }
   }"

definition t7xx_dpmaif_bat_free :: "bat_type \<Rightarrow> ('z rx_layer_scheme, unit) state" where
  "t7xx_dpmaif_bat_free b = do {
     upd_bat b (\<lambda>x. x\<lparr>bat_refcnt := bat_refcnt x - 1\<rparr>);
     x \<leftarrow> get_bat b (\<lambda>x. x);
     c_when (bat_refcnt x = 0) (do {
       kcall ''bitmap_free'' [bat_bitmap_ptr x];
       upd_bat b (\<lambda>x. x\<lparr>bat_bitmap_ptr := 0\<rparr>);
       c_when (bat_skb_ptr x \<noteq> 0) (for_each (map of_nat [0..<unat (bat_size_cnt x)])
         (case b of BAT_TYPE_FRAG \<Rightarrow> t7xx_unmap_bat_page | BAT_TYPE_NORMAL \<Rightarrow> t7xx_unmap_bat_skb));
       t7xx_dpmaif_base_free b
     })
   }"

definition t7xx_dpmaif_rx_alloc :: "nat \<Rightarrow> ('z rx_layer_scheme, errno + unit) state" where
  "t7xx_dpmaif_rx_alloc q = do {
     upd_rxq q (\<lambda>r. r\<lparr>pit_size_cnt := DPMAIF_PIT_COUNT, pit_rd_idx := 0, pit_wr_idx := 0,
       pit_release_rd_idx := 0, expect_pit_seq := 0, pit_remain_release_cnt := 0,
       rx_data_info := zero_rx_info\<rparr>);
     p \<leftarrow> kquery ''dma_alloc_coherent'' [16384 * 16];
     bus \<leftarrow> kquery ''dma_alloc_coherent_handle'' [p];
     upd_rxq q (\<lambda>r. r\<lparr>pit_base := p, pit_bus_addr := bus\<rparr>);
     if p = 0 then return (Inl ENOMEM) else do {
       upd_rxq q (\<lambda>r. r\<lparr>rxq_bats_set := True\<rparr>);
       upd_bat BAT_TYPE_NORMAL (\<lambda>x. x\<lparr>bat_refcnt := bat_refcnt x + 1\<rparr>);
       upd_bat BAT_TYPE_FRAG (\<lambda>x. x\<lparr>bat_refcnt := bat_refcnt x + 1\<rparr>);
       return (Inr ())
     }
   }"

definition t7xx_dpmaif_rx_buf_free :: "nat \<Rightarrow> ('z rx_layer_scheme, unit) state" where
  "t7xx_dpmaif_rx_buf_free q = do {
     r \<leftarrow> get_rxq q (\<lambda>r. r);
     c_when (rxq_ctrl_set r) (do {
       c_when (rxq_bats_set r) (t7xx_dpmaif_bat_free BAT_TYPE_NORMAL);
       c_when (rxq_bats_set r) (t7xx_dpmaif_bat_free BAT_TYPE_FRAG);
       c_when (pit_base r \<noteq> 0)
         (kcall ''dma_free_coherent'' [ucast (pit_size_cnt r) * 16, pit_base r, pit_bus_addr r])
     })
   }"

definition t7xx_dpmaif_rxq_init :: "nat \<Rightarrow> ('z rx_layer_scheme, errno + unit) state" where
  "t7xx_dpmaif_rxq_init q = t7xx_dpmaif_rx_alloc q"

definition t7xx_dpmaif_rxq_free :: "nat \<Rightarrow> ('z rx_layer_scheme, unit) state" where
  "t7xx_dpmaif_rxq_free q = t7xx_dpmaif_rx_buf_free q"

section \<open>The release work\<close>

definition t7xx_dpmaif_bat_release_work :: "('z rx_layer_scheme, unit) state" where
  "t7xx_dpmaif_bat_release_work = do {
     ret \<leftarrow> kerr ''pm_runtime_resume_and_get'' [];
     if pm_get_failed ret then return () else do {
       t7xx_pci_disable_sleep;
       complete \<leftarrow> t7xx_pci_sleep_disable_complete;
       c_when complete (do {
         t7xx_dpmaif_bat_release_and_add DPF_RX_QNO_DFT;
         t7xx_dpmaif_frag_bat_release_and_add DPF_RX_QNO_DFT;
         return ()
       });
       t7xx_pci_enable_sleep;
       kcall ''pm_runtime_mark_last_busy'' [];
       kcall ''pm_runtime_put_autosuspend'' []
     }
   }"

definition t7xx_dpmaif_bat_rel_wq_alloc :: "('z rx_layer_scheme, errno + unit) state" where
  "t7xx_dpmaif_bat_rel_wq_alloc = do {
     w \<leftarrow> kquery ''alloc_workqueue dpmaif_bat_release_work_queue'' [];
     modify (\<lambda>s. s\<lparr>bat_release_wq := w\<rparr>);
     if w = 0 then return (Inl ENOMEM) else do {
       kcall ''INIT_WORK bat_release_work'' [];
       return (Inr ())
     }
   }"

definition t7xx_dpmaif_bat_wq_rel :: "('z rx_layer_scheme, unit) state" where
  "t7xx_dpmaif_bat_wq_rel = do {
     kcall ''flush_work bat_release_work'' [];
     w \<leftarrow> gets bat_release_wq;
     c_when (w \<noteq> 0) (do {
       kcall ''destroy_workqueue'' [w];
       modify (\<lambda>s. s\<lparr>bat_release_wq := 0\<rparr>)
     })
   }"

section \<open>Stopping\<close>

text \<open>\<open>rx_processing\<close> is cleared by the poll of another thread: each look at it is a question.\<close>

definition t7xx_dpmaif_rx_stop :: "('z rx_layer_scheme, unit) state" where
  "t7xx_dpmaif_rx_stop = for_each [0..<DPMAIF_RXQ_NUM] (\<lambda>i. do {
     read_poll_timeout (kquery ''atomic_read rx_processing'' [of_nat i]) (\<lambda>v. v = 0)
       0 DPMAIF_CHECK_INIT_TIMEOUT_US;
     upd_rxq i (\<lambda>r. r\<lparr>rxq_started := False\<rparr>)
   })"

text \<open>The wait for a ring without entries to read; nothing in it changes the indices.\<close>

primrec stop_rxq_wait :: "nat \<Rightarrow> nat \<Rightarrow> ('z rx_layer_scheme, unit) state" where
  "stop_rxq_wait q 0 = return ()"
| "stop_rxq_wait q (Suc n) = do {
     cnt \<leftarrow> get_rxq q (\<lambda>r.
       t7xx_ring_buf_rd_wr_count (pit_size_cnt r) (pit_rd_idx r) (pit_wr_idx r) DPMAIF_READ);
     if cnt = 0 then return () else stop_rxq_wait q n
   }"

definition bitmap_zero :: "('z rx_layer_scheme, unit) state" where
  "bitmap_zero = do {
     p \<leftarrow> get_bat BAT_TYPE_NORMAL bat_bitmap_ptr;
     if p = 0 then fault else upd_bat BAT_TYPE_NORMAL (\<lambda>x. x\<lparr>bat_bitmap := (\<lambda>_. False)\<rparr>)
   }"

definition t7xx_dpmaif_stop_rxq :: "nat \<Rightarrow> ('z rx_layer_scheme, unit) state" where
  "t7xx_dpmaif_stop_rxq q = do {
     upd_rxq q (\<lambda>r. r\<lparr>rxq_started := False\<rparr>);
     stop_rxq_wait q DPMAIF_MAX_CHECK_COUNT;
     r \<leftarrow> get_rxq q (\<lambda>r. r);
     kcall ''memset'' [pit_base r, 0, ucast (pit_size_cnt r) * 16];
     upd_bat BAT_TYPE_NORMAL (\<lambda>x. x\<lparr>bat_base := (\<lambda>_. \<lparr>p_buffer_addr = 0, buffer_addr_ext = 0\<rparr>)\<rparr>);
     bitmap_zero;
     upd_rxq q (\<lambda>r. r\<lparr>rx_data_info := zero_rx_info, pit_rd_idx := 0, pit_wr_idx := 0,
       pit_release_rd_idx := 0, expect_pit_seq := 0, pit_remain_release_cnt := 0\<rparr>);
     upd_bat BAT_TYPE_NORMAL (\<lambda>x. x\<lparr>bat_release_rd_idx := 0, bat_wr_idx := 0\<rparr>);
     upd_bat BAT_TYPE_FRAG (\<lambda>x. x\<lparr>bat_release_rd_idx := 0, bat_wr_idx := 0\<rparr>)
   }"

definition t7xx_dpmaif_rx_clear :: "('z rx_layer_scheme, unit) state" where
  "t7xx_dpmaif_rx_clear = for_each [0..<DPMAIF_RXQ_NUM] t7xx_dpmaif_stop_rxq"

end
