(* ===== verification/Dpmaif_Hif.thy ===== *)
theory Dpmaif_Hif
  imports Dpmaif_Rx
begin

text \<open>
  The data path as a whole, \<open>t7xx_hif_dpmaif.c\<close>: its interrupts, its memory, start and stop,
  suspend and resume, and its reaction to the states of the modem; then what \<open>t7xx_netdev.c\<close>
  does with it.
\<close>

record dpmaif_isr_para =
  pcie_int :: t7xx_int
  dlq_id :: nat

record dpmaif_layer = rx_layer +
  dpmaif_sw_init_done :: bool
  rxq_int_mapping :: "nat \<Rightarrow> t7xx_int"
  isr_para :: "nat \<Rightarrow> dpmaif_isr_para"

section \<open>Interrupts\<close>

definition t7xx_dpmaif_enable_irq :: "('z dpmaif_layer_scheme, unit) state" where
  "t7xx_dpmaif_enable_irq = for_each [0..<DPMAIF_RXQ_NUM] (\<lambda>i. do {
     p \<leftarrow> gets (\<lambda>s. isr_para s i);
     t7xx_pcie_mac_set_int (pcie_int p)
   })"

definition t7xx_dpmaif_disable_irq :: "('z dpmaif_layer_scheme, unit) state" where
  "t7xx_dpmaif_disable_irq = for_each [0..<DPMAIF_RXQ_NUM] (\<lambda>i. do {
     p \<leftarrow> gets (\<lambda>s. isr_para s i);
     t7xx_pcie_mac_clear_int (pcie_int p)
   })"

text \<open>One entry of the report; types without an entry here are only logged.\<close>

definition handle_intr :: "dpmaif_hw_intr_type \<Rightarrow> u32 \<Rightarrow> ('z rx_layer_scheme, unit) state" where
  "handle_intr ty queues = (case ty of
     DPF_INTR_UL_DONE \<Rightarrow> t7xx_dpmaif_irq_tx_done queues
   | DPF_INTR_DL_BATCNT_LEN_ERR \<Rightarrow> t7xx_dpmaif_dl_unmask_batcnt_len_err_intr
   | DPF_INTR_DL_PITCNT_LEN_ERR \<Rightarrow> t7xx_dpmaif_dl_unmask_pitcnt_len_err_intr
   | DPF_INTR_DL_Q0_PITCNT_LEN_ERR \<Rightarrow> t7xx_dpmaif_dlq_unmask_pitcnt_len_err_intr DPF_RX_QNO_DFT
   | DPF_INTR_DL_Q1_PITCNT_LEN_ERR \<Rightarrow> t7xx_dpmaif_dlq_unmask_pitcnt_len_err_intr DPF_RX_QNO1
   | DPF_INTR_DL_DONE \<Rightarrow> t7xx_dpmaif_irq_rx_done queues
   | DPF_INTR_DL_Q0_DONE \<Rightarrow> t7xx_dpmaif_irq_rx_done queues
   | DPF_INTR_DL_Q1_DONE \<Rightarrow> t7xx_dpmaif_irq_rx_done queues
   | _ \<Rightarrow> return ())"

definition t7xx_dpmaif_irq_cb :: "nat \<Rightarrow> ('z dpmaif_layer_scheme, unit) state" where
  "t7xx_dpmaif_irq_cb i = do {
     p \<leftarrow> gets (\<lambda>s. isr_para s i);
     st \<leftarrow> t7xx_dpmaif_hw_get_intr_cnt intr_para_zero (dlq_id p);
     t7xx_pcie_mac_clear_int_status (pcie_int p);
     for_each [0..<intr_cnt st] (\<lambda>k. handle_intr (intr_types st ! k) (intr_queues st ! k))
   }"

definition t7xx_dpmaif_isr_handler :: "nat \<Rightarrow> ('z dpmaif_layer_scheme, irqreturn) state" where
  "t7xx_dpmaif_isr_handler i = do {
     st \<leftarrow> gets dpmaif_st;
     if st \<noteq> DPMAIF_STATE_PWRON then return IRQ_HANDLED else do {
       p \<leftarrow> gets (\<lambda>s. isr_para s i);
       t7xx_pcie_mac_clear_int (pcie_int p);
       return IRQ_WAKE_THREAD
     }
   }"

definition t7xx_dpmaif_isr_thread :: "nat \<Rightarrow> ('z dpmaif_layer_scheme, irqreturn) state" where
  "t7xx_dpmaif_isr_thread i = do {
     t7xx_dpmaif_irq_cb i;
     p \<leftarrow> gets (\<lambda>s. isr_para s i);
     t7xx_pcie_mac_set_int (pcie_int p);
     return IRQ_HANDLED
   }"

definition t7xx_dpmaif_isr_parameter_init :: "('z dpmaif_layer_scheme, unit) state" where
  "t7xx_dpmaif_isr_parameter_init = do {
     modify (\<lambda>s. s\<lparr>rxq_int_mapping :=
       (rxq_int_mapping s)(DPF_RX_QNO0 := DPMAIF_INT, DPF_RX_QNO1 := DPMAIF2_INT)\<rparr>);
     for_each [0..<DPMAIF_RXQ_NUM] (\<lambda>i. modify (\<lambda>s.
       s\<lparr>isr_para := (isr_para s)(i := \<lparr>pcie_int = rxq_int_mapping s i, dlq_id = i\<rparr>)\<rparr>))
   }"

definition t7xx_dpmaif_register_pcie_irq :: "('z dpmaif_layer_scheme, unit) state" where
  "t7xx_dpmaif_register_pcie_irq = do {
     t7xx_dpmaif_isr_parameter_init;
     for_each [0..<DPMAIF_RXQ_NUM] (\<lambda>i. do {
       p \<leftarrow> gets (\<lambda>s. isr_para s i);
       t7xx_pcie_mac_clear_int (pcie_int p);
       upd_pci (\<lambda>x. x\<lparr>intr_handler := (intr_handler x)(pcie_int p \<mapsto> OWN_DPMAIF i)\<rparr>);
       t7xx_pcie_mac_clear_int_status (pcie_int p);
       t7xx_pcie_mac_set_int (pcie_int p)
     })
   }"

section \<open>Memory\<close>

text \<open>Initialisation of the queues in order: the error and the number of queues before it.\<close>

primrec init_queues ::
  "(nat \<Rightarrow> ('z rx_layer_scheme, errno + unit) state) \<Rightarrow> nat list \<Rightarrow> ('z rx_layer_scheme, (errno \<times> nat) option) state"
where
  "init_queues f [] = return None"
| "init_queues f (q # qs) = do {
     ret \<leftarrow> f q;
     case ret of Inl e \<Rightarrow> return (Some (e, q)) | Inr _ \<Rightarrow> init_queues f qs
   }"

definition free_rxqs :: "nat \<Rightarrow> ('z rx_layer_scheme, unit) state" where
  "free_rxqs n = for_each [0..<n] t7xx_dpmaif_rxq_free"

definition free_txqs :: "nat \<Rightarrow> ('z rx_layer_scheme, unit) state" where
  "free_txqs n = for_each [0..<n] t7xx_dpmaif_txq_free"

text \<open>What the unwinding of the code does from the label \<open>err_free_rxq\<close> on.\<close>

definition unwind_rx :: "errno \<Rightarrow> nat \<Rightarrow> ('z rx_layer_scheme, errno + unit) state" where
  "unwind_rx e rx_idx = do {
     free_rxqs rx_idx;
     t7xx_dpmaif_bat_free BAT_TYPE_FRAG;
     t7xx_dpmaif_bat_free BAT_TYPE_NORMAL;
     return (Inl e)
   }"

definition unwind_tx :: "errno \<Rightarrow> nat \<Rightarrow> ('z rx_layer_scheme, errno + unit) state" where
  "unwind_tx e tx_idx = do { free_txqs tx_idx; unwind_rx e DPMAIF_RXQ_NUM }"

definition t7xx_dpmaif_rxtx_sw_allocs :: "('z dpmaif_layer_scheme, errno + unit) state" where
  "t7xx_dpmaif_rxtx_sw_allocs = do {
     ret \<leftarrow> t7xx_dpmaif_bat_alloc BAT_TYPE_NORMAL;
     if isl ret then return ret else do {
       ret \<leftarrow> t7xx_dpmaif_bat_alloc BAT_TYPE_FRAG;
       if isl ret then do { t7xx_dpmaif_bat_free BAT_TYPE_NORMAL; return ret } else do {
         rx \<leftarrow> init_queues (\<lambda>q. do {
           upd_rxq q (\<lambda>r. r\<lparr>rxq_index := q, rxq_ctrl_set := True\<rparr>);
           t7xx_dpmaif_rxq_init q
         }) [0..<DPMAIF_RXQ_NUM];
         case rx of
           Some (e, rx_idx) \<Rightarrow> unwind_rx e rx_idx
         | None \<Rightarrow> do {
             tx \<leftarrow> init_queues t7xx_dpmaif_txq_init [0..<DPMAIF_TXQ_NUM];
             case tx of
               Some (e, tx_idx) \<Rightarrow> unwind_tx e tx_idx
             | None \<Rightarrow> do {
                 ret \<leftarrow> t7xx_dpmaif_tx_thread_init;
                 case ret of
                   Inl e \<Rightarrow> unwind_tx e DPMAIF_TXQ_NUM
                 | Inr _ \<Rightarrow> do {
                     ret \<leftarrow> t7xx_dpmaif_bat_rel_wq_alloc;
                     case ret of
                       Inl e \<Rightarrow> do { t7xx_dpmaif_tx_thread_rel; unwind_tx e DPMAIF_TXQ_NUM }
                     | Inr _ \<Rightarrow> return (Inr ())
                   }
               }
           }
       }
     }
   }"

definition t7xx_dpmaif_sw_release :: "('z dpmaif_layer_scheme, unit) state" where
  "t7xx_dpmaif_sw_release = do {
     t7xx_dpmaif_tx_thread_rel;
     t7xx_dpmaif_bat_wq_rel;
     free_txqs DPMAIF_TXQ_NUM;
     free_rxqs DPMAIF_RXQ_NUM
   }"

section \<open>Start and stop\<close>

text \<open>The parameters for the hardware layer, from the queues and tables.\<close>

definition hw_params :: "'z rx_layer_scheme \<Rightarrow> dpmaif_hw_params" where
  "hw_params s =
     \<lparr>par_drb_base_addr = (\<lambda>i. if i < DPMAIF_TXQ_NUM then drb_bus_addr (txq s i) else 0),
      par_drb_size_cnt = (\<lambda>i. if i < DPMAIF_TXQ_NUM then drb_size_cnt (txq s i) else 0),
      par_pkt_bat_base_addr = (\<lambda>i. if i < DPMAIF_RXQ_NUM then bat_bus_addr (bat s BAT_TYPE_NORMAL) else 0),
      par_pkt_bat_size_cnt = (\<lambda>i. if i < DPMAIF_RXQ_NUM then bat_size_cnt (bat s BAT_TYPE_NORMAL) else 0),
      par_frg_bat_base_addr = (\<lambda>i. if i < DPMAIF_RXQ_NUM then bat_bus_addr (bat s BAT_TYPE_FRAG) else 0),
      par_frg_bat_size_cnt = (\<lambda>i. if i < DPMAIF_RXQ_NUM then bat_size_cnt (bat s BAT_TYPE_FRAG) else 0),
      par_pit_base_addr = (\<lambda>i. if i < DPMAIF_RXQ_NUM then pit_bus_addr (rxq s i) else 0),
      par_pit_size_cnt = (\<lambda>i. if i < DPMAIF_RXQ_NUM then pit_size_cnt (rxq s i) else 0)\<rparr>"

definition start_rxqs :: "('z rx_layer_scheme, unit) state" where
  "start_rxqs = for_each [0..<DPMAIF_RXQ_NUM] (\<lambda>i. do {
     n \<leftarrow> get_bat BAT_TYPE_NORMAL bat_size_cnt;
     upd_rxq i (\<lambda>r. r\<lparr>rxq_started := True, rxq_index := i, rxq_budget := n - 1\<rparr>)
   })"

definition start_txqs :: "('z rx_layer_scheme, unit) state" where
  "start_txqs = for_each [0..<DPMAIF_TXQ_NUM] (\<lambda>i. upd_txq i (\<lambda>t. t\<lparr>dpmaif_tx_queue.txq_started := True\<rparr>))"

text \<open>What brings the hardware up, once the tables have their buffers.\<close>

definition start_hw :: "('z dpmaif_layer_scheme, errno + unit) state" where
  "start_hw = do {
     start_txqs;
     par \<leftarrow> gets hw_params;
     ret \<leftarrow> t7xx_dpmaif_hw_init par;
     if isl ret then return ret else do {
       n \<leftarrow> get_bat BAT_TYPE_NORMAL bat_size_cnt;
       ret \<leftarrow> t7xx_dpmaif_dl_snd_hw_bat_cnt (n - 1);
       if isl ret then return ret else do {
         m \<leftarrow> get_bat BAT_TYPE_FRAG bat_size_cnt;
         t7xx_dpmaif_dl_snd_hw_frg_cnt (m - 1)
       }
     }
   }"

definition t7xx_dpmaif_start :: "('z dpmaif_layer_scheme, errno + unit) state" where
  "t7xx_dpmaif_start = do {
     st \<leftarrow> gets dpmaif_st;
     if st = DPMAIF_STATE_PWRON then return (Inl EFAULT) else do {
       start_rxqs;
       bitmap_zero;
       n \<leftarrow> get_bat BAT_TYPE_NORMAL bat_size_cnt;
       ret \<leftarrow> t7xx_dpmaif_rx_buf_alloc 0 (n - 1) True;
       if isl ret then return ret else do {
         m \<leftarrow> get_bat BAT_TYPE_FRAG bat_size_cnt;
         ret \<leftarrow> t7xx_dpmaif_rx_frag_alloc (m - 1) True;
         if isl ret then do { t7xx_dpmaif_bat_free BAT_TYPE_NORMAL; return ret } else do {
           ret \<leftarrow> start_hw;
           if isl ret then do {
             t7xx_dpmaif_bat_free BAT_TYPE_FRAG;
             t7xx_dpmaif_bat_free BAT_TYPE_NORMAL;
             return ret
           } else do {
             t7xx_dpmaif_ul_clr_all_intr;
             t7xx_dpmaif_dl_clr_all_intr;
             modify (\<lambda>s. s\<lparr>dpmaif_st := DPMAIF_STATE_PWRON\<rparr>);
             t7xx_dpmaif_enable_irq;
             kcall ''wake_up tx_wq'' [];
             return (Inr ())
           }
         }
       }
     }
   }"

definition t7xx_dpmaif_stop_sw :: "('z dpmaif_layer_scheme, unit) state" where
  "t7xx_dpmaif_stop_sw = do { t7xx_dpmaif_tx_stop; t7xx_dpmaif_rx_stop }"

definition t7xx_dpmaif_stop_hw :: "('z dpmaif_layer_scheme, unit) state" where
  "t7xx_dpmaif_stop_hw = do {
     t7xx_dpmaif_hw_stop_all_txq;
     t7xx_dpmaif_hw_stop_all_rxq;
     return ()
   }"

definition t7xx_dpmaif_stop :: "('z dpmaif_layer_scheme, errno + unit) state" where
  "t7xx_dpmaif_stop = do {
     initd \<leftarrow> gets dpmaif_sw_init_done;
     st \<leftarrow> gets dpmaif_st;
     if \<not> initd \<or> st = DPMAIF_STATE_PWROFF then return (Inl EFAULT) else do {
       t7xx_dpmaif_disable_irq;
       modify (\<lambda>s. s\<lparr>dpmaif_st := DPMAIF_STATE_PWROFF\<rparr>);
       t7xx_dpmaif_stop_sw;
       t7xx_dpmaif_tx_clear;
       t7xx_dpmaif_rx_clear;
       return (Inr ())
     }
   }"

section \<open>Suspend and resume\<close>

definition t7xx_dpmaif_suspend :: "('z dpmaif_layer_scheme, errno + unit) state" where
  "t7xx_dpmaif_suspend = do {
     t7xx_dpmaif_tx_stop;
     t7xx_dpmaif_hw_stop_all_txq;
     t7xx_dpmaif_hw_stop_all_rxq;
     t7xx_dpmaif_disable_irq;
     t7xx_dpmaif_rx_stop;
     return (Inr ())
   }"

definition t7xx_dpmaif_unmask_dlq_intr :: "('z dpmaif_layer_scheme, unit) state" where
  "t7xx_dpmaif_unmask_dlq_intr = for_each [0..<DPMAIF_RXQ_NUM] t7xx_dpmaif_dlq_unmask_rx_done"

definition t7xx_dpmaif_start_txrx_qs :: "('z dpmaif_layer_scheme, unit) state" where
  "t7xx_dpmaif_start_txrx_qs = do {
     for_each [0..<DPMAIF_TXQ_NUM] (\<lambda>i. upd_txq i (\<lambda>t. t\<lparr>dpmaif_tx_queue.txq_started := True\<rparr>));
     for_each [0..<DPMAIF_RXQ_NUM] (\<lambda>i. upd_rxq i (\<lambda>r. r\<lparr>rxq_started := True\<rparr>))
   }"

definition t7xx_dpmaif_resume :: "('z dpmaif_layer_scheme, errno + unit) state" where
  "t7xx_dpmaif_resume = do {
     t7xx_dpmaif_start_txrx_qs;
     t7xx_dpmaif_enable_irq;
     t7xx_dpmaif_unmask_dlq_intr;
     t7xx_dpmaif_start_hw;
     kcall ''wake_up tx_wq'' [];
     return (Inr ())
   }"

definition t7xx_dpmaif_pm_entity_init :: "('z dpmaif_layer_scheme, errno + unit) state" where
  "t7xx_dpmaif_pm_entity_init = t7xx_pci_pm_entity_register PM_ENTITY_ID_DATA"

definition t7xx_dpmaif_pm_entity_release :: "('z dpmaif_layer_scheme, errno + unit) state" where
  "t7xx_dpmaif_pm_entity_release = t7xx_pci_pm_entity_unregister PM_ENTITY_ID_DATA"

section \<open>States of the modem\<close>

definition t7xx_dpmaif_md_state_callback :: "md_state \<Rightarrow> ('z dpmaif_layer_scheme, errno + unit) state" where
  "t7xx_dpmaif_md_state_callback st = (case st of
     MD_STATE_WAITING_FOR_HS1 \<Rightarrow> t7xx_dpmaif_start
   | MD_STATE_EXCEPTION \<Rightarrow> t7xx_dpmaif_stop
   | MD_STATE_STOPPED \<Rightarrow> t7xx_dpmaif_stop
   | MD_STATE_WAITING_TO_STOP \<Rightarrow> do { t7xx_dpmaif_stop_hw; return (Inr ()) }
   | _ \<Rightarrow> return (Inr ()))"

section \<open>Initialisation\<close>

definition zero_txq :: dpmaif_tx_queue where
  "zero_txq = \<lparr>dpmaif_tx_queue.txq_started = False, tx_budget = 0, drb_base_ptr = 0,
     drb_base = (\<lambda>_. \<lparr>drb_header = 0, drb_dw1 = 0, drb_dw2 = 0\<rparr>), drb_bus_addr = 0, drb_size_cnt = 0,
     drb_wr_idx = 0, drb_rd_idx = 0, drb_release_rd_idx = 0, drb_skb_ptr = 0,
     drb_skb_base = (\<lambda>_. \<lparr>ds_skb = 0, ds_bus_addr = 0, ds_data_len = 0, ds_index = 0, ds_is_msg = False,
       ds_is_frag = False, ds_is_last = False\<rparr>), txq_worker = 0, tx_processing = 0, tx_skb_head = []\<rparr>"

definition zero_rxq :: dpmaif_rx_queue where
  "zero_rxq = \<lparr>rxq_index = 0, rxq_started = False, rxq_budget = 0, pit_base = 0, pit_bus_addr = 0,
     pit_size_cnt = 0, pit_rd_idx = 0, pit_wr_idx = 0, pit_release_rd_idx = 0, rxq_bats_set = False,
     rxq_ctrl_set = False, rx_processing = 0, expect_pit_seq = 0, pit_remain_release_cnt = 0,
     rx_data_info = zero_rx_info, sleep_lock_pending = False\<rparr>"

definition zero_bat :: dpmaif_bat_request where
  "zero_bat = \<lparr>bat_base_ptr = 0, bat_base = (\<lambda>_. \<lparr>p_buffer_addr = 0, buffer_addr_ext = 0\<rparr>), bat_bus_addr = 0,
     bat_size_cnt = 0, bat_wr_idx = 0, bat_release_rd_idx = 0, bat_skb_ptr = 0,
     bat_skb = (\<lambda>_. \<lparr>bs_skb = None, bs_bus_addr = 0, bs_data_len = 0\<rparr>),
     bat_page = (\<lambda>_. \<lparr>bp_page = 0, bp_bus_addr = 0, bp_offset = 0, bp_data_len = 0\<rparr>),
     pkt_buf_sz = 0, bat_bitmap_ptr = 0, bat_bitmap = (\<lambda>_. False), bat_refcnt = 0\<rparr>"

text \<open>The control block starts zeroed; the result is whether the code gives a pointer to it.\<close>

definition t7xx_dpmaif_hif_init :: "bool \<Rightarrow> ('z dpmaif_layer_scheme, bool) state" where
  "t7xx_dpmaif_hif_init callbacks_set =
     (if \<not> callbacks_set then return False else do {
        p \<leftarrow> kquery ''devm_kzalloc'' [];
        if p = 0 then return False else do {
          base \<leftarrow> get_pci base_addr;
          upd_hw (\<lambda>h. h\<lparr>pcie_base := pcie_ext_reg_base base - ucast (pcie_dev_reg_trsl_addr base)\<rparr>);
          modify (\<lambda>s. s\<lparr>dpmaif_st := DPMAIF_STATE_MIN, txq := (\<lambda>_. zero_txq), rxq := (\<lambda>_. zero_rxq),
            bat := (\<lambda>_. zero_bat), bat_release_wq := 0, tx_thread := 0, dpmaif_sw_init_done := False\<rparr>);
          ret \<leftarrow> t7xx_dpmaif_pm_entity_init;
          if isl ret then return False else do {
            t7xx_dpmaif_register_pcie_irq;
            t7xx_dpmaif_disable_irq;
            ret \<leftarrow> t7xx_dpmaif_rxtx_sw_allocs;
            if isl ret then do { t7xx_dpmaif_pm_entity_release; return False } else do {
              modify (\<lambda>s. s\<lparr>dpmaif_sw_init_done := True\<rparr>);
              return True
            }
          }
        }
      })"

definition t7xx_dpmaif_hif_exit :: "('z dpmaif_layer_scheme, unit) state" where
  "t7xx_dpmaif_hif_exit = do {
     initd \<leftarrow> gets dpmaif_sw_init_done;
     c_when initd (do {
       t7xx_dpmaif_stop;
       t7xx_dpmaif_pm_entity_release;
       t7xx_dpmaif_sw_release;
       modify (\<lambda>s. s\<lparr>dpmaif_sw_init_done := False\<rparr>)
     })
   }"

section \<open>The network layer and the states of the modem\<close>

definition t7xx_ccmni_md_state_callback :: "md_state \<Rightarrow> ('z dpmaif_layer_scheme, errno + unit) state" where
  "t7xx_ccmni_md_state_callback st = do {
     upd_ccmni (\<lambda>c. c\<lparr>md_sta := st\<rparr>);
     (if st = MD_STATE_READY then do {
        ret \<leftarrow> t7xx_ccmni_register_wwan;
        c_when (\<not> isl ret) t7xx_ccmni_start;
        return ret
      } else if st = MD_STATE_EXCEPTION \<or> st = MD_STATE_STOPPED then do {
        t7xx_ccmni_pre_stop;
        ret \<leftarrow> t7xx_dpmaif_md_state_callback st;
        t7xx_ccmni_post_stop;
        return ret
      } else if st = MD_STATE_WAITING_FOR_HS1 \<or> st = MD_STATE_WAITING_TO_STOP
      then t7xx_dpmaif_md_state_callback st
      else return (Inr ()))
   }"

text \<open>
  The network layer's notifier is the only one, so its address is a constant. The result of the
  callback is ignored by the state machine.
\<close>

abbreviation (input) md_status_notify :: u64 where "md_status_notify \<equiv> 1"

definition ccmni_notifier :: "u64 \<Rightarrow> md_state \<Rightarrow> ('z dpmaif_layer_scheme, unit) state" where
  "ccmni_notifier n st = c_when (n = md_status_notify) (do { t7xx_ccmni_md_state_callback st; return () })"

definition init_md_status_notifier :: "('z dpmaif_layer_scheme, unit) state" where
  "init_md_status_notifier = t7xx_fsm_notifier_register md_status_notify"

definition zero_ccmni_ctrl :: t7xx_ccmni_ctrl where
  "zero_ccmni_ctrl = \<lparr>ccmni_inst = replicate NIC_DEV_MAX None,
     ccmni_of = (\<lambda>_. \<lparr>ccmni_index = 0, ccmni_usage = 0, ccmni_mtu = 0,
       ccmni_stats = \<lparr>rx_packets = 0, rx_bytes = 0, tx_packets = 0, tx_bytes = 0, tx_dropped = 0, tx_errors = 0\<rparr>\<rparr>),
     nic_dev_num = 0, md_sta = MD_STATE_INVALID, wwan_is_registered = False, dummy_dev = 0,
     napi_usr_refcnt = 0, is_napi_en = False\<rparr>"

definition t7xx_ccmni_init :: "('z dpmaif_layer_scheme, errno + unit) state" where
  "t7xx_ccmni_init = do {
     p \<leftarrow> kquery ''devm_kzalloc'' [];
     if p = 0 then return (Inl ENOMEM) else do {
       upd_ccmni (\<lambda>_. zero_ccmni_ctrl\<lparr>nic_dev_num := NIC_DEV_DEFAULT\<rparr>);
       ok \<leftarrow> t7xx_dpmaif_hif_init True;
       if \<not> ok then return (Inl ENOMEM) else do {
         ret \<leftarrow> t7xx_init_netdev_napi;
         if isl ret then do { t7xx_dpmaif_hif_exit; return ret } else do {
           init_md_status_notifier;
           return (Inr ())
         }
       }
     }
   }"

definition t7xx_ccmni_exit :: "('z dpmaif_layer_scheme, unit) state" where
  "t7xx_ccmni_exit = do {
     t7xx_fsm_notifier_unregister md_status_notify;
     r \<leftarrow> get_ccmni wwan_is_registered;
     c_when r (do {
       kcall ''wwan_unregister_ops'' [];
       upd_ccmni (\<lambda>c. c\<lparr>wwan_is_registered := False\<rparr>)
     });
     t7xx_uninit_netdev_napi;
     t7xx_dpmaif_hif_exit
   }"

section \<open>Initialisation and exit of the modem\<close>

definition t7xx_md_init :: "('z dpmaif_layer_scheme, errno + unit) state" where
  "t7xx_md_init = do {
     ok \<leftarrow> t7xx_md_alloc;
     if \<not> ok then return (Inl ENOMEM) else do {
       wq \<leftarrow> gets handshake_wq;
       let destroy_hswq = kcall ''destroy_workqueue'' [wq];
       ret \<leftarrow> t7xx_cldma_alloc CLDMA_ID_MD;
       if isl ret then do { destroy_hswq; return ret } else do {
         ret \<leftarrow> t7xx_cldma_alloc CLDMA_ID_AP;
         if isl ret then do { destroy_hswq; return ret } else do {
           ret \<leftarrow> t7xx_fsm_init;
           if isl ret then do { destroy_hswq; return ret } else do {
             ret \<leftarrow> t7xx_ccmni_init;
             if isl ret then do { t7xx_fsm_uninit; destroy_hswq; return ret } else do {
               ret \<leftarrow> t7xx_cldma_init CLDMA_ID_MD;
               if isl ret then do { t7xx_ccmni_exit; t7xx_fsm_uninit; destroy_hswq; return ret } else do {
                 ret \<leftarrow> t7xx_cldma_init CLDMA_ID_AP;
                 if isl ret then do {
                   t7xx_cldma_exit CLDMA_ID_MD; t7xx_ccmni_exit; t7xx_fsm_uninit; destroy_hswq; return ret
                 } else do {
                   ret \<leftarrow> t7xx_port_proxy_init;
                   if isl ret then do {
                     t7xx_cldma_exit CLDMA_ID_AP; t7xx_cldma_exit CLDMA_ID_MD;
                     t7xx_ccmni_exit; t7xx_fsm_uninit; destroy_hswq; return ret
                   } else do {
                     ret \<leftarrow> t7xx_fsm_append_cmd FSM_CMD_START 0;
                     if isl ret then do {
                       t7xx_port_proxy_uninit;
                       t7xx_cldma_exit CLDMA_ID_AP; t7xx_cldma_exit CLDMA_ID_MD;
                       t7xx_ccmni_exit; t7xx_fsm_uninit; destroy_hswq; return ret
                     } else do {
                       t7xx_md_sys_sw_init;
                       modify (\<lambda>s. s\<lparr>md_init_finish := True\<rparr>);
                       return (Inr ())
                     }
                   }
                 }
               }
             }
           }
         }
       }
     }
   }"

definition t7xx_md_exit :: "('z dpmaif_layer_scheme, unit) state" where
  "t7xx_md_exit = do {
     m \<leftarrow> get_pci mode;
     t7xx_pcie_mac_clear_int SAP_RGU_INT;
     initd \<leftarrow> gets md_init_finish;
     c_when initd (do {
       c_when (m \<noteq> T7XX_RESET \<and> m \<noteq> T7XX_UNKNOWN)
         (do { t7xx_fsm_append_cmd FSM_CMD_PRE_STOP FSM_CMD_FLAG_WAIT_FOR_COMPLETION; return () });
       t7xx_port_proxy_uninit;
       t7xx_cldma_exit CLDMA_ID_AP;
       t7xx_cldma_exit CLDMA_ID_MD;
       t7xx_ccmni_exit;
       t7xx_fsm_uninit;
       wq \<leftarrow> gets handshake_wq;
       kcall ''destroy_workqueue'' [wq]
     })
   }"

end
