(* ===== verification/Pci_Pm.thy ===== *)
theory Pci_Pm
  imports Dpmaif_Hif
begin

text \<open>
  The rest of \<open>t7xx_pci.c\<close>: suspend and resume, the attributes in sysfs, interrupts, probe and
  remove. It is on top of all components, since suspend calls back into them and probe sets
  them up.

  A component takes part in suspend under an identifier; its callbacks are found by it.
\<close>

abbreviation (input) MAX_RESUME_REPROBE_ATTEMPTS :: u32 where "MAX_RESUME_REPROBE_ATTEMPTS \<equiv> 3"

section \<open>The callbacks of the components\<close>

definition entity_suspend :: "t7xx_pm_id \<Rightarrow> ('z dpmaif_layer_scheme, errno + unit) state" where
  "entity_suspend ident = (case ident of
     PM_ENTITY_ID_CTRL1 \<Rightarrow> t7xx_cldma_suspend CLDMA_ID_MD
   | PM_ENTITY_ID_CTRL2 \<Rightarrow> t7xx_cldma_suspend CLDMA_ID_AP
   | PM_ENTITY_ID_DATA \<Rightarrow> t7xx_dpmaif_suspend
   | PM_ENTITY_ID_INVALID \<Rightarrow> return (Inr ()))"

definition entity_suspend_late :: "t7xx_pm_id \<Rightarrow> ('z dpmaif_layer_scheme, unit) state" where
  "entity_suspend_late ident = (case ident of
     PM_ENTITY_ID_CTRL1 \<Rightarrow> t7xx_cldma_suspend_late CLDMA_ID_MD
   | PM_ENTITY_ID_CTRL2 \<Rightarrow> t7xx_cldma_suspend_late CLDMA_ID_AP
   | _ \<Rightarrow> return ())"

definition entity_resume_early :: "t7xx_pm_id \<Rightarrow> ('z dpmaif_layer_scheme, unit) state" where
  "entity_resume_early ident = (case ident of
     PM_ENTITY_ID_CTRL1 \<Rightarrow> t7xx_cldma_resume_early CLDMA_ID_MD
   | PM_ENTITY_ID_CTRL2 \<Rightarrow> t7xx_cldma_resume_early CLDMA_ID_AP
   | _ \<Rightarrow> return ())"

definition entity_resume :: "t7xx_pm_id \<Rightarrow> ('z dpmaif_layer_scheme, errno + unit) state" where
  "entity_resume ident = (case ident of
     PM_ENTITY_ID_CTRL1 \<Rightarrow> t7xx_cldma_resume CLDMA_ID_MD
   | PM_ENTITY_ID_CTRL2 \<Rightarrow> t7xx_cldma_resume CLDMA_ID_AP
   | PM_ENTITY_ID_DATA \<Rightarrow> t7xx_dpmaif_resume
   | PM_ENTITY_ID_INVALID \<Rightarrow> return (Inr ()))"

section \<open>Suspend\<close>

text \<open>The first loop: the error and the component that gave it.\<close>

primrec suspend_entities ::
  "t7xx_pm_id list \<Rightarrow> ('z dpmaif_layer_scheme, (errno \<times> t7xx_pm_id) option) state" where
  "suspend_entities [] = return None"
| "suspend_entities (e # es) = do {
     ret \<leftarrow> entity_suspend e;
     case ret of Inl err \<Rightarrow> return (Some (err, e)) | Inr _ \<Rightarrow> suspend_entities es
   }"

text \<open>\<open>abort_suspend\<close>: the components before the given one are resumed.\<close>

definition abort_suspend :: "errno \<Rightarrow> t7xx_pm_id \<Rightarrow> ('z dpmaif_layer_scheme, errno + unit) state" where
  "abort_suspend err entity_id = do {
     es \<leftarrow> get_pci md_pm_entities;
     for_each (takeWhile (\<lambda>e. e \<noteq> entity_id) es) (\<lambda>e. do { entity_resume e; return () });
     enable_aspm_l1 0;
     set_pm_state MTK_PM_RESUMED;
     t7xx_pcie_mac_set_int SAP_RGU_INT;
     return (Inl err)
   }"

definition pm_suspend :: "('z dpmaif_layer_scheme, errno + unit) state" where
  "pm_suspend = do {
     st \<leftarrow> get_pci md_pm_state;
     m \<leftarrow> get_pci mode;
     if st \<le> MTK_PM_INIT \<or> m \<noteq> T7XX_READY then return (Inl EFAULT) else do {
       disable_aspm_l1 0;
       ret \<leftarrow> t7xx_wait_pm_config;
       if isl ret then do { enable_aspm_l1 0; return ret } else do {
         set_pm_state MTK_PM_SUSPENDED;
         t7xx_pcie_mac_clear_int SAP_RGU_INT;
         upd_pci (\<lambda>p. p\<lparr>rgu_pci_irq_en := False\<rparr>);
         es \<leftarrow> get_pci md_pm_entities;
         failed \<leftarrow> suspend_entities es;
         case failed of
           Some (err, e) \<Rightarrow> abort_suspend err e
         | None \<Rightarrow> do {
             ret \<leftarrow> t7xx_send_pm_request H2D_CH_SUSPEND_REQ;
             case ret of
               Inl err \<Rightarrow> abort_suspend err PM_ENTITY_ID_INVALID
             | Inr _ \<Rightarrow> do {
                 t7xx_send_pm_request H2D_CH_SUSPEND_REQ_AP;
                 for_each es entity_suspend_late;
                 enable_aspm_l1 0;
                 return (Inr ())
               }
           }
       }
     }
   }"

section \<open>Resume\<close>

definition reprobe :: "('z dpmaif_layer_scheme, errno + unit) state" where
  "reprobe = do {
     ret \<leftarrow> t7xx_pci_reprobe_early;
     if isl ret then return ret else t7xx_pci_reprobe True
   }"

text \<open>One more attempt is counted, then the device is set up again.\<close>

definition counted_reprobe :: "('z dpmaif_layer_scheme, errno + unit) state" where
  "counted_reprobe = do {
     upd_pci (\<lambda>p. p\<lparr>resume_reprobe_count := resume_reprobe_count p + 1\<rparr>);
     reprobe
   }"

text \<open>The last loop: its result is that of the last component.\<close>

primrec resume_entities ::
  "t7xx_pm_id list \<Rightarrow> errno + unit \<Rightarrow> ('z dpmaif_layer_scheme, errno + unit) state" where
  "resume_entities [] ret = return ret"
| "resume_entities (e # es) ret = do { ret \<leftarrow> entity_resume e; resume_entities es ret }"

text \<open>What comes after both requests: the end of a resume.\<close>

definition finish_resume :: "('z dpmaif_layer_scheme, errno + unit) state" where
  "finish_resume = do {
     es \<leftarrow> get_pci md_pm_entities;
     ret \<leftarrow> resume_entities es (Inr ());
     upd_pci (\<lambda>p. p\<lparr>rgu_pci_irq_en := True\<rparr>);
     t7xx_pcie_mac_set_int SAP_RGU_INT;
     enable_aspm_l1 0;
     kcall ''pm_runtime_mark_last_busy'' [];
     set_pm_state MTK_PM_RESUMED;
     upd_pci (\<lambda>p. p\<lparr>resume_reprobe_count := 0\<rparr>);
     return ret
   }"

text \<open>The handshake with the modem, from \<open>[PM] Resume: handshake path\<close> on.\<close>

definition resume_handshake :: "u32 \<Rightarrow> ('z dpmaif_layer_scheme, errno + unit) state" where
  "resume_handshake prev_state = do {
     disable_aspm_l1 0;
     t7xx_wait_pm_config;
     es \<leftarrow> get_pci md_pm_entities;
     for_each es entity_resume_early;
     ret \<leftarrow> t7xx_send_pm_request H2D_CH_RESUME_REQ;
     n \<leftarrow> get_pci resume_reprobe_count;
     if isl ret then
       (if n \<ge> MAX_RESUME_REPROBE_ATTEMPTS then return ret else counted_reprobe)
     else do {
       ap \<leftarrow> t7xx_send_pm_request H2D_CH_RESUME_REQ_AP;
       if isl ap \<and> prev_state = t7xx_pm_resume_state_val PM_RESUME_REG_STATE_INIT \<and>
         n < MAX_RESUME_REPROBE_ATTEMPTS
       then counted_reprobe else finish_resume
     }
   }"

text \<open>A device that met an exception while it slept.\<close>

definition resume_exception :: "u32 \<Rightarrow> ('z dpmaif_layer_scheme, errno + unit) state" where
  "resume_exception prev_state = do {
     ret \<leftarrow> (if prev_state = t7xx_pm_resume_state_val PM_RESUME_REG_STATE_L2_EXP
       then t7xx_pcie_reinit False else return (Inr ()));
     if isl ret then return ret else do {
       set_pm_state MTK_PM_SUSPENDED;
       upd_pci (\<lambda>p. p\<lparr>rgu_pci_irq_en := True\<rparr>);
       t7xx_pcie_mac_set_int SAP_RGU_INT;
       t7xx_mhccif_mask_clr (D2H_INT_EXCEPTION_INIT OR D2H_INT_EXCEPTION_INIT_DONE OR
         D2H_INT_EXCEPTION_CLEARQ_DONE OR D2H_INT_EXCEPTION_ALLQ_RESET OR D2H_INT_PORT_ENUM);
       return ret
     }
   }"

definition resume_unknown :: "('z dpmaif_layer_scheme, errno + unit) state" where
  "resume_unknown = do {
     ret \<leftarrow> t7xx_send_fsm_command FSM_CMD_STOP;
     if isl ret then return ret else do {
       t7xx_clear_rgu_irq;
       set_pm_state MTK_PM_SUSPENDED;
       return (Inr ())
     }
   }"

definition pm_resume :: "bool \<Rightarrow> ('z dpmaif_layer_scheme, errno + unit) state" where
  "pm_resume state_check = do {
     st \<leftarrow> get_pci md_pm_state;
     if st \<le> MTK_PM_INIT then do { enable_aspm_l1 0; return (Inr ()) } else do {
       t7xx_pcie_mac_interrupts_en;
       b \<leftarrow> gets IREG_BASE;
       prev_state \<leftarrow> ioread32 (b + T7XX_PCIE_PM_RESUME_STATE);
       if \<not> state_check then resume_handshake prev_state else do {
         atr_reg_val \<leftarrow> ioread32 (b + ATR_PCIE_WIN0_T0_ATR_PARAM_SRC_ADDR);
         if prev_state = t7xx_pm_resume_state_val PM_RESUME_REG_STATE_L3 \<or>
            prev_state = t7xx_pm_resume_state_val PM_RESUME_REG_STATE_INIT \<and>
              (atr_reg_val = ATR_SRC_ADDR_INVALID \<or> atr_reg_val = 0)
         then reprobe
         else if prev_state = t7xx_pm_resume_state_val PM_RESUME_REG_STATE_EXP \<or>
            prev_state = t7xx_pm_resume_state_val PM_RESUME_REG_STATE_L2_EXP
         then resume_exception prev_state
         else if prev_state = t7xx_pm_resume_state_val PM_RESUME_REG_STATE_L2 then do {
           ret \<leftarrow> t7xx_pcie_reinit False;
           if isl ret then return ret else resume_handshake prev_state
         } else if prev_state \<noteq> t7xx_pm_resume_state_val PM_RESUME_REG_STATE_L1 \<and>
            prev_state \<noteq> t7xx_pm_resume_state_val PM_RESUME_REG_STATE_INIT
         then resume_unknown
         else resume_handshake prev_state
       }
     }
   }"

section \<open>The operations for the kernel\<close>

definition t7xx_pci_pm_suspend_noirq :: "('z t7xx_scheme, errno + unit) state" where
  "t7xx_pci_pm_suspend_noirq = do { kcall ''pci_save_state'' []; return (Inr ()) }"

definition t7xx_pci_pm_resume_noirq :: "('z t7xx_scheme, errno + unit) state" where
  "t7xx_pci_pm_resume_noirq = do { t7xx_pcie_mac_interrupts_dis; return (Inr ()) }"

definition t7xx_pci_shutdown :: "('z dpmaif_layer_scheme, unit) state" where
  "t7xx_pci_shutdown = do { pm_suspend; t7xx_md_exit }"

definition t7xx_pci_pm_prepare :: "('z t7xx_scheme, errno + unit) state" where
  "t7xx_pci_pm_prepare = do {
     v \<leftarrow> kquery ''wait_for_completion_timeout init_done'' [20];
     return (if v = 0 then Inl ETIMEDOUT else Inr ())
   }"

definition t7xx_pci_pm_suspend :: "('z dpmaif_layer_scheme, errno + unit) state" where
  "t7xx_pci_pm_suspend = pm_suspend"

definition t7xx_pci_pm_resume :: "('z dpmaif_layer_scheme, errno + unit) state" where
  "t7xx_pci_pm_resume = pm_resume True"

definition t7xx_pci_pm_thaw :: "('z dpmaif_layer_scheme, errno + unit) state" where
  "t7xx_pci_pm_thaw = pm_resume False"

definition t7xx_pci_pm_runtime_suspend :: "('z dpmaif_layer_scheme, errno + unit) state" where
  "t7xx_pci_pm_runtime_suspend = pm_suspend"

definition t7xx_pci_pm_runtime_resume :: "('z dpmaif_layer_scheme, errno + unit) state" where
  "t7xx_pci_pm_runtime_resume = pm_resume True"

section \<open>Attributes\<close>

text \<open>The names of the modes in the order of the enumeration.\<close>

primrec t7xx_mode_val :: "t7xx_mode \<Rightarrow> nat" where
  "t7xx_mode_val T7XX_UNKNOWN = 0"
| "t7xx_mode_val T7XX_READY = 1"
| "t7xx_mode_val T7XX_RESET = 2"
| "t7xx_mode_val T7XX_FASTBOOT_SWITCHING = 3"
| "t7xx_mode_val T7XX_FASTBOOT_DOWNLOAD = 4"
| "t7xx_mode_val T7XX_FASTBOOT_DUMP = 5"

definition t7xx_mode_names :: "string list" where
  "t7xx_mode_names = [''unknown'', ''ready'', ''reset'', ''fastboot_switching'', ''fastboot_download'',
     ''fastboot_dump'']"

text \<open>
  \<open>sysfs_match_string\<close> of the kernel: the position of the name, where a newline at the end does
  not count, or \<open>-EINVAL\<close>.
\<close>

definition chomp :: "string \<Rightarrow> string" where
  "chomp s = (if s \<noteq> [] \<and> last s = CHR 10 then butlast s else s)"

definition sysfs_match_string :: "string list \<Rightarrow> string \<Rightarrow> int" where
  "sysfs_match_string names buf =
     (case find (\<lambda>i. names ! i = chomp buf) [0..<length names] of Some i \<Rightarrow> int i | None \<Rightarrow> - 22)"

definition t7xx_mode_store :: "string \<Rightarrow> ('z modem_layer_scheme, errno + nat) state" where
  "t7xx_mode_store buf = do {
     m \<leftarrow> get_pci mode;
     let index = sysfs_match_string t7xx_mode_names buf;
     if index = int (t7xx_mode_val m) then return (Inl EBUSY)
     else if index = int (t7xx_mode_val T7XX_FASTBOOT_SWITCHING) then
       (if m = T7XX_FASTBOOT_DOWNLOAD then return (Inr (length buf)) else do {
          upd_pci (\<lambda>p. p\<lparr>mode := T7XX_FASTBOOT_SWITCHING\<rparr>);
          kcall ''pm_runtime_resume'' [];
          t7xx_reset_device FASTBOOT;
          return (Inr (length buf))
        })
     else if index = int (t7xx_mode_val T7XX_RESET) then do {
       kcall ''pm_runtime_resume'' [];
       t7xx_reset_device PLDR;
       return (Inr (length buf))
     } else return (Inr (length buf))
   }"

definition t7xx_mode_show :: "('z t7xx_scheme, string) state" where
  "t7xx_mode_show = do {
     m \<leftarrow> get_pci mode;
     return (t7xx_mode_names ! t7xx_mode_val m @ [CHR 10])
   }"

text \<open>\<open>kstrtobool\<close> is the kernel's: whether it parses, and to what.\<close>

definition t7xx_debug_ports_store :: "string \<Rightarrow> ('z port_layer_scheme, errno + nat) state" where
  "t7xx_debug_ports_store buf = do {
     ret \<leftarrow> kerr (''kstrtobool '' @ buf) [];
     case ret of
       Inl e \<Rightarrow> return (Inl e)
     | Inr _ \<Rightarrow> do {
         v \<leftarrow> kquery (''kstrtobool result '' @ buf) [];
         t7xx_proxy_debug_ports_show (v \<noteq> 0);
         upd_pci (\<lambda>p. p\<lparr>debug_ports_show := v \<noteq> 0\<rparr>);
         return (Inr (length buf))
       }
   }"

definition t7xx_debug_ports_show :: "('z t7xx_scheme, string) state" where
  "t7xx_debug_ports_show = do {
     v \<leftarrow> get_pci debug_ports_show;
     return [if v then CHR ''1'' else CHR ''0'', CHR 10]
   }"

section \<open>Interrupts\<close>

definition all_ints :: "t7xx_int list" where
  "all_ints = [DPMAIF_INT, CLDMA0_INT, CLDMA1_INT, CLDMA2_INT, MHCCIF_INT, DPMAIF2_INT, SAP_RGU_INT, CLDMA3_INT]"

definition t7xx_free_irqs :: "t7xx_int list \<Rightarrow> ('z t7xx_scheme, unit) state" where
  "t7xx_free_irqs is = for_each is (\<lambda>i. do {
     h \<leftarrow> get_pci (\<lambda>p. intr_handler p i);
     c_when (h \<noteq> None) (do {
       vec \<leftarrow> kquery ''pci_irq_vector'' [of_nat (t7xx_int_val i)];
       kcall ''free_irq'' [vec]
     })
   })"

text \<open>The first loop: interrupts before the one that fails are \<open>got\<close>, in reverse order.\<close>

primrec request_loop ::
  "t7xx_int list \<Rightarrow> t7xx_int list \<Rightarrow> ('z t7xx_scheme, errno + unit) state" where
  "request_loop got [] = return (Inr ())"
| "request_loop got (i # is) = do {
     h \<leftarrow> get_pci (\<lambda>p. intr_handler p i);
     if h = None then request_loop (i # got) is else do {
       descr \<leftarrow> kquery ''devm_kasprintf'' [of_nat (t7xx_int_val i)];
       if descr = 0 then do { t7xx_free_irqs got; return (Inl ENOMEM) } else do {
         vec \<leftarrow> kquery ''pci_irq_vector'' [of_nat (t7xx_int_val i)];
         ret \<leftarrow> kerr ''request_threaded_irq'' [vec];
         if isl ret then do { t7xx_free_irqs got; return ret } else request_loop (i # got) is
       }
     }
   }"

definition t7xx_request_irq :: "('z t7xx_scheme, errno + unit) state" where
  "t7xx_request_irq = request_loop [] all_ints"

definition t7xx_setup_msix :: "('z t7xx_scheme, errno + unit) state" where
  "t7xx_setup_msix = do {
     v \<leftarrow> kquery ''pci_alloc_irq_vectors'' [of_nat EXT_INT_NUM, of_nat EXT_INT_NUM];
     if sint v < 0 then return (PTR_ERR v) else do {
       ret \<leftarrow> t7xx_request_irq;
       if isl ret then do { kcall ''pci_free_irq_vectors'' []; return ret } else do {
         t7xx_pcie_set_mac_msix_cfg (of_nat EXT_INT_NUM);
         return (Inr ())
       }
     }
   }"

definition t7xx_interrupt_init :: "('z t7xx_scheme, errno + unit) state" where
  "t7xx_interrupt_init = do {
     cap \<leftarrow> kquery ''pdev->msix_cap'' [];
     if cap = 0 then return (Inl EINVAL) else do {
       ret \<leftarrow> t7xx_setup_msix;
       if isl ret then return ret else do {
         for_each all_ints t7xx_pcie_mac_set_int;
         return (Inr ())
       }
     }
   }"

section \<open>Probe and remove\<close>

definition zero_pci_dev :: t7xx_pci_dev where
  "zero_pci_dev = \<lparr>intr_handler = (\<lambda>_. None),
     base_addr = \<lparr>pcie_mac_ireg_base = 0, pcie_ext_reg_base = 0, pcie_dev_reg_trsl_addr = 0,
       infracfg_ao_base = 0, mhccif_rc_base = 0\<rparr>,
     rgu_pci_irq_en = False, md_pm_entities = [], md_pm_state = MTK_PM_EXCEPTION,
     sleep_disable_count = 0, resume_reprobe_count = 0, mode = T7XX_UNKNOWN, debug_ports_show = False\<rparr>"

text \<open>A register region: its address in the base addresses, or an error.\<close>

definition map_region ::
  "u64 \<Rightarrow> (iomem \<Rightarrow> t7xx_addr_base \<Rightarrow> t7xx_addr_base) \<Rightarrow> ('z t7xx_scheme, errno + unit) state" where
  "map_region bar set_base = do {
     p \<leftarrow> kquery ''pcim_iomap_region'' [bar];
     if IS_ERR p then return (Inl ENOMEM) else do {
       upd_pci (\<lambda>x. x\<lparr>base_addr := set_base p (base_addr x)\<rparr>);
       return (Inr ())
     }
   }"

text \<open>What probe does before it sets up the modem: enable the device and map its registers.\<close>

definition probe_device :: "('z t7xx_scheme, errno + unit) state" where
  "probe_device = do {
     ret \<leftarrow> kerr ''pcim_enable_device'' [];
     if isl ret then return ret else do {
       kcall ''pci_set_master'' [];
       ret \<leftarrow> map_region 0 (\<lambda>p b. b\<lparr>pcie_mac_ireg_base := p\<rparr>);
       if isl ret then return ret else do {
         ret \<leftarrow> map_region 2 (\<lambda>p b. b\<lparr>pcie_ext_reg_base := p\<rparr>);
         if isl ret then return ret else do {
           ret \<leftarrow> kerr ''dma_set_mask'' [- 1];
           if isl ret then return ret else do {
             ret \<leftarrow> kerr ''dma_set_coherent_mask'' [- 1];
             if isl ret then return ret else do {
               ret \<leftarrow> t7xx_pci_pm_init;
               if isl ret then return ret else do {
                 t7xx_pcie_mac_atr_init;
                 t7xx_pci_infracfg_ao_calc;
                 t7xx_mhccif_init;
                 return (Inr ())
               }
             }
           }
         }
       }
     }
   }"

definition t7xx_pci_probe :: "('z dpmaif_layer_scheme, errno + unit) state" where
  "t7xx_pci_probe = do {
     p \<leftarrow> kquery ''devm_kzalloc'' [];
     if p = 0 then return (Inl ENOMEM) else do {
       upd_pci (\<lambda>_. zero_pci_dev);
       ret \<leftarrow> probe_device;
       if isl ret then return ret else do {
         ret \<leftarrow> t7xx_md_init;
         if isl ret then return ret else do {
           t7xx_pcie_mac_interrupts_dis;
           ret \<leftarrow> kerr ''sysfs_create_group'' [];
           if isl ret then do { t7xx_md_exit; return ret } else do {
             ret \<leftarrow> t7xx_interrupt_init;
             if isl ret then do {
               kcall ''sysfs_remove_group'' [];
               t7xx_md_exit;
               return ret
             } else do {
               t7xx_pcie_mac_set_int MHCCIF_INT;
               t7xx_pcie_mac_interrupts_en;
               return (Inr ())
             }
           }
         }
       }
     }
   }"

definition t7xx_pci_remove :: "('z dpmaif_layer_scheme, unit) state" where
  "t7xx_pci_remove = do {
     kcall ''sysfs_remove_group'' [];
     t7xx_md_exit;
     t7xx_free_irqs all_ints;
     kcall ''pci_free_irq_vectors'' []
   }"

end
