(* ===== verification/Data_Frame.thy ===== *)
theory Data_Frame
  imports Pci_Pm Fsm_Props Dpmaif_Hw_Props
begin

text \<open>
  What the data path leaves alone. An observation of the state may see nothing of the outside
  world, the engines, the data path's hardware block and its tables of receive buffers
  (\<open>blind_to_tables\<close>); nothing of its queues either (\<open>blind_to_queues\<close>), nor of the network
  interfaces (\<open>blind_to_data\<close>), nor of the power state of the data path (\<open>blind_to_network\<close>).
  The theory goes through the operations of the data path and the callbacks of suspend and resume
  once and shows for each kind which of them leave such an observation as it is. The device's
  context \<open>pci\<close>, the environment and the state of the state machine are observations of the last
  kind.
\<close>

lemma preserves_case_bat [preserves_intros]:
  "preserves f a \<Longrightarrow> preserves f b \<Longrightarrow> preserves f (case t of BAT_TYPE_NORMAL \<Rightarrow> a | BAT_TYPE_FRAG \<Rightarrow> b)"
  by (cases t) simp_all

lemma preserves_case_pm_id [preserves_intros]:
  "preserves f a \<Longrightarrow> preserves f b \<Longrightarrow> preserves f c \<Longrightarrow> preserves f d \<Longrightarrow>
   preserves f (case i of PM_ENTITY_ID_CTRL1 \<Rightarrow> a | PM_ENTITY_ID_CTRL2 \<Rightarrow> b | PM_ENTITY_ID_DATA \<Rightarrow> c
     | PM_ENTITY_ID_INVALID \<Rightarrow> d)"
  by (cases i) simp_all

locale blind_to_tables =
  fixes f :: "'z dpmaif_layer_scheme \<Rightarrow> 'b"
  assumes blind_emit: "f (emit e s) = f s"
    and blind_engines: "f (s\<lparr>md_ctrl := m\<rparr>) = f s" and blind_fault: "f (s\<lparr>cldma_fault := True\<rparr>) = f s"
    and blind_hw: "f (dpmaif_hw.hw_info_update h s) = f s" and blind_bat: "f (s\<lparr>bat := b\<rparr>) = f s"
begin

section \<open>Access to the state\<close>

lemmas acc = preserves_cl_access [where f = f, OF blind_engines blind_fault]
lemmas cldma_hw = preserves_cldma_hw [where f = f, OF blind_emit]

lemma keeps_access [preserves_intros]:
  "preserves f (get_txq i g)" "preserves f (get_rxq q g')" "preserves f (upd_bat k b')"
  "preserves f (get_bat k g'')" "preserves f (get_ccmni g3)" "preserves f fault"
  unfolding get_txq_def get_rxq_def upd_bat_def get_bat_def get_ccmni_def
  by (intro preserves_intros blind_bat acc)+

lemma keeps_table_access [preserves_intros]:
  "preserves f (upd_slot j l)" "preserves f (upd_page j p)" "preserves f (put_bat k j a)"
  unfolding upd_slot_def upd_page_def put_bat_def by (intro preserves_intros)+

lemma keeps_hw_access [preserves_intros]:
  "preserves f (get_hw g)" "preserves f (upd_hw h')" "preserves f (hw_read r)" "preserves f (hw_write v r)"
  "preserves f (hw_change r k)" "preserves f (hw_poll r ok d t)" "preserves f (upd_isr_mask m)"
  unfolding hw_change_def hw_read_def hw_write_def hw_poll_def upd_isr_mask_def get_hw_def upd_hw_def
  by (intro preserves_intros blind_hw blind_emit)+

section \<open>The hardware layer\<close>

lemmas hw_simple_defs =
  t7xx_dpmaif_dlq_unmask_rx_done_def t7xx_dpmaif_clr_ip_busy_sts_def t7xx_dpmaif_ul_clr_all_intr_def
  t7xx_dpmaif_dl_clr_all_intr_def t7xx_dpmaif_dlq_add_pit_remain_cnt_def
  t7xx_dpmaif_dl_dlq_pit_get_wr_idx_def t7xx_dl_add_timedout_def t7xx_dpmaif_dl_snd_hw_bat_cnt_def
  t7xx_dpmaif_dl_snd_hw_frg_cnt_def t7xx_dpmaif_dl_all_q_en_def t7xx_dpmaif_ul_all_q_en_def
  t7xx_dpmaif_dl_idle_check_def t7xx_dpmaif_ul_idle_check_def t7xx_dpmaif_start_hw_def
  t7xx_dpmaif_dl_get_bat_wr_idx_def

lemma keeps_hw_simple [preserves_intros]:
  "preserves f (t7xx_dpmaif_dlq_unmask_rx_done i)" "preserves f t7xx_dpmaif_clr_ip_busy_sts"
  "preserves f t7xx_dpmaif_ul_clr_all_intr" "preserves f t7xx_dpmaif_dl_clr_all_intr"
  "preserves f (t7xx_dpmaif_dlq_add_pit_remain_cnt i n)" "preserves f (t7xx_dpmaif_dl_dlq_pit_get_wr_idx i)"
  "preserves f (t7xx_dpmaif_dl_snd_hw_bat_cnt n)" "preserves f (t7xx_dpmaif_dl_snd_hw_frg_cnt n)"
  "preserves f (t7xx_dpmaif_dl_all_q_en x)" "preserves f (t7xx_dpmaif_ul_all_q_en x)"
  "preserves f t7xx_dpmaif_dl_idle_check" "preserves f t7xx_dpmaif_ul_idle_check"
  "preserves f t7xx_dpmaif_start_hw" "preserves f t7xx_dpmaif_dl_get_bat_wr_idx"
  unfolding hw_simple_defs Let_def by (intro preserves_intros blind_emit)+

lemma keeps_idle [preserves_intros]:
  "preserves f (ul_idle_loop n)" "preserves f (dl_idle_loop n)" "preserves f (pit_sync_loop n)"
  by (induction n) (auto intro!: preserves_intros)

lemma keeps_hw_stop [preserves_intros]:
  "preserves f t7xx_dpmaif_hw_stop_all_txq" "preserves f t7xx_dpmaif_hw_stop_all_rxq"
  unfolding t7xx_dpmaif_hw_stop_all_txq_def t7xx_dpmaif_hw_stop_all_rxq_def by (intro preserves_intros)+

lemma keeps_hw_config [preserves_intros]:
  "preserves f t7xx_dpmaif_hw_config" "preserves f t7xx_dpmaif_init_intr"
  "preserves f (t7xx_dpmaif_set_queue_property p)" "preserves f t7xx_dpmaif_config_ulq_hw"
  "preserves f t7xx_dpmaif_hw_init_done" "preserves f t7xx_dpmaif_pcie_dpmaif_sign"
  "preserves f t7xx_dpmaif_dl_performance" "preserves f t7xx_dpmaif_hw_dlq_timeout_thres_set"
  unfolding t7xx_dpmaif_hw_config_def t7xx_dpmaif_hw_reset_def t7xx_dpmaif_sram_init_def
    t7xx_dpmaif_init_intr_def t7xx_dpmaif_set_queue_property_def t7xx_dpmaif_config_ulq_hw_def
    ul_config_defs t7xx_dpmaif_hw_init_done_def t7xx_dpmaif_pcie_dpmaif_sign_def
    t7xx_dpmaif_dl_performance_def t7xx_dpmaif_hw_dlq_timeout_thres_set_def Let_def
  by (intro preserves_intros blind_emit)+

lemma keeps_dlq [preserves_intros]: "preserves f t7xx_dpmaif_config_dlq_hw"
  unfolding dl_config_defs t7xx_dpmaif_dl_all_q_en_def Let_def by (intro preserves_intros blind_emit)

lemma keeps_hw_init [preserves_intros]: "preserves f (t7xx_dpmaif_hw_init p)"
  unfolding t7xx_dpmaif_hw_init_def by (intro preserves_intros)

section \<open>The tables of receive buffers\<close>

lemma keeps_bitmap [preserves_intros]: "preserves f bitmap_zero"
  unfolding bitmap_zero_def by (intro preserves_intros)

lemma keeps_unmap [preserves_intros]:
  "preserves f (t7xx_unmap_bat_skb j)" "preserves f (t7xx_unmap_bat_page j)"
  unfolding t7xx_unmap_bat_skb_def t7xx_unmap_bat_page_def by (intro preserves_intros blind_emit)+

lemma keeps_unmap_many [preserves_intros]: "preserves f (unmap_skbs n)" "preserves f (unmap_pages n)"
  by (induction n) (auto intro!: preserves_intros)

lemma keeps_alloc_loop [preserves_intros]:
  "preserves f (buf_alloc_loop w n i)" "preserves f (frag_alloc_loop n i k)"
proof -
  have a: "preserves f (t7xx_alloc_and_map_skb_info z j)" "preserves f (alloc_frag_page z j)" for z j
    unfolding t7xx_alloc_and_map_skb_info_def alloc_frag_page_def Let_def
    by (intro preserves_intros blind_emit)+
  show "preserves f (buf_alloc_loop w n i)"
    by (induction n arbitrary: i) (auto simp: Let_def intro!: preserves_intros a)
  show "preserves f (frag_alloc_loop n i k)"
    by (induction n arbitrary: i k) (auto simp: Let_def intro!: preserves_intros a)
qed

lemma keeps_alloc [preserves_intros]:
  "preserves f (t7xx_dpmaif_rx_buf_alloc q n i)" "preserves f (t7xx_dpmaif_rx_frag_alloc n i)"
  unfolding t7xx_dpmaif_rx_buf_alloc_def t7xx_dpmaif_update_bat_wr_idx_def buf_alloc_notify_def
    t7xx_dpmaif_rx_frag_alloc_def Let_def
  by (intro preserves_intros)+

lemma keeps_bat_free [preserves_intros]: "preserves f (t7xx_dpmaif_bat_free b)"
  unfolding t7xx_dpmaif_bat_free_def t7xx_dpmaif_base_free_def
  by (cases b; simp; intro preserves_intros blind_emit)

section \<open>Interrupts and power\<close>

lemma keeps_mac [preserves_intros]:
  "preserves f (t7xx_pcie_mac_clear_int i)" "preserves f (t7xx_pcie_mac_set_int i)"
  "preserves f (t7xx_pcie_mac_clear_int_status i)" "preserves f t7xx_pcie_mac_interrupts_en"
  "preserves f (t7xx_mhccif_mask_set v)" "preserves f (t7xx_mhccif_mask_clr v)"
  "preserves f (t7xx_mhccif_h2d_swint_trigger k)" "preserves f (disable_aspm_l1 n)"
  "preserves f (enable_aspm_l1 n)" "preserves f t7xx_wait_pm_config" "preserves f (t7xx_send_pm_request r)"
  unfolding mac_defs pci_dev_defs Let_def by (intro preserves_intros blind_emit)+

lemma keeps_irq [preserves_intros]: "preserves f t7xx_dpmaif_enable_irq" "preserves f t7xx_dpmaif_disable_irq"
  unfolding t7xx_dpmaif_enable_irq_def t7xx_dpmaif_disable_irq_def by (intro preserves_intros)+

end

section \<open>Transmit and receive queues\<close>

locale blind_to_queues = blind_to_tables f for f :: "'z dpmaif_layer_scheme \<Rightarrow> 'b" +
  assumes blind_txq: "f (s\<lparr>txq := t\<rparr>) = f s" and blind_rxq: "f (s\<lparr>rxq := r\<rparr>) = f s"
begin

lemma keeps_queue_access [preserves_intros]:
  "preserves f (upd_txq i t')" "preserves f (upd_rxq q r')" "preserves f (upd_info q i')"
  unfolding upd_info_def upd_txq_def upd_rxq_def by (intro preserves_intros blind_txq blind_rxq)+

lemma keeps_tx_stop [preserves_intros]:
  "preserves f (tx_stop_wait q n)" "preserves f t7xx_dpmaif_tx_stop" "preserves f t7xx_dpmaif_tx_clear"
proof -
  show w: "preserves f (tx_stop_wait q n)" for q n
    by (induction n) (auto intro!: preserves_intros blind_emit)
  show "preserves f t7xx_dpmaif_tx_stop" "preserves f t7xx_dpmaif_tx_clear"
    unfolding t7xx_dpmaif_tx_stop_def t7xx_dpmaif_tx_clear_def t7xx_dpmaif_txq_flush_rel_def
      t7xx_dpmaif_tx_free_drb_skb_def free_drb_skb_one_def
    by (intro preserves_intros w blind_emit)+
qed

lemma keeps_rx_stop [preserves_intros]:
  "preserves f (stop_rxq_wait q n)" "preserves f t7xx_dpmaif_rx_stop" "preserves f t7xx_dpmaif_rx_clear"
proof -
  show w: "preserves f (stop_rxq_wait q n)" for q n
    by (induction n) (auto intro!: preserves_intros)
  show "preserves f t7xx_dpmaif_rx_stop" "preserves f t7xx_dpmaif_rx_clear"
    unfolding t7xx_dpmaif_rx_stop_def t7xx_dpmaif_rx_clear_def t7xx_dpmaif_stop_rxq_def
    by (intro preserves_intros w blind_emit)+
qed

lemma keeps_notify_hw [preserves_intros]: "preserves f (t7xx_dpmaifq_rx_notify_hw q)"
  unfolding t7xx_dpmaifq_rx_notify_hw_def t7xx_dpmaif_pit_release_and_add_def
    t7xx_dpmaifq_release_pit_entry_def Let_def
  by (intro preserves_intros blind_emit)

lemma keeps_pit [preserves_intros]:
  "preserves f (pit_word q j k)" "preserves f (read_pit q j)" "preserves f (t7xx_dpmaif_check_pit_seq q j)"
  unfolding read_pit_def t7xx_dpmaif_check_pit_seq_def t7xx_dpmaif_read_pit_seq_def pit_word_def
  by (intro preserves_intros blind_emit)+

end

section \<open>Network interfaces\<close>

locale blind_to_data = blind_to_queues f for f :: "'z dpmaif_layer_scheme \<Rightarrow> 'b" +
  assumes blind_ccmni: "f (s\<lparr>ccmni := c\<rparr>) = f s"
begin

lemma keeps_ccmni_access [preserves_intros]:
  "preserves f (upd_ccmni c')" "preserves f (upd_dev d e)" "preserves f (upd_stats d e')"
  unfolding upd_stats_def upd_dev_def upd_ccmni_def by (intro preserves_intros blind_ccmni)+

lemma keeps_rx_entry [preserves_intros]: "preserves f (rx_entry q pit ret n)"
  unfolding rx_entry_def take_buffer_def end_packet_def t7xx_dpmaif_get_rx_pkt_def t7xx_dpmaif_get_frag_def
    t7xx_dpmaif_set_frag_to_skb_def t7xx_dpmaif_set_data_to_skb_def t7xx_dpmaif_set_bat_mask_def
    t7xx_frag_bat_cur_bid_check_def t7xx_bat_cur_bid_check_def t7xx_dpmaif_parse_msg_pit_def
    t7xx_dpmaif_rx_skb_def t7xx_ccmni_recv_skb_def Let_def
  by (intro preserves_intros blind_emit)

lemma keeps_rx_loop [preserves_intros]: "preserves f (rx_loop q bud n k ret c)"
  by (induction n arbitrary: k ret c) (auto simp: pit_advance_def intro!: preserves_intros)

lemma keeps_collect [preserves_intros]: "preserves f (t7xx_dpmaif_napi_rx_data_collect q bud)"
  unfolding t7xx_dpmaif_napi_rx_data_collect_def t7xx_dpmaif_rx_start_def t7xx_dpmaifq_poll_pit_def
  by (intro preserves_intros)

lemma keeps_poll_rounds [preserves_intros]: "preserves f (poll_rounds q bud n k m)"
  by (induction n arbitrary: k m) (auto intro!: preserves_intros)

section \<open>Suspend and resume\<close>

lemma keeps_cldma_irq [preserves_intros]:
  "preserves f (t7xx_cldma_enable_irq c)" "preserves f (t7xx_cldma_disable_irq c)"
  unfolding t7xx_cldma_enable_irq_def t7xx_cldma_disable_irq_def by (intro preserves_intros acc)+

lemma keeps_cldma_pm [preserves_intros]:
  "preserves f (t7xx_cldma_suspend c)" "preserves f (t7xx_cldma_suspend_late c)"
  "preserves f (t7xx_cldma_resume_early c)" "preserves f (t7xx_cldma_resume c)"
  unfolding t7xx_cldma_suspend_def t7xx_cldma_suspend_late_def t7xx_cldma_resume_early_def
    t7xx_cldma_resume_def set_active_def
  by (intro preserves_intros acc cldma_hw)+

lemma keeps_dpmaif_pm [preserves_intros]: "preserves f t7xx_dpmaif_suspend" "preserves f t7xx_dpmaif_resume"
  unfolding t7xx_dpmaif_suspend_def t7xx_dpmaif_resume_def t7xx_dpmaif_start_txrx_qs_def
    t7xx_dpmaif_unmask_dlq_intr_def
  by (intro preserves_intros blind_emit)+

lemma keeps_entities [preserves_intros]:
  "preserves f (entity_suspend e)" "preserves f (entity_suspend_late e)"
  "preserves f (entity_resume_early e)" "preserves f (entity_resume e)"
  unfolding entity_suspend_def entity_suspend_late_def entity_resume_early_def entity_resume_def
  by (intro preserves_intros)+

lemma keeps_entity_lists [preserves_intros]:
  "preserves f (suspend_entities es)" "preserves f (resume_entities es ret)"
proof -
  show "preserves f (suspend_entities es)"
    by (induction es) (auto intro!: preserves_intros)
  show "preserves f (resume_entities es ret)"
    by (induction es arbitrary: ret) (auto intro!: preserves_intros)
qed

section \<open>The network layer\<close>

lemma keeps_napi [preserves_intros]: "preserves f (enable_napi_loop is)"
  by (induction "is") (auto intro!: preserves_intros blind_emit)

lemma keeps_for_each_used [preserves_intros]: "(\<And>d. preserves f (g d)) \<Longrightarrow> preserves f (for_each_used g)"
  unfolding for_each_used_def by (intro preserves_intros)

lemma keeps_ccmni [preserves_intros]:
  "preserves f t7xx_ccmni_register_wwan" "preserves f t7xx_ccmni_start" "preserves f t7xx_ccmni_pre_stop"
  "preserves f t7xx_ccmni_post_stop"
  unfolding t7xx_ccmni_register_wwan_def t7xx_ccmni_start_def t7xx_ccmni_pre_stop_def t7xx_ccmni_post_stop_def
    t7xx_ccmni_enable_napi_def t7xx_ccmni_disable_napi_def
  by (intro preserves_intros blind_emit)+

end

section \<open>Start and stop\<close>

text \<open>
  The reaction of the network layer to a state of the modem. It also changes the power state of
  the data path, which an observation of this kind does not see.
\<close>

locale blind_to_network = blind_to_data f for f :: "'z dpmaif_layer_scheme \<Rightarrow> 'b" +
  assumes blind_st: "f (s\<lparr>dpmaif_st := x\<rparr>) = f s"
begin

lemma keeps_start_stop [preserves_intros]: "preserves f t7xx_dpmaif_start" "preserves f t7xx_dpmaif_stop"
  unfolding t7xx_dpmaif_start_def start_rxqs_def start_hw_def start_txqs_def t7xx_dpmaif_stop_def
    t7xx_dpmaif_stop_sw_def
  by (intro preserves_intros blind_emit blind_st)+

lemma keeps_dpmaif_callback [preserves_intros]: "preserves f (t7xx_dpmaif_md_state_callback st)"
  unfolding t7xx_dpmaif_md_state_callback_def t7xx_dpmaif_stop_hw_def
  by (cases st; simp; intro preserves_intros)

lemma keeps_notifier [preserves_intros]: "preserves f (ccmni_notifier n st)"
  unfolding ccmni_notifier_def t7xx_ccmni_md_state_callback_def by (intro preserves_intros)

end

section \<open>Observations\<close>

text \<open>Reading of \<open>pci\<close>, the environment, and the state machine.\<close>

interpretation dp: blind_to_network "pci"
  by unfold_locales (simp_all add: emit_def)

interpretation de: blind_to_network "env"
  by unfold_locales simp_all

interpretation df: blind_to_network "fsm"
  by unfold_locales (simp_all add: emit_def)

interpretation dc: blind_to_network "core"
  by unfold_locales (simp_all add: emit_def)

end
