(* ===== verification/Pm_Props.thy ===== *)
theory Pm_Props
  imports Data_Frame
begin

text \<open>
  Suspend and resume. What a resume does to the power state of the device and to the count of
  attempts to bring it up again is a table (\<open>resume_table\<close>); the code refines it for every
  device, however its components fare. From the table: the device is never set up again more
  than three times between two completed resumes. And what a suspend that fails leaves.
\<close>

section \<open>The pieces\<close>

lemma pci_append_cmd [simp]: "pci (after (t7xx_fsm_append_cmd i fl) s) = pci s"
proof -
  have u: "preserves pci (upd_cmd c g :: ('a fsm_layer_scheme, unit) state)" for c g
    unfolding upd_cmd_def by (intro preserves_intros) (simp split: option.split)
  have k: "preserves pci (kref_put c :: ('a fsm_layer_scheme, unit) state)" for c
    unfolding kref_put_def fsm_release_command_def
    by (intro preserves_intros u) simp_all
  have q: "preserves pci (upd_fsm g :: ('a fsm_layer_scheme, unit) state)" for g
    unfolding upd_fsm_def by (intro preserves_intros) simp
  have "preserves pci (t7xx_fsm_append_cmd i fl :: ('a fsm_layer_scheme, errno + unit) state)"
    unfolding t7xx_fsm_append_cmd_def fsm_post_cmd_def fsm_await_cmd_def Let_def
    by (intro preserves_intros u k q) simp_all
  then show ?thesis by (rule preservesD)
qed

lemma pci_clear_rgu_irq [simp]: "pci (after t7xx_clear_rgu_irq s) = pci s"
  by (simp add: t7xx_clear_rgu_irq_def t7xx_clr_device_irq_via_pcie_def mac_defs run_simps Let_def)

lemma pci_for_each: "(\<And>x s. pci (after (g x) s) = pci s) \<Longrightarrow> pci (after (for_each xs g) s) = pci s"
  using for_each_rel [of "\<lambda>s t. pci t = pci s" xs g s] by simp

text \<open>The re-initialisation: the power state is \<open>MTK_PM_INIT\<close> after it when the device was off.\<close>

lemma pci_tables_dis [simp]: "pci (after (t7xx_pcie_mac_atr_tables_dis b p) s) = pci s"
  unfolding t7xx_pcie_mac_atr_tables_dis_def by (rule pci_for_each) (simp add: run_simps)

lemma pci_atr_cfg [simp]: "pci (after (t7xx_pcie_mac_atr_cfg c) s) = pci s"
  by (simp add: t7xx_pcie_mac_atr_cfg_def run_simps Let_def ioread64_lo_hi_def split: sum.split)

lemma pci_atr_init [simp]:
  "pci (after t7xx_pcie_mac_atr_init s) =
   (pci s)\<lparr>base_addr := (base_addr (pci s))\<lparr>pcie_dev_reg_trsl_addr := ucast T7XX_PCIE_REG_TRSL_ADDR_CHIP\<rparr>\<rparr>"
  by (simp add: t7xx_pcie_mac_atr_init_def run_bind run_gets run_kquery run_upd_pci split_beta Let_def pci_for_each)

lemma pci_interrupt_reinit [simp]: "pci (after t7xx_pcie_interrupt_reinit s) = pci s"
  by (simp add: t7xx_pcie_interrupt_reinit_def run_simps split_beta Let_def)

definition pm_of :: "t7xx_pci_dev \<Rightarrow> t7xx_pm_state \<times> u32" where
  "pm_of p = (md_pm_state p, resume_reprobe_count p)"

text \<open>Whether it fails, and the power state and the count after it.\<close>

definition outcome ::
  "('z t7xx_scheme, errno + unit) state \<Rightarrow> 'z t7xx_scheme \<Rightarrow> bool \<times> t7xx_pm_state \<times> u32" where
  "outcome m s = (isl (result m s), pm_of (pci (after m s)))"

lemma outcome_bind:
  "outcome (State_Monad.bind m g) s = outcome (g (result m s)) (after m s)"
  by (simp add: outcome_def run_bind split_beta)

lemma outcome_return: "outcome (return r) s = (isl r, pm_of (pci s))"
  by (simp add: outcome_def)

lemma pci_aspm [simp]:
  "pci (after (disable_aspm_l1 i) s) = pci s" "pci (after (enable_aspm_l1 i) s) = pci s"
  by (simp_all add: disable_aspm_l1_def enable_aspm_l1_def run_simps)

lemma pci_wait_pm_config [simp]:
  fixes s :: "'z t7xx_scheme"
  shows "pci (after t7xx_wait_pm_config s) = pci s" "result t7xx_wait_pm_config s = Inr ()"
proof -
  have "preserves pci (t7xx_wait_pm_config :: ('z t7xx_scheme, errno + unit) state)"
    unfolding t7xx_wait_pm_config_def by (intro preserves_intros; simp)
  then show "pci (after t7xx_wait_pm_config s) = pci s" by (rule preservesD)
  show "result t7xx_wait_pm_config s = Inr ()"
    by (simp add: t7xx_wait_pm_config_def run_bind split_beta)
qed

lemma outcome_reinit:
  "outcome (t7xx_pcie_reinit d3) s \<in>
     {(True, pm_of (pci s)), (False, if d3 then MTK_PM_INIT else md_pm_state (pci s), resume_reprobe_count (pci s))}"
  by (simp add: outcome_def pm_of_def t7xx_pcie_reinit_def run_bind run_kerr run_kquery run_c_when split_beta Let_def
      t7xx_mhccif_init_def t7xx_pci_pm_reinit_def set_pm_state_def run_upd_pci run_kcall)

lemma pm_send_command [simp]: "pm_of (pci (after (t7xx_send_fsm_command c) s)) = pm_of (pci s)"
  by (simp add: t7xx_send_fsm_command_def pm_of_def run_bind run_upd_pci split_beta)

section \<open>The table\<close>

text \<open>Setting the device up again, in a given power state and with a given count.\<close>

definition reprobed :: "t7xx_pm_state \<Rightarrow> u32 \<Rightarrow> (bool \<times> t7xx_pm_state \<times> u32) list" where
  "reprobed st n = [(False, MTK_PM_INIT, n), (True, MTK_PM_INIT, n), (True, st, n)]"

text \<open>
  The handshake: \<open>md\<close> and \<open>ap\<close> say whether the modem and its application core answer.
\<close>

definition handshake_table ::
  "u32 \<Rightarrow> bool \<Rightarrow> bool \<Rightarrow> t7xx_pm_state \<Rightarrow> u32 \<Rightarrow> (bool \<times> t7xx_pm_state \<times> u32) list" where
  "handshake_table prev md ap st n =
     (if md \<and> (ap \<or> prev \<noteq> t7xx_pm_resume_state_val PM_RESUME_REG_STATE_INIT \<or> n \<ge> 3)
      then [(False, MTK_PM_RESUMED, 0)]
      else if n \<ge> 3 then [(True, st, n)] else reprobed st (n + 1))"

text \<open>\<open>prev\<close> is the state the device says it was in, \<open>atr\<close> the address of its first window.\<close>

definition resume_table ::
  "bool \<Rightarrow> u32 \<Rightarrow> u32 \<Rightarrow> bool \<Rightarrow> bool \<Rightarrow> t7xx_pm_state \<Rightarrow> u32 \<Rightarrow> (bool \<times> t7xx_pm_state \<times> u32) list" where
  "resume_table check prev atr md ap st n =
     (let is = (\<lambda>x. prev = t7xx_pm_resume_state_val x) in
      if st \<le> MTK_PM_INIT then [(False, st, n)]
      else if \<not> check \<or> is PM_RESUME_REG_STATE_L1 then handshake_table prev md ap st n
      else if is PM_RESUME_REG_STATE_L3 then reprobed st n
      else if is PM_RESUME_REG_STATE_INIT then
        (if atr = ATR_SRC_ADDR_INVALID \<or> atr = 0 then reprobed st n else handshake_table prev md ap st n)
      else if is PM_RESUME_REG_STATE_EXP then [(False, MTK_PM_SUSPENDED, n)]
      else if is PM_RESUME_REG_STATE_L2 then (True, st, n) # handshake_table prev md ap st n
      else [(False, MTK_PM_SUSPENDED, n), (True, st, n)])"

section \<open>The code follows the table\<close>

lemma outcome_reprobe:
  "outcome reprobe s \<in> set (reprobed (md_pm_state (pci s)) (resume_reprobe_count (pci s)))"
proof -
  have early: "pci (after t7xx_pci_reprobe_early s) = pci s"
    by (simp add: t7xx_pci_reprobe_early_def t7xx_send_fsm_command_def run_bind run_get_pci run_c_when run_kcall
        split_beta)
  have late: "outcome (t7xx_pci_reprobe True) t \<in> set (reprobed (md_pm_state (pci t)) (resume_reprobe_count (pci t)))"
    for t :: "'a dpmaif_layer_scheme"
    using outcome_reinit [of True t]
    by (auto simp: t7xx_pci_reprobe_def outcome_bind outcome_return reprobed_def)
       (auto simp: outcome_def run_bind split_beta pm_of_def [of "pci t"])
  show ?thesis
    using late [of "after t7xx_pci_reprobe_early s"]
    by (auto simp: reprobe_def outcome_bind outcome_return early reprobed_def pm_of_def)
qed

lemma finish_resume_outcome: "outcome finish_resume s = (False, MTK_PM_RESUMED, 0)"
proof -
  have ok: "\<not> isl (result (entity_resume e) t)" for e and t :: "'a dpmaif_layer_scheme"
    by (simp add: entity_resume_def t7xx_cldma_resume_def t7xx_dpmaif_resume_def run_bind split_beta
        split: t7xx_pm_id.split)
  have "\<not> isl (result (resume_entities es r) t)" if "\<not> isl r" for es r and t :: "'a dpmaif_layer_scheme"
    using that by (induction es arbitrary: r t) (simp_all add: run_bind split_beta ok)
  then show ?thesis
    by (simp add: finish_resume_def outcome_def pm_of_def run_bind run_upd_pci run_get_pci run_kcall set_pm_state_def
        split_beta)
qed

text \<open>The modem answers a request exactly when \<open>acks\<close> holds of the channel it was rung on last.\<close>

definition modem_answers :: "environment \<Rightarrow> (u32 \<Rightarrow> bool) \<Rightarrow> bool" where
  "modem_answers e acks \<longleftrightarrow> (\<forall>h a c. e (h @ [Wr a c])
     (Kernel ''wait_for_completion_timeout pm_sr_ack'' [5000]) = (if acks c then 1 else 0))"

lemma result_request:
  assumes "modem_answers (env s) acks"
  shows "isl (result (t7xx_send_pm_request r) s) \<longleftrightarrow> \<not> acks (of_nat r)"
proof -
  have "env s (h @ [Wr a (of_nat r)]) (Kernel ''wait_for_completion_timeout pm_sr_ack'' [5000]) =
      (if acks (of_nat r) then 1 else 0)" for h a
    using assms by (simp add: modem_answers_def)
  from this [of "h @ [x, y]" for h x y] show ?thesis
    by (simp add: t7xx_send_pm_request_def t7xx_mhccif_h2d_swint_trigger_def run_simps Let_def)
qed

lemma pci_request [simp]: "pci (after (t7xx_send_pm_request r) s) = pci s"
  by (simp add: t7xx_send_pm_request_def run_simps Let_def split_beta)

lemma env_request [simp]: "env (after (t7xx_send_pm_request r) s) = env s"
  by (rule recorded_env) (rule recorded_pci_dev)

lemma resume_early_frame:
  "pci (after (for_each es entity_resume_early) s) = pci s" "env (after (for_each es entity_resume_early) s) = env s"
  by (rule preservesD, intro preserves_intros dp.keeps_entities de.keeps_entities)+

lemma handshake_outcome:
  fixes s :: "'z dpmaif_layer_scheme"
  shows "\<exists>md ap. outcome (resume_handshake prev) s \<in>
      set (handshake_table prev md ap (md_pm_state (pci s)) (resume_reprobe_count (pci s))) \<and>
    (\<forall>acks. modem_answers (env s) acks \<longrightarrow> md = acks (of_nat H2D_CH_RESUME_REQ) \<and> ap = acks (of_nat H2D_CH_RESUME_REQ_AP))"
proof -
  define t where "t = after (for_each (md_pm_entities (pci s)) entity_resume_early)
    (after t7xx_wait_pm_config (after (disable_aspm_l1 0) s))"
  have t: "pci t = pci s" "env t = env s"
    unfolding t_def resume_early_frame by (simp_all add: recorded_env [OF recorded_pci_dev(4)] recorded_env [OF recorded_pci_dev(5)])
  let ?md = "\<not> isl (result (t7xx_send_pm_request H2D_CH_RESUME_REQ) t)"
  define u where "u = after (t7xx_send_pm_request H2D_CH_RESUME_REQ) t"
  let ?ap = "\<not> isl (result (t7xx_send_pm_request H2D_CH_RESUME_REQ_AP) u)"
  have u: "pci u = pci s" "env u = env s" by (simp_all add: u_def t)
  have counted: "outcome counted_reprobe v \<in> set (reprobed (md_pm_state (pci s)) (resume_reprobe_count (pci s) + 1))"
    if "pci v = pci s" for v :: "'z dpmaif_layer_scheme"
    using outcome_reprobe [of "v\<lparr>pci := (pci v)\<lparr>resume_reprobe_count := resume_reprobe_count (pci v) + 1\<rparr>\<rparr>"] that
    by (simp add: counted_reprobe_def outcome_bind run_upd_pci)
  have "outcome (resume_handshake prev) s \<in>
      set (handshake_table prev ?md ?ap (md_pm_state (pci s)) (resume_reprobe_count (pci s)))"
    using counted [of u] counted [of "after (t7xx_send_pm_request H2D_CH_RESUME_REQ_AP) u"]
    by (auto simp: resume_handshake_def outcome_bind run_get_pci t_def [symmetric] u_def [symmetric] t(1) u(1)
        handshake_table_def outcome_return finish_resume_outcome pm_of_def)
  moreover have "?md = acks (of_nat H2D_CH_RESUME_REQ) \<and> ?ap = acks (of_nat H2D_CH_RESUME_REQ_AP)"
    if "modem_answers (env s) acks" for acks
    using that result_request [of t acks] result_request [of u acks] by (simp add: t u)
  ultimately show ?thesis by blast
qed

lemma exception_outcome:
  "outcome (resume_exception prev) s \<in>
     {(False, MTK_PM_SUSPENDED, resume_reprobe_count (pci s))} \<union>
     (if prev = t7xx_pm_resume_state_val PM_RESUME_REG_STATE_L2_EXP then {(True, pm_of (pci s))} else {})"
  using outcome_reinit [of False s]
  by (auto simp: resume_exception_def outcome_bind outcome_return)
     (auto simp: outcome_def pm_of_def set_pm_state_def run_upd_pci)

lemma unknown_outcome:
  "outcome resume_unknown s \<in> {(False, MTK_PM_SUSPENDED, resume_reprobe_count (pci s)), (True, pm_of (pci s))}"
  using pm_send_command [of FSM_CMD_STOP s]
  by (auto simp: resume_unknown_def outcome_bind outcome_return set_pm_state_def run_upd_pci pm_of_def)

lemma l2_outcome:
  fixes s :: "'z dpmaif_layer_scheme"
  assumes "\<not> isl (result (t7xx_pcie_reinit False) s)"
  shows "pm_of (pci (after (t7xx_pcie_reinit False) s)) = pm_of (pci s)"
    "env (after (t7xx_pcie_reinit False) s) = env s"
proof -
  show "pm_of (pci (after (t7xx_pcie_reinit False) s)) = pm_of (pci s)"
    using assms outcome_reinit [of False s] by (auto simp: outcome_def pm_of_def)
  have "preserves env (t7xx_pcie_reinit False :: ('z dpmaif_layer_scheme, errno + unit) state)"
    unfolding t7xx_pcie_reinit_def t7xx_pcie_interrupt_reinit_def t7xx_pcie_mac_atr_init_def
      t7xx_pcie_mac_atr_tables_dis_def t7xx_pcie_mac_atr_cfg_def c_when_def mac_defs Let_def
    by (simp, intro preserves_intros; simp)
  then show "env (after (t7xx_pcie_reinit False) s) = env s" by (rule preservesD)
qed

text \<open>What a resume reads of the device, when the two registers keep their value.\<close>

definition device_reads :: "environment \<Rightarrow> iomem \<Rightarrow> u32 \<Rightarrow> bool" where
  "device_reads e a v \<longleftrightarrow> (\<forall>h. e h (ReadReg a) = ucast v)"

lemma resume_outcome:
  fixes s :: "'z dpmaif_layer_scheme"
  shows "\<exists>prev atr md ap. outcome (pm_resume check) s \<in>
      set (resume_table check prev atr md ap (md_pm_state (pci s)) (resume_reprobe_count (pci s))) \<and>
    (\<forall>v. device_reads (env s) (IREG_BASE s + T7XX_PCIE_PM_RESUME_STATE) v \<longrightarrow> prev = v) \<and>
    (\<forall>v. device_reads (env s) (IREG_BASE s + ATR_PCIE_WIN0_T0_ATR_PARAM_SRC_ADDR) v \<longrightarrow> atr = v) \<and>
    (\<forall>acks. modem_answers (env s) acks \<longrightarrow> md = acks (of_nat H2D_CH_RESUME_REQ) \<and> ap = acks (of_nat H2D_CH_RESUME_REQ_AP))"
proof -
  let ?st = "md_pm_state (pci s)" and ?n = "resume_reprobe_count (pci s)"
  define t where "t = after t7xx_pcie_mac_interrupts_en s"
  define prev where "prev = result (ioread32 (IREG_BASE s + T7XX_PCIE_PM_RESUME_STATE)) t"
  define u where "u = after (ioread32 (IREG_BASE s + T7XX_PCIE_PM_RESUME_STATE)) t"
  define atr where "atr = result (ioread32 (IREG_BASE s + ATR_PCIE_WIN0_T0_ATR_PARAM_SRC_ADDR)) u"
  define v where "v = after (ioread32 (IREG_BASE s + ATR_PCIE_WIN0_T0_ATR_PARAM_SRC_ADDR)) u"
  have t: "pci t = pci s" "env t = env s"
    by (simp_all add: t_def recorded_env [OF recorded_mac(1)])
  have uv: "pci u = pci s" "env u = env s" "pci v = pci s" "env v = env s"
    by (simp_all add: u_def v_def run_ioread32 Let_def t)
  have base: "IREG_BASE t = IREG_BASE s" by (simp add: IREG_BASE_def t)
  have reads: "prev = x" if "device_reads (env s) (IREG_BASE s + T7XX_PCIE_PM_RESUME_STATE) x" for x
    using that by (simp add: prev_def run_ioread32 Let_def t device_reads_def)
  have reads2: "atr = x" if "device_reads (env s) (IREG_BASE s + ATR_PCIE_WIN0_T0_ATR_PARAM_SRC_ADDR) x" for x
    using that by (simp add: atr_def run_ioread32 Let_def uv device_reads_def)
  define pins where "pins = (\<lambda>md ap. \<forall>acks. modem_answers (env s) acks \<longrightarrow>
    md = acks (of_nat H2D_CH_RESUME_REQ) \<and> ap = acks (of_nat H2D_CH_RESUME_REQ_AP))"
  have hs: "\<exists>md ap. outcome (resume_handshake prev) w \<in> set (handshake_table prev md ap ?st ?n) \<and> pins md ap"
    if "pm_of (pci w) = pm_of (pci s)" "env w = env s" for w :: "'z dpmaif_layer_scheme"
    using handshake_outcome [of prev w] that by (simp add: pm_of_def pins_def)
  have "acks c \<longleftrightarrow> env s [Wr 0 c] (Kernel ''wait_for_completion_timeout pm_sr_ack'' [5000]) = 1"
    if "modem_answers (env s) acks" for acks c
    using that [unfolded modem_answers_def, rule_format, of "[]" 0 c] by (simp split: if_splits)
  then have free: "\<exists>md ap. pins md ap" unfolding pins_def by auto
  have failed: "pm_of (pci (after (t7xx_pcie_reinit False) v)) = pm_of (pci s)"
    using outcome_reinit [of False v] by (auto simp: outcome_def pm_of_def uv)
  have run: "outcome (pm_resume check) s =
     (if ?st \<le> MTK_PM_INIT then (False, pm_of (pci s))
      else if \<not> check then outcome (resume_handshake prev) u
      else if prev = 0 \<or> prev = 2 \<and> (atr = ATR_SRC_ADDR_INVALID \<or> atr = 0) then outcome reprobe v
      else if prev = 3 \<or> prev = 5 then outcome (resume_exception prev) v
      else if prev = 4 then (if isl (result (t7xx_pcie_reinit False) v) then (True, pm_of (pci s))
        else outcome (resume_handshake prev) (after (t7xx_pcie_reinit False) v))
      else if prev \<noteq> 1 \<and> prev \<noteq> 2 then outcome resume_unknown v
      else outcome (resume_handshake prev) v)"
    unfolding pm_resume_def
    by (simp add: outcome_bind outcome_return run_get_pci run_gets t_def [symmetric] base t
        prev_def [symmetric] u_def [symmetric] atr_def [symmetric] v_def [symmetric] failed)
  obtain md0 ap0 where mdap: "pins md0 ap0" using free by blast
  let ?tab = "\<lambda>md ap. resume_table check prev atr md ap ?st ?n"
  have shaken: "\<exists>md ap. outcome (pm_resume check) s \<in> set (?tab md ap) \<and> pins md ap"
    if w: "outcome (pm_resume check) s = outcome (resume_handshake prev) w" "pm_of (pci w) = pm_of (pci s)" "env w = env s"
      "\<And>md ap. set (handshake_table prev md ap ?st ?n) \<subseteq> set (?tab md ap)" for w :: "'z dpmaif_layer_scheme"
  proof -
    obtain md ap where h: "outcome (resume_handshake prev) w \<in> set (handshake_table prev md ap ?st ?n)" "pins md ap"
      using hs [OF w(2,3)] by (elim exE conjE)
    have "outcome (pm_resume check) s \<in> set (?tab md ap)"
      unfolding w(1) by (rule subsetD [OF w(4) h(1)])
    then show ?thesis using h(2) by (intro exI conjI)
  qed
  have found: "\<exists>md ap. outcome (pm_resume check) s \<in> set (?tab md ap) \<and> pins md ap"
    if "outcome (pm_resume check) s \<in> set (?tab md0 ap0)"
    using that mdap by (intro exI conjI)
  consider "?st \<le> MTK_PM_INIT" | (fresh) "\<not> ?st \<le> MTK_PM_INIT" "\<not> check"
    | (off) "\<not> ?st \<le> MTK_PM_INIT" "check" "prev = 0 \<or> prev = 2 \<and> (atr = ATR_SRC_ADDR_INVALID \<or> atr = 0)"
    | (exc) "\<not> ?st \<le> MTK_PM_INIT" "check" "prev = 3 \<or> prev = 5"
    | (l2) "\<not> ?st \<le> MTK_PM_INIT" "check" "prev = 4"
    | (l1) "\<not> ?st \<le> MTK_PM_INIT" "check" "prev = 1 \<or> prev = 2 \<and> atr \<noteq> ATR_SRC_ADDR_INVALID \<and> atr \<noteq> 0"
    | (unknown) "\<not> ?st \<le> MTK_PM_INIT" "check" "prev \<noteq> 0" "prev \<noteq> 1" "prev \<noteq> 2" "prev \<noteq> 3" "prev \<noteq> 4" "prev \<noteq> 5"
    by argo
  then have "\<exists>md ap. outcome (pm_resume check) s \<in> set (?tab md ap) \<and> pins md ap"
  proof cases
    case 1
    then have "outcome (pm_resume check) s = (False, pm_of (pci s))" by (subst run) simp
    then show ?thesis using 1 by (intro found) (auto simp: resume_table_def pm_of_def)
  next
    case fresh
    then have "outcome (pm_resume check) s = outcome (resume_handshake prev) u" by (subst run) simp
    then show ?thesis by (rule shaken) (use fresh in \<open>auto simp: resume_table_def uv\<close>)
  next
    case off
    then have "outcome (pm_resume check) s = outcome reprobe v" by (subst run) auto
    moreover have "?tab md0 ap0 = reprobed ?st ?n" using off by (auto simp: resume_table_def)
    ultimately show ?thesis using outcome_reprobe [of v] by (intro found) (simp add: uv)
  next
    case exc
    then have "outcome (pm_resume check) s = outcome (resume_exception prev) v" by (subst run) auto
    then show ?thesis
      using exception_outcome [of prev v] exc
      by (intro found) (auto simp: resume_table_def uv pm_of_def split: if_splits)
  next
    case l2
    show ?thesis
    proof (cases "isl (result (t7xx_pcie_reinit False) v)")
      case True
      then have "outcome (pm_resume check) s = (True, pm_of (pci s))" using l2 by (subst run) simp
      then show ?thesis using l2 by (intro found) (auto simp: resume_table_def pm_of_def)
    next
      case False
      then have "outcome (pm_resume check) s = outcome (resume_handshake prev) (after (t7xx_pcie_reinit False) v)"
        using l2 by (subst run) simp
      then show ?thesis
        by (rule shaken) (use l2 l2_outcome [OF False] in \<open>auto simp: resume_table_def uv\<close>)
    qed
  next
    case l1
    then have "outcome (pm_resume check) s = outcome (resume_handshake prev) v" by (subst run) auto
    then show ?thesis by (rule shaken) (use l1 in \<open>auto simp: resume_table_def uv\<close>)
  next
    case unknown
    then have "outcome (pm_resume check) s = outcome resume_unknown v" by (subst run) simp
    then show ?thesis
      using unknown_outcome [of v] unknown by (intro found) (auto simp: resume_table_def uv pm_of_def)
  qed
  then show ?thesis using reads reads2 unfolding pins_def by blast
qed

text \<open>C34: a resume does what the table says: with the state the device reports, the address of its
  first window, and whether the modem and its application core answer, the result of
  \<open>__t7xx_pci_pm_resume\<close>, the power state and the number of attempts are among those the table
  lists. In particular an answered handshake always ends in \<open>MTK_PM_RESUMED\<close> with the count at
  zero, and without an answer the device is set up again at most three times.\<close>

theorem resume_follows_table:
  fixes s :: "'z dpmaif_layer_scheme"
  assumes "device_reads (env s) (IREG_BASE s + T7XX_PCIE_PM_RESUME_STATE) prev"
    and "device_reads (env s) (IREG_BASE s + ATR_PCIE_WIN0_T0_ATR_PARAM_SRC_ADDR) atr"
    and "modem_answers (env s) acks"
  shows "case run (pm_resume check) s of (r, t) \<Rightarrow>
    (isl r, md_pm_state (pci t), resume_reprobe_count (pci t)) \<in> set (resume_table check prev atr
      (acks (of_nat H2D_CH_RESUME_REQ)) (acks (of_nat H2D_CH_RESUME_REQ_AP))
      (md_pm_state (pci s)) (resume_reprobe_count (pci s)))"
  using resume_outcome [of check s] assms
  by (auto simp: outcome_def pm_of_def split_beta)

section \<open>Suspend\<close>

lemma suspend_frame:
  fixes s :: "'z dpmaif_layer_scheme"
  shows "pci (after (suspend_entities es) s) = pci s" "pci (after (for_each es entity_suspend_late) s) = pci s"
    "pci (after (for_each es (\<lambda>e. do { entity_resume e; return () })) s) = pci s"
  by (rule preservesD, intro preserves_intros dp.keeps_entity_lists dp.keeps_entities)+

lemma abort_suspend_pci:
  "result (abort_suspend e k) s = Inl e"
  "pci (after (abort_suspend e k) s) = (pci s)\<lparr>md_pm_state := MTK_PM_RESUMED\<rparr>"
  "last (trace (after (abort_suspend e k) s)) =
     Wr (pcie_mac_ireg_base (base_addr (pci s)) + IMASK_HOST_MSIX_SET_GRP0_0) (int_bit SAP_RGU_INT)"
  by (simp_all add: abort_suspend_def run_bind run_get_pci set_pm_state_def run_upd_pci split_beta suspend_frame)
     (simp add: t7xx_pcie_mac_set_int_def t7xx_pcie_mac_clear_set_int_def run_simps IREG_BASE_def suspend_frame)

text \<open>C35: a suspend is refused and changes nothing unless the device is ready; else it leaves the
  device suspended, or, when a component or the modem fails, in the state \<open>MTK_PM_RESUMED\<close> with
  the interrupt of the reset unit unmasked as the last step. But \<open>rgu_pci_irq_en\<close>, which suspend
  clears, stays clear: after a failed suspend the interrupt of the reset unit is taken and
  ignored, so a device that resets itself is not set up again.\<close>

theorem suspend_outcome:
  fixes s :: "'z dpmaif_layer_scheme"
  shows "case run pm_suspend s of (r, t) \<Rightarrow>
    if \<not> md_pm_state (pci s) \<le> MTK_PM_INIT \<and> mode (pci s) = T7XX_READY
    then pci t = (pci s)\<lparr>rgu_pci_irq_en := False,
        md_pm_state := if isl r then MTK_PM_RESUMED else MTK_PM_SUSPENDED\<rparr> \<and>
      result t7xx_rgu_isr_handler t = IRQ_HANDLED \<and>
      (if isl r then last (trace t) = Wr (IREG_BASE s + IMASK_HOST_MSIX_SET_GRP0_0) (int_bit SAP_RGU_INT) else True)
    else r = Inl EFAULT \<and> t = s"
proof (cases "md_pm_state (pci s) \<le> MTK_PM_INIT \<or> mode (pci s) \<noteq> T7XX_READY")
  case True
  then show ?thesis by (auto simp: pm_suspend_def run_bind run_get_pci)
next
  case False
  have deaf: "result t7xx_rgu_isr_handler t = IRQ_HANDLED" if "\<not> rgu_pci_irq_en (pci t)"
    for t :: "'z dpmaif_layer_scheme"
    using that by (simp add: t7xx_rgu_isr_handler_def run_bind run_get_pci split_beta)
  show ?thesis
    using False by (simp add: pm_suspend_def run_bind run_get_pci run_upd_pci set_pm_state_def split_beta
        suspend_frame abort_suspend_pci deaf IREG_BASE_def split: option.split sum.split)
qed

section \<open>The number of attempts\<close>

text \<open>What the kernel asks of the driver while the device is in use.\<close>

datatype pm_op = PM_SUSPEND | PM_RESUME | PM_THAW

definition pm_do :: "pm_op \<Rightarrow> ('z dpmaif_layer_scheme, unit) state" where
  "pm_do x = (case x of
     PM_SUSPEND \<Rightarrow> do { t7xx_pci_pm_suspend; return () }
   | PM_RESUME \<Rightarrow> do { t7xx_pci_pm_resume; return () }
   | PM_THAW \<Rightarrow> do { t7xx_pci_pm_thaw; return () })"

lemma resume_table_count:
  assumes "x \<in> set (resume_table check prev atr md ap st n)" "n \<le> 3"
  shows "snd (snd x) \<le> 3"
proof -
  have "n + 1 \<le> 3" if "\<not> n \<ge> 3" using that assms(2) by unat_arith
  then show ?thesis
    using assms by (auto simp: resume_table_def handshake_table_def reprobed_def Let_def split: if_splits)
qed

lemma pm_resume_count:
  assumes "resume_reprobe_count (pci s) \<le> 3"
  shows "resume_reprobe_count (pci (after (pm_resume check) s)) \<le> 3"
  using resume_outcome [of check s] resume_table_count assms by (force simp: outcome_def pm_of_def)

lemma pm_suspend_count: "resume_reprobe_count (pci (after pm_suspend s)) = resume_reprobe_count (pci s)"
  by (simp add: pm_suspend_def run_bind run_get_pci run_upd_pci set_pm_state_def split_beta
      suspend_frame abort_suspend_pci split: option.split sum.split)

text \<open>C36: under every sequence of suspends, resumes and thaws, and whatever the device and the
  kernel do, the count of attempts to set the device up again stays at most
  \<open>MAX_RESUME_REPROBE_ATTEMPTS\<close>: there is no endless loop of failing resumes that each start the
  device anew.\<close>

theorem reprobe_attempts_bounded:
  fixes s :: "'z dpmaif_layer_scheme"
  assumes "resume_reprobe_count (pci s) \<le> MAX_RESUME_REPROBE_ATTEMPTS"
  shows "resume_reprobe_count (pci (after (for_each asked pm_do) s)) \<le> MAX_RESUME_REPROBE_ATTEMPTS"
proof (rule for_each_inv [of asked "\<lambda>s. resume_reprobe_count (pci s) \<le> 3"])
  show "resume_reprobe_count (pci (after (pm_do x) t)) \<le> 3" if "resume_reprobe_count (pci t) \<le> 3"
    for x and t :: "'z dpmaif_layer_scheme"
    using that pm_resume_count [of t] pm_suspend_count [of t]
    by (cases x) (simp_all add: pm_do_def t7xx_pci_pm_suspend_def t7xx_pci_pm_resume_def t7xx_pci_pm_thaw_def
        run_bind split_beta)
qed (rule assms)

section \<open>A driver for the witnesses\<close>

text \<open>A probed driver with a given environment and PCI context, its data path off.\<close>

definition driver_example :: "environment \<Rightarrow> t7xx_pci_dev \<Rightarrow> dpmaif_layer" where
  "driver_example e p = rx_layer.extend
     (modem_layer.extend ((modem_example (\<lambda>_ _. 0))\<lparr>env := e, pci := p\<rparr>)
       (rx_layer.fields (\<lambda>_. zero_rxq) (\<lambda>_. zero_bat) 1))
     (dpmaif_layer.fields True (\<lambda>_. DPMAIF_INT) (\<lambda>i. \<lparr>pcie_int = DPMAIF_INT, dlq_id = i\<rparr>))"

lemma driver_example_fields [simp]:
  "env (driver_example e p) = e" "pci (driver_example e p) = p" "rxq (driver_example e p) = (\<lambda>_. zero_rxq)"
  "dpmaif_sw_init_done (driver_example e p)"
  by (simp_all add: driver_example_def modem_layer.defs rx_layer.defs dpmaif_layer.defs)

text \<open>
  A device that woke up after a restart of the modem: the modem answers, its application core
  does not.
\<close>

definition woken :: environment where
  "woken h q = (case q of
     ReadReg a \<Rightarrow> if a = T7XX_PCIE_PM_RESUME_STATE then 2 else 5
   | Kernel g args \<Rightarrow>
       if g = ''wait_for_completion_timeout pm_sr_ack''
       then (case last h of Wr a c \<Rightarrow> if c = 10 then 1 else 0 | _ \<Rightarrow> 0) else 0)"

lemma woken_reads:
  "device_reads woken T7XX_PCIE_PM_RESUME_STATE 2" "device_reads woken ATR_PCIE_WIN0_T0_ATR_PARAM_SRC_ADDR 5"
  "modem_answers woken (\<lambda>c. c = 10)"
  by (simp_all add: device_reads_def modem_answers_def woken_def)

abbreviation (input) suspended_dev :: t7xx_pci_dev where
  "suspended_dev \<equiv> zero_pci_dev\<lparr>md_pm_state := MTK_PM_SUSPENDED, mode := T7XX_READY\<rparr>"

theorem resume_follows_table_witness:
  "resume_reprobe_count (pci (after (pm_resume True) (driver_example woken suspended_dev))) = 1"
  using resume_follows_table [of "driver_example woken suspended_dev" 2 5 "\<lambda>c. c = 10" True] woken_reads
  by (auto simp: IREG_BASE_def zero_pci_dev_def resume_table_def handshake_table_def reprobed_def split_beta)

theorem reprobe_attempts_bounded_witness:
  "resume_reprobe_count (pci (after (for_each (concat (replicate 9 [PM_RESUME, PM_SUSPEND])) pm_do)
     (driver_example woken suspended_dev))) \<le> 3"
  by (rule reprobe_attempts_bounded) (simp add: zero_pci_dev_def)

end
