(* ===== verification/Net_Props.thy ===== *)
theory Net_Props
  imports Pm_Props
begin

text \<open>
  The data path and the network layer follow the state of the modem: what a broadcast of a new
  state by the state machine does to them, through the network layer's own notifier.
\<close>

interpretation ds: blind_to_data dpmaif_st
  by unfold_locales (simp_all add: emit_def)

interpretation di: blind_to_network dpmaif_sw_init_done
  by unfold_locales (simp_all add: emit_def)

text \<open>The network interfaces are out of reach of the queues below them.\<close>

interpretation dn: blind_to_queues ccmni
  by unfold_locales (simp_all add: emit_def)

text \<open>The queues that are started.\<close>

definition started :: "'z rx_layer_scheme \<Rightarrow> (nat \<Rightarrow> bool) \<times> (nat \<Rightarrow> bool)" where
  "started s = ((\<lambda>i. rxq_started (rxq s i)), (\<lambda>i. dpmaif_tx_queue.txq_started (txq s i)))"

text \<open>Neither the hardware layer nor the filling of the tables starts or ends a queue.\<close>

interpretation dq: blind_to_tables started
  by unfold_locales (simp_all add: emit_def started_def)

lemma preserves_ccmni_stop:
  assumes "\<And>e s. f (emit e s) = f s" and "\<And>c s. f (s\<lparr>ccmni := c\<rparr>) = f s"
  shows "preserves f t7xx_ccmni_pre_stop" "preserves f t7xx_ccmni_post_stop"
  unfolding t7xx_ccmni_pre_stop_def t7xx_ccmni_post_stop_def t7xx_ccmni_disable_napi_def for_each_used_def
    get_ccmni_def upd_ccmni_def
  by (intro preserves_intros assms)+

section \<open>Stop\<close>

lemma run_stop_rxq_wait [simp]: "run (stop_rxq_wait q n) s = ((), s)"
  by (induction n) (simp_all add: get_rxq_def run_simps)

lemma rxq_stop_rxq:
  "rxq (after (t7xx_dpmaif_stop_rxq q) s) = (rxq s)(q := (rxq s q)\<lparr>rxq_started := False, rx_data_info := zero_rx_info,
     pit_rd_idx := 0, pit_wr_idx := 0, pit_release_rd_idx := 0, expect_pit_seq := 0, pit_remain_release_cnt := 0\<rparr>)"
  "txq (after (t7xx_dpmaif_stop_rxq q) s) = txq s"
  by (simp_all add: t7xx_dpmaif_stop_rxq_def bitmap_zero_def fault_def get_rxq_def upd_rxq_def upd_bat_def get_bat_def
      run_simps split_beta emit_def)

text \<open>Stopping the software of the transmit queues starts none, and ends each.\<close>

lemma tx_clear_stops:
  fixes s :: "'z dpmaif_tx_scheme"
  shows "i < DPMAIF_TXQ_NUM \<Longrightarrow> \<not> dpmaif_tx_queue.txq_started (txq (after t7xx_dpmaif_tx_clear s) i)"
proof -
  have free: "preserves (\<lambda>s. dpmaif_tx_queue.txq_started (txq s j)) (t7xx_dpmaif_tx_free_drb_skb q :: ('z dpmaif_tx_scheme, unit) state)" for q j
    unfolding t7xx_dpmaif_tx_free_drb_skb_def free_drb_skb_one_def get_txq_def upd_txq_def
    by (intro preserves_intros; simp add: emit_def)
  have flush: "dpmaif_tx_queue.txq_started (txq (after (t7xx_dpmaif_txq_flush_rel q) t) j) \<longleftrightarrow>
      dpmaif_tx_queue.txq_started (txq t j) \<and> j \<noteq> q" for q j and t :: "'z dpmaif_tx_scheme"
    using preservesD [OF free]
    by (simp add: t7xx_dpmaif_txq_flush_rel_def upd_txq_def run_simps split_beta emit_def)
  have "dpmaif_tx_queue.txq_started (txq (after (for_each qs t7xx_dpmaif_txq_flush_rel) s) i) \<longleftrightarrow>
      dpmaif_tx_queue.txq_started (txq s i) \<and> i \<notin> set qs" for qs
    by (induction qs arbitrary: s) (auto simp: run_bind split_beta flush)
  then show "i < DPMAIF_TXQ_NUM \<Longrightarrow> ?thesis" by (simp add: t7xx_dpmaif_tx_clear_def)
qed

text \<open>A stop that is carried out leaves the data path off and no queue started.\<close>

lemma dpmaif_stop_off:
  fixes s :: "'z dpmaif_layer_scheme"
  assumes "dpmaif_sw_init_done s"
  shows "dpmaif_st (after t7xx_dpmaif_stop s) = DPMAIF_STATE_PWROFF"
    and "dpmaif_st s \<noteq> DPMAIF_STATE_PWROFF \<Longrightarrow> q < DPMAIF_RXQ_NUM \<Longrightarrow> \<not> fst (started (after t7xx_dpmaif_stop s)) q"
    and "dpmaif_st s \<noteq> DPMAIF_STATE_PWROFF \<Longrightarrow> i < DPMAIF_TXQ_NUM \<Longrightarrow> \<not> snd (started (after t7xx_dpmaif_stop s)) i"
proof -
  let ?m = "do { t7xx_dpmaif_stop_sw; t7xx_dpmaif_tx_clear } :: ('z dpmaif_layer_scheme, unit) state"
  define t where "t = after ?m ((after t7xx_dpmaif_disable_irq s)\<lparr>dpmaif_st := DPMAIF_STATE_PWROFF\<rparr>)"
  have stop: "after t7xx_dpmaif_stop s = after t7xx_dpmaif_rx_clear t" if "dpmaif_st s \<noteq> DPMAIF_STATE_PWROFF"
    using that assms by (simp add: t7xx_dpmaif_stop_def run_bind run_gets run_modify split_beta t_def)
  have "preserves dpmaif_st ?m"
    unfolding t7xx_dpmaif_stop_sw_def by (intro preserves_intros ds.keeps_tx_stop ds.keeps_rx_stop)
  then have "dpmaif_st t = DPMAIF_STATE_PWROFF" unfolding t_def by (subst preservesD) simp_all
  then show "dpmaif_st (after t7xx_dpmaif_stop s) = DPMAIF_STATE_PWROFF"
    using stop preservesD [OF ds.keeps_rx_stop(3), of t] assms
    by (cases "dpmaif_st s = DPMAIF_STATE_PWROFF") (simp_all add: t7xx_dpmaif_stop_def run_bind run_gets)
  have two: "[0..<DPMAIF_RXQ_NUM] = [0, 1]" by (simp add: upt_rec)
  show "\<not> fst (started (after t7xx_dpmaif_stop s)) q"
    if on: "dpmaif_st s \<noteq> DPMAIF_STATE_PWROFF" and "q < DPMAIF_RXQ_NUM"
  proof -
    have "q = 0 \<or> q = 1" using that(2) by auto
    then show ?thesis
      by (auto simp: started_def stop [OF on] t7xx_dpmaif_rx_clear_def two run_bind split_beta rxq_stop_rxq)
  qed
  show "\<not> snd (started (after t7xx_dpmaif_stop s)) i"
    if on: "dpmaif_st s \<noteq> DPMAIF_STATE_PWROFF" and "i < DPMAIF_TXQ_NUM"
    using tx_clear_stops [OF that(2)]
    by (simp add: started_def stop [OF on] t7xx_dpmaif_rx_clear_def two run_bind split_beta rxq_stop_rxq t_def)
qed

section \<open>Start\<close>

lemma dpmaif_start_on:
  fixes s :: "'z dpmaif_layer_scheme"
  shows "dpmaif_st (after t7xx_dpmaif_start s) =
    (if isl (result t7xx_dpmaif_start s) then dpmaif_st s else DPMAIF_STATE_PWRON)"
proof -
  have [simp]: "dpmaif_st (after start_rxqs t) = dpmaif_st t" "dpmaif_st (after bitmap_zero t) = dpmaif_st t"
    "dpmaif_st (after (get_bat b g) t) = dpmaif_st t" "dpmaif_st (after start_hw t) = dpmaif_st t"
    "dpmaif_st (after (t7xx_dpmaif_rx_buf_alloc 0 n True) t) = dpmaif_st t"
    "dpmaif_st (after (t7xx_dpmaif_rx_frag_alloc n True) t) = dpmaif_st t"
    "dpmaif_st (after (t7xx_dpmaif_bat_free b) t) = dpmaif_st t"
    for t :: "'z dpmaif_layer_scheme" and b n and g :: "dpmaif_bat_request \<Rightarrow> u32"
    unfolding start_rxqs_def start_hw_def start_txqs_def
    by (rule preservesD, intro preserves_intros ds.keeps_access ds.keeps_queue_access ds.keeps_bitmap ds.keeps_alloc ds.keeps_bat_free
        ds.keeps_hw_init ds.keeps_hw_simple)+
  have [simp]: "dpmaif_st (after t7xx_dpmaif_enable_irq t) = dpmaif_st t" for t :: "'z dpmaif_layer_scheme"
    by (rule preservesD) (rule ds.keeps_irq)
  show ?thesis
    by (simp add: t7xx_dpmaif_start_def run_bind run_gets run_modify run_kcall split_beta emit_def)
qed

text \<open>And with all its queues started, when it reports success.\<close>

lemma started_start_qs:
  "q < DPMAIF_RXQ_NUM \<Longrightarrow> fst (started (after start_rxqs s)) q"
  "snd (started (after start_rxqs s)) = snd (started s)"
  "i < DPMAIF_TXQ_NUM \<Longrightarrow> snd (started (after start_txqs s)) i"
  "fst (started (after start_txqs s)) = fst (started s)"
proof -
  have two: "[0..<DPMAIF_RXQ_NUM] = [0, 1]" and five: "[0..<DPMAIF_TXQ_NUM] = [0, 1, 2, 3, 4]"
    by (simp_all add: upt_rec)
  show "q < DPMAIF_RXQ_NUM \<Longrightarrow> fst (started (after start_rxqs s)) q"
    "snd (started (after start_rxqs s)) = snd (started s)"
    unfolding start_rxqs_def two started_def
    by (auto simp: run_simps upd_rxq_def get_bat_def split_beta less_Suc_eq numeral_2_eq_2)
  show "i < DPMAIF_TXQ_NUM \<Longrightarrow> snd (started (after start_txqs s)) i"
    "fst (started (after start_txqs s)) = fst (started s)"
    unfolding start_txqs_def five started_def
    by (auto simp: run_simps upd_txq_def split_beta less_Suc_eq eval_nat_numeral)
qed

lemma dpmaif_start_queues:
  fixes s :: "'z dpmaif_layer_scheme"
  assumes "\<not> isl (result t7xx_dpmaif_start s)"
  shows "q < DPMAIF_RXQ_NUM \<Longrightarrow> fst (started (after t7xx_dpmaif_start s)) q"
    and "i < DPMAIF_TXQ_NUM \<Longrightarrow> snd (started (after t7xx_dpmaif_start s)) i"
proof -
  have [simp]: "started (after bitmap_zero t) = started t" "started (after (get_bat b g) t) = started t"
    "started (after (t7xx_dpmaif_rx_buf_alloc 0 n True) t) = started t"
    "started (after (t7xx_dpmaif_rx_frag_alloc n True) t) = started t"
    "started (after (t7xx_dpmaif_hw_init par) t) = started t"
    "started (after (t7xx_dpmaif_dl_snd_hw_bat_cnt n) t) = started t"
    "started (after (t7xx_dpmaif_dl_snd_hw_frg_cnt n) t) = started t"
    "started (after t7xx_dpmaif_ul_clr_all_intr t) = started t"
    "started (after t7xx_dpmaif_dl_clr_all_intr t) = started t"
    "started (after t7xx_dpmaif_enable_irq t) = started t"
    "started (t\<lparr>dpmaif_st := x\<rparr>) = started t" "started (emit e t) = started t"
    for t :: "'z dpmaif_layer_scheme" and b n par x e and g :: "dpmaif_bat_request \<Rightarrow> u32"
    by ((rule preservesD, intro dq.keeps_access dq.keeps_bitmap dq.keeps_alloc dq.keeps_hw_init dq.keeps_hw_simple
        dq.keeps_irq) | simp add: started_def emit_def)+
  have hw: "fst (started (after start_hw t)) = fst (started t)"
    "i < DPMAIF_TXQ_NUM \<Longrightarrow> snd (started (after start_hw t)) i" for t :: "'z dpmaif_layer_scheme" and i
    by (simp_all add: start_hw_def run_bind run_gets split_beta started_start_qs)
  show "q < DPMAIF_RXQ_NUM \<Longrightarrow> fst (started (after t7xx_dpmaif_start s)) q"
    "i < DPMAIF_TXQ_NUM \<Longrightarrow> snd (started (after t7xx_dpmaif_start s)) i"
    using assms
    by (simp_all add: t7xx_dpmaif_start_def run_bind run_gets run_modify run_kcall split_beta hw started_start_qs
        split: if_splits)
qed

section \<open>The network interfaces\<close>

text \<open>The interfaces that are in use, in the order of the links.\<close>

definition in_use :: "t7xx_ccmni_ctrl \<Rightarrow> u64 list" where
  "in_use c = concat (map (\<lambda>i. case ccmni_inst c ! i of None \<Rightarrow> []
     | Some dev \<Rightarrow> if ccmni_usage (ccmni_of c dev) > 0 then [dev] else []) [0..<nic_dev_num c])"

text \<open>An operation on each of them that only tells the kernel leaves one group of events for each.\<close>

lemma run_for_each_used:
  assumes "\<And>dev s. run (f dev) s = ((), s\<lparr>trace := trace s @ es dev\<rparr>)"
  shows "run (for_each_used f) s = ((), s\<lparr>trace := trace s @ concat (map es (in_use (ccmni s)))\<rparr>)"
proof -
  have "run (for_each is (\<lambda>i. do { c \<leftarrow> gets ccmni; case ccmni_inst c ! i of None \<Rightarrow> return ()
       | Some dev \<Rightarrow> c_when (ccmni_usage (ccmni_of c dev) > 0) (f dev) })) s =
     ((), s\<lparr>trace := trace s @ concat (map es (concat (map (\<lambda>i. case ccmni_inst (ccmni s) ! i of None \<Rightarrow> []
       | Some dev \<Rightarrow> if ccmni_usage (ccmni_of (ccmni s) dev) > 0 then [dev] else []) is)))\<rparr>)" for "is"
    by (induction "is" arbitrary: s) (auto simp: run_bind run_gets assms c_when_def cong: option.case_cong split: option.split)
  then show ?thesis
    by (simp add: for_each_used_def get_ccmni_def run_bind run_gets in_use_def)
qed

text \<open>What the kernel is told when the interfaces start and when they stop.\<close>

abbreviation net_start :: "u64 \<Rightarrow> ev list" where
  "net_start dev \<equiv> [Call ''netif_tx_start_all_queues'' [dev], Call ''netif_carrier_on'' [dev]]"

abbreviation polling_off :: "ev list" where
  "polling_off \<equiv> concat (map (\<lambda>i. [Call ''napi_synchronize'' [of_nat i], Call ''napi_disable'' [of_nat i]])
     [0..<DPMAIF_RXQ_NUM])"

lemma run_pre_stop:
  "run t7xx_ccmni_pre_stop s =
     ((), s\<lparr>trace := trace s @ map (\<lambda>dev. Call ''netif_tx_disable'' [dev]) (in_use (ccmni s))\<rparr>)"
  unfolding t7xx_ccmni_pre_stop_def
  by (subst run_for_each_used [where es = "\<lambda>dev. [Call ''netif_tx_disable'' [dev]]"])
     (simp_all add: run_kcall emit_def concat_map_singleton)

text \<open>Polling is on while an open interface needs it.\<close>

abbreviation polled :: "t7xx_ccmni_ctrl \<Rightarrow> bool" where
  "polled c \<equiv> is_napi_en c \<and> napi_usr_refcnt c \<noteq> 0"

lemma run_post_stop:
  "trace (after t7xx_ccmni_post_stop s) = trace s @ (if polled (ccmni s) then polling_off else [])
     @ map (\<lambda>dev. Call ''netif_carrier_off'' [dev]) (in_use (ccmni s))"
  "ccmni (after t7xx_ccmni_post_stop s) =
     (if polled (ccmni s) then (ccmni s)\<lparr>is_napi_en := False\<rparr> else ccmni s)"
proof -
  have off: "run (for_each_used (\<lambda>dev. kcall ''netif_carrier_off'' [dev])) t =
     ((), t\<lparr>trace := trace t @ map (\<lambda>dev. Call ''netif_carrier_off'' [dev]) (in_use (ccmni t))\<rparr>)"
    for t :: "'a ccmni_layer_scheme"
    by (subst run_for_each_used [where es = "\<lambda>dev. [Call ''netif_carrier_off'' [dev]]"])
       (simp_all add: run_kcall emit_def concat_map_singleton)
  have same: "in_use (c\<lparr>is_napi_en := b\<rparr>) = in_use c" for c b by (simp add: in_use_def cong: option.case_cong)
  have two: "[0..<DPMAIF_RXQ_NUM] = [0, 1]" by (simp add: upt_rec)
  show "trace (after t7xx_ccmni_post_stop s) = trace s @ (if polled (ccmni s) then polling_off else [])
     @ map (\<lambda>dev. Call ''netif_carrier_off'' [dev]) (in_use (ccmni s))"
    "ccmni (after t7xx_ccmni_post_stop s) =
     (if polled (ccmni s) then (ccmni s)\<lparr>is_napi_en := False\<rparr> else ccmni s)"
    by (auto simp: t7xx_ccmni_post_stop_def t7xx_ccmni_disable_napi_def get_ccmni_def upd_ccmni_def run_simps
        off same two emit_def c_when_def)
qed

text \<open>
  Polling is turned on queue by queue, up to the first whose device does not resume, and counts as
  on when no queue is left out.
\<close>

definition polling_on :: "t7xx_ccmni_ctrl \<Rightarrow> ev list \<Rightarrow> t7xx_ccmni_ctrl \<Rightarrow> bool" where
  "polling_on c es c' \<longleftrightarrow>
     (if is_napi_en c \<or> napi_usr_refcnt c = 0 then es = [] \<and> c' = c
      else \<exists>k \<le> DPMAIF_RXQ_NUM. calls ''napi_enable'' es = map (\<lambda>i. [of_nat i]) [0..<k] \<and>
        length (rets ''pm_runtime_resume_and_get'' es) = min (Suc k) DPMAIF_RXQ_NUM \<and>
        c' = c\<lparr>is_napi_en := (k = DPMAIF_RXQ_NUM)\<rparr>)"

lemma enable_napi_two:
  "\<exists>k es. k \<le> 2 \<and> run (enable_napi_loop [0, 1]) s = (k = 2, s\<lparr>trace := trace s @ es\<rparr>) \<and>
     calls ''napi_enable'' es = map (\<lambda>i. [of_nat i]) [0..<k] \<and>
     length (rets ''pm_runtime_resume_and_get'' es) = min (Suc k) 2"
proof -
  let ?v = "env s (trace s) (Kernel ''pm_runtime_resume_and_get'' [])"
  let ?r = "\<lambda>v. Ret ''pm_runtime_resume_and_get'' [] v"
  let ?on = "\<lambda>i. [Call ''napi_enable'' [i], Call ''napi_schedule'' [i]]"
  let ?w = "env s (trace s @ ?r ?v # ?on 0) (Kernel ''pm_runtime_resume_and_get'' [])"
  have run: "run (enable_napi_loop [0, 1]) s =
    (if isl (kret ?v) then (False, s\<lparr>trace := trace s @ [?r ?v]\<rparr>)
     else if isl (kret ?w) then (False, s\<lparr>trace := trace s @ ?r ?v # ?on 0 @ [?r ?w]\<rparr>)
     else (True, s\<lparr>trace := trace s @ ?r ?v # ?on 0 @ ?r ?w # ?on 1\<rparr>))"
    by (simp add: run_simps run_kerr Let_def emit_def)
  show ?thesis
  proof (cases "isl (kret ?v)")
    case True
    then show ?thesis unfolding run by (intro exI [of _ 0] exI [of _ "[?r ?v]"]) simp
  next
    case False
    note first = this
    show ?thesis
    proof (cases "isl (kret ?w)")
      case True
      then show ?thesis
        using first unfolding run by (intro exI [of _ 1] exI [of _ "?r ?v # ?on 0 @ [?r ?w]"]) (simp add: upt_rec)
    next
      case False
      then show ?thesis
        using first unfolding run
        by (intro exI [of _ 2] exI [of _ "?r ?v # ?on 0 @ ?r ?w # ?on 1"]) (simp add: upt_rec)
    qed
  qed
qed

lemma ccmni_start_done:
  "\<exists>rest. trace (after t7xx_ccmni_start s) = trace s @ concat (map net_start (in_use (ccmni s))) @ rest \<and>
     polling_on (ccmni s) rest (ccmni (after t7xx_ccmni_start s))"
proof -
  have on: "run (for_each_used (\<lambda>dev. do { kcall ''netif_tx_start_all_queues'' [dev]; kcall ''netif_carrier_on'' [dev] })) s =
     ((), s\<lparr>trace := trace s @ concat (map net_start (in_use (ccmni s)))\<rparr>)"
    by (rule run_for_each_used) (simp add: run_simps emit_def)
  have two: "[0..<DPMAIF_RXQ_NUM] = [0, 1]" by (simp add: upt_rec)
  let ?t = "s\<lparr>trace := trace s @ concat (map net_start (in_use (ccmni s)))\<rparr>"
  obtain k es where k: "k \<le> 2" "run (enable_napi_loop [0, 1]) ?t = (k = 2, ?t\<lparr>trace := trace ?t @ es\<rparr>)"
      "calls ''napi_enable'' es = map (\<lambda>i. [of_nat i]) [0..<k]"
      "length (rets ''pm_runtime_resume_and_get'' es) = min (Suc k) 2"
    using enable_napi_two [of ?t] by blast
  define rest where "rest = (if is_napi_en (ccmni s) \<or> napi_usr_refcnt (ccmni s) = 0 then [] else es)"
  have "run t7xx_ccmni_start s = run (c_when (napi_usr_refcnt (ccmni s) \<noteq> 0) t7xx_ccmni_enable_napi) ?t"
    unfolding t7xx_ccmni_start_def run_bind on by (simp add: get_ccmni_def run_simps)
  then have "trace (after t7xx_ccmni_start s) = trace ?t @ rest \<and>
     ccmni (after t7xx_ccmni_start s) = (if is_napi_en (ccmni s) \<or> napi_usr_refcnt (ccmni s) = 0 then ccmni s
       else (ccmni s)\<lparr>is_napi_en := (k = 2)\<rparr>)"
    using k(2) by (auto simp: rest_def t7xx_ccmni_enable_napi_def two get_ccmni_def upd_ccmni_def run_bind run_gets
      run_modify c_when_def simp del: enable_napi_loop.simps)
  then show ?thesis
    using k(1,3,4) by (intro exI [of _ rest]) (auto simp: polling_on_def rest_def)
qed

text \<open>What a stop of the data path did before stays in the trace.\<close>

lemma recorded_stop: "recorded (t7xx_dpmaif_stop :: ('z dpmaif_layer_scheme, errno + unit) state)"
proof -
  have acc [recorded_intros]: "recorded (get_txq q g)" "recorded (upd_txq q t)" "recorded (get_rxq q g')" "recorded (upd_rxq q r)"
    "recorded (get_bat b g'')" "recorded (upd_bat b u)" "recorded fault"
    "recorded (modify (\<lambda>s. s\<lparr>dpmaif_st := x\<rparr>) :: ('z dpmaif_layer_scheme, unit) state)"
    for q g t g' r b g'' u x
    by (simp_all add: recorded_def get_txq_def upd_txq_def get_rxq_def upd_rxq_def get_bat_def upd_bat_def fault_def
        run_simps)
  have [recorded_intros]: "recorded (tx_stop_wait q n)" "recorded (stop_rxq_wait q n)" for q n
    by (induction n) (auto intro!: recorded_intros)
  show ?thesis
    unfolding t7xx_dpmaif_stop_def t7xx_dpmaif_disable_irq_def t7xx_dpmaif_stop_sw_def t7xx_dpmaif_tx_stop_def
      t7xx_dpmaif_tx_clear_def t7xx_dpmaif_txq_flush_rel_def t7xx_dpmaif_tx_free_drb_skb_def free_drb_skb_one_def
      t7xx_dpmaif_rx_stop_def t7xx_dpmaif_rx_clear_def t7xx_dpmaif_stop_rxq_def bitmap_zero_def
    by (intro recorded_intros)
qed

section \<open>A broadcast\<close>

text \<open>The ports see the new state first; they change nothing that the rest looks at.\<close>

definition net_view :: "'z dpmaif_layer_scheme \<Rightarrow> dpmaif_state \<times> bool \<times> t7xx_ccmni_ctrl \<times> u64 list" where
  "net_view s = (dpmaif_st s, dpmaif_sw_init_done s, ccmni s, notifier_list (fsm s))"

lemma net_view_ports: "preserves net_view (t7xx_port_proxy_md_status_notify st)"
  unfolding t7xx_port_proxy_md_status_notify_def for_each_proxy_port_def ops_md_state_notify_def
    t7xx_port_wwan_md_state_notify_def t7xx_port_trace_md_state_notify_def t7xx_port_wwan_create_def
    t7xx_get_port_mtu_def t7xx_port_get_queue_no_def t7xx_fsm_get_md_state_def get_prox_def upd_prox_def get_port_def
    upd_port_def     get_fsm_def get_cl_def
  by (intro preserves_intros; simp add: net_view_def emit_def)

text \<open>The state in which the network layer reacts: the ports know the new state, and so does the layer.\<close>

definition announced :: "md_state \<Rightarrow> 'z dpmaif_layer_scheme \<Rightarrow> 'z dpmaif_layer_scheme" where
  "announced st s = (let u = after (t7xx_port_proxy_md_status_notify st) (s\<lparr>fsm := (fsm s)\<lparr>fsm_md_state := st\<rparr>\<rparr>)
     in u\<lparr>ccmni := (ccmni u)\<lparr>md_sta := st\<rparr>\<rparr>)"

lemma announced_fields [simp]:
  "dpmaif_st (announced st s) = dpmaif_st s" "dpmaif_sw_init_done (announced st s) = dpmaif_sw_init_done s"
  "ccmni (announced st s) = (ccmni s)\<lparr>md_sta := st\<rparr>"
  using preservesD [OF net_view_ports [of st], of "s\<lparr>fsm := (fsm s)\<lparr>fsm_md_state := st\<rparr>\<rparr>"]
  by (simp_all add: net_view_def announced_def Let_def)

lemma after_broadcast:
  assumes "notifier_list (fsm s) = [md_status_notify]"
  shows "after (t7xx_fsm_broadcast_state ccmni_notifier st) s = (let v = announced st s in
     if st = MD_STATE_READY then
       (let r = run t7xx_ccmni_register_wwan v in if isl (fst r) then snd r else after t7xx_ccmni_start (snd r))
     else if st = MD_STATE_EXCEPTION \<or> st = MD_STATE_STOPPED
       then after t7xx_ccmni_post_stop (after t7xx_dpmaif_stop (after t7xx_ccmni_pre_stop v))
     else if st = MD_STATE_WAITING_FOR_HS1 then after t7xx_dpmaif_start v
     else if st = MD_STATE_WAITING_TO_STOP then after t7xx_dpmaif_stop_hw v else v)"
proof -
  define u where "u = after (t7xx_port_proxy_md_status_notify st) (s\<lparr>fsm := (fsm s)\<lparr>fsm_md_state := st\<rparr>\<rparr>)"
  have u: "notifier_list (fsm u) = [md_status_notify]"
    using preservesD [OF net_view_ports [of st], of "s\<lparr>fsm := (fsm s)\<lparr>fsm_md_state := st\<rparr>\<rparr>"] assms
    by (simp add: net_view_def u_def)
  define v where "v = u\<lparr>ccmni := (ccmni u)\<lparr>md_sta := st\<rparr>\<rparr>"
  have v: "announced st s = v" by (simp add: announced_def u_def v_def Let_def)
  show ?thesis
    using u unfolding v
    by (simp add: t7xx_fsm_broadcast_state_def fsm_state_notify_def upd_fsm_def get_fsm_def upd_ccmni_def
        run_simps split_beta u_def [symmetric] ccmni_notifier_def t7xx_ccmni_md_state_callback_def v_def [symmetric]
        t7xx_dpmaif_md_state_callback_def Let_def)
qed

text \<open>The interfaces are registered once, on the first time that the modem is ready.\<close>

lemma register_wwan_done:
  "let x = env s (trace s) (Kernel ''wwan_register_ops'' [0]); r = run t7xx_ccmni_register_wwan s in
   if wwan_is_registered (ccmni s) then r = (Inr (), s)
   else isl (fst r) = isl (kret x) \<and> dpmaif_st (snd r) = dpmaif_st s \<and>
     trace (snd r) = trace s @ [Ret ''wwan_register_ops'' [0] x] \<and>
     ccmni (snd r) = (if isl (kret x) then ccmni s else (ccmni s)\<lparr>wwan_is_registered := True\<rparr>)"
  by (simp add: t7xx_ccmni_register_wwan_def get_ccmni_def upd_ccmni_def run_simps run_kerr Let_def emit_def)

lemma dpmaif_start_ccmni: "preserves ccmni (t7xx_dpmaif_start :: ('z dpmaif_layer_scheme, errno + unit) state)"
  unfolding t7xx_dpmaif_start_def start_rxqs_def start_hw_def start_txqs_def
  by (intro preserves_intros dn.keeps_access dn.keeps_queue_access dn.keeps_bitmap dn.keeps_alloc dn.keeps_bat_free
      dn.keeps_hw_init dn.keeps_hw_simple dn.keeps_irq) (simp_all add: emit_def)

lemma dpmaif_stop_ccmni:
  "preserves ccmni (t7xx_dpmaif_stop :: ('z dpmaif_layer_scheme, errno + unit) state)"
  "preserves ccmni (t7xx_dpmaif_stop_hw :: ('z dpmaif_layer_scheme, unit) state)"
  unfolding t7xx_dpmaif_stop_def t7xx_dpmaif_stop_sw_def t7xx_dpmaif_stop_hw_def
  by (intro preserves_intros dn.keeps_tx_stop dn.keeps_rx_stop dn.keeps_irq dn.keeps_hw_stop; simp)+

text \<open>What the network layer does on each of the states, from the state \<open>v\<close> in which it reacts.\<close>

lemma ready_done:
  fixes v :: "'z dpmaif_layer_scheme"
  defines "r \<equiv> run t7xx_ccmni_register_wwan v"
  defines "t \<equiv> if isl (fst r) then snd r else after t7xx_ccmni_start (snd r)"
  shows "dpmaif_st t = dpmaif_st v"
    and "if wwan_is_registered (ccmni v)
      then \<exists>rest. trace t = trace v @ concat (map net_start (in_use (ccmni v))) @ rest \<and>
        polling_on (ccmni v) rest (ccmni t)
      else \<exists>x. if isl (kret x) then trace t = trace v @ [Ret ''wwan_register_ops'' [0] x] \<and> ccmni t = ccmni v
        else \<exists>rest. trace t = trace v @ Ret ''wwan_register_ops'' [0] x
            # concat (map net_start (in_use (ccmni v))) @ rest \<and>
          polling_on ((ccmni v)\<lparr>wwan_is_registered := True\<rparr>) rest (ccmni t)"
proof -
  have same: "in_use (c\<lparr>wwan_is_registered := b\<rparr>) = in_use c" for c b
    by (simp add: in_use_def cong: option.case_cong)
  have st: "dpmaif_st (after t7xx_ccmni_start w) = dpmaif_st w" for w :: "'z dpmaif_layer_scheme"
    by (rule preservesD [OF ds.keeps_ccmni(2)])
  define x where "x = env v (trace v) (Kernel ''wwan_register_ops'' [0])"
  note reg = register_wwan_done [of v, folded r_def x_def, unfolded Let_def]
  show "dpmaif_st t = dpmaif_st v"
    using reg by (auto simp: t_def st split: if_splits)
  show "if wwan_is_registered (ccmni v)
      then \<exists>rest. trace t = trace v @ concat (map net_start (in_use (ccmni v))) @ rest \<and>
        polling_on (ccmni v) rest (ccmni t)
      else \<exists>x. if isl (kret x) then trace t = trace v @ [Ret ''wwan_register_ops'' [0] x] \<and> ccmni t = ccmni v
        else \<exists>rest. trace t = trace v @ Ret ''wwan_register_ops'' [0] x
            # concat (map net_start (in_use (ccmni v))) @ rest \<and>
          polling_on ((ccmni v)\<lparr>wwan_is_registered := True\<rparr>) rest (ccmni t)"
  proof (cases "wwan_is_registered (ccmni v)")
    case True
    then show ?thesis using reg ccmni_start_done [of v] by (simp add: t_def)
  next
    case False
    then show ?thesis
      using reg ccmni_start_done [of "snd r"] by (cases "isl (kret x)") (auto simp: t_def same intro!: exI [of _ x])
  qed
qed

lemma stop_done:
  fixes v :: "'z dpmaif_layer_scheme"
  defines "t \<equiv> after t7xx_ccmni_post_stop (after t7xx_dpmaif_stop (after t7xx_ccmni_pre_stop v))"
  assumes "dpmaif_sw_init_done v"
  shows "dpmaif_st t = DPMAIF_STATE_PWROFF"
    and "dpmaif_st v \<noteq> DPMAIF_STATE_PWROFF \<Longrightarrow> q < DPMAIF_RXQ_NUM \<Longrightarrow> \<not> rxq_started (rxq t q)"
    and "dpmaif_st v \<noteq> DPMAIF_STATE_PWROFF \<Longrightarrow> i < DPMAIF_TXQ_NUM \<Longrightarrow>
      \<not> dpmaif_tx_queue.txq_started (txq t i)"
    and "\<exists>stop. trace t = trace v @ map (\<lambda>dev. Call ''netif_tx_disable'' [dev]) (in_use (ccmni v)) @ stop
      @ (if polled (ccmni v) then polling_off else [])
      @ map (\<lambda>dev. Call ''netif_carrier_off'' [dev]) (in_use (ccmni v))"
    and "ccmni t = (if polled (ccmni v) then (ccmni v)\<lparr>is_napi_en := False\<rparr> else ccmni v)"
proof -
  define w where "w = after t7xx_ccmni_pre_stop v"
  define x where "x = after t7xx_dpmaif_stop w"
  have w: "w = v\<lparr>trace := trace v @ map (\<lambda>dev. Call ''netif_tx_disable'' [dev]) (in_use (ccmni v))\<rparr>"
    by (simp add: w_def run_pre_stop)
  have ws: "dpmaif_st w = dpmaif_st v" "dpmaif_sw_init_done w"
    using assms(2) by (simp_all add: w)
  have xc: "ccmni x = ccmni v"
    unfolding x_def by (subst preservesD [OF dpmaif_stop_ccmni(1)]) (simp add: w)
  have t: "t = after t7xx_ccmni_post_stop x" by (simp add: t_def x_def w_def)
  have post: "dpmaif_st t = dpmaif_st x" "started t = started x"
    unfolding t by (rule preservesD, rule preserves_ccmni_stop(2); simp add: started_def emit_def)+
  show "dpmaif_st t = DPMAIF_STATE_PWROFF"
    using dpmaif_stop_off(1) [OF ws(2)] post by (simp add: x_def)
  show "dpmaif_st v \<noteq> DPMAIF_STATE_PWROFF \<Longrightarrow> q < DPMAIF_RXQ_NUM \<Longrightarrow> \<not> rxq_started (rxq t q)"
    "dpmaif_st v \<noteq> DPMAIF_STATE_PWROFF \<Longrightarrow> i < DPMAIF_TXQ_NUM \<Longrightarrow> \<not> dpmaif_tx_queue.txq_started (txq t i)"
    using dpmaif_stop_off(2,3) [OF ws(2), folded x_def] post(2) ws(1) by (simp_all add: started_def fun_eq_iff)
  show "\<exists>stop. trace t = trace v @ map (\<lambda>dev. Call ''netif_tx_disable'' [dev]) (in_use (ccmni v)) @ stop
      @ (if polled (ccmni v) then polling_off else [])
      @ map (\<lambda>dev. Call ''netif_carrier_off'' [dev]) (in_use (ccmni v))"
    using recorded_trace [OF recorded_stop, of w, folded x_def] unfolding t run_post_stop xc by (auto simp: w)
  show "ccmni t = (if polled (ccmni v) then (ccmni v)\<lparr>is_napi_en := False\<rparr> else ccmni v)"
    unfolding t run_post_stop xc ..
qed


section \<open>The driver's own notifier\<close>

text \<open>
  The table of transitions asks of notifiers that they leave the state machine and the cores to
  its thread. The driver's notifier does.
\<close>

lemma ccmni_notifier_leaves_machine:
  "preserves (\<lambda>s. curr_state (fsm s)) (ccmni_notifier n st)" "preserves core (ccmni_notifier n st)"
  by (simp_all add: preserves_def preservesD [OF df.keeps_notifier] preservesD [OF dc.keeps_notifier])

text \<open>The driver with its data path on, in a given state, and a command with a waiter.\<close>

definition driver_machine :: "t7xx_fsm_state \<Rightarrow> t7xx_fsm_cmd_state \<Rightarrow> dpmaif_layer" where
  "driver_machine st k = (let s = driver_example (\<lambda>_ _. 4) zero_pci_dev in
     s\<lparr>fsm := (fsm s)\<lparr>curr_state := st, notifier_list := [md_status_notify]\<rparr>,
       fsm_cmds := [5 \<mapsto> \<lparr>cmd_id = k, cmd_flag = 1, cmd_done = False, cmd_result = Inr (), cmd_refcnt = 2\<rparr>],
       dpmaif_st := DPMAIF_STATE_PWRON\<rparr>)"

lemma driver_machine_fields [simp]:
  "curr_state (fsm (driver_machine st k)) = st" "notifier_list (fsm (driver_machine st k)) = [md_status_notify]"
  "fsm_cmds (driver_machine st k) 5 =
     Some \<lparr>cmd_id = k, cmd_flag = 1, cmd_done = False, cmd_result = Inr (), cmd_refcnt = 2\<rparr>"
  "dpmaif_st (driver_machine st k) = DPMAIF_STATE_PWRON" "dpmaif_sw_init_done (driver_machine st k)"
  by (simp_all add: driver_machine_def Let_def)

theorem fsm_transitions_witness:
  "curr_state (fsm (after (fsm_handle_cmd ccmni_notifier (return ()) 5)
     (driver_machine FSM_STATE_READY FSM_CMD_PRE_STOP))) = FSM_STATE_STOPPED"
  using fsm_transitions [where notifier_fn = ccmni_notifier and others = "return ()" and c = 5 and
      s = "driver_machine FSM_STATE_READY FSM_CMD_PRE_STOP", OF ccmni_notifier_leaves_machine preserves_return
        driver_machine_fields(3)]
  by simp

text \<open>The same driver with one interface open.\<close>

definition open_machine :: dpmaif_layer where
  "open_machine = (driver_machine FSM_STATE_READY FSM_CMD_STOP)\<lparr>ccmni :=
     \<lparr>ccmni_inst = Some 0x77 # replicate (NIC_DEV_MAX - 1) None,
      ccmni_of = (\<lambda>_. \<lparr>ccmni_index = 0, ccmni_usage = 1, ccmni_mtu = 1500, ccmni_stats = undefined\<rparr>),
      nic_dev_num = 2, md_sta = MD_STATE_READY, wwan_is_registered = True, dummy_dev = 1, napi_usr_refcnt = 1,
      is_napi_en = True\<rparr>\<rparr>"

lemma open_machine_fields [simp]:
  "notifier_list (fsm open_machine) = [md_status_notify]" "dpmaif_sw_init_done open_machine"
  "in_use (ccmni open_machine) = [0x77]" "polled (ccmni open_machine)"
  "dpmaif_st open_machine = DPMAIF_STATE_PWRON"
  by (simp_all add: open_machine_def in_use_def upt_rec)


end
