(* ===== verification/Dpmaif_Rx_Props.thy ===== *)
theory Dpmaif_Rx_Props
  imports Pm_Props
begin

text \<open>
  The receive path: a poll keeps to its budget, what it does to the sleep lock, the account of
  the buffer table, and what a failed refill leaves.
\<close>

section \<open>The budget of a poll\<close>

definition msg_seen :: "nat \<Rightarrow> 'z rx_layer_scheme \<Rightarrow> bool" where
  "msg_seen q s = msg_pit_received (rx_data_info (rxq s q))"

lemma msg_seen_upd:
  "(\<And>r. msg_pit_received (rx_data_info (g r)) = msg_pit_received (rx_data_info r)) \<Longrightarrow> preserves (msg_seen q) (upd_rxq k g)"
  unfolding upd_rxq_def by (intro preserves_intros) (simp add: msg_seen_def)

lemma msg_seen_upd_info:
  "(\<And>x. msg_pit_received (g x) = msg_pit_received x) \<Longrightarrow> preserves (msg_seen q) (upd_info k g)"
  unfolding upd_info_def by (intro msg_seen_upd) simp

lemma msg_seen_emit [simp]: "msg_seen q (emit e s) = msg_seen q s"
  by (simp add: msg_seen_def emit_def)

lemma msg_seen_access:
  "preserves (msg_seen q) (get_rxq k g)" "preserves (msg_seen q) (get_bat b g')" "preserves (msg_seen q) (upd_bat b h)"
  "preserves (msg_seen q) fault" "preserves (msg_seen q) (upd_slot i u)" "preserves (msg_seen q) (upd_page i w)"
  "preserves (msg_seen q) (get_ccmni c)" "preserves (msg_seen q) (upd_ccmni c')" "preserves (msg_seen q) (get_hw d)"
  unfolding get_rxq_def get_bat_def upd_bat_def fault_def upd_slot_def upd_page_def get_ccmni_def upd_ccmni_def get_hw_def
  by (intro preserves_intros; simp add: msg_seen_def)+

lemma msg_seen_take_buffer: "preserves (msg_seen q) (take_buffer k pit)"
  unfolding take_buffer_def t7xx_dpmaif_get_rx_pkt_def t7xx_dpmaif_get_frag_def t7xx_dpmaif_set_frag_to_skb_def
    t7xx_dpmaif_set_data_to_skb_def t7xx_dpmaif_set_bat_mask_def t7xx_frag_bat_cur_bid_check_def
    t7xx_bat_cur_bid_check_def Let_def
  by (intro preserves_intros msg_seen_access msg_seen_upd_info; simp)

lemma msg_seen_notify_hw: "preserves (msg_seen q) (t7xx_dpmaifq_rx_notify_hw k)"
  unfolding t7xx_dpmaifq_rx_notify_hw_def t7xx_dpmaif_pit_release_and_add_def t7xx_dpmaifq_release_pit_entry_def
    t7xx_dpmaif_dlq_add_pit_remain_cnt_def hw_poll_def hw_write_def Let_def
  by (intro preserves_intros msg_seen_access msg_seen_upd; simp)

lemma msg_seen_pit: "preserves (msg_seen q) (t7xx_dpmaif_check_pit_seq k i)" "preserves (msg_seen q) (read_pit k i)"
  unfolding t7xx_dpmaif_check_pit_seq_def t7xx_dpmaif_read_pit_seq_def read_pit_def pit_word_def
  by (intro preserves_intros msg_seen_access msg_seen_upd; simp)+

lemma msg_seen_advance: "preserves (msg_seen q) (pit_advance k)"
  unfolding pit_advance_def by (rule msg_seen_upd) simp

text \<open>The count is within the budget, and below it while a packet is under way.\<close>

definition has_room :: "nat \<Rightarrow> nat \<Rightarrow> 'z rx_layer_scheme \<Rightarrow> nat \<Rightarrow> bool" where
  "has_room q bud s c \<longleftrightarrow> c \<le> bud \<and> (msg_seen q s \<longrightarrow> c < bud)"

lemma end_packet_seen: "\<not> msg_seen q (after (end_packet q) s)"
  by (simp add: end_packet_def msg_seen_def upd_info_def upd_rxq_def run_bind run_modify split_beta zero_rx_info_def)

lemma rx_entry_room:
  assumes "c < bud"
  shows "has_room q bud (after (rx_entry q pit ret c) s) (snd (result (rx_entry q pit ret c) s))"
proof -
  let ?t = "after (take_buffer q pit) s"
  have err: "msg_seen q (after (upd_info q (\<lambda>x. x\<lparr>err_payload := True\<rparr>)) u) = msg_seen q u" for u :: "'a rx_layer_scheme"
    by (rule preservesD) (rule msg_seen_upd_info, simp)
  show ?thesis
    using assms end_packet_seen [of q]
    by (auto simp: rx_entry_def has_room_def run_bind run_c_when split_beta err)
qed

lemma rx_loop_count:
  assumes "has_room q bud s c"
  shows "case result (rx_loop q bud n k ret c) s of Inl c' \<Rightarrow> c' \<le> bud | Inr (r, c') \<Rightarrow> c' \<le> bud"
  using assms
proof (induction n arbitrary: s k ret c)
  case 0
  then show ?case by (simp add: has_room_def)
next
  case (Suc n)
  show ?case
  proof (cases "\<not> msg_seen q s \<and> c \<ge> bud")
    case True
    then show ?thesis using Suc.prems by (simp add: has_room_def run_bind get_rxq_def run_gets msg_seen_def)
  next
    case False
    then have c: "c < bud" using Suc.prems by (auto simp: has_room_def)
    let ?p = "pit_rd_idx (rxq s q)"
    define s1 where "s1 = after (t7xx_dpmaif_check_pit_seq q ?p) s"
    define pit where "pit = result (read_pit q ?p) s1"
    define s2 where "s2 = after (read_pit q ?p) s1"
    define x where "x = result (rx_entry q pit ret c) s2"
    define s3 where "s3 = after (pit_advance q) (after (rx_entry q pit ret c) s2)"
    have r3: "has_room q bud s3 (snd x)"
      using rx_entry_room [OF c, of q pit ret s2]
      by (simp add: has_room_def s3_def x_def preservesD [OF msg_seen_advance])
    then have r4: "has_room q bud (after (t7xx_dpmaifq_rx_notify_hw q) s3) (snd x)"
      by (simp add: has_room_def preservesD [OF msg_seen_notify_hw])
    have [simp]: "snd x \<le> bud" using r3 by (simp add: has_room_def)
    show ?thesis
      using False c Suc.IH [OF r3] Suc.IH [OF r4]
      by (auto simp: run_bind get_rxq_def run_gets msg_seen_def split_beta s1_def [symmetric] pit_def [symmetric]
          s2_def [symmetric] x_def [symmetric] s3_def [symmetric])
  qed
qed

lemma collect_count:
  fixes s :: "'z rx_layer_scheme"
  assumes "0 < bud" "result (t7xx_dpmaif_napi_rx_data_collect q bud) s = (Inr k, again)"
  shows "k \<le> bud"
proof -
  have "has_room q bud t 0" for t :: "'z rx_layer_scheme" using assms(1) by (simp add: has_room_def)
  from rx_loop_count [OF this]
  have "case result (rx_loop q bud n k ret 0) t of Inl c' \<Rightarrow> c' \<le> bud | Inr (r, c') \<Rightarrow> c' \<le> bud"
    for n k ret and t :: "'z rx_layer_scheme" .
  from this [of "unat (result (t7xx_dpmaifq_poll_pit q) s)" 0 "Inr ()" "after (t7xx_dpmaifq_poll_pit q) s"]
  show ?thesis
    using assms(2)
    by (auto simp: t7xx_dpmaif_napi_rx_data_collect_def t7xx_dpmaif_rx_start_def run_bind split_beta
        split: if_splits sum.splits)
qed

lemma poll_rounds_count:
  fixes s :: "'z rx_layer_scheme"
  assumes "k \<le> bud"
  shows "fst (result (poll_rounds q bud n k m) s) \<le> bud"
  using assms
proof (induction n arbitrary: k m s)
  case (Suc n)
  show ?case
  proof (cases "bud \<le> k")
    case True
    then show ?thesis using Suc.prems by simp
  next
    case False
    have "fst (result (poll_rounds q bud n (k + j) m') t) \<le> bud"
      if "result (t7xx_dpmaif_napi_rx_data_collect i (bud - k)) u = (Inr j, a)"
      for j m' i a and t u :: "'z rx_layer_scheme"
      by (rule Suc.IH) (use collect_count [OF _ that] False in simp)
    then show ?thesis
      using False Suc.prems
      by (auto simp: run_bind get_rxq_def run_gets split_beta prod_eq_iff split: sum.split)
  qed
qed simp

text \<open>C39: the poll of a receive queue keeps to the contract of NAPI: whatever entries the device puts
  into the ring, it reports no more packets than it was given as its budget.\<close>

theorem rx_poll_within_budget:
  fixes s :: "'z rx_layer_scheme"
  shows "result (t7xx_dpmaif_napi_rx_poll q bud) s \<le> bud"
  using poll_rounds_count [of 0 bud q bud False, where ?'z = 'z]
  by (auto simp: t7xx_dpmaif_napi_rx_poll_def poll_finish_def run_bind split_beta)

section \<open>The sleep lock\<close>

text \<open>C40: a poll that uses up its budget keeps the sleep lock. Polling takes the lock each time and
  gives it back only when it is done with fewer packets than its budget. When the kernel polls
  again because the budget was used up, the lock is taken once more: each such poll leaves one
  holder for good, and a device that ever had more than a budget of packets waiting is never
  let into deep sleep again.\<close>

theorem rx_poll_keeps_lock:
  fixes s :: "'z dpmaif_layer_scheme"
  assumes "rxq_started (rxq s q)" and "\<not> sleep_lock_pending (rxq s q)"
    and "\<And>h. env s h (Kernel ''try_wait_for_completion sleep_lock_acquire'' []) \<noteq> 0"
  shows "case run (t7xx_dpmaif_napi_rx_poll q bud) s of (w, t) \<Rightarrow>
    sleep_disable_count (pci t) = sleep_disable_count (pci s) + (if w < bud then 0 else 1)"
proof -
  define u where "u = after t7xx_pci_disable_sleep (after (upd_rxq q (\<lambda>r. r\<lparr>rx_processing := 1\<rparr>)) s)"
  have u: "sleep_disable_count (pci u) = sleep_disable_count (pci s) + 1"
    using sl.acquire_holders [of "after (upd_rxq q (\<lambda>r. r\<lparr>rx_processing := 1\<rparr>)) s"]
    by (simp add: u_def sleep_holders_def upd_rxq_def run_modify)
  have env: "env u = env s"
    by (simp add: u_def recorded_env [OF recorded_pci_dev(14)] upd_rxq_def run_modify)
  define v where "v = after (upd_rxq q (\<lambda>r. r\<lparr>sleep_lock_pending := False\<rparr>))
    (after (kquery ''try_wait_for_completion sleep_lock_acquire'' []) u)"
  have v: "pci v = pci u" by (simp add: v_def upd_rxq_def run_modify run_kquery Let_def)
  define x where "x = run (poll_rounds q bud bud 0 False) v"
  have x: "pci (snd x) = pci u" using v by (simp add: x_def preservesD [OF dp.keeps_poll_rounds])
  have busy: "pci (after t7xx_dpmaif_clr_ip_busy_sts t) = pci t" "pci (after (t7xx_dpmaif_dlq_unmask_rx_done i) t) = pci t"
    for t :: "'z dpmaif_layer_scheme" and i
    by (rule preservesD, rule dp.keeps_hw_simple)+
  have run: "run (t7xx_dpmaif_napi_rx_poll q bud) s = run (poll_finish q bud (fst (fst x)) (snd (fst x))) (snd x)"
    using assms env by (simp add: t7xx_dpmaif_napi_rx_poll_def run_bind get_rxq_def run_gets upd_rxq_def run_modify
        run_c_when run_kquery Let_def split_beta u_def v_def x_def)
  have "sleep_disable_count (pci (after t7xx_pci_enable_sleep t)) = sleep_disable_count (pci t) - 1"
    for t :: "'z dpmaif_layer_scheme"
    using sl.release_holders [of t] by (simp add: sleep_holders_def)
  then show ?thesis
    unfolding run using x u
    by (simp add: poll_finish_def run_bind run_kcall split_beta busy get_rxq_def run_gets upd_rxq_def run_modify)
qed

text \<open>
  A started queue in a driver that is awake. The device announces an entry whose sequence number
  is not the expected one: the poll waits for it in vain and asks to be called again.
\<close>

definition poll_example :: dpmaif_layer where
  "poll_example = (let s = driver_example (\<lambda>_ _. 1) (zero_pci_dev\<lparr>md_pm_state := MTK_PM_RESUMED\<rparr>) in
     s\<lparr>rxq := \<lambda>_. zero_rxq\<lparr>rxq_started := True, pit_size_cnt := DPMAIF_PIT_COUNT\<rparr>\<rparr>)"

lemma rxq_emit [simp]: "rxq (emit e s) = rxq s"
  by (simp add: emit_def)

lemma poll_example_round:
  fixes v :: dpmaif_layer
  assumes "env v = (\<lambda>_ _. 1)" "rxq v 0 = zero_rxq\<lparr>rxq_started := True, pit_size_cnt := DPMAIF_PIT_COUNT, rx_processing := 1\<rparr>"
  shows "result (poll_rounds 0 (Suc n) (Suc n) 0 False) v = (0, True)"
proof -
  have seq: "FIELD_GET PD_PIT_PIT_SEQ (1::u32) = 1" "(1::u32) AND DPMAIF_DL_RD_WR_IDX_MSK = 1"
    "t7xx_ring_buf_rd_wr_count 16384 0 1 DPMAIF_READ = 1"
    by code_simp+
  show ?thesis
    using assms by (simp add: t7xx_dpmaif_napi_rx_data_collect_def t7xx_dpmaifq_poll_pit_def run_simps get_rxq_def
      t7xx_dpmaif_rx_start_def t7xx_dpmaif_dl_dlq_pit_get_wr_idx_def hw_read_def get_hw_def Let_def seq upd_rxq_def
      t7xx_dpmaif_check_pit_seq_def read_poll_timeout_def t7xx_dpmaif_read_pit_seq_def pit_word_def zero_rxq_def
      del: dpmaif_rx_queue.surjective)
qed

lemma poll_example_uses_budget: "result (t7xx_dpmaif_napi_rx_poll 0 (Suc n)) poll_example = Suc n"
proof -
  have e: "env poll_example = (\<lambda>_ _. 1)"
    "rxq poll_example = (\<lambda>_. zero_rxq\<lparr>rxq_started := True, pit_size_cnt := DPMAIF_PIT_COUNT\<rparr>)"
    by (simp_all add: poll_example_def Let_def)
  have "rxq (after t7xx_pci_disable_sleep t) = rxq t" for t :: dpmaif_layer
    by (rule preservesD) (intro preserves_pci_dev; simp add: emit_def)
  then show ?thesis
    using e by (simp add: t7xx_dpmaif_napi_rx_poll_def run_bind get_rxq_def run_gets upd_rxq_def run_modify run_c_when
        run_kquery Let_def split_beta recorded_env [OF recorded_pci_dev(14)] poll_example_round zero_rxq_def poll_finish_def
        del: poll_rounds.simps)
qed

theorem rx_poll_keeps_lock_witness:
  "sleep_disable_count (pci (after (t7xx_dpmaif_napi_rx_poll 0 64) poll_example)) = 1"
  using rx_poll_keeps_lock [of poll_example 0 64] poll_example_uses_budget [of 63]
  by (simp add: poll_example_def Let_def zero_rxq_def zero_pci_dev_def split_beta)

end
