(* ===== verification/Rx_Table.thy ===== *)
theory Rx_Table
  imports Dpmaif_Rx_Props
begin

text \<open>
  The table of receive buffers. The slots from the release index to the write index are with the
  device; the bitmap marks those of them whose buffer was taken. Under every sequence of taking
  and refilling the two agree (\<open>table_ok\<close>), and what a refill gives back is what was taken from
  the front. A refill that the device does not acknowledge breaks the account.
\<close>

section \<open>Rings: several slots at the front and at the end\<close>

context ring_index begin

lemma window_produce_many:
  assumes "valid n" "r < n" "w < n" "k \<le> unat (writable n r w)"
  shows "window n r ((nxt n ^^ k) w) = window n r w @ map (\<lambda>i. (nxt n ^^ i) w) [0..<k]"
  using assms(4)
proof (induction k)
  case (Suc k)
  have k: "(nxt n ^^ k) w < n" "unat (readable n r ((nxt n ^^ k) w)) = unat (readable n r w) + k"
    using readable_advance [OF assms(1-3), of k] Suc.prems by simp_all
  have "0 < unat (writable n r ((nxt n ^^ k) w))"
    using readable_writable [OF assms(1-3)] readable_writable [OF assms(1,2) k(1)] k(2) Suc.prems by simp
  then have "window n r (nxt n ((nxt n ^^ k) w)) = window n r ((nxt n ^^ k) w) @ [(nxt n ^^ k) w]"
    by (intro window_produce assms k) (simp add: word_gt_0 unat_gt_0)
  then show ?case using Suc by simp
qed simp

lemma window_consume_many:
  assumes "valid n" "r < n" "w < n" "k \<le> unat (readable n r w)"
  shows "window n r w = map (\<lambda>i. (nxt n ^^ i) r) [0..<k] @ window n ((nxt n ^^ k) r) w"
proof -
  let ?m = "unat (readable n ((nxt n ^^ k) r) w)"
  have m: "unat (readable n r w) = k + ?m"
    using readable_consume_many [OF assms(1,3,2,4)] by simp
  have add: "(nxt n ^^ (k + i)) r = (nxt n ^^ i) ((nxt n ^^ k) r)" for i
    unfolding add.commute [of k] by (simp add: funpow_add)
  have "map (\<lambda>i. (nxt n ^^ i) r) [k..<k + ?m] = map (\<lambda>i. (nxt n ^^ i) ((nxt n ^^ k) r)) [0..<?m]"
    by (rule nth_equalityI) (simp_all add: add)
  then show ?thesis
    unfolding window_def m upt_add_eq_append [OF le0] by simp
qed

text \<open>All slots, from the read index on, begin with the readable ones and then the write index.\<close>

lemma all_slots:
  assumes "valid n" "r < n" "w < n"
  shows "\<exists>ys. map (\<lambda>i. (nxt n ^^ i) r) [0..<unat n] = window n r w @ w # ys"
proof -
  let ?m = "unat (readable n r w)"
  have "[0..<unat n] = [0..<?m] @ ?m # [Suc ?m..<unat n]"
    using readable_writable [OF assms] upt_add_eq_append [of 0 ?m "unat n - ?m"] by (simp add: upt_conv_Cons)
  then show ?thesis by (simp add: window_def funpow_readable [OF assms])
qed

end

section \<open>Searching the map\<close>

lemma find_first_clear:
  "find (\<lambda>x. \<not> P x) xs =
     (if length (takeWhile P xs) < length xs then Some (xs ! length (takeWhile P xs)) else None)"
  by (induction xs) auto

lemma takeWhile_length_append:
  "length (takeWhile P (xs @ ys)) = (if length (takeWhile P xs) < length xs then length (takeWhile P xs)
     else length xs + length (takeWhile P ys))"
  by (induction xs) auto

lemma unat_find_next_zero_bit:
  assumes "unat n < 2 ^ 31"
  shows "unat (find_next_zero_bit m n a) =
    (if unat a \<le> unat n then unat a + length (takeWhile (\<lambda>i. m (of_nat i)) [unat a..<unat n]) else unat n)"
proof -
  let ?l = "length (takeWhile (\<lambda>i. m (of_nat i)) [unat a..<unat n])"
  have "?l \<le> unat n - unat a" using length_takeWhile_le [of _ "[unat a..<unat n]"] by simp
  then show ?thesis
    using assms unat_of_nat_u32 [of "unat a + ?l"]
    by (auto simp: find_next_zero_bit_def find_first_clear [of "\<lambda>i. m (of_nat i)"])
qed

text \<open>Counting from the read index on, around the end, up to the first clear bit.\<close>

lemma first_clear_around:
  assumes "ring_size n" "r < n"
  shows "unat (let z = find_next_zero_bit m n r in if z < n then z - r else n - r + find_next_zero_bit m r 0) =
    length (takeWhile m (map (\<lambda>i. (t7xx_ring_buf_get_next_wr_idx n ^^ i) r) [0..<unat n]))"
proof -
  let ?R = "unat r" and ?N = "unat n" and ?P = "\<lambda>i. m (of_nat i)"
  have lt: "?R < ?N" "?N < 2 ^ 31" using assms by (simp_all add: word_less_nat_alt ring_size_def)
  have "(?R + i) mod ?N = ([?R..<?N] @ [0..<?R]) ! i" if "i < ?N" for i
  proof (cases "?R + i < ?N")
    case False
    have "(?R + i) mod ?N = ?R + i - ?N" by (rule mod_nat_eqI) (use False that lt in auto)
    then show ?thesis using False that lt by (auto simp: nth_append)
  qed (auto simp: nth_append)
  then have around: "map (\<lambda>i. (?R + i) mod ?N) [0..<?N] = [?R..<?N] @ [0..<?R]"
    using lt by (intro nth_equalityI) auto
  have slot: "(t7xx_ring_buf_get_next_wr_idx n ^^ i) r = of_nat ((?R + i) mod ?N)" for i
    unfolding rb.funpow_nxt [OF assms(1,2), THEN conjunct2, symmetric] by simp
  have "map (\<lambda>i. (t7xx_ring_buf_get_next_wr_idx n ^^ i) r) [0..<?N] = map of_nat ([?R..<?N] @ [0..<?R])"
    unfolding around [symmetric] slot by simp
  then have rhs: "length (takeWhile m (map (\<lambda>i. (t7xx_ring_buf_get_next_wr_idx n ^^ i) r) [0..<?N])) =
      length (takeWhile ?P ([?R..<?N] @ [0..<?R]))"
    by (simp add: takeWhile_map comp_def del: map_append upt.simps)
  let ?a = "length (takeWhile ?P [?R..<?N])" and ?b = "length (takeWhile ?P [0..<?R])"
  have a: "?a \<le> ?N - ?R" using length_takeWhile_le [of ?P "[?R..<?N]"] by simp
  have b: "?b \<le> ?R" using length_takeWhile_le [of ?P "[0..<?R]"] by simp
  have za: "unat (find_next_zero_bit m n r) = ?R + ?a" using lt by (simp add: unat_find_next_zero_bit)
  have zb: "unat (find_next_zero_bit m r 0) = ?b" using lt by (simp add: unat_find_next_zero_bit)
  show ?thesis
  proof (cases "?a < ?N - ?R")
    case True
    then show ?thesis
      using za lt by (auto simp: rhs Let_def takeWhile_length_append word_less_nat_alt unat_sub word_le_nat_alt)
  next
    case False
    have "unat (n - r + find_next_zero_bit m r 0) = ?N - ?R + ?b"
      using b lt zb by (simp add: unat_word_ariths unat_sub word_le_nat_alt)
    then show ?thesis
      using False a za lt by (simp add: rhs Let_def takeWhile_length_append word_less_nat_alt)
  qed
qed

section \<open>The account\<close>

definition with_device :: "dpmaif_bat_request \<Rightarrow> u32 list" where
  "with_device b = rb.window (bat_size_cnt b) (bat_release_rd_idx b) (bat_wr_idx b)"

definition empty_slot :: "dpmaif_bat_request \<Rightarrow> u32 \<Rightarrow> bool" where
  "empty_slot b k \<longleftrightarrow> bs_skb (bat_skb b k) = None"

definition table_ok :: "dpmaif_bat_request \<Rightarrow> bool" where
  "table_ok b \<longleftrightarrow> ring_size (bat_size_cnt b) \<and> bat_release_rd_idx b < bat_size_cnt b \<and> bat_wr_idx b < bat_size_cnt b \<and>
     (\<forall>k<bat_size_cnt b. bat_bitmap b k \<longleftrightarrow> k \<in> set (with_device b) \<and> empty_slot b k)"

lemma table_okD:
  assumes "table_ok b"
  shows "ring_size (bat_size_cnt b)" "bat_release_rd_idx b < bat_size_cnt b" "bat_wr_idx b < bat_size_cnt b"
    "k < bat_size_cnt b \<Longrightarrow> bat_bitmap b k \<longleftrightarrow> k \<in> set (with_device b) \<and> empty_slot b k"
  using assms by (simp_all add: table_ok_def)

abbreviation (input) nbat :: "'z rx_layer_scheme \<Rightarrow> dpmaif_bat_request" where
  "nbat s \<equiv> bat s BAT_TYPE_NORMAL"

text \<open>The slots \<open>k\<close> steps from \<open>i\<close> on.\<close>

abbreviation (input) slot_from :: "u32 \<Rightarrow> u32 \<Rightarrow> nat \<Rightarrow> u32" where
  "slot_from n i k \<equiv> (t7xx_ring_buf_get_next_wr_idx n ^^ k) i"

lemma run_rx_access [run_simps]:
  "run (get_rxq q f) s = (f (rxq s q), s)"
  "run (upd_rxq q g) s = ((), s\<lparr>rxq := (rxq s)(q := g (rxq s q))\<rparr>)"
  "run (get_bat b f') s = (f' (bat s b), s)"
  "run (upd_bat b g') s = ((), s\<lparr>bat := (bat s)(b := g' (bat s b))\<rparr>)"
  by (simp_all add: get_rxq_def upd_rxq_def get_bat_def upd_bat_def run_simps)

text \<open>What is available is what was taken at the front.\<close>

lemma avail_is_front:
  assumes "table_ok (nbat s)"
  shows "unat (result (t7xx_dpmaif_avail_pkt_bat_cnt BAT_TYPE_NORMAL) s) =
    length (takeWhile (empty_slot (nbat s)) (with_device (nbat s)))"
proof -
  let ?b = "nbat s"
  let ?n = "bat_size_cnt ?b" and ?r = "bat_release_rd_idx ?b" and ?w = "bat_wr_idx ?b" and ?m = "bat_bitmap ?b"
  note ok = table_okD [OF assms]
  have wo: "\<not> ?m ?w" using ok(4) [OF ok(3)] rb.write_not_in_window [OF ok(1-3)] by (simp add: with_device_def)
  obtain ys where ys: "map (slot_from ?n ?r) [0..<unat ?n] = with_device ?b @ ?w # ys"
    using rb.all_slots [OF ok(1-3)] by (auto simp: with_device_def)
  have "takeWhile ?m (with_device ?b) = takeWhile (empty_slot ?b) (with_device ?b)"
    using ok(4) rb.window_lt [OF ok(1,2)] by (intro takeWhile_cong) (auto simp: with_device_def)
  moreover have "unat (result (t7xx_dpmaif_avail_pkt_bat_cnt BAT_TYPE_NORMAL) s) =
      length (takeWhile ?m (with_device ?b @ ?w # ys))"
    using first_clear_around [OF ok(1,2), of ?m] unfolding ys
    by (simp add: t7xx_dpmaif_avail_pkt_bat_cnt_def run_simps Let_def)
  ultimately show ?thesis
    using wo length_takeWhile_le [of "empty_slot ?b" "with_device ?b"] by (simp add: takeWhile_length_append)
qed

lemma avail_le_window:
  assumes "table_ok (nbat s)"
  shows "unat (result (t7xx_dpmaif_avail_pkt_bat_cnt BAT_TYPE_NORMAL) s) \<le> length (with_device (nbat s))"
  unfolding avail_is_front [OF assms] by (rule length_takeWhile_le)

lemma run_avail: "run (t7xx_dpmaif_avail_pkt_bat_cnt b) s = (result (t7xx_dpmaif_avail_pkt_bat_cnt b) s, s)"
  by (simp add: t7xx_dpmaif_avail_pkt_bat_cnt_def run_simps Let_def)

section \<open>Taking a buffer\<close>

lemma table_ok_take:
  assumes ok: "table_ok (nbat s)" and bid: "t7xx_normal_pit_bid pit \<in> set (with_device (nbat s))"
  shows "table_ok (nbat (after (t7xx_dpmaif_get_rx_pkt q pit) s))"
  using assms
  by (auto simp: t7xx_dpmaif_get_rx_pkt_def t7xx_bat_cur_bid_check_def t7xx_dpmaif_set_data_to_skb_def run_simps Let_def
      t7xx_dpmaif_set_bat_mask_def upd_slot_def upd_info_def fault_def table_ok_def with_device_def empty_slot_def
      emit_def split: option.split if_splits)

section \<open>Giving slots back\<close>

lemma run_for_each_upd_bat:
  "run (for_each xs (\<lambda>i. upd_bat b (g i))) s = ((), s\<lparr>bat := (bat s)(b := fold g xs (bat s b))\<rparr>)"
  by (induction xs arbitrary: s) (simp_all add: run_simps)

lemma fold_clear:
  "fold (\<lambda>i x. x\<lparr>bat_bitmap := (bat_bitmap x)(h i := False)\<rparr>) xs b =
     b\<lparr>bat_bitmap := (\<lambda>k. if k \<in> h ` set xs then False else bat_bitmap b k)\<rparr>"
  by (induction xs arbitrary: b) (auto simp: fun_eq_iff)

definition given_back :: "nat \<Rightarrow> dpmaif_bat_request \<Rightarrow> dpmaif_bat_request" where
  "given_back k b = (let n = bat_size_cnt b; r = bat_release_rd_idx b in
     b\<lparr>bat_bitmap := (\<lambda>i. if i \<in> slot_from n r ` {..<k} then False else bat_bitmap b i),
       bat_release_rd_idx := slot_from n r k\<rparr>)"

lemma bat_hw [simp]:
  "bat (emit e s) = bat s" "rxq (emit e s) = rxq s"
  "bat (after t7xx_dpmaif_dl_get_bat_rd_idx s) = bat s" "rxq (after t7xx_dpmaif_dl_get_bat_rd_idx s) = rxq s"
  "bat (after t7xx_dpmaif_dl_get_bat_wr_idx s) = bat s" "rxq (after t7xx_dpmaif_dl_get_bat_wr_idx s) = rxq s"
  by (simp_all add: t7xx_dpmaif_dl_get_bat_rd_idx_def t7xx_dpmaif_dl_get_bat_wr_idx_def hw_read_def run_simps Let_def
      emit_def)

lemma word_of_nat_unat: "of_nat (unat (x :: u32)) = x"
  by simp

lemma keeps_snd_cnt:
  assumes "\<And>e s. f (emit e s) = f s"
  shows "preserves f (t7xx_dpmaif_dl_snd_hw_bat_cnt c)"
  unfolding t7xx_dpmaif_dl_snd_hw_bat_cnt_def t7xx_dl_add_timedout_def hw_poll_def hw_write_def get_hw_def
  by (intro preserves_intros; simp add: assms)

lemma bat_snd_cnt [simp]:
  "bat (after (t7xx_dpmaif_dl_snd_hw_bat_cnt c) s) = bat s" "rxq (after (t7xx_dpmaif_dl_snd_hw_bat_cnt c) s) = rxq s"
  using preservesD [OF keeps_snd_cnt [of bat c]] preservesD [OF keeps_snd_cnt [of rxq c]] by simp_all

lemma release_outcome:
  fixes s :: "'a rx_layer_scheme"
  assumes "ring_size (bat_size_cnt (nbat s))" "bat_release_rd_idx (nbat s) < bat_size_cnt (nbat s)"
  shows "case run (t7xx_dpmaif_release_bat_entry q c BAT_TYPE_NORMAL) s of (x, t) \<Rightarrow> rxq t = rxq s \<and>
    (if \<exists>k. x = Inr k \<and> k \<noteq> 0 then x = Inr c \<and> rxq_started (rxq s q) \<and> nbat t = given_back (unat c) (nbat s)
     else nbat t = nbat s \<and> (isl x \<longrightarrow> x = Inl EINVAL))"
proof (cases "unat c < unat (bat_size_cnt (nbat s))")
  case True
  let ?n = "bat_size_cnt (nbat s)" and ?r = "bat_release_rd_idx (nbat s)"
  let ?clear = "\<lambda>i. upd_bat BAT_TYPE_NORMAL (\<lambda>x. x\<lparr>bat_bitmap := (bat_bitmap x)
    ((if ?r + of_nat i \<ge> ?n then ?r + of_nat i - ?n else ?r + of_nat i) := False)\<rparr>)"
  have slot: "(if ?r + of_nat k \<ge> ?n then ?r + of_nat k - ?n else ?r + of_nat k) = slot_from ?n ?r k" if "k \<le> unat c" for k
    using that True add_wrap_advance [OF assms, of k] by (simp add: Let_def)
  have c: "(if ?r + c \<ge> ?n then ?r + c - ?n else ?r + c) = slot_from ?n ?r (unat c)"
    using slot [of "unat c"] unfolding word_of_nat_unat by simp
  have h: "(\<lambda>i. if ?r + of_nat i \<ge> ?n then ?r + of_nat i - ?n else ?r + of_nat i) ` set [0..<unat c]
    = slot_from ?n ?r ` {..<unat c}"
    unfolding set_upt atLeast0LessThan by (rule image_cong) (simp_all only: slot lessThan_iff less_imp_le)
  have loop: "run (for_each [0..<unat c] ?clear) u = ((), u\<lparr>bat := (bat u)(BAT_TYPE_NORMAL := (nbat u)\<lparr>bat_bitmap :=
      (\<lambda>i. if i \<in> slot_from ?n ?r ` {..<unat c} then False else bat_bitmap (nbat u) i)\<rparr>)\<rparr>)"
    for u :: "'a rx_layer_scheme"
    unfolding run_for_each_upd_bat fold_clear h ..
  have lt: "\<not> c \<ge> ?n" using True by (simp add: word_le_nat_alt)
  define hw where "hw = result t7xx_dpmaif_dl_get_bat_rd_idx s"
  define u where "u = after t7xx_dpmaif_dl_get_bat_rd_idx s"
  have u: "bat u = bat s" "rxq u = rxq s" by (simp_all add: u_def)
  have hw: "run t7xx_dpmaif_dl_get_bat_rd_idx s = (hw, u)" by (simp add: hw_def u_def)
  let ?bad = "bat_wr_idx (nbat s) = ?r \<or> hw \<ge> ?r \<and> ?r + c > hw \<or> ?r + c \<ge> ?n \<and> ?r + c - ?n > hw"
  show ?thesis
  proof (cases "rxq_started (rxq s q) \<and> c \<noteq> 0 \<and> \<not> ?bad")
    case True
    then have "run (t7xx_dpmaif_release_bat_entry q c BAT_TYPE_NORMAL) s = (Inr c, u\<lparr>bat := (bat u)(BAT_TYPE_NORMAL :=
        given_back (unat c) (nbat s))\<rparr>)"
      using lt u by (simp add: t7xx_dpmaif_release_bat_entry_def run_bind run_rx_access run_return Let_def hw loop c
          given_back_def cong: conj_cong cong del: if_weak_cong split del: if_split)
    then show ?thesis using True u by simp
  next
    case False
    then have "run (t7xx_dpmaif_release_bat_entry q c BAT_TYPE_NORMAL) s \<in> {(Inl EINVAL, s), (Inl EINVAL, u), (Inr 0, u)}"
      using lt u by (auto simp: t7xx_dpmaif_release_bat_entry_def run_bind run_rx_access run_return Let_def hw)
    then show ?thesis using u by auto
  qed
next
  case False
  then have "c \<ge> bat_size_cnt (nbat s)" by (simp add: word_le_nat_alt)
  then have "run (t7xx_dpmaif_release_bat_entry q c BAT_TYPE_NORMAL) s
      \<in> {(Inl EINVAL, s), (Inl EINVAL, after t7xx_dpmaif_dl_get_bat_rd_idx s)}"
    by (cases "rxq_started (rxq s q) \<and> c \<noteq> 0")
       (simp_all add: t7xx_dpmaif_release_bat_entry_def run_bind run_rx_access run_return split_beta)
  then show ?thesis by auto
qed

lemma table_ok_given_back:
  assumes "table_ok b" and "k \<le> length (with_device b)"
  shows "table_ok (given_back k b)"
    "with_device b = map (slot_from (bat_size_cnt b) (bat_release_rd_idx b)) [0..<k] @ with_device (given_back k b)"
proof -
  let ?n = "bat_size_cnt b" and ?r = "bat_release_rd_idx b" and ?w = "bat_wr_idx b"
  note ok = table_okD [OF assms(1)]
  have k: "k \<le> unat (t7xx_ring_buf_rd_wr_count ?n ?r ?w DPMAIF_READ)"
    using assms(2) by (simp add: with_device_def rb.length_window)
  show w: "with_device b = map (slot_from ?n ?r) [0..<k] @ with_device (given_back k b)"
    using rb.window_consume_many [OF ok(1-3) k] by (simp add: with_device_def given_back_def Let_def)
  have "distinct (with_device b)" unfolding with_device_def by (rule rb.distinct_window [OF ok(1-3)])
  then have "slot_from ?n ?r ` {..<k} \<inter> set (with_device (given_back k b)) = {}"
    unfolding w by (auto simp: atLeast0LessThan)
  moreover have "set (with_device b) = slot_from ?n ?r ` {..<k} \<union> set (with_device (given_back k b))"
    by (subst w) (simp add: atLeast0LessThan)
  ultimately show "table_ok (given_back k b)"
    using ok rb.funpow_nxt [OF ok(1,2), of k]
    unfolding table_ok_def by (auto simp: given_back_def Let_def empty_slot_def)
qed

section \<open>Putting buffers in\<close>

lemma run_alloc_skb:
  fixes s :: "'z rx_layer_scheme"
  shows "\<exists>ok y u. run (t7xx_alloc_and_map_skb_info sz i) s = (ok, if ok then
      u\<lparr>bat := (bat s)(BAT_TYPE_NORMAL := (nbat s)\<lparr>bat_skb := (bat_skb (nbat s))(i := y)\<rparr>)\<rparr> else u) \<and>
    bat u = bat s \<and> rxq u = rxq s \<and> bs_skb y \<noteq> None"
proof -
  define v where "v = result (kquery ''__dev_alloc_skb'' [ucast sz]) s"
  define s1 where "s1 = after (kquery ''__dev_alloc_skb'' [ucast sz]) s"
  define a where "a = result (dma_map_single v (ucast sz)) s1"
  define s2 where "s2 = after (dma_map_single v (ucast sz)) s1"
  define s3 where "s3 = after (kquery ''skb_headroom'' [v]) s2"
  define s4 where "s4 = after (kquery ''skb_end_offset'' [v]) s3"
  define y where "y = \<lparr>bs_skb = Some \<lparr>rs_ptr = v, rs_off = ucast (result (kquery ''skb_headroom'' [v]) s2),
      rs_tail = ucast (result (kquery ''skb_headroom'' [v]) s2), rs_end = ucast (result (kquery ''skb_end_offset'' [v]) s3),
      rs_len = 0, rs_frags = []\<rparr>, bs_bus_addr = a, bs_data_len = sz\<rparr>"
  note defs = v_def s1_def a_def s2_def s3_def s4_def
  have same: "bat s1 = bat s" "bat s2 = bat s" "bat s4 = bat s" "rxq s1 = rxq s" "rxq s2 = rxq s" "rxq s4 = rxq s"
    by (simp_all add: defs run_kquery Let_def)
  have run: "run (t7xx_alloc_and_map_skb_info sz i) s =
    (if v = 0 then (False, s1) else if dma_mapping_error a then (False, after (dev_kfree_skb v) s2)
     else (True, after (upd_slot i (\<lambda>_. y)) s4))"
    by (simp add: t7xx_alloc_and_map_skb_info_def run_bind run_return split_beta y_def flip: defs)
  show ?thesis
  proof (cases "v = 0 \<or> dma_mapping_error a")
    case True
    define u where "u = (if v = 0 then s1 else after (dev_kfree_skb v) s2)"
    have "run (t7xx_alloc_and_map_skb_info sz i) s = (False, u)" "bat u = bat s" "rxq u = rxq s"
      using True same by (auto simp: run run_kcall u_def)
    then show ?thesis by (intro exI [of _ False] exI [of _ y] exI [of _ u]) (simp add: y_def)
  next
    case False
    then have "run (t7xx_alloc_and_map_skb_info sz i) s =
      (True, s4\<lparr>bat := (bat s)(BAT_TYPE_NORMAL := (nbat s)\<lparr>bat_skb := (bat_skb (nbat s))(i := y)\<rparr>)\<rparr>)"
      using same by (simp add: run upd_slot_def run_rx_access)
    then show ?thesis using same by (intro exI [of _ True] exI [of _ y] exI [of _ s4]) (simp add: y_def)
  qed
qed

text \<open>What the loop does to the slots \<open>S\<close> it went through: each has a buffer, the others are as before.\<close>

definition filled :: "u32 set \<Rightarrow> dpmaif_bat_request \<Rightarrow> dpmaif_bat_request \<Rightarrow> bool" where
  "filled S b b' \<longleftrightarrow> (\<exists>base f. b' = b\<lparr>bat_base := base, bat_skb := f\<rparr> \<and>
     (\<forall>k. if k \<in> S then bs_skb (f k) \<noteq> None else f k = bat_skb b k))"

lemma filled_none: "filled {} b b"
proof -
  have "b = b\<lparr>bat_base := bat_base b, bat_skb := bat_skb b\<rparr>" by simp
  then show ?thesis unfolding filled_def by fastforce
qed

lemma filled_trans: "filled S b b' \<Longrightarrow> filled T b' b'' \<Longrightarrow> filled (S \<union> T) b b''"
  unfolding filled_def
proof (elim exE conjE)
  fix base f base' f'
  assume 1: "b' = b\<lparr>bat_base := base, bat_skb := f\<rparr>" "\<forall>k. if k \<in> S then bs_skb (f k) \<noteq> None else f k = bat_skb b k"
    and 2: "b'' = b'\<lparr>bat_base := base', bat_skb := f'\<rparr>" "\<forall>k. if k \<in> T then bs_skb (f' k) \<noteq> None else f' k = bat_skb b' k"
  have "b'' = b\<lparr>bat_base := base', bat_skb := f'\<rparr>" using 1(1) 2(1) by simp
  moreover have "if k \<in> S \<union> T then bs_skb (f' k) \<noteq> None else f' k = bat_skb b k" for k
    using spec [OF 1(2), of k] spec [OF 2(2), of k] 1(1) by (auto split: if_splits)
  ultimately show "\<exists>base f. b'' = b\<lparr>bat_base := base, bat_skb := f\<rparr> \<and>
      (\<forall>k. if k \<in> S \<union> T then bs_skb (f k) \<noteq> None else f k = bat_skb b k)" by blast
qed

lemma buf_alloc_loop_Suc:
  assumes "(if w + of_nat i \<ge> bat_size_cnt (nbat s) then w + of_nat i - bat_size_cnt (nbat s) else w + of_nat i) = c"
  shows "run (buf_alloc_loop w (Suc k) i) s = (let x = bat_skb (nbat s) c;
      (ok, u) = (if bs_skb x = None then run (t7xx_alloc_and_map_skb_info (pkt_buf_sz (nbat s)) c) s else (True, s))
    in if ok then run (buf_alloc_loop w k (Suc i)) (after (put_bat BAT_TYPE_NORMAL c (bs_bus_addr (bat_skb (nbat u) c))) u)
       else (i, u))"
  unfolding buf_alloc_loop.simps run_bind run_rx_access prod.case Let_def assms
  by (simp add: run_bind run_rx_access run_return split_beta)

text \<open>A round of the loop gives up, or fills its slot and goes on.\<close>

lemma buf_alloc_round:
  fixes s :: "'z rx_layer_scheme"
  assumes "(if w + of_nat i \<ge> bat_size_cnt (nbat s) then w + of_nat i - bat_size_cnt (nbat s) else w + of_nat i) = c"
  shows "(\<exists>u. run (buf_alloc_loop w (Suc k) i) s = (i, u) \<and> bat u = bat s \<and> rxq u = rxq s) \<or>
    (\<exists>u. run (buf_alloc_loop w (Suc k) i) s = run (buf_alloc_loop w k (Suc i)) u \<and> rxq u = rxq s \<and>
      filled {c} (nbat s) (nbat u) \<and> (\<forall>b. b \<noteq> BAT_TYPE_NORMAL \<longrightarrow> bat u b = bat s b))"
proof (cases "empty_slot (nbat s) c")
  case True
  obtain ok y u where u: "run (t7xx_alloc_and_map_skb_info (pkt_buf_sz (nbat s)) c) s = (ok, if ok then
      u\<lparr>bat := (bat s)(BAT_TYPE_NORMAL := (nbat s)\<lparr>bat_skb := (bat_skb (nbat s))(c := y)\<rparr>)\<rparr> else u)"
    "bat u = bat s" "rxq u = rxq s" "bs_skb y \<noteq> None"
    using run_alloc_skb [of "pkt_buf_sz (nbat s)" c s] by blast
  show ?thesis
  proof (cases ok)
    case True
    define v where "v = after (put_bat BAT_TYPE_NORMAL c (bs_bus_addr y))
      (u\<lparr>bat := (bat s)(BAT_TYPE_NORMAL := (nbat s)\<lparr>bat_skb := (bat_skb (nbat s))(c := y)\<rparr>)\<rparr>)"
    have "run (buf_alloc_loop w (Suc k) i) s = run (buf_alloc_loop w k (Suc i)) v"
      using \<open>empty_slot (nbat s) c\<close> True u(1)
      by (simp add: buf_alloc_loop_Suc [OF assms] empty_slot_def v_def Let_def del: buf_alloc_loop.simps)
    moreover have v: "nbat v = (nbat s)\<lparr>bat_base := bat_base (nbat v), bat_skb := (bat_skb (nbat s))(c := y)\<rparr>" "rxq v = rxq s"
      "\<forall>b. b \<noteq> BAT_TYPE_NORMAL \<longrightarrow> bat v b = bat s b"
      using u(3) by (auto simp: v_def put_bat_def run_rx_access)
    have "\<forall>k. if k \<in> {c} then bs_skb (((bat_skb (nbat s))(c := y)) k) \<noteq> None
        else ((bat_skb (nbat s))(c := y)) k = bat_skb (nbat s) k"
      using u(4) by simp
    then have "filled {c} (nbat s) (nbat v)" unfolding filled_def using v(1) by blast
    ultimately show ?thesis using v(2,3) by metis
  next
    case False
    then have "run (buf_alloc_loop w (Suc k) i) s = (i, u)"
      using \<open>empty_slot (nbat s) c\<close> u(1)
      by (simp add: buf_alloc_loop_Suc [OF assms] empty_slot_def Let_def del: buf_alloc_loop.simps)
    then show ?thesis using u(2,3) by metis
  qed
next
  case False
  define v where "v = after (put_bat BAT_TYPE_NORMAL c (bs_bus_addr (bat_skb (nbat s) c))) s"
  have "run (buf_alloc_loop w (Suc k) i) s = run (buf_alloc_loop w k (Suc i)) v"
    using False by (auto simp: buf_alloc_loop_Suc [OF assms] empty_slot_def v_def Let_def simp del: buf_alloc_loop.simps)
  moreover have "nbat v = (nbat s)\<lparr>bat_base := bat_base (nbat v), bat_skb := bat_skb (nbat s)\<rparr>" "rxq v = rxq s"
    "\<forall>b. b \<noteq> BAT_TYPE_NORMAL \<longrightarrow> bat v b = bat s b"
    by (auto simp: v_def put_bat_def run_rx_access)
  then have "filled {c} (nbat s) (nbat v)"
    unfolding filled_def using False by (metis empty_slot_def singletonD)
  ultimately show ?thesis using \<open>rxq v = rxq s\<close> \<open>\<forall>b. b \<noteq> BAT_TYPE_NORMAL \<longrightarrow> bat v b = bat s b\<close> by metis
qed

lemma buf_alloc_loop_filled:
  fixes s :: "'z rx_layer_scheme"
  assumes "ring_size n" "w < n" "i + k \<le> unat n" "bat_size_cnt (nbat s) = n"
  shows "\<exists>j t. run (buf_alloc_loop w k i) s = (j, t) \<and> i \<le> j \<and> j \<le> i + k \<and> rxq t = rxq s \<and>
    (\<forall>b. b \<noteq> BAT_TYPE_NORMAL \<longrightarrow> bat t b = bat s b) \<and> filled (slot_from n w ` {i..<j}) (nbat s) (nbat t)"
  using assms(3,4)
proof (induction k arbitrary: i s)
  case 0
  then show ?case by (simp add: run_return filled_none)
next
  case (Suc k)
  have "i \<le> unat n" using Suc.prems by simp
  from add_wrap_advance [OF assms(1,2) this]
  have c: "(if w + of_nat i \<ge> bat_size_cnt (nbat s) then w + of_nat i - bat_size_cnt (nbat s) else w + of_nat i) = slot_from n w i"
    unfolding Suc.prems(2) Let_def .
  from buf_alloc_round [OF c, of k] consider
      u where "run (buf_alloc_loop w (Suc k) i) s = (i, u)" "bat u = bat s" "rxq u = rxq s"
    | u where "run (buf_alloc_loop w (Suc k) i) s = run (buf_alloc_loop w k (Suc i)) u" "rxq u = rxq s"
        "filled {slot_from n w i} (nbat s) (nbat u)" "\<forall>b. b \<noteq> BAT_TYPE_NORMAL \<longrightarrow> bat u b = bat s b"
    by blast
  then show ?case
  proof cases
    case 1
    then show ?thesis by (simp add: filled_none del: buf_alloc_loop.simps)
  next
    case 2
    have "bat_size_cnt (nbat u) = n" using 2(3) Suc.prems by (auto simp: filled_def)
    then obtain j t where t: "run (buf_alloc_loop w k (Suc i)) u = (j, t)" "Suc i \<le> j" "j \<le> Suc i + k"
      "rxq t = rxq u" "\<forall>b. b \<noteq> BAT_TYPE_NORMAL \<longrightarrow> bat t b = bat u b"
      "filled (slot_from n w ` {Suc i..<j}) (nbat u) (nbat t)"
      using Suc.IH [of "Suc i" u] Suc.prems by auto
    have "{i..<j} = insert i {Suc i..<j}" using t(2) by auto
    then have "slot_from n w ` {i..<j} = {slot_from n w i} \<union> slot_from n w ` {Suc i..<j}"
      by (simp del: funpow.simps)
    then show ?thesis
      using 2 t filled_trans [OF 2(3) t(6)] by (simp del: buf_alloc_loop.simps)
  qed
qed

text \<open>The write index moves by what was filled, and never reaches the release index.\<close>

lemma run_update_wr_idx:
  assumes "ring_size (bat_size_cnt (nbat s))" "bat_release_rd_idx (nbat s) < bat_size_cnt (nbat s)"
    "bat_wr_idx (nbat s) < bat_size_cnt (nbat s)" "rxq_started (rxq s q)"
    "j \<le> unat (t7xx_ring_buf_rd_wr_count (bat_size_cnt (nbat s)) (bat_release_rd_idx (nbat s)) (bat_wr_idx (nbat s)) DPMAIF_WRITE)"
  shows "run (t7xx_dpmaif_update_bat_wr_idx q (of_nat j)) s = (Inr (), s\<lparr>bat := (bat s)(BAT_TYPE_NORMAL :=
    (nbat s)\<lparr>bat_wr_idx := slot_from (bat_size_cnt (nbat s)) (bat_wr_idx (nbat s)) j\<rparr>)\<rparr>)"
proof -
  let ?n = "bat_size_cnt (nbat s)" and ?r = "bat_release_rd_idx (nbat s)" and ?w = "bat_wr_idx (nbat s)"
  have lt: "unat ?r < unat ?n" "unat ?w < unat ?n" "unat ?n < 2 ^ 31"
    using assms by (simp_all add: word_less_nat_alt ring_size_def)
  have j: "j \<le> (if unat ?w < unat ?r then unat ?r - Suc (unat ?w) else unat ?n - Suc (unat ?w) + unat ?r)"
    using assms(5) by (simp add: wr_count_dist [OF assms(1-3)])
  then have jn: "j < unat ?n" using lt by (auto split: if_splits)
  have w: "unat (?w + of_nat j) = unat ?w + j"
    using lt jn by (simp add: unat_word_ariths unat_of_nat_u32)
  have a: "\<not> (?r > ?w \<and> ?w + of_nat j \<ge> ?r)"
    using j by (auto simp: word_less_nat_alt word_le_nat_alt w)
  have b: "\<not> (?w + of_nat j \<ge> ?n \<and> ?w + of_nat j - ?n \<ge> ?r)"
    using j lt by (auto simp: word_le_nat_alt w unat_sub split: if_splits)
  have c: "(if ?w + of_nat j \<ge> ?n then ?w + of_nat j - ?n else ?w + of_nat j) = slot_from ?n ?w j"
    using add_wrap_advance [OF assms(1,3), of j] jn unfolding Let_def by simp
  show ?thesis
    using assms(4) by (simp add: t7xx_dpmaif_update_bat_wr_idx_def run_bind run_rx_access run_return Let_def a b c
        split del: if_split)
qed

lemma empty_already: "bs_skb x = None \<Longrightarrow> x\<lparr>bs_skb := None\<rparr> = (x :: dpmaif_bat_skb)"
  by (cases x) simp

lemma run_unmap_skb:
  fixes s :: "'z rx_layer_scheme"
  shows "rxq (after (t7xx_unmap_bat_skb i) s) = rxq s"
    "nbat (after (t7xx_unmap_bat_skb i) s) = (nbat s)\<lparr>bat_skb := (bat_skb (nbat s))(i := (bat_skb (nbat s) i)\<lparr>bs_skb := None\<rparr>)\<rparr>"
  by (simp_all add: t7xx_unmap_bat_skb_def run_bind run_rx_access run_return run_kcall upd_slot_def empty_already
      split: option.split)

text \<open>A table without the buffers of its first \<open>j\<close> slots.\<close>

definition emptied :: "nat \<Rightarrow> dpmaif_bat_request \<Rightarrow> dpmaif_bat_request" where
  "emptied j b = b\<lparr>bat_skb := (\<lambda>k. if unat k < j then (bat_skb b k)\<lparr>bs_skb := None\<rparr> else bat_skb b k)\<rparr>"

lemma run_unmap_skbs:
  fixes s :: "'z rx_layer_scheme"
  assumes "j < 2 ^ 31"
  shows "rxq (after (unmap_skbs j) s) = rxq s \<and>
    nbat (after (unmap_skbs j) s) = emptied j (nbat s)"
  using assms unfolding emptied_def
proof (induction j arbitrary: s)
  case (Suc j)
  have "unat k < Suc j \<longleftrightarrow> k = of_nat j \<or> unat k < j" for k :: u32
    using Suc.prems unat_of_nat_u32 [of j] by (auto simp: less_Suc_eq)
  moreover have "j < 2 ^ 31" using Suc.prems by simp
  ultimately show ?case
    by (auto simp: run_bind split_beta Suc.IH run_unmap_skb fun_eq_iff)
qed (simp add: run_return)

text \<open>A table whose write index moved by \<open>j\<close> slots, each of which has a buffer.\<close>

definition refilled :: "nat \<Rightarrow> dpmaif_bat_request \<Rightarrow> dpmaif_bat_request \<Rightarrow> bool" where
  "refilled j b b' \<longleftrightarrow> (\<exists>c. filled (slot_from (bat_size_cnt b) (bat_wr_idx b) ` {0..<j}) b c \<and>
     b' = c\<lparr>bat_wr_idx := slot_from (bat_size_cnt b) (bat_wr_idx b) j\<rparr>)"

lemma refilled_0: "filled {} b b' \<Longrightarrow> refilled 0 b b'"
  unfolding refilled_def by (rule exI [of _ b']) (auto simp: filled_def)

lemma refilled_none: "refilled 0 b b"
  by (rule refilled_0 [OF filled_none])

lemma table_ok_refilled:
  assumes "table_ok b" "refilled j b b'"
    and j: "j \<le> unat (t7xx_ring_buf_rd_wr_count (bat_size_cnt b) (bat_release_rd_idx b) (bat_wr_idx b) DPMAIF_WRITE)"
  shows "table_ok b'"
    "with_device b' = with_device b @ map (slot_from (bat_size_cnt b) (bat_wr_idx b)) [0..<j]"
proof -
  let ?n = "bat_size_cnt b" and ?r = "bat_release_rd_idx b" and ?w = "bat_wr_idx b"
  note ok = table_okD [OF assms(1)]
  obtain base f where b': "b' = b\<lparr>bat_base := base, bat_skb := f, bat_wr_idx := slot_from ?n ?w j\<rparr>"
    and f: "\<forall>k. if k \<in> slot_from ?n ?w ` {0..<j} then bs_skb (f k) \<noteq> None else f k = bat_skb b k"
    using assms(2) by (auto simp: refilled_def filled_def)
  show w: "with_device b' = with_device b @ map (slot_from ?n ?w) [0..<j]"
    using rb.window_produce_many [OF ok(1-3) j] by (simp add: with_device_def b')
  have lt: "bat_wr_idx b' < ?n" using rb.funpow_nxt [OF ok(1,3), of j] by (simp add: b')
  have "distinct (with_device b')"
    using rb.distinct_window [OF ok(1,2), of "bat_wr_idx b'"] lt by (simp add: with_device_def b')
  then have sep: "k \<notin> set (with_device b)" if "k \<in> slot_from ?n ?w ` {0..<j}" for k
    using that unfolding w by auto
  have "bat_bitmap b' k \<longleftrightarrow> k \<in> set (with_device b') \<and> empty_slot b' k" if "k < ?n" for k
  proof (cases "k \<in> slot_from ?n ?w ` {0..<j}")
    case True
    then show ?thesis using ok(4) [OF that] sep [OF True] spec [OF f, of k] by (simp add: b' empty_slot_def)
  next
    case False
    then have "k \<in> set (with_device b') \<longleftrightarrow> k \<in> set (with_device b)" unfolding w by auto
    then show ?thesis using ok(4) [OF that] spec [OF f, of k] False by (simp add: b' empty_slot_def)
  qed
  then show "table_ok b'" using ok lt by (simp add: table_ok_def b')
qed

lemma notify_keeps:
  fixes s :: "'z rx_layer_scheme"
  shows "bat (after (buf_alloc_notify j initial) s) = bat s" "rxq (after (buf_alloc_notify j initial) s) = rxq s"
    "result (buf_alloc_notify j initial) s \<in> {Inr (), Inl EBUSY, Inl EFAULT}"
proof -
  have "result (t7xx_dpmaif_dl_snd_hw_bat_cnt c) t \<in> {Inr (), Inl EBUSY}" for c and t :: "'z rx_layer_scheme"
    by (simp add: t7xx_dpmaif_dl_snd_hw_bat_cnt_def run_bind run_return split_beta run_if)
  then have r: "result (t7xx_dpmaif_dl_snd_hw_bat_cnt c) t = Inl EBUSY" if "isl (result (t7xx_dpmaif_dl_snd_hw_bat_cnt c) t)"
    for c and t :: "'z rx_layer_scheme" using that by (metis insertE singletonD isl_def sum.distinct(1))
  show "bat (after (buf_alloc_notify j initial) s) = bat s" "rxq (after (buf_alloc_notify j initial) s) = rxq s"
    "result (buf_alloc_notify j initial) s \<in> {Inr (), Inl EBUSY, Inl EFAULT}"
    by (simp_all add: buf_alloc_notify_def run_bind run_rx_access run_return run_if split_beta r)
qed

lemma buf_alloc_outcome:
  fixes s :: "'z rx_layer_scheme"
  assumes ok: "ring_size (bat_size_cnt (nbat s))" "bat_release_rd_idx (nbat s) < bat_size_cnt (nbat s)"
    "bat_wr_idx (nbat s) < bat_size_cnt (nbat s)" and st: "rxq_started (rxq s q)"
  shows "case run (t7xx_dpmaif_rx_buf_alloc q c initial) s of (x, t) \<Rightarrow> rxq t = rxq s \<and>
    (x \<in> {Inl EINVAL, Inl ENOMEM} \<and> refilled 0 (nbat s) (nbat t) \<or>
     (\<exists>j b. 0 < j \<and> j \<le> unat c \<and>
        j \<le> unat (t7xx_ring_buf_rd_wr_count (bat_size_cnt (nbat s)) (bat_release_rd_idx (nbat s)) (bat_wr_idx (nbat s)) DPMAIF_WRITE) \<and>
        refilled j (nbat s) b \<and>
        (x = Inr () \<and> nbat t = b \<or> x \<in> {Inl EBUSY, Inl EFAULT} \<and>
nbat t = emptied j b)))"
proof -
  let ?n = "bat_size_cnt (nbat s)" and ?r = "bat_release_rd_idx (nbat s)" and ?w = "bat_wr_idx (nbat s)"
  let ?free = "t7xx_ring_buf_rd_wr_count ?n ?r ?w DPMAIF_WRITE"
  show ?thesis
  proof (cases "c = 0 \<or> c > ?n \<or> c > ?free")
    case True
    then have "run (t7xx_dpmaif_rx_buf_alloc q c initial) s \<in> {(Inl EINVAL, s), (Inl ENOMEM, s)}"
      by (auto simp: t7xx_dpmaif_rx_buf_alloc_def run_bind run_rx_access run_return)
    then show ?thesis by (auto simp: refilled_none)
  next
    case False
    then have c: "unat c \<le> unat ?n" "unat c \<le> unat ?free" by (simp_all add: word_le_nat_alt word_less_nat_alt)
    obtain j t where t: "run (buf_alloc_loop ?w (unat c) 0) s = (j, t)" "j \<le> unat c" "rxq t = rxq s"
      "filled (slot_from ?n ?w ` {0..<j}) (nbat s) (nbat t)"
      using buf_alloc_loop_filled [OF ok(1,3), of 0 "unat c" s] c(1) by auto
    have run: "run (t7xx_dpmaif_rx_buf_alloc q c initial) s = run (if j = 0 then return (Inl ENOMEM) else do {
           ret \<leftarrow> t7xx_dpmaif_update_bat_wr_idx q (of_nat j);
           ret \<leftarrow> (if isl ret then return ret else buf_alloc_notify j initial);
           c_when (isl ret) (unmap_skbs j);
           return ret
         }) t"
      using False t(1) by (simp add: t7xx_dpmaif_rx_buf_alloc_def run_bind run_rx_access)
    show ?thesis
    proof (cases "j = 0")
      case True
      then have "refilled 0 (nbat s) (nbat t)" using t(4) by (intro refilled_0) simp
      then show ?thesis using True t(3) by (simp add: run run_return)
    next
      case False
      have same: "bat_size_cnt (nbat t) = ?n" "bat_release_rd_idx (nbat t) = ?r" "bat_wr_idx (nbat t) = ?w"
        using t(4) by (auto simp: filled_def)
      define b where "b = (nbat t)\<lparr>bat_wr_idx := slot_from ?n ?w j\<rparr>"
      define u where "u = t\<lparr>bat := (bat t)(BAT_TYPE_NORMAL := b)\<rparr>"
      have u: "run (t7xx_dpmaif_update_bat_wr_idx q (of_nat j)) t = (Inr (), u)"
        using run_update_wr_idx [of t q j] ok st t(2,3) c(2) same by (simp add: u_def b_def)
      have "refilled j (nbat s) b" using t(4) by (auto simp: refilled_def b_def)
      moreover have "j < 2 ^ 31" using t(2) c(1) ok(1) by (simp add: ring_size_def)
      moreover have "nbat u = b" "rxq u = rxq s" by (simp_all add: u_def t(3))
      moreover define x v where "x = result (buf_alloc_notify j initial) u" and "v = after (buf_alloc_notify j initial) u"
      have "run (t7xx_dpmaif_rx_buf_alloc q c initial) s = (x, if isl x then after (unmap_skbs j) v else v)"
        using False by (simp add: run run_bind run_c_when run_return u split_beta x_def v_def)
      moreover have "bat v = bat u" "rxq v = rxq u" "x \<in> {Inr (), Inl EBUSY, Inl EFAULT}"
        unfolding x_def v_def by (rule notify_keeps)+
      ultimately show ?thesis
        using False t(2) c(2) run_unmap_skbs [of j v]
        by (simp only: prod.case) (rule conjI, force, rule disjI2, rule exI [of _ j], rule exI [of _ b], auto)
    qed
  qed
qed

section \<open>The account is kept\<close>

lemma table_ok_alloc:
  fixes s :: "'z rx_layer_scheme"
  assumes ok: "table_ok (nbat s)" and st: "rxq_started (rxq s q)"
    and x: "result (t7xx_dpmaif_rx_buf_alloc q c initial) s \<notin> {Inl EBUSY, Inl EFAULT}"
  shows "table_ok (nbat (after (t7xx_dpmaif_rx_buf_alloc q c initial) s))"
  using buf_alloc_outcome [OF table_okD(1-3) [OF ok] st, of c initial] x
  by (auto simp: split_beta intro: table_ok_refilled(1) [OF ok])

lemma table_ok_refill:
  fixes s :: "'z rx_layer_scheme"
  assumes ok: "table_ok (nbat s)" and q: "rxq_index (rxq s q) = q"
    and x: "result (t7xx_dpmaif_bat_release_and_add q) s \<notin> {Inl EBUSY, Inl EFAULT}"
  shows "table_ok (nbat (after (t7xx_dpmaif_bat_release_and_add q) s))"
proof -
  define c where "c = result (t7xx_dpmaif_avail_pkt_bat_cnt BAT_TYPE_NORMAL) s"
  have av: "run (t7xx_dpmaif_avail_pkt_bat_cnt BAT_TYPE_NORMAL) s = (c, s)"
    unfolding c_def by (rule run_avail)
  define y where "y = result (t7xx_dpmaif_release_bat_entry q c BAT_TYPE_NORMAL) s"
  define t where "t = after (t7xx_dpmaif_release_bat_entry q c BAT_TYPE_NORMAL) s"
  have y: "run (t7xx_dpmaif_release_bat_entry q c BAT_TYPE_NORMAL) s = (y, t)" by (simp add: y_def t_def)
  note out = release_outcome [OF table_okD(1,2) [OF ok], where q = q and c = c, unfolded y prod.case]
  have le: "unat c \<le> length (with_device (nbat s))" unfolding c_def by (rule avail_le_window [OF ok])
  show ?thesis
  proof (cases "\<exists>k. y = Inr k \<and> k \<noteq> 0")
    case True
    then have t: "table_ok (nbat t)" "rxq_started (rxq t q)" "rxq_index (rxq t q) = q" "y = Inr c" "c \<noteq> 0"
      using out table_ok_given_back(1) [OF ok le] q by auto
    have "run (t7xx_dpmaif_bat_release_and_add q) s =
      (if c < DPMAIF_BAT_CNT_THRESHOLD then (Inr (), s) else run (t7xx_dpmaif_rx_buf_alloc q c False) t)"
      using t(3-5) by (simp add: t7xx_dpmaif_bat_release_and_add_def run_bind av run_return run_rx_access y)
    then show ?thesis using x ok table_ok_alloc [OF t(1,2), of c False] by (auto split: if_splits)
  next
    case False
    then have t: "nbat t = nbat s" using out by simp
    have "after (t7xx_dpmaif_bat_release_and_add q) s \<in> {s, t}"
      using False by (cases "c < DPMAIF_BAT_CNT_THRESHOLD"; cases y)
        (simp_all add: t7xx_dpmaif_bat_release_and_add_def run_bind av run_return y)
    then show ?thesis using t ok by auto
  qed
qed

lemma stop_wait: "run (stop_rxq_wait q n) s = ((), s)"
  by (induction n arbitrary: s) (simp_all add: run_bind run_rx_access run_return run_if)

lemma table_ok_stop:
  assumes ok: "ring_size (bat_size_cnt (nbat s))" and "bat_bitmap_ptr (nbat s) \<noteq> 0"
  shows "table_ok (nbat (after (t7xx_dpmaif_stop_rxq q) s))"
proof -
  let ?t = "after (t7xx_dpmaif_stop_rxq q) s"
  have t: "bat_size_cnt (nbat ?t) = bat_size_cnt (nbat s)" "bat_release_rd_idx (nbat ?t) = 0" "bat_wr_idx (nbat ?t) = 0"
    "bat_bitmap (nbat ?t) = (\<lambda>_. False)"
    using assms(2) by (simp_all add: t7xx_dpmaif_stop_rxq_def run_bind run_rx_access run_kcall stop_wait bitmap_zero_def)
  have "0 < bat_size_cnt (nbat s)" using ok by (simp add: ring_size_def)
  then show ?thesis using ok t rb.window_empty [OF ok, of 0] by (simp add: table_ok_def with_device_def)
qed

lemma bat_start_rxqs: "bat (after start_rxqs s) = bat s"
  unfolding start_rxqs_def by (rule preservesD) (intro preserves_intros; simp add: get_bat_def upd_rxq_def preserves_gets preserves_modify)

text \<open>
  What happens to the table while the data path is in use: a packet arrives in a buffer that is
  with the device, slots are refilled, queues are started, stopped and filled for the first time.
\<close>

inductive rx_table_step :: "'z rx_layer_scheme \<Rightarrow> 'z rx_layer_scheme \<Rightarrow> bool" where
  rx_take: "rx_table_step s (after (t7xx_dpmaif_get_rx_pkt q pit) s)"
    if "t7xx_normal_pit_bid pit \<in> set (with_device (nbat s))"
| rx_refill: "rx_table_step s (after (t7xx_dpmaif_bat_release_and_add q) s)"
    if "rxq_index (rxq s q) = q" "result (t7xx_dpmaif_bat_release_and_add q) s \<notin> {Inl EBUSY, Inl EFAULT}"
| rx_fill: "rx_table_step s (after (t7xx_dpmaif_rx_buf_alloc q c initial) s)"
    if "rxq_started (rxq s q)" "result (t7xx_dpmaif_rx_buf_alloc q c initial) s \<notin> {Inl EBUSY, Inl EFAULT}"
| rx_start: "rx_table_step s (after start_rxqs s)"
| rx_stop: "rx_table_step s (after (t7xx_dpmaif_stop_rxq q) s)"
    if "bat_bitmap_ptr (nbat s) \<noteq> 0"

lemma table_ok_step:
  fixes s t :: "'z rx_layer_scheme"
  assumes "rx_table_step s t" "table_ok (nbat s)"
  shows "table_ok (nbat t)"
  using assms
  by (induction rule: rx_table_step.induct)
     (auto simp: bat_start_rxqs intro: table_ok_take table_ok_refill table_ok_alloc table_ok_stop table_okD(1))


section \<open>A refill that fails\<close>

text \<open>A refill that the device does not acknowledge, or after which it reports another write
  index, fails, but the slots it filled are given to the device all the same: the write index stays where
  it was moved to. The buffers that are freed are those of the slots from 0 on, as many as were
  filled, wherever the filled ones are: a slot that was with the device loses its buffer without
  being marked, so the account is broken.\<close>

theorem rx_refill_failure:
  fixes s :: "'z rx_layer_scheme"
  assumes "table_ok (nbat s)" and "rxq_started (rxq s q)"
    and "result (t7xx_dpmaif_rx_buf_alloc q c initial) s \<in> {Inl EBUSY, Inl EFAULT}"
  shows "case nbat (after (t7xx_dpmaif_rx_buf_alloc q c initial) s) of b \<Rightarrow>
    \<exists>j. 0 < j \<and> j \<le> unat c \<and> length (with_device b) = length (with_device (nbat s)) + j \<and>
      list_all (\<lambda>k. empty_slot b (of_nat k)) [0..<j] \<and> bat_bitmap b = bat_bitmap (nbat s) \<and>
      (if 0 \<in> set (with_device (nbat s)) \<and> \<not> bat_bitmap (nbat s) 0 then \<not> table_ok b else True)"
proof -
  let ?t = "after (t7xx_dpmaif_rx_buf_alloc q c initial) s"
  note ok = table_okD [OF assms(1)]
  obtain j b where j: "0 < j" "j \<le> unat c" "refilled j (nbat s) b" "nbat ?t = emptied j b"
    "j \<le> unat (t7xx_ring_buf_rd_wr_count (bat_size_cnt (nbat s)) (bat_release_rd_idx (nbat s)) (bat_wr_idx (nbat s)) DPMAIF_WRITE)"
    using buf_alloc_outcome [OF ok(1-3) assms(2), of c initial] assms(3) by (auto simp: split_beta)
  have w: "with_device (emptied j b) = with_device (nbat s) @ map (slot_from (bat_size_cnt (nbat s)) (bat_wr_idx (nbat s))) [0..<j]"
    using table_ok_refilled(2) [OF assms(1) j(3,5)] by (simp add: with_device_def emptied_def)
  have m: "bat_bitmap (emptied j b) = bat_bitmap (nbat s)" "bat_size_cnt (emptied j b) = bat_size_cnt (nbat s)"
    using j(3) by (auto simp: refilled_def filled_def emptied_def)
  have small: "k < 2 ^ 31" if "k < j" for k
    using that j(5) rb.readable_writable [OF ok(1-3)] ok(1) by (simp add: ring_size_def)
  then have e: "empty_slot (emptied j b) (of_nat k)" if "k < j" for k
    using that by (simp add: empty_slot_def emptied_def unat_of_nat_u32)
  have "\<not> table_ok (emptied j b)" if "0 \<in> set (with_device (nbat s))" "\<not> bat_bitmap (nbat s) 0"
    using e [of 0] j(1) that table_okD(4) [of "emptied j b" 0] ok(1) w m by (auto simp: ring_size_def)
  then show ?thesis
    using j(1,2) w m e by (intro exI [of _ j]) (simp add: j(4) list_all_iff)
qed

section \<open>A table of four slots\<close>

definition table_example :: "u32 \<Rightarrow> dpmaif_layer" where
  "table_example w = (let s = driver_example (\<lambda>_ _. 1) zero_pci_dev in s\<lparr>
     rxq := (\<lambda>_. zero_rxq\<lparr>rxq_started := True\<rparr>),
     bat := (\<lambda>_. zero_bat\<lparr>bat_size_cnt := 4, bat_wr_idx := w, bat_bitmap_ptr := 1,
       bat_skb := (\<lambda>k. \<lparr>bs_skb = if k < w then Some \<lparr>rs_ptr = 1, rs_off = 0, rs_tail = 0, rs_end = 0, rs_len = 0, rs_frags = []\<rparr>
          else None, bs_bus_addr = 0, bs_data_len = 0\<rparr>)\<rparr>)\<rparr>)"

lemma table_example_fields:
  "env (table_example w) = (\<lambda>_ _. 1)" "rxq (table_example w) q = zero_rxq\<lparr>rxq_started := True\<rparr>"
  "bat_size_cnt (bat (table_example w) b) = 4" "bat_wr_idx (bat (table_example w) b) = w"
  "bat_release_rd_idx (bat (table_example w) b) = 0" "bat_bitmap (bat (table_example w) b) = (\<lambda>_. False)"
  "empty_slot (bat (table_example w) b) k \<longleftrightarrow> w \<le> k" "bat_bitmap_ptr (bat (table_example w) b) = 1"
  "pkt_buf_sz (bat (table_example w) b) = 0"
  by (auto simp: table_example_def Let_def zero_bat_def empty_slot_def not_less)

lemma table_example_ok:
  "table_ok (nbat (table_example 0))" "table_ok (nbat (table_example 1))"
  "with_device (nbat (table_example 1)) = [0]"
proof -
  have n: "ring_size 4" "(0::u32) < 4" "(1::u32) < 4" by (simp_all add: ring_size_def)
  have w: "rb.window 4 0 1 = [0]"
    by (simp add: rb.window_def rd_count_dist n)
  show "with_device (nbat (table_example 1)) = [0]" by (simp add: with_device_def table_example_fields w)
  show "table_ok (nbat (table_example 0))" "table_ok (nbat (table_example 1))"
    by (auto simp: table_ok_def with_device_def table_example_fields w n rb.window_empty [OF n(1,2)])
qed

lemma table_example_words:
  "\<not> (4::u32) \<le> 1" "\<not> (4::u32) \<le> 2" "\<not> (4::u32) < 1" "\<not> (4::u32) < 2" "\<not> (3::u32) < 2" "\<not> (2::u32) < 1"
  "t7xx_ring_buf_rd_wr_count 4 0 0 DPMAIF_WRITE = 3" "t7xx_ring_buf_rd_wr_count 4 0 1 DPMAIF_WRITE = 2"
  "\<not> dma_mapping_error 1" "\<not> (4::u32) \<le> 0" "(1::u32) AND DPMAIF_DL_RD_WR_IDX_MSK = 1" "(1::u32) AND BIT 31 = 0"
  by code_simp+

lemma fst_case: "fst (case p of (a, x) \<Rightarrow> (c, x)) = c"
  by (cases p) simp

lemmas table_run = run_simps table_example_fields table_example_words t7xx_dpmaif_rx_buf_alloc_def
  t7xx_alloc_and_map_skb_info_def upd_slot_def put_bat_def t7xx_dpmaif_update_bat_wr_idx_def buf_alloc_notify_def
  t7xx_dpmaif_dl_snd_hw_bat_cnt_def t7xx_dl_add_timedout_def hw_poll_def hw_write_def hw_read_def get_hw_def
  t7xx_dpmaif_dl_get_bat_wr_idx_def read_poll_timeout_def ioread32_poll_timeout_def Let_def

text \<open>The table is filled with two buffers; the device puts a packet into the first.\<close>

lemma table_example_filled:
  assumes "s = after (t7xx_dpmaif_rx_buf_alloc 0 2 True) (table_example 0)"
  shows "result (t7xx_dpmaif_rx_buf_alloc 0 2 True) (table_example 0) = Inr ()" "with_device (nbat s) = [0, 1]"
    "bs_skb (bat_skb (nbat s) 0) = Some \<lparr>rs_ptr = 1, rs_off = 1, rs_tail = 1, rs_end = 1, rs_len = 0, rs_frags = []\<rparr>"
    "bs_bus_addr (bat_skb (nbat s) 0) = 1" "\<not> empty_slot (nbat s) 1"
proof -
  have n: "ring_size 4" "(0::u32) < 4" "(2::u32) < 4" by (simp_all add: ring_size_def)
  have u: "[0..<unat (t7xx_ring_buf_rd_wr_count 4 0 2 DPMAIF_READ)] = [0, 1]" by code_simp
  have w: "rb.window 4 0 2 = [0, 1]"
    unfolding rb.window_def u by (simp add: t7xx_ring_buf_get_next_wr_idx_def table_example_words)
  have two: "buf_alloc_loop 0 2 0 = buf_alloc_loop 0 (Suc (Suc 0)) 0" by (simp only: numeral_2_eq_2)
  have e: "bs_skb (bat_skb (nbat (table_example 0)) k) = None" for k
    using table_example_fields(7) [of 0 BAT_TYPE_NORMAL k] by (simp add: empty_slot_def)
  show "result (t7xx_dpmaif_rx_buf_alloc 0 2 True) (table_example 0) = Inr ()" "with_device (nbat s) = [0, 1]"
    "bs_skb (bat_skb (nbat s) 0) = Some \<lparr>rs_ptr = 1, rs_off = 1, rs_tail = 1, rs_end = 1, rs_len = 0, rs_frags = []\<rparr>"
    "bs_bus_addr (bat_skb (nbat s) 0) = 1" "\<not> empty_slot (nbat s) 1"
    by (simp_all add: assms table_run e w with_device_def empty_slot_def two)
qed


theorem rx_refill_failure_witness:
  "\<not> table_ok (nbat (after (t7xx_dpmaif_rx_buf_alloc 0 1 False) (table_example 1)))"
proof -
  have "result (t7xx_dpmaif_rx_buf_alloc 0 1 False) (table_example 1) = Inl EFAULT"
    by (simp add: table_run fst_case)
  then show ?thesis
    using rx_refill_failure [of "table_example 1" 0 1 False] table_example_ok by (auto simp: table_example_fields)
qed

end
