(* ===== verification/Spec2Isabelle.thy ===== *)
theory Spec2Isabelle
  imports Dpmaif_Hw_Props Fsm_Refs Cldma_Props Cldma_Init Port_Rx Fsm_Props Net_Props Rx_Table
begin

text \<open>
  A model of the t7xx driver (MediaTek 5G modem on PCIe, \<open>src/src/t7xx_*.c\<close>) and what is
  proved of it.

  \<^bold>\<open>The program.\<close> The driver has a data path (DPMAIF: rings of descriptors shared with the
  device, \<open>t7xx_dpmaif.c\<close>, \<open>t7xx_hif_dpmaif*.c\<close>), a control path (CLDMA, \<open>t7xx_cldma.c\<close>,
  \<open>t7xx_hif_cldma.c\<close>) with ports on top of it (\<open>t7xx_port*.c\<close>), a network layer on top of the
  data path (\<open>t7xx_netdev.c\<close>), a state machine that follows the modem through its handshake
  (\<open>t7xx_state_monitor.c\<close>, \<open>t7xx_modem_ops.c\<close>), and the PCI side with power management
  (\<open>t7xx_pci.c\<close>, \<open>t7xx_pcie_mac.c\<close>, \<open>t7xx_mhccif.c\<close>).

  \<^bold>\<open>How it is modelled.\<close> A C function is a value of the state monad of HOL-Library, a \<open>do\<close>
  block with one line per statement (\<open>T7xx_Prelude\<close>). The state is one record that grows
  along the layers: \<open>io\<close> (the outside world), \<open>t7xx\<close> (\<open>struct t7xx_pci_dev\<close>), \<open>dpmaif_hw\<close>
  (\<open>struct dpmaif_hw_info\<close>), \<open>dpmaif_tx\<close> (the transmit queues), \<open>ccmni_layer\<close>
  (\<open>struct t7xx_ccmni_ctrl\<close>), \<open>fsm_layer\<close> (\<open>struct t7xx_fsm_ctl\<close>), \<open>cldma_layer\<close>
  (\<open>struct cldma_ctrl\<close>), \<open>port_layer\<close> (\<open>struct port_proxy\<close>), \<open>modem_layer\<close>
  (\<open>struct t7xx_modem\<close>), \<open>rx_layer\<close> (the receive queues and buffer tables), \<open>dpmaif_layer\<close>
  (\<open>struct dpmaif_ctrl\<close>); an operation of one layer is polymorphic in what later layers add. The device and the kernel are a parameter, the field
  \<open>env\<close>: any function from the history to the answer of the next register read or kernel call. The history is the field
  \<open>trace\<close>. A theorem without a hypothesis on \<open>env\<close> holds for every device. Integers have
  their C width, errors are values of \<open>errno + unit\<close>.

  \<^bold>\<open>The theories.\<close>
  \<^item> \<open>T7xx_Prelude\<close>: integer types, bit fields with their round trip, error numbers, the monad.
  \<^item> \<open>T7xx_Io\<close>: registers, kernel calls, polling; operations that only add to the history
    (\<open>recorded\<close>) or change nothing else (\<open>only_asks\<close>).
  \<^item> \<open>T7xx_Reg\<close>: the registers of \<open>t7xx_reg.h\<close>, \<open>t7xx_mhccif.h\<close>, \<open>t7xx_dpmaif.h\<close>.
  \<^item> \<open>Pcie_Mac\<close>: \<open>t7xx_pcie_mac.c\<close> and \<open>t7xx_mhccif.c\<close>.
  \<^item> \<open>Pci_Dev\<close>: from \<open>t7xx_pci.c\<close> the power state, the sleep lock, the components that take
    part in suspend. The locale \<open>sleep_lock\<close> says what the lock promises; its interpretation
    gives that the count is the number of holders under every interleaving.
  \<^item> \<open>Dpmaif_Hw\<close>, \<open>Dpmaif_Config\<close>: all of \<open>t7xx_dpmaif.c\<close>, its interrupt masks and report,
    then configuration, start and stop. \<open>Dpmaif_Hw_Props\<close>: the report of an interrupt never
    overruns its arrays, initialisation is signalled last, stopping ends.
  \<^item> \<open>Ring_Buf\<close>: the index arithmetic of the rings, with the locale \<open>ring_index\<close> that makes a
    ring with two indices a queue, interpreted by the code's functions.
  \<^item> \<open>Dpmaif_Tx\<close>: all of \<open>t7xx_hif_dpmaif_tx.c\<close>. \<open>Dpmaif_Tx_Ring\<close>: the transmit ring as a list
    of the descriptors in flight (\<open>in_flight\<close>), the invariant \<open>tx_inv\<close> that ties the budget of a
    queue to its ring, and what sending and releasing do to both; the network layer's callback
    is the locale \<open>tx_callbacks\<close>.
  \<^item> \<open>Ccmni\<close>: \<open>t7xx_netdev.c\<close>, the interpretation of \<open>tx_callbacks\<close> by its queue notification,
    and the properties of the transmit path with it.
  \<^item> \<open>Fsm_Queue\<close>: from \<open>t7xx_state_monitor.c\<close> the queues of commands and events and the
    notifiers. \<open>Fsm_Refs\<close>: who holds a command under every interleaving (\<open>fsm_reachable\<close>), and
    the wait for an event.
  \<^item> \<open>Cldma_Hw\<close>: all of \<open>t7xx_cldma.c\<close>. \<open>Cldma\<close>: all of \<open>t7xx_hif_cldma.c\<close>; what the port layer does
    with a received packet is a parameter of the receive functions.
  \<^item> \<open>Frames\<close>: operations that keep a part of the state (\<open>preserves\<close>).
  \<^item> \<open>Cldma_Ring\<close>: a transmit queue as the list of its packets in flight (\<open>tx_holds\<close>).
    \<open>Cldma_Props\<close>: sending appends to that list and collecting takes from its front, and what
    happens when a packet cannot be mapped or the device does not wake up. \<open>Cldma_Init\<close>: the
    rings that initialisation builds, what clearing and a failed initialisation leave.
    \<open>Cldma_Rx\<close>: a receive ring as the requests that hold a buffer (\<open>rx_ring_ok\<close>); what a
    receive function must keep is the locale \<open>engine_user\<close>, and that it consumes a packet or
    refuses it unfreed is \<open>packet_receiver\<close>, which gives what a round of the loop does.
  \<^item> \<open>Ports\<close>: \<open>t7xx_port_proxy.c\<close>, \<open>t7xx_port_ctrl_msg.c\<close>, \<open>t7xx_port_wwan.c\<close>, \<open>t7xx_port_trace.c\<close>.
    \<open>Port_Props\<close>: what a port sends, which port a packet is for, what an enumeration message
    does. \<open>Port_Rx\<close>: the interpretation of \<open>engine_user\<close> and \<open>packet_receiver\<close> by the port proxy.
  \<^item> \<open>Modem\<close>: \<open>t7xx_modem_ops.c\<close>: interrupts, device reset, exceptions, the handshake.
    \<open>Modem_Props\<close>: the answer to a feature query is what a reference function of it gives, and
    what the parser of the modem's answer finds and reads.
  \<^item> \<open>Fsm_Machine\<close>: the thread of \<open>t7xx_state_monitor.c\<close>, a definition per routine; the functions
    of registered notifiers and what other threads do during a wait are parameters.
    \<open>Fsm_Frame\<close>: the locales \<open>blind_to_engines\<close> and \<open>blind_to_work\<close>, observations of the state
    that no operation of the engines, the ports or the state machine changes. \<open>Fsm_Props\<close>
    interprets them by the state of the machine and by the cores, and gives the table of
    transitions (\<open>fsm_next\<close>) and what it takes to be ready.

  \<^item> \<open>Dpmaif_Rx\<close>: all of \<open>t7xx_hif_dpmaif_rx.c\<close>: the buffer tables, the ring of entries, packets
    from entries, the poll. \<open>Dpmaif_Hif\<close>: all of \<open>t7xx_hif_dpmaif.c\<close>, what \<open>t7xx_netdev.c\<close> does at
    changes of the modem's state, and the initialisation and exit of the modem
    (\<open>t7xx_md_init\<close>, \<open>t7xx_md_exit\<close>).
  \<^item> \<open>Pci_Pm\<close>: the rest of \<open>t7xx_pci.c\<close>: suspend, resume, sysfs, interrupts, probe and remove.
  \<^item> \<open>Data_Frame\<close>: the locales \<open>blind_to_data\<close> and \<open>blind_to_network\<close>, observations of the state
    that the data path and the network layer do not change, interpreted by the PCI device, the
    answers of the kernel, the state machine and the cores.
  \<^item> \<open>Pm_Props\<close>: resume does what a table over the state the device reports says
    (\<open>resume_table\<close>, \<open>handshake_table\<close>), what a suspend leaves, and a bound on the number of
    times a resume probes the device anew. \<open>Net_Props\<close>: the data path runs exactly while the
    modem does. \<open>Dpmaif_Rx_Props\<close>: the budget and the sleep lock of a poll.
  \<^item> \<open>Rx_Table\<close>: the table of receive buffers. The slots with the device are a window of the ring
    (\<open>with_device\<close>), and \<open>table_ok\<close> ties the bitmap to it, under every sequence of packets, refills,
    starts and stops (\<open>rx_table_step\<close>); what a refill that fails does to it.

  \<^bold>\<open>Bounds and fuel.\<close> Polls take the number of reads from the kernel and so always end; the two
  waits for an idle data path count to \<open>DPMAIF_MAX_CHECK_COUNT\<close> as the code does. The push
  thread, the receive loop of CLDMA and the wait for room in a CLDMA queue run as long as the
  kernel and the device let them, so \<open>hw_push_loop\<close>, \<open>t7xx_cldma_gpd_rx_from_q\<close> and \<open>send_loop\<close>
  have fuel and \<open>None\<close> for running out. \<open>tx_collect_loop\<close> has fuel too; \<open>Suc n\<close> is enough for a
  ring of \<open>n\<close> requests (\<open>tx_collect_enough\<close>). \<open>fastboot_loop\<close> has a round per byte of the packet;
  the thread of a control port, \<open>port_ctl_rx_thread\<close>, runs until it is stopped, like
  \<open>fsm_main_thread\<close> and \<open>hk_loop\<close>, the wait for the handshake answer. \<open>wait_ex_loop\<close> looks as
  often as the code does, 500 times. \<open>poll_rounds\<close> has a round per packet of the budget, because
  a round that goes on has received one. Ring sizes are positive and below \<open>2 ^ 31\<close> (\<open>ring_size\<close>), because the code takes index
  differences as signed 32-bit numbers; \<open>DPMAIF_DRB_LIST_LEN\<close> is 6144.

  \<^bold>\<open>Not modelled.\<close> Locks, memory barriers and the concurrency they order: a function holds its
  lock over its effect on the protected state, and interleavings are sequences of functions.
  Messages to the kernel log. An entry of the PIT ring is read once, after its sequence number
  is right; the code reads its words where it needs them. The flags that \<open>t7xx_ccmni_wwan_setup\<close>
  puts into a net device, the callbacks of the relay channel, the tables of the kernel module,
  the installation scripts.
\<close>

end
